(* ===== verification/Chaop_Prelude.thy ===== *)
theory Chaop_Prelude
  imports Main "HOL-Library.State_Monad" "HOL-Library.Word" "HOL-Library.Code_Target_Nat"
begin

text \<open>
  Shared ground of the development: the collections of hints the component theories add to,
  the integer widths and saturating operations of the Rust code, time (a monotonic clock in
  nanoseconds, with the range of \<open>std::time::Instant\<close>), and the combinators of the
  state-and-error monad in which the effectful code is written. Rust's \<open>?\<close> operator
  is \<open>tryE\<close>; a loop that may not end takes fuel and answers \<open>None\<close> when it runs out.
\<close>

subsection \<open>Hint collections\<close>

named_theorems io_simps \<open>unfolding rules of the effect primitives\<close>
named_theorems rel_intros \<open>closure rules for relations between the states of an effect\<close>

subsection \<open>Integers of fixed width\<close>

definition u16_max :: nat where "u16_max = 65535"
definition u32_max :: nat where "u32_max = 4294967295"
definition u64_max :: nat where "u64_max = 18446744073709551615"
definition i64_max :: int where "i64_max = 9223372036854775807"
definition i64_min :: int where "i64_min = -9223372036854775808"

text \<open>\<open>saturating_add\<close> and \<open>saturating_mul\<close> stop at the top of the type; \<open>usize\<close> is 64 bits wide.\<close>

definition sat_add :: "nat \<Rightarrow> nat \<Rightarrow> nat \<Rightarrow> nat" where
  "sat_add m a b = min m (a + b)"

definition sat_mul :: "nat \<Rightarrow> nat \<Rightarrow> nat \<Rightarrow> nat" where
  "sat_mul m a b = min m (a * b)"

definition clamp :: "nat \<Rightarrow> nat \<Rightarrow> nat \<Rightarrow> nat" where
  "clamp lo hi x = (if x < lo then lo else if hi < x then hi else x)"

lemma sat_add_le [simp]: "sat_add m a b \<le> m"
  by (simp add: sat_add_def)

lemma sat_add_mono: "a \<le> m \<Longrightarrow> a \<le> sat_add m a b"
  by (simp add: sat_add_def)

lemma sat_add_exact: "a + b \<le> m \<Longrightarrow> sat_add m a b = a + b"
  by (simp add: sat_add_def)

lemma clamp_bounds: "lo \<le> hi \<Longrightarrow> lo \<le> clamp lo hi x \<and> clamp lo hi x \<le> hi"
  by (simp add: clamp_def)

subsection \<open>Time\<close>

text \<open>
  Durations and instants are nanoseconds. An \<open>Instant\<close> holds its seconds in an \<open>i64\<close>:
  \<open>checked_add\<close> answers \<open>None\<close> past that range and \<open>+\<close> panics there.
  \<open>saturating_duration_since\<close> is the truncating subtraction of \<open>nat\<close>.
\<close>

type_synonym instant = nat
type_synonym duration = nat

definition secs :: "nat \<Rightarrow> duration" where "secs n = n * 1000000000"
definition millis :: "nat \<Rightarrow> duration" where "millis n = n * 1000000"
definition instant_limit :: nat where "instant_limit = 9223372036854775808 * 1000000000"

definition instant_checked_add :: "instant \<Rightarrow> duration \<Rightarrow> instant option" where
  "instant_checked_add t d = (if t + d < instant_limit then Some (t + d) else None)"

lemma instant_checked_add_Some: "instant_checked_add t d = Some u \<longleftrightarrow> u = t + d \<and> t + d < instant_limit"
  by (auto simp: instant_checked_add_def)

lemma secs_0_iff [simp]: "secs n = 0 \<longleftrightarrow> n = 0" and secs_pos_iff [simp]: "0 < secs n \<longleftrightarrow> 0 < n"
  by (simp_all add: secs_def)

lemma secs_mono: "m \<le> n \<Longrightarrow> secs m \<le> secs n"
  by (simp add: secs_def)

subsection \<open>Effects: the state monad with errors\<close>

abbreviation ret :: "'a \<Rightarrow> ('s, 'a) state" where
  "ret \<equiv> State_Monad.return"

definition gets :: "('s \<Rightarrow> 'a) \<Rightarrow> ('s, 'a) state" where
  "gets f = State (\<lambda>s. (f s, s))"

definition modify :: "('s \<Rightarrow> 's) \<Rightarrow> ('s, unit) state" where
  "modify f = State (\<lambda>s. ((), f s))"

definition tryE :: "('s, 'e + 'a) state \<Rightarrow> ('a \<Rightarrow> ('s, 'e + 'b) state) \<Rightarrow> ('s, 'e + 'b) state" where
  "tryE m f = do { r \<leftarrow> m; (case r of Inl e \<Rightarrow> ret (Inl e) | Inr v \<Rightarrow> f v) }"

definition whenS :: "bool \<Rightarrow> ('s, unit) state \<Rightarrow> ('s, unit) state" where
  "whenS b m = (if b then m else ret ())"

text \<open>
  A loop with a state of its own: the body answers the next state (\<open>Inl\<close>) or the result
  (\<open>Inr\<close>); \<open>out\<close> is the fault of a loop that ran out of fuel.
\<close>

fun loopE :: "nat \<Rightarrow> 'e \<Rightarrow> ('b \<Rightarrow> ('s, 'e + ('b + 'a)) state) \<Rightarrow> 'b \<Rightarrow> ('s, 'e + 'a) state" where
  "loopE 0 out body b = ret (Inl out)"
| "loopE (Suc n) out body b =
     tryE (body b) (\<lambda>r. case r of Inl b' \<Rightarrow> loopE n out body b' | Inr a \<Rightarrow> ret (Inr a))"

lemma run_gets [simp]: "run_state (gets f) s = (f s, s)"
  by (simp add: gets_def)

lemma run_modify [simp]: "run_state (modify f) s = ((), f s)"
  by (simp add: modify_def)

lemma run_tryE [simp]:
  "run_state (tryE m f) s =
     (case run_state m s of (r, s') \<Rightarrow> (case r of Inl e \<Rightarrow> (Inl e, s') | Inr v \<Rightarrow> run_state (f v) s'))"
  by (auto simp: tryE_def split: prod.splits sum.splits)

lemma run_whenS [simp]: "run_state (whenS b m) s = (if b then run_state m s else ((), s))"
  by (simp add: whenS_def)

subsection \<open>Relations kept by effects\<close>

text \<open>
  A reflexive and transitive relation between the state before and the state after is kept by
  a whole program when each of its primitives keeps it. The closure rules are proved once
  here; a component interprets the locale for the relation it needs (a counter that only
  grows, a log that is only appended to, a set of fields no step writes).
\<close>

locale effect_rel =
  fixes R :: "'s \<Rightarrow> 's \<Rightarrow> bool"
  assumes R_refl: "R s s"
    and R_trans: "R s t \<Longrightarrow> R t u \<Longrightarrow> R s u"
begin

definition keeps :: "('s, 'a) state \<Rightarrow> bool" where
  "keeps m \<longleftrightarrow> (\<forall>s. R s (snd (run_state m s)))"

lemma keepsI: "(\<And>s. R s (snd (run_state m s))) \<Longrightarrow> keeps m"
  by (simp add: keeps_def)

lemma keepsD: "keeps m \<Longrightarrow> R s (snd (run_state m s))"
  by (simp add: keeps_def)

lemma keepsE: "keeps m \<Longrightarrow> run_state m s = (r, s') \<Longrightarrow> R s s'"
  by (metis keepsD snd_conv)

lemma keeps_ret: "keeps (ret x)"
  by (simp add: keeps_def R_refl)

lemma keeps_gets: "keeps (gets f)"
  by (simp add: keeps_def R_refl)

lemma keeps_modify: "(\<And>s. R s (f s)) \<Longrightarrow> keeps (modify f)"
  by (simp add: keeps_def)

lemma keeps_bind: "keeps m \<Longrightarrow> (\<And>x. keeps (f x)) \<Longrightarrow> keeps (State_Monad.bind m f)"
proof (rule keepsI)
  fix s
  assume m: "keeps m" and f: "\<And>x. keeps (f x)"
  obtain x s1 where x: "run_state m s = (x, s1)" by (cases "run_state m s")
  from keepsE [OF m x] keepsD [OF f] have "R s (snd (run_state (f x) s1))"
    by (rule R_trans)
  with x show "R s (snd (run_state (State_Monad.bind m f) s))" by simp
qed

lemma keeps_tryE: "keeps m \<Longrightarrow> (\<And>x. keeps (f x)) \<Longrightarrow> keeps (tryE m f)"
  unfolding tryE_def by (rule keeps_bind) (auto simp: keeps_ret split: sum.splits)

lemma keeps_if: "(b \<Longrightarrow> keeps m) \<Longrightarrow> (\<not> b \<Longrightarrow> keeps n) \<Longrightarrow> keeps (if b then m else n)"
  by simp

lemma keeps_when: "(b \<Longrightarrow> keeps m) \<Longrightarrow> keeps (whenS b m)"
  by (simp add: whenS_def keeps_ret)

lemma keeps_option:
  "keeps m \<Longrightarrow> (\<And>x. keeps (f x)) \<Longrightarrow> keeps (case opt of None \<Rightarrow> m | Some x \<Rightarrow> f x)"
  by (cases opt) simp_all

lemma keeps_sum:
  "(\<And>e. keeps (f e)) \<Longrightarrow> (\<And>x. keeps (g x)) \<Longrightarrow> keeps (case r of Inl e \<Rightarrow> f e | Inr x \<Rightarrow> g x)"
  by (cases r) simp_all

lemma keeps_prod: "(\<And>a b. keeps (f a b)) \<Longrightarrow> keeps (case p of (a, b) \<Rightarrow> f a b)"
  by (cases p) simp

lemma keeps_loopE: "(\<And>b. keeps (body b)) \<Longrightarrow> keeps (loopE n out body b)"
proof (induction n arbitrary: b)
  case (Suc n)
  show ?case
    unfolding loopE.simps by (intro keeps_tryE keeps_sum Suc keeps_ret)
qed (simp add: keeps_ret)

lemmas keeps_intros =
  keeps_ret keeps_gets keeps_modify keeps_bind keeps_tryE keeps_if keeps_when
  keeps_option keeps_sum keeps_prod keeps_loopE

end

text \<open>
  A loop returns when a measure falls with every round that goes on and the body itself does
  not run out of fuel.
\<close>

lemma loopE_returns:
  assumes falls: "\<And>b w b' w'. run_state (body b) w = (Inr (Inl b'), w') \<Longrightarrow> I b w \<Longrightarrow> I b' w' \<and> m b' w' < m b w"
    and body: "\<And>b w w'. run_state (body b) w = (Inl out, w') \<Longrightarrow> \<not> I b w"
  shows "I b w \<Longrightarrow> m b w < n \<Longrightarrow> run_state (loopE n out body b) w = (r, w') \<Longrightarrow> r \<noteq> Inl out"
proof (induction n arbitrary: b w)
  case (Suc n)
  obtain x w1 where x: "run_state (body b) w = (x, w1)" by fastforce
  show ?case
  proof (cases x)
    case (Inl e)
    with Suc.prems x body [of b w w1] show ?thesis by auto
  next
    case (Inr y)
    show ?thesis
    proof (cases y)
      case (Inl b')
      with x Inr have "run_state (body b) w = (Inr (Inl b'), w1)" by simp
      from falls [OF this Suc.prems(1)] have "I b' w1" "m b' w1 < n" using Suc.prems(2) by auto
      with Suc.IH [of b' w1] Suc.prems(3) x Inr Inl show ?thesis by simp
    next
      case (Inr a)
      with x \<open>x = Inr y\<close> Suc.prems(3) show ?thesis by auto
    qed
  qed
qed simp

subsection \<open>Lists and options\<close>

lemma length_dropWhile_less [termination_simp]: "length (dropWhile P xs) < Suc (length xs)"
  by (simp add: le_imp_less_Suc length_dropWhile_le)

lemma takeWhile_stop:
  "\<forall>x \<in> set xs. P x \<Longrightarrow> ys = [] \<or> \<not> P (hd ys) \<Longrightarrow> takeWhile P (xs @ ys) = xs"
  by (cases ys) simp_all

lemma dropWhile_stop:
  "\<forall>x \<in> set xs. P x \<Longrightarrow> ys = [] \<or> \<not> P (hd ys) \<Longrightarrow> dropWhile P (xs @ ys) = ys"
  by (cases ys) simp_all

lemma map_option_cong_Some: "x = Some y \<Longrightarrow> map_option f x = Some (f y)"
  by simp

fun find_map :: "('a \<Rightarrow> 'b option) \<Rightarrow> 'a list \<Rightarrow> 'b option" where
  "find_map f [] = None"
| "find_map f (x # xs) = (case f x of Some y \<Rightarrow> Some y | None \<Rightarrow> find_map f xs)"

lemma find_map_Some: "find_map f xs = Some y \<Longrightarrow> \<exists>x \<in> set xs. f x = Some y"
  by (induction xs) (auto split: option.splits)

lemma find_map_None: "find_map f xs = None \<longleftrightarrow> (\<forall>x \<in> set xs. f x = None)"
  by (induction xs) (auto split: option.splits)

text \<open>The last \<open>n\<close> elements of a list: what \<open>split_off\<close> and \<open>drain\<close> leave.\<close>

definition last_n :: "nat \<Rightarrow> 'a list \<Rightarrow> 'a list" where
  "last_n n xs = drop (length xs - n) xs"

lemma length_last_n [simp]: "length (last_n n xs) = min n (length xs)"
  by (simp add: last_n_def)

lemma last_n_all [simp]: "length xs \<le> n \<Longrightarrow> last_n n xs = xs"
  by (simp add: last_n_def)

lemma last_n_append: "n \<le> length ys \<Longrightarrow> last_n n (xs @ ys) = last_n n ys"
  by (simp add: last_n_def)

lemma set_last_n: "set (last_n n xs) \<subseteq> set xs"
  by (simp add: last_n_def set_drop_subset)

subsection \<open>Sorting and association lists\<close>

text \<open>\<open>sort_by\<close> with a comparator: stable, \<open>le x y\<close> where the comparator is not \<open>Greater\<close>.\<close>

fun insert_by :: "('a \<Rightarrow> 'a \<Rightarrow> bool) \<Rightarrow> 'a \<Rightarrow> 'a list \<Rightarrow> 'a list" where
  "insert_by le x [] = [x]"
| "insert_by le x (y # ys) = (if le x y then x # y # ys else y # insert_by le x ys)"

definition sort_by :: "('a \<Rightarrow> 'a \<Rightarrow> bool) \<Rightarrow> 'a list \<Rightarrow> 'a list" where
  "sort_by le xs = foldr (insert_by le) xs []"

text \<open>With a comparator that compares keys it is the library's sort.\<close>

lemma insert_by_key: "insert_by (\<lambda>x y. f x \<le> f y) = insort_key f"
proof (intro ext)
  show "insert_by (\<lambda>x y. f x \<le> f y) x ys = insort_key f x ys" for x ys
    by (induction ys) simp_all
qed

lemma sort_by_key: "sort_by (\<lambda>x y. f x \<le> f y) xs = sort_key f xs"
  by (simp add: sort_by_def sort_key_def insert_by_key)

lemma set_insert_by [simp]: "set (insert_by le x ys) = insert x (set ys)"
  by (induction ys) auto

lemma set_sort_by [simp]: "set (sort_by le xs) = set xs"
  by (induction xs) (auto simp: sort_by_def)

lemma length_insert_by [simp]: "length (insert_by le x ys) = Suc (length ys)"
  by (induction ys) auto

lemma length_sort_by [simp]: "length (sort_by le xs) = length xs"
  by (induction xs) (auto simp: sort_by_def)

lemma distinct_map_insert_by: "distinct (map f (insert_by le x ys)) \<longleftrightarrow> distinct (map f (x # ys))"
  by (induction ys) auto

lemma distinct_map_sort_by: "distinct (map f (sort_by le xs)) \<longleftrightarrow> distinct (map f xs)"
proof (induction xs)
  case (Cons x xs)
  have "sort_by le (x # xs) = insert_by le x (sort_by le xs)" by (simp add: sort_by_def)
  with Cons show ?case by (simp add: distinct_map_insert_by image_iff)
qed (simp add: sort_by_def)

lemma sorted_insert_by:
  assumes total: "\<And>x y. le x y \<or> le y x" and trans: "\<And>x y z. le x y \<Longrightarrow> le y z \<Longrightarrow> le x z"
  shows "sorted_wrt le ys \<Longrightarrow> sorted_wrt le (insert_by le x ys)"
proof (induction ys)
  case (Cons y ys)
  show ?case
  proof (cases "le x y")
    case True
    with Cons.prems trans show ?thesis by fastforce
  next
    case False
    with total have "le y x" by blast
    with Cons False show ?thesis by auto
  qed
qed simp

lemma sorted_sort_by:
  "(\<And>x y. le x y \<or> le y x) \<Longrightarrow> (\<And>x y z. le x y \<Longrightarrow> le y z \<Longrightarrow> le x z) \<Longrightarrow> sorted_wrt le (sort_by le xs)"
proof (induction xs)
  case (Cons x xs)
  then have "sorted_wrt le (insert_by le x (sort_by le xs))" by (intro sorted_insert_by) auto
  then show ?case by (simp add: sort_by_def)
qed (simp add: sort_by_def)

text \<open>\<open>HashMap::entry(k).or_insert(d)\<close> followed by a change of the entry.\<close>

fun entry_update :: "'k \<Rightarrow> 'v \<Rightarrow> ('v \<Rightarrow> 'v) \<Rightarrow> ('k \<times> 'v) list \<Rightarrow> ('k \<times> 'v) list" where
  "entry_update k d f [] = [(k, f d)]"
| "entry_update k d f ((k', v) # m) =
     (if k = k' then (k', f v) # m else (k', v) # entry_update k d f m)"

lemma map_of_entry_update:
  "map_of (entry_update k d f m) =
     (map_of m)(k \<mapsto> f (case map_of m k of None \<Rightarrow> d | Some v \<Rightarrow> v))"
  by (induction m) (auto simp: fun_eq_iff)

lemma fst_entry_update: "fst ` set (entry_update k d f m) = insert k (fst ` set m)"
proof (induction m)
  case (Cons e m)
  obtain k' v where "e = (k', v)" by (cases e)
  with Cons show ?case by (cases "k = k'") (simp_all add: insert_commute)
qed simp

lemma distinct_entry_update: "distinct (map fst (entry_update k d f m)) \<longleftrightarrow> distinct (map fst m)"
proof (induction m)
  case (Cons e m)
  obtain k' v where e: "e = (k', v)" by (cases e)
  have "k' \<in> fst ` set (entry_update k d f m) \<longleftrightarrow> k' = k \<or> k' \<in> fst ` set m"
    by (simp add: fst_entry_update)
  with Cons e show ?case by simp
qed simp

end
