(* ===== verification/Rust_Str.thy ===== *)
theory Rust_Str
  imports Chaop_Prelude "HOL-Library.List_Lexorder" "HOL-Library.Char_ord"
begin

text \<open>
  Rust strings. A \<open>String\<close> is its UTF-8 bytes, one \<^typ>\<open>char\<close> per byte, so \<open>len()\<close> is
  the length of the list and \<open>Ord\<close> is the lexicographic order of the library on it. The
  operations that count characters work on the groups of bytes \<open>rchars\<close> splits a string
  into: a lead byte with the continuation bytes after it. \<open>char::is_whitespace\<close> is the
  Unicode property White_Space, listed. Here too: \<open>trim\<close>, \<open>split_whitespace\<close>,
  \<open>lines\<close>, \<open>from_utf8_lossy\<close>, \<open>parse::<u16>\<close> and the formatting of numbers.
\<close>

subsection \<open>Characters\<close>

fun is_cont :: "char \<Rightarrow> bool" where
  "is_cont (Char _ _ _ _ _ _ b6 b7) = (b7 \<and> \<not> b6)"

fun rchars :: "string \<Rightarrow> string list" where
  "rchars [] = []"
| "rchars (c # cs) = (c # takeWhile is_cont cs) # rchars (dropWhile is_cont cs)"

lemma concat_rchars [simp]: "concat (rchars s) = s"
  by (induction s rule: rchars.induct) simp_all

lemma rchars_eq_Nil [simp]: "rchars s = [] \<longleftrightarrow> s = []"
  by (cases s) simp_all

definition nl :: char where "nl = CHR 0x0A"
definition cr :: char where "cr = CHR 0x0D"

definition whitespace_chars :: "string list" where
  "whitespace_chars =
     [[CHR 0x09], [CHR 0x0A], [CHR 0x0B], [CHR 0x0C], [CHR 0x0D], [CHR 0x20],
      [CHR 0xC2, CHR 0x85], [CHR 0xC2, CHR 0xA0], [CHR 0xE1, CHR 0x9A, CHR 0x80],
      [CHR 0xE2, CHR 0x80, CHR 0x80], [CHR 0xE2, CHR 0x80, CHR 0x81], [CHR 0xE2, CHR 0x80, CHR 0x82],
      [CHR 0xE2, CHR 0x80, CHR 0x83], [CHR 0xE2, CHR 0x80, CHR 0x84], [CHR 0xE2, CHR 0x80, CHR 0x85],
      [CHR 0xE2, CHR 0x80, CHR 0x86], [CHR 0xE2, CHR 0x80, CHR 0x87], [CHR 0xE2, CHR 0x80, CHR 0x88],
      [CHR 0xE2, CHR 0x80, CHR 0x89], [CHR 0xE2, CHR 0x80, CHR 0x8A], [CHR 0xE2, CHR 0x80, CHR 0xA8],
      [CHR 0xE2, CHR 0x80, CHR 0xA9], [CHR 0xE2, CHR 0x80, CHR 0xAF], [CHR 0xE2, CHR 0x81, CHR 0x9F],
      [CHR 0xE3, CHR 0x80, CHR 0x80]]"

definition is_ws :: "string \<Rightarrow> bool" where
  "is_ws g \<longleftrightarrow> g \<in> set whitespace_chars"

definition chars_count :: "string \<Rightarrow> nat" where
  "chars_count s = length (rchars s)"

definition chars_take :: "nat \<Rightarrow> string \<Rightarrow> string" where
  "chars_take n s = concat (take n (rchars s))"

lemma rchars_append: "t = [] \<or> \<not> is_cont (hd t) \<Longrightarrow> rchars (s @ t) = rchars s @ rchars t"
proof (induction s rule: rchars.induct)
  case (2 c cs)
  show ?case
  proof (cases "\<exists>x \<in> set cs. \<not> is_cont x")
    case True
    with 2 show ?thesis by (auto simp: takeWhile_append dropWhile_append)
  next
    case False
    with 2 have "takeWhile is_cont (cs @ t) = cs" "dropWhile is_cont (cs @ t) = t"
      by (cases t; auto intro: takeWhile_stop dropWhile_stop)+
    with False show ?thesis by (simp add: takeWhile_eq_all_conv [THEN iffD2] dropWhile_eq_Nil_conv [THEN iffD2])
  qed
qed simp

lemma prefix_take_concat: "\<exists>r. concat xs = concat (take n xs) @ r"
  by (metis append_take_drop_id concat_append)

lemma rchars_append_take:
  "rchars (concat (take n (rchars s))) = take n (rchars s)"
proof (induction s arbitrary: n rule: rchars.induct)
  case 1
  then show ?case by simp
next
  case (2 c cs)
  show ?case
  proof (cases n)
    case 0
    then show ?thesis by simp
  next
    case (Suc m)
    let ?g = "takeWhile is_cont cs" and ?rest = "concat (take m (rchars (dropWhile is_cont cs)))"
    have starts: "?rest = [] \<or> \<not> is_cont (hd ?rest)"
    proof (cases "dropWhile is_cont cs")
      case Nil
      then have "?rest = []" by (simp only: rchars.simps take_Nil concat.simps)
      then show ?thesis ..
    next
      case (Cons d ds)
      then have "\<not> is_cont d" using hd_dropWhile [of is_cont cs] by simp
      with Cons show ?thesis by (cases m) simp_all
    qed
    have all: "\<forall>x \<in> set ?g. is_cont x" by (auto dest: set_takeWhileD)
    have tw: "takeWhile is_cont (?g @ ?rest) = ?g"
      using all starts by (rule takeWhile_stop)
    have dw: "dropWhile is_cont (?g @ ?rest) = ?rest"
      using all starts by (rule dropWhile_stop)
    have "rchars (c # (?g @ ?rest)) = (c # ?g) # rchars ?rest"
      by (simp only: rchars.simps tw dw)
    also have "\<dots> = (c # ?g) # take m (rchars (dropWhile is_cont cs))"
      by (simp only: 2)
    finally show ?thesis by (simp add: Suc)
  qed
qed

lemma chars_count_take [simp]: "chars_count (chars_take n s) = min n (chars_count s)"
  by (simp add: chars_count_def chars_take_def rchars_append_take)

lemma chars_take_all: "chars_count s \<le> n \<Longrightarrow> chars_take n s = s"
  by (simp add: chars_count_def chars_take_def)

lemma chars_take_prefix: "\<exists>r. s = chars_take n s @ r"
  using prefix_take_concat [of "rchars s" n] by (simp add: chars_take_def)

subsection \<open>Trimming and splitting\<close>

definition trim_start :: "string \<Rightarrow> string" where
  "trim_start s = concat (dropWhile is_ws (rchars s))"

definition trim_end :: "string \<Rightarrow> string" where
  "trim_end s = concat (rev (dropWhile is_ws (rev (rchars s))))"

definition trim :: "string \<Rightarrow> string" where
  "trim s = concat (rev (dropWhile is_ws (rev (dropWhile is_ws (rchars s)))))"

text \<open>\<open>trim_start_matches\<close> and \<open>trim_end_matches\<close> of one byte.\<close>

definition trim_start_byte :: "char \<Rightarrow> string \<Rightarrow> string" where
  "trim_start_byte c s = dropWhile (\<lambda>x. x = c) s"

definition trim_end_byte :: "char \<Rightarrow> string \<Rightarrow> string" where
  "trim_end_byte c s = rev (dropWhile (\<lambda>x. x = c) (rev s))"

function group_words :: "string list \<Rightarrow> string list" where
  "group_words gs =
     (case dropWhile is_ws gs of
        [] \<Rightarrow> []
      | g # gs' \<Rightarrow> (g @ concat (takeWhile (\<lambda>x. \<not> is_ws x) gs'))
                     # group_words (dropWhile (\<lambda>x. \<not> is_ws x) gs'))"
  by pat_completeness auto
termination
proof (relation "measure length", simp)
  fix gs g gs'
  assume "dropWhile is_ws gs = g # (gs' :: string list)"
  then have "length (g # gs') \<le> length gs"
    by (metis length_dropWhile_le)
  then show "(dropWhile (\<lambda>x. \<not> is_ws x) gs', gs) \<in> measure length"
    using length_dropWhile_le [of "\<lambda>x. \<not> is_ws x" gs'] by simp
qed

declare group_words.simps [simp del]

definition split_whitespace :: "string \<Rightarrow> string list" where
  "split_whitespace s = group_words (rchars s)"

fun join_sep :: "string \<Rightarrow> string list \<Rightarrow> string" where
  "join_sep sep [] = []"
| "join_sep sep [x] = x"
| "join_sep sep (x # xs) = x @ sep @ join_sep sep xs"

text \<open>The idiom \<open>value.split_whitespace().collect::<Vec<_>>().join(" ")\<close>.\<close>

definition compact_ws :: "string \<Rightarrow> string" where
  "compact_ws s = join_sep '' '' (split_whitespace s)"

text \<open>
  The idiom \<open>chars().take(n)\<close> followed by an ellipsis where the string was longer.
\<close>

definition ellipsis :: "nat \<Rightarrow> string \<Rightarrow> string" where
  "ellipsis n s = (if chars_count s \<le> n then s else chars_take n s @ ''...'')"

lemma chars_count_dots: "chars_count (s @ ''...'') = chars_count s + 3"
  by (simp add: chars_count_def rchars_append)

lemma chars_count_ellipsis: "chars_count (ellipsis n s) \<le> n + 3"
  by (simp add: ellipsis_def chars_count_dots)

lemma group_words_Nil [simp]: "group_words [] = []"
  by (simp add: group_words.simps)

lemma group_words_words: "w \<in> set (group_words gs) \<Longrightarrow> [] \<notin> set gs \<Longrightarrow> w \<noteq> []"
proof (induction gs rule: group_words.induct)
  case (1 gs)
  show ?case
  proof (cases "dropWhile is_ws gs")
    case Nil
    with 1 show ?thesis by (simp add: group_words.simps [of gs])
  next
    case (Cons g gs')
    then have sub: "set (g # gs') \<subseteq> set gs" by (metis set_dropWhileD subsetI)
    then have "g \<noteq> []" and "[] \<notin> set (dropWhile (\<lambda>x. \<not> is_ws x) gs')"
      using "1.prems" by (auto dest: set_dropWhileD)
    with 1 Cons show ?thesis by (auto simp: group_words.simps [of gs])
  qed
qed

lemma rchars_nonempty: "[] \<notin> set (rchars s)"
  by (induction s rule: rchars.induct) simp_all

lemma group_words_empty_iff: "group_words gs = [] \<longleftrightarrow> (\<forall>g \<in> set gs. is_ws g)"
proof (cases "dropWhile is_ws gs")
  case Nil
  then have "group_words gs = []" by (simp only: group_words.simps [of gs] list.case)
  with Nil show ?thesis by (simp add: dropWhile_eq_Nil_conv)
next
  case (Cons g gs')
  then have "g \<in> set gs" "\<not> is_ws g"
    using hd_dropWhile [of is_ws gs] set_dropWhileD [of g is_ws gs] by simp_all
  with Cons show ?thesis by (auto simp: group_words.simps [of gs])
qed

lemma join_sep_eq_Nil: "[] \<notin> set ws \<Longrightarrow> join_sep sep ws = [] \<longleftrightarrow> ws = []"
  by (induction sep ws rule: join_sep.induct) auto

lemma compact_ws_empty_iff: "compact_ws s = [] \<longleftrightarrow> (\<forall>g \<in> set (rchars s). is_ws g)"
proof -
  have "[] \<notin> set (split_whitespace s)"
    using group_words_words [OF _ rchars_nonempty] by (auto simp: split_whitespace_def)
  then show ?thesis
    by (simp add: compact_ws_def join_sep_eq_Nil split_whitespace_def group_words_empty_iff)
qed

lemma concat_trim_empty_iff:
  fixes gs :: "string list"
  assumes "[] \<notin> set gs"
  shows "concat (rev (dropWhile P (rev (dropWhile P gs)))) = [] \<longleftrightarrow> (\<forall>g \<in> set gs. P g)"
proof -
  have aux: "concat (rev (dropWhile P (rev hs))) = [] \<longleftrightarrow> (\<forall>g \<in> set hs. P g)"
    if "[] \<notin> set hs" for hs :: "string list"
  proof -
    have "x \<noteq> []" if "x \<in> set (dropWhile P (rev hs))" for x
      using set_dropWhileD [OF that] \<open>[] \<notin> set hs\<close> by auto
    then have "concat (rev (dropWhile P (rev hs))) = [] \<longleftrightarrow> dropWhile P (rev hs) = []"
      by (cases "dropWhile P (rev hs)") (simp_all add: concat_eq_Nil_conv del: dropWhile_eq_Nil_conv)
    then show ?thesis by (simp add: dropWhile_eq_Nil_conv)
  qed
  have "[] \<notin> set (dropWhile P gs)" using assms by (auto dest: set_dropWhileD)
  from aux [OF this]
  have "concat (rev (dropWhile P (rev (dropWhile P gs)))) = [] \<longleftrightarrow> (\<forall>g \<in> set (dropWhile P gs). P g)" .
  also have "\<dots> \<longleftrightarrow> (\<forall>g \<in> set gs. P g)"
    by (metis dropWhile_eq_Nil_conv hd_dropWhile hd_in_set set_dropWhileD)
  finally show ?thesis .
qed

lemma trim_empty_iff: "trim s = [] \<longleftrightarrow> (\<forall>g \<in> set (rchars s). is_ws g)"
  unfolding trim_def by (rule concat_trim_empty_iff [OF rchars_nonempty])

text \<open>A string collapses to nothing exactly when \<open>trim\<close> leaves nothing of it.\<close>

lemma compact_ws_trim: "compact_ws s = [] \<longleftrightarrow> trim s = []"
  by (simp add: compact_ws_empty_iff trim_empty_iff)

subsection \<open>Prefixes, suffixes and searching\<close>

definition starts_with :: "string \<Rightarrow> string \<Rightarrow> bool" where
  "starts_with p s \<longleftrightarrow> take (length p) s = p"

definition ends_with :: "string \<Rightarrow> string \<Rightarrow> bool" where
  "ends_with p s \<longleftrightarrow> length p \<le> length s \<and> drop (length s - length p) s = p"

definition strip_prefix :: "string \<Rightarrow> string \<Rightarrow> string option" where
  "strip_prefix p s = (if starts_with p s then Some (drop (length p) s) else None)"

definition strip_suffix :: "string \<Rightarrow> string \<Rightarrow> string option" where
  "strip_suffix p s = (if ends_with p s then Some (take (length s - length p) s) else None)"

fun find_sub :: "string \<Rightarrow> string \<Rightarrow> nat option" where
  "find_sub p [] = (if p = [] then Some 0 else None)"
| "find_sub p (c # cs) =
     (if starts_with p (c # cs) then Some 0 else map_option Suc (find_sub p cs))"

fun rfind_sub :: "string \<Rightarrow> string \<Rightarrow> nat option" where
  "rfind_sub p [] = (if p = [] then Some 0 else None)"
| "rfind_sub p (c # cs) =
     (case rfind_sub p cs of
        Some i \<Rightarrow> Some (Suc i)
      | None \<Rightarrow> (if starts_with p (c # cs) then Some 0 else None))"

definition split_once :: "char \<Rightarrow> string \<Rightarrow> (string \<times> string) option" where
  "split_once c s =
     (case dropWhile (\<lambda>x. x \<noteq> c) s of [] \<Rightarrow> None | _ # r \<Rightarrow> Some (takeWhile (\<lambda>x. x \<noteq> c) s, r))"

definition rsplit_once :: "char \<Rightarrow> string \<Rightarrow> (string \<times> string) option" where
  "rsplit_once c s = map_option (\<lambda>(a, b). (rev b, rev a)) (split_once c (rev s))"

lemma rfind_sub_bound: "rfind_sub p s = Some i \<Longrightarrow> i + length p \<le> length s"
proof (induction p s arbitrary: i rule: rfind_sub.induct)
  case (2 p c cs)
  then show ?case
    by (auto simp: starts_with_def split: option.splits if_splits)
      (metis length_take min.cobounded1 length_Cons)
qed (auto split: if_splits)

definition ascii_lower :: "char \<Rightarrow> char" where
  "ascii_lower c =
     (let n = (of_char c :: nat) in if 65 \<le> n \<and> n \<le> 90 then char_of (n + 32) else c)"

definition to_ascii_lowercase :: "string \<Rightarrow> string" where
  "to_ascii_lowercase s = map ascii_lower s"

definition eq_ignore_ascii_case :: "string \<Rightarrow> string \<Rightarrow> bool" where
  "eq_ignore_ascii_case a b \<longleftrightarrow> to_ascii_lowercase a = to_ascii_lowercase b"

definition is_ascii_digit :: "char \<Rightarrow> bool" where
  "is_ascii_digit c \<longleftrightarrow> (let n = (of_char c :: nat) in 48 \<le> n \<and> n \<le> 57)"

definition replace_char :: "char \<Rightarrow> char \<Rightarrow> string \<Rightarrow> string" where
  "replace_char a b s = map (\<lambda>c. if c = a then b else c) s"


subsection \<open>Lines\<close>

fun split_inclusive :: "string \<Rightarrow> string list" where
  "split_inclusive [] = []"
| "split_inclusive (c # cs) =
     (if c = nl then [nl] # split_inclusive cs
      else (case split_inclusive cs of [] \<Rightarrow> [[c]] | l # ls \<Rightarrow> (c # l) # ls))"

definition strip_line_ending :: "string \<Rightarrow> string" where
  "strip_line_ending l =
     (case strip_suffix [nl] l of
        None \<Rightarrow> l
      | Some l1 \<Rightarrow> (case strip_suffix [cr] l1 of None \<Rightarrow> l1 | Some l2 \<Rightarrow> l2))"

definition str_lines :: "string \<Rightarrow> string list" where
  "str_lines s = map strip_line_ending (split_inclusive s)"

lemma split_inclusive_eq_Nil [simp]: "split_inclusive s = [] \<longleftrightarrow> s = []"
  by (cases s) (auto split: list.splits)

lemma split_inclusive_nl: "split_inclusive (a @ nl # b) = split_inclusive (a @ [nl]) @ split_inclusive b"
proof (induction a)
  case (Cons c cs)
  obtain l ls where "split_inclusive (cs @ [nl]) = l # ls"
    by (cases "split_inclusive (cs @ [nl])") auto
  with Cons show ?case by simp
qed simp

text \<open>A string holds at most one line more than it holds newlines, and at least that many.\<close>

lemma length_split_inclusive:
  "count_list s nl \<le> length (split_inclusive s) \<and> length (split_inclusive s) \<le> Suc (count_list s nl)"
proof (induction s)
  case (Cons c cs)
  then show ?case by (auto split: list.splits)
qed simp

lemma str_lines_nl: "str_lines (a @ nl # b) = str_lines (a @ [nl]) @ str_lines b"
  unfolding str_lines_def by (subst split_inclusive_nl) simp

subsection \<open>UTF-8 validation and lossy decoding\<close>

text \<open>
  One step of the decoder at a lead byte: how many of the bytes after it belong to the
  character, or to the broken prefix of one that is replaced by U+FFFD.
\<close>

definition utf8_second_ok :: "char \<Rightarrow> char \<Rightarrow> bool" where
  "utf8_second_ok a b =
     (let n = (of_char a :: nat); m = (of_char b :: nat)
      in (if n = 0xE0 then 0xA0 \<le> m \<and> m \<le> 0xBF
          else if n = 0xED then 0x80 \<le> m \<and> m \<le> 0x9F
          else if n = 0xF0 then 0x90 \<le> m \<and> m \<le> 0xBF
          else if n = 0xF4 then 0x80 \<le> m \<and> m \<le> 0x8F
          else is_cont b))"

definition utf8_width :: "char \<Rightarrow> nat" where
  "utf8_width a =
     (let n = (of_char a :: nat)
      in (if n < 0x80 then 1 else if n < 0xC2 then 0 else if n < 0xE0 then 2
          else if n < 0xF0 then 3 else if n < 0xF5 then 4 else 0))"

definition utf8_step :: "char \<Rightarrow> string \<Rightarrow> nat \<times> bool" where
  "utf8_step a r =
     (if utf8_width a = 1 then (0, True)
      else if utf8_width a = 0 then (0, False)
      else (case r of [] \<Rightarrow> (0, False) | b # r1 \<Rightarrow>
        if \<not> utf8_second_ok a b then (0, False)
        else if utf8_width a = 2 then (1, True)
        else (case r1 of [] \<Rightarrow> (1, False) | c # r2 \<Rightarrow>
          if \<not> is_cont c then (1, False)
          else if utf8_width a = 3 then (2, True)
          else (case r2 of [] \<Rightarrow> (2, False) | d # r3 \<Rightarrow>
            if \<not> is_cont d then (2, False) else (3, True)))))"

definition replacement_char :: string where
  "replacement_char = [CHR 0xEF, CHR 0xBF, CHR 0xBD]"

fun utf8_lossy :: "string \<Rightarrow> string" where
  "utf8_lossy [] = []"
| "utf8_lossy (a # r) =
     (case utf8_step a r of (k, ok) \<Rightarrow>
        (if ok then a # take k r else replacement_char) @ utf8_lossy (drop k r))"

fun utf8_valid :: "string \<Rightarrow> bool" where
  "utf8_valid [] = True"
| "utf8_valid (a # r) = (case utf8_step a r of (k, ok) \<Rightarrow> ok \<and> utf8_valid (drop k r))"

lemma utf8_lossy_valid: "utf8_valid s \<Longrightarrow> utf8_lossy s = s"
  by (induction s rule: utf8_lossy.induct) auto

lemma nl_not_cont [simp]: "\<not> is_cont nl"
  by (simp add: nl_def)

lemma nl_not_second [simp]: "\<not> utf8_second_ok a nl"
  by (simp add: utf8_second_ok_def nl_def Let_def)

lemma utf8_width_nl [simp]: "utf8_width nl = 1"
  by (simp add: utf8_width_def nl_def)

lemma utf8_step_nl: "utf8_step a (r @ nl # b) = utf8_step a r"
  by (auto simp: utf8_step_def Cons_eq_append_conv split: list.splits)

lemma utf8_step_bound: "fst (utf8_step a r) \<le> length r"
  by (auto simp: utf8_step_def split: list.splits)

text \<open>A newline is never part of a broken character, so decoding works line by line.\<close>

lemma utf8_lossy_nl: "utf8_lossy (a @ nl # b) = utf8_lossy a @ nl # utf8_lossy b"
proof (induction a rule: utf8_lossy.induct)
  case 1
  then show ?case by (simp add: utf8_step_def)
next
  case (2 x r)
  obtain k ok where k: "utf8_step x r = (k, ok)" by (cases "utf8_step x r")
  then have "k \<le> length r" using utf8_step_bound [of x r] by simp
  with 2 k show ?case by (simp add: utf8_step_nl)
qed

subsection \<open>Numbers as text\<close>

fun show_nat :: "nat \<Rightarrow> string" where
  "show_nat n = (if n < 10 then [char_of (48 + n)] else show_nat (n div 10) @ [char_of (48 + n mod 10)])"

declare show_nat.simps [simp del]

definition hex_digit :: "nat \<Rightarrow> char" where
  "hex_digit d = char_of (if d < 10 then 48 + d else 87 + d)"

fun show_hex :: "nat \<Rightarrow> string" where
  "show_hex n = (if n < 16 then [hex_digit n] else show_hex (n div 16) @ [hex_digit (n mod 16)])"

declare show_hex.simps [simp del]

definition zero_pad :: "nat \<Rightarrow> string \<Rightarrow> string" where
  "zero_pad w s = replicate (w - length s) (CHR ''0'') @ s"

definition show_int :: "int \<Rightarrow> string" where
  "show_int i = (if i < 0 then CHR ''-'' # show_nat (nat (- i)) else show_nat (nat i))"

definition digits_value :: "string \<Rightarrow> nat" where
  "digits_value s = foldl (\<lambda>v c. 10 * v + (of_char c - 48)) 0 s"

text \<open>\<open>str::parse\<close> of an unsigned integer with the given largest value: one leading \<open>+\<close> is accepted.\<close>

definition parse_uint :: "nat \<Rightarrow> string \<Rightarrow> nat option" where
  "parse_uint m s =
     (let d = (case s of c # r \<Rightarrow> (if c = CHR ''+'' then r else s) | [] \<Rightarrow> s)
      in (if d = [] \<or> \<not> list_all is_ascii_digit d \<or> m < digits_value d then None
          else Some (digits_value d)))"

lemma parse_uint_bound: "parse_uint m s = Some n \<Longrightarrow> n \<le> m"
  by (auto simp: parse_uint_def Let_def split: if_splits)

lemma is_ascii_digit_char_of: "d < 10 \<Longrightarrow> is_ascii_digit (char_of (48 + d :: nat))"
  by (simp add: is_ascii_digit_def of_char_of Let_def)

lemma length_show_nat: "0 < k \<Longrightarrow> n < 10 ^ k \<Longrightarrow> length (show_nat n) \<le> k"
proof (induction n arbitrary: k rule: show_nat.induct)
  case (1 n)
  show ?case
  proof (cases "n < 10")
    case True
    with 1 show ?thesis by (simp add: show_nat.simps [of n])
  next
    case False
    from "1.prems" obtain j where k: "k = Suc j" by (cases k) auto
    with "1.prems" False have "0 < j" by (cases j) auto
    with k have j: "k = Suc j" "0 < j" by simp_all
    with "1.prems" have "n div 10 < 10 ^ j" by (simp add: less_mult_imp_div_less mult.commute)
    with 1 False j show ?thesis by (simp add: show_nat.simps [of n])
  qed
qed

lemma digits_value_append: "digits_value (s @ [c]) = 10 * digits_value s + (of_char c - 48)"
  by (simp add: digits_value_def)

lemma show_nat_digits: "list_all is_ascii_digit (show_nat n) \<and> show_nat n \<noteq> [] \<and> digits_value (show_nat n) = n"
proof (induction n rule: show_nat.induct)
  case (1 n)
  show ?case
  proof (cases "n < 10")
    case True
    then show ?thesis
      by (simp add: show_nat.simps [of n] is_ascii_digit_char_of digits_value_def of_char_of)
  next
    case False
    with 1 show ?thesis
      by (simp add: show_nat.simps [of n] is_ascii_digit_char_of digits_value_append of_char_of)
  qed
qed

text \<open>Formatting a number and parsing it again gives it back, within the type's range.\<close>

lemma parse_show_nat: "n \<le> m \<Longrightarrow> parse_uint m (show_nat n) = Some n"
proof -
  assume "n \<le> m"
  have "\<not> is_ascii_digit (CHR ''+'')" by (simp add: is_ascii_digit_def)
  moreover obtain c r where "show_nat n = c # r"
    using show_nat_digits [of n] by (cases "show_nat n") auto
  ultimately show ?thesis
    using show_nat_digits [of n] \<open>n \<le> m\<close> by (auto simp: parse_uint_def Let_def)
qed

end
