(* ===== verification/Json_Value.thy ===== *)
theory Json_Value
  imports Rust_Str Complex_Main
begin

text \<open>
  \<open>serde_json::Value\<close> as the code uses it: the enum, the accessors (\<open>get\<close>, \<open>as_str\<close>,
  \<open>as_i64\<close>, ...), the object map (a \<open>BTreeMap\<close>: the \<open>preserve_order\<close> feature is
  off in \<open>Cargo.lock\<close>, so keys are unique and sorted) and the \<open>json!\<close> macro on an object.
  An \<open>f64\<close> is the rational number it denotes. Text is only produced and read by
  \<open>serde_json\<close> itself, so printing and parsing are parameters (a \<open>serde\<close> record, with the
  text of the error a failed conversion of a value to a type reports).
\<close>

datatype number = PosInt nat | NegInt int | Float rat

datatype json =
    JNull
  | JBool bool
  | JNum number
  | JStr string
  | JArr "json list"
  | JObj "(string \<times> json) list"

record serde =
  js_print :: "json \<Rightarrow> string"
  js_parse :: "string \<Rightarrow> string + json"
  js_type_error :: "json \<Rightarrow> string"

subsection \<open>Objects\<close>

fun obj_insert :: "string \<Rightarrow> json \<Rightarrow> (string \<times> json) list \<Rightarrow> (string \<times> json) list" where
  "obj_insert k v [] = [(k, v)]"
| "obj_insert k v ((k', v') # m) =
     (if k = k' then (k, v) # m
      else if k < k' then (k, v) # (k', v') # m
      else (k', v') # obj_insert k v m)"

definition obj_remove :: "string \<Rightarrow> (string \<times> json) list \<Rightarrow> (string \<times> json) list" where
  "obj_remove k m = filter (\<lambda>(k', _). k' \<noteq> k) m"

definition obj_of :: "(string \<times> json) list \<Rightarrow> (string \<times> json) list" where
  "obj_of kvs = fold (\<lambda>(k, v). obj_insert k v) kvs []"

definition jobj :: "(string \<times> json) list \<Rightarrow> json" where
  "jobj kvs = JObj (obj_of kvs)"

definition obj_sorted :: "(string \<times> json) list \<Rightarrow> bool" where
  "obj_sorted m \<longleftrightarrow> sorted_wrt (<) (map fst m)"

lemma map_of_obj_insert: "map_of (obj_insert k v m) = (map_of m)(k \<mapsto> v)"
  by (induction m) (auto simp: fun_eq_iff)

lemma map_of_obj_remove: "map_of (obj_remove k m) = (map_of m)(k := None)"
  by (induction m) (auto simp: obj_remove_def fun_eq_iff)

lemma fst_obj_insert: "fst ` set (obj_insert k v m) = insert k (fst ` set m)"
  by (metis dom_fun_upd dom_map_of_conv_image_fst map_of_obj_insert option.distinct(1))

lemma obj_insert_sorted: "obj_sorted m \<Longrightarrow> obj_sorted (obj_insert k v m)"
proof (induction m)
  case (Cons e m)
  obtain k' v' where e: "e = (k', v')" by (cases e)
  have sorted: "obj_sorted m" and above: "\<forall>x \<in> fst ` set m. k' < x"
    using Cons.prems e by (auto simp: obj_sorted_def)
  consider "k = k'" | "k < k'" | "k' < k" by (rule linorder_cases)
  then show ?case
  proof cases
    case 1
    with Cons.prems e show ?thesis by (simp add: obj_sorted_def)
  next
    case 2
    with sorted above e show ?thesis by (fastforce simp: obj_sorted_def)
  next
    case 3
    have "\<forall>x \<in> fst ` set (obj_insert k v m). k' < x"
      using above 3 by (simp add: fst_obj_insert)
    with 3 Cons.IH [OF sorted] e show ?thesis by (auto simp: obj_sorted_def)
  qed
qed (simp add: obj_sorted_def)

lemma obj_remove_sorted: "obj_sorted m \<Longrightarrow> obj_sorted (obj_remove k m)"
  unfolding obj_sorted_def obj_remove_def
  by (induction m) (auto split: if_splits)

lemma obj_of_fold: "map_of (fold (\<lambda>(k, v). obj_insert k v) kvs m) = map_of m ++ map_of (rev kvs)"
  by (induction kvs arbitrary: m) (auto simp: map_of_obj_insert map_add_def fun_eq_iff split: option.splits)

lemma map_of_obj_of: "map_of (obj_of kvs) = map_of (rev kvs)"
  by (simp add: obj_of_def obj_of_fold)

lemma obj_of_sorted: "obj_sorted (obj_of kvs)"
proof -
  have "obj_sorted m \<Longrightarrow> obj_sorted (fold (\<lambda>(k, v). obj_insert k v) kvs m)" for m
    by (induction kvs arbitrary: m) (auto simp: obj_insert_sorted)
  then show ?thesis by (simp add: obj_of_def obj_sorted_def)
qed

text \<open>Two sorted objects with the same lookups are the same object.\<close>

lemma obj_sorted_distinct: "obj_sorted m \<Longrightarrow> distinct (map fst m)"
  unfolding obj_sorted_def by (induction m) auto

lemma obj_sorted_eqI:
  "obj_sorted m \<Longrightarrow> obj_sorted n \<Longrightarrow> map_of m = map_of n \<Longrightarrow> m = n"
proof (induction m arbitrary: n)
  case Nil
  then show ?case by (metis map_of_eq_empty_iff)
next
  case (Cons e m)
  obtain k v where e: "e = (k, v)" by (cases e)
  from Cons.prems(3) e have "n \<noteq> []" by (metis map_of_eq_empty_iff list.distinct(1))
  then obtain k' v' n' where n: "n = (k', v') # n'" by (metis list.exhaust surj_pair)
  have km: "\<forall>x \<in> fst ` set m. k < x" and kn: "\<forall>x \<in> fst ` set n'. k' < x"
    using Cons.prems(1,2) e n by (auto simp: obj_sorted_def)
  have dom: "insert k (fst ` set m) = insert k' (fst ` set n')"
    using Cons.prems(3) e n dom_map_of_conv_image_fst [of "e # m"] dom_map_of_conv_image_fst [of n]
    by (metis fst_conv image_insert list.simps(15))
  have "k = k'"
    using dom km kn by (metis insert_iff less_asym)
  moreover have "v = v'"
    using Cons.prems(3) e n \<open>k = k'\<close> by (auto dest: fun_cong [of _ _ k])
  moreover have "map_of m = map_of n'"
  proof
    fix x
    have "map_of m k = None" and "map_of n' k = None"
      using km kn \<open>k = k'\<close> by (auto simp: map_of_eq_None_iff)
    then show "map_of m x = map_of n' x"
      using fun_cong [OF Cons.prems(3), of x] e n \<open>k = k'\<close> by (cases "x = k") auto
  qed
  ultimately show ?case
    using Cons.IH [of n'] Cons.prems e n by (simp add: obj_sorted_def)
qed

subsection \<open>Accessors\<close>

definition jget :: "json \<Rightarrow> string \<Rightarrow> json option" where
  "jget v k = (case v of JObj m \<Rightarrow> map_of m k | _ \<Rightarrow> None)"

definition as_str :: "json \<Rightarrow> string option" where
  "as_str v = (case v of JStr s \<Rightarrow> Some s | _ \<Rightarrow> None)"

definition as_bool :: "json \<Rightarrow> bool option" where
  "as_bool v = (case v of JBool b \<Rightarrow> Some b | _ \<Rightarrow> None)"

definition as_array :: "json \<Rightarrow> json list option" where
  "as_array v = (case v of JArr xs \<Rightarrow> Some xs | _ \<Rightarrow> None)"

definition as_object :: "json \<Rightarrow> (string \<times> json) list option" where
  "as_object v = (case v of JObj m \<Rightarrow> Some m | _ \<Rightarrow> None)"

definition as_i64 :: "json \<Rightarrow> int option" where
  "as_i64 v =
     (case v of
        JNum (PosInt n) \<Rightarrow> (if int n \<le> i64_max then Some (int n) else None)
      | JNum (NegInt i) \<Rightarrow> Some i
      | _ \<Rightarrow> None)"

definition as_u64 :: "json \<Rightarrow> nat option" where
  "as_u64 v = (case v of JNum (PosInt n) \<Rightarrow> Some n | _ \<Rightarrow> None)"

text \<open>
  \<open>as_f64\<close>: an integer is converted to the nearest \<open>f64\<close>. The code only uses the floor of
  the result, cast with saturation to \<open>i64\<close>, and only where the two integer accessors have
  failed, that is for a \<open>u64\<close> above \<open>i64::MAX\<close> (where every rounding saturates) or a float.
\<close>

definition as_f64 :: "json \<Rightarrow> rat option" where
  "as_f64 v =
     (case v of
        JNum (PosInt n) \<Rightarrow> Some (of_nat n)
      | JNum (NegInt i) \<Rightarrow> Some (of_int i)
      | JNum (Float q) \<Rightarrow> Some q
      | _ \<Rightarrow> None)"

definition is_null :: "json \<Rightarrow> bool" where "is_null v \<longleftrightarrow> v = JNull"
definition is_object :: "json \<Rightarrow> bool" where "is_object v \<longleftrightarrow> as_object v \<noteq> None"

definition is_i64 :: "number \<Rightarrow> bool" where
  "is_i64 n = (case n of PosInt k \<Rightarrow> int k \<le> i64_max | NegInt _ \<Rightarrow> True | Float _ \<Rightarrow> False)"

definition is_u64 :: "number \<Rightarrow> bool" where
  "is_u64 n = (case n of PosInt _ \<Rightarrow> True | _ \<Rightarrow> False)"

text \<open>The chains \<open>value.get(k).and_then(Value::as_str)\<close> and their kin.\<close>

definition jget_str :: "json \<Rightarrow> string \<Rightarrow> string option" where
  "jget_str v k = Option.bind (jget v k) as_str"

definition jget_bool :: "json \<Rightarrow> string \<Rightarrow> bool option" where
  "jget_bool v k = Option.bind (jget v k) as_bool"

definition jget_array :: "json \<Rightarrow> string \<Rightarrow> json list option" where
  "jget_array v k = Option.bind (jget v k) as_array"

definition jget2 :: "json \<Rightarrow> string \<Rightarrow> string \<Rightarrow> json option" where
  "jget2 v k l = Option.bind (jget v k) (\<lambda>x. jget x l)"

definition nonblank :: "string \<Rightarrow> bool" where
  "nonblank s \<longleftrightarrow> trim s \<noteq> []"

definition filter_nonblank :: "string option \<Rightarrow> string option" where
  "filter_nonblank o' = (case o' of Some s \<Rightarrow> (if nonblank s then Some s else None) | None \<Rightarrow> None)"

lemma jget_jobj [simp]: "jget (jobj kvs) k = map_of (rev kvs) k"
  by (simp add: jget_def jobj_def map_of_obj_of)

lemma as_str_simps [simp]:
  "as_str (JStr s) = Some s" "as_str JNull = None" "as_str (JBool b) = None" "as_str (JNum n) = None"
  "as_str (JArr xs) = None" "as_str (JObj m) = None" "as_str (jobj kvs) = None"
  by (simp_all add: as_str_def jobj_def)

lemma as_str_Some [simp]: "as_str v = Some s \<longleftrightarrow> v = JStr s"
  by (cases v) (simp_all add: as_str_def)

lemma as_bool_Some [simp]: "as_bool v = Some b \<longleftrightarrow> v = JBool b"
  by (cases v) (simp_all add: as_bool_def)

lemma as_array_Some [simp]: "as_array v = Some xs \<longleftrightarrow> v = JArr xs"
  by (cases v) (simp_all add: as_array_def)

lemma as_object_Some [simp]: "as_object v = Some m \<longleftrightarrow> v = JObj m"
  by (cases v) (simp_all add: as_object_def)

lemma as_array_simps [simp]: "as_array (JArr xs) = Some xs" "as_array (jobj kvs) = None"
  by (simp_all add: as_array_def jobj_def)

lemma jobj_inj_lookup: "jobj kvs = jobj kvs' \<Longrightarrow> map_of (rev kvs) = map_of (rev kvs')"
  by (metis jget_jobj ext)

lemma filter_nonblank_Some: "filter_nonblank o' = Some s \<longleftrightarrow> o' = Some s \<and> nonblank s"
  by (auto simp: filter_nonblank_def split: option.splits)

subsection \<open>Assignment through an index\<close>

text \<open>
  \<open>value[k1][k2] = x\<close> on an object: \<open>IndexMut\<close> inserts a missing key, turns \<open>Null\<close> into an
  object and panics (\<open>None\<close>) on any other value.
\<close>

definition jset :: "json \<Rightarrow> string \<Rightarrow> json \<Rightarrow> json option" where
  "jset v k x =
     (case v of JObj m \<Rightarrow> Some (JObj (obj_insert k x m)) | JNull \<Rightarrow> Some (JObj [(k, x)]) | _ \<Rightarrow> None)"

definition jset2 :: "json \<Rightarrow> string \<Rightarrow> string \<Rightarrow> json \<Rightarrow> json option" where
  "jset2 v k l x =
     Option.bind (case v of JObj m \<Rightarrow> Some (case map_of m k of Some y \<Rightarrow> y | None \<Rightarrow> JNull)
                          | JNull \<Rightarrow> Some JNull | _ \<Rightarrow> None)
       (\<lambda>inner. Option.bind (jset inner l x) (jset v k))"

lemma jget_jset: "jset v k x = Some w \<Longrightarrow> jget w k = Some x"
  by (auto simp: jset_def jget_def map_of_obj_insert split: json.splits)

lemma jget_jset_other: "jset v k x = Some w \<Longrightarrow> k' \<noteq> k \<Longrightarrow> jget w k' = jget v k'"
  by (auto simp: jset_def jget_def map_of_obj_insert split: json.splits)


subsection \<open>Derived conversions\<close>

text \<open>
  What \<open>#[derive(Deserialize)]\<close> reads for a struct: an object with its fields (unknown keys are
  ignored) or an array of exactly its fields. A field that is not there is \<open>None\<close>.
\<close>

definition struct_fields :: "string list \<Rightarrow> json \<Rightarrow> json option list option" where
  "struct_fields names v =
     (case v of
        JObj m \<Rightarrow> Some (map (map_of m) names)
      | JArr xs \<Rightarrow> (if length xs = length names then Some (map Some xs) else None)
      | _ \<Rightarrow> None)"

text \<open>A required field; an optional one, where \<open>null\<close> and nothing are \<open>None\<close>; one with a default.\<close>

definition required :: "(json \<Rightarrow> 'a option) \<Rightarrow> json option \<Rightarrow> 'a option" where
  "required f x = Option.bind x f"

definition optional :: "(json \<Rightarrow> 'a option) \<Rightarrow> json option \<Rightarrow> 'a option option" where
  "optional f x =
     (case x of None \<Rightarrow> Some None | Some v \<Rightarrow> (if v = JNull then Some None else map_option Some (f v)))"

definition defaulted :: "'a \<Rightarrow> (json \<Rightarrow> 'a option) \<Rightarrow> json option \<Rightarrow> 'a option" where
  "defaulted d f x = (case x of None \<Rightarrow> Some d | Some v \<Rightarrow> f v)"

text \<open>\<open>serde_json::from_value\<close>: the conversion, or its error.\<close>

definition from_value :: "('z serde_scheme) \<Rightarrow> (json \<Rightarrow> 'a option) \<Rightarrow> json \<Rightarrow> string + 'a" where
  "from_value sd f v = (case f v of Some x \<Rightarrow> Inr x | None \<Rightarrow> Inl (js_type_error sd v))"

text \<open>An entry of an object that is left out when the value is \<open>None\<close>.\<close>

definition opt_entry :: "string \<Rightarrow> ('a \<Rightarrow> json) \<Rightarrow> 'a option \<Rightarrow> (string \<times> json) list" where
  "opt_entry k f x = (case x of None \<Rightarrow> [] | Some y \<Rightarrow> [(k, f y)])"

lemma opt_entry_simps [simp]: "opt_entry k f None = []" "opt_entry k f (Some y) = [(k, f y)]"
  by (simp_all add: opt_entry_def)

lemma opt_entry_rev [simp]: "rev (opt_entry k f x) = opt_entry k f x"
  by (cases x) simp_all

lemma map_of_opt_entry: "map_of (opt_entry k f x) k' = (if k' = k then map_option f x else None)"
  by (cases x) simp_all

lemma optional_missing [simp]: "optional f None = Some None" and optional_null [simp]: "optional f (Some JNull) = Some None"
  by (simp_all add: optional_def)

subsection \<open>Exact text\<close>

text \<open>
  Printing and parsing is exact on values without floats: what \<open>serde_json\<close> documents.
\<close>

fun no_floats :: "json \<Rightarrow> bool" where
  "no_floats (JNum (Float _)) = False"
| "no_floats (JArr xs) = (\<forall>x \<in> set xs. no_floats x)"
| "no_floats (JObj m) = (\<forall>e \<in> set m. no_floats (snd e))"
| "no_floats _ = True"

lemma no_floats_insert: "no_floats v \<Longrightarrow> \<forall>e \<in> set m. no_floats (snd e) \<Longrightarrow> \<forall>e \<in> set (obj_insert k v m). no_floats (snd e)"
  by (induction k v m rule: obj_insert.induct) auto

lemma no_floats_jobj: "\<forall>e \<in> set kvs. no_floats (snd e) \<Longrightarrow> no_floats (jobj kvs)"
proof -
  have "\<forall>e \<in> set kvs. no_floats (snd e) \<Longrightarrow> \<forall>e \<in> set m. no_floats (snd e) \<Longrightarrow>
      \<forall>e \<in> set (fold (\<lambda>(k, v). obj_insert k v) kvs m). no_floats (snd e)" for m
  proof (induction kvs arbitrary: m)
    case (Cons kv kvs)
    obtain k v where "kv = (k, v)" by (cases kv)
    with Cons.prems Cons.IH [of "obj_insert k v m"] no_floats_insert [of v m k] show ?case by simp
  qed simp
  from this [of "[]"] show "\<forall>e \<in> set kvs. no_floats (snd e) \<Longrightarrow> no_floats (jobj kvs)"
    by (simp add: jobj_def obj_of_def)
qed

definition exact_text :: "('a serde_scheme) \<Rightarrow> bool" where
  "exact_text sd \<longleftrightarrow> (\<forall>v. no_floats v \<longrightarrow> js_parse sd (js_print sd v) = Inr v)"

end
