(* ===== verification/Session_Types.thy ===== *)
theory Session_Types
  imports Json_Value
begin

text \<open>
  The data the connector and the session inventory share: events, the host session report and
  backfill (\<open>session_inventory.rs\<close>, \<open>placeholder.rs\<close>) with the JSON their \<open>Serialize\<close>
  implementations make, and the messages of the control plane with what their \<open>Deserialize\<close>
  implementations read (\<open>connector.rs\<close>).
\<close>

subsection \<open>Events and reports\<close>

record connector_event =
  ev_kind :: string
  ev_priority :: string
  ev_summary :: string
  ev_payload :: "json option"

definition plain_event :: "string \<Rightarrow> string \<Rightarrow> string \<Rightarrow> connector_event" where
  "plain_event kind priority summary =
     \<lparr> ev_kind = kind, ev_priority = priority, ev_summary = summary, ev_payload = None \<rparr>"

definition placeholder_event_stream :: "string \<Rightarrow> connector_event list" where
  "placeholder_event_stream prompt =
     [plain_event ''command.accepted'' ''P1'' (''Accepted placeholder command: '' @ trim prompt),
      plain_event ''command.started'' ''P1'' ''Connector acquired the placeholder lease.'',
      plain_event ''command.output'' ''P2'' ''Summary stream is current; full log detail is deferred.'',
      plain_event ''command.finished'' ''P1'' ''Placeholder command completed successfully.'']"

text \<open>
  The events a worker hands back: outputs, then one event that ends the command. Each is plain:
  it has no payload and one of the three priorities the workers give.
\<close>

definition is_plain :: "connector_event \<Rightarrow> bool" where
  "is_plain e \<longleftrightarrow> ev_priority e \<in> {''P1'', ''P2'', ''P3''} \<and> ev_payload e = None"

definition is_output :: "connector_event \<Rightarrow> bool" where
  "is_output e \<longleftrightarrow> ev_kind e = ''command.output'' \<and> is_plain e"

definition is_end :: "connector_event \<Rightarrow> bool" where
  "is_end e \<longleftrightarrow> ev_kind e \<in> {''command.finished'', ''command.failed''} \<and> is_plain e"

definition well_ended :: "connector_event list \<Rightarrow> bool" where
  "well_ended es \<longleftrightarrow> es \<noteq> [] \<and> is_end (last es) \<and> (\<forall>e \<in> set (butlast es). is_output e)"

lemma ev_kind_plain [simp]: "ev_kind (plain_event k p s) = k"
  and is_plain_event [simp]: "is_plain (plain_event k p s) \<longleftrightarrow> p \<in> {''P1'', ''P2'', ''P3''}"
  by (simp_all add: plain_event_def is_plain_def)

lemma well_ended_snoc: "is_end e \<Longrightarrow> (\<forall>x \<in> set es. is_output x) \<Longrightarrow> well_ended (es @ [e])"
  by (simp add: well_ended_def)

lemma well_ended_one: "is_end e \<Longrightarrow> well_ended [e]"
  by (simp add: well_ended_def)

datatype inventory_scope = Full | Incremental
datatype title_source = TitleMetadata | TitleAppServer | TitleHistory | TitleFallback

record agent_host_session =
  hs_session_id :: string
  hs_title :: string
  hs_title_source :: title_source
  hs_app_server_present :: bool
  hs_cwd :: "string option"
  hs_updated_at :: string

record agent_host_sessions_report =
  hr_sessions :: "agent_host_session list"
  hr_inventory_scope :: inventory_scope
  hr_app_server_inventory_ok :: "bool option"

record agent_backfill_event =
  be_kind :: string
  be_priority :: string
  be_summary :: string
  be_idempotency_key :: string
  be_created_at :: string

record host_session_backfill =
  hb_events :: "agent_backfill_event list"
  hb_truncated :: bool

fun scope_json :: "inventory_scope \<Rightarrow> json" where
  "scope_json Full = JStr ''full''"
| "scope_json Incremental = JStr ''incremental''"

fun title_source_json :: "title_source \<Rightarrow> json" where
  "title_source_json TitleMetadata = JStr ''metadata''"
| "title_source_json TitleAppServer = JStr ''app_server''"
| "title_source_json TitleHistory = JStr ''history''"
| "title_source_json TitleFallback = JStr ''fallback''"

definition host_session_json :: "agent_host_session \<Rightarrow> json" where
  "host_session_json s =
     jobj ([(''session_id'', JStr (hs_session_id s)), (''title'', JStr (hs_title s)),
            (''title_source'', title_source_json (hs_title_source s)),
            (''app_server_present'', JBool (hs_app_server_present s))]
         @ opt_entry ''cwd'' JStr (hs_cwd s) @ [(''updated_at'', JStr (hs_updated_at s))])"

definition report_json :: "agent_host_sessions_report \<Rightarrow> json" where
  "report_json r =
     jobj ([(''sessions'', JArr (map host_session_json (hr_sessions r))),
            (''inventory_scope'', scope_json (hr_inventory_scope r))]
         @ opt_entry ''app_server_inventory_ok'' JBool (hr_app_server_inventory_ok r))"

definition backfill_event_json :: "agent_backfill_event \<Rightarrow> json" where
  "backfill_event_json e =
     jobj [(''kind'', JStr (be_kind e)), (''priority'', JStr (be_priority e)),
           (''summary'', JStr (be_summary e)), (''idempotency_key'', JStr (be_idempotency_key e)),
           (''created_at'', JStr (be_created_at e))]"

subsection \<open>Messages of the control plane\<close>

record envelope =
  en_kind :: string
  en_payload :: json

datatype command_type = CmdPlaceholder | CmdCodex

record command_payload =
  cp_id :: string
  cp_command_type :: command_type
  cp_prompt :: string

record command_target_host_session =
  ct_session_id :: string
  ct_app_server_present :: bool
  ct_cwd :: "string option"

record command_dispatch =
  cd_command :: command_payload
  cd_target_host_session :: "command_target_host_session option"

record thread_create_dispatch =
  tc_request_id :: string
  tc_title :: "string option"

record host_session_backfill_dispatch =
  hd_request_id :: string
  hd_session_id :: string
  hd_limit :: "nat option"

record host_session_ensure_dispatch =
  he_request_id :: string
  he_session_id :: string
  he_title :: "string option"
  he_cwd :: "string option"

record thread_archive_sync_dispatch =
  ta_request_id :: string
  ta_session_id :: string
  ta_archived :: bool

text \<open>A unit variant is its name, or an object from its name to \<open>null\<close>.\<close>

definition command_type_of :: "json \<Rightarrow> command_type option" where
  "command_type_of v =
     (let name = (case v of JStr s \<Rightarrow> Some s | JObj [(k, JNull)] \<Rightarrow> Some k | _ \<Rightarrow> None)
      in if name = Some ''placeholder'' then Some CmdPlaceholder
         else if name = Some ''codex'' then Some CmdCodex else None)"

definition command_payload_of :: "json \<Rightarrow> command_payload option" where
  "command_payload_of v =
     do { fs \<leftarrow> struct_fields [''id'', ''type'', ''prompt''] v;
          i \<leftarrow> required as_str (fs ! 0);
          t \<leftarrow> defaulted CmdPlaceholder command_type_of (fs ! 1);
          p \<leftarrow> required as_str (fs ! 2);
          Some \<lparr> cp_id = i, cp_command_type = t, cp_prompt = p \<rparr> }"

definition target_host_session_of :: "json \<Rightarrow> command_target_host_session option" where
  "target_host_session_of v =
     do { fs \<leftarrow> struct_fields [''session_id'', ''app_server_present'', ''cwd''] v;
          s \<leftarrow> required as_str (fs ! 0);
          p \<leftarrow> defaulted False as_bool (fs ! 1);
          c \<leftarrow> optional as_str (fs ! 2);
          Some \<lparr> ct_session_id = s, ct_app_server_present = p, ct_cwd = c \<rparr> }"

definition command_dispatch_of :: "json \<Rightarrow> command_dispatch option" where
  "command_dispatch_of v =
     do { fs \<leftarrow> struct_fields [''command'', ''target_host_session''] v;
          c \<leftarrow> required command_payload_of (fs ! 0);
          t \<leftarrow> optional target_host_session_of (fs ! 1);
          Some \<lparr> cd_command = c, cd_target_host_session = t \<rparr> }"

definition thread_create_of :: "json \<Rightarrow> thread_create_dispatch option" where
  "thread_create_of v =
     do { fs \<leftarrow> struct_fields [''request_id'', ''title''] v;
          r \<leftarrow> required as_str (fs ! 0);
          t \<leftarrow> optional as_str (fs ! 1);
          Some \<lparr> tc_request_id = r, tc_title = t \<rparr> }"

definition backfill_dispatch_of :: "json \<Rightarrow> host_session_backfill_dispatch option" where
  "backfill_dispatch_of v =
     do { fs \<leftarrow> struct_fields [''request_id'', ''session_id'', ''limit''] v;
          r \<leftarrow> required as_str (fs ! 0);
          s \<leftarrow> required as_str (fs ! 1);
          l \<leftarrow> optional as_u64 (fs ! 2);
          Some \<lparr> hd_request_id = r, hd_session_id = s, hd_limit = l \<rparr> }"

definition ensure_dispatch_of :: "json \<Rightarrow> host_session_ensure_dispatch option" where
  "ensure_dispatch_of v =
     do { fs \<leftarrow> struct_fields [''request_id'', ''session_id'', ''title'', ''cwd''] v;
          r \<leftarrow> required as_str (fs ! 0);
          s \<leftarrow> required as_str (fs ! 1);
          t \<leftarrow> optional as_str (fs ! 2);
          c \<leftarrow> optional as_str (fs ! 3);
          Some \<lparr> he_request_id = r, he_session_id = s, he_title = t, he_cwd = c \<rparr> }"

definition archive_dispatch_of :: "json \<Rightarrow> thread_archive_sync_dispatch option" where
  "archive_dispatch_of v =
     do { fs \<leftarrow> struct_fields [''request_id'', ''session_id'', ''archived''] v;
          r \<leftarrow> required as_str (fs ! 0);
          s \<leftarrow> required as_str (fs ! 1);
          a \<leftarrow> required as_bool (fs ! 2);
          Some \<lparr> ta_request_id = r, ta_session_id = s, ta_archived = a \<rparr> }"

text \<open>Responses to a turn interaction. The answers are a map, here sorted by key.\<close>

datatype turn_interaction_response =
    Approval json
  | Input "(string \<times> string list) list"

record turn_interaction_response_dispatch =
  ti_request_id :: "string option"
  ti_command_id :: string
  ti_interaction_id :: string
  ti_response :: turn_interaction_response
  ti_auto_resolved :: bool

text \<open>
  What the connector asks of \<open>serde_json\<close> beyond printing and parsing values: an envelope read
  straight from text, and the tagged enum of a response read from a value.
\<close>

record wire = serde +
  wr_envelope :: "string \<Rightarrow> string + envelope"
  wr_response :: "json \<Rightarrow> string + turn_interaction_response_dispatch"

subsection \<open>Web sockets\<close>

text \<open>A frame sent: a text, the text of a JSON value, the answer to a ping.\<close>

datatype frame = TextFrame string | ValueFrame json | PongFrame string
datatype message = MsgText string | MsgPing string | MsgClose | MsgOther
datatype read_answer = ReadMsg message | ReadTimeout string | ReadFailed string

subsection \<open>Lemmas\<close>

lemma struct_fields_object [simp]: "struct_fields names (jobj kvs) = Some (map (map_of (rev kvs)) names)"
  by (simp add: struct_fields_def jobj_def map_of_obj_of)

end
