(* ===== verification/Net_Url.thy ===== *)
theory Net_Url
  imports Json_Value
begin

text \<open>
  URLs, paths and addresses. The parser of \<open>http::Uri\<close> is a parameter; what the code reads
  from its result is the record \<open>uri\<close>. \<open>IpAddr::from_str\<close> and \<open>is_loopback\<close> of the
  standard library are modelled. The predicates are those of \<open>app_server_manager.rs\<close>
  (\<open>is_app_server_url\<close>, \<open>is_managed_listen_url\<close>, ...), \<open>session_inventory.rs\<close> (ports, the
  bearer token request) and \<open>config.rs\<close> (which endpoints may carry a token).
\<close>

record uri =
  u_scheme :: "string option"
  u_authority :: "string option"
  u_host :: "string option"

type_synonym uri_parser = "string \<Rightarrow> string + uri"

definition parse_ok :: "uri_parser \<Rightarrow> string \<Rightarrow> uri option" where
  "parse_ok pu s = (case pu s of Inl _ \<Rightarrow> None | Inr u \<Rightarrow> Some u)"

subsection \<open>Paths\<close>

definition path_is_absolute :: "string \<Rightarrow> bool" where
  "path_is_absolute p \<longleftrightarrow> starts_with ''/'' p"

fun split_on :: "char \<Rightarrow> string \<Rightarrow> string list" where
  "split_on c [] = [[]]"
| "split_on c (x # xs) =
     (if x = c then [] # split_on c xs
      else (case split_on c xs of p # ps \<Rightarrow> (x # p) # ps | [] \<Rightarrow> [[x]]))"

text \<open>The components of a path: empty pieces and single dots do not count.\<close>

definition path_components :: "string \<Rightarrow> string list" where
  "path_components p = filter (\<lambda>x. x \<noteq> [] \<and> x \<noteq> ''.'') (split_on (CHR ''/'') p)"

definition path_is_root :: "string \<Rightarrow> bool" where
  "path_is_root p \<longleftrightarrow> path_is_absolute p \<and> path_components p = []"

definition path_file_name :: "string \<Rightarrow> string option" where
  "path_file_name p =
     (case rev (path_components p) of [] \<Rightarrow> None | x # _ \<Rightarrow> (if x = ''..'' then None else Some x))"

definition path_join :: "string \<Rightarrow> string \<Rightarrow> string" where
  "path_join p q =
     (if path_is_absolute q then q else if p = [] \<or> ends_with ''/'' p then p @ q else p @ ''/'' @ q)"

subsection \<open>IP addresses\<close>

datatype ip_addr = V4 "nat \<times> nat \<times> nat \<times> nat" | V6 "nat list"

definition digit_of :: "nat \<Rightarrow> char \<Rightarrow> nat option" where
  "digit_of radix c =
     (let n = (of_char c :: nat);
          d = (if 48 \<le> n \<and> n \<le> 57 then n - 48
               else if 97 \<le> n \<and> n \<le> 122 then n - 87
               else if 65 \<le> n \<and> n \<le> 90 then n - 55 else radix)
      in (if d < radix then Some d else None))"

definition read_number :: "nat \<Rightarrow> nat \<Rightarrow> bool \<Rightarrow> nat \<Rightarrow> string \<Rightarrow> (nat \<times> string) option" where
  "read_number radix max_digits allow_zero_prefix m s =
     (let ds = takeWhile (\<lambda>c. digit_of radix c \<noteq> None) s;
          v = foldl (\<lambda>a c. a * radix + the (digit_of radix c)) 0 ds
      in (if ds = [] \<or> max_digits < length ds
             \<or> (\<not> allow_zero_prefix \<and> hd ds = CHR ''0'' \<and> 1 < length ds) \<or> m < v then None
          else Some (v, drop (length ds) s)))"

definition read_separator ::
  "char \<Rightarrow> nat \<Rightarrow> (string \<Rightarrow> ('a \<times> string) option) \<Rightarrow> string \<Rightarrow> ('a \<times> string) option" where
  "read_separator sep i inner s =
     (if i = 0 then inner s
      else (case s of c # r \<Rightarrow> (if c = sep then inner r else None) | [] \<Rightarrow> None))"

definition read_octet :: "nat \<Rightarrow> string \<Rightarrow> (nat \<times> string) option" where
  "read_octet i = read_separator (CHR ''.'') i (read_number 10 3 False 255)"

definition read_ipv4 :: "string \<Rightarrow> ((nat \<times> nat \<times> nat \<times> nat) \<times> string) option" where
  "read_ipv4 s0 =
     do { (a, s1) \<leftarrow> read_octet 0 s0; (b, s2) \<leftarrow> read_octet 1 s1;
          (c, s3) \<leftarrow> read_octet 2 s2; (d, s4) \<leftarrow> read_octet 3 s3; Some ((a, b, c, d), s4) }"

fun read_groups :: "nat \<Rightarrow> nat \<Rightarrow> string \<Rightarrow> nat list \<times> bool \<times> string" where
  "read_groups 0 i s = ([], False, s)"
| "read_groups (Suc r) i s =
     (case (if 0 < r then read_separator (CHR '':'') i read_ipv4 s else None) of
        Some ((a, b, c, d), s') \<Rightarrow> ([a * 256 + b, c * 256 + d], True, s')
      | None \<Rightarrow>
          (case read_separator (CHR '':'') i (read_number 16 4 True 65535) s of
             None \<Rightarrow> ([], False, s)
           | Some (g, s') \<Rightarrow> (case read_groups r (Suc i) s' of (gs, v4, s'') \<Rightarrow> (g # gs, v4, s''))))"

definition read_ipv6 :: "string \<Rightarrow> (nat list \<times> string) option" where
  "read_ipv6 s =
     (case read_groups 8 0 s of (hs, head_v4, r) \<Rightarrow>
        if length hs = 8 then Some (hs, r)
        else if head_v4 then None
        else if \<not> starts_with ''::'' r then None
        else (case read_groups (8 - (length hs + 1)) 0 (drop 2 r) of (ts, _, r') \<Rightarrow>
               Some (hs @ replicate (8 - length hs - length ts) 0 @ ts, r')))"

definition parse_ip :: "string \<Rightarrow> ip_addr option" where
  "parse_ip s =
     (case (case read_ipv4 s of Some (a, r) \<Rightarrow> Some (V4 a, r)
                              | None \<Rightarrow> map_option (\<lambda>(g, r). (V6 g, r)) (read_ipv6 s)) of
        Some (a, r) \<Rightarrow> (if r = [] then Some a else None)
      | None \<Rightarrow> None)"

definition ip_is_loopback :: "ip_addr \<Rightarrow> bool" where
  "ip_is_loopback a =
     (case a of V4 (o1, _) \<Rightarrow> o1 = 127 | V6 gs \<Rightarrow> gs = [0, 0, 0, 0, 0, 0, 0, 1])"

subsection \<open>Schemes, hosts and ports\<close>

definition unix_prefix :: string where "unix_prefix = ''unix://''"

text \<open>\<open>strip_unix_scheme\<close>: \<open>str::get\<close> fails in the middle of a character, where no prefix matches either.\<close>

definition strip_unix_scheme :: "string \<Rightarrow> string option" where
  "strip_unix_scheme url =
     (if length unix_prefix \<le> length url
         \<and> eq_ignore_ascii_case (take (length unix_prefix) url) unix_prefix
      then Some (drop (length unix_prefix) url) else None)"

definition uri_scheme_is :: "uri \<Rightarrow> string \<Rightarrow> bool" where
  "uri_scheme_is u expected =
     (case u_scheme u of Some s \<Rightarrow> eq_ignore_ascii_case s expected | None \<Rightarrow> False)"

definition strip_brackets :: "string \<Rightarrow> string" where
  "strip_brackets h = trim_end_byte (CHR '']'') (trim_start_byte (CHR ''['') h)"

definition is_loopback_host :: "string \<Rightarrow> bool" where
  "is_loopback_host host =
     (let n = to_ascii_lowercase (strip_brackets host)
      in n = ''localhost'' \<or> (case parse_ip n of Some a \<Rightarrow> ip_is_loopback a | None \<Rightarrow> False))"

definition app_server_explicit_port :: "uri \<Rightarrow> string option" where
  "app_server_explicit_port u =
     do { authority \<leftarrow> u_authority u;
          let host_and_port = (case rsplit_once (CHR ''@'') authority of Some (_, v) \<Rightarrow> v | None \<Rightarrow> authority);
          (case strip_prefix ''['' host_and_port of
             Some bracketed \<Rightarrow>
               do { (_, suffix) \<leftarrow> split_once (CHR '']'') bracketed; strip_prefix '':'' suffix }
           | None \<Rightarrow> map_option snd (rsplit_once (CHR '':'') host_and_port)) }"

definition app_server_port :: "uri \<Rightarrow> bool \<Rightarrow> string + nat" where
  "app_server_port u uses_tls =
     (case app_server_explicit_port u of
        Some port \<Rightarrow>
          (case parse_uint u16_max port of
             None \<Rightarrow> Inl (''app-server URL port is invalid: '' @ port)
           | Some p \<Rightarrow> (if p = 0 then Inl (''app-server URL port is invalid: '' @ port) else Inr p))
      | None \<Rightarrow> Inr (if uses_tls then 443 else 80))"

definition app_server_websocket_uri :: "uri_parser \<Rightarrow> string \<Rightarrow> uri option" where
  "app_server_websocket_uri pu url =
     do { u \<leftarrow> parse_ok pu url;
          scheme \<leftarrow> u_scheme u;
          (if \<not> eq_ignore_ascii_case scheme ''ws'' \<and> \<not> eq_ignore_ascii_case scheme ''wss'' then None
           else do { _ \<leftarrow> u_host u;
                     (case app_server_explicit_port u of
                        Some port \<Rightarrow>
                          do { p \<leftarrow> parse_uint u16_max port; (if p = 0 then None else Some u) }
                      | None \<Rightarrow> Some u) }) }"

text \<open>Linux: \<open>sun_path\<close> leaves 107 bytes for the path.\<close>

definition unix_socket_path_max_bytes :: nat where "unix_socket_path_max_bytes = 107"

definition is_valid_unix_socket_path :: "string \<Rightarrow> bool" where
  "is_valid_unix_socket_path p \<longleftrightarrow>
     path_is_absolute p \<and> \<not> path_is_root p \<and> length p \<le> unix_socket_path_max_bytes"

definition is_app_server_url :: "uri_parser \<Rightarrow> string \<Rightarrow> bool" where
  "is_app_server_url pu url =
     (case strip_unix_scheme url of
        Some path \<Rightarrow> is_valid_unix_socket_path path
      | None \<Rightarrow>
          (case app_server_websocket_uri pu url of
             None \<Rightarrow> False
           | Some u \<Rightarrow>
               (if uri_scheme_is u ''wss'' then True
                else (case u_host u of Some h \<Rightarrow> is_loopback_host h | None \<Rightarrow> False))))"

definition is_local_listen_url :: "uri_parser \<Rightarrow> string \<Rightarrow> bool" where
  "is_local_listen_url pu url =
     (case strip_unix_scheme url of
        Some path \<Rightarrow> is_valid_unix_socket_path path
      | None \<Rightarrow>
          (case app_server_websocket_uri pu url of
             None \<Rightarrow> False
           | Some u \<Rightarrow> (case u_host u of None \<Rightarrow> False | Some h \<Rightarrow> is_loopback_host h)))"

definition is_managed_listen_url :: "uri_parser \<Rightarrow> string \<Rightarrow> bool" where
  "is_managed_listen_url pu url =
     (case strip_unix_scheme url of
        Some path \<Rightarrow> is_valid_unix_socket_path path
      | None \<Rightarrow>
          (case app_server_websocket_uri pu url of None \<Rightarrow> False | Some u \<Rightarrow>
          (case u_authority u of None \<Rightarrow> False | Some authority \<Rightarrow>
          (case find_sub ''://'' url of None \<Rightarrow> False | Some sep \<Rightarrow>
             if \<not> uri_scheme_is u ''ws'' \<or> CHR ''@'' \<in> set authority
                \<or> sep + 3 + length authority \<noteq> length url then False
             else (case u_host u of None \<Rightarrow> False | Some h \<Rightarrow>
                  (case parse_ip (strip_brackets h) of None \<Rightarrow> False | Some ip \<Rightarrow>
                     if \<not> ip_is_loopback ip then False
                     else (case app_server_explicit_port u of None \<Rightarrow> False | Some port \<Rightarrow>
                            (case parse_uint u16_max port of Some p \<Rightarrow> 0 < p | None \<Rightarrow> False))))))))"

subsection \<open>Which endpoints may carry a token\<close>

definition app_server_url_uses_wss :: "uri_parser \<Rightarrow> string \<Rightarrow> bool" where
  "app_server_url_uses_wss pu url =
     (case Option.bind (parse_ok pu url) u_scheme of
        Some s \<Rightarrow> eq_ignore_ascii_case s ''wss'' | None \<Rightarrow> False)"

definition app_server_url_uses_remote_plaintext_ws :: "uri_parser \<Rightarrow> string \<Rightarrow> bool" where
  "app_server_url_uses_remote_plaintext_ws pu url =
     (case parse_ok pu url of
        None \<Rightarrow> False
      | Some u \<Rightarrow>
          (if \<not> uri_scheme_is u ''ws'' then False
           else (case u_host u of
                   None \<Rightarrow> False
                 | Some host \<Rightarrow>
                     (let n = to_ascii_lowercase (strip_brackets host)
                      in n \<noteq> ''localhost''
                         \<and> \<not> (case parse_ip n of Some a \<Rightarrow> ip_is_loopback a | None \<Rightarrow> False)))))"

text \<open>
  \<open>app_server_client_request\<close>: the \<open>Authorization\<close> header of the handshake, if any. Building
  the request (\<open>into_client_request\<close>), reading the token file and the check of
  \<open>HeaderValue::from_str\<close> are outcomes handed in.
\<close>

definition app_server_client_request ::
  "uri_parser \<Rightarrow> (string \<Rightarrow> string option) \<Rightarrow> (string \<Rightarrow> string + string) \<Rightarrow> (string \<Rightarrow> string option)
    \<Rightarrow> string \<Rightarrow> string option \<Rightarrow> string + string option" where
  "app_server_client_request pu request_error read_file header_error url auth_token_file =
     (case request_error url of Some e \<Rightarrow> Inl e | None \<Rightarrow>
       (case auth_token_file of None \<Rightarrow> Inr None | Some path \<Rightarrow>
         (case pu url of Inl e \<Rightarrow> Inl e | Inr u \<Rightarrow>
           if \<not> uri_scheme_is u ''wss'' then Inl ''app-server auth tokens require wss://''
           else (case read_file path of Inl e \<Rightarrow> Inl e | Inr raw \<Rightarrow>
                  (let token = trim raw
                   in if token = [] then Inl (''app-server auth token file is empty: '' @ path)
                      else (case header_error (''Bearer '' @ token) of
                              Some e \<Rightarrow> Inl e
                            | None \<Rightarrow> Inr (Some (''Bearer '' @ token))))))))"

subsection \<open>Lemmas\<close>

lemma is_loopback_host_remote:
  "parse_ok pu url = Some u \<Longrightarrow> uri_scheme_is u ''ws'' \<Longrightarrow> u_host u = Some h \<Longrightarrow>
   app_server_url_uses_remote_plaintext_ws pu url \<longleftrightarrow> \<not> is_loopback_host h"
  by (simp add: app_server_url_uses_remote_plaintext_ws_def is_loopback_host_def Let_def)

lemma websocket_uri_parse:
  "app_server_websocket_uri pu url = Some u \<Longrightarrow>
   parse_ok pu url = Some u \<and> (uri_scheme_is u ''ws'' \<or> uri_scheme_is u ''wss'') \<and> u_host u \<noteq> None"
  by (auto simp: app_server_websocket_uri_def uri_scheme_is_def bind_eq_Some_conv split: if_splits option.splits)

lemma app_server_port_range: "app_server_port u tls = Inr p \<Longrightarrow> 0 < p \<and> p \<le> u16_max"
  by (auto simp: app_server_port_def u16_max_def dest: parse_uint_bound split: option.splits if_splits)

lemma websocket_uri_port:
  "app_server_websocket_uri pu url = Some u \<Longrightarrow> \<exists>p. app_server_port u tls = Inr p"
  by (auto simp: app_server_websocket_uri_def app_server_port_def bind_eq_Some_conv split: if_splits option.splits)

lemma managed_listen_url_cases:
  "is_managed_listen_url pu url \<Longrightarrow>
   (\<exists>path. strip_unix_scheme url = Some path \<and> is_valid_unix_socket_path path)
   \<or> (\<exists>u h ip. app_server_websocket_uri pu url = Some u \<and> uri_scheme_is u ''ws'' \<and> u_host u = Some h
        \<and> parse_ip (strip_brackets h) = Some ip \<and> ip_is_loopback ip)"
  by (auto simp: is_managed_listen_url_def split: option.splits if_splits)

end
