(* ===== verification/Agent_Config.thy ===== *)
theory Agent_Config
  imports Net_Url
begin

text \<open>
  \<open>config.rs\<close> and the command line checks of \<open>main.rs\<close>: the configuration records with
  their defaults (both the \<open>Default\<close> implementations and the per-field defaults serde applies
  to a section of the file), validation, the capabilities the connector announces, and the
  deployment checks. TOML decoding (the \<open>toml\<close> crate) is a parameter.
\<close>

datatype execution_mode = Placeholder | CodexExec | AppServer

record bootstrap_config =
  bc_secret_file :: string

record execution_config =
  ex_mode :: execution_mode
  ex_codex_command :: string
  ex_codex_sandbox :: string
  ex_codex_profile :: "string option"
  ex_codex_model :: "string option"
  ex_codex_timeout_seconds :: nat
  ex_codex_output_max_bytes :: nat
  ex_extra_args :: "string list"

record managed_app_server_config =
  ma_enabled :: bool
  ma_listen_url :: "string option"
  ma_extra_args :: "string list"
  ma_lock_cwd_to_workspace_root :: bool
  ma_startup_timeout_seconds :: nat
  ma_restart_backoff_seconds :: nat
  ma_drain_timeout_seconds :: nat
  ma_scheduled_restart_interval_seconds :: nat
  ma_upgrade_marker_file :: "string option"

record session_inventory_config =
  si_enabled :: bool
  si_codex_home :: "string option"
  si_max_sessions :: nat
  si_report_interval_seconds :: nat
  si_app_server_url :: "string option"
  si_app_server_auth_token_file :: "string option"
  si_app_server_timeout_seconds :: nat
  si_managed_app_server :: managed_app_server_config

record agent_config =
  ac_connector_name :: string
  ac_control_url :: string
  ac_bootstrap_url :: string
  ac_workspace_root :: string
  ac_token_file :: string
  ac_spool_db :: string
  ac_bootstrap :: bootstrap_config
  ac_execution :: execution_config
  ac_session_inventory :: session_inventory_config

record bootstrap_request_t =
  br_connector_name :: string
  br_hostname :: string
  br_workspace_root :: string
  br_capabilities :: "string list"

datatype config_error = ReadError string | ParseError string | Invalid string

subsection \<open>Defaults\<close>

definition default_execution_mode :: execution_mode where
  "default_execution_mode = Placeholder"
definition default_codex_command :: string where "default_codex_command = ''codex''"
definition default_codex_sandbox :: string where "default_codex_sandbox = ''read-only''"
definition default_codex_timeout_seconds :: nat where "default_codex_timeout_seconds = 300"
definition default_codex_output_max_bytes :: nat where "default_codex_output_max_bytes = 256 * 1024"
definition default_session_inventory_enabled :: bool where "default_session_inventory_enabled = True"
definition default_session_inventory_max_sessions :: nat where
  "default_session_inventory_max_sessions = 100"
definition default_session_inventory_report_interval_seconds :: nat where
  "default_session_inventory_report_interval_seconds = 60"
definition default_app_server_timeout_seconds :: nat where "default_app_server_timeout_seconds = 2"
definition default_managed_app_server_startup_timeout_seconds :: nat where
  "default_managed_app_server_startup_timeout_seconds = 10"
definition default_managed_app_server_restart_backoff_seconds :: nat where
  "default_managed_app_server_restart_backoff_seconds = 5"
definition default_managed_app_server_drain_timeout_seconds :: nat where
  "default_managed_app_server_drain_timeout_seconds = 300"

lemmas config_defaults =
  default_execution_mode_def default_codex_command_def default_codex_sandbox_def
  default_codex_timeout_seconds_def default_codex_output_max_bytes_def
  default_session_inventory_enabled_def default_session_inventory_max_sessions_def
  default_session_inventory_report_interval_seconds_def default_app_server_timeout_seconds_def
  default_managed_app_server_startup_timeout_seconds_def
  default_managed_app_server_restart_backoff_seconds_def
  default_managed_app_server_drain_timeout_seconds_def

definition execution_config_default :: execution_config where
  "execution_config_default =
     \<lparr> ex_mode = default_execution_mode, ex_codex_command = default_codex_command,
       ex_codex_sandbox = default_codex_sandbox, ex_codex_profile = None, ex_codex_model = None,
       ex_codex_timeout_seconds = default_codex_timeout_seconds,
       ex_codex_output_max_bytes = default_codex_output_max_bytes, ex_extra_args = [] \<rparr>"

definition managed_app_server_config_default :: managed_app_server_config where
  "managed_app_server_config_default =
     \<lparr> ma_enabled = False, ma_listen_url = None, ma_extra_args = [],
       ma_lock_cwd_to_workspace_root = False,
       ma_startup_timeout_seconds = default_managed_app_server_startup_timeout_seconds,
       ma_restart_backoff_seconds = default_managed_app_server_restart_backoff_seconds,
       ma_drain_timeout_seconds = default_managed_app_server_drain_timeout_seconds,
       ma_scheduled_restart_interval_seconds = 0, ma_upgrade_marker_file = None \<rparr>"

definition session_inventory_config_default :: session_inventory_config where
  "session_inventory_config_default =
     \<lparr> si_enabled = default_session_inventory_enabled, si_codex_home = None,
       si_max_sessions = default_session_inventory_max_sessions,
       si_report_interval_seconds = default_session_inventory_report_interval_seconds,
       si_app_server_url = None, si_app_server_auth_token_file = None,
       si_app_server_timeout_seconds = default_app_server_timeout_seconds,
       si_managed_app_server = managed_app_server_config_default \<rparr>"

text \<open>
  A section of the file as serde sees it: each field may be missing, and a missing field takes
  the default its \<open>#[serde(default)]\<close> attribute names.
\<close>

record raw_execution =
  re_mode :: "execution_mode option"
  re_codex_command :: "string option"
  re_codex_sandbox :: "string option"
  re_codex_profile :: "string option"
  re_codex_model :: "string option"
  re_codex_timeout_seconds :: "nat option"
  re_codex_output_max_bytes :: "nat option"
  re_extra_args :: "string list option"

record raw_managed =
  rm_enabled :: "bool option"
  rm_listen_url :: "string option"
  rm_extra_args :: "string list option"
  rm_lock_cwd_to_workspace_root :: "bool option"
  rm_startup_timeout_seconds :: "nat option"
  rm_restart_backoff_seconds :: "nat option"
  rm_drain_timeout_seconds :: "nat option"
  rm_scheduled_restart_interval_seconds :: "nat option"
  rm_upgrade_marker_file :: "string option"

record raw_session_inventory =
  rs_enabled :: "bool option"
  rs_codex_home :: "string option"
  rs_max_sessions :: "nat option"
  rs_report_interval_seconds :: "nat option"
  rs_app_server_url :: "string option"
  rs_app_server_auth_token_file :: "string option"
  rs_app_server_timeout_seconds :: "nat option"
  rs_managed_app_server :: "raw_managed option"

definition or_default :: "'a option \<Rightarrow> 'a \<Rightarrow> 'a" where
  "or_default o' d = (case o' of Some x \<Rightarrow> x | None \<Rightarrow> d)"

definition decode_execution :: "raw_execution option \<Rightarrow> execution_config" where
  "decode_execution section =
     (case section of None \<Rightarrow> execution_config_default | Some r \<Rightarrow>
       \<lparr> ex_mode = or_default (re_mode r) default_execution_mode,
         ex_codex_command = or_default (re_codex_command r) default_codex_command,
         ex_codex_sandbox = or_default (re_codex_sandbox r) default_codex_sandbox,
         ex_codex_profile = re_codex_profile r, ex_codex_model = re_codex_model r,
         ex_codex_timeout_seconds = or_default (re_codex_timeout_seconds r) default_codex_timeout_seconds,
         ex_codex_output_max_bytes = or_default (re_codex_output_max_bytes r) default_codex_output_max_bytes,
         ex_extra_args = or_default (re_extra_args r) [] \<rparr>)"

definition decode_managed :: "raw_managed option \<Rightarrow> managed_app_server_config" where
  "decode_managed section =
     (case section of None \<Rightarrow> managed_app_server_config_default | Some r \<Rightarrow>
       \<lparr> ma_enabled = or_default (rm_enabled r) False, ma_listen_url = rm_listen_url r,
         ma_extra_args = or_default (rm_extra_args r) [],
         ma_lock_cwd_to_workspace_root = or_default (rm_lock_cwd_to_workspace_root r) False,
         ma_startup_timeout_seconds =
           or_default (rm_startup_timeout_seconds r) default_managed_app_server_startup_timeout_seconds,
         ma_restart_backoff_seconds =
           or_default (rm_restart_backoff_seconds r) default_managed_app_server_restart_backoff_seconds,
         ma_drain_timeout_seconds =
           or_default (rm_drain_timeout_seconds r) default_managed_app_server_drain_timeout_seconds,
         ma_scheduled_restart_interval_seconds = or_default (rm_scheduled_restart_interval_seconds r) 0,
         ma_upgrade_marker_file = rm_upgrade_marker_file r \<rparr>)"

definition decode_session_inventory :: "raw_session_inventory option \<Rightarrow> session_inventory_config" where
  "decode_session_inventory section =
     (case section of None \<Rightarrow> session_inventory_config_default | Some r \<Rightarrow>
       \<lparr> si_enabled = or_default (rs_enabled r) default_session_inventory_enabled,
         si_codex_home = rs_codex_home r,
         si_max_sessions = or_default (rs_max_sessions r) default_session_inventory_max_sessions,
         si_report_interval_seconds =
           or_default (rs_report_interval_seconds r) default_session_inventory_report_interval_seconds,
         si_app_server_url = rs_app_server_url r,
         si_app_server_auth_token_file = rs_app_server_auth_token_file r,
         si_app_server_timeout_seconds =
           or_default (rs_app_server_timeout_seconds r) default_app_server_timeout_seconds,
         si_managed_app_server = decode_managed (rs_managed_app_server r) \<rparr>)"

subsection \<open>Validation and loading\<close>

definition validate :: "uri_parser \<Rightarrow> agent_config \<Rightarrow> config_error + unit" where
  "validate pu c =
     (let si = ac_session_inventory c in
      if ma_enabled (si_managed_app_server si) \<and> si_app_server_auth_token_file si \<noteq> None
      then Inl (Invalid ''session_inventory.app_server_auth_token_file cannot be set when session_inventory.managed_app_server.enabled is true'')
      else if si_app_server_auth_token_file si \<noteq> None
              \<and> \<not> (case si_app_server_url si of Some u \<Rightarrow> app_server_url_uses_wss pu u | None \<Rightarrow> False)
      then Inl (Invalid ''session_inventory.app_server_auth_token_file requires session_inventory.app_server_url to use wss://'')
      else if (case si_app_server_url si of Some u \<Rightarrow> app_server_url_uses_remote_plaintext_ws pu u | None \<Rightarrow> False)
      then Inl (Invalid ''session_inventory.app_server_url requires wss:// for non-loopback endpoints'')
      else Inr ())"

text \<open>\<open>AgentConfig::load\<close>: the read of the file is an outcome, decoding is the TOML parameter.\<close>

definition load ::
  "uri_parser \<Rightarrow> (string \<Rightarrow> string + agent_config) \<Rightarrow> string + string \<Rightarrow> config_error + agent_config" where
  "load pu from_toml content =
     (case content of Inl e \<Rightarrow> Inl (ReadError e) | Inr text \<Rightarrow>
       (case from_toml text of Inl e \<Rightarrow> Inl (ParseError e) | Inr c \<Rightarrow>
         (case validate pu c of Inl e \<Rightarrow> Inl e | Inr _ \<Rightarrow> Inr c)))"

definition config_error_display :: "config_error \<Rightarrow> string" where
  "config_error_display e =
     (case e of ReadError x \<Rightarrow> ''failed to read connector config: '' @ x
              | ParseError x \<Rightarrow> ''failed to parse connector config: '' @ x
              | Invalid x \<Rightarrow> ''invalid connector config: '' @ x)"

definition capabilities :: "agent_config \<Rightarrow> string list" where
  "capabilities c =
     (let si = ac_session_inventory c; mode = ex_mode (ac_execution c)
      in [''placeholder_commands'', ''event_stream_summary'', ''local_spool_skeleton'']
       @ (if si_enabled si then [''host_session_inventory'', ''host_session_backfill_v2''] else [])
       @ (if mode = CodexExec then [''codex_exec''] else [])
       @ (if mode = AppServer \<and> si_app_server_url si \<noteq> None
          then [''codex_app_server_exec'', ''host_session_app_server_ensure''] else [])
       @ (if si_app_server_url si \<noteq> None then [''app_server_threads'', ''app_server_archive''] else [])
       @ (if si_app_server_url si \<noteq> None \<or> ma_enabled (si_managed_app_server si)
          then [''app_server_instance_state''] else []))"

definition bootstrap_request :: "agent_config \<Rightarrow> string \<Rightarrow> bootstrap_request_t" where
  "bootstrap_request c hostname =
     \<lparr> br_connector_name = ac_connector_name c, br_hostname = hostname,
       br_workspace_root = utf8_lossy (ac_workspace_root c), br_capabilities = capabilities c \<rparr>"

definition read_bootstrap_secret :: "string + string \<Rightarrow> config_error + string" where
  "read_bootstrap_secret content = (case content of Inl e \<Rightarrow> Inl (ReadError e) | Inr v \<Rightarrow> Inr (trim v))"

subsection \<open>The command line (\<open>main.rs\<close>)\<close>

fun arg_value :: "string list \<Rightarrow> string \<Rightarrow> string option" where
  "arg_value (a # b # rest) key = (if a = key then Some b else arg_value (b # rest) key)"
| "arg_value _ key = None"

definition app_server_health_target :: "uri_parser \<Rightarrow> agent_config \<Rightarrow> string option" where
  "app_server_health_target pu c =
     (let si = ac_session_inventory c; m = si_managed_app_server si
      in if ma_enabled m
         then do { url \<leftarrow> (case ma_listen_url m of Some u \<Rightarrow> Some u | None \<Rightarrow> si_app_server_url si);
                   (if is_managed_listen_url pu url then Some url else None) }
         else si_app_server_url si)"

definition validate_deployment_config :: "uri_parser \<Rightarrow> agent_config \<Rightarrow> string + unit" where
  "validate_deployment_config pu c =
     (let si = ac_session_inventory c
      in if ma_enabled (si_managed_app_server si)
         then (if app_server_health_target pu c = None
               then Inl ''managed app-server config requires a valid local listen URL'' else Inr ())
         else if (case si_app_server_url si of Some u \<Rightarrow> \<not> is_app_server_url pu u | None \<Rightarrow> False)
              then Inl ''app-server config requires a ws://, wss://, or absolute unix:// URL''
              else Inr ())"

text \<open>What a run of the binary does with its arguments and its configuration.\<close>

datatype main_action =
    Preflight
  | ReportConfigPass
  | HealthCheck string nat "string option"
  | PrintPlaceholder string
  | Connect bool
  | PrintBootstrap string
  | Fail string

definition main_dispatch :: "uri_parser \<Rightarrow> string list \<Rightarrow> agent_config \<Rightarrow> main_action" where
  "main_dispatch pu args c =
     (let si = ac_session_inventory c in
      if ''--managed-app-server-preflight-check'' \<in> set args
      then (case validate_deployment_config pu c of Inl e \<Rightarrow> Fail e | Inr _ \<Rightarrow> Preflight)
      else if ''--validate-config'' \<in> set args
      then (case validate_deployment_config pu c of Inl e \<Rightarrow> Fail e | Inr _ \<Rightarrow> ReportConfigPass)
      else if ''--app-server-health-check'' \<in> set args
      then (case app_server_health_target pu c of
              None \<Rightarrow> Fail ''connector config does not define an app-server URL''
            | Some url \<Rightarrow> HealthCheck url (si_app_server_timeout_seconds si) (si_app_server_auth_token_file si))
      else if ''--print-placeholder-events'' \<in> set args
      then PrintPlaceholder (or_default (arg_value args ''--prompt'') ''placeholder command'')
      else if ''--connect'' \<in> set args
      then Connect (''--run-once'' \<in> set args)
      else PrintBootstrap (or_default (arg_value args ''--hostname'') ''localhost''))"

subsection \<open>Lemmas\<close>

lemma validate_Inr_iff:
  "validate pu c = Inr () \<longleftrightarrow>
     (let si = ac_session_inventory c in
      (si_app_server_auth_token_file si \<noteq> None \<longrightarrow>
         \<not> ma_enabled (si_managed_app_server si)
         \<and> (\<exists>u. si_app_server_url si = Some u \<and> app_server_url_uses_wss pu u))
      \<and> (\<forall>u. si_app_server_url si = Some u \<longrightarrow> \<not> app_server_url_uses_remote_plaintext_ws pu u))"
  by (auto simp: validate_def Let_def split: option.splits)

lemma load_Inr: "load pu from_toml content = Inr c \<Longrightarrow> validate pu c = Inr ()"
  by (auto simp: load_def split: sum.splits)

lemma arg_value_Some:
  "arg_value args key = Some v \<Longrightarrow> \<exists>i. Suc i < length args \<and> args ! i = key \<and> args ! Suc i = v"
proof (induction args key rule: arg_value.induct)
  case (1 a b rest key)
  show ?case
  proof (cases "a = key")
    case True
    with "1.prems" show ?thesis by (intro exI [of _ 0]) simp
  next
    case False
    with 1 obtain i where "Suc i < length (b # rest)" "(b # rest) ! i = key" "(b # rest) ! Suc i = v"
      by auto
    then show ?thesis by (intro exI [of _ "Suc i"]) simp
  qed
qed simp_all

lemma capabilities_distinct: "distinct (capabilities c)"
  by (auto simp: capabilities_def Let_def)

end
