(* ===== verification/Manager.thy ===== *)
theory Manager
  imports Agent_Config
begin

text \<open>
  \<open>app_server_manager.rs\<close>: the manager of the local app-server process. Its fields are the
  record \<open>app_server_manager\<close>; the record \<open>mworld\<close> adds what the code asks of the system
  (the clock, health checks, spawning, waiting for and terminating the child, the upgrade
  marker's modification time, the shutdown flag) as answers indexed by the number of questions
  asked so far, and the trace of the actions taken. Every operation of the \<open>impl\<close> block is a
  program of the state monad over it, in the code's order. \<open>Instant + Duration\<close> panics past
  the clock's range (\<open>Panicked\<close>); the wait for a healthy child takes fuel (\<open>OutOfFuel\<close>).
\<close>

subsection \<open>States, reasons and their texts\<close>

datatype instance_state = Healthy | Degraded | Draining | Restarting | Stopped

fun instance_state_str :: "instance_state \<Rightarrow> string" where
  "instance_state_str Healthy = ''healthy''"
| "instance_state_str Degraded = ''degraded''"
| "instance_state_str Draining = ''draining''"
| "instance_state_str Restarting = ''restarting''"
| "instance_state_str Stopped = ''stopped''"

datatype restart_reason = Scheduled | UpgradeMarker

record pending_restart =
  pr_reason :: restart_reason
  pr_requested_at :: instant

fun draining_summary :: "restart_reason \<Rightarrow> string" where
  "draining_summary Scheduled = ''Managed app-server scheduled restart is draining active turns.''"
| "draining_summary UpgradeMarker = ''Managed app-server upgrade restart is draining active turns.''"

fun restarting_summary :: "restart_reason \<Rightarrow> bool \<Rightarrow> string" where
  "restarting_summary Scheduled False = ''Managed app-server scheduled restart is in progress.''"
| "restarting_summary Scheduled True = ''Managed app-server scheduled restart is forcing after drain timeout.''"
| "restarting_summary UpgradeMarker False = ''Managed app-server upgrade restart is in progress.''"
| "restarting_summary UpgradeMarker True = ''Managed app-server upgrade restart is forcing after drain timeout.''"

fun stop_reason :: "restart_reason \<Rightarrow> bool \<Rightarrow> string" where
  "stop_reason Scheduled False = ''scheduled managed app-server restart''"
| "stop_reason Scheduled True = ''forced scheduled managed app-server restart''"
| "stop_reason UpgradeMarker False = ''upgrade marker managed app-server restart''"
| "stop_reason UpgradeMarker True = ''forced upgrade marker managed app-server restart''"

fun forced_healthy_summary :: "restart_reason \<Rightarrow> string" where
  "forced_healthy_summary Scheduled =
     ''Managed app-server scheduled restart forced after drain timeout and is healthy.''"
| "forced_healthy_summary UpgradeMarker =
     ''Managed app-server upgrade restart forced after drain timeout and is healthy.''"

fun forced_degraded_summary :: "restart_reason \<Rightarrow> string" where
  "forced_degraded_summary Scheduled =
     ''Managed app-server scheduled restart forced after drain timeout and did not become healthy.''"
| "forced_degraded_summary UpgradeMarker =
     ''Managed app-server upgrade restart forced after drain timeout and did not become healthy.''"

fun overrides_start_backoff :: "restart_reason \<Rightarrow> bool" where
  "overrides_start_backoff UpgradeMarker = True"
| "overrides_start_backoff Scheduled = False"

fun supersedes :: "restart_reason \<Rightarrow> restart_reason \<Rightarrow> bool" where
  "supersedes UpgradeMarker Scheduled = True"
| "supersedes _ _ = False"

fun unowned_listener_summary :: "restart_reason \<Rightarrow> string" where
  "unowned_listener_summary Scheduled =
     ''Managed app-server scheduled restart is blocked by an unowned listener.''"
| "unowned_listener_summary UpgradeMarker =
     ''Managed app-server upgrade restart is blocked by an unowned listener.''"

definition app_server_spawn_attempts :: nat where "app_server_spawn_attempts = 3"
definition app_server_spawn_retry_delay :: duration where "app_server_spawn_retry_delay = millis 20"
definition app_server_external_probe_interval :: duration where
  "app_server_external_probe_interval = secs 30"
definition app_server_drain_timeout_detail :: string where
  "app_server_drain_timeout_detail = ''Drain timeout elapsed while active turns were still running.''"

subsection \<open>The manager, its environment and its actions\<close>

record app_server_manager =
  m_enabled :: bool
  m_listen_url :: "string option"
  m_child :: "nat option"
  m_last_start_failure :: "instant option"
  m_last_external_probe :: "instant option"
  m_state :: instance_state
  m_generation :: nat
  m_active_turn_count :: nat
  m_status_summary :: "string option"
  m_last_error :: "string option"
  m_pending_restart :: "pending_restart option"
  m_next_scheduled_restart_at :: "instant option"
  m_last_upgrade_marker_modified :: "nat option"

record os_command =
  cmd_program :: string
  cmd_args :: "string list"
  cmd_cwd :: "string option"
  cmd_env :: "(string \<times> string) list"

datatype spawn_answer = Spawned nat | SpawnBusy string | SpawnFailed string
datatype wait_answer = Exited string | Running | WaitError string

datatype m_action =
    ActProbe string
  | ActSpawn os_command nat
  | ActTerminate nat "string option"
  | ActSleep duration

datatype m_fault = Panicked | OutOfFuel

record mworld = app_server_manager +
  w_tick :: nat
  w_now :: "nat \<Rightarrow> instant"
  w_health :: "nat \<Rightarrow> string option"
  w_spawn :: "nat \<Rightarrow> spawn_answer"
  w_try_wait :: "nat \<Rightarrow> wait_answer"
  w_terminate :: "nat \<Rightarrow> string option"
  w_marker :: "nat \<Rightarrow> nat option"
  w_shutdown :: "nat \<Rightarrow> bool"
  w_uri :: uri_parser
  w_trace :: "m_action list"

type_synonym 'a mgr = "(mworld, 'a) state"

definition ask :: "(mworld \<Rightarrow> nat \<Rightarrow> 'a) \<Rightarrow> 'a mgr" where
  "ask f = State (\<lambda>w. (f w (w_tick w), w\<lparr>w_tick := Suc (w_tick w)\<rparr>))"

definition act :: "m_action \<Rightarrow> unit mgr" where
  "act a = modify (\<lambda>w. w\<lparr>w_trace := w_trace w @ [a]\<rparr>)"

definition now :: "instant mgr" where "now = ask w_now"

definition health_check :: "string \<Rightarrow> (string + unit) mgr" where
  "health_check url =
     do { act (ActProbe url); r \<leftarrow> ask w_health;
          ret (case r of None \<Rightarrow> Inr () | Some e \<Rightarrow> Inl e) }"

definition terminate_child :: "nat \<Rightarrow> (string + unit) mgr" where
  "terminate_child pid =
     do { r \<leftarrow> ask w_terminate; act (ActTerminate pid r);
          ret (case r of None \<Rightarrow> Inr () | Some e \<Rightarrow> Inl e) }"

definition sleep :: "duration \<Rightarrow> unit mgr" where "sleep d = act (ActSleep d)"

definition upgrade_marker_modified :: "string option \<Rightarrow> nat option mgr" where
  "upgrade_marker_modified marker = (case marker of None \<Rightarrow> ret None | Some _ \<Rightarrow> ask w_marker)"

subsection \<open>Operations\<close>

definition new_manager :: "agent_config \<Rightarrow> nat option \<Rightarrow> app_server_manager" where
  "new_manager c marker_modified =
     (let managed = si_managed_app_server (ac_session_inventory c)
      in \<lparr> m_enabled = ma_enabled managed,
           m_listen_url = (case ma_listen_url managed of Some u \<Rightarrow> Some u
                           | None \<Rightarrow> si_app_server_url (ac_session_inventory c)),
           m_child = None, m_last_start_failure = None, m_last_external_probe = None,
           m_state = Stopped, m_generation = 0, m_active_turn_count = 0,
           m_status_summary = None, m_last_error = None, m_pending_restart = None,
           m_next_scheduled_restart_at = None,
           m_last_upgrade_marker_modified = marker_modified \<rparr>)"

definition set_state :: "instance_state \<Rightarrow> string \<Rightarrow> string option \<Rightarrow> unit mgr" where
  "set_state st summary err =
     modify (\<lambda>w. w\<lparr>m_generation := (if m_state w \<noteq> st then sat_add u64_max (m_generation w) 1
                                    else m_generation w),
                   m_state := st, m_status_summary := Some summary, m_last_error := err\<rparr>)"

definition begin_turn :: "unit mgr" where
  "begin_turn = modify (\<lambda>w. w\<lparr>m_active_turn_count := sat_add u32_max (m_active_turn_count w) 1\<rparr>)"

definition finish_turn :: "unit mgr" where
  "finish_turn = modify (\<lambda>w. w\<lparr>m_active_turn_count := m_active_turn_count w - 1\<rparr>)"

definition record_start_failure :: "unit mgr" where
  "record_start_failure = do { t \<leftarrow> now; modify (\<lambda>w. w\<lparr>m_last_start_failure := Some t\<rparr>) }"

definition stop_child_checked :: "string \<Rightarrow> (string + unit) mgr" where
  "stop_child_checked reason =
     do { c \<leftarrow> gets m_child;
          (case c of
             None \<Rightarrow> ret (Inr ())
           | Some pid \<Rightarrow>
               tryE (terminate_child pid) (\<lambda>_.
                 do { modify (\<lambda>w. w\<lparr>m_child := None\<rparr>); ret (Inr ()) })) }"

definition stop_child :: "string \<Rightarrow> unit mgr" where
  "stop_child reason = do { _ \<leftarrow> stop_child_checked reason; ret () }"

definition clear_exited_child :: "unit mgr" where
  "clear_exited_child =
     do { c \<leftarrow> gets m_child;
          (case c of None \<Rightarrow> ret () | Some pid \<Rightarrow>
            do { r \<leftarrow> ask w_try_wait;
                 (case r of
                    Running \<Rightarrow> ret ()
                  | Exited status \<Rightarrow>
                      do { set_state Degraded ''Managed app-server exited unexpectedly.''
                             (Some (''Process exited with status '' @ status @ ''.''));
                           stop_child ''managed app-server exited; cleaning up process group'';
                           record_start_failure }
                  | WaitError e \<Rightarrow>
                      do { set_state Degraded ''Failed to inspect managed app-server status.'' (Some e);
                           stop_child ''managed app-server exited; cleaning up process group'';
                           record_start_failure }) }) }"

definition start_backoff_deadline :: "agent_config \<Rightarrow> instant option mgr" where
  "start_backoff_deadline c =
     (let backoff = secs (max (ma_restart_backoff_seconds (si_managed_app_server (ac_session_inventory c))) 1)
      in gets (\<lambda>w. Option.bind (m_last_start_failure w) (\<lambda>t. instant_checked_add t backoff)))"

definition can_attempt_start :: "agent_config \<Rightarrow> bool mgr" where
  "can_attempt_start c =
     do { d \<leftarrow> start_backoff_deadline c;
          (case d of None \<Rightarrow> ret True | Some deadline \<Rightarrow> do { t \<leftarrow> now; ret (deadline \<le> t) }) }"

definition validated_listen_url :: "string option mgr" where
  "validated_listen_url =
     gets (\<lambda>w. case m_listen_url w of None \<Rightarrow> None
               | Some u \<Rightarrow> (if is_managed_listen_url (w_uri w) u then Some u else None))"

definition app_server_command :: "agent_config \<Rightarrow> string \<Rightarrow> os_command" where
  "app_server_command c listen_url =
     (let ex = ac_execution c; si = ac_session_inventory c
      in \<lparr> cmd_program = ex_codex_command ex,
           cmd_args =
             (case ex_codex_profile ex of Some p \<Rightarrow> [''--profile'', p] | None \<Rightarrow> [])
           @ (case ex_codex_model ex of Some m \<Rightarrow> [''--model'', m] | None \<Rightarrow> [])
           @ [''app-server''] @ ma_extra_args (si_managed_app_server si) @ [''--listen'', listen_url],
           cmd_cwd = Some (ac_workspace_root c),
           cmd_env = (case si_codex_home si of Some h \<Rightarrow> [(''CODEX_HOME'', h)] | None \<Rightarrow> []) \<rparr>)"

text \<open>The spawn loop: \<open>n\<close> attempts are left; only a busy executable is tried again.\<close>

fun spawn_attempts :: "nat \<Rightarrow> os_command \<Rightarrow> (string + nat) mgr" where
  "spawn_attempts 0 cmd = ret (Inl ''app-server spawn failed'')"
| "spawn_attempts (Suc n) cmd =
     do { r \<leftarrow> ask w_spawn;
          (case r of
             Spawned pid \<Rightarrow> do { act (ActSpawn cmd pid); ret (Inr pid) }
           | SpawnBusy e \<Rightarrow>
               (if 0 < n then do { sleep app_server_spawn_retry_delay; spawn_attempts n cmd }
                else ret (Inl e))
           | SpawnFailed e \<Rightarrow> ret (Inl e)) }"

definition spawn_app_server :: "agent_config \<Rightarrow> string \<Rightarrow> (string + nat) mgr" where
  "spawn_app_server c listen_url =
     spawn_attempts app_server_spawn_attempts (app_server_command c listen_url)"

text \<open>One round of \<open>wait_until_ready\<close> (\<open>None\<close>: go round again), then the loop.\<close>

definition wait_round :: "agent_config \<Rightarrow> string \<Rightarrow> instant \<Rightarrow> bool option mgr" where
  "wait_round c listen_url deadline =
     do { t \<leftarrow> now;
          (if deadline \<le> t then ret (Some False)
           else do {
             stop \<leftarrow> ask w_shutdown;
             (if stop then ret (Some False)
              else do {
                clear_exited_child;
                child \<leftarrow> gets m_child;
                (if child = None then ret (Some False)
                 else do {
                   t1 \<leftarrow> now;
                   (if deadline - t1 = 0 then ret (Some False)
                    else do {
                      r \<leftarrow> health_check listen_url;
                      ready \<leftarrow> (if r = Inr () then do { t2 \<leftarrow> now; ret (t2 \<le> deadline) } else ret False);
                      (if ready then ret (Some True)
                       else do {
                         t3 \<leftarrow> now;
                         whenS (deadline - t3 \<noteq> 0) (sleep (min (deadline - t3) (millis 100)));
                         ret None }) }) }) }) }) }"

fun wait_rounds :: "nat \<Rightarrow> agent_config \<Rightarrow> string \<Rightarrow> instant \<Rightarrow> (m_fault + bool) mgr" where
  "wait_rounds 0 c listen_url deadline = ret (Inl OutOfFuel)"
| "wait_rounds (Suc fuel) c listen_url deadline =
     do { r \<leftarrow> wait_round c listen_url deadline;
          (case r of Some b \<Rightarrow> ret (Inr b) | None \<Rightarrow> wait_rounds fuel c listen_url deadline) }"

definition wait_until_ready :: "nat \<Rightarrow> agent_config \<Rightarrow> string \<Rightarrow> (m_fault + bool) mgr" where
  "wait_until_ready fuel c listen_url =
     (let timeout = secs (max (ma_startup_timeout_seconds (si_managed_app_server (ac_session_inventory c))) 1)
      in do { t \<leftarrow> now;
              (case instant_checked_add t timeout of
                 None \<Rightarrow> ret (Inl Panicked)
               | Some deadline \<Rightarrow> wait_rounds fuel c listen_url deadline) })"

definition probe_ready :: "agent_config \<Rightarrow> string option mgr" where
  "probe_ready c =
     do { u \<leftarrow> validated_listen_url;
          (case u of None \<Rightarrow> ret None | Some url \<Rightarrow>
            do { r \<leftarrow> health_check url; ret (if r = Inr () then Some url else None) }) }"

definition should_preserve_forced_restart_backoff_summary :: "bool mgr" where
  "should_preserve_forced_restart_backoff_summary =
     gets (\<lambda>w. m_state w = Degraded
               \<and> (case m_last_error w of Some e \<Rightarrow> starts_with app_server_drain_timeout_detail e
                                       | None \<Rightarrow> False))"

text \<open>The start of \<open>ensure_ready\<close> after the old child is gone: spawn, wait, record the outcome.\<close>

definition start_app_server :: "nat \<Rightarrow> agent_config \<Rightarrow> string \<Rightarrow> (m_fault + string option) mgr" where
  "start_app_server fuel c listen_url =
     do { s \<leftarrow> spawn_app_server c listen_url;
          (case s of
             Inr pid \<Rightarrow>
               do { modify (\<lambda>w. w\<lparr>m_child := Some pid\<rparr>);
                    tryE (wait_until_ready fuel c listen_url) (\<lambda>ready.
                      if ready
                      then do { set_state Healthy ''Managed app-server is healthy.'' None;
                                ret (Inr (Some listen_url)) }
                      else do { stop_child ''managed app-server did not become healthy before startup timeout'';
                                record_start_failure;
                                set_state Degraded
                                  ''Managed app-server did not become healthy before startup timeout.''
                                  (Some ''Startup health check timed out.'');
                                ret (Inr None) }) }
           | Inl e \<Rightarrow>
               do { record_start_failure;
                    set_state Degraded ''Failed to start managed app-server.'' (Some e);
                    ret (Inr None) }) }"

definition replace_child :: "nat \<Rightarrow> agent_config \<Rightarrow> string \<Rightarrow> (m_fault + string option) mgr" where
  "replace_child fuel c listen_url =
     do { child \<leftarrow> gets m_child;
          (if child = None then start_app_server fuel c listen_url
           else do {
             set_state Restarting ''Restarting unhealthy managed app-server.'' None;
             r \<leftarrow> stop_child_checked ''restarting unhealthy managed app-server'';
             (case r of
                Inr _ \<Rightarrow> start_app_server fuel c listen_url
              | Inl e \<Rightarrow>
                  do { record_start_failure;
                       set_state Degraded ''Failed to stop unhealthy managed app-server.'' (Some e);
                       ret (Inr None) }) }) }"

definition ensure_ready :: "nat \<Rightarrow> agent_config \<Rightarrow> (m_fault + string option) mgr" where
  "ensure_ready fuel c =
     do { u \<leftarrow> validated_listen_url;
          (case u of
             None \<Rightarrow>
               do { set_state Degraded ''Managed app-server listen URL is missing or not local.''
                      (Some ''Invalid managed app-server listen URL.'');
                    ret (Inr None) }
           | Some listen_url \<Rightarrow>
               do { clear_exited_child;
                    r \<leftarrow> health_check listen_url;
                    (if r = Inr ()
                     then do { set_state Healthy ''Managed app-server is healthy.'' None;
                               ret (Inr (Some listen_url)) }
                     else do {
                       can \<leftarrow> can_attempt_start c;
                       (if \<not> can
                        then do { keep \<leftarrow> should_preserve_forced_restart_backoff_summary;
                                  whenS (\<not> keep)
                                    (set_state Degraded ''Managed app-server restart backoff is active.''
                                      (Some ''Health check failed while restart backoff is active.''));
                                  ret (Inr None) }
                        else do {
                          stop \<leftarrow> ask w_shutdown;
                          (if stop
                           then do { set_state Stopped
                                       ''Connector shutdown requested before managed app-server start.'' None;
                                     ret (Inr None) }
                           else replace_child fuel c listen_url) }) }) }) }"

definition request_restart :: "restart_reason \<Rightarrow> unit mgr" where
  "request_restart reason =
     do { p \<leftarrow> gets m_pending_restart;
          (if (case p of Some pending \<Rightarrow> \<not> supersedes reason (pr_reason pending) | None \<Rightarrow> False)
           then ret ()
           else do {
             t \<leftarrow> now;
             modify (\<lambda>w. w\<lparr>m_pending_restart := Some \<lparr>pr_reason = reason, pr_requested_at = t\<rparr>\<rparr>);
             active \<leftarrow> gets m_active_turn_count;
             (if 0 < active then set_state Draining (draining_summary reason) None
              else set_state Restarting (restarting_summary reason False) None) }) }"

definition schedule_periodic_restart :: "agent_config \<Rightarrow> unit mgr" where
  "schedule_periodic_restart c =
     (let interval = secs (ma_scheduled_restart_interval_seconds (si_managed_app_server (ac_session_inventory c)))
      in if interval = 0 then modify (\<lambda>w. w\<lparr>m_next_scheduled_restart_at := None\<rparr>)
         else do {
           t \<leftarrow> now;
           next \<leftarrow> gets m_next_scheduled_restart_at;
           (case next of
              None \<Rightarrow> modify (\<lambda>w. w\<lparr>m_next_scheduled_restart_at := instant_checked_add t interval\<rparr>)
            | Some due \<Rightarrow>
                (if due \<le> t
                 then do {
                   child \<leftarrow> gets m_child;
                   d \<leftarrow> start_backoff_deadline c;
                   (if child = None \<and> (case d of Some deadline \<Rightarrow> t < deadline | None \<Rightarrow> False)
                    then modify (\<lambda>w. w\<lparr>m_next_scheduled_restart_at := d\<rparr>)
                    else request_restart Scheduled) }
                 else ret ())) })"

definition schedule_upgrade_marker_restart :: "agent_config \<Rightarrow> unit mgr" where
  "schedule_upgrade_marker_restart c =
     do { modified \<leftarrow> upgrade_marker_modified
            (ma_upgrade_marker_file (si_managed_app_server (ac_session_inventory c)));
          previous \<leftarrow> gets m_last_upgrade_marker_modified;
          (case (previous, modified) of
             (Some p, Some cur) \<Rightarrow>
               whenS (p < cur)
                 (do { modify (\<lambda>w. w\<lparr>m_last_upgrade_marker_modified := Some cur\<rparr>);
                       request_restart UpgradeMarker })
           | (None, Some cur) \<Rightarrow>
               do { modify (\<lambda>w. w\<lparr>m_last_upgrade_marker_modified := Some cur\<rparr>);
                    request_restart UpgradeMarker }
           | (_, None) \<Rightarrow> ret ()) }"

definition schedule_configured_restart_requests :: "agent_config \<Rightarrow> unit mgr" where
  "schedule_configured_restart_requests c =
     do { schedule_periodic_restart c; schedule_upgrade_marker_restart c }"

definition scheduled_restart_backoff_deadline :: "agent_config \<Rightarrow> pending_restart \<Rightarrow> instant option mgr" where
  "scheduled_restart_backoff_deadline c pending =
     do { child \<leftarrow> gets m_child;
          (if pr_reason pending \<noteq> Scheduled \<or> child \<noteq> None then ret None
           else do {
             d \<leftarrow> start_backoff_deadline c;
             (case d of None \<Rightarrow> ret None
              | Some deadline \<Rightarrow> do { t \<leftarrow> now; ret (if t < deadline then Some deadline else None) }) }) }"

definition block_unowned_listener_restart :: "agent_config \<Rightarrow> restart_reason \<Rightarrow> bool mgr" where
  "block_unowned_listener_restart c reason =
     do { child \<leftarrow> gets m_child;
          (if child \<noteq> None then ret False
           else do {
             p \<leftarrow> probe_ready c;
             (if p = None then ret False
              else do {
                set_state Degraded (unowned_listener_summary reason)
                  (Some ''Restart cannot stop the listening app-server because this connector did not start it.'');
                ret True }) }) }"

definition arm_next_scheduled_restart :: "agent_config \<Rightarrow> unit mgr" where
  "arm_next_scheduled_restart c =
     (let interval = secs (ma_scheduled_restart_interval_seconds (si_managed_app_server (ac_session_inventory c)))
      in if interval = 0 then modify (\<lambda>w. w\<lparr>m_next_scheduled_restart_at := None\<rparr>)
         else do { t \<leftarrow> now;
                   modify (\<lambda>w. w\<lparr>m_next_scheduled_restart_at := instant_checked_add t interval\<rparr>) })"

definition record_forced_restart_result :: "restart_reason \<Rightarrow> bool \<Rightarrow> unit mgr" where
  "record_forced_restart_result reason healthy =
     (if healthy then set_state Healthy (forced_healthy_summary reason) None
      else do {
        e \<leftarrow> gets m_last_error;
        set_state Degraded (forced_degraded_summary reason)
          (Some (case e of
                   Some last_error \<Rightarrow>
                     app_server_drain_timeout_detail @ '' Last restart error: '' @ last_error
                 | None \<Rightarrow> app_server_drain_timeout_detail)) })"

text \<open>The restart itself, once \<open>advance_pending_restart\<close> has decided to go on with it.\<close>

definition perform_restart ::
  "nat \<Rightarrow> agent_config \<Rightarrow> pending_restart \<Rightarrow> bool \<Rightarrow> (m_fault + string option) mgr" where
  "perform_restart fuel c pending force_restart =
     (let reason = pr_reason pending in
      do { modify (\<lambda>w. w\<lparr>m_pending_restart := None\<rparr>);
           arm_next_scheduled_restart c;
           child \<leftarrow> gets m_child;
           whenS (child \<noteq> None \<or> force_restart \<or> overrides_start_backoff reason)
             (modify (\<lambda>w. w\<lparr>m_last_start_failure := None\<rparr>));
           set_state Restarting (restarting_summary reason force_restart)
             (if force_restart then Some ''Drain timeout elapsed while active turns were still running.'' else None);
           r \<leftarrow> stop_child_checked (stop_reason reason force_restart);
           (case r of
              Inl e \<Rightarrow>
                do { modify (\<lambda>w. w\<lparr>m_pending_restart := Some pending\<rparr>);
                     set_state Degraded ''Failed to stop managed app-server for restart.'' (Some e);
                     ret (Inr None) }
            | Inr _ \<Rightarrow>
                do { blocked \<leftarrow> block_unowned_listener_restart c reason;
                     (if blocked
                      then do { modify (\<lambda>w. w\<lparr>m_pending_restart := Some pending\<rparr>); ret (Inr None) }
                      else tryE (ensure_ready fuel c) (\<lambda>url.
                        do { whenS (url \<noteq> None) (arm_next_scheduled_restart c);
                             whenS force_restart (record_forced_restart_result reason (url \<noteq> None));
                             ret (Inr url) })) }) })"

definition advance_pending_restart :: "nat \<Rightarrow> agent_config \<Rightarrow> (m_fault + string option) mgr" where
  "advance_pending_restart fuel c =
     do { p \<leftarrow> gets m_pending_restart;
          (case p of None \<Rightarrow> ret (Inr None) | Some pending \<Rightarrow>
            do {
              clear_exited_child;
              active \<leftarrow> gets m_active_turn_count;
              force_restart \<leftarrow>
                (if 0 < active
                 then do { t \<leftarrow> now;
                           ret (secs (max (ma_drain_timeout_seconds (si_managed_app_server (ac_session_inventory c))) 1)
                                 \<le> t - pr_requested_at pending) }
                 else ret False);
              backoff \<leftarrow> scheduled_restart_backoff_deadline c pending;
              (if 0 < active \<and> backoff \<noteq> None
               then do { modify (\<lambda>w. w\<lparr>m_next_scheduled_restart_at := backoff\<rparr>);
                         set_state Draining (draining_summary (pr_reason pending)) None;
                         ret (Inr None) }
               else if 0 < active \<and> \<not> force_restart
               then do { set_state Draining (draining_summary (pr_reason pending)) None; ret (Inr None) }
               else do {
                 blocked \<leftarrow> block_unowned_listener_restart c (pr_reason pending);
                 (if blocked then ret (Inr None)
                  else if backoff \<noteq> None
                  then do { modify (\<lambda>w. w\<lparr>m_pending_restart := None, m_next_scheduled_restart_at := backoff\<rparr>);
                            ensure_ready fuel c }
                  else perform_restart fuel c pending force_restart) }) }) }"

definition runtime_app_server_url :: "nat \<Rightarrow> agent_config \<Rightarrow> (m_fault + string option) mgr" where
  "runtime_app_server_url fuel c =
     do { schedule_configured_restart_requests c;
          p \<leftarrow> gets m_pending_restart;
          (if p \<noteq> None then advance_pending_restart fuel c else ensure_ready fuel c) }"

definition active_turn_app_server_url :: "nat \<Rightarrow> agent_config \<Rightarrow> (m_fault + string option) mgr" where
  "active_turn_app_server_url fuel c =
     do { schedule_configured_restart_requests c;
          p \<leftarrow> gets m_pending_restart;
          (if p \<noteq> None then advance_pending_restart fuel c
           else ret (Inr (si_app_server_url (ac_session_inventory c)))) }"

definition with_app_server_url :: "agent_config \<Rightarrow> string option \<Rightarrow> agent_config" where
  "with_app_server_url c url =
     c\<lparr>ac_session_inventory := (ac_session_inventory c)\<lparr>si_app_server_url := url\<rparr>\<rparr>"

definition runtime_config_with_start_policy ::
  "nat \<Rightarrow> agent_config \<Rightarrow> bool \<Rightarrow> (m_fault + agent_config) mgr" where
  "runtime_config_with_start_policy fuel c allow_start =
     do { enabled \<leftarrow> gets m_enabled;
          (if \<not> enabled then ret (Inr c)
           else if allow_start
           then tryE (runtime_app_server_url fuel c) (\<lambda>url. ret (Inr (with_app_server_url c url)))
           else do { url \<leftarrow> probe_ready c; ret (Inr (with_app_server_url c url)) }) }"

definition runtime_config :: "nat \<Rightarrow> agent_config \<Rightarrow> (m_fault + agent_config) mgr" where
  "runtime_config fuel c = runtime_config_with_start_policy fuel c True"

definition runtime_config_without_start :: "agent_config \<Rightarrow> (m_fault + agent_config) mgr" where
  "runtime_config_without_start c = runtime_config_with_start_policy 0 c False"

definition runtime_config_during_active_turn ::
  "nat \<Rightarrow> agent_config \<Rightarrow> (m_fault + agent_config) mgr" where
  "runtime_config_during_active_turn fuel c =
     do { enabled \<leftarrow> gets m_enabled;
          (if \<not> enabled then ret (Inr c)
           else tryE (active_turn_app_server_url fuel c) (\<lambda>url. ret (Inr (with_app_server_url c url)))) }"

definition refresh_external_state :: "agent_config \<Rightarrow> unit mgr" where
  "refresh_external_state c =
     (case si_app_server_url (ac_session_inventory c) of None \<Rightarrow> ret () | Some url \<Rightarrow>
       do { t \<leftarrow> now;
            last \<leftarrow> gets m_last_external_probe;
            (if (case last of Some last_probe \<Rightarrow> t - last_probe < app_server_external_probe_interval
                            | None \<Rightarrow> False)
             then ret ()
             else do {
               modify (\<lambda>w. w\<lparr>m_last_external_probe := Some t\<rparr>);
               r \<leftarrow> health_check url;
               (case r of
                  Inr _ \<Rightarrow> set_state Healthy ''External app-server is healthy.'' None
                | Inl e \<Rightarrow> set_state Degraded ''External app-server health check failed.'' (Some e)) }) })"

record app_server_instance_snapshot =
  is_instance_key :: string
  is_scope :: string
  is_endpoint_type :: string
  is_state :: string
  is_active_turn_count :: nat
  is_generation :: nat
  is_status_summary :: "string option"
  is_last_error :: "string option"

definition instance_snapshot :: "agent_config \<Rightarrow> app_server_instance_snapshot option mgr" where
  "instance_snapshot c =
     do { enabled \<leftarrow> gets m_enabled;
          (if \<not> enabled \<and> si_app_server_url (ac_session_inventory c) = None then ret None
           else do {
             whenS (\<not> enabled) (refresh_external_state c);
             gets (\<lambda>w. Some
               \<lparr> is_instance_key = ''default'', is_scope = ''connector'',
                 is_endpoint_type = (if enabled then ''managed'' else ''external''),
                 is_state = instance_state_str (m_state w),
                 is_active_turn_count = m_active_turn_count w, is_generation = m_generation w,
                 is_status_summary = (case m_status_summary w of Some s \<Rightarrow> Some s
                   | None \<Rightarrow> Some (if enabled then ''Managed app-server state is available.''
                                   else ''External app-server endpoint is configured.'')),
                 is_last_error = m_last_error w \<rparr>) }) }"

text \<open>
  \<open>preflight_managed_app_server\<close> on a fresh manager; the private endpoint it listens on is the
  outcome \<open>endpoint\<close> of \<open>AppServerPreflightEndpoint::new\<close>. \<open>Drop\<close> stops the child.
\<close>

definition preflight_managed_app_server ::
  "nat \<Rightarrow> agent_config \<Rightarrow> (string \<Rightarrow> string + string) \<Rightarrow> (m_fault + (string + unit)) mgr" where
  "preflight_managed_app_server fuel c endpoint =
     do { enabled \<leftarrow> gets m_enabled;
          (if \<not> enabled then ret (Inr (Inl ''managed app-server preflight requires managed mode''))
           else do {
             u \<leftarrow> validated_listen_url;
             (case u of None \<Rightarrow> ret (Inr (Inl ''managed app-server preflight requires a local listen URL''))
              | Some configured \<Rightarrow>
                (case endpoint configured of Inl e \<Rightarrow> ret (Inr (Inl e)) | Inr listen_url \<Rightarrow>
                  do { s \<leftarrow> spawn_app_server c listen_url;
                       (case s of Inl e \<Rightarrow> ret (Inr (Inl e)) | Inr pid \<Rightarrow>
                         do { modify (\<lambda>w. w\<lparr>m_child := Some pid\<rparr>);
                              tryE (wait_until_ready fuel c listen_url) (\<lambda>ready.
                                if \<not> ready
                                then do { stop_child ''managed app-server preflight failed'';
                                          ret (Inr (Inl ''managed app-server preflight did not become healthy'')) }
                                else do { r \<leftarrow> stop_child_checked ''managed app-server preflight passed'';
                                          ret (Inr r) }) }) })) }) }"

definition drop_manager :: "unit mgr" where
  "drop_manager = stop_child ''managed app-server manager is shutting down''"

end
