(* ===== verification/Send_State.thy ===== *)
theory Send_State
  imports Session_Types Manager
begin

text \<open>
  What the connector remembers of the reports it sends (\<open>connector.rs\<close>): the capabilities
  (\<open>AgentReadyState\<close>), the host sessions (\<open>HostSessionsSendState\<close>) and the app-server
  instances (\<open>AppServerInstancesSendState\<close>): when each is due, what sending records and what
  an acknowledgement changes, with the texts of the messages.
\<close>

definition connector_read_tick :: duration where "connector_read_tick = secs 5"
definition reconnect_backoff :: duration where "reconnect_backoff = secs 2"
definition agent_ready_retry_interval :: duration where "agent_ready_retry_interval = secs 10"
definition app_server_instance_summary_interval :: duration where
  "app_server_instance_summary_interval = secs (5 * 60)"
definition host_sessions_retry_interval :: duration where
  "host_sessions_retry_interval = agent_ready_retry_interval"
definition app_server_instance_text_limit :: nat where "app_server_instance_text_limit = 512"

text \<open>\<open>is_some_and\<close> on the time of the last send.\<close>

definition sent_within :: "duration \<Rightarrow> instant option \<Rightarrow> instant \<Rightarrow> bool" where
  "sent_within d sent_at t = (case sent_at of Some s \<Rightarrow> t - s < d | None \<Rightarrow> False)"

subsection \<open>The capabilities\<close>

record agent_ready_state =
  ar_last_sent :: "string option"
  ar_last_sent_at :: "instant option"
  ar_last_acked :: "string option"

definition agent_ready_default :: agent_ready_state where
  "agent_ready_default = \<lparr> ar_last_sent = None, ar_last_sent_at = None, ar_last_acked = None \<rparr>"

datatype agent_ready_send = NotSent | SentSamePayload | SentChangedPayload

definition changed_payload :: "agent_ready_send \<Rightarrow> bool" where
  "changed_payload s \<longleftrightarrow> s = SentChangedPayload"

definition should_send_agent_ready :: "string \<Rightarrow> agent_ready_state \<Rightarrow> bool \<Rightarrow> instant \<Rightarrow> bool" where
  "should_send_agent_ready message st force t =
     (if force then True
      else if ar_last_sent st = Some message \<and> ar_last_acked st = Some message then False
      else if ar_last_sent st = Some message
              \<and> sent_within agent_ready_retry_interval (ar_last_sent_at st) t then False
      else True)"

definition record_agent_ready_sent ::
  "agent_ready_state \<Rightarrow> string \<Rightarrow> instant \<Rightarrow> agent_ready_send \<times> agent_ready_state" where
  "record_agent_ready_sent st message t =
     (let changed = (ar_last_sent st \<noteq> Some message)
      in (if changed then SentChangedPayload else SentSamePayload,
          \<lparr> ar_last_sent = Some message, ar_last_sent_at = Some t,
            ar_last_acked = (if changed then None else ar_last_acked st) \<rparr>))"

definition acknowledge_agent_ready :: "agent_ready_state \<Rightarrow> string \<Rightarrow> agent_ready_state" where
  "acknowledge_agent_ready st message =
     \<lparr> ar_last_sent = Some message, ar_last_sent_at = None, ar_last_acked = Some message \<rparr>"

definition agent_ready_json :: "string list \<Rightarrow> json" where
  "agent_ready_json caps =
     jobj [(''kind'', JStr ''agent.ready''),
           (''payload'', jobj [(''capabilities'', JArr (map JStr caps))])]"

definition agent_ready_message :: "('a serde_scheme) \<Rightarrow> string list \<Rightarrow> string" where
  "agent_ready_message sd caps = js_print sd (agent_ready_json caps)"

text \<open>The kind a \<open>server.ack\<close> acknowledges.\<close>

definition acks :: "envelope \<Rightarrow> string \<Rightarrow> bool" where
  "acks e kind \<longleftrightarrow> en_kind e = ''server.ack'' \<and> jget_str (en_payload e) ''kind'' = Some kind"

definition agent_ready_ack_message :: "('a serde_scheme) \<Rightarrow> envelope \<Rightarrow> string option" where
  "agent_ready_ack_message sd e =
     (if \<not> acks e ''agent.ready'' then None
      else map_option (\<lambda>values. agent_ready_message sd (List.map_filter as_str values))
             (jget_array (en_payload e) ''capabilities''))"

subsection \<open>The host sessions\<close>

record host_sessions_send_state =
  hss_last_sent :: "string option"
  hss_last_sent_at :: "instant option"
  hss_last_acked :: "string option"

definition host_sessions_default :: host_sessions_send_state where
  "host_sessions_default = \<lparr> hss_last_sent = None, hss_last_sent_at = None, hss_last_acked = None \<rparr>"

definition should_send_host_sessions :: "string \<Rightarrow> host_sessions_send_state \<Rightarrow> bool \<Rightarrow> instant \<Rightarrow> bool" where
  "should_send_host_sessions message st force t =
     (if force then True
      else if hss_last_acked st = Some message then False
      else if hss_last_sent st = Some message
              \<and> sent_within host_sessions_retry_interval (hss_last_sent_at st) t then False
      else True)"

definition record_host_sessions_sent :: "string \<Rightarrow> instant \<Rightarrow> host_sessions_send_state" where
  "record_host_sessions_sent message t =
     \<lparr> hss_last_sent = Some message, hss_last_sent_at = Some t, hss_last_acked = None \<rparr>"

definition acknowledge_host_sessions :: "host_sessions_send_state \<Rightarrow> host_sessions_send_state" where
  "acknowledge_host_sessions st =
     (case hss_last_sent st of None \<Rightarrow> st
      | Some message \<Rightarrow> st\<lparr>hss_last_sent_at := None, hss_last_acked := Some message\<rparr>)"

definition fallback_host_sessions_report :: "agent_config \<Rightarrow> agent_host_sessions_report" where
  "fallback_host_sessions_report c =
     \<lparr> hr_sessions = [], hr_inventory_scope = Incremental,
       hr_app_server_inventory_ok = map_option (\<lambda>_. False) (si_app_server_url (ac_session_inventory c)) \<rparr>"

text \<open>The outcome of building the report is handed in.\<close>

definition host_sessions_message_with_scope ::
  "('a serde_scheme) \<Rightarrow> agent_config \<Rightarrow> string + agent_host_sessions_report \<Rightarrow> inventory_scope option \<Rightarrow> string" where
  "host_sessions_message_with_scope sd c built scope =
     (let report = (case built of Inl _ \<Rightarrow> fallback_host_sessions_report c | Inr r \<Rightarrow> r);
          report = (case scope of Some s \<Rightarrow> report\<lparr>hr_inventory_scope := s\<rparr> | None \<Rightarrow> report)
      in js_print sd (jobj [(''kind'', JStr ''agent.host_sessions''), (''payload'', report_json report)]))"

definition host_sessions_ack_message :: "envelope \<Rightarrow> bool" where
  "host_sessions_ack_message e = acks e ''agent.host_sessions''"

subsection \<open>The app-server instances\<close>

record app_server_instances_send_state =
  as_last_sent :: "string option"
  as_last_sent_id :: "string option"
  as_last_sent_key :: "string option"
  as_last_sent_snapshot :: bool
  as_last_sent_at :: "instant option"
  as_last_acked :: "string option"
  as_last_acked_id :: "string option"
  as_last_acked_key :: "string option"
  as_next_report_id :: nat

definition app_server_instances_default :: app_server_instances_send_state where
  "app_server_instances_default =
     \<lparr> as_last_sent = None, as_last_sent_id = None, as_last_sent_key = None,
       as_last_sent_snapshot = False, as_last_sent_at = None, as_last_acked = None,
       as_last_acked_id = None, as_last_acked_key = None, as_next_report_id = 0 \<rparr>"

definition should_send_app_server_instances ::
  "string \<Rightarrow> app_server_instances_send_state \<Rightarrow> bool \<Rightarrow> instant \<Rightarrow> bool" where
  "should_send_app_server_instances key st force t =
     (if force then True
      else if as_last_acked_key st = Some key
      then (case as_last_sent_at st of None \<Rightarrow> True
            | Some sent_at \<Rightarrow> app_server_instance_summary_interval \<le> t - sent_at)
      else if as_last_sent_key st = Some key
              \<and> sent_within agent_ready_retry_interval (as_last_sent_at st) t then False
      else True)"

definition report_id_text :: "nat \<Rightarrow> string" where
  "report_id_text n = ''app-server-report-'' @ show_nat n"

definition next_report_id ::
  "app_server_instances_send_state \<Rightarrow> string \<times> app_server_instances_send_state" where
  "next_report_id st =
     (let n = sat_add u64_max (as_next_report_id st) 1
      in (report_id_text n, st\<lparr>as_next_report_id := n\<rparr>))"

text \<open>What a report sent leaves, after its id was drawn.\<close>

definition record_app_server_instances_sent ::
  "app_server_instances_send_state \<Rightarrow> string \<Rightarrow> string \<Rightarrow> string \<Rightarrow> bool \<Rightarrow> instant
    \<Rightarrow> app_server_instances_send_state" where
  "record_app_server_instances_sent st message report_id key send_snapshot t =
     st\<lparr>as_last_sent := Some message, as_last_sent_id := Some report_id, as_last_sent_key := Some key,
        as_last_sent_snapshot := send_snapshot, as_last_sent_at := Some t, as_last_acked := None,
        as_last_acked_id := None, as_last_acked_key := None\<rparr>"

definition has_unacked_snapshot_for_key :: "app_server_instances_send_state \<Rightarrow> string \<Rightarrow> bool" where
  "has_unacked_snapshot_for_key st key \<longleftrightarrow>
     as_last_sent_snapshot st \<and> as_last_sent_key st = Some key \<and> as_last_sent_id st \<noteq> None
     \<and> as_last_acked_id st \<noteq> as_last_sent_id st"

definition acknowledge_app_server_instances ::
  "app_server_instances_send_state \<Rightarrow> string option \<Rightarrow> app_server_instances_send_state" where
  "acknowledge_app_server_instances st report_id =
     (if report_id \<noteq> None \<and> as_last_sent_id st \<noteq> report_id then st
      else (case as_last_sent st of None \<Rightarrow> st
            | Some message \<Rightarrow>
                st\<lparr>as_last_acked := Some message, as_last_acked_id := as_last_sent_id st,
                   as_last_acked_key := as_last_sent_key st\<rparr>))"

definition bounded_app_server_instance_text :: "string \<Rightarrow> string" where
  "bounded_app_server_instance_text v =
     (if chars_count v \<le> app_server_instance_text_limit then v
      else chars_take (app_server_instance_text_limit - 3) v @ ''...'')"

definition instance_json :: "app_server_instance_snapshot \<Rightarrow> json" where
  "instance_json i =
     jobj ([(''instance_key'', JStr (is_instance_key i)), (''scope'', JStr (is_scope i)),
            (''endpoint_type'', JStr (is_endpoint_type i)), (''state'', JStr (is_state i)),
            (''active_turn_count'', JNum (PosInt (is_active_turn_count i))),
            (''generation'', JNum (PosInt (is_generation i)))]
         @ opt_entry ''status_summary'' (\<lambda>s. JStr (bounded_app_server_instance_text s)) (is_status_summary i)
         @ opt_entry ''last_error'' (\<lambda>s. JStr (bounded_app_server_instance_text s)) (is_last_error i))"

text \<open>The message, from the instance the manager reports.\<close>

definition app_server_instances_json :: "json list \<Rightarrow> bool \<Rightarrow> json" where
  "app_server_instances_json instances snapshot =
     jobj [(''kind'', JStr ''agent.app_server_instances''),
           (''payload'', jobj [(''snapshot'', JBool snapshot), (''instances'', JArr instances)])]"

definition app_server_instances_message ::
  "('a serde_scheme) \<Rightarrow> app_server_instance_snapshot option \<Rightarrow> bool \<Rightarrow> string option" where
  "app_server_instances_message sd i snapshot =
     (case i of
        Some inst \<Rightarrow> Some (js_print sd (app_server_instances_json [instance_json inst] snapshot))
      | None \<Rightarrow> (if snapshot then Some (js_print sd (app_server_instances_json [] snapshot)) else None))"

text \<open>
  Rewriting the text of a message: parse, set a field of the payload, print. Setting a field of
  what is no object panics, which is the inner \<open>None\<close>.
\<close>

definition set_payload_field ::
  "('a serde_scheme) \<Rightarrow> string \<Rightarrow> string \<Rightarrow> json \<Rightarrow> string + string option" where
  "set_payload_field sd message field v =
     (case js_parse sd message of Inl e \<Rightarrow> Inl e
      | Inr value \<Rightarrow> Inr (map_option (js_print sd) (jset2 value ''payload'' field v)))"

definition app_server_instances_message_with_report_id ::
  "('a serde_scheme) \<Rightarrow> string \<Rightarrow> string \<Rightarrow> string + string option" where
  "app_server_instances_message_with_report_id sd message report_id =
     set_payload_field sd message ''report_id'' (JStr report_id)"

definition app_server_instances_message_with_snapshot ::
  "('a serde_scheme) \<Rightarrow> string \<Rightarrow> bool \<Rightarrow> string + string option" where
  "app_server_instances_message_with_snapshot sd message snapshot =
     set_payload_field sd message ''snapshot'' (JBool snapshot)"

definition strip_report_fields :: "json \<Rightarrow> json" where
  "strip_report_fields value =
     (case value of
        JObj m \<Rightarrow>
          (case map_of m ''payload'' of
             Some (JObj p) \<Rightarrow>
               JObj (obj_insert ''payload'' (JObj (obj_remove ''snapshot'' (obj_remove ''report_id'' p))) m)
           | _ \<Rightarrow> value)
      | _ \<Rightarrow> value)"

definition app_server_instances_message_key :: "('a serde_scheme) \<Rightarrow> string \<Rightarrow> string + string" where
  "app_server_instances_message_key sd message =
     (case js_parse sd message of Inl e \<Rightarrow> Inl e
      | Inr value \<Rightarrow> Inr (js_print sd (strip_report_fields value)))"

definition app_server_instances_ack_message :: "envelope \<Rightarrow> string option option" where
  "app_server_instances_ack_message e =
     (if acks e ''agent.app_server_instances'' then Some (jget_str (en_payload e) ''report_id'') else None)"

subsection \<open>What the states mean\<close>

lemma jset2_report:
  "jset2 (app_server_instances_json xs b) ''payload'' ''report_id'' (JStr i) =
     Some (jobj [(''kind'', JStr ''agent.app_server_instances''),
           (''payload'', jobj [(''snapshot'', JBool b), (''instances'', JArr xs), (''report_id'', JStr i)])])"
  by (simp add: app_server_instances_json_def jset2_def jset_def jobj_def obj_of_def)

lemma jset2_snapshot:
  "jset2 (app_server_instances_json xs b) ''payload'' ''snapshot'' (JBool b') =
     Some (app_server_instances_json xs b')"
  by (simp add: app_server_instances_json_def jset2_def jset_def jobj_def obj_of_def)

lemma strip_instances_json:
  "strip_report_fields (app_server_instances_json xs b) =
     jobj [(''kind'', JStr ''agent.app_server_instances''), (''payload'', jobj [(''instances'', JArr xs)])]"
  by (simp add: strip_report_fields_def app_server_instances_json_def jobj_def obj_of_def obj_remove_def)

lemma instances_message_cases:
  "app_server_instances_message sd i snapshot = Some m \<Longrightarrow>
   \<exists>xs. m = js_print sd (app_server_instances_json xs snapshot)"
  by (auto simp: app_server_instances_message_def split: option.splits if_splits)

lemma bounded_text_bound: "chars_count (bounded_app_server_instance_text v) \<le> app_server_instance_text_limit"
  by (simp add: bounded_app_server_instance_text_def chars_count_dots app_server_instance_text_limit_def)


subsection \<open>The reports of the app-server instances as a state machine\<close>

text \<open>
  One step: a report sent (its id drawn, then recorded), an id drawn for a report that could
  not be sent, an acknowledgement. The list holds the ids of the reports sent, oldest first.
\<close>

inductive report_step ::
  "app_server_instances_send_state \<times> string list \<Rightarrow> app_server_instances_send_state \<times> string list \<Rightarrow> bool" where
  report_sent: "next_report_id st = (i, st') \<Longrightarrow>
     report_step (st, ids) (record_app_server_instances_sent st' message i key snapshot t, ids @ [i])"
| report_failed: "next_report_id st = (i, st') \<Longrightarrow> report_step (st, ids) (st', ids)"
| report_acked: "report_step (st, ids) (acknowledge_app_server_instances st report_id, ids)"

inductive report_reach :: "app_server_instances_send_state \<times> string list \<Rightarrow> bool" where
  report_start: "report_reach (app_server_instances_default, [])"
| report_next: "report_reach x \<Longrightarrow> report_step x y \<Longrightarrow> report_reach y"

definition report_inv :: "app_server_instances_send_state \<Rightarrow> string list \<Rightarrow> bool" where
  "report_inv st ids \<longleftrightarrow>
     as_next_report_id st \<le> u64_max
     \<and> (\<forall>i \<in> set ids. \<exists>n. n \<le> as_next_report_id st \<and> i = report_id_text n)
     \<and> (as_next_report_id st < u64_max \<longrightarrow> distinct ids)
     \<and> as_last_sent_id st = (if ids = [] then None else Some (last ids))
     \<and> (as_last_sent st = None \<longleftrightarrow> ids = [])
     \<and> (as_last_acked_id st \<noteq> None \<longrightarrow>
          as_last_acked_id st = as_last_sent_id st \<and> as_last_acked_key st = as_last_sent_key st)
     \<and> (as_last_acked_id st = None \<longrightarrow> as_last_acked_key st = None)"

lemma report_id_text_inj: "m \<le> u64_max \<Longrightarrow> n \<le> u64_max \<Longrightarrow> report_id_text m = report_id_text n \<Longrightarrow> m = n"
  unfolding report_id_text_def by (metis option.inject parse_show_nat same_append_eq)

lemma report_inv_step: "report_step x y \<Longrightarrow> report_inv (fst x) (snd x) \<Longrightarrow> report_inv (fst y) (snd y)"
proof (induction rule: report_step.induct)
  case (report_sent st i st' ids message key snapshot t)
  let ?n = "sat_add u64_max (as_next_report_id st) 1"
  from report_sent have i: "i = report_id_text ?n" and st': "st' = st\<lparr>as_next_report_id := ?n\<rparr>"
    and inv: "report_inv st ids"
    by (auto simp: next_report_id_def Let_def)
  have up: "as_next_report_id st \<le> ?n" using inv by (simp add: report_inv_def sat_add_mono)
  have "\<forall>j \<in> set ids. \<exists>n \<le> ?n. j = report_id_text n"
    using inv up le_trans unfolding report_inv_def by blast
  moreover have "i \<notin> set ids" if "?n < u64_max"
  proof
    assume "i \<in> set ids"
    then obtain m where "m \<le> as_next_report_id st" "i = report_id_text m" using inv by (auto simp: report_inv_def)
    with i report_id_text_inj [of m ?n] that inv show False by (simp add: report_inv_def sat_add_def)
  qed
  ultimately show ?case
    using i inv st' up by (auto simp: report_inv_def record_app_server_instances_sent_def)
next
  case (report_failed st i st' ids)
  then have "st' = st\<lparr>as_next_report_id := sat_add u64_max (as_next_report_id st) 1\<rparr>"
    by (simp add: next_report_id_def Let_def)
  moreover from report_failed have up: "as_next_report_id st \<le> sat_add u64_max (as_next_report_id st) 1"
    by (simp add: report_inv_def sat_add_mono)
  moreover from report_failed up have
    "\<forall>j \<in> set ids. \<exists>n \<le> sat_add u64_max (as_next_report_id st) 1. j = report_id_text n"
    using le_trans unfolding report_inv_def fst_conv snd_conv by blast
  ultimately show ?case using report_failed.prems by (auto simp: report_inv_def)
next
  case (report_acked st ids report_id)
  then show ?case
    by (auto simp: report_inv_def acknowledge_app_server_instances_def split: option.splits)
qed

lemma report_reach_inv: "report_reach x \<Longrightarrow> report_inv (fst x) (snd x)"
proof (induction rule: report_reach.induct)
  case report_start
  then show ?case by (simp add: report_inv_def app_server_instances_default_def)
next
  case (report_next x y)
  from report_inv_step [OF report_next.hyps(2) report_next.IH] show ?case .
qed

subsection \<open>Values without floats\<close>

text \<open>Printing and reading back is exact on values without floating point numbers.\<close>

lemma no_floats_instance: "no_floats (instance_json i)"
  unfolding instance_json_def by (rule no_floats_jobj) (auto simp: opt_entry_def split: option.splits)

lemma no_floats_instances: "\<forall>x \<in> set xs. no_floats x \<Longrightarrow> no_floats (app_server_instances_json xs b)"
  unfolding app_server_instances_json_def by (intro no_floats_jobj) (auto intro!: no_floats_jobj)

lemma instances_key:
  "exact_text sd \<Longrightarrow> \<forall>x \<in> set xs. no_floats x \<Longrightarrow>
   app_server_instances_message_key sd (js_print sd (app_server_instances_json xs b))
     = Inr (js_print sd (jobj [(''kind'', JStr ''agent.app_server_instances''),
                               (''payload'', jobj [(''instances'', JArr xs)])]))"
  by (simp add: app_server_instances_message_key_def exact_text_def no_floats_instances strip_instances_json)

lemma instances_with_snapshot:
  "exact_text sd \<Longrightarrow> \<forall>x \<in> set xs. no_floats x \<Longrightarrow>
   app_server_instances_message_with_snapshot sd (js_print sd (app_server_instances_json xs b)) b'
     = Inr (Some (js_print sd (app_server_instances_json xs b')))"
  by (simp add: app_server_instances_message_with_snapshot_def set_payload_field_def exact_text_def
      no_floats_instances jset2_snapshot)

lemma instances_with_report_id:
  "exact_text sd \<Longrightarrow> \<forall>x \<in> set xs. no_floats x \<Longrightarrow>
   app_server_instances_message_with_report_id sd (js_print sd (app_server_instances_json xs b)) i
     = Inr (Some (js_print sd (jobj [(''kind'', JStr ''agent.app_server_instances''),
           (''payload'', jobj [(''snapshot'', JBool b), (''instances'', JArr xs), (''report_id'', JStr i)])])))"
  by (simp add: app_server_instances_message_with_report_id_def set_payload_field_def exact_text_def
      no_floats_instances jset2_report)

end
