(* ===== verification/Connector.thy ===== *)
theory Connector
  imports Send_State
begin

text \<open>
  \<open>connector.rs\<close>: the connection to the control plane. The record \<open>cworld\<close> holds the state
  the functions share (what was sent and acknowledged, the deferred messages, the app-server
  manager) and the answers of the system, indexed by the number of questions asked: the clock,
  the shutdown flag, the socket's reads and the outcome of each send, the outcome of each call
  into the session inventory, the worker thread's channel. Its log has every action in order.
  Loops take fuel (\<open>ConnFuel\<close>); a panic of the code is \<open>ConnPanic\<close>.
\<close>

subsection \<open>The world of a connection\<close>

datatype worker_answer = WorkerDone "connector_event list" | WorkerBusy | WorkerGone

datatype conn_action =
    ASend frame "string option"
  | ARead read_answer
  | AClose
  | ASetReadTimeout duration
  | AReport
  | ACreateThread "string option"
  | ABackfill string nat
  | AEnsureSession string "string option" "string option"
  | ASetArchived string bool
  | AStartCodex string
  | AStartAppServerCommand string "string option" string string
  | ACancelWorker
  | AJoinWorker
  | ADeliver turn_interaction_response_dispatch bool
  | AClearActive
  | AReconnectSleep duration

datatype conn_fault = ConnError string | ConnPanic | ConnFuel

record cworld =
  k_wire :: wire
  k_tick :: nat
  k_now :: "nat \<Rightarrow> instant"
  k_stop :: "nat \<Rightarrow> bool"
  k_connect :: "nat \<Rightarrow> string option"
  k_token :: "nat \<Rightarrow> string + string"
  k_read :: "nat \<Rightarrow> read_answer"
  k_send :: "nat \<Rightarrow> string option"
  k_configure :: "nat \<Rightarrow> string option"
  k_report :: "nat \<Rightarrow> string + agent_host_sessions_report"
  k_create :: "nat \<Rightarrow> string + agent_host_session"
  k_backfill :: "nat \<Rightarrow> string + host_session_backfill"
  k_ensure :: "nat \<Rightarrow> string + agent_host_session"
  k_archive :: "nat \<Rightarrow> string + bool"
  k_result :: "nat \<Rightarrow> worker_answer"
  k_event :: "nat \<Rightarrow> connector_event option"
  k_active :: "nat \<Rightarrow> string + string option"
  k_clear :: "nat \<Rightarrow> string option"
  k_deliver :: "nat \<Rightarrow> bool"
  k_join_panic :: "nat \<Rightarrow> bool"
  k_log :: "conn_action list"
  k_mgr :: mworld
  k_ready :: agent_ready_state
  k_hosts :: host_sessions_send_state
  k_insts :: app_server_instances_send_state
  k_deferred :: "string list"

type_synonym 'a conn = "(cworld, conn_fault + 'a) state"

definition kask :: "(cworld \<Rightarrow> nat \<Rightarrow> 'a) \<Rightarrow> (cworld, 'a) state" where
  "kask f = State (\<lambda>w. (f w (k_tick w), w\<lparr>k_tick := Suc (k_tick w)\<rparr>))"

definition klog :: "conn_action \<Rightarrow> (cworld, unit) state" where
  "klog a = modify (\<lambda>w. w\<lparr>k_log := k_log w @ [a]\<rparr>)"

definition on_mgr :: "'a mgr \<Rightarrow> (cworld, 'a) state" where
  "on_mgr m = State (\<lambda>w. case run_state m (k_mgr w) of (r, m') \<Rightarrow> (r, w\<lparr>k_mgr := m'\<rparr>))"

text \<open>An outcome of the system that is an error or nothing; a \<open>Result\<close>; the manager's faults.\<close>

definition unless :: "string option \<Rightarrow> unit conn" where
  "unless r = ret (case r of None \<Rightarrow> Inr () | Some e \<Rightarrow> Inl (ConnError e))"

definition result_of :: "string + 'a \<Rightarrow> 'a conn" where
  "result_of r = ret (case r of Inl e \<Rightarrow> Inl (ConnError e) | Inr x \<Rightarrow> Inr x)"

definition panic_or :: "string + 'a option \<Rightarrow> 'a conn" where
  "panic_or r =
     ret (case r of Inl e \<Rightarrow> Inl (ConnError e) | Inr None \<Rightarrow> Inl ConnPanic | Inr (Some x) \<Rightarrow> Inr x)"

definition mgr_result :: "m_fault + 'a \<Rightarrow> 'a conn" where
  "mgr_result r =
     ret (case r of Inl Panicked \<Rightarrow> Inl ConnPanic | Inl OutOfFuel \<Rightarrow> Inl ConnFuel | Inr x \<Rightarrow> Inr x)"

text \<open>A \<open>Result\<close> kept as a value (an error is not propagated, a panic is).\<close>

definition catchE :: "'a conn \<Rightarrow> (string + 'a \<Rightarrow> 'b conn) \<Rightarrow> 'b conn" where
  "catchE m f =
     do { r \<leftarrow> m;
          (case r of
             Inr x \<Rightarrow> f (Inr x)
           | Inl (ConnError e) \<Rightarrow> f (Inl e)
           | Inl ConnPanic \<Rightarrow> ret (Inl ConnPanic)
           | Inl ConnFuel \<Rightarrow> ret (Inl ConnFuel)) }"

definition fail :: "string \<Rightarrow> 'a conn" where "fail e = ret (Inl (ConnError e))"
definition ok :: "'a \<Rightarrow> 'a conn" where "ok x = ret (Inr x)"

definition send_frame :: "frame \<Rightarrow> unit conn" where
  "send_frame f = do { r \<leftarrow> kask k_send; klog (ASend f r); unless r }"

definition send_json :: "json \<Rightarrow> unit conn" where
  "send_json v = send_frame (ValueFrame v)"

definition read_socket :: "(cworld, read_answer) state" where
  "read_socket = do { r \<leftarrow> kask k_read; klog (ARead r); ret r }"

definition set_socket_read_timeout :: "duration \<Rightarrow> unit conn" where
  "set_socket_read_timeout d = do { r \<leftarrow> kask k_configure; klog (ASetReadTimeout d); unless r }"

definition shutdown_requested :: "(cworld, bool) state" where "shutdown_requested = kask k_stop"
definition know :: "(cworld, instant) state" where "know = kask k_now"

definition instant_add :: "instant \<Rightarrow> duration \<Rightarrow> instant conn" where
  "instant_add t d = ret (case instant_checked_add t d of None \<Rightarrow> Inl ConnPanic | Some u \<Rightarrow> Inr u)"

definition parse_envelope :: "string \<Rightarrow> envelope conn" where
  "parse_envelope text = do { wire \<leftarrow> gets k_wire; result_of (wr_envelope wire text) }"

definition decode :: "(json \<Rightarrow> 'a option) \<Rightarrow> json \<Rightarrow> 'a conn" where
  "decode f v = do { wire \<leftarrow> gets k_wire; result_of (from_value wire f v) }"

subsection \<open>Sending the reports\<close>

definition send_agent_ready :: "agent_config \<Rightarrow> bool \<Rightarrow> agent_ready_send conn" where
  "send_agent_ready c force =
     do { wire \<leftarrow> gets k_wire;
          let message = agent_ready_message wire (capabilities c);
          t \<leftarrow> know;
          st \<leftarrow> gets k_ready;
          (if \<not> should_send_agent_ready message st force t then ok NotSent
           else tryE (send_frame (TextFrame message)) (\<lambda>_.
             do { modify (\<lambda>w. w\<lparr>k_ready := snd (record_agent_ready_sent st message t)\<rparr>);
                  ok (fst (record_agent_ready_sent st message t)) })) }"

definition send_host_sessions_with_scope ::
  "agent_config \<Rightarrow> bool \<Rightarrow> inventory_scope option \<Rightarrow> unit conn" where
  "send_host_sessions_with_scope c force scope =
     do { klog AReport;
          built \<leftarrow> kask k_report;
          wire \<leftarrow> gets k_wire;
          let message = host_sessions_message_with_scope wire c built scope;
          t \<leftarrow> know;
          st \<leftarrow> gets k_hosts;
          (if \<not> should_send_host_sessions message st force t then ok ()
           else tryE (send_frame (TextFrame message)) (\<lambda>_.
             do { modify (\<lambda>w. w\<lparr>k_hosts := record_host_sessions_sent message t\<rparr>); ok () })) }"

definition send_host_sessions :: "agent_config \<Rightarrow> bool \<Rightarrow> unit conn" where
  "send_host_sessions c force = send_host_sessions_with_scope c force None"

definition send_incremental_host_sessions :: "agent_config \<Rightarrow> unit conn" where
  "send_incremental_host_sessions c = send_host_sessions_with_scope c True (Some Incremental)"

text \<open>The part of \<open>send_app_server_instances\<close> that sends: a fresh report id, the frame, the record of it.\<close>

definition transmit_instances :: "string \<Rightarrow> string \<Rightarrow> bool \<Rightarrow> instant \<Rightarrow> unit conn" where
  "transmit_instances message key send_snapshot t =
     do { st \<leftarrow> gets k_insts;
          let (report_id, st') = next_report_id st;
          modify (\<lambda>w. w\<lparr>k_insts := st'\<rparr>);
          wire \<leftarrow> gets k_wire;
          tryE (panic_or (app_server_instances_message_with_report_id wire message report_id)) (\<lambda>outbound.
          tryE (send_frame (TextFrame outbound)) (\<lambda>_.
            do { modify (\<lambda>w. w\<lparr>k_insts :=
                   record_app_server_instances_sent (k_insts w) message report_id key send_snapshot t\<rparr>);
                 ok () })) }"

definition send_app_server_instances :: "agent_config \<Rightarrow> bool \<Rightarrow> bool \<Rightarrow> unit conn" where
  "send_app_server_instances c force snapshot =
     do { i \<leftarrow> on_mgr (instance_snapshot c);
          wire \<leftarrow> gets k_wire;
          (case app_server_instances_message wire i snapshot of
             None \<Rightarrow> ok ()
           | Some message \<Rightarrow>
               tryE (result_of (app_server_instances_message_key wire message)) (\<lambda>key.
                 do { st \<leftarrow> gets k_insts;
                      tryE (if \<not> snapshot \<and> has_unacked_snapshot_for_key st key
                            then tryE (panic_or (app_server_instances_message_with_snapshot wire message True))
                                   (\<lambda>m. ok (m, True))
                            else ok (message, snapshot)) (\<lambda>(message, send_snapshot).
                        do { t \<leftarrow> know;
                             st \<leftarrow> gets k_insts;
                             (if \<not> should_send_app_server_instances key st force t then ok ()
                              else transmit_instances message key send_snapshot t) }) })) }"

definition send_instances_after :: "agent_config \<Rightarrow> bool \<Rightarrow> agent_ready_send \<Rightarrow> unit conn" where
  "send_instances_after c force ready_send =
     (if changed_payload ready_send then send_app_server_instances c True True
      else send_app_server_instances c force False)"

subsection \<open>Acknowledgements\<close>

definition apply_agent_ready_ack_text :: "string \<Rightarrow> bool conn" where
  "apply_agent_ready_ack_text text =
     tryE (parse_envelope text) (\<lambda>e.
       do { wire \<leftarrow> gets k_wire;
            (case agent_ready_ack_message wire e of
               None \<Rightarrow> ok False
             | Some message \<Rightarrow>
                 do { modify (\<lambda>w. w\<lparr>k_ready := acknowledge_agent_ready (k_ready w) message\<rparr>); ok True }) })"

definition apply_app_server_instances_ack_text :: "string \<Rightarrow> bool conn" where
  "apply_app_server_instances_ack_text text =
     tryE (parse_envelope text) (\<lambda>e.
       (case app_server_instances_ack_message e of
          None \<Rightarrow> ok False
        | Some report_id \<Rightarrow>
            do { modify (\<lambda>w. w\<lparr>k_insts := acknowledge_app_server_instances (k_insts w) report_id\<rparr>); ok True }))"

definition apply_host_sessions_ack_text :: "string \<Rightarrow> bool conn" where
  "apply_host_sessions_ack_text text =
     tryE (parse_envelope text) (\<lambda>e.
       (if \<not> host_sessions_ack_message e then ok False
        else do { modify (\<lambda>w. w\<lparr>k_hosts := acknowledge_host_sessions (k_hosts w)\<rparr>); ok True }))"

definition handle_background_ack_message :: "envelope \<Rightarrow> (cworld, bool) state" where
  "handle_background_ack_message e =
     (case app_server_instances_ack_message e of
        Some report_id \<Rightarrow>
          do { modify (\<lambda>w. w\<lparr>k_insts := acknowledge_app_server_instances (k_insts w) report_id\<rparr>); ret True }
      | None \<Rightarrow>
          (if host_sessions_ack_message e
           then do { modify (\<lambda>w. w\<lparr>k_hosts := acknowledge_host_sessions (k_hosts w)\<rparr>); ret True }
           else ret False))"

subsection \<open>Requests of the control plane\<close>

definition map_ok :: "('a \<Rightarrow> 'b) \<Rightarrow> string + 'a \<Rightarrow> string + 'b" where
  "map_ok f r = (case r of Inl e \<Rightarrow> Inl e | Inr x \<Rightarrow> Inr (f x))"

definition succeeded :: "string + 'a \<Rightarrow> bool" where
  "succeeded r = (case r of Inr _ \<Rightarrow> True | Inl _ \<Rightarrow> False)"

text \<open>The answer to a request: its id, whether it went well, and what came out or the error.\<close>

definition request_result_json :: "string \<Rightarrow> string \<Rightarrow> string + (string \<times> json) list \<Rightarrow> json" where
  "request_result_json kind request_id r =
     jobj [(''kind'', JStr kind),
           (''payload'', jobj ([(''request_id'', JStr request_id), (''ok'', JBool (succeeded r))]
              @ (case r of Inl e \<Rightarrow> [(''error'', JStr e)] | Inr entries \<Rightarrow> entries)))]"

definition handle_thread_create :: "thread_create_dispatch \<Rightarrow> agent_config \<Rightarrow> unit conn" where
  "handle_thread_create d c =
     do { klog (ACreateThread (tc_title d));
          r \<leftarrow> kask k_create;
          tryE (send_json (request_result_json ''thread.create_result'' (tc_request_id d)
                  (map_ok (\<lambda>s. [(''session'', host_session_json s)]) r))) (\<lambda>_.
            if succeeded r then send_incremental_host_sessions c else ok ()) }"

definition handle_host_session_backfill :: "host_session_backfill_dispatch \<Rightarrow> agent_config \<Rightarrow> unit conn" where
  "handle_host_session_backfill d c =
     do { klog (ABackfill (hd_session_id d) (case hd_limit d of Some l \<Rightarrow> l | None \<Rightarrow> 30));
          r \<leftarrow> kask k_backfill;
          send_json (request_result_json ''host_session.backfill_result'' (hd_request_id d)
            (map_ok (\<lambda>b. [(''events'', JArr (map backfill_event_json (hb_events b))),
                          (''truncated'', JBool (hb_truncated b))]) r)) }"

definition handle_host_session_app_server_ensure ::
  "host_session_ensure_dispatch \<Rightarrow> agent_config \<Rightarrow> unit conn" where
  "handle_host_session_app_server_ensure d c =
     do { klog (AEnsureSession (he_session_id d) (he_title d) (he_cwd d));
          r \<leftarrow> kask k_ensure;
          tryE (send_json (request_result_json ''host_session.app_server_ensure_result'' (he_request_id d)
                  (map_ok (\<lambda>s. [(''session'', host_session_json s)]) r))) (\<lambda>_.
            if succeeded r then send_incremental_host_sessions c else ok ()) }"

definition handle_thread_archive_sync :: "thread_archive_sync_dispatch \<Rightarrow> agent_config \<Rightarrow> unit conn" where
  "handle_thread_archive_sync d c =
     do { klog (ASetArchived (ta_session_id d) (ta_archived d));
          r \<leftarrow> kask k_archive;
          tryE (send_json (request_result_json ''thread.archive_sync_result'' (ta_request_id d)
                  (map_ok (\<lambda>s. [(''synced'', JBool s)]) r))) (\<lambda>_.
            if succeeded r then send_host_sessions c True else ok ()) }"

definition handle_background_text_message :: "string \<Rightarrow> agent_config \<Rightarrow> unit conn" where
  "handle_background_text_message text c =
     tryE (parse_envelope text) (\<lambda>e.
       if en_kind e = ''host_sessions.refresh'' then send_host_sessions c True
       else do {
         acked \<leftarrow> handle_background_ack_message e;
         (if acked then ok ()
          else if en_kind e = ''thread.create''
          then tryE (decode thread_create_of (en_payload e)) (\<lambda>d. handle_thread_create d c)
          else if en_kind e = ''host_session.backfill''
          then tryE (decode backfill_dispatch_of (en_payload e)) (\<lambda>d. handle_host_session_backfill d c)
          else if en_kind e = ''host_session.app_server_ensure''
          then tryE (decode ensure_dispatch_of (en_payload e)) (\<lambda>d. handle_host_session_app_server_ensure d c)
          else if en_kind e = ''thread.archive_sync''
          then tryE (decode archive_dispatch_of (en_payload e)) (\<lambda>d. handle_thread_archive_sync d c)
          else do { modify (\<lambda>w. w\<lparr>k_deferred := k_deferred w @ [text]\<rparr>); ok () }) })"

subsection \<open>Responses to turn interactions\<close>

record turn_interaction_response_ack =
  tk_request_id :: string
  tk_accepted :: bool
  tk_error :: "string option"

definition response_ack_json :: "turn_interaction_response_ack \<Rightarrow> json" where
  "response_ack_json a =
     jobj ([(''request_id'', JStr (tk_request_id a)), (''accepted'', JBool (tk_accepted a))]
         @ opt_entry ''error'' JStr (tk_error a))"

text \<open>
  The interaction the worker waits for is shared with it; handing a response over waits for the
  worker's own verdict, up to ten seconds.
\<close>

definition turn_interaction_response_ack_for_text ::
  "string \<Rightarrow> string \<Rightarrow> turn_interaction_response_ack option conn" where
  "turn_interaction_response_ack_for_text text command_id =
     tryE (parse_envelope text) (\<lambda>e.
       if en_kind e \<noteq> ''turn.interaction_response'' then ok None
       else do {
         wire \<leftarrow> gets k_wire;
         tryE (result_of (wr_response wire (en_payload e))) (\<lambda>d.
           (case ti_request_id d of
              None \<Rightarrow> fail ''turn interaction response did not include request_id''
            | Some request_id \<Rightarrow>
                (if ti_command_id d = command_id
                 then do {
                   active \<leftarrow> kask k_active;
                   tryE (result_of active) (\<lambda>active.
                     if active \<noteq> Some (ti_interaction_id d)
                     then ok (Some \<lparr> tk_request_id = request_id, tk_accepted = False,
                            tk_error = Some ''App-server turn is not waiting for this interaction'' \<rparr>)
                     else do {
                       accepted \<leftarrow> kask k_deliver;
                       klog (ADeliver d accepted);
                       tryE (if accepted then do { r \<leftarrow> kask k_clear; klog AClearActive; unless r } else ok ())
                         (\<lambda>_. ok (Some \<lparr> tk_request_id = request_id, tk_accepted = accepted,
                            tk_error = (if accepted then None
                              else Some ''App-server turn is no longer waiting for this interaction'') \<rparr>)) }) }
                 else ok (Some \<lparr> tk_request_id = request_id, tk_accepted = False,
                        tk_error = Some ''Turn interaction response targeted a different command'' \<rparr>)))) })"

definition handle_turn_interaction_response_text :: "string \<Rightarrow> string \<Rightarrow> bool conn" where
  "handle_turn_interaction_response_text text command_id =
     tryE (turn_interaction_response_ack_for_text text command_id) (\<lambda>r.
       (case r of
          None \<Rightarrow> ok False
        | Some a \<Rightarrow>
            tryE (send_json (jobj [(''kind'', JStr ''turn.interaction_response_ack''),
                                   (''payload'', response_ack_json a)])) (\<lambda>_. ok True)))"

subsection \<open>Dispatching events\<close>

datatype ack_wait_action = AckMatched bool | AckHostSessionsRefresh | AckDefer

definition classify_ack_wait_envelope :: "envelope \<Rightarrow> string \<Rightarrow> string \<Rightarrow> ack_wait_action" where
  "classify_ack_wait_envelope e command_id event_kind =
     (if en_kind e = ''host_sessions.refresh'' then AckHostSessionsRefresh
      else if en_kind e = ''server.ack''
              \<and> jget_str (en_payload e) ''command_id'' = Some command_id
              \<and> jget_str (en_payload e) ''kind'' = Some event_kind
      then AckMatched (case jget_bool (en_payload e) ''accepted'' of Some b \<Rightarrow> b | None \<Rightarrow> True)
      else AckDefer)"

definition classify_ack_wait_text :: "string \<Rightarrow> string \<Rightarrow> string \<Rightarrow> ack_wait_action conn" where
  "classify_ack_wait_text text command_id event_kind =
     tryE (parse_envelope text) (\<lambda>e. ok (classify_ack_wait_envelope e command_id event_kind))"

text \<open>
  One round of \<open>wait_for_ack\<close>: \<open>None\<close> goes round again. The context of a turn interaction is
  the id of its command.
\<close>

definition ack_round :: "string \<Rightarrow> string \<Rightarrow> agent_config \<Rightarrow> string option \<Rightarrow> bool option conn" where
  "ack_round command_id event_kind c ctx =
     do { stop \<leftarrow> shutdown_requested;
          (if stop
           then tryE (set_socket_read_timeout connector_read_tick) (\<lambda>_.
                  fail ''connector shutdown requested before command acknowledgement'')
           else do {
             r \<leftarrow> read_socket;
             (case r of
                ReadFailed e \<Rightarrow> fail e
              | ReadTimeout e \<Rightarrow> fail e
              | ReadMsg (MsgText text) \<Rightarrow>
                  tryE (classify_ack_wait_text text command_id event_kind) (\<lambda>action.
                    (case action of
                       AckMatched accepted \<Rightarrow>
                         tryE (set_socket_read_timeout connector_read_tick) (\<lambda>_. ok (Some accepted))
                     | AckHostSessionsRefresh \<Rightarrow> tryE (send_host_sessions c True) (\<lambda>_. ok None)
                     | AckDefer \<Rightarrow>
                         tryE (case ctx of
                                 Some cid \<Rightarrow> handle_turn_interaction_response_text text cid
                               | None \<Rightarrow> ok False) (\<lambda>handled.
                           if handled then ok None
                           else tryE (handle_background_text_message text c) (\<lambda>_. ok None))))
              | ReadMsg (MsgPing p) \<Rightarrow> tryE (send_frame (PongFrame p)) (\<lambda>_. ok None)
              | ReadMsg MsgClose \<Rightarrow>
                  tryE (set_socket_read_timeout connector_read_tick) (\<lambda>_.
                    fail ''connection closed before command acknowledgement'')
              | ReadMsg MsgOther \<Rightarrow> ok None) }) }"

fun ack_rounds :: "nat \<Rightarrow> string \<Rightarrow> string \<Rightarrow> agent_config \<Rightarrow> string option \<Rightarrow> bool conn" where
  "ack_rounds 0 command_id event_kind c ctx = ret (Inl ConnFuel)"
| "ack_rounds (Suc fuel) command_id event_kind c ctx =
     tryE (ack_round command_id event_kind c ctx) (\<lambda>r.
       (case r of Some accepted \<Rightarrow> ok accepted | None \<Rightarrow> ack_rounds fuel command_id event_kind c ctx))"

definition wait_for_ack :: "nat \<Rightarrow> string \<Rightarrow> string \<Rightarrow> agent_config \<Rightarrow> string option \<Rightarrow> bool conn" where
  "wait_for_ack fuel command_id event_kind c ctx =
     tryE (set_socket_read_timeout (secs 10)) (\<lambda>_. ack_rounds fuel command_id event_kind c ctx)"

definition agent_event_message :: "command_payload \<Rightarrow> connector_event \<Rightarrow> string option \<Rightarrow> json" where
  "agent_event_message command event target =
     jobj [(''kind'', JStr ''agent.event''),
           (''payload'', jobj (
              [(''command_id'', JStr (cp_id command))]
              @ (if ev_kind event = ''command.started'' then opt_entry ''target_host_session_id'' JStr target else [])
              @ [(''kind'', JStr (ev_kind event)), (''priority'', JStr (ev_priority event)),
                 (''summary'', JStr (ev_summary event))]
              @ opt_entry ''payload'' (\<lambda>p. p) (ev_payload event)))]"

fun dispatch_events_for_target_host_session ::
  "nat \<Rightarrow> command_payload \<Rightarrow> connector_event list \<Rightarrow> string option \<Rightarrow> agent_config \<Rightarrow> string option \<Rightarrow> bool conn"
where
  "dispatch_events_for_target_host_session fuel command [] target c ctx = ok True"
| "dispatch_events_for_target_host_session fuel command (event # events) target c ctx =
     (if ev_kind event = ''command.accepted''
      then dispatch_events_for_target_host_session fuel command events target c ctx
      else tryE (send_json (agent_event_message command event target)) (\<lambda>_.
           tryE (wait_for_ack fuel (cp_id command) (ev_kind event) c ctx) (\<lambda>accepted.
             if accepted then dispatch_events_for_target_host_session fuel command events target c ctx
             else ok False)))"

definition dispatch_events_with_turn_interaction_context ::
  "nat \<Rightarrow> command_payload \<Rightarrow> connector_event list \<Rightarrow> agent_config \<Rightarrow> string option \<Rightarrow> bool conn" where
  "dispatch_events_with_turn_interaction_context fuel command events c ctx =
     dispatch_events_for_target_host_session fuel command events None c ctx"

definition dispatch_events ::
  "nat \<Rightarrow> command_payload \<Rightarrow> connector_event list \<Rightarrow> agent_config \<Rightarrow> bool conn" where
  "dispatch_events fuel command events c =
     dispatch_events_with_turn_interaction_context fuel command events c None"

end
