(* ===== verification/Connector_Session.thy ===== *)
theory Connector_Session
  imports Connector
begin

text \<open>
  \<open>connector.rs\<close>, second part: the waits for a worker thread (\<open>wait_for_codex_exec_events\<close>,
  \<open>wait_for_app_server_command_events\<close>), the dispatch of a message of the control plane
  (\<open>handle_text_message\<close>), the loop of a connected session and the reconnect loop.
\<close>

subsection \<open>The worker thread\<close>

definition join_codex_worker :: "unit conn" where
  "join_codex_worker =
     do { panicked \<leftarrow> kask k_join_panic; klog AJoinWorker;
          (if panicked then fail ''codex exec worker panicked'' else ok ()) }"

definition cancel_codex_worker :: "unit conn" where
  "cancel_codex_worker = do { klog ACancelWorker; join_codex_worker }"

definition cancel_then_fail :: "string \<Rightarrow> 'a conn" where
  "cancel_then_fail e = tryE cancel_codex_worker (\<lambda>_. fail e)"

definition codex_round :: "agent_config \<Rightarrow> connector_event list option conn" where
  "codex_round c =
     do { stop \<leftarrow> shutdown_requested;
          (if stop then cancel_then_fail ''connector shutdown requested while codex exec was running''
           else do {
             answer \<leftarrow> kask k_result;
             (case answer of
                WorkerDone events \<Rightarrow>
                  tryE join_codex_worker (\<lambda>_.
                  tryE (set_socket_read_timeout connector_read_tick) (\<lambda>_. ok (Some events)))
              | WorkerGone \<Rightarrow>
                  tryE join_codex_worker (\<lambda>_. fail ''codex exec worker stopped before returning events'')
              | WorkerBusy \<Rightarrow>
                  do { r \<leftarrow> read_socket;
                       (case r of
                          ReadMsg (MsgText text) \<Rightarrow>
                            tryE (handle_background_text_message text c) (\<lambda>_. ok None)
                        | ReadMsg (MsgPing p) \<Rightarrow> tryE (send_frame (PongFrame p)) (\<lambda>_. ok None)
                        | ReadMsg MsgClose \<Rightarrow>
                            cancel_then_fail ''connection closed while codex exec was running''
                        | ReadMsg MsgOther \<Rightarrow> ok None
                        | ReadTimeout _ \<Rightarrow> ok None
                        | ReadFailed e \<Rightarrow> cancel_then_fail e) }) }) }"

fun codex_rounds :: "nat \<Rightarrow> agent_config \<Rightarrow> connector_event list conn" where
  "codex_rounds 0 c = ret (Inl ConnFuel)"
| "codex_rounds (Suc fuel) c =
     tryE (codex_round c) (\<lambda>r. case r of Some events \<Rightarrow> ok events | None \<Rightarrow> codex_rounds fuel c)"

definition wait_for_codex_exec_events :: "nat \<Rightarrow> agent_config \<Rightarrow> string \<Rightarrow> connector_event list conn" where
  "wait_for_codex_exec_events fuel c prompt =
     do { klog (AStartCodex prompt);
          tryE (set_socket_read_timeout connector_read_tick) (\<lambda>_. codex_rounds fuel c) }"

subsection \<open>A turn of the app-server\<close>

definition app_server_interaction_rejected_event :: connector_event where
  "app_server_interaction_rejected_event =
     plain_event ''command.failed'' ''P1''
       ''Codex app-server turn stopped because the control plane rejected the required interaction request.''"

text \<open>The events the worker has sent so far, one after the other; \<open>False\<close> when one is rejected.\<close>

fun drain_pending_connector_events ::
  "nat \<Rightarrow> nat \<Rightarrow> command_payload \<Rightarrow> agent_config \<Rightarrow> string option \<Rightarrow> bool conn" where
  "drain_pending_connector_events 0 fuel command c ctx = ret (Inl ConnFuel)"
| "drain_pending_connector_events (Suc n) fuel command c ctx =
     do { e \<leftarrow> kask k_event;
          (case e of
             None \<Rightarrow> ok True
           | Some event \<Rightarrow>
               tryE (dispatch_events_with_turn_interaction_context fuel command [event] c ctx) (\<lambda>accepted.
                 if accepted then drain_pending_connector_events n fuel command c ctx else ok False)) }"

definition dispatch_pending_app_server_command_events ::
  "nat \<Rightarrow> command_payload \<Rightarrow> agent_config \<Rightarrow> string option \<Rightarrow> bool conn" where
  "dispatch_pending_app_server_command_events fuel command c ctx =
     drain_pending_connector_events fuel fuel command c ctx"

definition maintain_app_server_runtime_during_wait :: "nat \<Rightarrow> agent_config \<Rightarrow> agent_config conn" where
  "maintain_app_server_runtime_during_wait fuel c =
     do { r \<leftarrow> on_mgr (runtime_config_during_active_turn fuel c);
          tryE (mgr_result r) (\<lambda>rc.
          tryE (send_agent_ready rc False) (\<lambda>ready_send.
          tryE (send_instances_after rc False ready_send) (\<lambda>_. ok rc))) }"

text \<open>The socket's part of a round, whose error cancels the worker.\<close>

definition turn_text :: "string \<Rightarrow> agent_config \<Rightarrow> unit conn" where
  "turn_text text c =
     catchE (apply_agent_ready_ack_text text) (\<lambda>r.
       (case r of
          Inr True \<Rightarrow> ok ()
        | Inr False \<Rightarrow> handle_background_text_message text c
        | Inl e \<Rightarrow> fail e))"

definition or_cancel :: "'a conn \<Rightarrow> 'a conn" where
  "or_cancel m = catchE m (\<lambda>r. case r of Inr x \<Rightarrow> ok x | Inl e \<Rightarrow> cancel_then_fail e)"

definition turn_socket :: "string \<Rightarrow> agent_config \<Rightarrow> unit conn" where
  "turn_socket command_id c =
     do { r \<leftarrow> read_socket;
          (case r of
             ReadMsg (MsgText text) \<Rightarrow>
               tryE (handle_turn_interaction_response_text text command_id) (\<lambda>handled.
                 if handled then ok () else or_cancel (turn_text text c))
           | ReadMsg (MsgPing p) \<Rightarrow> or_cancel (send_frame (PongFrame p))
           | ReadMsg MsgClose \<Rightarrow>
               cancel_then_fail ''connection closed while app-server command was running''
           | ReadMsg MsgOther \<Rightarrow> ok ()
           | ReadTimeout _ \<Rightarrow> ok ()
           | ReadFailed e \<Rightarrow> cancel_then_fail e) }"

text \<open>
  One round: \<open>Inl\<close> the outcome, or \<open>Inr\<close> the configuration and the time of the next
  maintenance to go round again with.
\<close>

definition turn_round ::
  "nat \<Rightarrow> command_payload \<Rightarrow> agent_config \<Rightarrow> instant \<Rightarrow> (connector_event list + agent_config \<times> instant) conn" where
  "turn_round fuel command rc next_at =
     do { stop \<leftarrow> shutdown_requested;
          (if stop
           then cancel_then_fail ''connector shutdown requested while app-server command was running''
           else tryE (dispatch_pending_app_server_command_events fuel command rc (Some (cp_id command)))
             (\<lambda>accepted.
               if \<not> accepted
               then tryE cancel_codex_worker (\<lambda>_. ok (Inl [app_server_interaction_rejected_event]))
               else do {
                 answer \<leftarrow> kask k_result;
                 (case answer of
                    WorkerDone events \<Rightarrow>
                      tryE join_codex_worker (\<lambda>_.
                      tryE (dispatch_pending_app_server_command_events fuel command rc (Some (cp_id command)))
                        (\<lambda>accepted.
                          tryE (set_socket_read_timeout connector_read_tick) (\<lambda>_.
                            ok (Inl (if accepted then events else [app_server_interaction_rejected_event])))))
                  | WorkerGone \<Rightarrow>
                      tryE join_codex_worker (\<lambda>_.
                        fail ''app-server command worker stopped before returning events'')
                  | WorkerBusy \<Rightarrow>
                      do { t \<leftarrow> know;
                           tryE (if next_at \<le> t
                                 then tryE (or_cancel (maintain_app_server_runtime_during_wait fuel rc)) (\<lambda>rc'.
                                        do { t' \<leftarrow> know;
                                             tryE (instant_add t' connector_read_tick) (\<lambda>next_at'.
                                               ok (rc', next_at')) })
                                 else ok (rc, next_at)) (\<lambda>(rc, next_at).
                             tryE (turn_socket (cp_id command) rc) (\<lambda>_. ok (Inr (rc, next_at)))) }) })) }"

fun turn_rounds ::
  "nat \<Rightarrow> nat \<Rightarrow> command_payload \<Rightarrow> agent_config \<Rightarrow> instant \<Rightarrow> connector_event list conn" where
  "turn_rounds 0 fuel command rc next_at = ret (Inl ConnFuel)"
| "turn_rounds (Suc n) fuel command rc next_at =
     tryE (turn_round fuel command rc next_at) (\<lambda>r.
       (case r of Inl events \<Rightarrow> ok events | Inr (rc', next_at') \<Rightarrow> turn_rounds n fuel command rc' next_at'))"

definition wait_for_app_server_command_events ::
  "nat \<Rightarrow> agent_config \<Rightarrow> string \<Rightarrow> string option \<Rightarrow> string \<Rightarrow> string \<Rightarrow> connector_event list conn" where
  "wait_for_app_server_command_events fuel c session_id cwd command_id prompt =
     do { t \<leftarrow> know;
          tryE (instant_add t connector_read_tick) (\<lambda>next_at.
            do { klog (AStartAppServerCommand session_id cwd command_id prompt);
                 tryE (set_socket_read_timeout connector_read_tick) (\<lambda>_.
                   turn_rounds fuel fuel
                     \<lparr> cp_id = command_id, cp_command_type = CmdCodex, cp_prompt = prompt \<rparr> c next_at) }) }"

subsection \<open>A message of the control plane\<close>

definition requires_app_server_execution_mode :: "command_dispatch \<Rightarrow> bool" where
  "requires_app_server_execution_mode d \<longleftrightarrow>
     cp_command_type (cd_command d) = CmdCodex
     \<and> (case cd_target_host_session d of Some target \<Rightarrow> ct_app_server_present target | None \<Rightarrow> False)"

definition command_events :: "command_payload \<Rightarrow> connector_event list" where
  "command_events command =
     (case cp_command_type command of
        CmdPlaceholder \<Rightarrow> placeholder_event_stream (cp_prompt command)
      | CmdCodex \<Rightarrow>
          [plain_event ''command.started'' ''P1''
             ''Connector received a Codex command, but the CLI fallback is disabled.'',
           plain_event ''command.failed'' ''P1'' ''Codex CLI fallback is disabled in this connector config.''])"

definition app_server_missing_target_events :: "connector_event list" where
  "app_server_missing_target_events =
     [plain_event ''command.failed'' ''P1''
        ''Codex app-server execution requires an attached local app-server session.'']"

definition app_server_wrong_execution_mode_events :: "connector_event list" where
  "app_server_wrong_execution_mode_events =
     [plain_event ''command.failed'' ''P1''
        ''Attached app-server sessions require execution.mode = \"app_server\".'']"

definition app_server_non_app_server_target_events :: "string \<Rightarrow> connector_event list" where
  "app_server_non_app_server_target_events session_id =
     [plain_event ''command.failed'' ''P1''
        (''Attached local session '' @ session_id @ '' is not available through Codex app-server.'')]"

definition codex_exec_started_event :: "string \<Rightarrow> connector_event" where
  "codex_exec_started_event workspace_root =
     plain_event ''command.started'' ''P1''
       (''Connector started Codex CLI fallback in '' @ utf8_lossy workspace_root @ ''.'')"

definition app_server_command_started_event :: "string \<Rightarrow> connector_event" where
  "app_server_command_started_event session_id =
     plain_event ''command.started'' ''P1''
       (''Connector started Codex app-server turn for local thread '' @ session_id @ ''.'')"


text \<open>A Codex command in \<open>codex_exec\<close> mode.\<close>

definition run_codex_exec_dispatch :: "nat \<Rightarrow> command_dispatch \<Rightarrow> agent_config \<Rightarrow> bool conn" where
  "run_codex_exec_dispatch fuel d c =
     tryE (dispatch_events fuel (cd_command d) [codex_exec_started_event (ac_workspace_root c)] c) (\<lambda>accepted.
       if \<not> accepted then ok True
       else tryE (wait_for_codex_exec_events fuel c (cp_prompt (cd_command d))) (\<lambda>events.
            tryE (dispatch_events fuel (cd_command d) events c) (\<lambda>_. ok True)))"

text \<open>What \<open>handle_text_message\<close> does once the turn of the app-server has ended.\<close>

definition finish_app_server_turn ::
  "nat \<Rightarrow> command_payload \<Rightarrow> agent_config \<Rightarrow> string + connector_event list \<Rightarrow> bool conn" where
  "finish_app_server_turn fuel command c events =
     do { on_mgr finish_turn;
          r \<leftarrow> on_mgr (runtime_config fuel c);
          tryE (mgr_result r) (\<lambda>post.
          tryE (result_of events) (\<lambda>events.
          tryE (dispatch_events fuel command events post) (\<lambda>accepted.
            if \<not> accepted then ok True
            else tryE (send_agent_ready post False) (\<lambda>ready_send.
                 tryE (send_instances_after post True ready_send) (\<lambda>_. ok True))))) }"

text \<open>A Codex command in \<open>app_server\<close> mode.\<close>

definition run_app_server_dispatch :: "nat \<Rightarrow> command_dispatch \<Rightarrow> agent_config \<Rightarrow> bool conn" where
  "run_app_server_dispatch fuel d c =
     (let command = cd_command d in
      case cd_target_host_session d of
        None \<Rightarrow> tryE (dispatch_events fuel command app_server_missing_target_events c) (\<lambda>_. ok True)
      | Some target \<Rightarrow>
          (if \<not> ct_app_server_present target
           then tryE (dispatch_events fuel command
                       (app_server_non_app_server_target_events (ct_session_id target)) c) (\<lambda>_. ok True)
           else tryE (dispatch_events_for_target_host_session fuel command
                       [app_server_command_started_event (ct_session_id target)]
                       (Some (ct_session_id target)) c None) (\<lambda>accepted.
             if \<not> accepted then ok True
             else do {
               on_mgr begin_turn;
               catchE (send_app_server_instances c True False) (\<lambda>sent.
                 (case sent of
                    Inl e \<Rightarrow> do { on_mgr finish_turn; fail e }
                  | Inr _ \<Rightarrow>
                      catchE (wait_for_app_server_command_events fuel c (ct_session_id target) (ct_cwd target)
                                (cp_id command) (cp_prompt command))
                        (finish_app_server_turn fuel command c))) })))"

definition handle_command_dispatch :: "nat \<Rightarrow> command_dispatch \<Rightarrow> agent_config \<Rightarrow> bool conn" where
  "handle_command_dispatch fuel d c =
     (let mode = ex_mode (ac_execution c); codex = (cp_command_type (cd_command d) = CmdCodex) in
      if requires_app_server_execution_mode d \<and> mode \<noteq> AppServer
      then tryE (dispatch_events fuel (cd_command d) app_server_wrong_execution_mode_events c) (\<lambda>_. ok True)
      else if codex \<and> mode = CodexExec then run_codex_exec_dispatch fuel d c
      else if codex \<and> mode = AppServer then run_app_server_dispatch fuel d c
      else tryE (dispatch_events fuel (cd_command d) (command_events (cd_command d)) c) (\<lambda>_. ok True))"

definition handle_text_message :: "nat \<Rightarrow> string \<Rightarrow> agent_config \<Rightarrow> bool conn" where
  "handle_text_message fuel text c =
     tryE (parse_envelope text) (\<lambda>e.
       if en_kind e = ''host_sessions.refresh'' then tryE (send_host_sessions c True) (\<lambda>_. ok False)
       else do {
         wire \<leftarrow> gets k_wire;
         (case agent_ready_ack_message wire e of
            Some message \<Rightarrow>
              do { modify (\<lambda>w. w\<lparr>k_ready := acknowledge_agent_ready (k_ready w) message\<rparr>); ok False }
          | None \<Rightarrow>
              do {
                acked \<leftarrow> handle_background_ack_message e;
                (if acked then ok False
                 else if en_kind e = ''thread.create''
                 then tryE (decode thread_create_of (en_payload e)) (\<lambda>d.
                      tryE (handle_thread_create d c) (\<lambda>_. ok False))
                 else if en_kind e = ''host_session.backfill''
                 then tryE (decode backfill_dispatch_of (en_payload e)) (\<lambda>d.
                      tryE (handle_host_session_backfill d c) (\<lambda>_. ok False))
                 else if en_kind e = ''host_session.app_server_ensure''
                 then tryE (decode ensure_dispatch_of (en_payload e)) (\<lambda>d.
                      tryE (handle_host_session_app_server_ensure d c) (\<lambda>_. ok False))
                 else if en_kind e = ''thread.archive_sync''
                 then tryE (decode archive_dispatch_of (en_payload e)) (\<lambda>d.
                      tryE (handle_thread_archive_sync d c) (\<lambda>_. ok False))
                 else if en_kind e \<noteq> ''command.dispatch'' then ok False
                 else tryE (decode command_dispatch_of (en_payload e)) (\<lambda>d.
                      handle_command_dispatch fuel d c)) }) })"

subsection \<open>A connected session\<close>

datatype run_mode = Continuous | Once

definition close_quietly :: "(cworld, unit) state" where
  "close_quietly = do { _ \<leftarrow> kask k_configure; klog AClose }"

definition close_socket :: "unit conn" where
  "close_socket = do { r \<leftarrow> kask k_configure; klog AClose; unless r }"

text \<open>A text of the control plane in the session loop: \<open>True\<close> ends the session.\<close>

definition session_text :: "nat \<Rightarrow> agent_config \<Rightarrow> run_mode \<Rightarrow> string \<Rightarrow> bool conn" where
  "session_text fuel c mode text =
     do { stop \<leftarrow> shutdown_requested;
          (if stop then do { close_quietly; ok True }
           else
             tryE (apply_agent_ready_ack_text text) (\<lambda>acked. if acked then ok False else
             tryE (apply_app_server_instances_ack_text text) (\<lambda>acked. if acked then ok False else
             tryE (apply_host_sessions_ack_text text) (\<lambda>acked. if acked then ok False else
               do { r \<leftarrow> on_mgr (runtime_config fuel c);
                    tryE (mgr_result r) (\<lambda>rc.
                    tryE (send_agent_ready rc False) (\<lambda>ready_send.
                    tryE (if changed_payload ready_send then send_app_server_instances c True True else ok ()) (\<lambda>_.
                    tryE (handle_text_message fuel text rc) (\<lambda>command.
                      if command \<and> mode = Once then tryE close_socket (\<lambda>_. ok True)
                      else tryE (set_socket_read_timeout connector_read_tick) (\<lambda>_. ok False))))) })))) }"

definition session_idle :: "nat \<Rightarrow> agent_config \<Rightarrow> bool conn" where
  "session_idle fuel c =
     do { stop \<leftarrow> shutdown_requested;
          (if stop then do { close_quietly; ok True }
           else do {
             r \<leftarrow> on_mgr (runtime_config fuel c);
             tryE (mgr_result r) (\<lambda>rc.
             tryE (send_agent_ready rc False) (\<lambda>ready_send.
             tryE (send_instances_after c False ready_send) (\<lambda>_. ok False))) }) }"

definition session_round :: "nat \<Rightarrow> agent_config \<Rightarrow> run_mode \<Rightarrow> bool conn" where
  "session_round fuel c mode =
     do { stop \<leftarrow> shutdown_requested;
          (if stop then do { close_quietly; ok True }
           else do {
             deferred \<leftarrow> gets k_deferred;
             (case deferred of
                text # rest \<Rightarrow>
                  do { modify (\<lambda>w. w\<lparr>k_deferred := rest\<rparr>); session_text fuel c mode text }
              | [] \<Rightarrow>
                  do { r \<leftarrow> read_socket;
                       (case r of
                          ReadMsg (MsgText text) \<Rightarrow> session_text fuel c mode text
                        | ReadMsg (MsgPing p) \<Rightarrow> tryE (send_frame (PongFrame p)) (\<lambda>_. ok False)
                        | ReadMsg MsgClose \<Rightarrow> ok True
                        | ReadMsg MsgOther \<Rightarrow> ok False
                        | ReadTimeout _ \<Rightarrow> session_idle fuel c
                        | ReadFailed e \<Rightarrow> fail e) }) }) }"

fun session_rounds :: "nat \<Rightarrow> nat \<Rightarrow> agent_config \<Rightarrow> run_mode \<Rightarrow> unit conn" where
  "session_rounds 0 fuel c mode = ret (Inl ConnFuel)"
| "session_rounds (Suc n) fuel c mode =
     tryE (session_round fuel c mode) (\<lambda>ended. if ended then ok () else session_rounds n fuel c mode)"

text \<open>
  A session starts with fresh send states and no deferred messages. Connecting (with the
  request's header) and setting up the socket are outcomes.
\<close>

definition run_connected_session :: "nat \<Rightarrow> agent_config \<Rightarrow> run_mode \<Rightarrow> unit conn" where
  "run_connected_session fuel c mode =
     do { token \<leftarrow> kask k_token;
          tryE (result_of token) (\<lambda>token.
            if trim token = [] then fail ''connector token file is empty''
            else do {
              connected \<leftarrow> kask k_connect;
              tryE (unless connected) (\<lambda>_.
              do { configured \<leftarrow> kask k_configure;
              tryE (unless configured) (\<lambda>_.
              tryE (set_socket_read_timeout connector_read_tick) (\<lambda>_.
                do { r \<leftarrow> on_mgr (runtime_config fuel c);
                     tryE (mgr_result r) (\<lambda>rc.
                       do { modify (\<lambda>w. w\<lparr>k_ready := agent_ready_default, k_hosts := host_sessions_default,
                                          k_insts := app_server_instances_default, k_deferred := []\<rparr>);
                            tryE (send_agent_ready rc True) (\<lambda>_.
                            tryE (send_app_server_instances c True True) (\<lambda>_.
                              session_rounds fuel fuel c mode)) }) })) }) }) }"

definition sleep_until_reconnect_or_shutdown :: "unit conn" where
  "sleep_until_reconnect_or_shutdown =
     do { t \<leftarrow> know; tryE (instant_add t reconnect_backoff) (\<lambda>deadline.
          do { klog (AReconnectSleep reconnect_backoff); ok () }) }"

text \<open>The reconnect loop: an error ends it only in the mode that runs once, or at shutdown.\<close>

fun connector_rounds :: "nat \<Rightarrow> nat \<Rightarrow> agent_config \<Rightarrow> run_mode \<Rightarrow> unit conn" where
  "connector_rounds 0 fuel c mode = ret (Inl ConnFuel)"
| "connector_rounds (Suc n) fuel c mode =
     catchE (run_connected_session fuel c mode) (\<lambda>r.
       if succeeded r \<and> mode = Once then ok ()
       else do {
         stop \<leftarrow> shutdown_requested;
         (if stop then ok ()
          else if mode = Once then tryE (result_of r) (\<lambda>_. ok ())
          else tryE sleep_until_reconnect_or_shutdown (\<lambda>_.
               do { stop \<leftarrow> shutdown_requested;
                    (if stop then ok () else connector_rounds n fuel c mode) })) })"

definition run_connector :: "nat \<Rightarrow> agent_config \<Rightarrow> run_mode \<Rightarrow> unit conn" where
  "run_connector fuel c mode =
     do { installed \<leftarrow> kask k_configure;
          tryE (unless installed) (\<lambda>_.
            do { on_mgr (do { marker \<leftarrow> upgrade_marker_modified
                                (ma_upgrade_marker_file (si_managed_app_server (ac_session_inventory c)));
                              modify (\<lambda>w. app_server_manager.extend (new_manager c marker) (app_server_manager.more w)) });
                 stop \<leftarrow> shutdown_requested;
                 (if stop then ok () else connector_rounds fuel fuel c mode) }) }"

end
