(* ===== verification/Manager_Safety.thy ===== *)
theory Manager_Safety
  imports Manager
begin

text \<open>
  What the app-server manager guarantees: the generation number, the correspondence between the
  URL it offers and the health it reports, the protection of running turns, the ownership of
  the child process, back-off, shutdown and termination of the wait for a healthy child.
\<close>

lemma run_ask [simp]: "run_state (ask f) w = (f w (w_tick w), w\<lparr>w_tick := Suc (w_tick w)\<rparr>)"
  by (simp add: ask_def)

lemma run_act [simp]: "run_state (act a) w = ((), w\<lparr>w_trace := w_trace w @ [a]\<rparr>)"
  by (simp add: act_def)

lemma run_now [simp]: "run_state now w = (w_now w (w_tick w), w\<lparr>w_tick := Suc (w_tick w)\<rparr>)"
  by (simp add: now_def)

lemma run_health_check [simp]:
  "run_state (health_check url) w =
     ((case w_health w (w_tick w) of None \<Rightarrow> Inr () | Some e \<Rightarrow> Inl e),
      w\<lparr>w_tick := Suc (w_tick w), w_trace := w_trace w @ [ActProbe url]\<rparr>)"
  by (simp add: health_check_def)

lemma run_terminate_child [simp]:
  "run_state (terminate_child pid) w =
     ((case w_terminate w (w_tick w) of None \<Rightarrow> Inr () | Some e \<Rightarrow> Inl e),
      w\<lparr>w_tick := Suc (w_tick w), w_trace := w_trace w @ [ActTerminate pid (w_terminate w (w_tick w))]\<rparr>)"
  by (simp add: terminate_child_def)

lemma run_sleep [simp]: "run_state (sleep d) w = ((), w\<lparr>w_trace := w_trace w @ [ActSleep d]\<rparr>)"
  by (simp add: sleep_def)

lemma run_set_state [simp]:
  "run_state (set_state st summary err) w =
     ((), w\<lparr>m_generation := (if m_state w \<noteq> st then sat_add u64_max (m_generation w) 1 else m_generation w),
            m_state := st, m_status_summary := Some summary, m_last_error := err\<rparr>)"
  by (simp add: set_state_def)

lemma run_record_start_failure [simp]:
  "run_state record_start_failure w =
     ((), w\<lparr>w_tick := Suc (w_tick w), m_last_start_failure := Some (w_now w (w_tick w))\<rparr>)"
  by (simp add: record_start_failure_def)

subsection \<open>What no operation touches\<close>

text \<open>
  The frame of every operation but \<open>begin_turn\<close> and \<open>finish_turn\<close>: the answers of the system are
  only read, the trace is only appended to, the generation only grows within 64 bits, and the
  configuration of the manager and the count of active turns stay.
\<close>

definition same_env :: "mworld \<Rightarrow> mworld \<Rightarrow> bool" where
  "same_env s t \<longleftrightarrow>
     w_now t = w_now s \<and> w_health t = w_health s \<and> w_spawn t = w_spawn s
     \<and> w_try_wait t = w_try_wait s \<and> w_terminate t = w_terminate s \<and> w_marker t = w_marker s
     \<and> w_shutdown t = w_shutdown s \<and> w_uri t = w_uri s"

definition mgr_frame :: "mworld \<Rightarrow> mworld \<Rightarrow> bool" where
  "mgr_frame s t \<longleftrightarrow>
     same_env s t \<and> w_tick s \<le> w_tick t
     \<and> (\<exists>xs. w_trace t = w_trace s @ xs)
     \<and> (m_generation s \<le> u64_max \<longrightarrow> m_generation s \<le> m_generation t \<and> m_generation t \<le> u64_max)
     \<and> m_enabled t = m_enabled s \<and> m_listen_url t = m_listen_url s
     \<and> m_active_turn_count t = m_active_turn_count s"

interpretation frame: effect_rel mgr_frame
proof unfold_locales
  fix s t u
  show "mgr_frame s s" by (simp add: mgr_frame_def same_env_def)
  show "mgr_frame s t \<Longrightarrow> mgr_frame t u \<Longrightarrow> mgr_frame s u"
    unfolding mgr_frame_def same_env_def by (elim conjE exE) (intro conjI impI, auto)
qed

lemma frame_set_state: "frame.keeps (set_state st summary err)"
  by (auto intro!: frame.keepsI simp: mgr_frame_def same_env_def sat_add_mono)

lemma frame_ask: "frame.keeps (ask f)"
  by (auto intro!: frame.keepsI simp: mgr_frame_def same_env_def)

lemma frame_act: "frame.keeps (act a)"
  by (auto intro!: frame.keepsI simp: mgr_frame_def same_env_def)

lemma frame_modify [rel_intros]:
  "frame.keeps (modify (\<lambda>w. w\<lparr>m_child := f1 w\<rparr>))"
  "frame.keeps (modify (\<lambda>w. w\<lparr>m_last_start_failure := f2 w\<rparr>))"
  "frame.keeps (modify (\<lambda>w. w\<lparr>m_last_external_probe := f3 w\<rparr>))"
  "frame.keeps (modify (\<lambda>w. w\<lparr>m_pending_restart := f4 w\<rparr>))"
  "frame.keeps (modify (\<lambda>w. w\<lparr>m_next_scheduled_restart_at := f5 w\<rparr>))"
  "frame.keeps (modify (\<lambda>w. w\<lparr>m_last_upgrade_marker_modified := f6 w\<rparr>))"
  "frame.keeps (modify (\<lambda>w. w\<lparr>m_pending_restart := f7 w, m_next_scheduled_restart_at := f8 w\<rparr>))"
  by (auto intro!: frame.keepsI simp: mgr_frame_def same_env_def)

lemmas frame_rules =
  frame.keeps_ret frame.keeps_gets frame.keeps_bind frame.keeps_tryE frame.keeps_if frame.keeps_when
  frame.keeps_option frame.keeps_sum frame.keeps_prod frame_set_state frame_ask frame_act frame_modify

named_theorems mgr_frames \<open>every operation of the manager keeps the frame\<close>

lemma frame_now [mgr_frames]: "frame.keeps now"
  unfolding now_def by (rule frame_ask)

lemma frame_sleep [mgr_frames]: "frame.keeps (sleep d)"
  unfolding sleep_def by (rule frame_act)

lemma frame_health_check [mgr_frames]: "frame.keeps (health_check url)"
  unfolding health_check_def by (intro frame_rules)

lemma frame_terminate_child [mgr_frames]: "frame.keeps (terminate_child pid)"
  unfolding terminate_child_def by (intro frame_rules)

lemma frame_upgrade_marker_modified [mgr_frames]: "frame.keeps (upgrade_marker_modified m)"
  unfolding upgrade_marker_modified_def by (intro frame_rules)

lemma frame_record_start_failure [mgr_frames]: "frame.keeps record_start_failure"
  unfolding record_start_failure_def by (intro frame_rules mgr_frames)

lemma frame_stop_child_checked [mgr_frames]: "frame.keeps (stop_child_checked reason)"
  unfolding stop_child_checked_def by (intro frame_rules mgr_frames)

lemma frame_stop_child [mgr_frames]: "frame.keeps (stop_child reason)"
  unfolding stop_child_def by (intro frame_rules mgr_frames)

lemma frame_clear_exited_child [mgr_frames]: "frame.keeps clear_exited_child"
  unfolding clear_exited_child_def
  by (intro frame_rules mgr_frames) (auto split: wait_answer.splits intro!: frame_rules mgr_frames)

lemma frame_start_backoff_deadline [mgr_frames]: "frame.keeps (start_backoff_deadline c)"
  unfolding start_backoff_deadline_def Let_def by (intro frame_rules)

lemma frame_can_attempt_start [mgr_frames]: "frame.keeps (can_attempt_start c)"
  unfolding can_attempt_start_def by (intro frame_rules mgr_frames)

lemma frame_validated_listen_url [mgr_frames]: "frame.keeps validated_listen_url"
  unfolding validated_listen_url_def by (intro frame_rules)

lemma frame_spawn_attempts [mgr_frames]: "frame.keeps (spawn_attempts n cmd)"
  by (induction n cmd rule: spawn_attempts.induct)
    (auto split: spawn_answer.splits intro!: frame_rules mgr_frames)

lemma frame_spawn_app_server [mgr_frames]: "frame.keeps (spawn_app_server c url)"
  unfolding spawn_app_server_def by (rule frame_spawn_attempts)

lemma frame_wait_round [mgr_frames]: "frame.keeps (wait_round c url deadline)"
  unfolding wait_round_def by (intro frame_rules mgr_frames)

lemma frame_wait_rounds [mgr_frames]: "frame.keeps (wait_rounds fuel c url deadline)"
  by (induction fuel) (auto intro!: frame_rules mgr_frames)

lemma frame_wait_until_ready [mgr_frames]: "frame.keeps (wait_until_ready fuel c url)"
  unfolding wait_until_ready_def Let_def by (intro frame_rules mgr_frames)

lemma frame_probe_ready [mgr_frames]: "frame.keeps (probe_ready c)"
  unfolding probe_ready_def by (intro frame_rules mgr_frames)

lemma frame_preserve [mgr_frames]: "frame.keeps should_preserve_forced_restart_backoff_summary"
  unfolding should_preserve_forced_restart_backoff_summary_def by (intro frame_rules)

lemma frame_start_app_server [mgr_frames]: "frame.keeps (start_app_server fuel c url)"
  unfolding start_app_server_def by (intro frame_rules mgr_frames)

lemma frame_replace_child [mgr_frames]: "frame.keeps (replace_child fuel c url)"
  unfolding replace_child_def by (intro frame_rules mgr_frames)

lemma frame_ensure_ready [mgr_frames]: "frame.keeps (ensure_ready fuel c)"
  unfolding ensure_ready_def by (intro frame_rules mgr_frames)

lemma frame_request_restart [mgr_frames]: "frame.keeps (request_restart reason)"
  unfolding request_restart_def by (intro frame_rules mgr_frames)

lemma frame_schedule_periodic_restart [mgr_frames]: "frame.keeps (schedule_periodic_restart c)"
  unfolding schedule_periodic_restart_def Let_def by (intro frame_rules mgr_frames)

lemma frame_schedule_upgrade_marker_restart [mgr_frames]: "frame.keeps (schedule_upgrade_marker_restart c)"
  unfolding schedule_upgrade_marker_restart_def by (intro frame_rules mgr_frames)

lemma frame_schedule_requests [mgr_frames]: "frame.keeps (schedule_configured_restart_requests c)"
  unfolding schedule_configured_restart_requests_def by (intro frame_rules mgr_frames)

lemma frame_backoff_deadline [mgr_frames]: "frame.keeps (scheduled_restart_backoff_deadline c p)"
  unfolding scheduled_restart_backoff_deadline_def by (intro frame_rules mgr_frames)

lemma frame_block_unowned [mgr_frames]: "frame.keeps (block_unowned_listener_restart c reason)"
  unfolding block_unowned_listener_restart_def by (intro frame_rules mgr_frames)

lemma frame_arm [mgr_frames]: "frame.keeps (arm_next_scheduled_restart c)"
  unfolding arm_next_scheduled_restart_def Let_def by (intro frame_rules mgr_frames)

lemma frame_record_forced [mgr_frames]: "frame.keeps (record_forced_restart_result reason h)"
  unfolding record_forced_restart_result_def by (intro frame_rules mgr_frames)

lemma frame_perform_restart [mgr_frames]: "frame.keeps (perform_restart fuel c p force)"
  unfolding perform_restart_def Let_def by (intro frame_rules mgr_frames)

lemma frame_advance [mgr_frames]: "frame.keeps (advance_pending_restart fuel c)"
  unfolding advance_pending_restart_def by (intro frame_rules mgr_frames)

lemma frame_runtime_url [mgr_frames]: "frame.keeps (runtime_app_server_url fuel c)"
  unfolding runtime_app_server_url_def by (intro frame_rules mgr_frames)

lemma frame_active_turn_url [mgr_frames]: "frame.keeps (active_turn_app_server_url fuel c)"
  unfolding active_turn_app_server_url_def by (intro frame_rules mgr_frames)

lemma frame_start_policy [mgr_frames]: "frame.keeps (runtime_config_with_start_policy fuel c b)"
  unfolding runtime_config_with_start_policy_def by (intro frame_rules mgr_frames)

lemma frame_runtime_config [mgr_frames]: "frame.keeps (runtime_config fuel c)"
  unfolding runtime_config_def by (rule frame_start_policy)

lemma frame_during_turn [mgr_frames]: "frame.keeps (runtime_config_during_active_turn fuel c)"
  unfolding runtime_config_during_active_turn_def by (intro frame_rules mgr_frames)

lemma frame_refresh [mgr_frames]: "frame.keeps (refresh_external_state c)"
  unfolding refresh_external_state_def by (intro frame_rules mgr_frames)

lemma frame_snapshot [mgr_frames]: "frame.keeps (instance_snapshot c)"
  unfolding instance_snapshot_def by (intro frame_rules mgr_frames)


subsection \<open>Ownership of the child process\<close>

text \<open>
  The processes started and not yet terminated, read off the trace. The manager owns at most
  one, the one its \<open>child\<close> field names: none is started while another runs, none is forgotten.
\<close>

fun owned_step :: "m_action \<Rightarrow> nat set \<Rightarrow> nat set" where
  "owned_step (ActSpawn _ pid) ps = insert pid ps"
| "owned_step (ActTerminate pid None) ps = ps - {pid}"
| "owned_step _ ps = ps"

definition owned_of :: "m_action list \<Rightarrow> nat set" where
  "owned_of tr = fold owned_step tr {}"

lemma owned_of_snoc [simp]: "owned_of (tr @ [a]) = owned_step a (owned_of tr)"
  by (simp add: owned_of_def)

definition owns :: "mworld \<Rightarrow> bool" where
  "owns w \<longleftrightarrow> owned_of (w_trace w) = set_option (m_child w)"

interpretation own: effect_rel "\<lambda>s t. owns s \<longrightarrow> owns t"
  by unfold_locales blast+

named_theorems mgr_owns \<open>operations of the manager that keep the ownership of the child\<close>

lemma own_ask [mgr_owns]: "own.keeps (ask f)"
  by (rule own.keepsI) (simp add: owns_def)

lemma own_set_state [mgr_owns]: "own.keeps (set_state st summary err)"
  by (rule own.keepsI) (simp add: owns_def)

lemma own_modify [mgr_owns]:
  "own.keeps (modify (\<lambda>w. w\<lparr>m_last_start_failure := f2 w\<rparr>))"
  "own.keeps (modify (\<lambda>w. w\<lparr>m_last_external_probe := f3 w\<rparr>))"
  "own.keeps (modify (\<lambda>w. w\<lparr>m_pending_restart := f4 w\<rparr>))"
  "own.keeps (modify (\<lambda>w. w\<lparr>m_next_scheduled_restart_at := f5 w\<rparr>))"
  "own.keeps (modify (\<lambda>w. w\<lparr>m_last_upgrade_marker_modified := f6 w\<rparr>))"
  "own.keeps (modify (\<lambda>w. w\<lparr>m_pending_restart := f7 w, m_next_scheduled_restart_at := f8 w\<rparr>))"
  by (rule own.keepsI, simp add: owns_def)+

lemma own_now [mgr_owns]: "own.keeps now"
  and own_sleep [mgr_owns]: "own.keeps (sleep d)"
  and own_health_check [mgr_owns]: "own.keeps (health_check url)"
  and own_record_start_failure [mgr_owns]: "own.keeps record_start_failure"
  by (rule own.keepsI, simp add: owns_def)+

lemma run_stop_child_checked:
  "run_state (stop_child_checked reason) w =
     (case m_child w of
        None \<Rightarrow> (Inr (), w)
      | Some pid \<Rightarrow>
          (case w_terminate w (w_tick w) of
             None \<Rightarrow> (Inr (), w\<lparr>w_tick := Suc (w_tick w),
                               w_trace := w_trace w @ [ActTerminate pid None], m_child := None\<rparr>)
           | Some e \<Rightarrow> (Inl e, w\<lparr>w_tick := Suc (w_tick w),
                                 w_trace := w_trace w @ [ActTerminate pid (Some e)]\<rparr>)))"
  by (auto simp: stop_child_checked_def split: option.splits)

lemma own_stop_child_checked [mgr_owns]: "own.keeps (stop_child_checked reason)"
  by (rule own.keepsI) (auto simp: owns_def run_stop_child_checked split: option.splits)

lemmas own_rules =
  own.keeps_ret own.keeps_gets own.keeps_bind own.keeps_tryE own.keeps_if own.keeps_when
  own.keeps_option own.keeps_sum own.keeps_prod

lemma own_stop_child [mgr_owns]: "own.keeps (stop_child reason)"
  unfolding stop_child_def by (intro own_rules mgr_owns)

lemma own_clear_exited_child [mgr_owns]: "own.keeps clear_exited_child"
  unfolding clear_exited_child_def
  by (intro own_rules mgr_owns) (auto split: wait_answer.splits intro!: own_rules mgr_owns)

lemma own_upgrade_marker_modified [mgr_owns]: "own.keeps (upgrade_marker_modified m)"
  unfolding upgrade_marker_modified_def by (intro own_rules mgr_owns)

lemma own_start_backoff_deadline [mgr_owns]: "own.keeps (start_backoff_deadline c)"
  unfolding start_backoff_deadline_def Let_def by (intro own_rules)

lemma own_can_attempt_start [mgr_owns]: "own.keeps (can_attempt_start c)"
  unfolding can_attempt_start_def by (intro own_rules mgr_owns)

lemma own_validated_listen_url [mgr_owns]: "own.keeps validated_listen_url"
  unfolding validated_listen_url_def by (intro own_rules)

lemma own_wait_round [mgr_owns]: "own.keeps (wait_round c url deadline)"
  unfolding wait_round_def by (intro own_rules mgr_owns)

lemma own_wait_rounds [mgr_owns]: "own.keeps (wait_rounds fuel c url deadline)"
  by (induction fuel) (auto intro!: own_rules mgr_owns)

lemma own_wait_until_ready [mgr_owns]: "own.keeps (wait_until_ready fuel c url)"
  unfolding wait_until_ready_def Let_def by (intro own_rules mgr_owns)

lemma own_probe_ready [mgr_owns]: "own.keeps (probe_ready c)"
  unfolding probe_ready_def by (intro own_rules mgr_owns)

lemma own_preserve [mgr_owns]: "own.keeps should_preserve_forced_restart_backoff_summary"
  unfolding should_preserve_forced_restart_backoff_summary_def by (intro own_rules)

lemma spawn_attempts_owned:
  "run_state (spawn_attempts n cmd) w = (r, w') \<Longrightarrow>
   m_child w' = m_child w \<and>
   owned_of (w_trace w') =
     (case r of Inl _ \<Rightarrow> owned_of (w_trace w) | Inr pid \<Rightarrow> insert pid (owned_of (w_trace w)))"
proof (induction n arbitrary: w)
  case (Suc n)
  show ?case
  proof (cases "w_spawn w (w_tick w)")
    case (SpawnBusy e)
    show ?thesis
    proof (cases "0 < n")
      case True
      with Suc.prems SpawnBusy have
        "run_state (spawn_attempts n cmd)
           (w\<lparr>w_tick := Suc (w_tick w), w_trace := w_trace w @ [ActSleep app_server_spawn_retry_delay]\<rparr>) = (r, w')"
        by simp
      from Suc.IH [OF this] show ?thesis by (simp split: sum.splits)
    next
      case False
      with Suc.prems SpawnBusy show ?thesis by auto
    qed
  qed (use Suc.prems in auto)
qed auto

lemma owns_start_app_server:
  assumes "owns w" and "m_child w = None"
  shows "owns (snd (run_state (start_app_server fuel c url) w))"
proof -
  obtain r w1 where s: "run_state (spawn_app_server c url) w = (r, w1)"
    by (cases "run_state (spawn_app_server c url) w")
  note sp = spawn_attempts_owned [OF s [unfolded spawn_app_server_def]]
  show ?thesis
  proof (cases r)
    case (Inl e)
    with assms sp s show ?thesis by (simp add: start_app_server_def owns_def)
  next
    case (Inr pid)
    let ?rest = "tryE (wait_until_ready fuel c url) (\<lambda>ready.
        if ready
        then do { set_state Healthy ''Managed app-server is healthy.'' None; ret (Inr (Some url)) }
        else do { stop_child ''managed app-server did not become healthy before startup timeout'';
                  record_start_failure;
                  set_state Degraded ''Managed app-server did not become healthy before startup timeout.''
                    (Some ''Startup health check timed out.'');
                  ret (Inr None) }) :: (m_fault + string option) mgr"
    have "own.keeps ?rest" by (intro own_rules mgr_owns)
    moreover have "owns (w1\<lparr>m_child := Some pid\<rparr>)"
      using assms sp Inr by (simp add: owns_def)
    ultimately have "owns (snd (run_state ?rest (w1\<lparr>m_child := Some pid\<rparr>)))"
      by (blast dest: own.keepsD)
    with s Inr show ?thesis by (simp add: start_app_server_def)
  qed
qed

lemma own_replace_child [mgr_owns]: "own.keeps (replace_child fuel c url)"
proof (rule own.keepsI, rule impI)
  fix w assume w: "owns w"
  show "owns (snd (run_state (replace_child fuel c url) w))"
  proof (cases "m_child w")
    case None
    with w show ?thesis by (simp add: replace_child_def owns_start_app_server)
  next
    case (Some pid)
    with w show ?thesis
      by (auto simp: replace_child_def run_stop_child_checked owns_def split: option.splits
          intro!: owns_start_app_server [unfolded owns_def])
  qed
qed

lemma own_ensure_ready [mgr_owns]: "own.keeps (ensure_ready fuel c)"
  unfolding ensure_ready_def by (intro own_rules mgr_owns)

lemma own_request_restart [mgr_owns]: "own.keeps (request_restart reason)"
  unfolding request_restart_def by (intro own_rules mgr_owns)

lemma own_schedule_periodic_restart [mgr_owns]: "own.keeps (schedule_periodic_restart c)"
  unfolding schedule_periodic_restart_def Let_def by (intro own_rules mgr_owns)

lemma own_schedule_upgrade_marker_restart [mgr_owns]: "own.keeps (schedule_upgrade_marker_restart c)"
  unfolding schedule_upgrade_marker_restart_def by (intro own_rules mgr_owns)

lemma own_schedule_requests [mgr_owns]: "own.keeps (schedule_configured_restart_requests c)"
  unfolding schedule_configured_restart_requests_def by (intro own_rules mgr_owns)

lemma own_backoff_deadline [mgr_owns]: "own.keeps (scheduled_restart_backoff_deadline c p)"
  unfolding scheduled_restart_backoff_deadline_def by (intro own_rules mgr_owns)

lemma own_block_unowned [mgr_owns]: "own.keeps (block_unowned_listener_restart c reason)"
  unfolding block_unowned_listener_restart_def by (intro own_rules mgr_owns)

lemma own_arm [mgr_owns]: "own.keeps (arm_next_scheduled_restart c)"
  unfolding arm_next_scheduled_restart_def Let_def by (intro own_rules mgr_owns)

lemma own_record_forced [mgr_owns]: "own.keeps (record_forced_restart_result reason h)"
  unfolding record_forced_restart_result_def by (intro own_rules mgr_owns)

lemma own_perform_restart [mgr_owns]: "own.keeps (perform_restart fuel c p force)"
  unfolding perform_restart_def Let_def by (intro own_rules mgr_owns)

lemma own_advance [mgr_owns]: "own.keeps (advance_pending_restart fuel c)"
  unfolding advance_pending_restart_def by (intro own_rules mgr_owns)

lemma own_runtime_config [mgr_owns]: "own.keeps (runtime_config fuel c)"
  unfolding runtime_config_def runtime_config_with_start_policy_def runtime_app_server_url_def
  by (intro own_rules mgr_owns)

lemma own_during_turn [mgr_owns]: "own.keeps (runtime_config_during_active_turn fuel c)"
  unfolding runtime_config_during_active_turn_def active_turn_app_server_url_def
  by (intro own_rules mgr_owns)

lemma own_snapshot [mgr_owns]: "own.keeps (instance_snapshot c)"
  unfolding instance_snapshot_def refresh_external_state_def by (intro own_rules mgr_owns)

lemma own_turns [mgr_owns]: "own.keeps begin_turn" "own.keeps finish_turn"
  by (rule own.keepsI, simp add: begin_turn_def finish_turn_def owns_def)+


subsection \<open>The URL offered and the health reported\<close>

lemma start_app_server_result:
  "run_state (start_app_server fuel c url) w = (Inr r, w') \<Longrightarrow>
   (case r of Some u \<Rightarrow> u = url \<and> m_state w' = Healthy \<and> m_last_error w' = None
            | None \<Rightarrow> m_state w' = Degraded \<and> m_last_error w' \<noteq> None)"
  by (auto simp: start_app_server_def split: prod.splits sum.splits if_splits)

lemma replace_child_result:
  "run_state (replace_child fuel c url) w = (Inr r, w') \<Longrightarrow>
   (case r of Some u \<Rightarrow> u = url \<and> m_state w' = Healthy \<and> m_last_error w' = None
            | None \<Rightarrow> m_state w' = Degraded \<and> m_last_error w' \<noteq> None)"
  unfolding replace_child_def
  by (auto split: prod.splits sum.splits if_splits dest!: start_app_server_result)

definition managed_url_of :: "mworld \<Rightarrow> string \<Rightarrow> bool" where
  "managed_url_of w url \<longleftrightarrow> m_listen_url w = Some url \<and> is_managed_listen_url (w_uri w) url"

lemma run_validated_listen_url:
  "run_state validated_listen_url w = (u, w') \<Longrightarrow>
   w' = w \<and> (u = None \<longleftrightarrow> (\<nexists>url. managed_url_of w url)) \<and> (\<forall>url. u = Some url \<longleftrightarrow> managed_url_of w url)"
  by (cases "m_listen_url w") (auto simp: validated_listen_url_def managed_url_of_def split: if_splits dest: sym)

lemma preserve_Degraded:
  "run_state should_preserve_forced_restart_backoff_summary w = (True, w') \<Longrightarrow> w' = w \<and> m_state w = Degraded"
  by (auto simp: should_preserve_forced_restart_backoff_summary_def)

lemma run_start_backoff_deadline:
  "run_state (start_backoff_deadline c) w =
     (Option.bind (m_last_start_failure w)
        (\<lambda>t. instant_checked_add t
              (secs (max (ma_restart_backoff_seconds (si_managed_app_server (ac_session_inventory c))) 1))), w)"
  by (simp add: start_backoff_deadline_def Let_def)

lemma ensure_ready_result:
  assumes "run_state (ensure_ready fuel c) w = (Inr r, w')"
  shows "(case r of Some u \<Rightarrow> managed_url_of w u \<and> m_state w' = Healthy \<and> m_last_error w' = None
                  | None \<Rightarrow> m_state w' = Degraded \<or> m_state w' = Stopped)"
proof -
  obtain u where u: "run_state validated_listen_url w = (u, w)"
    by (cases "run_state validated_listen_url w") (auto dest: run_validated_listen_url)
  show ?thesis
  proof (cases u)
    case None
    with u assms show ?thesis by (auto simp: ensure_ready_def)
  next
    case (Some url)
    with u have url: "managed_url_of w url" by (auto dest: run_validated_listen_url)
    show ?thesis
      using assms u Some url
      by (auto simp: ensure_ready_def should_preserve_forced_restart_backoff_summary_def
          split: prod.splits if_splits option.splits dest!: replace_child_result)
  qed
qed

lemma block_unowned_result:
  "run_state (block_unowned_listener_restart c reason) w = (b, w') \<Longrightarrow>
   (b \<longrightarrow> m_state w' = Degraded \<and> m_child w = None) \<and> m_child w' = m_child w
   \<and> m_pending_restart w' = m_pending_restart w"
  by (auto simp: block_unowned_listener_restart_def probe_ready_def validated_listen_url_def
      split: prod.splits if_splits option.splits)

lemma managed_url_frame: "mgr_frame w w' \<Longrightarrow> managed_url_of w' u \<longleftrightarrow> managed_url_of w u"
  by (simp add: mgr_frame_def same_env_def managed_url_of_def)


text \<open>The result of each way to obtain a URL, in one predicate.\<close>

definition url_matches_state :: "mworld \<Rightarrow> string option \<Rightarrow> mworld \<Rightarrow> bool" where
  "url_matches_state w r w' \<longleftrightarrow>
     (case r of Some u \<Rightarrow> managed_url_of w u \<and> m_state w' = Healthy \<and> m_last_error w' = None
              | None \<Rightarrow> m_state w' \<noteq> Healthy)"

lemma ensure_ready_url: "run_state (ensure_ready fuel c) w = (Inr r, w') \<Longrightarrow> url_matches_state w r w'"
  by (auto simp: url_matches_state_def dest!: ensure_ready_result split: option.splits)

lemma perform_restart_url:
  assumes "run_state (perform_restart fuel c p force) w = (Inr r, w')"
  shows "url_matches_state w r w'"
proof -
  define pre where "pre = (do { modify (\<lambda>w. w\<lparr>m_pending_restart := None\<rparr>);
           arm_next_scheduled_restart c;
           child \<leftarrow> gets m_child;
           whenS (child \<noteq> None \<or> force \<or> overrides_start_backoff (pr_reason p))
             (modify (\<lambda>w. w\<lparr>m_last_start_failure := None\<rparr>));
           set_state Restarting (restarting_summary (pr_reason p) force)
             (if force then Some ''Drain timeout elapsed while active turns were still running.'' else None);
           stop_child_checked (stop_reason (pr_reason p) force) })"
  have keeps: "frame.keeps pre" unfolding pre_def by (intro frame_rules mgr_frames)
  obtain sr w1 where w1: "run_state pre w = (sr, w1)" by (cases "run_state pre w")
  from frame.keepsE [OF keeps w1] have f1: "mgr_frame w w1" .
  show ?thesis
  proof (cases sr)
    case (Inl e)
    with w1 assms show ?thesis
      by (auto simp: perform_restart_def pre_def url_matches_state_def Let_def split: prod.splits)
  next
    case (Inr x)
    obtain b w2 where w2: "run_state (block_unowned_listener_restart c (pr_reason p)) w1 = (b, w2)"
      by (cases "run_state (block_unowned_listener_restart c (pr_reason p)) w1")
    from frame.keepsE [OF frame_block_unowned w2] f1 have f2: "mgr_frame w w2"
      by (blast intro: frame.R_trans)
    show ?thesis
    proof (cases b)
      case True
      with w1 w2 Inr assms block_unowned_result [OF w2] show ?thesis
        by (auto simp: perform_restart_def pre_def url_matches_state_def Let_def split: prod.splits)
    next
      case False
      obtain er w3 where w3: "run_state (ensure_ready fuel c) w2 = (er, w3)"
        by (cases "run_state (ensure_ready fuel c) w2")
      from w1 w2 w3 Inr False assms obtain u where er: "er = Inr u" and r: "r = u"
        by (auto simp: perform_restart_def pre_def Let_def split: prod.splits sum.splits)
      from w3 er ensure_ready_url have m: "url_matches_state w2 u w3" by blast
      from assms w1 w2 w3 Inr False er r m managed_url_frame [OF f2] show ?thesis
        by (auto simp: perform_restart_def pre_def Let_def url_matches_state_def record_forced_restart_result_def
            arm_next_scheduled_restart_def split: prod.splits if_splits option.splits)
    qed
  qed
qed

lemma advance_pending_restart_url:
  assumes pending: "m_pending_restart w = Some p"
    and run: "run_state (advance_pending_restart fuel c) w = (Inr r, w')"
  shows "url_matches_state w r w'"
proof -
  define pre where "pre = (do {
      clear_exited_child;
      active \<leftarrow> gets m_active_turn_count;
      force_restart \<leftarrow>
        (if 0 < active
         then do { t \<leftarrow> now;
                   ret (secs (max (ma_drain_timeout_seconds (si_managed_app_server (ac_session_inventory c))) 1)
                         \<le> t - pr_requested_at p) }
         else ret False);
      backoff \<leftarrow> scheduled_restart_backoff_deadline c p;
      ret (active, force_restart, backoff) })"
  have keeps: "frame.keeps pre" unfolding pre_def by (intro frame_rules mgr_frames)
  obtain active force backoff w1 where w1: "run_state pre w = ((active, force, backoff), w1)"
    by (cases "run_state pre w") auto
  from frame.keepsE [OF keeps w1] have f1: "mgr_frame w w1" .
  note step = pending run w1
  consider (drain) "0 < active \<and> (backoff \<noteq> None \<or> \<not> force)" | (go) "\<not> (0 < active \<and> (backoff \<noteq> None \<or> \<not> force))"
    by blast
  then show ?thesis
  proof cases
    case drain
    with step show ?thesis
      by (auto simp: advance_pending_restart_def pre_def url_matches_state_def split: prod.splits if_splits)
  next
    case go
    obtain b w2 where w2: "run_state (block_unowned_listener_restart c (pr_reason p)) w1 = (b, w2)"
      by (cases "run_state (block_unowned_listener_restart c (pr_reason p)) w1")
    from frame.keepsE [OF frame_block_unowned w2] f1 have f2: "mgr_frame w w2"
      by (blast intro: frame.R_trans)
    show ?thesis
    proof (cases b)
      case True
      with step go w2 block_unowned_result [OF w2] show ?thesis
        by (auto simp: advance_pending_restart_def pre_def url_matches_state_def split: prod.splits if_splits)
    next
      case False
      show ?thesis
      proof (cases backoff)
        case None
        from step go w2 False None have "run_state (perform_restart fuel c p force) w2 = (Inr r, w')"
          by (auto simp: advance_pending_restart_def pre_def split: prod.splits if_splits)
        from perform_restart_url [OF this] managed_url_frame [OF f2] show ?thesis
          by (simp add: url_matches_state_def split: option.splits)
      next
        case (Some d)
        let ?w3 = "w2\<lparr>m_pending_restart := None, m_next_scheduled_restart_at := backoff\<rparr>"
        from step go w2 False Some have "run_state (ensure_ready fuel c) ?w3 = (Inr r, w')"
          by (auto simp: advance_pending_restart_def pre_def split: prod.splits if_splits)
        from ensure_ready_url [OF this] managed_url_frame [OF f2] show ?thesis
          by (simp add: url_matches_state_def managed_url_of_def split: option.splits)
      qed
    qed
  qed
qed

lemma runtime_app_server_url_matches:
  assumes "run_state (runtime_app_server_url fuel c) w = (Inr r, w')"
  shows "url_matches_state w r w'"
proof -
  obtain x w1 where w1: "run_state (schedule_configured_restart_requests c) w = (x, w1)"
    by (cases "run_state (schedule_configured_restart_requests c) w")
  from frame.keepsE [OF frame_schedule_requests w1] have f: "mgr_frame w w1" .
  have "url_matches_state w1 r w'"
  proof (cases "m_pending_restart w1")
    case None
    with assms w1 show ?thesis by (auto simp: runtime_app_server_url_def intro: ensure_ready_url)
  next
    case (Some p)
    with assms w1 show ?thesis
      by (auto simp: runtime_app_server_url_def intro: advance_pending_restart_url [OF Some])
  qed
  with managed_url_frame [OF f] show ?thesis
    by (simp add: url_matches_state_def split: option.splits)
qed


subsection \<open>Restart requests\<close>

lemma request_restart_pending:
  "m_pending_restart (snd (run_state (request_restart reason) w)) =
     (case m_pending_restart w of
        Some p \<Rightarrow> (if supersedes reason (pr_reason p)
                    then Some \<lparr>pr_reason = reason, pr_requested_at = w_now w (w_tick w)\<rparr> else Some p)
      | None \<Rightarrow> Some \<lparr>pr_reason = reason, pr_requested_at = w_now w (w_tick w)\<rparr>)"
  by (auto simp: request_restart_def split: option.splits)

text \<open>
  Asking for restarts does nothing to the process. A pending restart afterwards is the one
  before, or was asked for during the call.
\<close>

definition asks_only :: "mworld \<Rightarrow> mworld \<Rightarrow> bool" where
  "asks_only s t \<longleftrightarrow>
     w_trace t = w_trace s \<and> m_child t = m_child s \<and> m_last_start_failure t = m_last_start_failure s
     \<and> same_env s t \<and> m_active_turn_count t = m_active_turn_count s
     \<and> (m_pending_restart t = m_pending_restart s
        \<or> (\<exists>p k. m_pending_restart t = Some p \<and> pr_requested_at p = w_now s k))"

interpretation asks: effect_rel asks_only
proof unfold_locales
  fix s t u
  show "asks_only s s" by (simp add: asks_only_def same_env_def)
  assume st: "asks_only s t" and tu: "asks_only t u"
  then have now: "w_now t = w_now s" by (simp add: asks_only_def same_env_def)
  from tu consider (same) "m_pending_restart u = m_pending_restart t"
    | (asked) p k where "m_pending_restart u = Some p" "pr_requested_at p = w_now t k"
    unfolding asks_only_def by blast
  then show "asks_only s u"
  proof cases
    case same
    with st tu show ?thesis by (simp add: asks_only_def same_env_def)
  next
    case asked
    with st tu now show ?thesis by (fastforce simp: asks_only_def same_env_def)
  qed
qed

lemma asks_request_restart: "asks.keeps (request_restart reason)"
  by (rule asks.keepsI) (auto simp: asks_only_def same_env_def request_restart_def split: option.splits)

lemma asks_prims:
  "asks.keeps (ask f)"
  "asks.keeps (modify (\<lambda>w. w\<lparr>m_next_scheduled_restart_at := f5 w\<rparr>))"
  "asks.keeps (modify (\<lambda>w. w\<lparr>m_last_upgrade_marker_modified := f6 w\<rparr>))"
  "asks.keeps now"
  by (rule asks.keepsI, simp add: asks_only_def same_env_def)+

lemmas asks_rules =
  asks.keeps_ret asks.keeps_gets asks.keeps_bind asks.keeps_tryE asks.keeps_if asks.keeps_when
  asks.keeps_option asks.keeps_sum asks.keeps_prod asks_prims asks_request_restart

lemma asks_schedule_requests: "asks.keeps (schedule_configured_restart_requests c)"
  unfolding schedule_configured_restart_requests_def schedule_periodic_restart_def Let_def
    schedule_upgrade_marker_restart_def start_backoff_deadline_def upgrade_marker_modified_def
  by (intro asks_rules)

subsection \<open>Draining\<close>

abbreviation drain_timeout :: "agent_config \<Rightarrow> duration" where
  "drain_timeout c \<equiv> secs (max (ma_drain_timeout_seconds (si_managed_app_server (ac_session_inventory c))) 1)"

lemma clear_exited_child_running:
  "(\<And>k. w_try_wait w k = Running) \<Longrightarrow>
   \<exists>n. run_state clear_exited_child w = ((), w\<lparr>w_tick := n\<rparr>)"
  by (cases "m_child w")
    (auto simp: clear_exited_child_def intro: exI [of _ "w_tick w"] exI [of _ "Suc (w_tick w)"])


lemma backoff_deadline_tick:
  "\<exists>b n. run_state (scheduled_restart_backoff_deadline c p) w = (b, w\<lparr>w_tick := n\<rparr>)"
  by (cases "m_child w")
    (auto simp: scheduled_restart_backoff_deadline_def run_start_backoff_deadline
      split: option.splits intro: exI [of _ "w_tick w"] exI [of _ "Suc (w_tick w)"])

lemma advance_drains:
  assumes active: "0 < m_active_turn_count w" and pending: "m_pending_restart w = Some p"
    and running: "\<And>k. w_try_wait w k = Running"
    and early: "\<And>k. w_now w k < pr_requested_at p + drain_timeout c"
  shows "\<exists>w'. run_state (advance_pending_restart fuel c) w = (Inr None, w') \<and> w_trace w' = w_trace w
           \<and> m_child w' = m_child w \<and> m_pending_restart w' = Some p \<and> m_state w' = Draining"
proof -
  obtain n where n: "run_state clear_exited_child w = ((), w\<lparr>w_tick := n\<rparr>)"
    using clear_exited_child_running running by blast
  obtain b m where m: "run_state (scheduled_restart_backoff_deadline c p) (w\<lparr>w_tick := Suc n\<rparr>)
      = (b, w\<lparr>w_tick := m\<rparr>)"
    using backoff_deadline_tick [of c p "w\<lparr>w_tick := Suc n\<rparr>"] by auto
  have "0 < drain_timeout c" by simp
  with early [of n] have "\<not> drain_timeout c \<le> w_now w n - pr_requested_at p" by linarith
  with active pending n m show ?thesis
    by (auto simp: advance_pending_restart_def)
qed

subsection \<open>Completed restarts\<close>

lemma owned_of_removed:
  "pid \<in> owned_of tr \<Longrightarrow> pid \<notin> owned_of (tr @ xs) \<Longrightarrow> ActTerminate pid None \<in> set xs"
proof (induction xs rule: rev_induct)
  case (snoc a xs)
  show ?case
  proof (cases "pid \<in> owned_of (tr @ xs)")
    case True
    with snoc.prems(2) have "owned_step a (owned_of (tr @ xs)) \<noteq> insert pid (owned_step a (owned_of (tr @ xs)))"
      by (simp flip: append_assoc) blast
    with True show ?thesis
      by (cases "(a, owned_of (tr @ xs))" rule: owned_step.cases) auto
  next
    case False
    with snoc show ?thesis by simp
  qed
qed simp

interpretation pend: effect_rel "\<lambda>s t. m_pending_restart t = m_pending_restart s"
  by unfold_locales simp_all

lemma pend_prims:
  "pend.keeps (ask f)" "pend.keeps (act a)" "pend.keeps (set_state st summary err)"
  "pend.keeps (modify (\<lambda>w. w\<lparr>m_child := f1 w\<rparr>))"
  "pend.keeps (modify (\<lambda>w. w\<lparr>m_last_start_failure := f2 w\<rparr>))"
  "pend.keeps (modify (\<lambda>w. w\<lparr>m_next_scheduled_restart_at := f5 w\<rparr>))"
  by (rule pend.keepsI, simp)+

lemmas pend_rules =
  pend.keeps_ret pend.keeps_gets pend.keeps_bind pend.keeps_tryE pend.keeps_if pend.keeps_when
  pend.keeps_option pend.keeps_sum pend.keeps_prod pend_prims

named_theorems mgr_pends \<open>operations that leave the pending restart alone\<close>

lemma pend_now [mgr_pends]: "pend.keeps now"
  unfolding now_def by (intro pend_rules)

lemma pend_health_check [mgr_pends]: "pend.keeps (health_check url)"
  unfolding health_check_def by (intro pend_rules)

lemma pend_stop_child_checked [mgr_pends]: "pend.keeps (stop_child_checked reason)"
  unfolding stop_child_checked_def terminate_child_def by (intro pend_rules)

lemma pend_record_start_failure [mgr_pends]: "pend.keeps record_start_failure"
  unfolding record_start_failure_def by (intro pend_rules mgr_pends)

lemma pend_stop_child [mgr_pends]: "pend.keeps (stop_child reason)"
  unfolding stop_child_def by (intro pend_rules mgr_pends)

lemma pend_clear_exited_child [mgr_pends]: "pend.keeps clear_exited_child"
  unfolding clear_exited_child_def
  by (intro pend_rules mgr_pends) (auto split: wait_answer.splits intro!: pend_rules mgr_pends)

lemma pend_wait_round [mgr_pends]: "pend.keeps (wait_round c url deadline)"
  unfolding wait_round_def sleep_def by (intro pend_rules mgr_pends)

lemma pend_wait_rounds [mgr_pends]: "pend.keeps (wait_rounds fuel c url deadline)"
  by (induction fuel) (auto intro!: pend_rules mgr_pends)

lemma pend_spawn_attempts [mgr_pends]: "pend.keeps (spawn_attempts n cmd)"
  unfolding sleep_def
  by (induction n cmd rule: spawn_attempts.induct)
    (auto simp: sleep_def split: spawn_answer.splits intro!: pend_rules)

lemma pend_start_app_server [mgr_pends]: "pend.keeps (start_app_server fuel c url)"
  unfolding start_app_server_def spawn_app_server_def wait_until_ready_def Let_def
  by (intro pend_rules mgr_pends)

lemma pend_ensure_ready [mgr_pends]: "pend.keeps (ensure_ready fuel c)"
  unfolding ensure_ready_def replace_child_def validated_listen_url_def can_attempt_start_def
    start_backoff_deadline_def should_preserve_forced_restart_backoff_summary_def Let_def
  by (intro pend_rules mgr_pends)

lemma pend_arm [mgr_pends]: "pend.keeps (arm_next_scheduled_restart c)"
  unfolding arm_next_scheduled_restart_def Let_def by (intro pend_rules mgr_pends)

lemma stop_child_checked_Inr: "run_state (stop_child_checked reason) w = (Inr x, w') \<Longrightarrow> m_child w' = None"
  by (auto simp: run_stop_child_checked split: option.splits)

lemma perform_restart_completed:
  assumes run: "run_state (perform_restart fuel c p force) w = (Inr (Some u), w')" and "owns w"
  shows "m_pending_restart w' = None \<and> (\<exists>w1. mgr_frame w w1 \<and> mgr_frame w1 w' \<and> owns w1 \<and> m_child w1 = None)"
proof -
  define pre where "pre = (do { modify (\<lambda>w. w\<lparr>m_pending_restart := None\<rparr>);
           arm_next_scheduled_restart c;
           child \<leftarrow> gets m_child;
           whenS (child \<noteq> None \<or> force \<or> overrides_start_backoff (pr_reason p))
             (modify (\<lambda>w. w\<lparr>m_last_start_failure := None\<rparr>));
           set_state Restarting (restarting_summary (pr_reason p) force)
             (if force then Some ''Drain timeout elapsed while active turns were still running.'' else None) })"
  have fpre: "frame.keeps pre" and opre: "own.keeps pre"
    unfolding pre_def by (intro frame_rules mgr_frames own_rules mgr_owns)+
  have ppre: "m_pending_restart (snd (run_state pre w)) = None"
    using pend.keepsD [OF pend_arm, of c "w\<lparr>m_pending_restart := None\<rparr>"]
    by (auto simp: pre_def split: prod.splits)
  obtain x w0 where w0: "run_state pre w = (x, w0)" by (cases "run_state pre w")
  obtain sr w1 where w1: "run_state (stop_child_checked (stop_reason (pr_reason p) force)) w0 = (sr, w1)"
    by (cases "run_state (stop_child_checked (stop_reason (pr_reason p) force)) w0")
  obtain b w2 where w2: "run_state (block_unowned_listener_restart c (pr_reason p)) w1 = (b, w2)"
    by (cases "run_state (block_unowned_listener_restart c (pr_reason p)) w1")
  define post where "post = tryE (ensure_ready fuel c) (\<lambda>url.
                        do { whenS (url \<noteq> None) (arm_next_scheduled_restart c);
                             whenS force (record_forced_restart_result (pr_reason p) (url \<noteq> None));
                             ret (Inr url) })"
  have fpost: "frame.keeps post" unfolding post_def by (intro frame_rules mgr_frames)
  have "pend.keeps post"
    unfolding post_def record_forced_restart_result_def by (intro pend_rules mgr_pends)
  from run w0 w1 w2 have sr: "\<exists>y. sr = Inr y" and b: "\<not> b" and post: "run_state post w2 = (Inr (Some u), w')"
    by (auto simp: perform_restart_def pre_def post_def Let_def split: prod.splits sum.splits if_splits)
  from sr w1 have none: "m_child w1 = None" by (auto dest: stop_child_checked_Inr)
  have "m_pending_restart w' = m_pending_restart w0"
    using pend.keepsE [OF \<open>pend.keeps post\<close> post] pend.keepsE [OF pend_stop_child_checked w1]
      block_unowned_result [OF w2] by simp
  moreover have "mgr_frame w w1"
    using frame.keepsE [OF fpre w0] frame.keepsE [OF frame_stop_child_checked w1] by (blast intro: frame.R_trans)
  moreover have "mgr_frame w1 w'"
    using frame.keepsE [OF frame_block_unowned w2] frame.keepsE [OF fpost post] by (blast intro: frame.R_trans)
  moreover have "owns w1"
    using own.keepsE [OF opre w0] own.keepsE [OF own_stop_child_checked w1] \<open>owns w\<close> by blast
  ultimately show ?thesis using ppre w0 none by auto
qed

lemma backoff_child: "run_state (scheduled_restart_backoff_deadline c p) w = (Some d, w') \<Longrightarrow> m_child w' = None"
  by (auto simp: scheduled_restart_backoff_deadline_def run_start_backoff_deadline split: if_splits option.splits)

lemma advance_completed:
  assumes pending: "m_pending_restart w = Some p" and "owns w"
    and run: "run_state (advance_pending_restart fuel c) w = (Inr (Some u), w')"
  shows "m_pending_restart w' = None \<and> (\<exists>w1. mgr_frame w w1 \<and> mgr_frame w1 w' \<and> owns w1 \<and> m_child w1 = None)"
proof -
  define pre where "pre = (do {
      clear_exited_child;
      active \<leftarrow> gets m_active_turn_count;
      force_restart \<leftarrow>
        (if 0 < active
         then do { t \<leftarrow> now; ret (drain_timeout c \<le> t - pr_requested_at p) }
         else ret False);
      ret (active, force_restart) })"
  have fpre: "frame.keeps pre" and opre: "own.keeps pre"
    unfolding pre_def by (intro frame_rules mgr_frames own_rules mgr_owns)+
  obtain active force w0 where w0: "run_state pre w = ((active, force), w0)" by (cases "run_state pre w") auto
  obtain bo w1 where w1: "run_state (scheduled_restart_backoff_deadline c p) w0 = (bo, w1)"
    by (cases "run_state (scheduled_restart_backoff_deadline c p) w0")
  obtain b w2 where w2: "run_state (block_unowned_listener_restart c (pr_reason p)) w1 = (b, w2)"
    by (cases "run_state (block_unowned_listener_restart c (pr_reason p)) w1")
  have f2: "mgr_frame w w2"
    using frame.keepsE [OF fpre w0] frame.keepsE [OF frame_backoff_deadline w1]
      frame.keepsE [OF frame_block_unowned w2] by (blast intro: frame.R_trans)
  have o2: "owns w2"
    using own.keepsE [OF opre w0] own.keepsE [OF own_backoff_deadline w1]
      own.keepsE [OF own_block_unowned w2] \<open>owns w\<close> by blast
  show ?thesis
  proof (cases bo)
    case None
    with pending run w0 w1 w2 have "run_state (perform_restart fuel c p force) w2 = (Inr (Some u), w')"
      by (auto simp: advance_pending_restart_def pre_def split: prod.splits if_splits)
    from perform_restart_completed [OF this o2] f2 show ?thesis by (blast intro: frame.R_trans)
  next
    case (Some d)
    let ?w3 = "w2\<lparr>m_pending_restart := None, m_next_scheduled_restart_at := bo\<rparr>"
    from Some pending run w0 w1 w2 have e: "run_state (ensure_ready fuel c) ?w3 = (Inr (Some u), w')"
      by (auto simp: advance_pending_restart_def pre_def split: prod.splits if_splits)
    have "mgr_frame w ?w3" using f2 by (simp add: mgr_frame_def same_env_def)
    moreover have "mgr_frame ?w3 w'" by (rule frame.keepsE [OF frame_ensure_ready e])
    moreover have "owns ?w3" and "m_child ?w3 = None"
      using o2 block_unowned_result [OF w2] backoff_child w1 Some by (auto simp: owns_def)
    moreover have "m_pending_restart w' = None"
      using pend.keepsE [OF pend_ensure_ready e] by simp
    ultimately show ?thesis by blast
  qed
qed

end
