(* ===== verification/Manager_Props.thy ===== *)
theory Manager_Props
  imports Manager_Safety
begin

text \<open>
  The properties of the app-server manager: its state machine over the operations the
  connector calls, with the invariant of every reachable state; what is started, and when; how
  a restart drains, completes or is blocked; that the wait for a healthy child ends.
\<close>

subsection \<open>The manager as a state machine\<close>

text \<open>One call of the connector into the manager.\<close>

inductive mgr_step :: "nat \<Rightarrow> agent_config \<Rightarrow> mworld \<Rightarrow> mworld \<Rightarrow> bool" for fuel c where
  step_begin: "mgr_step fuel c w (snd (run_state begin_turn w))"
| step_finish: "mgr_step fuel c w (snd (run_state finish_turn w))"
| step_config: "mgr_step fuel c w (snd (run_state (runtime_config fuel c) w))"
| step_no_start: "mgr_step fuel c w (snd (run_state (runtime_config_without_start c) w))"
| step_during_turn: "mgr_step fuel c w (snd (run_state (runtime_config_during_active_turn fuel c) w))"
| step_snapshot: "mgr_step fuel c w (snd (run_state (instance_snapshot c) w))"

inductive_cases mgr_stepE: "mgr_step fuel c w w'"

inductive mgr_reach :: "nat \<Rightarrow> agent_config \<Rightarrow> mworld \<Rightarrow> mworld \<Rightarrow> bool" for fuel c w0 where
  reach_start: "mgr_reach fuel c w0 w0"
| reach_step: "mgr_reach fuel c w0 w \<Longrightarrow> mgr_step fuel c w w' \<Longrightarrow> mgr_reach fuel c w0 w'"

definition fresh_world :: "agent_config \<Rightarrow> mworld \<Rightarrow> bool" where
  "fresh_world c w \<longleftrightarrow>
     (\<exists>marker. app_server_manager.truncate w = new_manager c marker) \<and> w_trace w = []"

definition mgr_inv :: "mworld \<Rightarrow> bool" where
  "mgr_inv w \<longleftrightarrow> owns w \<and> m_generation w \<le> u64_max \<and> m_active_turn_count w \<le> u32_max"

lemma own_no_start [mgr_owns]: "own.keeps (runtime_config_without_start c)"
  unfolding runtime_config_without_start_def runtime_config_with_start_policy_def
  by (simp add: runtime_app_server_url_def) (intro own_rules mgr_owns)

lemma frame_no_start [mgr_frames]: "frame.keeps (runtime_config_without_start c)"
  unfolding runtime_config_without_start_def by (intro mgr_frames)

lemma mgr_inv_frame:
  assumes "mgr_inv w" "frame.keeps m" "own.keeps m"
  shows "mgr_inv (snd (run_state m w))"
  using assms frame.keepsD [OF assms(2), of w] own.keepsD [OF assms(3), of w]
  by (simp add: mgr_inv_def mgr_frame_def)

lemma mgr_inv_step: "mgr_step fuel c w w' \<Longrightarrow> mgr_inv w \<Longrightarrow> mgr_inv w'"
proof (induction rule: mgr_step.induct)
  case (step_begin w)
  then show ?case by (simp add: mgr_inv_def begin_turn_def owns_def)
next
  case (step_finish w)
  then show ?case by (auto simp: mgr_inv_def finish_turn_def owns_def)
qed (erule mgr_inv_frame; intro mgr_frames mgr_owns)+

lemma fresh_world_inv: "fresh_world c w \<Longrightarrow> mgr_inv w"
  by (auto simp: fresh_world_def mgr_inv_def owns_def owned_of_def new_manager_def Let_def
      app_server_manager.truncate_def)

subsection \<open>What is started\<close>

text \<open>Every process started in between runs the configured command on the manager's own URL.\<close>

definition spawns_ok :: "agent_config \<Rightarrow> mworld \<Rightarrow> mworld \<Rightarrow> bool" where
  "spawns_ok c s t \<longleftrightarrow>
     (\<forall>url. managed_url_of t url = managed_url_of s url)
     \<and> (\<exists>xs. w_trace t = w_trace s @ xs
          \<and> (\<forall>cmd pid. ActSpawn cmd pid \<in> set xs
                \<longrightarrow> (\<exists>url. managed_url_of s url \<and> cmd = app_server_command c url)))"

interpretation spawns: effect_rel "spawns_ok c" for c
proof unfold_locales
  fix s t u
  show "spawns_ok c s s" by (simp add: spawns_ok_def)
  assume st: "spawns_ok c s t" and tu: "spawns_ok c t u"
  then obtain xs ys where "w_trace t = w_trace s @ xs" "w_trace u = w_trace t @ ys"
    "\<forall>cmd pid. ActSpawn cmd pid \<in> set xs \<longrightarrow> (\<exists>url. managed_url_of s url \<and> cmd = app_server_command c url)"
    "\<forall>cmd pid. ActSpawn cmd pid \<in> set ys \<longrightarrow> (\<exists>url. managed_url_of t url \<and> cmd = app_server_command c url)"
    by (auto simp: spawns_ok_def)
  with st tu show "spawns_ok c s u"
    by (auto simp: spawns_ok_def intro!: exI [of _ "xs @ ys"])
qed

lemmas spawns_rules =
  spawns.keeps_ret spawns.keeps_gets spawns.keeps_bind spawns.keeps_tryE spawns.keeps_if
  spawns.keeps_when spawns.keeps_option spawns.keeps_sum spawns.keeps_prod

named_theorems mgr_spawns \<open>operations that start only the configured command\<close>

lemma spawns_prims [mgr_spawns]:
  "spawns.keeps c (ask f)" "spawns.keeps c (set_state st summary err)"
  "spawns.keeps c (modify (\<lambda>w. w\<lparr>m_child := f1 w\<rparr>))"
  "spawns.keeps c (modify (\<lambda>w. w\<lparr>m_last_start_failure := f2 w\<rparr>))"
  "spawns.keeps c (modify (\<lambda>w. w\<lparr>m_last_external_probe := f3 w\<rparr>))"
  "spawns.keeps c (modify (\<lambda>w. w\<lparr>m_pending_restart := f4 w\<rparr>))"
  "spawns.keeps c (modify (\<lambda>w. w\<lparr>m_next_scheduled_restart_at := f5 w\<rparr>))"
  "spawns.keeps c (modify (\<lambda>w. w\<lparr>m_last_upgrade_marker_modified := f6 w\<rparr>))"
  "spawns.keeps c (modify (\<lambda>w. w\<lparr>m_pending_restart := f7 w, m_next_scheduled_restart_at := f8 w\<rparr>))"
  "spawns.keeps c now" "spawns.keeps c (sleep d)" "spawns.keeps c (health_check url)"
  "spawns.keeps c (terminate_child pid)"
  by (rule spawns.keepsI, simp add: spawns_ok_def managed_url_of_def)+

lemma spawns_small [mgr_spawns]:
  "spawns.keeps c record_start_failure" "spawns.keeps c (stop_child_checked reason)"
  "spawns.keeps c (start_backoff_deadline d)" "spawns.keeps c validated_listen_url"
  "spawns.keeps c (upgrade_marker_modified m)"
  unfolding record_start_failure_def stop_child_checked_def start_backoff_deadline_def Let_def
    validated_listen_url_def upgrade_marker_modified_def
  by (intro spawns_rules mgr_spawns)+

lemma spawns_stop_child [mgr_spawns]: "spawns.keeps c (stop_child reason)"
  unfolding stop_child_def by (intro spawns_rules mgr_spawns)

lemma spawns_clear [mgr_spawns]: "spawns.keeps c clear_exited_child"
  unfolding clear_exited_child_def
  by (intro spawns_rules mgr_spawns) (auto split: wait_answer.splits intro!: spawns_rules mgr_spawns)

lemma spawns_wait_round [mgr_spawns]: "spawns.keeps c (wait_round d url deadline)"
  unfolding wait_round_def by (intro spawns_rules mgr_spawns)

lemma spawns_wait_rounds [mgr_spawns]: "spawns.keeps c (wait_rounds fuel d url deadline)"
  by (induction fuel) (auto intro!: spawns_rules mgr_spawns)

lemma spawns_wait [mgr_spawns]:
  "spawns.keeps c (wait_until_ready fuel d url)" "spawns.keeps c (probe_ready d)"
  "spawns.keeps c (can_attempt_start d)" "spawns.keeps c should_preserve_forced_restart_backoff_summary"
  unfolding wait_until_ready_def probe_ready_def can_attempt_start_def Let_def
    should_preserve_forced_restart_backoff_summary_def
  by (intro spawns_rules mgr_spawns)+

lemma spawns_attempts:
  "managed_url_of w url \<Longrightarrow>
   spawns_ok c w (snd (run_state (spawn_attempts n (app_server_command c url)) w))"
proof (induction n arbitrary: w)
  case (Suc n)
  show ?case
  proof (cases "w_spawn w (w_tick w)")
    case (Spawned pid)
    with Suc.prems show ?thesis by (auto simp: spawns_ok_def managed_url_of_def)
  next
    case (SpawnBusy e)
    let ?w = "w\<lparr>w_tick := Suc (w_tick w), w_trace := w_trace w @ [ActSleep app_server_spawn_retry_delay]\<rparr>"
    have "spawns_ok c w ?w" by (simp add: spawns_ok_def managed_url_of_def)
    moreover from Suc.prems have "spawns_ok c ?w (snd (run_state (spawn_attempts n (app_server_command c url)) ?w))"
      by (intro Suc.IH) (simp add: managed_url_of_def)
    ultimately have "spawns_ok c w (snd (run_state (spawn_attempts n (app_server_command c url)) ?w))"
      by (rule spawns.R_trans)
    with SpawnBusy show ?thesis by (auto simp: spawns_ok_def managed_url_of_def)
  next
    case (SpawnFailed e)
    then show ?thesis by (simp add: spawns_ok_def managed_url_of_def)
  qed
qed (simp add: spawns.R_refl)


lemma spawns_start:
  assumes "managed_url_of w url"
  shows "spawns_ok c w (snd (run_state (start_app_server fuel c url) w))"
proof -
  obtain r w1 where w1: "run_state (spawn_app_server c url) w = (r, w1)"
    by (cases "run_state (spawn_app_server c url) w")
  with spawns_attempts [OF assms, of c app_server_spawn_attempts] have "spawns_ok c w w1"
    by (simp add: spawn_app_server_def)
  moreover have "spawns.keeps c (case r of
      Inr pid \<Rightarrow>
        do { modify (\<lambda>w. w\<lparr>m_child := Some pid\<rparr>);
             tryE (wait_until_ready fuel c url) (\<lambda>ready.
               if ready
               then do { set_state Healthy ''Managed app-server is healthy.'' None; ret (Inr (Some url)) }
               else do { stop_child ''managed app-server did not become healthy before startup timeout'';
                         record_start_failure;
                         set_state Degraded
                           ''Managed app-server did not become healthy before startup timeout.''
                           (Some ''Startup health check timed out.'');
                         ret (Inr None) }) }
    | Inl e \<Rightarrow>
        do { record_start_failure;
             set_state Degraded ''Failed to start managed app-server.'' (Some e);
             ret (Inr None) })"
    (is "spawns.keeps c ?rest") by (intro spawns_rules mgr_spawns)
  from spawns.keepsD [OF this, of w1] have "spawns_ok c w1 (snd (run_state ?rest w1))" .
  ultimately show ?thesis
    using w1 spawns.R_trans [of c w w1] by (simp add: start_app_server_def)
qed

lemma spawns_replace:
  assumes "managed_url_of w url"
  shows "spawns_ok c w (snd (run_state (replace_child fuel c url) w))"
proof (cases "m_child w")
  case None
  with spawns_start [OF assms] show ?thesis by (simp add: replace_child_def)
next
  case (Some pid)
  define pre where "pre = (do { set_state Restarting ''Restarting unhealthy managed app-server.'' None;
                     stop_child_checked ''restarting unhealthy managed app-server'' })"
  have "spawns.keeps c pre" unfolding pre_def by (intro spawns_rules mgr_spawns)
  then obtain r w1 where w1: "run_state pre w = (r, w1)" "spawns_ok c w w1"
    using spawns.keepsE by (metis prod.exhaust)
  then have url: "managed_url_of w1 url" using assms by (simp add: spawns_ok_def)
  have fail: "spawns.keeps c (do { record_start_failure;
                       set_state Degraded ''Failed to stop unhealthy managed app-server.'' (Some e);
                       ret (Inr None) :: (m_fault + string option) mgr })" for e
    by (intro spawns_rules mgr_spawns)
  show ?thesis
  proof (cases r)
    case (Inl e)
    with w1 Some spawns.R_trans [OF w1(2) spawns.keepsD [OF fail [of e], of w1]] show ?thesis
      by (auto simp: replace_child_def pre_def)
  next
    case (Inr x)
    with w1 Some spawns.R_trans [OF w1(2) spawns_start [OF url]] show ?thesis
      by (auto simp: replace_child_def pre_def)
  qed
qed

lemma spawns_ensure_ready [mgr_spawns]: "spawns.keeps c (ensure_ready fuel c)"
proof (rule spawns.keepsI)
  fix w
  obtain u where u: "run_state validated_listen_url w = (u, w)"
    by (cases "run_state validated_listen_url w") (auto dest: run_validated_listen_url)
  show "spawns_ok c w (snd (run_state (ensure_ready fuel c) w))"
  proof (cases u)
    case None
    with u show ?thesis by (simp add: ensure_ready_def spawns_ok_def managed_url_of_def)
  next
    case (Some url)
    with u have url: "managed_url_of w url" by (auto dest: run_validated_listen_url)
    define pre where "pre = (do { clear_exited_child; r \<leftarrow> health_check url;
        (if r = Inr () then ret (Some True)
         else do { can \<leftarrow> can_attempt_start c;
                   (if \<not> can then ret (Some False)
                    else do { stop \<leftarrow> ask w_shutdown; ret (if stop then Some False else None) }) }) })"
    have "spawns.keeps c pre" unfolding pre_def by (intro spawns_rules mgr_spawns)
    then obtain r w1 where w1: "run_state pre w = (r, w1)" "spawns_ok c w w1"
      using spawns.keepsE by (metis prod.exhaust)
    then have url1: "managed_url_of w1 url" using url by (simp add: spawns_ok_def)
    show ?thesis
    proof (cases r)
      case None
      with w1 u Some have "run_state (ensure_ready fuel c) w = run_state (replace_child fuel c url) w1"
        by (auto simp: ensure_ready_def pre_def split: prod.splits if_splits)
      with spawns.R_trans [OF w1(2) spawns_replace [OF url1]] show ?thesis by simp
    next
      case (Some b)
      have "\<exists>w2. run_state (ensure_ready fuel c) w = w2 \<and> spawns_ok c w1 (snd w2)"
        using w1(1) u \<open>u = Some url\<close> Some
        by (auto simp: ensure_ready_def pre_def should_preserve_forced_restart_backoff_summary_def
            spawns_ok_def managed_url_of_def split: prod.splits if_splits)
      with spawns.R_trans [OF w1(2)] show ?thesis by blast
    qed
  qed
qed

lemma spawns_restart [mgr_spawns]:
  "spawns.keeps c (request_restart reason)" "spawns.keeps c (block_unowned_listener_restart d reason)"
  "spawns.keeps c (arm_next_scheduled_restart d)" "spawns.keeps c (record_forced_restart_result reason h)"
  "spawns.keeps c (scheduled_restart_backoff_deadline d p)"
  unfolding request_restart_def block_unowned_listener_restart_def arm_next_scheduled_restart_def Let_def
    record_forced_restart_result_def scheduled_restart_backoff_deadline_def
  by (intro spawns_rules mgr_spawns)+

lemma spawns_schedule [mgr_spawns]: "spawns.keeps c (schedule_configured_restart_requests d)"
  unfolding schedule_configured_restart_requests_def schedule_periodic_restart_def Let_def
    schedule_upgrade_marker_restart_def
  by (intro spawns_rules mgr_spawns)

lemma spawns_advance [mgr_spawns]: "spawns.keeps c (advance_pending_restart fuel c)"
  unfolding advance_pending_restart_def perform_restart_def Let_def by (intro spawns_rules mgr_spawns)

lemma spawns_configs [mgr_spawns]:
  "spawns.keeps c (runtime_config fuel c)" "spawns.keeps c (runtime_config_during_active_turn fuel c)"
  "spawns.keeps c (runtime_config_without_start c)"
  unfolding runtime_config_def runtime_config_with_start_policy_def runtime_app_server_url_def
    runtime_config_during_active_turn_def active_turn_app_server_url_def runtime_config_without_start_def
  by (intro spawns_rules mgr_spawns)+

lemma spawns_snapshot [mgr_spawns]: "spawns.keeps c (instance_snapshot c)"
  unfolding instance_snapshot_def refresh_external_state_def by (intro spawns_rules mgr_spawns)

lemma spawns_step: "mgr_step fuel c w w' \<Longrightarrow> spawns_ok c w w'"
proof (induction rule: mgr_step.induct)
  case (step_begin w)
  then show ?case by (simp add: begin_turn_def spawns_ok_def managed_url_of_def)
next
  case (step_finish w)
  then show ?case by (simp add: finish_turn_def spawns_ok_def managed_url_of_def)
qed (rule spawns.keepsD; intro mgr_spawns)+

lemma spawns_reach: "mgr_reach fuel c w0 w \<Longrightarrow> spawns_ok c w0 w"
  by (induction rule: mgr_reach.induct) (auto intro: spawns.R_refl spawns.R_trans spawns_step)

subsection \<open>The wait for a healthy child ends\<close>

abbreviation startup_timeout :: "agent_config \<Rightarrow> duration" where
  "startup_timeout c \<equiv> secs (max (ma_startup_timeout_seconds (si_managed_app_server (ac_session_inventory c))) 1)"

text \<open>The clock gains \<open>d\<close> within any \<open>n\<close> questions asked of the system.\<close>

definition clock_advances :: "nat \<Rightarrow> duration \<Rightarrow> mworld \<Rightarrow> bool" where
  "clock_advances n d w \<longleftrightarrow> mono (w_now w) \<and> (\<forall>k. w_now w k + d \<le> w_now w (k + n))"

lemma clock_advances_frame: "mgr_frame w w' \<Longrightarrow> clock_advances n d w' = clock_advances n d w"
  by (simp add: mgr_frame_def same_env_def clock_advances_def)

lemma wait_round_goes_round:
  "run_state (wait_round c url deadline) w = (None, w') \<Longrightarrow>
   w_now w (w_tick w) < deadline \<and> w_tick w < w_tick w' \<and> w_now w' = w_now w"
proof -
  assume run: "run_state (wait_round c url deadline) w = (None, w')"
  from run have early: "w_now w (w_tick w) < deadline"
    by (auto simp: wait_round_def split: if_splits)
  obtain rest where rest: "frame.keeps rest"
    "run_state (wait_round c url deadline) w = run_state rest (w\<lparr>w_tick := Suc (w_tick w)\<rparr>)"
  proof -
    define rest where "rest = (do {
             stop \<leftarrow> ask w_shutdown;
             (if stop then ret (Some False)
              else do {
                clear_exited_child;
                child \<leftarrow> gets m_child;
                (if child = None then ret (Some False)
                 else do {
                   t1 \<leftarrow> now;
                   (if deadline - t1 = 0 then ret (Some False)
                    else do {
                      r \<leftarrow> health_check url;
                      ready \<leftarrow> (if r = Inr () then do { t2 \<leftarrow> now; ret (t2 \<le> deadline) } else ret False);
                      (if ready then ret (Some True)
                       else do {
                         t3 \<leftarrow> now;
                         whenS (deadline - t3 \<noteq> 0) (sleep (min (deadline - t3) (millis 100)));
                         ret None }) }) }) }) })"
    have "frame.keeps rest" unfolding rest_def by (intro frame_rules mgr_frames)
    moreover have "run_state (wait_round c url deadline) w = run_state rest (w\<lparr>w_tick := Suc (w_tick w)\<rparr>)"
      using early by (simp add: wait_round_def rest_def)
    ultimately show ?thesis by (rule that)
  qed
  from rest(2) run have "run_state rest (w\<lparr>w_tick := Suc (w_tick w)\<rparr>) = (None, w')" by simp
  from frame.keepsE [OF rest(1) this] have "mgr_frame (w\<lparr>w_tick := Suc (w_tick w)\<rparr>) w'" .
  with early show ?thesis by (simp add: mgr_frame_def same_env_def)
qed

lemma wait_rounds_end:
  "mono (w_now w) \<Longrightarrow> deadline \<le> w_now w n \<Longrightarrow> n < w_tick w + fuel \<Longrightarrow> 0 < fuel \<Longrightarrow>
   \<exists>b w'. run_state (wait_rounds fuel c url deadline) w = (Inr b, w')"
proof (induction fuel arbitrary: w)
  case (Suc fuel)
  obtain r w1 where w1: "run_state (wait_round c url deadline) w = (r, w1)"
    by (cases "run_state (wait_round c url deadline) w")
  show ?case
  proof (cases r)
    case None
    with w1 have go: "w_now w (w_tick w) < deadline" "w_tick w < w_tick w1" "w_now w1 = w_now w"
      using wait_round_goes_round by blast+
    with Suc.prems have "w_tick w < n"
      by (metis leD leI le_trans monoD)
    with Suc.prems have "0 < fuel" by simp
    with Suc.prems go Suc.IH [of w1] w1 None show ?thesis by simp
  next
    case (Some b)
    with w1 show ?thesis by simp
  qed
qed simp

text \<open>A program that does not run out of fuel; it panics only past the range of the clock.\<close>

definition returns :: "nat \<Rightarrow> duration \<Rightarrow> (m_fault + 'a) mgr \<Rightarrow> bool" where
  "returns n d m \<longleftrightarrow>
     (\<forall>w r w'. clock_advances n d w \<longrightarrow> run_state m w = (r, w') \<longrightarrow>
        r \<noteq> Inl OutOfFuel \<and> (r = Inl Panicked \<longrightarrow> (\<exists>k. instant_limit \<le> w_now w k + d)))"

lemma returns_ret: "returns n d (ret (Inr x))"
  by (simp add: returns_def)

lemma returns_bind:
  "frame.keeps m \<Longrightarrow> (\<And>x. returns n d (f x)) \<Longrightarrow> returns n d (State_Monad.bind m f)"
  unfolding returns_def
proof (intro allI impI)
  fix w r w'
  assume m: "frame.keeps m" and f: "\<And>x. \<forall>w r w'. clock_advances n d w \<longrightarrow> run_state (f x) w = (r, w') \<longrightarrow>
        r \<noteq> Inl OutOfFuel \<and> (r = Inl Panicked \<longrightarrow> (\<exists>k. instant_limit \<le> w_now w k + d))"
    and c: "clock_advances n d w" and run: "run_state (State_Monad.bind m f) w = (r, w')"
  obtain x w1 where w1: "run_state m w = (x, w1)" by (cases "run_state m w")
  from frame.keepsE [OF m w1] have "mgr_frame w w1" .
  then have "clock_advances n d w1" "w_now w1 = w_now w"
    using c by (simp_all add: clock_advances_frame) (simp add: mgr_frame_def same_env_def)
  with f [rule_format, of w1 x r w'] run w1
  show "r \<noteq> Inl OutOfFuel \<and> (r = Inl Panicked \<longrightarrow> (\<exists>k. instant_limit \<le> w_now w k + d))"
    by simp
qed

lemma returns_tryE:
  "frame.keeps m \<Longrightarrow> returns n d m \<Longrightarrow> (\<And>x. returns n d (f x)) \<Longrightarrow> returns n d (tryE m f)"
  unfolding returns_def
proof (intro allI impI)
  fix w r w'
  assume m: "frame.keeps m" and rm: "\<forall>w r w'. clock_advances n d w \<longrightarrow> run_state m w = (r, w') \<longrightarrow>
        r \<noteq> Inl OutOfFuel \<and> (r = Inl Panicked \<longrightarrow> (\<exists>k. instant_limit \<le> w_now w k + d))"
    and f: "\<And>x. \<forall>w r w'. clock_advances n d w \<longrightarrow> run_state (f x) w = (r, w') \<longrightarrow>
        r \<noteq> Inl OutOfFuel \<and> (r = Inl Panicked \<longrightarrow> (\<exists>k. instant_limit \<le> w_now w k + d))"
    and c: "clock_advances n d w" and run: "run_state (tryE m f) w = (r, w')"
  obtain x w1 where w1: "run_state m w = (x, w1)" by (cases "run_state m w")
  from frame.keepsE [OF m w1] have "mgr_frame w w1" .
  then have "clock_advances n d w1" "w_now w1 = w_now w"
    using c by (simp_all add: clock_advances_frame) (simp add: mgr_frame_def same_env_def)
  with rm [rule_format, OF c w1] f [rule_format, of w1 _ r w'] run w1
  show "r \<noteq> Inl OutOfFuel \<and> (r = Inl Panicked \<longrightarrow> (\<exists>k. instant_limit \<le> w_now w k + d))"
    by (cases x) auto
qed

lemma returns_if: "(b \<Longrightarrow> returns n d m) \<Longrightarrow> (\<not> b \<Longrightarrow> returns n d m') \<Longrightarrow> returns n d (if b then m else m')"
  by simp

lemma returns_option:
  "returns n d m \<Longrightarrow> (\<And>x. returns n d (f x)) \<Longrightarrow> returns n d (case opt of None \<Rightarrow> m | Some x \<Rightarrow> f x)"
  by (cases opt) simp_all

lemma returns_sum:
  "(\<And>e. returns n d (f e)) \<Longrightarrow> (\<And>x. returns n d (g x)) \<Longrightarrow> returns n d (case r of Inl e \<Rightarrow> f e | Inr x \<Rightarrow> g x)"
  by (cases r) simp_all

lemmas returns_rules = returns_ret returns_bind returns_tryE returns_if returns_option returns_sum

lemma returns_wait_until_ready:
  assumes "n < fuel"
  shows "returns n (startup_timeout c) (wait_until_ready fuel c url)"
  unfolding returns_def
proof (intro allI impI)
  fix w r w'
  assume c: "clock_advances n (startup_timeout c) w" and run: "run_state (wait_until_ready fuel c url) w = (r, w')"
  let ?t = "w_now w (w_tick w)" and ?w = "w\<lparr>w_tick := Suc (w_tick w)\<rparr>"
  show "r \<noteq> Inl OutOfFuel \<and> (r = Inl Panicked \<longrightarrow> (\<exists>k. instant_limit \<le> w_now w k + startup_timeout c))"
  proof (cases "instant_checked_add ?t (startup_timeout c)")
    case None
    then have "instant_limit \<le> ?t + startup_timeout c" by (simp add: instant_checked_add_def split: if_splits)
    with None run show ?thesis by (auto simp: wait_until_ready_def Let_def)
  next
    case (Some deadline)
    then have "deadline \<le> w_now w (w_tick w + n)"
      using c by (auto simp: instant_checked_add_Some clock_advances_def)
    with assms c wait_rounds_end [of ?w deadline "w_tick w + n" fuel c url]
    obtain b w1 where "run_state (wait_rounds fuel c url deadline) ?w = (Inr b, w1)"
      by (auto simp: clock_advances_def)
    with Some run show ?thesis by (auto simp: wait_until_ready_def Let_def)
  qed
qed

lemma returns_ensure_ready:
  "n < fuel \<Longrightarrow> returns n (startup_timeout c) (ensure_ready fuel c)"
  unfolding ensure_ready_def replace_child_def start_app_server_def
  by (intro returns_rules returns_wait_until_ready frame_rules mgr_frames)

lemma returns_runtime_config:
  "n < fuel \<Longrightarrow> returns n (startup_timeout c) (runtime_config fuel c)"
  "n < fuel \<Longrightarrow> returns n (startup_timeout c) (runtime_config_during_active_turn fuel c)"
  unfolding runtime_config_def runtime_config_with_start_policy_def runtime_app_server_url_def
    runtime_config_during_active_turn_def active_turn_app_server_url_def
    advance_pending_restart_def perform_restart_def Let_def
  by (intro returns_rules returns_ensure_ready frame_rules mgr_frames; assumption)+

end
