(* ===== verification/Connector_Safety.thy ===== *)
theory Connector_Safety
  imports Connector_Session Manager_Props
begin

text \<open>
  What the operations of the connector keep: the frame of every wait (the log and the deferred
  messages only grow, the count of active turns stays), the order in which commands are
  deferred and events are sent, and how a turn ends.
\<close>

lemma run_kask [simp]: "run_state (kask f) w = (f w (k_tick w), w\<lparr>k_tick := Suc (k_tick w)\<rparr>)"
  by (simp add: kask_def)

lemma run_klog [simp]: "run_state (klog a) w = ((), w\<lparr>k_log := k_log w @ [a]\<rparr>)"
  by (simp add: klog_def)

lemma run_on_mgr [simp]:
  "run_state (on_mgr m) w = (fst (run_state m (k_mgr w)), w\<lparr>k_mgr := snd (run_state m (k_mgr w))\<rparr>)"
  by (simp add: on_mgr_def split: prod.splits)

lemma run_results [simp]:
  "run_state (unless r) w = (case r of None \<Rightarrow> Inr () | Some e \<Rightarrow> Inl (ConnError e), w)"
  "run_state (result_of x) w = (case x of Inl e \<Rightarrow> Inl (ConnError e) | Inr y \<Rightarrow> Inr y, w)"
  "run_state (panic_or y) w =
     (case y of Inl e \<Rightarrow> Inl (ConnError e) | Inr None \<Rightarrow> Inl ConnPanic | Inr (Some z) \<Rightarrow> Inr z, w)"
  "run_state (ok v) w = (Inr v, w)" "run_state (fail e) w = (Inl (ConnError e), w)"
  by (simp_all add: unless_def result_of_def panic_or_def ok_def fail_def)

lemma run_catchE:
  "run_state (catchE m f) w =
     (case run_state m w of (r, w') \<Rightarrow>
        (case r of
           Inr x \<Rightarrow> run_state (f (Inr x)) w'
         | Inl (ConnError e) \<Rightarrow> run_state (f (Inl e)) w'
         | Inl ConnPanic \<Rightarrow> (Inl ConnPanic, w')
         | Inl ConnFuel \<Rightarrow> (Inl ConnFuel, w')))"
  by (auto simp: catchE_def split: prod.splits sum.splits conn_fault.splits)

subsection \<open>Relations the connector's operations keep\<close>

text \<open>
  An action that is neither a read of the socket nor an event sent. A relation between states
  that survives questions, such actions, the send states and the manager's own operations is
  kept by everything the connector does between two reads, but for deferring a message.
\<close>

definition is_event_value :: "json \<Rightarrow> bool" where
  "is_event_value v \<longleftrightarrow> jget_str v ''kind'' = Some ''agent.event''"

fun plain_action :: "conn_action \<Rightarrow> bool" where
  "plain_action (ARead _) = False"
| "plain_action (ASend (ValueFrame v) _) = (\<not> is_event_value v)"
| "plain_action _ = True"

named_theorems conn_frames \<open>operations of the connector and the relations they keep\<close>

locale conn_rel = effect_rel R for R :: "cworld \<Rightarrow> cworld \<Rightarrow> bool" +
  assumes R_tick: "R s (s\<lparr>k_tick := n\<rparr>)"
    and R_log: "plain_action a \<Longrightarrow> R s (s\<lparr>k_log := k_log s @ [a]\<rparr>)"
    and R_ready: "R s (s\<lparr>k_ready := x\<rparr>)"
    and R_hosts: "R s (s\<lparr>k_hosts := y\<rparr>)"
    and R_insts: "R s (s\<lparr>k_insts := z\<rparr>)"
    and R_mgr: "mgr_frame (k_mgr s) m \<Longrightarrow> R s (s\<lparr>k_mgr := m\<rparr>)"
begin

lemma kr_prims [conn_frames]:
  "keeps (kask f)"
  "keeps (modify (\<lambda>w. w\<lparr>k_ready := f1 w\<rparr>))" "keeps (modify (\<lambda>w. w\<lparr>k_hosts := f2 w\<rparr>))"
  "keeps (modify (\<lambda>w. w\<lparr>k_insts := f3 w\<rparr>))"
  by (rule keepsI, simp add: R_tick R_ready R_hosts R_insts)+

lemma kr_klog [conn_frames]: "plain_action a \<Longrightarrow> keeps (klog a)"
  by (rule keepsI) (simp add: R_log)

lemma kr_on_mgr: "frame.keeps m \<Longrightarrow> keeps (on_mgr m)"
  by (rule keepsI) (simp add: R_mgr frame.keepsD)

lemma kr_mgr_ops [conn_frames]:
  "keeps (on_mgr (instance_snapshot c))" "keeps (on_mgr (runtime_config fuel c))"
  "keeps (on_mgr (runtime_config_during_active_turn fuel c))"
  by (intro kr_on_mgr mgr_frames)+

lemma kr_catchE: "keeps m \<Longrightarrow> (\<And>r. keeps (f r)) \<Longrightarrow> keeps (catchE m f)"
  unfolding catchE_def
  by (rule keeps_bind) (auto intro: keeps_ret split: sum.splits conn_fault.splits)

lemma kr_pure [conn_frames]:
  "keeps (unless r)" "keeps (result_of x)" "keeps (panic_or y)" "keeps (ok v)"
  "keeps (fail e)" "keeps (mgr_result z)" "keeps (instant_add t d)"
  unfolding unless_def result_of_def panic_or_def ok_def fail_def mgr_result_def instant_add_def
  by (rule keeps_ret)+

lemmas kr_rules =
  keeps_ret keeps_gets keeps_bind keeps_tryE keeps_if keeps_when
  keeps_option keeps_sum keeps_prod kr_catchE

lemma kr_small [conn_frames]:
  "keeps (send_frame (TextFrame s))" "keeps (send_frame (PongFrame s))" "keeps (set_socket_read_timeout d)"
  "keeps shutdown_requested" "keeps know" "keeps (parse_envelope text)" "keeps (decode g v)"
  unfolding send_frame_def set_socket_read_timeout_def shutdown_requested_def know_def
    parse_envelope_def decode_def
  by (intro kr_rules conn_frames; simp)+

lemma kr_send_json [conn_frames]: "\<not> is_event_value v \<Longrightarrow> keeps (send_json v)"
  unfolding send_json_def send_frame_def by (intro kr_rules conn_frames) simp

lemma kr_send_agent_ready [conn_frames]: "keeps (send_agent_ready c force)"
  unfolding send_agent_ready_def Let_def by (intro kr_rules conn_frames)

lemma kr_send_host_sessions [conn_frames]:
  "keeps (send_host_sessions c force)" "keeps (send_incremental_host_sessions c)"
  unfolding send_host_sessions_def send_incremental_host_sessions_def send_host_sessions_with_scope_def Let_def
  by (intro kr_rules conn_frames; simp)+

lemma kr_transmit [conn_frames]: "keeps (transmit_instances m key sn t)"
  unfolding transmit_instances_def Let_def by (intro kr_rules conn_frames)

lemma kr_send_instances [conn_frames]: "keeps (send_app_server_instances c force snapshot)"
  unfolding send_app_server_instances_def Let_def by (intro kr_rules conn_frames)

lemma kr_send_instances_after [conn_frames]: "keeps (send_instances_after c force r)"
  unfolding send_instances_after_def by (intro kr_rules conn_frames)

lemma kr_acks [conn_frames]:
  "keeps (apply_agent_ready_ack_text text)" "keeps (apply_app_server_instances_ack_text text)"
  "keeps (apply_host_sessions_ack_text text)" "keeps (handle_background_ack_message e)"
  unfolding apply_agent_ready_ack_text_def apply_app_server_instances_ack_text_def
    apply_host_sessions_ack_text_def handle_background_ack_message_def
  by (intro kr_rules conn_frames)+

lemma kr_handlers [conn_frames]:
  "keeps (handle_thread_create d1 c)" "keeps (handle_host_session_backfill d2 c)"
  "keeps (handle_host_session_app_server_ensure d3 c)" "keeps (handle_thread_archive_sync d4 c)"
  unfolding handle_thread_create_def handle_host_session_backfill_def
    handle_host_session_app_server_ensure_def handle_thread_archive_sync_def
  by (intro kr_rules conn_frames; simp add: is_event_value_def request_result_json_def jget_str_def)+

lemma kr_turn_response [conn_frames]: "keeps (handle_turn_interaction_response_text text cid)"
  unfolding handle_turn_interaction_response_text_def turn_interaction_response_ack_for_text_def
  by (intro kr_rules conn_frames; simp add: is_event_value_def jget_str_def)

lemma kr_join [conn_frames]:
  "keeps join_codex_worker" "keeps cancel_codex_worker" "keeps (cancel_then_fail e)"
  unfolding cancel_then_fail_def cancel_codex_worker_def join_codex_worker_def
  by (intro kr_rules conn_frames; simp)+

lemma kr_or_cancel [conn_frames]: "keeps m \<Longrightarrow> keeps (or_cancel m)"
  unfolding or_cancel_def by (intro kr_rules conn_frames)

lemma kr_maintain [conn_frames]: "keeps (maintain_app_server_runtime_during_wait fuel c)"
  unfolding maintain_app_server_runtime_during_wait_def by (intro kr_rules conn_frames)

lemma kr_idle [conn_frames]: "keeps close_quietly" "keeps close_socket" "keeps (session_idle fuel c)"
  unfolding session_idle_def close_quietly_def close_socket_def
  by (intro kr_rules conn_frames; simp)+

end

subsection \<open>The frame of a wait\<close>

text \<open>The log and the deferred messages only grow; the manager keeps its own frame.\<close>

definition conn_frame :: "cworld \<Rightarrow> cworld \<Rightarrow> bool" where
  "conn_frame s t \<longleftrightarrow>
     k_wire t = k_wire s \<and> (\<exists>xs. k_log t = k_log s @ xs) \<and> (\<exists>ys. k_deferred t = k_deferred s @ ys)
     \<and> mgr_frame (k_mgr s) (k_mgr t)"

interpretation cf: conn_rel conn_frame
proof unfold_locales
  fix s t u
  show "conn_frame s s" by (simp add: conn_frame_def frame.R_refl)
  show "conn_frame s t \<Longrightarrow> conn_frame t u \<Longrightarrow> conn_frame s u"
    unfolding conn_frame_def by (auto intro: frame.R_trans)
qed (simp_all add: conn_frame_def frame.R_refl)

lemmas cf_rules = cf.kr_rules

lemma cf_klog [conn_frames]: "cf.keeps (klog a)"
  by (rule cf.keepsI) (simp add: conn_frame_def frame.R_refl)

lemma cf_defer [conn_frames]: "cf.keeps (modify (\<lambda>w. w\<lparr>k_deferred := k_deferred w @ xs\<rparr>))"
  by (rule cf.keepsI) (simp add: conn_frame_def frame.R_refl)

lemma cf_io [conn_frames]: "cf.keeps read_socket" "cf.keeps (send_json v)"
  unfolding read_socket_def send_json_def send_frame_def by (intro cf_rules conn_frames)+

lemma cf_background [conn_frames]: "cf.keeps (handle_background_text_message text c)"
  unfolding handle_background_text_message_def by (intro cf_rules conn_frames)


lemma cf_ack_round [conn_frames]: "cf.keeps (ack_round cid kind c ctx)"
  unfolding ack_round_def classify_ack_wait_text_def
  by (intro cf_rules conn_frames)
    (auto split: read_answer.splits message.splits ack_wait_action.splits intro!: cf_rules conn_frames)

lemma cf_ack_rounds [conn_frames]: "cf.keeps (ack_rounds fuel cid kind c ctx)"
  by (induction fuel) (auto intro!: cf_rules conn_frames)

lemma cf_wait_for_ack [conn_frames]: "cf.keeps (wait_for_ack fuel cid kind c ctx)"
  unfolding wait_for_ack_def by (intro cf_rules conn_frames)

lemma cf_dispatch_target [conn_frames]:
  "cf.keeps (dispatch_events_for_target_host_session fuel command events target c ctx)"
  by (induction events) (auto intro!: cf_rules conn_frames)

lemma cf_dispatch [conn_frames]:
  "cf.keeps (dispatch_events_with_turn_interaction_context fuel command events c ctx)"
  "cf.keeps (dispatch_events fuel command events c)"
  unfolding dispatch_events_def dispatch_events_with_turn_interaction_context_def
  by (intro conn_frames)+


lemma cf_codex [conn_frames]: "cf.keeps (codex_round c)"
  unfolding codex_round_def
  by (intro cf_rules conn_frames)
    (auto split: worker_answer.splits read_answer.splits message.splits intro!: cf_rules conn_frames)

lemma cf_codex_rounds [conn_frames]: "cf.keeps (codex_rounds fuel c)"
  by (induction fuel) (auto intro!: cf_rules conn_frames)

lemma cf_wait_codex [conn_frames]: "cf.keeps (wait_for_codex_exec_events fuel c prompt)"
  unfolding wait_for_codex_exec_events_def by (intro cf_rules conn_frames)

lemma cf_drain [conn_frames]: "cf.keeps (drain_pending_connector_events n fuel command c ctx)"
  by (induction n) (auto intro!: cf_rules conn_frames)



lemma cf_turn_text [conn_frames]: "cf.keeps (turn_text text c)"
  unfolding turn_text_def by (intro cf_rules conn_frames) (auto split: bool.splits intro!: conn_frames)

lemma cf_turn_socket [conn_frames]: "cf.keeps (turn_socket cid c)"
  unfolding turn_socket_def
  by (intro cf_rules conn_frames)
    (auto split: read_answer.splits message.splits intro!: cf_rules conn_frames)

lemma cf_turn_round [conn_frames]: "cf.keeps (turn_round fuel command rc next_at)"
  unfolding turn_round_def dispatch_pending_app_server_command_events_def
  by (intro cf_rules conn_frames)
    (auto split: worker_answer.splits intro!: cf_rules conn_frames)

lemma cf_turn_rounds [conn_frames]: "cf.keeps (turn_rounds n fuel command rc next_at)"
  by (induction n arbitrary: rc next_at) (auto intro!: cf_rules conn_frames)

lemma cf_wait_app_server [conn_frames]:
  "cf.keeps (wait_for_app_server_command_events fuel c session_id cwd cid prompt)"
  unfolding wait_for_app_server_command_events_def by (intro cf_rules conn_frames)

lemma cf_codex_dispatch [conn_frames]: "cf.keeps (run_codex_exec_dispatch fuel d c)"
  unfolding run_codex_exec_dispatch_def by (intro cf_rules conn_frames)

end
