(* ===== verification/Connector_Order.thy ===== *)
theory Connector_Order
  imports Connector_Turns
begin

text \<open>
  The order of what passes through a wait: the events sent are a prefix of those to send, in
  their order, and stop at the first rejection; the commands read while something else runs are
  deferred in the order they arrived.
\<close>

subsection \<open>Events sent\<close>

fun sent_event :: "conn_action \<Rightarrow> json option" where
  "sent_event (ASend (ValueFrame v) None) = (if is_event_value v then Some v else None)"
| "sent_event _ = None"

definition events_sent :: "conn_action list \<Rightarrow> json list" where
  "events_sent lg = List.map_filter sent_event lg"

lemma events_sent_append [simp]: "events_sent (xs @ ys) = events_sent xs @ events_sent ys"
  by (simp add: events_sent_def map_filter_def)

lemma events_sent_plain: "plain_action a \<Longrightarrow> events_sent [a] = []"
  by (cases a rule: sent_event.cases) (auto simp: events_sent_def map_filter_def)

interpretation ev: conn_rel "\<lambda>s t. events_sent (k_log t) = events_sent (k_log s)"
  by unfold_locales (simp_all add: events_sent_plain)

lemma ev_io [conn_frames]: "ev.keeps read_socket" "ev.keeps (modify (\<lambda>w. w\<lparr>k_deferred := f w\<rparr>))"
  unfolding read_socket_def
  by (rule ev.keepsI, simp add: events_sent_def map_filter_def)+

lemma ev_background [conn_frames]: "ev.keeps (handle_background_text_message text c)"
  unfolding handle_background_text_message_def by (intro ev.kr_rules conn_frames)

lemma ev_ack_round [conn_frames]: "ev.keeps (ack_round cid kind c ctx)"
  unfolding ack_round_def classify_ack_wait_text_def
  by (intro ev.kr_rules conn_frames)
    (auto split: read_answer.splits message.splits ack_wait_action.splits intro!: ev.kr_rules conn_frames)

lemma ev_ack_rounds [conn_frames]: "ev.keeps (ack_rounds fuel cid kind c ctx)"
  by (induction fuel) (auto intro!: ev.kr_rules conn_frames)

lemma ev_wait_for_ack [conn_frames]: "ev.keeps (wait_for_ack fuel cid kind c ctx)"
  unfolding wait_for_ack_def by (intro ev.kr_rules conn_frames)

lemma is_event_message [simp]: "is_event_value (agent_event_message command e target)"
  by (simp add: is_event_value_def agent_event_message_def jget_str_def)

lemma run_send_event:
  "run_state (send_json v) w =
     (case k_send w (k_tick w) of None \<Rightarrow> Inr () | Some e \<Rightarrow> Inl (ConnError e),
      w\<lparr>k_tick := Suc (k_tick w), k_log := k_log w @ [ASend (ValueFrame v) (k_send w (k_tick w))]\<rparr>)"
  by (simp add: send_json_def send_frame_def)

text \<open>How far a dispatch got: what was sent is a prefix, the whole when all were accepted.\<close>

definition dispatched :: "json list \<Rightarrow> conn_fault + bool \<Rightarrow> json list \<Rightarrow> bool" where
  "dispatched all r sent \<longleftrightarrow>
     (\<exists>k \<le> length all. sent = take k all
        \<and> (r = Inr True \<longrightarrow> k = length all) \<and> (r = Inr False \<longrightarrow> 0 < k))"

lemma dispatched_Cons: "dispatched vs r xs \<Longrightarrow> dispatched (v # vs) r (v # xs)"
  unfolding dispatched_def by (metis length_Cons not_less_eq_eq take_Suc_Cons zero_less_Suc)

lemma dispatch_sends:
  "run_state (dispatch_events_for_target_host_session fuel command events target c ctx) w = (r, w') \<Longrightarrow>
   \<exists>xs. events_sent (k_log w') = events_sent (k_log w) @ xs
     \<and> dispatched (map (\<lambda>e. agent_event_message command e target)
                      (filter (\<lambda>e. ev_kind e \<noteq> ''command.accepted'') events)) r xs"
proof (induction events arbitrary: w)
  case Nil
  then show ?case by (auto simp: dispatched_def)
next
  case (Cons e es)
  show ?case
  proof (cases "ev_kind e = ''command.accepted''")
    case True
    with Cons show ?thesis by simp
  next
    case False
    let ?v = "agent_event_message command e target"
    show ?thesis
    proof (cases "k_send w (k_tick w)")
      case (Some err)
      with Cons.prems False show ?thesis
        by (auto simp: run_send_event dispatched_def events_sent_def map_filter_def intro: exI [of _ 0])
    next
      case None
      let ?w = "w\<lparr>k_tick := Suc (k_tick w), k_log := k_log w @ [ASend (ValueFrame ?v) None]\<rparr>"
      obtain a w1 where w1: "run_state (wait_for_ack fuel (cp_id command) (ev_kind e) c ctx) ?w = (a, w1)"
        by (cases "run_state (wait_for_ack fuel (cp_id command) (ev_kind e) c ctx) ?w")
      have sent: "events_sent (k_log w1) = events_sent (k_log w) @ [?v]"
        using ev.keepsE [OF ev_wait_for_ack w1] by (simp add: events_sent_def map_filter_def)
      show ?thesis
      proof (cases "a = Inr True")
        case True
        with Cons.prems False None w1
        have "run_state (dispatch_events_for_target_host_session fuel command es target c ctx) w1 = (r, w')"
          by (simp add: run_send_event)
        from Cons.IH [OF this] sent False show ?thesis
          by (auto intro: dispatched_Cons)
      next
        case a: False
        with Cons.prems False None w1 have "w' = w1" "r \<noteq> Inr True"
          by (auto simp: run_send_event split: sum.splits if_splits)
        with sent False show ?thesis
          by (auto simp: dispatched_def intro: exI [of _ 1])
      qed
    qed
  qed
qed

subsection \<open>Commands deferred\<close>

definition is_command :: "wire \<Rightarrow> string \<Rightarrow> bool" where
  "is_command wire text = (case wr_envelope wire text of Inr e \<Rightarrow> en_kind e = ''command.dispatch'' | Inl _ \<Rightarrow> False)"

fun text_read :: "conn_action \<Rightarrow> string option" where
  "text_read (ARead (ReadMsg (MsgText text))) = Some text"
| "text_read _ = None"

definition texts_read :: "conn_action list \<Rightarrow> string list" where
  "texts_read lg = List.map_filter text_read lg"

lemma texts_read_append [simp]: "texts_read (xs @ ys) = texts_read xs @ texts_read ys"
  by (simp add: texts_read_def map_filter_def)

lemma texts_read_plain: "plain_action a \<Longrightarrow> texts_read [a] = []"
  by (cases a rule: plain_action.cases) (auto simp: texts_read_def map_filter_def)

definition commands :: "wire \<Rightarrow> string list \<Rightarrow> string list" where
  "commands wire texts = filter (is_command wire) texts"

lemma commands_append [simp]: "commands wire (xs @ ys) = commands wire xs @ commands wire ys"
  by (simp add: commands_def)

text \<open>Nothing read and no command deferred; and the law of a wait.\<close>

definition nothing_read :: "cworld \<Rightarrow> cworld \<Rightarrow> bool" where
  "nothing_read s t \<longleftrightarrow>
     k_wire t = k_wire s \<and> texts_read (k_log t) = texts_read (k_log s)
     \<and> commands (k_wire s) (k_deferred t) = commands (k_wire s) (k_deferred s)"

definition commands_deferred :: "cworld \<Rightarrow> cworld \<Rightarrow> bool" where
  "commands_deferred s t \<longleftrightarrow>
     k_wire t = k_wire s
     \<and> (\<exists>texts. texts_read (k_log t) = texts_read (k_log s) @ texts
          \<and> commands (k_wire s) (k_deferred t)
              = commands (k_wire s) (k_deferred s) @ commands (k_wire s) texts)"

interpretation nr: conn_rel nothing_read
  by unfold_locales (auto simp: nothing_read_def texts_read_plain)

interpretation cd: effect_rel commands_deferred
proof unfold_locales
  fix s t u
  show "commands_deferred s s" by (simp add: commands_deferred_def commands_def)
  show "commands_deferred s t \<Longrightarrow> commands_deferred t u \<Longrightarrow> commands_deferred s u"
    unfolding commands_deferred_def by auto
qed

lemma nothing_read_deferred: "nothing_read s t \<Longrightarrow> commands_deferred s t"
  by (auto simp: nothing_read_def commands_deferred_def commands_def)

lemma cd_nr: "nr.keeps m \<Longrightarrow> cd.keeps m"
  by (rule cd.keepsI) (blast intro: nothing_read_deferred nr.keepsD)


lemma background_command:
  assumes "wr_envelope (k_wire w) text = Inr e" and "en_kind e = ''command.dispatch''"
  shows "run_state (handle_background_text_message text c) w = (Inr (), w\<lparr>k_deferred := k_deferred w @ [text]\<rparr>)"
  using assms
  by (simp add: handle_background_text_message_def parse_envelope_def handle_background_ack_message_def
      app_server_instances_ack_message_def host_sessions_ack_message_def acks_def)

lemma background_other:
  assumes "\<not> is_command (k_wire w) text"
    and run: "run_state (handle_background_text_message text c) w = (r, w')"
  shows "nothing_read w w'"
proof (cases "wr_envelope (k_wire w) text")
  case (Inl e)
  with run show ?thesis by (auto simp: handle_background_text_message_def parse_envelope_def nr.R_refl)
next
  case (Inr e)
  obtain acked w1 where w1: "run_state (handle_background_ack_message e) w = (acked, w1)"
    by (cases "run_state (handle_background_ack_message e) w")
  have n1: "nothing_read w w1" by (rule nr.keepsE [OF _ w1]) (intro conn_frames)
  then have wire: "k_wire w1 = k_wire w" by (simp add: nothing_read_def)
  define others where "others = (if en_kind e = ''thread.create''
          then tryE (decode thread_create_of (en_payload e)) (\<lambda>d. handle_thread_create d c)
          else if en_kind e = ''host_session.backfill''
          then tryE (decode backfill_dispatch_of (en_payload e)) (\<lambda>d. handle_host_session_backfill d c)
          else if en_kind e = ''host_session.app_server_ensure''
          then tryE (decode ensure_dispatch_of (en_payload e)) (\<lambda>d. handle_host_session_app_server_ensure d c)
          else if en_kind e = ''thread.archive_sync''
          then tryE (decode archive_dispatch_of (en_payload e)) (\<lambda>d. handle_thread_archive_sync d c)
          else ok ())"
  have "nr.keeps others" unfolding others_def by (intro nr.kr_rules conn_frames)
  note others = nr.R_trans [OF n1 nr.keepsD [OF this, of w1]]
  have "nr.keeps (send_host_sessions c True)" by (intro conn_frames)
  note refresh = nr.keepsD [OF this, of w]
  have "nothing_read w (w1\<lparr>k_deferred := k_deferred w1 @ [text]\<rparr>)"
    using n1 assms(1) by (auto simp: nothing_read_def commands_def wire)
  with run Inr w1 n1 others refresh show ?thesis
    by (auto simp: handle_background_text_message_def parse_envelope_def others_def split: if_splits)
qed

text \<open>A text read and then handled in the background obeys the law of a wait.\<close>

lemma read_then_background:
  assumes "nothing_read (w\<lparr>k_tick := n, k_log := k_log w @ [ARead (ReadMsg (MsgText text))]\<rparr>) w1"
    and run: "run_state (handle_background_text_message text c) w1 = (r, w')"
  shows "commands_deferred w w'"
proof -
  from assms(1) have w1: "k_wire w1 = k_wire w" "texts_read (k_log w1) = texts_read (k_log w) @ [text]"
    "commands (k_wire w) (k_deferred w1) = commands (k_wire w) (k_deferred w)"
    by (simp_all add: nothing_read_def texts_read_def map_filter_def)
  show ?thesis
  proof (cases "is_command (k_wire w) text")
    case True
    then obtain e where "wr_envelope (k_wire w1) text = Inr e" "en_kind e = ''command.dispatch''"
      using w1 by (auto simp: is_command_def split: sum.splits)
    from background_command [OF this] run w1 True show ?thesis
      by (auto simp: commands_deferred_def commands_def)
  next
    case False
    with w1 have "\<not> is_command (k_wire w1) text" by simp
    from background_other [OF this run] w1 False show ?thesis
      by (auto simp: commands_deferred_def nothing_read_def commands_def)
  qed
qed

text \<open>A text that is no command, or that no branch defers, obeys it when nothing else is read.\<close>

lemma read_other:
  assumes "nothing_read (w\<lparr>k_tick := n, k_log := k_log w @ [ARead r]\<rparr>) w'"
    and "\<And>text. r = ReadMsg (MsgText text) \<Longrightarrow> \<not> is_command (k_wire w) text"
  shows "commands_deferred w w'"
proof -
  have "commands (k_wire w) (texts_read [ARead r]) = []"
  proof (cases "\<exists>text. r = ReadMsg (MsgText text)")
    case True
    with assms(2) show ?thesis by (auto simp: texts_read_def map_filter_def commands_def)
  next
    case False
    then have "text_read (ARead r) = None" by (cases "ARead r" rule: text_read.cases) auto
    then show ?thesis by (simp add: texts_read_def map_filter_def commands_def)
  qed
  with assms(1) show ?thesis by (auto simp: commands_deferred_def nothing_read_def)
qed


abbreviation after_read :: "cworld \<Rightarrow> read_answer \<Rightarrow> cworld" where
  "after_read w r \<equiv> w\<lparr>k_tick := Suc (k_tick w), k_log := k_log w @ [ARead r]\<rparr>"

lemma run_read_socket: "run_state read_socket w = (k_read w (k_tick w), after_read w (k_read w (k_tick w)))"
  by (simp add: read_socket_def)

lemma cd_read_bind:
  fixes f :: "read_answer \<Rightarrow> 'a conn"
  assumes on_text: "\<And>w text r w'. run_state (f (ReadMsg (MsgText text))) (after_read w (ReadMsg (MsgText text))) = (r, w')
      \<Longrightarrow> commands_deferred w w'"
    and rest: "\<And>r. (\<And>text. r \<noteq> ReadMsg (MsgText text)) \<Longrightarrow> nr.keeps (f r)"
  shows "cd.keeps (State_Monad.bind read_socket f)"
proof (rule cd.keepsI)
  fix w :: cworld
  let ?r = "k_read w (k_tick w)"
  obtain r w' where run: "run_state (f ?r) (after_read w ?r) = (r, w')"
    by (cases "run_state (f ?r) (after_read w ?r)")
  have "commands_deferred w w'"
  proof (cases "\<exists>text. ?r = ReadMsg (MsgText text)")
    case True
    then show ?thesis using run by (auto dest: on_text)
  next
    case False
    then have "nr.keeps (f ?r)" using rest by blast
    from read_other [OF nr.keepsE [OF this run]] False show ?thesis by blast
  qed
  with run show "commands_deferred w (snd (run_state (State_Monad.bind read_socket f) w))"
    by (simp add: run_read_socket)
qed

lemma nothing_read_after:
  assumes "run_state m (after_read w (ReadMsg (MsgText text))) = (r, w')" and "nr.keeps m"
    and "\<not> is_command (k_wire w) text"
  shows "commands_deferred w w'"
  using read_other [OF nr.keepsE [OF assms(2,1)]] assms(3) by blast

lemma response_text_command:
  assumes "is_command (k_wire w) text"
  shows "run_state (handle_turn_interaction_response_text text cid) w = (Inr False, w)"
proof -
  from assms obtain e where "wr_envelope (k_wire w) text = Inr e" "en_kind e = ''command.dispatch''"
    by (auto simp: is_command_def split: sum.splits)
  then show ?thesis
    by (simp add: handle_turn_interaction_response_text_def turn_interaction_response_ack_for_text_def parse_envelope_def)
qed

text \<open>First the response of a turn interaction, then the background.\<close>

lemma response_then_background:
  assumes run: "run_state (tryE (case ctx of Some cid \<Rightarrow> handle_turn_interaction_response_text text cid
                                           | None \<Rightarrow> ok False)
      (\<lambda>handled. if handled then ok x else tryE (handle_background_text_message text c) (\<lambda>_. ok x)))
      (after_read w (ReadMsg (MsgText text))) = (r, w')"
  shows "commands_deferred w w'"
proof -
  let ?w = "after_read w (ReadMsg (MsgText text))"
  let ?m = "case ctx of Some cid \<Rightarrow> handle_turn_interaction_response_text text cid | None \<Rightarrow> ok False"
  obtain h w1 where w1: "run_state ?m ?w = (h, w1)" by (cases "run_state ?m ?w")
  have "nr.keeps ?m" by (intro nr.kr_rules conn_frames)
  from nr.keepsE [OF this w1] have n1: "nothing_read ?w w1" .
  show ?thesis
  proof (cases "h = Inr False")
    case True
    obtain b w2 where w2: "run_state (handle_background_text_message text c) w1 = (b, w2)"
      by (cases "run_state (handle_background_text_message text c) w1")
    from run w1 w2 True have "w' = w2" by (auto split: sum.splits)
    with read_then_background [OF n1 w2] show ?thesis by simp
  next
    case False
    with run w1 have "w' = w1" by (cases h) (auto split: if_splits)
    moreover have "\<not> is_command (k_wire w) text"
    proof
      assume "is_command (k_wire w) text"
      then have "run_state ?m ?w = (Inr False, ?w)"
        by (cases ctx) (simp_all add: response_text_command)
      with w1 False show False by simp
    qed
    ultimately show ?thesis using n1 read_other by blast
  qed
qed

lemma cd_ack_round: "cd.keeps (ack_round cid kind c ctx)"
proof -
  let ?after = "\<lambda>r. case r of
                ReadFailed e \<Rightarrow> fail e
              | ReadTimeout e \<Rightarrow> fail e
              | ReadMsg (MsgText text) \<Rightarrow>
                  tryE (classify_ack_wait_text text cid kind) (\<lambda>action.
                    (case action of
                       AckMatched accepted \<Rightarrow>
                         tryE (set_socket_read_timeout connector_read_tick) (\<lambda>_. ok (Some accepted))
                     | AckHostSessionsRefresh \<Rightarrow> tryE (send_host_sessions c True) (\<lambda>_. ok None)
                     | AckDefer \<Rightarrow>
                         tryE (case ctx of
                                 Some cid \<Rightarrow> handle_turn_interaction_response_text text cid
                               | None \<Rightarrow> ok False) (\<lambda>handled.
                           if handled then ok None
                           else tryE (handle_background_text_message text c) (\<lambda>_. ok None))))
              | ReadMsg (MsgPing p) \<Rightarrow> tryE (send_frame (PongFrame p)) (\<lambda>_. ok None)
              | ReadMsg MsgClose \<Rightarrow>
                  tryE (set_socket_read_timeout connector_read_tick) (\<lambda>_.
                    fail ''connection closed before command acknowledgement'')
              | ReadMsg MsgOther \<Rightarrow> ok None"
  have read: "cd.keeps (State_Monad.bind read_socket ?after)"
  proof (rule cd_read_bind)
    fix w :: cworld and tx r w'
    assume run: "run_state (?after (ReadMsg (MsgText tx))) (after_read w (ReadMsg (MsgText tx))) = (r, w')"
    have nr: "nr.keeps (tryE (set_socket_read_timeout connector_read_tick) (\<lambda>_. ok (Some a)))"
      "nr.keeps (tryE (send_host_sessions c True) (\<lambda>_. ok None))" for a
      by (intro nr.kr_rules conn_frames)+
    show "commands_deferred w w'"
    proof (cases "wr_envelope (k_wire w) tx")
      case (Inl e)
      then have "\<not> is_command (k_wire w) tx" by (simp add: is_command_def)
      with run Inl show ?thesis
        by (auto simp: classify_ack_wait_text_def parse_envelope_def intro: read_other nr.R_refl)
    next
      case (Inr e)
      then have env: "run_state (classify_ack_wait_text tx cid kind) (after_read w (ReadMsg (MsgText tx)))
          = (Inr (classify_ack_wait_envelope e cid kind), after_read w (ReadMsg (MsgText tx)))"
        by (simp add: classify_ack_wait_text_def parse_envelope_def)
      show ?thesis
      proof (cases "classify_ack_wait_envelope e cid kind")
        case (AckMatched a)
        then have "\<not> is_command (k_wire w) tx"
          using Inr by (auto simp: classify_ack_wait_envelope_def is_command_def split: if_splits)
        from nothing_read_after [OF _ nr(1) [of a] this, of r w'] run env AckMatched show ?thesis by simp
      next
        case AckHostSessionsRefresh
        then have "\<not> is_command (k_wire w) tx"
          using Inr by (auto simp: classify_ack_wait_envelope_def is_command_def split: if_splits)
        from nothing_read_after [OF _ nr(2) this, of r w'] run env AckHostSessionsRefresh
        show ?thesis by simp
      next
        case AckDefer
        with run env show ?thesis by (intro response_then_background) simp
      qed
    qed
  next
    fix r
    assume "\<And>text. r \<noteq> ReadMsg (MsgText text)"
    then show "nr.keeps (?after r)"
      by (auto split: read_answer.splits message.splits intro!: nr.kr_rules conn_frames)
  qed
  have stop: "cd.keeps shutdown_requested"
    "cd.keeps (tryE (set_socket_read_timeout connector_read_tick) (\<lambda>_.
       fail ''connector shutdown requested before command acknowledgement'' :: bool option conn))"
    by (rule cd_nr, intro nr.kr_rules conn_frames)+
  show ?thesis
    unfolding ack_round_def by (rule cd.keeps_bind [OF stop(1) cd.keeps_if [OF stop(2) read]])
qed


lemmas cd_rules =
  cd.keeps_ret cd.keeps_gets cd.keeps_bind cd.keeps_tryE cd.keeps_if cd.keeps_when
  cd.keeps_option cd.keeps_sum cd.keeps_prod

lemma cd_ok [conn_frames]: "cd.keeps (ok x)"
  by (rule cd_nr) (intro conn_frames)

lemma cd_ack_rounds: "cd.keeps (ack_rounds fuel cid kind c ctx)"
  by (induction fuel) (auto intro!: cd_rules cd_ack_round conn_frames)

lemma nr_send_event [conn_frames]: "nr.keeps (send_json v)"
  by (rule nr.keepsI) (simp add: run_send_event nothing_read_def texts_read_def map_filter_def)

lemma cd_wait_for_ack: "cd.keeps (wait_for_ack fuel cid kind c ctx)"
  unfolding wait_for_ack_def
  by (rule cd.keeps_tryE [OF cd_nr cd_ack_rounds]) (intro conn_frames)

lemma cd_dispatch_target:
  "cd.keeps (dispatch_events_for_target_host_session fuel command events target c ctx)"
proof (induction events)
  case (Cons e es)
  have "cd.keeps (send_json (agent_event_message command e target))"
    by (rule cd_nr) (intro conn_frames)
  with Cons show ?case by (auto intro!: cd.keeps_tryE cd_wait_for_ack conn_frames)
qed (auto intro: conn_frames)

lemma cd_dispatch:
  "cd.keeps (dispatch_events fuel command events c)"
  "cd.keeps (dispatch_events_with_turn_interaction_context fuel command events c ctx)"
  unfolding dispatch_events_def dispatch_events_with_turn_interaction_context_def
  by (rule cd_dispatch_target)+

lemma cd_codex_round: "cd.keeps (codex_round c)"
proof -
  let ?after = "\<lambda>r. case r of
                          ReadMsg (MsgText text) \<Rightarrow>
                            tryE (handle_background_text_message text c) (\<lambda>_. ok None)
                        | ReadMsg (MsgPing p) \<Rightarrow> tryE (send_frame (PongFrame p)) (\<lambda>_. ok None)
                        | ReadMsg MsgClose \<Rightarrow>
                            cancel_then_fail ''connection closed while codex exec was running''
                        | ReadMsg MsgOther \<Rightarrow> ok None
                        | ReadTimeout _ \<Rightarrow> ok None
                        | ReadFailed e \<Rightarrow> cancel_then_fail e"
  have read: "cd.keeps (State_Monad.bind read_socket ?after)"
  proof (rule cd_read_bind)
    fix w :: cworld and tx r w'
    assume "run_state (?after (ReadMsg (MsgText tx))) (after_read w (ReadMsg (MsgText tx))) = (r, w')"
    then obtain b where "run_state (handle_background_text_message tx c)
        (after_read w (ReadMsg (MsgText tx))) = (b, w')"
      by (auto split: prod.splits sum.splits)
    from read_then_background [OF nr.R_refl this] show "commands_deferred w w'" .
  next
    fix r
    assume "\<And>text. r \<noteq> ReadMsg (MsgText text)"
    then show "nr.keeps (?after r)"
      by (auto split: read_answer.splits message.splits intro!: nr.kr_rules conn_frames)
  qed
  have stop: "cd.keeps shutdown_requested"
    "cd.keeps (cancel_then_fail e :: connector_event list option conn)" "cd.keeps (kask k_result)" for e
    by (rule cd_nr, intro conn_frames)+
  have "cd.keeps (case answer of
                WorkerDone events \<Rightarrow>
                  tryE join_codex_worker (\<lambda>_.
                  tryE (set_socket_read_timeout connector_read_tick) (\<lambda>_. ok (Some events)))
              | WorkerGone \<Rightarrow>
                  tryE join_codex_worker (\<lambda>_. fail ''codex exec worker stopped before returning events'')
              | WorkerBusy \<Rightarrow> State_Monad.bind read_socket ?after)" for answer
  proof (cases answer)
    case WorkerBusy
    with read show ?thesis by simp
  next
    case (WorkerDone events)
    then show ?thesis by (simp, intro cd_nr nr.kr_rules conn_frames)
  next
    case WorkerGone
    then show ?thesis by (simp, intro cd_nr nr.kr_rules conn_frames)
  qed
  then show ?thesis
    unfolding codex_round_def
    by (intro cd.keeps_bind [OF stop(1)] cd.keeps_if stop(2) cd.keeps_bind [OF stop(3)])
qed

lemma cd_codex_rounds: "cd.keeps (codex_rounds fuel c)"
  by (induction fuel) (auto intro!: cd_rules cd_codex_round conn_frames)

lemma cd_wait_codex: "cd.keeps (wait_for_codex_exec_events fuel c prompt)"
proof -
  have "cd.keeps (klog (AStartCodex prompt))" "cd.keeps (set_socket_read_timeout connector_read_tick)"
    by (rule cd_nr, intro conn_frames, simp?)+
  then show ?thesis
    unfolding wait_for_codex_exec_events_def by (intro cd.keeps_bind cd.keeps_tryE cd_codex_rounds)
qed


lemma turn_text_command:
  assumes "is_command (k_wire w) text"
  shows "run_state (or_cancel (turn_text text c)) w = (Inr (), w\<lparr>k_deferred := k_deferred w @ [text]\<rparr>)"
proof -
  from assms obtain e where e: "wr_envelope (k_wire w) text = Inr e" "en_kind e = ''command.dispatch''"
    by (auto simp: is_command_def split: sum.splits)
  then have "run_state (apply_agent_ready_ack_text text) w = (Inr False, w)"
    by (simp add: apply_agent_ready_ack_text_def parse_envelope_def agent_ready_ack_message_def acks_def)
  with background_command [OF e] show ?thesis
    by (simp add: or_cancel_def turn_text_def run_catchE)
qed

lemma turn_text_other:
  assumes other: "\<not> is_command (k_wire w) text" and run: "run_state (turn_text text c) w = (r, w')"
  shows "nothing_read w w'"
proof -
  obtain a w1 where w1: "run_state (apply_agent_ready_ack_text text) w = (a, w1)"
    by (cases "run_state (apply_agent_ready_ack_text text) w")
  have "nr.keeps (apply_agent_ready_ack_text text)" by (intro conn_frames)
  from nr.keepsE [OF this w1] have n1: "nothing_read w w1" .
  show ?thesis
  proof (cases "a = Inr False")
    case True
    with run w1 have "run_state (handle_background_text_message text c) w1 = (r, w')"
      by (simp add: turn_text_def run_catchE)
    with background_other [OF _ this] other n1 have "nothing_read w1 w'" by (simp add: nothing_read_def)
    with n1 show ?thesis by (rule nr.R_trans)
  next
    case False
    with run w1 have "w' = w1"
      by (cases a) (auto simp: turn_text_def run_catchE split: conn_fault.splits if_splits)
    with n1 show ?thesis by simp
  qed
qed

lemma or_cancel_after:
  assumes "run_state (or_cancel m) w = (r, w')"
    and "\<And>a w1. run_state m w = (a, w1) \<Longrightarrow> nothing_read w w1"
  shows "nothing_read w w'"
proof -
  obtain a w1 where w1: "run_state m w = (a, w1)" by (cases "run_state m w")
  from assms(2) [OF w1] have n1: "nothing_read w w1" .
  have cancel: "nr.keeps (cancel_then_fail e :: 'a conn)" for e by (intro conn_frames)
  from assms(1) w1 have "w' = w1 \<or> (\<exists>e. run_state (cancel_then_fail e :: 'a conn) w1 = (r, w'))"
    by (cases a) (auto simp: or_cancel_def run_catchE split: conn_fault.splits)
  then show ?thesis
    using n1 nr.keepsE [OF cancel] nr.R_trans [OF n1] by blast
qed

lemma cd_turn_socket: "cd.keeps (turn_socket cid c)"
  unfolding turn_socket_def
proof (rule cd_read_bind)
  fix w :: cworld and tx r w'
  let ?w = "after_read w (ReadMsg (MsgText tx))"
  let ?rest = "\<lambda>handled. if handled then ok () else or_cancel (turn_text tx c)"
  assume "run_state (case ReadMsg (MsgText tx) of
             ReadMsg (MsgText text) \<Rightarrow>
               tryE (handle_turn_interaction_response_text text cid) (\<lambda>handled.
                 if handled then ok () else or_cancel (turn_text text c))
           | ReadMsg (MsgPing p) \<Rightarrow> or_cancel (send_frame (PongFrame p))
           | ReadMsg MsgClose \<Rightarrow> cancel_then_fail ''connection closed while app-server command was running''
           | ReadMsg MsgOther \<Rightarrow> ok ()
           | ReadTimeout _ \<Rightarrow> ok ()
           | ReadFailed e \<Rightarrow> cancel_then_fail e) ?w = (r, w')"
  then have run: "run_state (tryE (handle_turn_interaction_response_text tx cid) ?rest) ?w = (r, w')" by simp
  show "commands_deferred w w'"
  proof (cases "is_command (k_wire w) tx")
    case True
    then have "is_command (k_wire ?w) tx" by simp
    from run response_text_command [OF this] turn_text_command [OF this] True show ?thesis
      by (auto simp: commands_deferred_def commands_def texts_read_def map_filter_def)
  next
    case False
    obtain h w1 where w1: "run_state (handle_turn_interaction_response_text tx cid) ?w = (h, w1)"
      by (cases "run_state (handle_turn_interaction_response_text tx cid) ?w")
    have "nr.keeps (handle_turn_interaction_response_text tx cid)" by (intro conn_frames)
    from nr.keepsE [OF this w1] have n1: "nothing_read ?w w1" .
    with False have other: "\<not> is_command (k_wire w1) tx" by (simp add: nothing_read_def)
    have n2: "nothing_read w1 w'" if "run_state (or_cancel (turn_text tx c)) w1 = (r, w')"
      using or_cancel_after [OF that] turn_text_other [OF other] by blast
    from run w1 have "w' = w1 \<or> run_state (or_cancel (turn_text tx c)) w1 = (r, w')"
      by (auto split: sum.splits if_splits)
    then have "nothing_read ?w w'"
      using n1 n2 nr.R_trans [OF n1] by blast
    with False show ?thesis by (intro read_other) auto
  qed
next
  fix r
  assume "\<And>text. r \<noteq> ReadMsg (MsgText text)"
  then show "nr.keeps (case r of
             ReadMsg (MsgText text) \<Rightarrow>
               tryE (handle_turn_interaction_response_text text cid) (\<lambda>handled.
                 if handled then ok () else or_cancel (turn_text text c))
           | ReadMsg (MsgPing p) \<Rightarrow> or_cancel (send_frame (PongFrame p))
           | ReadMsg MsgClose \<Rightarrow> cancel_then_fail ''connection closed while app-server command was running''
           | ReadMsg MsgOther \<Rightarrow> ok ()
           | ReadTimeout _ \<Rightarrow> ok ()
           | ReadFailed e \<Rightarrow> cancel_then_fail e)"
    by (auto split: read_answer.splits message.splits intro!: nr.kr_rules conn_frames)
qed

lemma cd_drain: "cd.keeps (drain_pending_connector_events n fuel command c ctx)"
proof (induction n)
  case (Suc n)
  have "cd.keeps (kask k_event)" by (rule cd_nr) (intro conn_frames)
  with Suc show ?case by (auto intro!: cd_rules cd_dispatch conn_frames)
qed (simp add: cd.keeps_ret)

lemma cd_turn_round: "cd.keeps (turn_round fuel command rc next_at)"
proof -
  have small: "cd.keeps shutdown_requested" "cd.keeps (cancel_then_fail e :: 'b conn)"
    "cd.keeps cancel_codex_worker" "cd.keeps (kask k_result)" "cd.keeps join_codex_worker"
    "cd.keeps (set_socket_read_timeout d)" "cd.keeps (fail e :: 'b conn)" "cd.keeps know"
    "cd.keeps (or_cancel (maintain_app_server_runtime_during_wait fuel c))" "cd.keeps (instant_add t d)"
    for e c d t by (rule cd_nr, intro conn_frames)+
  have answers: "cd.keeps m1 \<Longrightarrow> (\<And>es. cd.keeps (m2 es)) \<Longrightarrow> cd.keeps m3 \<Longrightarrow>
      cd.keeps (case a of WorkerDone es \<Rightarrow> m2 es | WorkerGone \<Rightarrow> m1 | WorkerBusy \<Rightarrow> m3)"
    for m1 :: "(connector_event list + agent_config \<times> instant) conn" and m2 m3 a
    by (cases a) simp_all
  show ?thesis
    unfolding turn_round_def dispatch_pending_app_server_command_events_def
    by (intro cd_rules answers small cd_drain cd_turn_socket cd_ok)
qed

lemma cd_turn_rounds: "cd.keeps (turn_rounds n fuel command rc next_at)"
  by (induction n arbitrary: rc next_at) (auto intro!: cd_rules cd_turn_round conn_frames)

lemma cd_wait_app_server: "cd.keeps (wait_for_app_server_command_events fuel c session_id cwd cid prompt)"
proof -
  have "cd.keeps know" "cd.keeps (instant_add t d)" "cd.keeps (set_socket_read_timeout d)"
    "cd.keeps (klog (AStartAppServerCommand session_id cwd cid prompt))" for t d
    by (rule cd_nr, intro conn_frames, simp?)+
  then show ?thesis
    unfolding wait_for_app_server_command_events_def
    by (intro cd.keeps_bind cd.keeps_tryE cd_turn_rounds)
qed


subsection \<open>The end of a turn\<close>

text \<open>An action logged in between; what follows it in the frame keeps it.\<close>

definition logged :: "conn_action \<Rightarrow> cworld \<Rightarrow> cworld \<Rightarrow> bool" where
  "logged a s t \<longleftrightarrow> (\<exists>xs. k_log t = k_log s @ xs \<and> a \<in> set xs)"

lemma logged_after: "conn_frame s t \<Longrightarrow> logged a t u \<Longrightarrow> logged a s u"
  by (auto simp: logged_def conn_frame_def)

lemma logged_before: "logged a s t \<Longrightarrow> conn_frame t u \<Longrightarrow> logged a s u"
  by (auto simp: logged_def conn_frame_def)

lemma join_logged: "run_state join_codex_worker w = (r, w') \<Longrightarrow> logged AJoinWorker w w'"
  by (auto simp: join_codex_worker_def logged_def split: if_splits)

lemma cancel_logged: "run_state cancel_codex_worker w = (r, w') \<Longrightarrow> logged AJoinWorker w w'"
  by (auto simp: cancel_codex_worker_def join_codex_worker_def logged_def split: if_splits)

lemma codex_round_joined:
  assumes "run_state (codex_round c) w = (Inr (Some events), w')"
  shows "logged AJoinWorker w w'"
proof -
  let ?w = "w\<lparr>k_tick := Suc (Suc (k_tick w))\<rparr>"
  obtain j w1 where w1: "run_state join_codex_worker ?w = (j, w1)" by (cases "run_state join_codex_worker ?w")
  have "conn_frame w ?w" by (simp add: conn_frame_def frame.R_refl)
  moreover note join_logged [OF w1]
  moreover have "conn_frame w1 w'"
  proof -
    obtain t w2 where w2: "run_state (set_socket_read_timeout connector_read_tick) w1 = (t, w2)"
      by (cases "run_state (set_socket_read_timeout connector_read_tick) w1")
    have "cf.keeps (set_socket_read_timeout connector_read_tick)" by (intro conn_frames)
    from cf.keepsE [OF this w2] have "conn_frame w1 w2" .
    moreover from assms w1 w2 have "w' = w2"
      by (auto simp: codex_round_def shutdown_requested_def cancel_then_fail_def split: worker_answer.splits
          read_answer.splits message.splits sum.splits prod.splits if_splits)
    ultimately show ?thesis by simp
  qed
  ultimately show ?thesis by (blast intro: logged_after logged_before)
qed

lemma codex_rounds_joined:
  "run_state (codex_rounds fuel c) w = (Inr events, w') \<Longrightarrow> logged AJoinWorker w w'"
proof (induction fuel arbitrary: w)
  case (Suc fuel)
  obtain r w1 where w1: "run_state (codex_round c) w = (r, w1)" by (cases "run_state (codex_round c) w")
  from cf.keepsE [OF cf_codex w1] have f: "conn_frame w w1" .
  from Suc.prems w1 obtain x where r: "r = Inr x" by (cases r) auto
  show ?case
  proof (cases x)
    case None
    with Suc.prems w1 r have "run_state (codex_rounds fuel c) w1 = (Inr events, w')" by simp
    from logged_after [OF f Suc.IH [OF this]] show ?thesis .
  next
    case (Some es)
    with Suc.prems w1 r codex_round_joined show ?thesis by auto
  qed
qed simp

lemma turn_round_joined:
  assumes "run_state (turn_round fuel command rc next_at) w = (Inr (Inl events), w')"
  shows "logged AJoinWorker w w'"
proof -
  define pre where "pre = (do { _ \<leftarrow> shutdown_requested;
      dispatch_pending_app_server_command_events fuel command rc (Some (cp_id command)) })"
  have "cf.keeps pre"
    unfolding pre_def dispatch_pending_app_server_command_events_def by (intro cf_rules conn_frames)
  obtain a w1 where w1: "run_state pre w = (a, w1)" by (cases "run_state pre w")
  from cf.keepsE [OF \<open>cf.keeps pre\<close> w1] have f1: "conn_frame w w1" .
  obtain b where a: "a = Inr b"
    using assms w1 by (auto simp: turn_round_def pre_def shutdown_requested_def cancel_then_fail_def
      split: prod.splits sum.splits if_splits)
  have running: "\<not> k_stop w (k_tick w)"
    using assms by (auto simp: turn_round_def shutdown_requested_def cancel_then_fail_def
      split: prod.splits sum.splits)
  show ?thesis
  proof (cases b)
    case False
    obtain j w2 where w2: "run_state cancel_codex_worker w1 = (j, w2)" by (cases "run_state cancel_codex_worker w1")
    with assms w1 a False running have "w' = w2"
      by (auto simp: turn_round_def pre_def shutdown_requested_def split: prod.splits sum.splits)
    with logged_after [OF f1 cancel_logged [OF w2]] show ?thesis by simp
  next
    case True
    let ?w = "w1\<lparr>k_tick := Suc (k_tick w1)\<rparr>"
    obtain j w2 where w2: "run_state join_codex_worker ?w = (j, w2)" by (cases "run_state join_codex_worker ?w")
    define post where "post evs = tryE (dispatch_pending_app_server_command_events fuel command rc (Some (cp_id command)))
                        (\<lambda>accepted.
                          tryE (set_socket_read_timeout connector_read_tick) (\<lambda>_.
                            ok (Inl (if accepted then evs else [app_server_interaction_rejected_event])
                               :: connector_event list + agent_config \<times> instant)))" for evs
    have post: "cf.keeps (post evs)" for evs
      unfolding post_def dispatch_pending_app_server_command_events_def by (intro cf_rules conn_frames)
    have "\<exists>evs. run_state (post evs) w2 = (Inr (Inl events), w')"
      using assms w1 a True running w2
      by (auto simp: turn_round_def pre_def post_def shutdown_requested_def
          split: worker_answer.splits prod.splits sum.splits)
    then obtain evs where "run_state (post evs) w2 = (Inr (Inl events), w')" ..
    from cf.keepsE [OF post this] have "conn_frame w2 w'" .
    moreover have "conn_frame w ?w" using f1 by (simp add: conn_frame_def)
    ultimately show ?thesis using join_logged [OF w2] by (blast intro: logged_after logged_before)
  qed
qed

lemma turn_rounds_joined:
  "run_state (turn_rounds n fuel command rc next_at) w = (Inr events, w') \<Longrightarrow> logged AJoinWorker w w'"
proof (induction n arbitrary: w rc next_at)
  case (Suc n)
  obtain r w1 where w1: "run_state (turn_round fuel command rc next_at) w = (r, w1)"
    by (cases "run_state (turn_round fuel command rc next_at) w")
  from cf.keepsE [OF cf_turn_round w1] have f: "conn_frame w w1" .
  from Suc.prems w1 obtain x where r: "r = Inr x" by (cases r) auto
  show ?case
  proof (cases x)
    case (Inl es)
    with Suc.prems w1 r turn_round_joined show ?thesis by auto
  next
    case (Inr y)
    with Suc.prems w1 r have "run_state (turn_rounds n fuel command (fst y) (snd y)) w1 = (Inr events, w')"
      by (cases y) simp
    from logged_after [OF f Suc.IH [OF this]] show ?thesis .
  qed
qed simp

end
