(* ===== verification/Manager_Claims.thy ===== *)
theory Manager_Claims
  imports Manager_Props
begin

text \<open>
  The properties of the app-server manager, over the lemmas of \<open>Manager_Safety\<close> and
  \<open>Manager_Props\<close>, with witnesses on a small configuration: a managed server on a Unix socket
  whose health check fails a few times and then passes.
\<close>

subsection \<open>A configuration and a world to evaluate on\<close>

definition demo_url :: string where "demo_url = ''unix:///run/codex.sock''"

definition demo_config :: agent_config where
  "demo_config =
     \<lparr> ac_connector_name = ''host'', ac_control_url = ''wss://control/ws'', ac_bootstrap_url = ''https://control'',
       ac_workspace_root = ''/srv'', ac_token_file = ''/etc/token'', ac_spool_db = ''/var/spool'',
       ac_bootstrap = \<lparr> bc_secret_file = ''/etc/secret'' \<rparr>,
       ac_execution = execution_config_default,
       ac_session_inventory = session_inventory_config_default\<lparr>
         si_managed_app_server := managed_app_server_config_default\<lparr>
           ma_enabled := True, ma_listen_url := Some demo_url \<rparr> \<rparr> \<rparr>"

definition demo_world :: "(nat \<Rightarrow> instant) \<Rightarrow> (nat \<Rightarrow> string option) \<Rightarrow> mworld" where
  "demo_world clock health =
     app_server_manager.extend (new_manager demo_config None)
       \<lparr> w_tick = 0, w_now = clock, w_health = health, w_spawn = (\<lambda>k. Spawned (100 + k)),
         w_try_wait = (\<lambda>_. Running), w_terminate = (\<lambda>_. None), w_marker = (\<lambda>_. None),
         w_shutdown = (\<lambda>_. False), w_uri = (\<lambda>_. Inl ''not a URL''), w_trace = [] \<rparr>"

definition ticking :: "nat \<Rightarrow> instant" where "ticking k = secs 100 + k * secs 1"
definition refusing :: "nat \<Rightarrow> string option" where "refusing k = Some ''connection refused''"
definition settling :: "nat \<Rightarrow> string option" where
  "settling k = (if k < 8 then Some ''connection refused'' else None)"

lemmas demo_defs = demo_url_def demo_config_def demo_world_def ticking_def refusing_def settling_def
  session_inventory_config_default_def managed_app_server_config_default_def
  execution_config_default_def config_defaults new_manager_def app_server_manager.extend_def

lemma demo_fresh: "fresh_world demo_config (demo_world clock health)"
  unfolding fresh_world_def demo_world_def
  by (auto intro!: exI [of _ None] simp: app_server_manager.truncate_def app_server_manager.extend_def
      new_manager_def Let_def)

lemma demo_inv: "mgr_inv (demo_world clock health)"
  by (rule fresh_world_inv) (rule demo_fresh)

lemma demo_run:
  "fst (run_state (runtime_config 11 demo_config) (demo_world ticking settling))
     = Inr (with_app_server_url demo_config (Some demo_url))"
  by code_simp

subsection \<open>Properties\<close>

text \<open>
  The configuration the manager hands out for a turn names an app-server exactly when the
  manager is healthy: the URL is the validated local listen URL with the state \<open>healthy\<close> and no
  error recorded, and without a URL the state is another one. Nothing else of the
  configuration changes.
\<close>
theorem runtime_config_offers_healthy_url:
  assumes "m_enabled w"
    and "fst (run_state (runtime_config fuel c) w) = Inr c'"
  defines "w' \<equiv> snd (run_state (runtime_config fuel c) w)"
  shows "c' = with_app_server_url c (si_app_server_url (ac_session_inventory c'))
    \<and> (case si_app_server_url (ac_session_inventory c') of
         Some url \<Rightarrow> m_listen_url w = Some url \<and> is_managed_listen_url (w_uri w) url
                     \<and> m_state w' = Healthy \<and> m_last_error w' = None
       | None \<Rightarrow> m_state w' \<noteq> Healthy)"
proof -
  have run: "run_state (runtime_config fuel c) w = (Inr c', w')"
    using assms(2) by (simp add: w'_def prod_eq_iff)
  with \<open>m_enabled w\<close> obtain url where url: "run_state (runtime_app_server_url fuel c) w = (Inr url, w')"
      and c': "c' = with_app_server_url c url"
    by (auto simp: runtime_config_def runtime_config_with_start_policy_def split: prod.splits sum.splits)
  from runtime_app_server_url_matches [OF url] c' show ?thesis
    by (auto simp: with_app_server_url_def url_matches_state_def managed_url_of_def split: option.splits)
qed

theorem runtime_config_offers_healthy_url_witness:
  "m_state (snd (run_state (runtime_config 11 demo_config) (demo_world ticking settling))) = Healthy"
proof -
  have "m_enabled (demo_world ticking settling)" by code_simp
  from runtime_config_offers_healthy_url [OF this demo_run] show ?thesis
    by (simp add: with_app_server_url_def)
qed

text \<open>
  C4: In every state the manager reaches from a fresh one, whatever the calls and the answers of
  the system, the processes started and not yet terminated are exactly the child it holds (so
  at most one), and the generation and the count of active turns stay within their 64 and
  32 bits.
\<close>
theorem manager_owns_one_child:
  assumes "fresh_world c w0" and "mgr_reach fuel c w0 w"
  shows "owned_of (w_trace w) = set_option (m_child w)
    \<and> m_generation w \<le> u64_max \<and> m_active_turn_count w \<le> u32_max"
  using assms(2) fresh_world_inv [OF assms(1)]
proof (induction rule: mgr_reach.induct)
  case reach_start
  then show ?case by (simp add: mgr_inv_def owns_def)
next
  case (reach_step w w')
  then have "mgr_inv w" by (simp add: mgr_inv_def owns_def)
  from mgr_inv_step [OF reach_step.hyps(2) this] show ?case by (simp add: mgr_inv_def owns_def)
qed

theorem manager_owns_one_child_witness:
  "owned_of (w_trace (snd (run_state (runtime_config 11 demo_config) (demo_world ticking settling)))) = {102}"
proof -
  let ?w = "snd (run_state (runtime_config 11 demo_config) (demo_world ticking settling))"
  have "mgr_reach 11 demo_config (demo_world ticking settling) ?w"
    by (rule reach_step [OF reach_start step_config])
  from manager_owns_one_child [OF demo_fresh this] have "owned_of (w_trace ?w) = set_option (m_child ?w)"
    by blast
  moreover have "m_child ?w = Some 102" by code_simp
  ultimately show ?thesis by simp
qed




text \<open>
  C18: While a turn is active and its drain time is not over, asking for the configuration never
  touches the running process: nothing is probed, started, stopped or waited for, the child
  stays, whatever restart is pending or becomes due during the call.
\<close>
theorem draining_leaves_active_turn_alone:
  assumes active: "0 < m_active_turn_count w" and enabled: "m_enabled w"
    and running: "\<And>k. w_try_wait w k = Running"
    and early: "\<And>j k. w_now w k < w_now w j + drain_timeout c"
    and young: "\<And>k p. m_pending_restart w = Some p \<Longrightarrow> w_now w k < pr_requested_at p + drain_timeout c"
  shows "\<exists>c' w'. run_state (runtime_config_during_active_turn fuel c) w = (Inr c', w')
    \<and> w_trace w' = w_trace w \<and> m_child w' = m_child w
    \<and> (m_pending_restart w \<noteq> None \<longrightarrow> si_app_server_url (ac_session_inventory c') = None)"
proof -
  obtain x w1 where w1: "run_state (schedule_configured_restart_requests c) w = (x, w1)"
    by (cases "run_state (schedule_configured_restart_requests c) w")
  from asks.keepsE [OF asks_schedule_requests w1] have asks: "asks_only w w1" .
  show ?thesis
  proof (cases "m_pending_restart w1")
    case None
    with asks w1 enabled show ?thesis
      by (auto simp: runtime_config_during_active_turn_def active_turn_app_server_url_def asks_only_def)
  next
    case (Some p)
    have env: "w_now w1 = w_now w" "w_try_wait w1 = w_try_wait w" "0 < m_active_turn_count w1"
      using asks active by (simp_all add: asks_only_def same_env_def)
    have "w_now w1 k < pr_requested_at p + drain_timeout c" for k
      using asks Some young early env by (auto simp: asks_only_def)
    with advance_drains [OF env(3) Some, of c fuel] running env obtain w2 where
      "run_state (advance_pending_restart fuel c) w1 = (Inr None, w2)"
      "w_trace w2 = w_trace w1" "m_child w2 = m_child w1" by auto
    with Some w1 asks enabled show ?thesis
      by (auto simp: runtime_config_during_active_turn_def active_turn_app_server_url_def asks_only_def
          with_app_server_url_def)
  qed
qed

definition busy_world :: mworld where
  "busy_world = (demo_world (\<lambda>_. secs 100) refusing)
     \<lparr> m_active_turn_count := 1, m_child := Some 104, m_state := Healthy,
       m_pending_restart := Some \<lparr> pr_reason = UpgradeMarker, pr_requested_at = secs 90 \<rparr> \<rparr>"

theorem draining_leaves_active_turn_alone_witness:
  "\<exists>w'. snd (run_state (runtime_config_during_active_turn 1 demo_config) busy_world) = w'
     \<and> m_child w' = Some 104 \<and> w_trace w' = []"
proof -
  have "0 < m_active_turn_count busy_world" "m_enabled busy_world" "\<And>k. w_try_wait busy_world k = Running"
    "\<And>j k. w_now busy_world k < w_now busy_world j + drain_timeout demo_config"
    "\<And>k p. m_pending_restart busy_world = Some p \<Longrightarrow>
       w_now busy_world k < pr_requested_at p + drain_timeout demo_config"
    by (auto simp: busy_world_def demo_defs secs_def)
  from draining_leaves_active_turn_alone [OF this, of 1]
  show ?thesis by (auto simp: busy_world_def demo_defs)
qed

text \<open>
  A pending restart that ends with a URL has really restarted: if the manager held a child,
  that very process was terminated on the way, and the request is gone.
\<close>
theorem completed_restart_replaces_child:
  assumes "owned_of (w_trace w) = set_option (m_child w)"
    and "m_child w = Some pid" and "m_pending_restart w = Some p"
    and "fst (run_state (advance_pending_restart fuel c) w) = Inr (Some url)"
  defines "w' \<equiv> snd (run_state (advance_pending_restart fuel c) w)"
  shows "m_pending_restart w' = None
    \<and> ActTerminate pid None \<in> set (drop (length (w_trace w)) (w_trace w'))"
proof -
  have run: "run_state (advance_pending_restart fuel c) w = (Inr (Some url), w')"
    using assms(4) by (simp add: w'_def prod_eq_iff)
  have "owns w" using assms(1) by (simp add: owns_def)
  from advance_completed [OF assms(3) this run] obtain w1 where
    none: "m_pending_restart w' = None" and f: "mgr_frame w w1" "mgr_frame w1 w'"
    and o1: "owns w1" "m_child w1 = None" by blast
  from f obtain xs ys where xs: "w_trace w1 = w_trace w @ xs" "w_trace w' = w_trace w1 @ ys"
    by (auto simp: mgr_frame_def)
  have "pid \<in> owned_of (w_trace w)" "pid \<notin> owned_of (w_trace w @ xs)"
    using assms(1,2) o1 xs by (simp_all add: owns_def)
  from owned_of_removed [OF this] none xs show ?thesis by simp
qed

definition restart_world :: mworld where
  "restart_world = (demo_world ticking settling)
     \<lparr> m_child := Some 7, m_state := Healthy, w_trace := [ActSpawn (app_server_command demo_config demo_url) 7],
       m_pending_restart := Some \<lparr> pr_reason = UpgradeMarker, pr_requested_at = secs 90 \<rparr> \<rparr>"

theorem completed_restart_replaces_child_witness:
  "ActTerminate 7 None \<in> set (w_trace (snd (run_state (advance_pending_restart 11 demo_config) restart_world)))"
proof -
  have "owned_of (w_trace restart_world) = set_option (m_child restart_world)"
    "m_child restart_world = Some 7"
    "m_pending_restart restart_world = Some \<lparr> pr_reason = UpgradeMarker, pr_requested_at = secs 90 \<rparr>"
    by (simp_all add: restart_world_def owned_of_def)
  moreover have "fst (run_state (advance_pending_restart 11 demo_config) restart_world) = Inr (Some demo_url)"
    by code_simp
  ultimately show ?thesis
    using completed_restart_replaces_child [of restart_world 7 _ 11 demo_config demo_url] in_set_dropD by fastforce
qed

text \<open>
  A healthy listener the manager did not start is never restarted: with no child of its own
  and no active turn, a pending restart only probes the URL, stays pending, and the state says
  degraded with no URL offered.
\<close>
theorem unowned_listener_is_left_alone:
  assumes "m_child w = None" and "m_active_turn_count w = 0" and "m_pending_restart w = Some p"
    and "m_listen_url w = Some url" and "is_managed_listen_url (w_uri w) url"
    and "\<And>k. w_health w k = None"
  shows "\<exists>w'. run_state (advance_pending_restart fuel c) w = (Inr None, w')
    \<and> w_trace w' = w_trace w @ [ActProbe url] \<and> m_child w' = None
    \<and> m_pending_restart w' = Some p \<and> m_state w' = Degraded"
proof -
  obtain b n where "run_state (scheduled_restart_backoff_deadline c p) w = (b, w\<lparr>w_tick := n\<rparr>)"
    using backoff_deadline_tick by blast
  with assms show ?thesis
    by (auto simp: advance_pending_restart_def clear_exited_child_def block_unowned_listener_restart_def
        probe_ready_def validated_listen_url_def)
qed

theorem unowned_listener_is_left_alone_witness:
  "\<exists>w'. run_state (advance_pending_restart 1 demo_config)
      ((demo_world ticking (\<lambda>_. None))\<lparr>m_pending_restart := Some \<lparr>pr_reason = Scheduled, pr_requested_at = 5\<rparr>\<rparr>)
      = (Inr None, w') \<and> w_trace w' = [ActProbe demo_url] \<and> m_state w' = Degraded"
proof -
  let ?w = "(demo_world ticking (\<lambda>_. None))\<lparr>m_pending_restart := Some \<lparr>pr_reason = Scheduled, pr_requested_at = 5\<rparr>\<rparr>"
  have url: "is_managed_listen_url (w_uri ?w) demo_url" by code_simp
  have "m_child ?w = None" "m_active_turn_count ?w = 0"
    "m_pending_restart ?w = Some \<lparr>pr_reason = Scheduled, pr_requested_at = 5\<rparr>"
    "m_listen_url ?w = Some demo_url" "\<And>k. w_health ?w k = None" "w_trace ?w = []"
    by (simp_all add: demo_defs Let_def)
  with unowned_listener_is_left_alone [OF this(1-4) url this(5), of 1 demo_config] show ?thesis by auto
qed


text \<open>
  No process is started while the back-off after a failed start runs, and none once shutdown
  was requested: in either case making the app-server ready adds no start to the trace.
\<close>
theorem no_start_in_backoff_or_shutdown:
  assumes "m_child w = None"
    and "(\<forall>k. w_shutdown w k)
      \<or> (\<exists>t. m_last_start_failure w = Some t
           \<and> (let backoff = secs (max (ma_restart_backoff_seconds
                   (si_managed_app_server (ac_session_inventory c))) 1)
              in t + backoff < instant_limit \<and> (\<forall>k. w_now w k < t + backoff)))"
  shows "\<exists>xs w'. snd (run_state (ensure_ready fuel c) w) = w' \<and> w_trace w' = w_trace w @ xs
    \<and> (\<forall>cmd pid. ActSpawn cmd pid \<notin> set xs)"
proof -
  obtain u where u: "run_state validated_listen_url w = (u, w)"
    by (cases "run_state validated_listen_url w") (auto dest: run_validated_listen_url)
  show ?thesis
  proof (cases "\<forall>k. w_shutdown w k")
    case True
    with u assms(1) show ?thesis
      by (cases u) (auto simp: ensure_ready_def clear_exited_child_def can_attempt_start_def
          run_start_backoff_deadline should_preserve_forced_restart_backoff_summary_def
          split: prod.splits option.splits if_splits)
  next
    case False
    with assms(2) obtain t where t: "m_last_start_failure w = Some t" "instant_checked_add t
        (secs (max (ma_restart_backoff_seconds (si_managed_app_server (ac_session_inventory c))) 1)) = Some
        (t + secs (max (ma_restart_backoff_seconds (si_managed_app_server (ac_session_inventory c))) 1))"
      "\<And>k. \<not> t + secs (max (ma_restart_backoff_seconds (si_managed_app_server (ac_session_inventory c))) 1)
         \<le> w_now w k"
      by (auto simp: instant_checked_add_def Let_def not_le)
    with u assms(1) show ?thesis
      by (cases u) (auto simp: ensure_ready_def clear_exited_child_def can_attempt_start_def
          run_start_backoff_deadline should_preserve_forced_restart_backoff_summary_def
          split: prod.splits option.splits if_splits)
  qed
qed

theorem no_start_in_backoff_or_shutdown_witness:
  "\<exists>xs. w_trace (snd (run_state (ensure_ready 1 demo_config)
      ((demo_world (\<lambda>_. secs 100) refusing)\<lparr>m_last_start_failure := Some (secs 98)\<rparr>))) = xs
    \<and> (\<forall>cmd pid. ActSpawn cmd pid \<notin> set xs)"
proof -
  let ?w = "(demo_world (\<lambda>_. secs 100) refusing)\<lparr>m_last_start_failure := Some (secs 98)\<rparr>"
  have "m_child ?w = None" "w_trace ?w = []"
    "m_last_start_failure ?w = Some (secs 98)
     \<and> (let backoff = secs (max (ma_restart_backoff_seconds
           (si_managed_app_server (ac_session_inventory demo_config))) 1)
        in secs 98 + backoff < instant_limit \<and> (\<forall>k. w_now ?w k < secs 98 + backoff))"
    by (simp_all add: demo_defs secs_def instant_limit_def)
  with no_start_in_backoff_or_shutdown [of ?w demo_config 1] show ?thesis by auto
qed

text \<open>
  A restart request is recorded with the time it was made and announced in the state; an
  upgrade replaces a pending scheduled restart, and nothing else replaces a pending one.
  Nothing is done to the process.
\<close>
theorem request_restart_priority:
  "\<exists>w'. run_state (request_restart reason) w = ((), w')
    \<and> w_trace w' = w_trace w \<and> m_child w' = m_child w
    \<and> m_pending_restart w' =
        (case m_pending_restart w of
           Some p \<Rightarrow>
             (if reason = UpgradeMarker \<and> pr_reason p = Scheduled
              then Some \<lparr>pr_reason = UpgradeMarker, pr_requested_at = w_now w (w_tick w)\<rparr> else Some p)
         | None \<Rightarrow> Some \<lparr>pr_reason = reason, pr_requested_at = w_now w (w_tick w)\<rparr>)
    \<and> m_state w' =
        (if m_pending_restart w' = m_pending_restart w then m_state w
         else if 0 < m_active_turn_count w then Draining else Restarting)"
  by (cases reason; cases "m_pending_restart w"; cases "pr_reason (the (m_pending_restart w))")
    (auto simp: request_restart_def)



end
