(* ===== verification/Connector_Claims.thy ===== *)
theory Connector_Claims
  imports Connector_Order Manager_Claims "HOL-Library.Countable"
begin

text \<open>The properties of the connector, with witnesses on a small connection.\<close>

subsection \<open>A connection to evaluate on\<close>

text \<open>
  Texts are printed by number: the JSON values are countable, so this prints any value to a
  text that reads back to it. Envelopes are read from the few texts the examples use.
\<close>

instance number :: countable by countable_datatype
instance json :: countable by countable_datatype

definition demo_print :: "json \<Rightarrow> string" where "demo_print v = replicate (to_nat v) (CHR ''x'')"
definition demo_parse :: "string \<Rightarrow> string + json" where "demo_parse s = Inr (from_nat (length s))"

lemma demo_round_trip: "demo_parse (demo_print v) = Inr v"
  by (simp add: demo_parse_def demo_print_def)

definition demo_envelope :: "string \<Rightarrow> string + envelope" where
  "demo_envelope text =
     (if text = ''ack'' then Inr \<lparr> en_kind = ''server.ack'',
          en_payload = jobj [(''command_id'', JStr ''c1''), (''kind'', JStr ''command.started'')] \<rparr>
      else if text = ''refuse'' then Inr \<lparr> en_kind = ''server.ack'',
          en_payload = jobj [(''command_id'', JStr ''c1''), (''kind'', JStr ''command.output''),
                             (''accepted'', JBool False)] \<rparr>
      else if text = ''command'' then Inr \<lparr> en_kind = ''command.dispatch'',
          en_payload = jobj [(''command'', jobj [(''id'', JStr ''c2''), (''prompt'', JStr ''hello'')])] \<rparr>
      else Inl ''not an envelope'')"

definition demo_wire :: wire where
  "demo_wire = \<lparr> js_print = demo_print, js_parse = demo_parse, js_type_error = (\<lambda>_. ''invalid type''),
                wr_envelope = demo_envelope, wr_response = (\<lambda>_. Inl ''invalid response'') \<rparr>"

text \<open>Another printer, which can be run: every value prints alike.\<close>

definition plain_wire :: wire where
  "plain_wire = demo_wire\<lparr> js_print := (\<lambda>_. ''text''),
     js_parse := (\<lambda>_. Inr (jobj [(''payload'', jobj [])])) \<rparr>"

definition demo_conn :: "wire \<Rightarrow> read_answer list \<Rightarrow> worker_answer \<Rightarrow> cworld" where
  "demo_conn wire reads result =
     \<lparr> k_wire = wire, k_tick = 0, k_now = (\<lambda>k. secs 50 + k), k_stop = (\<lambda>_. False), k_connect = (\<lambda>_. None),
       k_token = (\<lambda>_. Inr ''token''),
       k_read = (\<lambda>k. if k < length reads then reads ! k else ReadMsg MsgClose),
       k_send = (\<lambda>_. None), k_configure = (\<lambda>_. None), k_report = (\<lambda>_. Inl ''no inventory''),
       k_create = (\<lambda>_. Inl ''no app-server''), k_backfill = (\<lambda>_. Inl ''no history''),
       k_ensure = (\<lambda>_. Inl ''no app-server''), k_archive = (\<lambda>_. Inr False), k_result = (\<lambda>_. result),
       k_event = (\<lambda>_. None), k_active = (\<lambda>_. Inr None), k_clear = (\<lambda>_. None), k_deliver = (\<lambda>_. False),
       k_join_panic = (\<lambda>_. False), k_log = [], k_mgr = demo_world ticking refusing,
       k_ready = agent_ready_default, k_hosts = host_sessions_default,
       k_insts = app_server_instances_default, k_deferred = [] \<rparr>"

definition demo_command :: command_payload where
  "demo_command = \<lparr> cp_id = ''c1'', cp_command_type = CmdPlaceholder, cp_prompt = ''hi'' \<rparr>"

definition mute :: read_answer where "mute = ReadMsg MsgOther"
definition text_read_answer :: "string \<Rightarrow> read_answer" where "text_read_answer s = ReadMsg (MsgText s)"

lemmas conn_demo_defs = demo_conn_def plain_wire_def demo_wire_def demo_envelope_def demo_command_def mute_def
  text_read_answer_def

subsection \<open>Properties\<close>


lemma demo_dispatch:
  "fst (run_state (dispatch_events_for_target_host_session 9 demo_command (placeholder_event_stream ''hi'') None
      demo_config None) (demo_conn plain_wire [mute, mute, mute, text_read_answer ''ack'', mute, mute, mute, mute,
        text_read_answer ''refuse''] WorkerBusy)) = Inr False"
  by code_simp



text \<open>
  C19: No command is lost or overtaken while another one runs. The commands among the messages
  read during a wait (for an acknowledgement, for \<open>codex exec\<close>, for a turn of the app-server)
  are appended to the deferred messages in the order they were read, and none is taken out.
\<close>
theorem commands_read_are_deferred_in_order:
  "commands_deferred w (snd (run_state (dispatch_events fuel command events c) w))
   \<and> commands_deferred w (snd (run_state (wait_for_codex_exec_events fuel c prompt) w))
   \<and> commands_deferred w
       (snd (run_state (wait_for_app_server_command_events fuel c session_id cwd command_id prompt) w))"
  by (intro conjI cd.keepsD cd_dispatch cd_wait_codex cd_wait_app_server)

text \<open>
  C13: The turns begun are finished: a connected session, however it ends (an error, the
  control plane closing the connection, shutdown, a rejected event), leaves the count of active
  turns as it found it, unless the code panics.
\<close>
theorem session_balances_turns:
  assumes "m_active_turn_count (k_mgr w) < u32_max"
    and "run_state (run_connected_session fuel c mode) w = (r, w')"
    and "r \<noteq> Inl ConnPanic" and "r \<noteq> Inl ConnFuel"
  shows "m_active_turn_count (k_mgr w') = m_active_turn_count (k_mgr w)"
  using balancedD [OF balanced_session assms(2,1,3,4)] .

theorem session_balances_turns_witness:
  "m_active_turn_count (k_mgr (snd (run_state (run_connected_session 30 demo_config Continuous)
      (demo_conn plain_wire [] WorkerBusy)))) = 0"
proof -
  have zero: "m_active_turn_count (k_mgr (demo_conn plain_wire [] WorkerBusy)) = 0" by code_simp
  then have lt: "m_active_turn_count (k_mgr (demo_conn plain_wire [] WorkerBusy)) < u32_max" by (simp add: u32_max_def)
  obtain r w' where run: "run_state (run_connected_session 30 demo_config Continuous)
      (demo_conn plain_wire [] WorkerBusy) = (r, w')" by (metis prod.exhaust)
  have "r = Inr ()"
  proof -
    have "fst (run_state (run_connected_session 30 demo_config Continuous) (demo_conn plain_wire [] WorkerBusy)) = Inr ()"
      by code_simp
    with run show ?thesis by simp
  qed
  with session_balances_turns [OF lt run] zero run show ?thesis by simp
qed

text \<open>
  When a command ends with events to report, its worker thread has been joined: \<open>codex
  exec\<close> and a turn of the app-server alike, also when the turn was stopped because the control
  plane rejected an interaction.
\<close>
theorem finished_command_joined_worker:
  "(fst (run_state (wait_for_codex_exec_events fuel c prompt) w) = Inr events \<longrightarrow>
      logged AJoinWorker w (snd (run_state (wait_for_codex_exec_events fuel c prompt) w)))
   \<and> (fst (run_state (wait_for_app_server_command_events fuel c session_id cwd command_id prompt) w) = Inr events \<longrightarrow>
      logged AJoinWorker w
        (snd (run_state (wait_for_app_server_command_events fuel c session_id cwd command_id prompt) w)))"
proof (intro conjI impI)
  define pre where "pre = (do { klog (AStartCodex prompt); set_socket_read_timeout connector_read_tick })"
  have "cf.keeps pre" unfolding pre_def by (intro cf_rules conn_frames)
  obtain a w1 where w1: "run_state pre w = (a, w1)" by (cases "run_state pre w")
  assume finished: "fst (run_state (wait_for_codex_exec_events fuel c prompt) w) = Inr events"
  then obtain w' where run: "run_state (wait_for_codex_exec_events fuel c prompt) w = (Inr events, w')"
    by (metis prod.collapse)
  with w1 have "run_state (codex_rounds fuel c) w1 = (Inr events, w')"
    by (auto simp: wait_for_codex_exec_events_def pre_def split: sum.splits prod.splits)
  from logged_after [OF cf.keepsE [OF \<open>cf.keeps pre\<close> w1] codex_rounds_joined [OF this]] run
  show "logged AJoinWorker w (snd (run_state (wait_for_codex_exec_events fuel c prompt) w))" by simp
next
  let ?m = "wait_for_app_server_command_events fuel c session_id cwd command_id prompt"
  define pre where "pre = (do { t \<leftarrow> know; tryE (instant_add t connector_read_tick) (\<lambda>next_at.
      do { klog (AStartAppServerCommand session_id cwd command_id prompt);
           tryE (set_socket_read_timeout connector_read_tick) (\<lambda>_. ok next_at) }) })"
  have "cf.keeps pre" unfolding pre_def by (intro cf_rules conn_frames)
  obtain a w1 where w1: "run_state pre w = (a, w1)" by (cases "run_state pre w")
  assume finished: "fst (run_state ?m w) = Inr events"
  then obtain w' where run: "run_state ?m w = (Inr events, w')" by (metis prod.collapse)
  with w1 have "\<exists>next_at command. run_state (turn_rounds fuel fuel command c next_at) w1 = (Inr events, w')"
    by (auto simp: wait_for_app_server_command_events_def pre_def split: sum.splits prod.splits)
  then obtain next_at command where "run_state (turn_rounds fuel fuel command c next_at) w1 = (Inr events, w')" by blast
  from logged_after [OF cf.keepsE [OF \<open>cf.keeps pre\<close> w1] turn_rounds_joined [OF this]] run
  show "logged AJoinWorker w (snd (run_state ?m w))" by simp
qed


theorem finished_command_joined_worker_witness:
  "logged AJoinWorker (demo_conn plain_wire [] (WorkerDone []))
     (snd (run_state (wait_for_codex_exec_events 1 demo_config ''hi'') (demo_conn plain_wire [] (WorkerDone []))))"
proof -
  have "fst (run_state (wait_for_codex_exec_events 1 demo_config ''hi'') (demo_conn plain_wire [] (WorkerDone [])))
      = Inr []" by code_simp
  with finished_command_joined_worker [of 1 demo_config "''hi''" "demo_conn plain_wire [] (WorkerDone [])" "[]"]
  show ?thesis by blast
qed



text \<open>
  A report of the app-server instance that is due goes out as one text: the instance as the
  manager gives it, a fresh report id, and marked as a snapshot when one was asked for or when
  the last report for the same state was a snapshot the control plane has not acknowledged, so
  that an unacknowledged snapshot is repeated as a snapshot. What was sent is remembered under
  that id as not acknowledged.
\<close>
theorem instance_report_sent:
  fixes snapshot :: bool
  assumes exact: "exact_text (k_wire w)"
    and inst: "run_state (instance_snapshot c) (k_mgr w) = (Some i, m')"
    and send: "k_send w (k_tick w + 1) = None"
  defines "key \<equiv> js_print (k_wire w) (jobj [(''kind'', JStr ''agent.app_server_instances''),
                     (''payload'', jobj [(''instances'', JArr [instance_json i])])])"
    and "as_snapshot \<equiv> snapshot \<or> has_unacked_snapshot_for_key (k_insts w)
           (js_print (k_wire w) (jobj [(''kind'', JStr ''agent.app_server_instances''),
              (''payload'', jobj [(''instances'', JArr [instance_json i])])]))"
    and "report_id \<equiv> fst (next_report_id (k_insts w))"
  shows "\<exists>w'. run_state (send_app_server_instances c True snapshot) w = (Inr (), w')
    \<and> k_log w' = k_log w @ [ASend (TextFrame (js_print (k_wire w) (jobj
          [(''kind'', JStr ''agent.app_server_instances''),
           (''payload'', jobj [(''snapshot'', JBool as_snapshot), (''instances'', JArr [instance_json i]),
                               (''report_id'', JStr report_id)])]))) None]
    \<and> as_last_sent_id (k_insts w') = Some report_id \<and> as_last_sent_key (k_insts w') = Some key
    \<and> as_last_sent_snapshot (k_insts w') = as_snapshot \<and> as_last_acked_id (k_insts w') = None"
proof -
  let ?key = "js_print (k_wire w) (jobj [(''kind'', JStr ''agent.app_server_instances''),
                     (''payload'', jobj [(''instances'', JArr [instance_json i])])])"
  have due: "should_send_app_server_instances k st True t" for k st t
    by (simp add: should_send_app_server_instances_def)
  note exacts = instances_key [OF exact] instances_with_snapshot [OF exact] instances_with_report_id [OF exact]
    no_floats_instance
  show ?thesis
    using inst send
    by (cases "\<not> snapshot \<and> has_unacked_snapshot_for_key (k_insts w) ?key")
      (auto simp: send_app_server_instances_def app_server_instances_message_def exacts due know_def
        transmit_instances_def next_report_id_def Let_def send_frame_def
        record_app_server_instances_sent_def key_def as_snapshot_def report_id_def)
qed

theorem instance_report_sent_witness:
  "\<exists>w'. run_state (send_app_server_instances demo_config True True) (demo_conn demo_wire [] WorkerBusy) = (Inr (), w')
    \<and> as_last_sent_id (k_insts w') = Some ''app-server-report-1''"
proof -
  let ?w = "demo_conn demo_wire [] WorkerBusy"
  have exact: "exact_text (k_wire ?w)"
    by (simp add: exact_text_def conn_demo_defs demo_round_trip)
  obtain i m' where i: "run_state (instance_snapshot demo_config) (k_mgr ?w) = (Some i, m')"
    by (simp add: instance_snapshot_def demo_conn_def demo_defs Let_def)
  have "k_send ?w (k_tick ?w + 1) = None" "k_insts ?w = app_server_instances_default"
    by (simp_all add: demo_conn_def)
  moreover have "fst (next_report_id app_server_instances_default) = ''app-server-report-1''" by code_simp
  ultimately show ?thesis
    using instance_report_sent [OF exact i, of True] by auto
qed

text \<open>
  C31: Reports are told apart. However sends, failed sends and acknowledgements interleave, the
  ids of the reports sent are different from each other (as long as the 64-bit counter lasts),
  an acknowledgement that names the id of an earlier report changes nothing, and what counts as
  acknowledged is the report sent last.
\<close>
theorem stale_acknowledgements_are_ignored:
  assumes "report_reach (st, ids)" and "as_next_report_id st < u64_max"
  shows "distinct ids
    \<and> (\<forall>i \<in> set ids. i \<noteq> last ids \<longrightarrow> acknowledge_app_server_instances st (Some i) = st)
    \<and> (as_last_acked_key st \<noteq> None \<longrightarrow>
         as_last_acked_id st = Some (last ids) \<and> as_last_acked_key st = as_last_sent_key st)"
proof -
  from report_reach_inv [OF assms(1)] have inv: "report_inv st ids" by simp
  then have "acknowledge_app_server_instances st (Some i) = st" if "i \<in> set ids" "i \<noteq> last ids" for i
    using that by (auto simp: report_inv_def acknowledge_app_server_instances_def)
  with inv assms(2) show ?thesis
    by (cases "ids = []") (auto simp: report_inv_def)
qed

theorem stale_acknowledgements_are_ignored_witness:
  "\<exists>st. acknowledge_app_server_instances st (Some ''app-server-report-1'') = st
     \<and> as_last_sent_id st = Some ''app-server-report-2''"
proof -
  let ?s0 = "app_server_instances_default"
  let ?s1 = "record_app_server_instances_sent (snd (next_report_id ?s0)) ''m'' (fst (next_report_id ?s0)) ''k'' True 5"
  let ?s2 = "record_app_server_instances_sent (snd (next_report_id ?s1)) ''n'' (fst (next_report_id ?s1)) ''k'' True 6"
  have "report_step (?s0, []) (?s1, [] @ [fst (next_report_id ?s0)])"
    "report_step (?s1, [] @ [fst (next_report_id ?s0)])
       (?s2, ([] @ [fst (next_report_id ?s0)]) @ [fst (next_report_id ?s1)])"
    by (rule report_sent, simp)+
  then have reach: "report_reach (?s2, ([] @ [fst (next_report_id ?s0)]) @ [fst (next_report_id ?s1)])"
    by (blast intro: report_next report_start)
  have ids: "([] @ [fst (next_report_id ?s0)]) @ [fst (next_report_id ?s1)]
      = [''app-server-report-1'', ''app-server-report-2'']"
    "as_next_report_id ?s2 < u64_max" "as_last_sent_id ?s2 = Some ''app-server-report-2''"
    by code_simp+
  from stale_acknowledgements_are_ignored [OF reach ids(2)] ids show ?thesis by auto
qed

text \<open>
  When the control plane echoes the capabilities in its acknowledgement, the connector
  rebuilds exactly the message it sent and does not send it again of its own accord, at any
  later time; an echo that makes another message leaves the capabilities due at once.
\<close>
theorem echoed_capabilities_settle:
  "\<exists>message. agent_ready_ack_message sd \<lparr> en_kind = ''server.ack'', en_payload =
       jobj [(''kind'', JStr ''agent.ready''), (''capabilities'', JArr (map JStr echoed))] \<rparr> = Some message
    \<and> (\<forall>t'. should_send_agent_ready (agent_ready_message sd caps)
             (acknowledge_agent_ready (snd (record_agent_ready_sent st (agent_ready_message sd caps) t)) message)
             False t'
           \<longleftrightarrow> agent_ready_message sd echoed \<noteq> agent_ready_message sd caps)"
proof -
  have "List.map_filter as_str (map JStr xs) = xs" for xs
    by (induction xs) (simp_all add: map_filter_def)
  then have "agent_ready_ack_message sd \<lparr> en_kind = ''server.ack'', en_payload =
       jobj [(''kind'', JStr ''agent.ready''), (''capabilities'', JArr (map JStr echoed))] \<rparr>
      = Some (agent_ready_message sd echoed)"
    by (simp add: agent_ready_ack_message_def acks_def jget_str_def jget_array_def)
  then show ?thesis
    by (auto simp: should_send_agent_ready_def acknowledge_agent_ready_def sent_within_def)
qed

end
