(* ===== verification/Inventory_Text.thy ===== *)
theory Inventory_Text
  imports Agent_Config Session_Types
begin

text \<open>
  The text functions of \<open>session_inventory.rs\<close>: titles and their fallbacks, compacted event
  text, timestamps from Unix seconds, the FNV hash of idempotency keys, the context that is cut
  off injected prompts, and what is read from a rollout record.
\<close>

subsection \<open>Titles and summaries\<close>

definition compact_title :: "string option \<Rightarrow> string option" where
  "compact_title v =
     do { s \<leftarrow> v; let c = compact_ws s; (if c = [] then None else Some (ellipsis 96 c)) }"

definition compact_event_text :: "string option \<Rightarrow> string option" where
  "compact_event_text v =
     do { s \<leftarrow> v; let c = compact_ws s; (if c = [] then None else Some (ellipsis 260 c)) }"

definition compact_command_summary :: "string \<Rightarrow> nat \<Rightarrow> string option" where
  "compact_command_summary v max_chars =
     (let c = compact_ws v in if c = [] then None else Some (ellipsis max_chars c))"

definition or_else :: "'a option \<Rightarrow> 'a option \<Rightarrow> 'a option" where
  "or_else a b = (case a of Some x \<Rightarrow> Some x | None \<Rightarrow> b)"

definition first_non_empty :: "string option \<Rightarrow> string option \<Rightarrow> string option" where
  "first_non_empty a b = or_else (compact_title a) (compact_title b)"

definition first_non_empty_raw :: "string option \<Rightarrow> string option \<Rightarrow> string option" where
  "first_non_empty_raw a b = or_else (filter_nonblank a) (filter_nonblank b)"

definition max_string :: "string option \<Rightarrow> string option \<Rightarrow> string option" where
  "max_string a b =
     (case (a, b) of
        (Some x, Some y) \<Rightarrow> Some (if y < x then x else y)
      | (Some x, None) \<Rightarrow> Some x
      | (None, y) \<Rightarrow> y)"

definition metadata_title :: "json \<Rightarrow> string option" where
  "metadata_title payload =
     Option.bind (find_map (jget_str payload) [''title'', ''name'', ''thread_name''])
       (\<lambda>s. compact_title (Some s))"

definition short_session_id :: "string \<Rightarrow> string" where
  "short_session_id s = chars_take 8 s"

text \<open>Of a draft, the fallback title reads the session and its directory.\<close>

definition fallback_title :: "string \<Rightarrow> string option \<Rightarrow> string" where
  "fallback_title session_id cwd =
     (case Option.bind cwd path_file_name of
        Some name \<Rightarrow> name @ '' ('' @ short_session_id session_id @ '')''
      | None \<Rightarrow> ''Codex session '' @ short_session_id session_id)"

subsection \<open>Time\<close>

definition tdiv :: "int \<Rightarrow> int \<Rightarrow> int" where
  "tdiv a b = (if a < 0 then - ((- a) div b) else a div b)"

definition civil_from_days :: "int \<Rightarrow> int \<times> int \<times> int" where
  "civil_from_days days =
     (let shifted = days + 719468;
          era = tdiv (if 0 \<le> shifted then shifted else shifted - 146096) 146097;
          doe = shifted - era * 146097;
          yoe = (doe - doe div 1460 + doe div 36524 - doe div 146096) div 365;
          year = yoe + era * 400;
          doy = doe - (365 * yoe + yoe div 4 - yoe div 100);
          mp = (5 * doy + 2) div 153;
          day = doy - (153 * mp + 2) div 5 + 1;
          month = mp + (if mp < 10 then 3 else -9)
      in (if month \<le> 2 then year + 1 else year, month, day))"

definition unix_timestamp_to_iso :: "int \<Rightarrow> nat \<Rightarrow> string option" where
  "unix_timestamp_to_iso seconds ms =
     (if seconds < 0 then None
      else (let sod = seconds mod 86400
            in case civil_from_days (seconds div 86400) of (year, month, day) \<Rightarrow>
              Some (zero_pad 4 (show_int year) @ ''-'' @ zero_pad 2 (show_int month) @ ''-''
                    @ zero_pad 2 (show_int day) @ ''T'' @ zero_pad 2 (show_int (sod div 3600)) @ '':''
                    @ zero_pad 2 (show_int ((sod mod 3600) div 60)) @ '':''
                    @ zero_pad 2 (show_int (sod mod 60)) @ ''.'' @ zero_pad 3 (show_nat ms) @ ''Z'')))"

definition unix_seconds_to_iso :: "int \<Rightarrow> string option" where
  "unix_seconds_to_iso seconds = unix_timestamp_to_iso seconds 0"

definition unknown_backfill_created_at :: string where
  "unknown_backfill_created_at = ''1970-01-01T00:00:00.000Z''"

definition value_to_unix_seconds :: "json \<Rightarrow> int option" where
  "value_to_unix_seconds v =
     or_else (as_i64 v)
       (or_else (Option.bind (as_u64 v) (\<lambda>n. if int n \<le> i64_max then Some (int n) else None))
          (map_option (\<lambda>q. max i64_min (min i64_max (floor q))) (as_f64 v)))"

definition app_server_thread_timestamp :: "json \<Rightarrow> string option" where
  "app_server_thread_timestamp thread =
     Option.bind (find_map (\<lambda>k. Option.bind (jget thread k) value_to_unix_seconds) [''updatedAt'', ''createdAt''])
       unix_seconds_to_iso"

definition compact_timestamp :: "string \<Rightarrow> string" where
  "compact_timestamp t =
     chars_take 16 (replace_char (CHR ''T'') (CHR '' '') (case strip_suffix ''Z'' t of Some s \<Rightarrow> s | None \<Rightarrow> t))"

subsection \<open>The hash\<close>

definition fnv_step :: "32 word \<Rightarrow> char \<Rightarrow> 32 word" where
  "fnv_step h c = (xor h (word_of_nat (of_char c))) * 0x01000193"

definition stable_hash :: "string \<Rightarrow> string" where
  "stable_hash s = zero_pad 8 (show_hex (unat (foldl fnv_step 0x811c9dc5 s)))"

subsection \<open>Limits\<close>

definition rollout_scan_limit :: "nat \<Rightarrow> nat" where
  "rollout_scan_limit n = clamp 50 500 (sat_mul u64_max n 3)"
definition metadata_scan_limit :: "nat \<Rightarrow> nat" where
  "metadata_scan_limit n = clamp 50 1000 (sat_mul u64_max n 5)"
definition rollout_backfill_line_scan_limit :: "nat \<Rightarrow> nat" where
  "rollout_backfill_line_scan_limit n = clamp 200 2000 (sat_mul u64_max n 20)"

subsection \<open>Injected context\<close>

definition looks_like_injected_context :: "string \<Rightarrow> bool" where
  "looks_like_injected_context text =
     (let t = trim_start text
      in list_ex (\<lambda>p. starts_with p t)
           [''# AGENTS.md instructions'', ''<environment_context>'', ''<permissions instructions>'',
            ''<apps_instructions>'', ''<skills_instructions>'', ''<plugins_instructions>'', ''<developer''])"

definition context_markers :: "string list" where
  "context_markers =
     [''</INSTRUCTIONS>'', ''</environment_context>'', ''</permissions instructions>'',
      ''</collaboration_mode>'', ''</apps_instructions>'', ''</skills_instructions>'',
      ''</plugins_instructions>'', ''</developer>'']"

definition latest_marker_end :: "string \<Rightarrow> nat option" where
  "latest_marker_end text =
     fold (\<lambda>m latest.
             (case rfind_sub m text of
                None \<Rightarrow> latest
              | Some i \<Rightarrow> Some (case latest of None \<Rightarrow> i + length m | Some e \<Rightarrow> max e (i + length m))))
       context_markers None"

text \<open>\<open>str::get\<close> succeeds here: a marker ends in \<open>>\<close>, so its end is a character boundary.\<close>

definition strip_injected_context_prefix :: "string \<Rightarrow> string option" where
  "strip_injected_context_prefix text =
     (let t = trim text
      in if \<not> looks_like_injected_context t then Some t
         else do { e \<leftarrow> latest_marker_end t;
                   (let remainder = trim (drop e t)
                    in if remainder = [] then None else Some remainder) })"

subsection \<open>Rollout records\<close>

definition message_part_text :: "string \<Rightarrow> json \<Rightarrow> string option" where
  "message_part_text role part =
     Option.bind
       (case or_else (jget_str part ''text'') (jget_str part ''input'') of
          None \<Rightarrow> None
        | Some v \<Rightarrow> (if role = ''user'' then strip_injected_context_prefix v else Some (trim v)))
       (\<lambda>t. compact_event_text (Some t))"

definition message_text :: "json \<Rightarrow> string \<Rightarrow> string option" where
  "message_text item role =
     do { content \<leftarrow> jget_array item ''content'';
          let parts = List.map_filter (message_part_text role) content;
          (if parts = [] then None else Some (join_sep '' '' parts)) }"

definition backfill_summary :: "string \<Rightarrow> json \<Rightarrow> string \<Rightarrow> string option" where
  "backfill_summary timestamp item item_type =
     (if item_type = ''message''
      then do { role \<leftarrow> jget_str item ''role'';
                (if role \<noteq> ''user'' \<and> role \<noteq> ''assistant'' then None
                 else do { text \<leftarrow> message_text item role;
                           Some (compact_timestamp timestamp @ '' - ''
                             @ (if role = ''user'' then ''User'' else ''Assistant'') @ '': '' @ text) }) }
      else if item_type = ''function_call''
      then Some (compact_timestamp timestamp @ '' - Tool call: ''
                   @ (case jget_str item ''name'' of Some n \<Rightarrow> n | None \<Rightarrow> ''tool''))
      else None)"

definition backfill_event_from_rollout_record ::
  "string \<Rightarrow> json \<Rightarrow> string \<Rightarrow> agent_backfill_event option" where
  "backfill_event_from_rollout_record session_id v record_hash =
     (if jget_str v ''type'' \<noteq> Some ''response_item'' then None
      else (let created_at = jget_str v ''timestamp'';
                timestamp = (case created_at of Some t \<Rightarrow> t | None \<Rightarrow> ''unknown time'')
            in do { item \<leftarrow> jget v ''payload'';
                    item_type \<leftarrow> jget_str item ''type'';
                    summary \<leftarrow> backfill_summary timestamp item item_type;
                    Some \<lparr> be_kind = ''command.output'', be_priority = ''P3'', be_summary = summary,
                           be_idempotency_key = ''rollout:'' @ session_id @ '':'' @ timestamp @ '':''
                             @ item_type @ '':'' @ record_hash,
                           be_created_at = (case created_at of Some t \<Rightarrow> t
                             | None \<Rightarrow> unknown_backfill_created_at) \<rparr> }))"

subsection \<open>Lemmas\<close>

lemma compact_title_Some: "compact_title v = Some t \<Longrightarrow> t \<noteq> [] \<and> chars_count t \<le> 99"
proof -
  assume "compact_title v = Some t"
  then obtain s where s: "compact_ws s \<noteq> []" "t = ellipsis 96 (compact_ws s)"
    by (auto simp: compact_title_def bind_eq_Some_conv Let_def split: if_splits)
  with chars_count_ellipsis [of 96 "compact_ws s"] have "chars_count t \<le> 99" by simp
  moreover have "t \<noteq> []" using s by (auto simp: ellipsis_def)
  ultimately show ?thesis by simp
qed

lemma max_string_None [simp]: "max_string None b = b" "max_string a None = a"
  by (cases a; cases b; simp add: max_string_def)+

lemma max_string_Some: "max_string (Some x) (Some y) = Some (if x \<le> y then y else x)"
  by (cases "x \<le> y") (auto simp: max_string_def not_le)

lemma latest_marker_end_bound: "latest_marker_end t = Some e \<Longrightarrow> e \<le> length t"
proof -
  have "(\<forall>e. latest = Some e \<longrightarrow> e \<le> length t) \<Longrightarrow>
      fold (\<lambda>m latest.
             (case rfind_sub m t of
                None \<Rightarrow> latest
              | Some i \<Rightarrow> Some (case latest of None \<Rightarrow> i + length m | Some e \<Rightarrow> max e (i + length m))))
        ms latest = Some e \<Longrightarrow> e \<le> length t" for ms latest
  proof (induction ms arbitrary: latest)
    case (Cons m ms)
    show ?case
    proof (cases "rfind_sub m t")
      case None
      with Cons show ?thesis by simp
    next
      case (Some i)
      then have "i + length m \<le> length t" by (rule rfind_sub_bound)
      with Cons.prems Some show ?thesis
        by (intro Cons.IH [of "Some (case latest of None \<Rightarrow> i + length m | Some e \<Rightarrow> max e (i + length m))"])
          (auto split: option.splits)
    qed
  qed simp
  then show "latest_marker_end t = Some e \<Longrightarrow> e \<le> length t"
    unfolding latest_marker_end_def by blast
qed

end
