(* ===== verification/Inventory.thy ===== *)
theory Inventory
  imports Inventory_Text "HOL-Library.Option_ord" "HOL-Library.Product_Lexorder"
begin

text \<open>
  The session inventory of \<open>session_inventory.rs\<close>: the files under the Codex home directory
  (the session index, the history, the rollouts), the drafts collected from them, the report of
  the host's sessions and the backfill of one session. The file system is the record \<open>disk\<close>,
  an oracle that does not change during a call; an I/O error is its message. The readers of one
  line that \<open>serde\<close> derives are fields of it too. A \<open>HashMap\<close> is an association list with
  distinct keys: what is built from one is sorted before it is returned.
\<close>

subsection \<open>Data\<close>

record session_draft =
  dr_session_id :: string
  dr_metadata_title :: "string option"
  dr_app_server_present :: bool
  dr_cwd :: "string option"
  dr_updated_at :: "string option"

record session_index_line =
  il_id :: string
  il_thread_name :: "string option"
  il_updated_at :: "string option"

record history_line =
  hl_session_id :: string
  hl_text :: "string option"
  hl_ts :: "int option"

record history_session =
  hist_title :: string
  hist_updated_at :: "string option"

record app_server_session =
  ass_name :: "string option"
  ass_cwd :: "string option"
  ass_updated_at :: "string option"

record app_server_session_inventory =
  asi_sessions :: "(string \<times> app_server_session) list"
  asi_truncated :: bool

record disk =
  dk_exists :: "string \<Rightarrow> bool"
  dk_is_dir :: "string \<Rightarrow> bool"
  dk_is_file :: "string \<Rightarrow> bool"
  dk_read :: "string \<Rightarrow> string + string"
  dk_read_dir :: "string \<Rightarrow> string + (string + string) list"
  dk_mtime :: "string \<Rightarrow> int option"
  dk_json :: "string \<Rightarrow> json option"
  dk_index_line :: "string \<Rightarrow> session_index_line option"
  dk_history_line :: "string \<Rightarrow> history_line option"
  dk_default_codex_home :: string

type_synonym drafts = "(string \<times> session_draft) list"

definition new_draft :: "string \<Rightarrow> session_draft" where
  "new_draft session_id = \<lparr> dr_session_id = session_id, dr_metadata_title = None,
     dr_app_server_present = False, dr_cwd = None, dr_updated_at = None \<rparr>"

definition draft_entry :: "string \<Rightarrow> (session_draft \<Rightarrow> session_draft) \<Rightarrow> drafts \<Rightarrow> drafts" where
  "draft_entry session_id f ds = entry_update session_id (new_draft session_id) f ds"

text \<open>\<open>?\<close> outside the effectful code.\<close>

definition tryR :: "'e + 'a \<Rightarrow> ('a \<Rightarrow> 'e + 'b) \<Rightarrow> 'e + 'b" where
  "tryR r f = (case r of Inl e \<Rightarrow> Inl e | Inr x \<Rightarrow> f x)"

lemma tryR_simps [simp]: "tryR (Inl e) f = Inl e" "tryR (Inr x) f = f x"
  by (simp_all add: tryR_def)

lemma tryR_Inr: "tryR r f = Inr y \<longleftrightarrow> (\<exists>x. r = Inr x \<and> f x = Inr y)"
  by (cases r) simp_all

subsection \<open>Paths\<close>

text \<open>\<open>Path\<close> is ordered by its components.\<close>

definition path_le :: "string \<Rightarrow> string \<Rightarrow> bool" where
  "path_le p q \<longleftrightarrow> path_components p \<le> path_components q"

definition file_name_str :: "string \<Rightarrow> string option" where
  "file_name_str p =
     (case path_file_name p of Some n \<Rightarrow> (if utf8_valid n then Some n else None) | None \<Rightarrow> None)"

definition is_rollout_name :: "string \<Rightarrow> bool" where
  "is_rollout_name p =
     (case file_name_str p of Some n \<Rightarrow> starts_with ''rollout-'' n \<and> ends_with ''.jsonl'' n | None \<Rightarrow> False)"

subsection \<open>The last lines of a file\<close>

definition chunk_size :: nat where "chunk_size = 8192"

function read_backwards :: "string \<Rightarrow> nat \<Rightarrow> nat \<Rightarrow> nat \<Rightarrow> string \<Rightarrow> string" where
  "read_backwards content limit position newline_count bytes =
     (if 0 < position \<and> newline_count \<le> limit
      then (let read_len = min position chunk_size;
                position' = position - read_len;
                chunk = take read_len (drop position' content)
            in read_backwards content limit position' (newline_count + count_list chunk nl) (chunk @ bytes))
      else bytes)"
  by pat_completeness auto
termination
  by (relation "measure (\<lambda>(content, limit, position, newline_count, bytes). position)")
    (auto simp: chunk_size_def)

declare read_backwards.simps [simp del]

definition recent_lines :: "string \<Rightarrow> nat \<Rightarrow> string list" where
  "recent_lines content limit =
     last_n limit (str_lines (utf8_lossy (read_backwards content limit (length content) 0 [])))"

definition read_recent_lines :: "disk \<Rightarrow> string \<Rightarrow> nat \<Rightarrow> string + string list" where
  "read_recent_lines d path limit =
     (if limit = 0 then Inr []
      else tryR (dk_read d path) (\<lambda>content. Inr (recent_lines content limit)))"

text \<open>\<open>BufReader::new(file).lines().take(80)\<close>: a line that is not UTF-8 is an error.\<close>

definition invalid_utf8 :: string where "invalid_utf8 = ''stream did not contain valid UTF-8''"

definition buf_lines :: "string \<Rightarrow> (string + string) list" where
  "buf_lines content =
     map (\<lambda>l. if utf8_valid l then Inr (strip_line_ending l) else Inl invalid_utf8) (split_inclusive content)"

definition head_lines :: "disk \<Rightarrow> string \<Rightarrow> string + (string + string) list" where
  "head_lines d path = tryR (dk_read d path) (\<lambda>content. Inr (take 80 (buf_lines content)))"

fun fold_lines :: "('a \<Rightarrow> string \<Rightarrow> 'a) \<Rightarrow> (string + string) list \<Rightarrow> 'a \<Rightarrow> string + 'a" where
  "fold_lines f [] acc = Inr acc"
| "fold_lines f (Inl e # ls) acc = Inl e"
| "fold_lines f (Inr l # ls) acc = fold_lines f ls (f acc l)"


subsection \<open>Rollout files\<close>

definition sorted_numeric_dirs :: "disk \<Rightarrow> string \<Rightarrow> bool \<Rightarrow> string + string list" where
  "sorted_numeric_dirs d rt ascending =
     tryR (dk_read_dir d rt) (\<lambda>entries.
     tryR (fold_lines (\<lambda>dirs p.
         (if dk_is_dir d p \<and> (case file_name_str p of Some n \<Rightarrow> list_all is_ascii_digit n | None \<Rightarrow> False)
          then dirs @ [p] else dirs)) entries []) (\<lambda>dirs.
     Inr (if ascending then sort_by path_le dirs else sort_by (\<lambda>l r. path_le r l) dirs)))"

fun for_dirs :: "(string \<Rightarrow> 'a \<Rightarrow> string + 'a) \<Rightarrow> string list \<Rightarrow> 'a \<Rightarrow> string + 'a" where
  "for_dirs f [] acc = Inr acc"
| "for_dirs f (p # ps) acc = tryR (f p acc) (for_dirs f ps)"

definition dated_session_dirs :: "disk \<Rightarrow> string \<Rightarrow> string + string list" where
  "dated_session_dirs d rt =
     tryR (sorted_numeric_dirs d rt False) (\<lambda>years.
     tryR (for_dirs (\<lambda>year day_dirs.
         tryR (sorted_numeric_dirs d year False) (\<lambda>months.
         for_dirs (\<lambda>month day_dirs.
           tryR (sorted_numeric_dirs d month False) (\<lambda>days. Inr (day_dirs @ days))) months day_dirs))
       years []) (\<lambda>day_dirs.
     Inr (sort_by (\<lambda>l r. path_le r l) day_dirs)))"

definition mtime_desc :: "disk \<Rightarrow> string \<Rightarrow> string \<Rightarrow> bool" where
  "mtime_desc d l r \<longleftrightarrow> (dk_mtime d r, path_components r) \<le> (dk_mtime d l, path_components l)"

definition sort_paths_by_mtime_desc :: "disk \<Rightarrow> string list \<Rightarrow> string list" where
  "sort_paths_by_mtime_desc d paths = sort_by (mtime_desc d) paths"

definition rollout_files_in_dir :: "disk \<Rightarrow> string \<Rightarrow> string + string list" where
  "rollout_files_in_dir d rt =
     tryR (dk_read_dir d rt) (\<lambda>entries.
     tryR (fold_lines (\<lambda>paths p. if dk_is_file d p \<and> is_rollout_name p then paths @ [p] else paths)
             entries []) (\<lambda>paths.
     Inr (sort_paths_by_mtime_desc d paths)))"

text \<open>The walk below a directory that is not laid out by date; the fuel is the depth it may reach.\<close>

fun collect_rollout_paths ::
    "nat \<Rightarrow> disk \<Rightarrow> string \<Rightarrow> string list \<Rightarrow> nat \<Rightarrow> (string + string list) option"
  and collect_entries ::
    "nat \<Rightarrow> disk \<Rightarrow> (string + string) list \<Rightarrow> string list \<Rightarrow> nat \<Rightarrow> (string + string list) option" where
  "collect_rollout_paths 0 d path paths limit = None"
| "collect_rollout_paths (Suc n) d path paths limit =
     (if limit \<le> length paths then Some (Inr paths)
      else (case dk_read_dir d path of
              Inl e \<Rightarrow> Some (Inl e)
            | Inr entries \<Rightarrow> collect_entries n d entries paths limit))"
| "collect_entries n d [] paths limit = Some (Inr paths)"
| "collect_entries n d (Inl e # es) paths limit = Some (Inl e)"
| "collect_entries n d (Inr p # es) paths limit =
     (if dk_is_dir d p
      then (case collect_rollout_paths n d p paths limit of
              None \<Rightarrow> None
            | Some (Inl e) \<Rightarrow> Some (Inl e)
            | Some (Inr paths') \<Rightarrow> collect_entries n d es paths' limit)
      else if is_rollout_name p
      then (if limit \<le> length (paths @ [p]) then Some (Inr (paths @ [p]))
            else collect_entries n d es (paths @ [p]) limit)
      else collect_entries n d es paths limit)"

fun take_day_files :: "disk \<Rightarrow> string list \<Rightarrow> string list \<Rightarrow> nat \<Rightarrow> string + string list" where
  "take_day_files d [] paths limit = Inr paths"
| "take_day_files d (day # days) paths limit =
     tryR (rollout_files_in_dir d day) (\<lambda>files.
       (if limit \<le> length (paths @ files) then Inr (paths @ files)
        else take_day_files d days (paths @ files) limit))"

definition rollout_paths :: "nat \<Rightarrow> disk \<Rightarrow> string \<Rightarrow> nat \<Rightarrow> (string + string list) option" where
  "rollout_paths fuel d rt limit0 =
     (let limit = max limit0 1
      in case dated_session_dirs d rt of
           Inl e \<Rightarrow> Some (Inl e)
         | Inr day_dirs \<Rightarrow>
             map_option (\<lambda>r. tryR r (\<lambda>paths. Inr (take limit (sort_paths_by_mtime_desc d paths))))
               (if day_dirs \<noteq> [] then Some (take_day_files d day_dirs [] limit)
                else collect_rollout_paths fuel d rt [] limit))"

subsection \<open>Reading a rollout\<close>

record rollout_meta =
  rm_session_id :: "string option"
  rm_cwd :: "string option"
  rm_title :: "string option"
  rm_updated_at :: "string option"

definition rollout_meta_line :: "disk \<Rightarrow> rollout_meta \<Rightarrow> string \<Rightarrow> rollout_meta" where
  "rollout_meta_line d m line =
     (case dk_json d line of
        None \<Rightarrow> m
      | Some v \<Rightarrow>
          (let m = m\<lparr>rm_updated_at := max_string (jget_str v ''timestamp'') (rm_updated_at m)\<rparr>
           in if jget_str v ''type'' = Some ''session_meta''
              then (case jget v ''payload'' of
                      None \<Rightarrow> m
                    | Some p \<Rightarrow> m\<lparr>rm_session_id := or_else (jget_str p ''id'') (rm_session_id m),
                                  rm_cwd := or_else (jget_str p ''cwd'') (rm_cwd m),
                                  rm_title := or_else (metadata_title p) (rm_title m)\<rparr>)
              else if jget_str v ''type'' = Some ''turn_context''
              then (case jget v ''payload'' of
                      None \<Rightarrow> m
                    | Some p \<Rightarrow> m\<lparr>rm_cwd := or_else (jget_str p ''cwd'') (rm_cwd m)\<rparr>)
              else m))"

definition read_rollout_metadata :: "disk \<Rightarrow> string \<Rightarrow> drafts \<Rightarrow> string + drafts" where
  "read_rollout_metadata d path ds =
     tryR (head_lines d path) (\<lambda>ls.
     tryR (fold_lines (rollout_meta_line d) ls
             \<lparr> rm_session_id = None, rm_cwd = None, rm_title = None, rm_updated_at = None \<rparr>) (\<lambda>m.
     Inr (case rm_session_id m of
            None \<Rightarrow> ds
          | Some session_id \<Rightarrow>
              draft_entry session_id (\<lambda>dr. dr\<lparr>
                 dr_cwd := first_non_empty_raw (rm_cwd m) (dr_cwd dr),
                 dr_metadata_title := first_non_empty (rm_title m) (dr_metadata_title dr),
                 dr_updated_at := max_string (rm_updated_at m) (dr_updated_at dr)\<rparr>) ds)))"

definition is_session_meta_of :: "disk \<Rightarrow> string \<Rightarrow> string \<Rightarrow> bool" where
  "is_session_meta_of d session_id line =
     (case dk_json d line of
        None \<Rightarrow> False
      | Some v \<Rightarrow> jget_str v ''type'' = Some ''session_meta''
          \<and> Option.bind (jget2 v ''payload'' ''id'') as_str = Some session_id)"

fun scan_lines :: "(string \<Rightarrow> bool) \<Rightarrow> (string + string) list \<Rightarrow> string + bool" where
  "scan_lines P [] = Inr False"
| "scan_lines P (Inl e # ls) = Inl e"
| "scan_lines P (Inr l # ls) = (if P l then Inr True else scan_lines P ls)"

definition rollout_path_has_session_id :: "disk \<Rightarrow> string \<Rightarrow> string \<Rightarrow> string + bool" where
  "rollout_path_has_session_id d path session_id =
     tryR (head_lines d path) (scan_lines (is_session_meta_of d session_id))"

definition resume_cwd_line :: "disk \<Rightarrow> string \<Rightarrow> bool \<times> string option \<Rightarrow> string \<Rightarrow> bool \<times> string option" where
  "resume_cwd_line d session_id acc line =
     (case acc of (matched, cwd) \<Rightarrow>
        (case dk_json d line of
           None \<Rightarrow> acc
         | Some v \<Rightarrow>
             (case jget v ''payload'' of
                None \<Rightarrow> acc
              | Some p \<Rightarrow>
                  (if jget_str v ''type'' = Some ''session_meta'' \<and> jget_str p ''id'' = Some session_id
                   then (True, or_else (jget_str p ''cwd'') cwd)
                   else if jget_str v ''type'' = Some ''turn_context'' \<and> matched
                   then (matched, or_else (jget_str p ''cwd'') cwd)
                   else acc))))"

definition rollout_resume_cwd :: "disk \<Rightarrow> string \<Rightarrow> string \<Rightarrow> string + string option" where
  "rollout_resume_cwd d path session_id =
     tryR (head_lines d path) (\<lambda>ls.
     tryR (fold_lines (resume_cwd_line d session_id) ls (False, None)) (\<lambda>(matched, cwd). Inr cwd))"


subsection \<open>The index, the history and the rollouts\<close>

definition index_line_entry :: "disk \<Rightarrow> drafts \<Rightarrow> string \<Rightarrow> drafts" where
  "index_line_entry d ds line =
     (case dk_index_line d line of
        None \<Rightarrow> ds
      | Some entry \<Rightarrow>
          draft_entry (il_id entry) (\<lambda>dr. dr\<lparr>
            dr_metadata_title := first_non_empty (il_thread_name entry) (dr_metadata_title dr),
            dr_updated_at := max_string (il_updated_at entry) (dr_updated_at dr)\<rparr>) ds)"

definition read_session_index :: "disk \<Rightarrow> string \<Rightarrow> drafts \<Rightarrow> nat \<Rightarrow> string + drafts" where
  "read_session_index d codex_home ds max_sessions =
     (let path = path_join codex_home ''session_index.jsonl''
      in if \<not> dk_exists d path then Inr ds
         else tryR (read_recent_lines d path (metadata_scan_limit max_sessions)) (\<lambda>ls.
           Inr (foldl (index_line_entry d) ds ls)))"

definition history_line_entry ::
  "disk \<Rightarrow> (string \<times> history_session) list \<Rightarrow> string \<Rightarrow> (string \<times> history_session) list" where
  "history_line_entry d hs line =
     (case dk_history_line d line of
        None \<Rightarrow> hs
      | Some entry \<Rightarrow>
          (let updated_at = Option.bind (hl_ts entry) unix_seconds_to_iso
           in case map_of hs (hl_session_id entry) of
                Some existing \<Rightarrow>
                  entry_update (hl_session_id entry) existing
                    (\<lambda>h. h\<lparr>hist_updated_at := max_string updated_at (hist_updated_at h)\<rparr>) hs
              | None \<Rightarrow>
                  (case compact_title (hl_text entry) of
                     None \<Rightarrow> hs
                   | Some title \<Rightarrow>
                       hs @ [(hl_session_id entry, \<lparr> hist_title = title, hist_updated_at = updated_at \<rparr>)])))"

definition read_history_sessions :: "disk \<Rightarrow> string \<Rightarrow> nat \<Rightarrow> string + (string \<times> history_session) list" where
  "read_history_sessions d codex_home max_sessions =
     (let path = path_join codex_home ''history.jsonl''
      in if \<not> dk_exists d path then Inr []
         else tryR (read_recent_lines d path (metadata_scan_limit max_sessions)) (\<lambda>ls.
           Inr (foldl (history_line_entry d) [] ls)))"

definition read_rollouts :: "nat \<Rightarrow> disk \<Rightarrow> string \<Rightarrow> drafts \<Rightarrow> nat \<Rightarrow> (string + drafts) option" where
  "read_rollouts fuel d codex_home ds max_sessions =
     (let sessions_dir = path_join codex_home ''sessions''
      in if \<not> dk_exists d sessions_dir then Some (Inr ds)
         else map_option (\<lambda>r. tryR r (\<lambda>paths. for_dirs (read_rollout_metadata d) paths ds))
                (rollout_paths fuel d sessions_dir (rollout_scan_limit max_sessions)))"

fun first_rollout_of :: "disk \<Rightarrow> string \<Rightarrow> string list \<Rightarrow> string + string option" where
  "first_rollout_of d session_id [] = Inr None"
| "first_rollout_of d session_id (p # ps) =
     tryR (rollout_path_has_session_id d p session_id) (\<lambda>found.
       if found then Inr (Some p) else first_rollout_of d session_id ps)"

definition find_rollout_path :: "nat \<Rightarrow> disk \<Rightarrow> string \<Rightarrow> string \<Rightarrow> nat \<Rightarrow> (string + string option) option" where
  "find_rollout_path fuel d codex_home session_id max_sessions =
     (let sessions_dir = path_join codex_home ''sessions''
      in if \<not> dk_exists d sessions_dir then Some (Inr None)
         else map_option (\<lambda>r. tryR r (first_rollout_of d session_id))
                (rollout_paths fuel d sessions_dir (max (rollout_scan_limit max_sessions) 1000)))"

subsection \<open>Backfill\<close>

definition rollout_line_event :: "disk \<Rightarrow> string \<Rightarrow> string \<Rightarrow> agent_backfill_event option" where
  "rollout_line_event d session_id line =
     Option.bind (dk_json d line) (\<lambda>v. backfill_event_from_rollout_record session_id v (stable_hash line))"

definition read_rollout_backfill :: "disk \<Rightarrow> string \<Rightarrow> string \<Rightarrow> nat \<Rightarrow> string + host_session_backfill" where
  "read_rollout_backfill d path session_id limit =
     (let scan_limit = rollout_backfill_line_scan_limit limit
      in tryR (read_recent_lines d path scan_limit) (\<lambda>ls.
         (let events = List.map_filter (rollout_line_event d session_id) ls
          in Inr \<lparr> hb_events = last_n limit events,
                   hb_truncated = (limit < length events \<or> length ls = scan_limit) \<rparr>)))"

definition history_line_event :: "disk \<Rightarrow> string \<Rightarrow> string \<Rightarrow> agent_backfill_event option" where
  "history_line_event d session_id line =
     do { entry \<leftarrow> dk_history_line d line;
          (if hl_session_id entry \<noteq> session_id then None
           else do { text \<leftarrow> compact_event_text (hl_text entry);
                     let created_at = Option.bind (hl_ts entry) unix_seconds_to_iso;
                     let timestamp = (case created_at of Some t \<Rightarrow> t | None \<Rightarrow> ''unknown time'');
                     Some \<lparr> be_kind = ''command.output'', be_priority = ''P3'',
                            be_summary = compact_timestamp timestamp @ '' - User: '' @ text,
                            be_idempotency_key = ''history:'' @ session_id @ '':'' @ timestamp @ '':''
                              @ stable_hash text,
                            be_created_at = (case created_at of Some t \<Rightarrow> t
                              | None \<Rightarrow> unknown_backfill_created_at) \<rparr> }) }"

definition read_history_backfill ::
  "disk \<Rightarrow> string \<Rightarrow> string \<Rightarrow> nat \<Rightarrow> nat \<Rightarrow> string + host_session_backfill" where
  "read_history_backfill d codex_home session_id limit max_sessions =
     (let path = path_join codex_home ''history.jsonl''
      in if \<not> dk_exists d path then Inr \<lparr> hb_events = [], hb_truncated = False \<rparr>
         else tryR (read_recent_lines d path (metadata_scan_limit max_sessions)) (\<lambda>ls.
           (let events = List.map_filter (history_line_event d session_id) ls
            in Inr \<lparr> hb_events = last_n limit events, hb_truncated = (limit < length events) \<rparr>)))"

definition codex_home_of :: "disk \<Rightarrow> session_inventory_config \<Rightarrow> string" where
  "codex_home_of d si = (case si_codex_home si of Some h \<Rightarrow> h | None \<Rightarrow> dk_default_codex_home d)"

definition build_host_session_backfill ::
  "nat \<Rightarrow> disk \<Rightarrow> session_inventory_config \<Rightarrow> string \<Rightarrow> nat \<Rightarrow> (string + host_session_backfill) option" where
  "build_host_session_backfill fuel d si session_id limit0 =
     (if \<not> si_enabled si then Some (Inl ''session inventory is disabled'')
      else (let codex_home = codex_home_of d si;
                limit = clamp 1 80 limit0
            in map_option (\<lambda>r. tryR r (\<lambda>found.
                 case found of
                   Some path \<Rightarrow> read_rollout_backfill d path session_id limit
                 | None \<Rightarrow> read_history_backfill d codex_home session_id limit (si_max_sessions si)))
               (find_rollout_path fuel d codex_home session_id (si_max_sessions si))))"

subsection \<open>The report\<close>

definition resolve_session ::
  "session_draft \<Rightarrow> string option \<Rightarrow> (string \<times> history_session) list \<Rightarrow> agent_host_session" where
  "resolve_session draft app_server_title history =
     (case (case compact_title (dr_metadata_title draft) of
              Some t \<Rightarrow> (t, TitleMetadata)
            | None \<Rightarrow> (case compact_title app_server_title of
                Some t \<Rightarrow> (t, TitleAppServer)
              | None \<Rightarrow> (case compact_title (map_option hist_title (map_of history (dr_session_id draft))) of
                  Some t \<Rightarrow> (t, TitleHistory)
                | None \<Rightarrow> (fallback_title (dr_session_id draft) (dr_cwd draft), TitleFallback)))) of
        (title, source) \<Rightarrow>
          \<lparr> hs_session_id = dr_session_id draft, hs_title = title, hs_title_source = source,
            hs_app_server_present = dr_app_server_present draft, hs_cwd = dr_cwd draft,
            hs_updated_at = (case dr_updated_at draft of Some t \<Rightarrow> t
              | None \<Rightarrow> ''1970-01-01T00:00:00.000Z'') \<rparr>)"

definition app_session_entry :: "drafts \<Rightarrow> string \<times> app_server_session \<Rightarrow> drafts" where
  "app_session_entry ds e =
     (case e of (session_id, app) \<Rightarrow>
        draft_entry session_id (\<lambda>dr. dr\<lparr>
          dr_cwd := first_non_empty_raw (dr_cwd dr) (ass_cwd app),
          dr_app_server_present := True,
          dr_updated_at := max_string (ass_updated_at app) (dr_updated_at dr)\<rparr>) ds)"

definition history_session_entry :: "drafts \<Rightarrow> string \<times> history_session \<Rightarrow> drafts" where
  "history_session_entry ds e =
     (case e of (session_id, h) \<Rightarrow>
        draft_entry session_id (\<lambda>dr. dr\<lparr>dr_updated_at := max_string (hist_updated_at h) (dr_updated_at dr)\<rparr>) ds)"

definition session_order :: "agent_host_session \<Rightarrow> agent_host_session \<Rightarrow> bool" where
  "session_order l r \<longleftrightarrow>
     hs_updated_at r < hs_updated_at l \<or>
     (hs_updated_at l = hs_updated_at r \<and> hs_session_id l \<le> hs_session_id r)"

text \<open>What the app server answered: nothing was asked, the inventory, or an error.\<close>

type_synonym app_answer = "(string + app_server_session_inventory) option"

definition app_part :: "app_answer \<Rightarrow> (string \<times> app_server_session) list \<times> bool option \<times> bool" where
  "app_part answer =
     (case answer of
        None \<Rightarrow> ([], None, False)
      | Some (Inl e) \<Rightarrow> ([], Some False, False)
      | Some (Inr inventory) \<Rightarrow> (asi_sessions inventory, Some True, asi_truncated inventory))"

definition host_sessions_from ::
  "drafts \<Rightarrow> (string \<times> history_session) list \<Rightarrow> (string \<times> app_server_session) list \<Rightarrow> agent_host_session list" where
  "host_sessions_from ds history app =
     sort_by session_order
       (map (\<lambda>(k, dr). resolve_session dr (Option.bind (map_of app (dr_session_id dr)) ass_name) history)
         (foldl history_session_entry (foldl app_session_entry ds app) history))"

definition build_host_sessions_report ::
  "nat \<Rightarrow> disk \<Rightarrow> (string \<Rightarrow> nat \<Rightarrow> nat \<Rightarrow> string option \<Rightarrow> string + app_server_session_inventory)
    \<Rightarrow> session_inventory_config \<Rightarrow> (string + agent_host_sessions_report) option" where
  "build_host_sessions_report fuel d load_sessions si =
     (if \<not> si_enabled si
      then Some (Inr \<lparr> hr_sessions = [], hr_inventory_scope = Incremental,
                       hr_app_server_inventory_ok = None \<rparr>)
      else (let codex_home = codex_home_of d si; m = si_max_sessions si
            in case read_session_index d codex_home [] m of
                 Inl e \<Rightarrow> Some (Inl e)
               | Inr ds0 \<Rightarrow> map_option (\<lambda>r. tryR r (\<lambda>ds.
                   tryR (read_history_sessions d codex_home m) (\<lambda>history.
                   (let answer = map_option (\<lambda>url. load_sessions url m (si_app_server_timeout_seconds si)
                                     (si_app_server_auth_token_file si)) (si_app_server_url si)
                    in case app_part answer of (app, ok, truncated) \<Rightarrow>
                      (let sessions = host_sessions_from ds history app
                       in Inr \<lparr> hr_sessions = take m sessions,
                                hr_inventory_scope = (if truncated \<or> m < length sessions then Incremental else Full),
                                hr_app_server_inventory_ok = ok \<rparr>)))))
                 (read_rollouts fuel d codex_home ds0 m)))"

end
