(* ===== verification/Inventory_Files.thy ===== *)
theory Inventory_Files
  imports Inventory
begin

text \<open>
  Facts about the inventory's readers: the backward reader of a file's last lines against the
  whole file, the sorting of rollouts, and the walk over directories that are not dated.
\<close>

subsection \<open>Reading backwards\<close>

lemma count_list_append_nl: "count_list (a @ b) c = count_list a c + count_list b c"
  by (induction a) auto

lemma read_backwards_suffix:
  "position \<le> length content \<Longrightarrow> bytes = drop position content \<Longrightarrow> newline_count = count_list bytes nl \<Longrightarrow>
     \<exists>p. read_backwards content limit position newline_count bytes = drop p content
       \<and> (p = 0 \<or> limit < count_list (drop p content) nl)"
proof (induction content limit position newline_count bytes rule: read_backwards.induct)
  case (1 content limit position newline_count bytes)
  show ?case
  proof (cases "0 < position \<and> newline_count \<le> limit")
    case True
    define read_len position' where "read_len = min position chunk_size" and "position' = position - read_len"
    define chunk where "chunk = take read_len (drop position' content)"
    have "read_len \<le> position" by (simp add: read_len_def)
    then have "position' + read_len = position" by (simp add: position'_def)
    then have join: "chunk @ bytes = drop position' content"
      using "1.prems"(2) by (metis append_take_drop_id chunk_def drop_drop add.commute)
    have "\<exists>p. read_backwards content limit position' (newline_count + count_list chunk nl) (chunk @ bytes) = drop p content
        \<and> (p = 0 \<or> limit < count_list (drop p content) nl)"
    proof (rule "1.IH" [OF True read_len_def position'_def chunk_def])
      show "position' \<le> length content" using "1.prems"(1) by (simp add: position'_def)
      show "newline_count + count_list chunk nl = count_list (chunk @ bytes) nl"
        using "1.prems"(3) by (simp only: count_list_append_nl add.commute)
    qed (rule join)
    with True show ?thesis
      by (simp add: read_backwards.simps [of content limit position newline_count bytes] Let_def
          chunk_def read_len_def position'_def)
  next
    case False
    then show ?thesis
      using "1.prems" by (subst read_backwards.simps) (auto simp: not_le)
  qed
qed

lemma count_nl_utf8_lossy: "count_list s nl \<le> count_list (utf8_lossy s) nl"
proof (induction s rule: length_induct)
  case (1 s)
  show ?case
  proof (cases "nl \<in> set s")
    case True
    then obtain x y where s: "s = x @ nl # y" "nl \<notin> set x" by (meson split_list_first)
    with 1 have "count_list y nl \<le> count_list (utf8_lossy y) nl" by simp
    with s show ?thesis by (simp add: utf8_lossy_nl count_list_append_nl)
  next
    case False
    then show ?thesis by (simp add: count_list_0_iff)
  qed
qed

lemma length_str_lines_count: "count_list s nl \<le> length (str_lines s)"
  using length_split_inclusive [of s] by (simp add: str_lines_def)

lemma last_lines_suffix:
  assumes "limit < count_list r nl"
  shows "last_n limit (str_lines (utf8_lossy (pre @ r))) = last_n limit (str_lines (utf8_lossy r))"
proof -
  have "nl \<in> set r" using assms by (metis count_list_0_iff not_less_zero)
  then obtain a b where r: "r = a @ nl # b" "nl \<notin> set a" by (meson split_list_first)
  with assms have "limit \<le> count_list b nl" by (simp add: count_list_append_nl count_list_0_iff)
  also have "\<dots> \<le> length (str_lines (utf8_lossy b))"
    using count_nl_utf8_lossy length_str_lines_count by (rule order_trans)
  finally have enough: "limit \<le> length (str_lines (utf8_lossy b))" .
  have "last_n limit (str_lines (utf8_lossy (x @ nl # b))) = last_n limit (str_lines (utf8_lossy b))" for x
    by (simp add: utf8_lossy_nl str_lines_nl [of _ "utf8_lossy b"] last_n_append [OF enough])
  from this [of a] this [of "pre @ a"] r(1) show ?thesis by simp
qed

lemma recent_lines_eq: "recent_lines content limit = last_n limit (str_lines (utf8_lossy content))"
proof -
  obtain p where p: "read_backwards content limit (length content) 0 [] = drop p content"
      "p = 0 \<or> limit < count_list (drop p content) nl"
    using read_backwards_suffix [of "length content" content "[]" 0 limit] by auto
  show ?thesis
  proof (cases "p = 0")
    case True
    with p show ?thesis by (simp add: recent_lines_def)
  next
    case False
    with p last_lines_suffix [of limit "drop p content" "take p content"] show ?thesis
      by (simp add: recent_lines_def)
  qed
qed

lemma read_recent_lines_eq:
  "read_recent_lines d path limit = Inr ls \<Longrightarrow> 0 < limit \<Longrightarrow>
     \<exists>content. dk_read d path = Inr content \<and> ls = last_n limit (str_lines (utf8_lossy content))"
  by (auto simp: read_recent_lines_def recent_lines_eq tryR_Inr)

lemma read_recent_lines_all:
  "read_recent_lines d path limit = Inr ls \<Longrightarrow> length ls < limit \<Longrightarrow>
     \<exists>content. dk_read d path = Inr content \<and> ls = str_lines (utf8_lossy content)"
  using read_recent_lines_eq [of d path limit ls] by (auto simp: min_def split: if_splits)

lemma length_read_recent_lines: "read_recent_lines d path limit = Inr ls \<Longrightarrow> length ls \<le> limit"
  by (auto simp: read_recent_lines_def recent_lines_eq tryR_Inr split: if_splits)

subsection \<open>Backfill\<close>

lemma map_filter_append: "List.map_filter f (xs @ ys) = List.map_filter f xs @ List.map_filter f ys"
  by (induction xs) (auto simp: map_filter_simps split: option.splits)

lemma length_map_filter: "length (List.map_filter f xs) \<le> length xs"
  by (induction xs) (auto simp: map_filter_simps split: option.splits)

lemma rollout_backfill_facts:
  assumes "read_rollout_backfill d path session_id limit = Inr b"
  shows "length (hb_events b) \<le> limit"
    and "\<exists>content pre. dk_read d path = Inr content
           \<and> List.map_filter (rollout_line_event d session_id) (str_lines (utf8_lossy content)) = pre @ hb_events b
           \<and> (\<not> hb_truncated b \<longrightarrow> pre = [])"
proof -
  let ?n = "rollout_backfill_line_scan_limit limit"
  have n: "0 < ?n" using clamp_bounds [of 200 2000] by (simp add: rollout_backfill_line_scan_limit_def clamp_def)
  obtain ls where ls: "read_recent_lines d path ?n = Inr ls"
    and b: "hb_events b = last_n limit (List.map_filter (rollout_line_event d session_id) ls)"
      "hb_truncated b \<longleftrightarrow> limit < length (List.map_filter (rollout_line_event d session_id) ls) \<or> length ls = ?n"
    using assms by (auto simp: read_rollout_backfill_def tryR_Inr Let_def)
  from b show "length (hb_events b) \<le> limit" by simp
  obtain content where c: "dk_read d path = Inr content" "ls = last_n ?n (str_lines (utf8_lossy content))"
    using read_recent_lines_eq [OF ls n] by blast
  let ?all = "str_lines (utf8_lossy content)"
  let ?f = "List.map_filter (rollout_line_event d session_id)"
  have split: "?f ?all = ?f (take (length ?all - ?n) ?all) @ take (length (?f ls) - limit) (?f ls) @ hb_events b"
  proof -
    have "?all = take (length ?all - ?n) ?all @ ls" using c(2) by (simp add: last_n_def)
    moreover have "?f ls = take (length (?f ls) - limit) (?f ls) @ hb_events b" by (simp add: b(1) last_n_def)
    ultimately show ?thesis by (metis append_assoc map_filter_append)
  qed
  have "\<not> hb_truncated b \<Longrightarrow> length ls < ?n \<and> length (?f ls) \<le> limit"
    using b(2) length_read_recent_lines [OF ls] by auto
  then have "\<not> hb_truncated b \<Longrightarrow> ?f (take (length ?all - ?n) ?all) @ take (length (?f ls) - limit) (?f ls) = []"
    using c(2) by (auto simp: map_filter_simps min_def split: if_splits)
  with c(1) split show "\<exists>content pre. dk_read d path = Inr content
      \<and> ?f (str_lines (utf8_lossy content)) = pre @ hb_events b \<and> (\<not> hb_truncated b \<longrightarrow> pre = [])"
    by (metis append_assoc)
qed


lemma history_backfill_facts:
  assumes "read_history_backfill d codex_home session_id limit m = Inr b"
  shows "length (hb_events b) \<le> limit"
  using assms by (auto simp: read_history_backfill_def tryR_Inr Let_def split: if_splits)

subsection \<open>The walk\<close>

text \<open>
  Where every directory below a path has a smaller rank than it (no cycle of links), the walk
  returns as soon as its fuel is larger than the rank.
\<close>

definition ranked_dirs :: "disk \<Rightarrow> (string \<Rightarrow> nat) \<Rightarrow> bool" where
  "ranked_dirs d rank \<longleftrightarrow>
     (\<forall>p es q. dk_read_dir d p = Inr es \<longrightarrow> Inr q \<in> set es \<longrightarrow> dk_is_dir d q \<longrightarrow> rank q < rank p)"

lemma walk_returns_aux:
  "ranked_dirs d rank \<Longrightarrow> rank path < fuel \<Longrightarrow> collect_rollout_paths fuel d path paths limit \<noteq> None"
  "ranked_dirs d rank \<Longrightarrow> \<forall>q. Inr q \<in> set es \<longrightarrow> dk_is_dir d q \<longrightarrow> rank q < fuel \<Longrightarrow>
     collect_entries fuel d es paths limit \<noteq> None"
proof (induction fuel d path paths limit and fuel d es paths limit
    rule: collect_rollout_paths_collect_entries.induct)
  case (2 n d path paths limit)
  show ?case
  proof (cases "dk_read_dir d path")
    case (Inr es)
    have "rank q < n" if "Inr q \<in> set es" "dk_is_dir d q" for q
      using "2.prems" Inr that by (fastforce simp: ranked_dirs_def)
    with 2 Inr show ?thesis by simp
  qed simp
next
  case (5 n d p es paths limit)
  show ?case
  proof (cases "dk_is_dir d p")
    case True
    with "5.prems" have "collect_rollout_paths n d p paths limit \<noteq> None" by (intro "5.IH"(1)) auto
    then obtain r where r: "collect_rollout_paths n d p paths limit = Some r" by blast
    show ?thesis
    proof (cases r)
      case (Inr paths')
      with "5.IH"(2) [OF True r Inr] "5.prems" True r show ?thesis by simp
    qed (simp add: True r)
  next
    case False
    with 5 show ?thesis by simp
  qed
qed auto

lemma rollout_paths_returns:
  "ranked_dirs d rank \<Longrightarrow> rank rt < fuel \<Longrightarrow> rollout_paths fuel d rt limit \<noteq> None"
  using walk_returns_aux(1) [of d rank rt fuel]
  by (auto simp: rollout_paths_def Let_def split: sum.splits)

lemma build_report_returns:
  "ranked_dirs d rank \<Longrightarrow> rank (path_join (codex_home_of d si) ''sessions'') < fuel \<Longrightarrow>
     build_host_sessions_report fuel d load_sessions si \<noteq> None"
  using rollout_paths_returns [of d rank "path_join (codex_home_of d si) ''sessions''" fuel]
  by (auto simp: build_host_sessions_report_def read_rollouts_def Let_def split: sum.splits)

lemma build_backfill_returns:
  "ranked_dirs d rank \<Longrightarrow> rank (path_join (codex_home_of d si) ''sessions'') < fuel \<Longrightarrow>
     build_host_session_backfill fuel d si session_id limit \<noteq> None"
  using rollout_paths_returns [of d rank "path_join (codex_home_of d si) ''sessions''" fuel]
  by (auto simp: build_host_session_backfill_def find_rollout_path_def Let_def)

text \<open>What the paths of a scan are: at most the limit, and the names of rollouts.\<close>

lemma fold_lines_invariant:
  "fold_lines f ls acc = Inr r \<Longrightarrow> P acc \<Longrightarrow> (\<And>a l. Inr l \<in> set ls \<Longrightarrow> P a \<Longrightarrow> P (f a l)) \<Longrightarrow> P r"
  by (induction f ls acc rule: fold_lines.induct) auto

lemma rollout_files_names:
  "rollout_files_in_dir d rt = Inr files \<Longrightarrow> p \<in> set files \<Longrightarrow> is_rollout_name p"
proof -
  assume "rollout_files_in_dir d rt = Inr files" "p \<in> set files"
  then obtain entries paths where p: "p \<in> set paths"
    and f: "fold_lines (\<lambda>paths p. if dk_is_file d p \<and> is_rollout_name p then paths @ [p] else paths) entries [] = Inr paths"
    by (auto simp: rollout_files_in_dir_def tryR_Inr sort_paths_by_mtime_desc_def)
  from f have "\<forall>p \<in> set paths. is_rollout_name p"
    by (rule fold_lines_invariant [where P = "\<lambda>paths. \<forall>p \<in> set paths. is_rollout_name p"]) auto
  with p show ?thesis by blast
qed

lemma take_day_files_names:
  "take_day_files d days paths limit = Inr r \<Longrightarrow> (\<forall>p \<in> set paths. is_rollout_name p) \<Longrightarrow> \<forall>p \<in> set r. is_rollout_name p"
proof (induction d days paths limit rule: take_day_files.induct)
  case (2 d day days paths limit)
  then obtain files where f: "rollout_files_in_dir d day = Inr files" by (auto simp: tryR_Inr)
  with "2.prems"(2) have all: "\<forall>p \<in> set (paths @ files). is_rollout_name p"
    by (auto dest: rollout_files_names)
  show ?case
  proof (cases "limit \<le> length (paths @ files)")
    case True
    with f "2.prems"(1) have "r = paths @ files" by simp
    with all show ?thesis by simp
  next
    case False
    with "2.IH" [OF False _ all] f "2.prems"(1) show ?thesis by simp
  qed
qed auto

lemma collect_names:
  "collect_rollout_paths fuel d path paths limit = Some (Inr r) \<Longrightarrow> (\<forall>p \<in> set paths. is_rollout_name p) \<Longrightarrow>
     \<forall>p \<in> set r. is_rollout_name p"
  "collect_entries fuel d es paths limit = Some (Inr r) \<Longrightarrow> (\<forall>p \<in> set paths. is_rollout_name p) \<Longrightarrow>
     \<forall>p \<in> set r. is_rollout_name p"
proof (induction fuel d path paths limit and fuel d es paths limit arbitrary: r and r
    rule: collect_rollout_paths_collect_entries.induct)
  case (5 n d p es paths limit)
  show ?case
  proof (cases "dk_is_dir d p")
    case True
    with "5.prems"(1) obtain paths' where p': "collect_rollout_paths n d p paths limit = Some (Inr paths')"
      and r: "collect_entries n d es paths' limit = Some (Inr r)"
      by (auto split: option.splits sum.splits)
    from "5.IH"(1) [OF True p' "5.prems"(2)] show ?thesis
      by (rule "5.IH"(2) [OF True p' refl r])
  next
    case False
    show ?thesis
    proof (cases "is_rollout_name p")
      case True
      with "5.prems"(2) have all: "\<forall>q \<in> set (paths @ [p]). is_rollout_name q" by auto
      with False True "5.prems"(1) "5.IH"(3) [OF False True _ _ all] show ?thesis
        by (cases "limit \<le> length (paths @ [p])") auto
    next
      case no: False
      with False "5.prems" "5.IH"(4) show ?thesis by simp
    qed
  qed
qed (auto split: if_splits sum.splits)

lemma rollout_paths_facts:
  "rollout_paths fuel d rt limit = Some (Inr ps) \<Longrightarrow>
     length ps \<le> max limit 1 \<and> (\<forall>p \<in> set ps. is_rollout_name p) \<and> sorted_wrt (mtime_desc d) ps"
proof -
  assume "rollout_paths fuel d rt limit = Some (Inr ps)"
  then obtain paths where ps: "ps = take (max limit 1) (sort_paths_by_mtime_desc d paths)"
    and names: "\<forall>p \<in> set paths. is_rollout_name p"
    by (auto simp: rollout_paths_def Let_def tryR_Inr split: sum.splits if_splits
        dest: take_day_files_names collect_names(1))
  have "sorted_wrt (mtime_desc d) (sort_by (mtime_desc d) paths)"
    by (rule sorted_sort_by) (auto simp: mtime_desc_def)
  with ps names show ?thesis
    by (auto simp: sort_paths_by_mtime_desc_def sorted_wrt_take dest: in_set_takeD)
qed

end
