(* ===== verification/Inventory_Report.thy ===== *)
theory Inventory_Report
  imports Inventory_Files "HOL-Library.Multiset"
begin

text \<open>
  Facts about the report: the drafts keep one entry per session, each step adds the sessions it
  names and marks those of the app server, and the sorted list does not depend on the order in
  which the hash maps are walked.
\<close>

subsection \<open>Drafts\<close>

definition drafts_ok :: "drafts \<Rightarrow> bool" where
  "drafts_ok ds \<longleftrightarrow> distinct (map fst ds) \<and> (\<forall>(k, dr) \<in> set ds. dr_session_id dr = k)"

definition present :: "drafts \<Rightarrow> string set" where
  "present ds = {k. \<exists>dr. (k, dr) \<in> set ds \<and> dr_app_server_present dr}"

definition draft_ids :: "drafts \<Rightarrow> string set" where
  "draft_ids ds = fst ` set ds"

lemma set_entry_update:
  "distinct (map fst m) \<Longrightarrow> set (entry_update k d f m) =
     {(k', v) \<in> set m. k' \<noteq> k} \<union> {(k, f (case map_of m k of None \<Rightarrow> d | Some v \<Rightarrow> v))}"
proof -
  assume m: "distinct (map fst m)"
  let ?m' = "entry_update k d f m"
  have "(a, b) \<in> set ?m' \<longleftrightarrow> map_of ?m' a = Some b" for a b
    using m by (simp add: distinct_entry_update)
  moreover have "(a, b) \<in> set m \<longleftrightarrow> map_of m a = Some b" for a b
    using m by simp
  ultimately show ?thesis by (auto simp: map_of_entry_update split: if_splits)
qed

lemma draft_entry_ok:
  assumes "drafts_ok ds" and f: "\<And>dr. dr_session_id (f dr) = dr_session_id dr"
  shows "drafts_ok (draft_entry k f ds)"
proof -
  have old: "dr_session_id (case map_of ds k of None \<Rightarrow> new_draft k | Some v \<Rightarrow> v) = k"
    using assms(1) by (auto simp: drafts_ok_def new_draft_def split: option.splits dest: map_of_SomeD)
  show ?thesis
    using assms(1) old
    by (auto simp: drafts_ok_def draft_entry_def distinct_entry_update set_entry_update f)
qed

lemma draft_entry_ids: "draft_ids (draft_entry k f ds) = insert k (draft_ids ds)"
  by (simp add: draft_ids_def draft_entry_def fst_entry_update)

lemma draft_entry_present:
  assumes ds: "drafts_ok ds" and f: "\<And>dr. dr_app_server_present (f dr) \<longleftrightarrow> p \<or> dr_app_server_present dr"
  shows "present (draft_entry k f ds) = (if p then {k} else {}) \<union> present ds"
proof -
  have d: "distinct (map fst ds)" using ds by (simp add: drafts_ok_def)
  have "a \<in> present (draft_entry k f ds) \<longleftrightarrow> a \<in> (if p then {k} else {}) \<union> present ds" for a
  proof (cases "a = k")
    case False
    with d show ?thesis by (auto simp: present_def draft_entry_def set_entry_update)
  next
    case True
    show ?thesis
    proof (cases "map_of ds k")
      case None
      then have "(k, dr) \<notin> set ds" for dr using weak_map_of_SomeI by fastforce
      with None True d show ?thesis
        by (auto simp: present_def draft_entry_def set_entry_update f new_draft_def)
    next
      case (Some dr)
      with d have "(k, dr') \<in> set ds \<longleftrightarrow> dr' = dr" for dr'
        by (metis map_of_eq_Some_iff option.inject)
      with Some True d show ?thesis
        by (auto simp: present_def draft_entry_def set_entry_update f)
    qed
  qed
  then show ?thesis by blast
qed

text \<open>
  A step that goes through the lines of a file or the entries of a map adds to the drafts the
  sessions it names, keeps them apart and marks some of them as the app server's. What a whole
  pass does follows from the steps alone.
\<close>

locale draft_pass =
  fixes step :: "drafts \<Rightarrow> 'e \<Rightarrow> drafts" and names :: "'e \<Rightarrow> string set" and marks :: "'e \<Rightarrow> string set"
  assumes step_ok: "drafts_ok ds \<Longrightarrow> drafts_ok (step ds e)"
    and step_ids: "draft_ids (step ds e) = names e \<union> draft_ids ds"
    and step_present: "drafts_ok ds \<Longrightarrow> present (step ds e) = marks e \<union> present ds"
begin

lemma pass_ok: "drafts_ok ds \<Longrightarrow> drafts_ok (foldl step ds es)"
  by (induction es arbitrary: ds) (auto simp: step_ok)

lemma pass_ids: "draft_ids (foldl step ds es) = (\<Union>e \<in> set es. names e) \<union> draft_ids ds"
  by (induction es arbitrary: ds) (auto simp: step_ids)

lemma pass_present:
  "drafts_ok ds \<Longrightarrow> present (foldl step ds es) = (\<Union>e \<in> set es. marks e) \<union> present ds"
  by (induction es arbitrary: ds) (auto simp: step_present step_ok)

end

interpretation app_pass: draft_pass app_session_entry "\<lambda>e. {fst e}" "\<lambda>e. {fst e}"
proof
  fix ds :: drafts and e :: "string \<times> app_server_session"
  obtain k a where e: "e = (k, a)" by (cases e)
  show "drafts_ok ds \<Longrightarrow> drafts_ok (app_session_entry ds e)"
    by (simp add: app_session_entry_def e draft_entry_ok)
  show "draft_ids (app_session_entry ds e) = {fst e} \<union> draft_ids ds"
    by (simp add: app_session_entry_def e draft_entry_ids)
  show "drafts_ok ds \<Longrightarrow> present (app_session_entry ds e) = {fst e} \<union> present ds"
    unfolding app_session_entry_def e by (simp, subst draft_entry_present [where p = True]) auto
qed

interpretation history_pass: draft_pass history_session_entry "\<lambda>e. {fst e}" "\<lambda>e. {}"
proof
  fix ds :: drafts and e :: "string \<times> history_session"
  obtain k a where e: "e = (k, a)" by (cases e)
  show "drafts_ok ds \<Longrightarrow> drafts_ok (history_session_entry ds e)"
    by (simp add: history_session_entry_def e draft_entry_ok)
  show "draft_ids (history_session_entry ds e) = {fst e} \<union> draft_ids ds"
    by (simp add: history_session_entry_def e draft_entry_ids)
  show "drafts_ok ds \<Longrightarrow> present (history_session_entry ds e) = {} \<union> present ds"
    unfolding history_session_entry_def e by (simp, subst draft_entry_present [where p = False]) auto
qed

definition index_ids :: "disk \<Rightarrow> string \<Rightarrow> string set" where
  "index_ids d line = (case dk_index_line d line of None \<Rightarrow> {} | Some e \<Rightarrow> {il_id e})"

interpretation index_pass: draft_pass "index_line_entry d" "index_ids d" "\<lambda>e. {}" for d
proof
  fix ds :: drafts and line :: string
  show "drafts_ok ds \<Longrightarrow> drafts_ok (index_line_entry d ds line)"
    by (auto simp: index_line_entry_def draft_entry_ok split: option.splits)
  show "draft_ids (index_line_entry d ds line) = index_ids d line \<union> draft_ids ds"
    by (simp add: index_line_entry_def index_ids_def draft_entry_ids split: option.splits)
  show "drafts_ok ds \<Longrightarrow> present (index_line_entry d ds line) = {} \<union> present ds"
    by (auto simp: index_line_entry_def draft_entry_present [where p = False] split: option.splits)
qed

lemma read_session_index_ok:
  "read_session_index d home ds m = Inr ds' \<Longrightarrow> drafts_ok ds \<Longrightarrow> drafts_ok ds' \<and> present ds' = present ds"
  by (auto simp: read_session_index_def Let_def tryR_Inr index_pass.pass_ok index_pass.pass_present
      split: if_splits)

lemma read_rollout_metadata_ok:
  "read_rollout_metadata d path ds = Inr ds' \<Longrightarrow> drafts_ok ds \<Longrightarrow> drafts_ok ds' \<and> present ds' = present ds"
  by (auto simp: read_rollout_metadata_def tryR_Inr draft_entry_ok draft_entry_present [where p = False]
      split: option.splits)

lemma for_rollouts_ok:
  "for_dirs (read_rollout_metadata d) paths ds = Inr ds' \<Longrightarrow> drafts_ok ds \<Longrightarrow>
     drafts_ok ds' \<and> present ds' = present ds"
  by (induction "read_rollout_metadata d" paths ds rule: for_dirs.induct)
    (fastforce simp: tryR_Inr dest: read_rollout_metadata_ok)+

lemma read_rollouts_ok:
  "read_rollouts fuel d home ds m = Some (Inr ds') \<Longrightarrow> drafts_ok ds \<Longrightarrow>
     drafts_ok ds' \<and> present ds' = present ds"
  by (auto simp: read_rollouts_def Let_def tryR_Inr split: if_splits dest: for_rollouts_ok)

lemma empty_drafts [simp]: "drafts_ok []" "present [] = {}" "draft_ids [] = {}"
  by (simp_all add: drafts_ok_def present_def draft_ids_def)


subsection \<open>The sorted list\<close>

definition all_drafts ::
  "drafts \<Rightarrow> (string \<times> history_session) list \<Rightarrow> (string \<times> app_server_session) list \<Rightarrow> drafts" where
  "all_drafts ds history app = foldl history_session_entry (foldl app_session_entry ds app) history"

definition session_of ::
  "(string \<times> history_session) list \<Rightarrow> (string \<times> app_server_session) list \<Rightarrow> string \<times> session_draft \<Rightarrow> agent_host_session" where
  "session_of history app = (\<lambda>(k, dr). resolve_session dr (Option.bind (map_of app (dr_session_id dr)) ass_name) history)"

text \<open>
  The order of the listing, latest first and by id where the times agree, is a linear order on
  the pairs of the two, so the comparator's sort is the library's sort by that key.
\<close>

datatype listing_key = Listing_Key (lk_updated_at: string) (lk_session_id: string)

instantiation listing_key :: linorder
begin

definition less_eq_listing_key :: "listing_key \<Rightarrow> listing_key \<Rightarrow> bool" where
  "less_eq_listing_key k l \<longleftrightarrow>
     lk_updated_at l < lk_updated_at k \<or> (lk_updated_at k = lk_updated_at l \<and> lk_session_id k \<le> lk_session_id l)"

definition less_listing_key :: "listing_key \<Rightarrow> listing_key \<Rightarrow> bool" where
  "less_listing_key k l \<longleftrightarrow> k \<le> l \<and> \<not> l \<le> (k :: listing_key)"

instance
  by standard (auto simp: less_eq_listing_key_def less_listing_key_def listing_key.expand)

end

definition session_key :: "agent_host_session \<Rightarrow> listing_key" where
  "session_key s = Listing_Key (hs_updated_at s) (hs_session_id s)"

lemma session_order_key: "session_order = (\<lambda>l r. session_key l \<le> session_key r)"
  by (intro ext) (simp add: session_order_def session_key_def less_eq_listing_key_def)

lemma inj_on_session_key: "inj_on hs_session_id S \<Longrightarrow> inj_on session_key S"
  by (auto simp: inj_on_def session_key_def)

lemma host_sessions_from_eq:
  "host_sessions_from ds history app = sort_key session_key (map (session_of history app) (all_drafts ds history app))"
  by (simp add: host_sessions_from_def all_drafts_def session_of_def session_order_key sort_by_key)

lemma sorted_host_sessions: "sorted_wrt session_order (host_sessions_from ds history app)"
  using sorted_sort_key [of session_key "map (session_of history app) (all_drafts ds history app)"]
  by (simp only: host_sessions_from_eq session_order_key sorted_map)

lemma distinct_map_sort_key: "distinct (map f (sort_key k xs)) \<longleftrightarrow> distinct (map f xs)"
  by (rule mset_eq_imp_distinct_iff) simp

lemma resolve_session_keeps [simp]:
  "hs_session_id (resolve_session dr t history) = dr_session_id dr"
  "hs_app_server_present (resolve_session dr t history) = dr_app_server_present dr"
  "hs_cwd (resolve_session dr t history) = dr_cwd dr"
  by (simp_all add: resolve_session_def split: prod.splits)

lemma all_drafts_ok: "drafts_ok ds \<Longrightarrow> drafts_ok (all_drafts ds history app)"
  by (simp add: all_drafts_def history_pass.pass_ok app_pass.pass_ok)

lemma all_drafts_ids: "draft_ids (all_drafts ds history app) = fst ` set history \<union> fst ` set app \<union> draft_ids ds"
  by (auto simp: all_drafts_def history_pass.pass_ids app_pass.pass_ids)

lemma all_drafts_present: "drafts_ok ds \<Longrightarrow> present (all_drafts ds history app) = fst ` set app \<union> present ds"
  by (auto simp: all_drafts_def history_pass.pass_present app_pass.pass_present app_pass.pass_ok)

lemma session_of_id: "drafts_ok ds \<Longrightarrow> map (hs_session_id \<circ> session_of history app) ds = map fst ds"
  by (auto simp: session_of_def drafts_ok_def split: prod.splits)

lemma host_sessions_distinct: "drafts_ok ds \<Longrightarrow> distinct (map hs_session_id (host_sessions_from ds history app))"
proof -
  assume "drafts_ok ds"
  then have ok: "drafts_ok (all_drafts ds history app)" by (rule all_drafts_ok)
  then have "distinct (map fst (all_drafts ds history app))" by (simp add: drafts_ok_def)
  then have "distinct (map hs_session_id (map (session_of history app) (all_drafts ds history app)))"
    by (simp only: map_map session_of_id [OF ok])
  then show ?thesis by (simp only: host_sessions_from_eq distinct_map_sort_key)
qed

lemma host_sessions_ids:
  "drafts_ok ds \<Longrightarrow> hs_session_id ` set (host_sessions_from ds history app) = fst ` set history \<union> fst ` set app \<union> draft_ids ds"
proof -
  assume "drafts_ok ds"
  then have ok: "drafts_ok (all_drafts ds history app)" by (rule all_drafts_ok)
  have "hs_session_id ` set (host_sessions_from ds history app)
      = set (map (hs_session_id \<circ> session_of history app) (all_drafts ds history app))"
    by (simp add: host_sessions_from_eq image_comp)
  also have "\<dots> = draft_ids (all_drafts ds history app)"
    by (simp only: session_of_id [OF ok] draft_ids_def list.set_map)
  finally show ?thesis by (simp only: all_drafts_ids)
qed

lemma host_sessions_present:
  assumes "drafts_ok ds"
  shows "{hs_session_id s | s. s \<in> set (host_sessions_from ds history app) \<and> hs_app_server_present s}
    = fst ` set app \<union> present ds"
proof -
  have ok: "drafts_ok (all_drafts ds history app)" using assms by (rule all_drafts_ok)
  have "{hs_session_id s | s. s \<in> set (host_sessions_from ds history app) \<and> hs_app_server_present s}
      = present (all_drafts ds history app)"
    using ok by (force simp: host_sessions_from_eq present_def session_of_def drafts_ok_def)
  with all_drafts_present [OF assms] show ?thesis by simp
qed

subsection \<open>The order of the maps\<close>

lemma draft_pass_lookup:
  "distinct (map fst es) \<Longrightarrow>
     map_of (foldl (\<lambda>ds e. draft_entry (fst e) (upd (snd e)) ds) ds es) k =
       (case map_of es k of
          None \<Rightarrow> map_of ds k
        | Some a \<Rightarrow> Some (upd a (case map_of ds k of None \<Rightarrow> new_draft k | Some dr \<Rightarrow> dr)))"
proof (induction es arbitrary: ds)
  case (Cons e es)
  obtain k' a where e: "e = (k', a)" by (cases e)
  have none: "map_of es k' = None" using Cons.prems e by (simp add: map_of_eq_None_iff)
  have head: "map_of (draft_entry k' (upd a) ds) x =
      ((map_of ds)(k' \<mapsto> upd a (case map_of ds k' of None \<Rightarrow> new_draft k' | Some dr \<Rightarrow> dr))) x" for x
    by (simp only: draft_entry_def map_of_entry_update)
  from Cons.prems e have "distinct (map fst es)" by simp
  from Cons.IH [OF this, of "draft_entry k' (upd a) ds"] none e show ?case
    by (cases "k = k'") (simp_all add: head split: option.splits)
qed simp

definition app_update :: "app_server_session \<Rightarrow> session_draft \<Rightarrow> session_draft" where
  "app_update app dr = dr\<lparr>dr_cwd := first_non_empty_raw (dr_cwd dr) (ass_cwd app),
     dr_app_server_present := True, dr_updated_at := max_string (ass_updated_at app) (dr_updated_at dr)\<rparr>"

definition history_update :: "history_session \<Rightarrow> session_draft \<Rightarrow> session_draft" where
  "history_update h dr = dr\<lparr>dr_updated_at := max_string (hist_updated_at h) (dr_updated_at dr)\<rparr>"

lemma app_session_entry_eq: "app_session_entry = (\<lambda>ds e. draft_entry (fst e) (app_update (snd e)) ds)"
  by (simp add: app_session_entry_def app_update_def [abs_def] fun_eq_iff split: prod.splits)

lemma history_session_entry_eq:
  "history_session_entry = (\<lambda>ds e. draft_entry (fst e) (history_update (snd e)) ds)"
  by (simp add: history_session_entry_def history_update_def [abs_def] fun_eq_iff split: prod.splits)

definition same_map :: "('k \<times> 'v) list \<Rightarrow> ('k \<times> 'v) list \<Rightarrow> bool" where
  "same_map m n \<longleftrightarrow> distinct (map fst m) \<and> distinct (map fst n) \<and> set m = set n"

lemma same_map_lookup: "same_map m n \<Longrightarrow> map_of m = map_of n"
  by (simp add: same_map_def map_of_inject_set)

lemma all_drafts_same:
  assumes "same_map ds ds'" "same_map history history'" "same_map app app'"
  shows "map_of (all_drafts ds history app) = map_of (all_drafts ds' history' app')"
  using assms
proof -
  have eq: "map_of ds = map_of ds'" "map_of history = map_of history'" "map_of app = map_of app'"
    using assms same_map_lookup by blast+
  have d: "distinct (map fst history)" "distinct (map fst history')" "distinct (map fst app)" "distinct (map fst app')"
    using assms by (simp_all add: same_map_def)
  show ?thesis
    unfolding all_drafts_def app_session_entry_eq history_session_entry_eq
    by (rule ext) (simp only: draft_pass_lookup [OF d(1)] draft_pass_lookup [OF d(2)]
        draft_pass_lookup [OF d(3)] draft_pass_lookup [OF d(4)] eq)
qed

lemma host_sessions_same:
  assumes ds: "drafts_ok ds" "drafts_ok ds'"
    and same: "same_map ds ds'" "same_map history history'" "same_map app app'"
  shows "host_sessions_from ds history app = host_sessions_from ds' history' app'"
proof -
  let ?D = "all_drafts ds history app" and ?D' = "all_drafts ds' history' app'"
  let ?f = "session_of history app"
  have ok: "drafts_ok ?D" "drafts_ok ?D'" using ds by (simp_all add: all_drafts_ok)
  then have distinct: "distinct ?D" "distinct ?D'" by (auto simp: drafts_ok_def distinct_map)
  have "set ?D = set ?D'"
    using all_drafts_same [OF same] ok by (simp add: map_of_inject_set drafts_ok_def)
  then have "mset ?D = mset ?D'" using distinct by (simp only: set_eq_iff_mset_eq_distinct)
  then have "mset (map ?f ?D) = mset (map ?f ?D')" by simp
  moreover have "?f = session_of history' app'"
    by (simp only: session_of_def resolve_session_def same_map_lookup [OF same(2)] same_map_lookup [OF same(3)])
  moreover have "inj_on session_key (set (map ?f ?D))"
  proof -
    have "distinct (map hs_session_id (map ?f ?D))"
      using ok(1) by (simp only: map_map session_of_id [OF ok(1)] drafts_ok_def)
    then have "inj_on hs_session_id (set (map ?f ?D))" by (simp only: distinct_map)
    then show ?thesis by (rule inj_on_session_key)
  qed
  ultimately show ?thesis
    unfolding host_sessions_from_eq by (metis sort_key_inj_key_eq mset_sort sorted_sort_key)
qed

subsection \<open>What is never lost\<close>

lemma read_rollout_metadata_ids: "read_rollout_metadata d path ds = Inr ds' \<Longrightarrow> draft_ids ds \<subseteq> draft_ids ds'"
  by (auto simp: read_rollout_metadata_def tryR_Inr draft_entry_ids split: option.splits)

lemma for_rollouts_ids:
  "for_dirs (read_rollout_metadata d) paths ds = Inr ds' \<Longrightarrow> draft_ids ds \<subseteq> draft_ids ds'"
proof (induction paths arbitrary: ds)
  case (Cons p ps)
  then obtain ds1 where "read_rollout_metadata d p ds = Inr ds1" "for_dirs (read_rollout_metadata d) ps ds1 = Inr ds'"
    by (auto simp: tryR_Inr)
  with Cons.IH [of ds1] read_rollout_metadata_ids [of d p ds ds1] show ?case by blast
qed simp

lemma read_rollouts_ids: "read_rollouts fuel d home ds m = Some (Inr ds') \<Longrightarrow> draft_ids ds \<subseteq> draft_ids ds'"
  by (auto simp: read_rollouts_def Let_def tryR_Inr split: if_splits dest: for_rollouts_ids)

subsection \<open>The report\<close>

lemma build_report_cases:
  assumes "build_host_sessions_report fuel d load_sessions si = Some (Inr r)" and "si_enabled si"
  obtains ds history app ok truncated where
    "drafts_ok ds" "present ds = {}"
    "\<And>ds0. read_session_index d (codex_home_of d si) [] (si_max_sessions si) = Inr ds0 \<Longrightarrow> draft_ids ds0 \<subseteq> draft_ids ds"
    "read_history_sessions d (codex_home_of d si) (si_max_sessions si) = Inr history"
    "app_part (map_option (\<lambda>url. load_sessions url (si_max_sessions si) (si_app_server_timeout_seconds si)
       (si_app_server_auth_token_file si)) (si_app_server_url si)) = (app, ok, truncated)"
    "hr_sessions r = take (si_max_sessions si) (host_sessions_from ds history app)"
    "hr_inventory_scope r = Full \<longleftrightarrow>
       \<not> truncated \<and> length (host_sessions_from ds history app) \<le> si_max_sessions si"
    "hr_app_server_inventory_ok r = ok"
proof -
  let ?home = "codex_home_of d si" and ?m = "si_max_sessions si"
  obtain ds0 where i: "read_session_index d ?home [] ?m = Inr ds0"
    using assms by (auto simp: build_host_sessions_report_def Let_def split: sum.splits)
  obtain ds history where ds: "read_rollouts fuel d ?home ds0 ?m = Some (Inr ds)"
    and h: "read_history_sessions d ?home ?m = Inr history"
    using assms i by (auto simp: build_host_sessions_report_def Let_def tryR_Inr)
  obtain app ok truncated where a: "app_part (map_option (\<lambda>url. load_sessions url ?m
       (si_app_server_timeout_seconds si) (si_app_server_auth_token_file si)) (si_app_server_url si)) = (app, ok, truncated)"
    by (metis prod_cases3)
  have "drafts_ok ds0 \<and> present ds0 = {}" using read_session_index_ok [OF i] by simp
  then have "drafts_ok ds" "present ds = {}" using read_rollouts_ok [OF ds] by simp_all
  moreover have "draft_ids ds1 \<subseteq> draft_ids ds" if "read_session_index d ?home [] ?m = Inr ds1" for ds1
    using that i read_rollouts_ids [OF ds] by simp
  moreover have "r = \<lparr> hr_sessions = take ?m (host_sessions_from ds history app),
      hr_inventory_scope = (if truncated \<or> ?m < length (host_sessions_from ds history app) then Incremental else Full),
      hr_app_server_inventory_ok = ok \<rparr>"
    using assms i ds h a by (simp add: build_host_sessions_report_def Let_def)
  ultimately show thesis using that h a by auto
qed

lemma fallback_title_nonempty: "fallback_title k cwd \<noteq> []"
  by (simp add: fallback_title_def split: option.splits)

lemma resolve_title_nonempty: "hs_title (resolve_session dr t history) \<noteq> []"
  by (auto simp: resolve_session_def fallback_title_nonempty dest: compact_title_Some split: option.splits)

lemma host_sessions_titles: "s \<in> set (host_sessions_from ds history app) \<Longrightarrow> hs_title s \<noteq> []"
  by (auto simp: host_sessions_from_eq session_of_def resolve_title_nonempty)


subsection \<open>Resuming\<close>

definition all_valid :: "(string + string) list \<Rightarrow> bool" where
  "all_valid ls \<longleftrightarrow> (\<forall>e. Inl e \<notin> set ls)"

lemma fold_lines_all_valid: "fold_lines f ls acc = Inr r \<Longrightarrow> all_valid ls"
  by (induction f ls acc rule: fold_lines.induct) (auto simp: all_valid_def)

lemma scan_lines_found: "all_valid ls \<Longrightarrow> Inr l \<in> set ls \<Longrightarrow> P l \<Longrightarrow> scan_lines P ls = Inr True"
  by (induction P ls rule: scan_lines.induct) (auto simp: all_valid_def)

lemma resume_cwd_line_matched:
  "resume_cwd_line d k (m, c) l = (m', c') \<Longrightarrow>
     (m' \<longleftrightarrow> m \<or> is_session_meta_of d k l) \<and> (c' \<noteq> None \<longrightarrow> c \<noteq> None \<or> m')"
  by (auto simp: resume_cwd_line_def is_session_meta_of_def jget2_def jget_str_def or_else_def
      split: option.splits if_splits)

lemma resume_fold:
  "fold_lines (resume_cwd_line d k) ls (m, c) = Inr (m', c') \<Longrightarrow> (c \<noteq> None \<longrightarrow> m) \<Longrightarrow>
     (m' \<longleftrightarrow> m \<or> (\<exists>l. Inr l \<in> set ls \<and> is_session_meta_of d k l)) \<and> (c' \<noteq> None \<longrightarrow> m')"
proof (induction ls arbitrary: m c)
  case (Cons a ls)
  then obtain l where a: "a = Inr l" by (cases a) auto
  obtain m1 c1 where step: "resume_cwd_line d k (m, c) l = (m1, c1)" by fastforce
  from resume_cwd_line_matched [OF step] Cons.prems(2) have "c1 \<noteq> None \<longrightarrow> m1" by blast
  moreover have "fold_lines (resume_cwd_line d k) ls (m1, c1) = Inr (m', c')"
    using Cons.prems(1) a step by simp
  ultimately have "(m' \<longleftrightarrow> m1 \<or> (\<exists>l. Inr l \<in> set ls \<and> is_session_meta_of d k l)) \<and> (c' \<noteq> None \<longrightarrow> m')"
    by (rule Cons.IH [rotated])
  with resume_cwd_line_matched [OF step] a show ?case by auto
qed auto

lemma resume_cwd_of_session:
  assumes "rollout_resume_cwd d path session_id = Inr (Some cwd)"
  shows "rollout_path_has_session_id d path session_id = Inr True"
proof -
  obtain ls m where h: "head_lines d path = Inr ls"
    and f: "fold_lines (resume_cwd_line d session_id) ls (False, None) = Inr (m, Some cwd)"
    using assms by (auto simp: rollout_resume_cwd_def tryR_Inr)
  from resume_fold [OF f] obtain l where "Inr l \<in> set ls" "is_session_meta_of d session_id l" by auto
  with scan_lines_found fold_lines_all_valid [OF f] h show ?thesis
    by (simp add: rollout_path_has_session_id_def)
qed

lemma find_rollout_path_facts:
  assumes "find_rollout_path fuel d home session_id m = Some (Inr (Some path))"
  shows "is_rollout_name path \<and> rollout_path_has_session_id d path session_id = Inr True"
proof -
  have first: "first_rollout_of d session_id ps = Inr (Some path) \<Longrightarrow>
      path \<in> set ps \<and> rollout_path_has_session_id d path session_id = Inr True" for ps
    by (induction ps) (auto simp: tryR_Inr split: if_splits)
  obtain ps where ps: "rollout_paths fuel d (path_join home ''sessions'') (max (rollout_scan_limit m) 1000) = Some (Inr ps)"
    "first_rollout_of d session_id ps = Inr (Some path)"
    using assms by (auto simp: find_rollout_path_def Let_def tryR_Inr split: if_splits)
  from first [OF ps(2)] rollout_paths_facts [OF ps(1)] show ?thesis by blast
qed

end
