(* ===== verification/Inventory_Claims.thy ===== *)
theory Inventory_Claims
  imports Inventory_Report
begin

text \<open>The properties of the session inventory, with witnesses on a small home directory.\<close>

subsection \<open>A home directory to evaluate on\<close>

definition demo_json_line :: "string \<Rightarrow> json option" where
  "demo_json_line l =
     (if l = ''meta''
      then Some (jobj [(''type'', JStr ''session_meta''),
                       (''payload'', jobj [(''id'', JStr ''s2''), (''cwd'', JStr ''/work'')])])
      else if l = ''call''
      then Some (jobj [(''type'', JStr ''response_item''),
                       (''payload'', jobj [(''type'', JStr ''function_call''), (''name'', JStr ''ls'')])])
      else None)"

definition demo_history_line :: "string \<Rightarrow> history_line option" where
  "demo_history_line l =
     (if l = ''first'' then Some \<lparr> hl_session_id = ''s1'', hl_text = Some ''Fix it'', hl_ts = Some 0 \<rparr> else None)"

definition demo_disk :: disk where
  "demo_disk =
     \<lparr> dk_exists = (\<lambda>p. p \<in> {''h/history.jsonl'', ''h/sessions''}),
       dk_is_dir = (\<lambda>p. p = ''h/sessions''), dk_is_file = (\<lambda>p. p = ''h/sessions/rollout-1.jsonl''),
       dk_read = (\<lambda>p. if p = ''h/history.jsonl'' then Inr (''first'' @ [nl] @ ''junk'')
                      else if p = ''h/sessions/rollout-1.jsonl'' then Inr (''meta'' @ [nl] @ ''call'' @ [nl])
                      else Inl ''No such file or directory''),
       dk_read_dir = (\<lambda>p. if p = ''h/sessions'' then Inr [Inr ''h/sessions/rollout-1.jsonl'']
                          else Inl ''No such file or directory''),
       dk_mtime = (\<lambda>p. Some 5), dk_json = demo_json_line, dk_index_line = (\<lambda>l. None),
       dk_history_line = demo_history_line, dk_default_codex_home = ''h'' \<rparr>"

definition demo_inventory :: app_server_session_inventory where
  "demo_inventory =
     \<lparr> asi_sessions = [(''s3'', \<lparr> ass_name = Some ''From the server'', ass_cwd = None,
         ass_updated_at = Some ''2026-01-01T00:00:00.000Z'' \<rparr>)], asi_truncated = False \<rparr>"

definition demo_si :: session_inventory_config where
  "demo_si = session_inventory_config_default\<lparr>si_app_server_url := Some ''unix:///run/codex.sock''\<rparr>"

definition demo_load :: "string \<Rightarrow> nat \<Rightarrow> nat \<Rightarrow> string option \<Rightarrow> string + app_server_session_inventory" where
  "demo_load url m timeout token = Inr demo_inventory"

definition demo_report :: agent_host_sessions_report where
  "demo_report =
     \<lparr> hr_sessions =
         [\<lparr> hs_session_id = ''s3'', hs_title = ''From the server'', hs_title_source = TitleAppServer,
            hs_app_server_present = True, hs_cwd = None, hs_updated_at = ''2026-01-01T00:00:00.000Z'' \<rparr>,
          \<lparr> hs_session_id = ''s1'', hs_title = ''Fix it'', hs_title_source = TitleHistory,
            hs_app_server_present = False, hs_cwd = None, hs_updated_at = ''1970-01-01T00:00:00.000Z'' \<rparr>,
          \<lparr> hs_session_id = ''s2'', hs_title = ''work (s2)'', hs_title_source = TitleFallback,
            hs_app_server_present = False, hs_cwd = Some ''/work'', hs_updated_at = ''1970-01-01T00:00:00.000Z'' \<rparr>],
       hr_inventory_scope = Full, hr_app_server_inventory_ok = Some True \<rparr>"

lemma demo_report_built: "build_host_sessions_report 3 demo_disk demo_load demo_si = Some (Inr demo_report)"
  by code_simp


definition demo_backfill :: host_session_backfill where
  "demo_backfill =
     \<lparr> hb_events =
         [\<lparr> be_kind = ''command.output'', be_priority = ''P3'', be_summary = ''unknown time - Tool call: ls'',
            be_idempotency_key = ''rollout:s2:unknown time:function_call:'' @ stable_hash ''call'',
            be_created_at = ''1970-01-01T00:00:00.000Z'' \<rparr>],
       hb_truncated = False \<rparr>"

lemma demo_path_found: "find_rollout_path 3 demo_disk ''h'' ''s2'' 100 = Some (Inr (Some ''h/sessions/rollout-1.jsonl''))"
  by code_simp

lemma demo_backfill_built: "build_host_session_backfill 3 demo_disk demo_si ''s2'' 5 = Some (Inr demo_backfill)"
  by code_simp

lemma demo_home: "codex_home_of demo_disk demo_si = ''h''" "si_max_sessions demo_si = 100"
  by code_simp+

lemma demo_ranked: "ranked_dirs demo_disk (\<lambda>p. 0)"
  by (auto simp: ranked_dirs_def demo_disk_def split: if_splits)

subsection \<open>The properties\<close>

text \<open>
  C17: The backward reader is equivalent to reading the whole file. \<open>read_recent_lines\<close> reads
  8 KiB chunks from the end until it has seen more newlines than lines wanted, decodes what it
  has and keeps the last lines. The result is exactly the last \<open>limit\<close> lines of the whole file
  decoded at once, whatever the chunk boundaries cut: lines, CR-LF pairs or characters.
\<close>

theorem recent_lines_are_the_last_lines:
  "read_recent_lines d path limit =
     (if limit = 0 then Inr []
      else (case dk_read d path of
              Inl e \<Rightarrow> Inl e
            | Inr content \<Rightarrow> Inr (last_n limit (str_lines (utf8_lossy content)))))"
  by (simp add: read_recent_lines_def recent_lines_eq split: sum.split)

text \<open>
  C26: A host report is well formed. Its sessions are sorted, latest first and by id where the
  times agree; no session is listed twice; there are at most \<open>max_sessions\<close> of them; none has
  an empty title.
\<close>

theorem host_report_is_well_formed:
  assumes "build_host_sessions_report fuel d load_sessions si = Some (Inr r)"
  shows "sorted_wrt session_order (hr_sessions r)
    \<and> distinct (map hs_session_id (hr_sessions r))
    \<and> length (hr_sessions r) \<le> si_max_sessions si
    \<and> (\<forall>s \<in> set (hr_sessions r). hs_title s \<noteq> [])"
proof (cases "si_enabled si")
  case True
  from assms True show ?thesis
  proof (cases rule: build_report_cases)
    case (1 ds history app ok truncated)
    then show ?thesis
      using sorted_host_sessions host_sessions_distinct [of ds]
      by (auto simp: sorted_wrt_take take_map [symmetric] dest: in_set_takeD host_sessions_titles)
  qed
next
  case False
  with assms have "r = \<lparr> hr_sessions = [], hr_inventory_scope = Incremental, hr_app_server_inventory_ok = None \<rparr>"
    by (simp add: build_host_sessions_report_def)
  then show ?thesis by simp
qed

theorem host_report_is_well_formed_witness:
  "length (hr_sessions demo_report) \<le> si_max_sessions demo_si \<and> sorted_wrt session_order (hr_sessions demo_report)"
  using host_report_is_well_formed [OF demo_report_built] by blast

text \<open>
  C27: A report that calls itself full leaves nothing out. When the scope is \<open>Full\<close> and the app
  server answered, the listing was not truncated, the sessions marked as present in the app
  server are exactly the ones it listed, and every session of the index and of the history that
  was read is in the report.
\<close>

theorem full_report_misses_nothing:
  assumes "build_host_sessions_report fuel d load_sessions si = Some (Inr r)"
    and "hr_inventory_scope r = Full"
    and "si_app_server_url si = Some url"
    and "load_sessions url (si_max_sessions si) (si_app_server_timeout_seconds si)
           (si_app_server_auth_token_file si) = Inr inventory"
  shows "\<not> asi_truncated inventory
    \<and> {hs_session_id s | s. s \<in> set (hr_sessions r) \<and> hs_app_server_present s} = fst ` set (asi_sessions inventory)
    \<and> (\<forall>ds. read_session_index d (codex_home_of d si) [] (si_max_sessions si) = Inr ds \<longrightarrow>
          draft_ids ds \<subseteq> hs_session_id ` set (hr_sessions r))
    \<and> (\<forall>history. read_history_sessions d (codex_home_of d si) (si_max_sessions si) = Inr history \<longrightarrow>
          fst ` set history \<subseteq> hs_session_id ` set (hr_sessions r))"
proof -
  have "si_enabled si"
    using assms(1,2) by (auto simp: build_host_sessions_report_def split: if_splits)
  from assms(1) this show ?thesis
  proof (cases rule: build_report_cases)
    case (1 ds history app ok truncated)
    from 1(5) assms(3,4) have app: "app = asi_sessions inventory" "truncated = asi_truncated inventory"
      by (simp_all add: app_part_def)
    from 1(7) assms(2) have full: "\<not> truncated" "length (host_sessions_from ds history app) \<le> si_max_sessions si"
      by simp_all
    with 1(6) have all: "hr_sessions r = host_sessions_from ds history app" by simp
    have index: "draft_ids ds0 \<subseteq> hs_session_id ` set (hr_sessions r)"
      if "read_session_index d (codex_home_of d si) [] (si_max_sessions si) = Inr ds0" for ds0
      using 1(3) [OF that] by (auto simp: all host_sessions_ids [OF 1(1)])
    show ?thesis
      using index full(1) app 1(4) host_sessions_present [OF 1(1), of history app] 1(2)
        host_sessions_ids [OF 1(1), of history app]
      by (auto simp: all)
  qed
qed


lemma demo_loaded:
  "si_app_server_url demo_si = Some ''unix:///run/codex.sock''"
  "hr_inventory_scope demo_report = Full"
  "demo_load ''unix:///run/codex.sock'' (si_max_sessions demo_si) (si_app_server_timeout_seconds demo_si)
     (si_app_server_auth_token_file demo_si) = Inr demo_inventory"
  by (simp_all add: demo_si_def demo_report_def demo_load_def)

theorem full_report_misses_nothing_witness:
  "{hs_session_id s | s. s \<in> set (hr_sessions demo_report) \<and> hs_app_server_present s} = fst ` set (asi_sessions demo_inventory)"
  using full_report_misses_nothing [OF demo_report_built demo_loaded(2) demo_loaded(1) demo_loaded(3)] by blast

text \<open>
  C34: The report does not depend on hash order. \<open>HashMap\<close> hands out its entries in an
  arbitrary order; whatever the orders of the drafts, of the history and of the app server's
  sessions, the list of host sessions that is built from the same maps is the same.
\<close>

theorem report_ignores_map_order:
  assumes "drafts_ok ds" and "drafts_ok ds'"
    and "same_map ds ds'" and "same_map history history'" and "same_map app app'"
  shows "host_sessions_from ds history app = host_sessions_from ds' history' app'"
  using assms by (rule host_sessions_same)

definition two_drafts :: drafts where
  "two_drafts = [(''a'', new_draft ''a''), (''b'', new_draft ''b'')]"

theorem report_ignores_map_order_witness:
  "host_sessions_from two_drafts [] (asi_sessions demo_inventory)
     = host_sessions_from (rev two_drafts) [] (asi_sessions demo_inventory)"
  by (rule report_ignores_map_order)
    (auto simp: two_drafts_def drafts_ok_def same_map_def new_draft_def demo_inventory_def)

text \<open>
  C36: A backfill is the end of the session's record. It holds at most the limit, clamped to
  1..80, events; where a rollout of the session was found they are the last of the events of the
  whole file, and all of them when the backfill does not say it is truncated.
\<close>

theorem backfill_is_the_end_of_the_record:
  assumes "build_host_session_backfill fuel d si session_id limit = Some (Inr b)"
  shows "length (hb_events b) \<le> clamp 1 80 limit \<and> length (hb_events b) \<le> 80
    \<and> (\<forall>path. find_rollout_path fuel d (codex_home_of d si) session_id (si_max_sessions si) = Some (Inr (Some path)) \<longrightarrow>
         (\<exists>content earlier. dk_read d path = Inr content
            \<and> List.map_filter (rollout_line_event d session_id) (str_lines (utf8_lossy content))
                = earlier @ hb_events b
            \<and> (\<not> hb_truncated b \<longrightarrow> earlier = [])))"
proof -
  let ?limit = "clamp 1 80 limit"
  have le: "?limit \<le> 80" by (simp add: clamp_def)
  obtain found where f: "find_rollout_path fuel d (codex_home_of d si) session_id (si_max_sessions si) = Some (Inr found)"
    and b: "(case found of Some path \<Rightarrow> read_rollout_backfill d path session_id ?limit
             | None \<Rightarrow> read_history_backfill d (codex_home_of d si) session_id ?limit (si_max_sessions si)) = Inr b"
    using assms by (auto simp: build_host_session_backfill_def Let_def tryR_Inr One_nat_def [symmetric]
        simp del: One_nat_def split: if_splits)
  show ?thesis
  proof (cases found)
    case None
    with b f le history_backfill_facts show ?thesis by fastforce
  next
    case (Some path)
    with b have r: "read_rollout_backfill d path session_id ?limit = Inr b" by simp
    from rollout_backfill_facts [OF r] le f Some show ?thesis by auto
  qed
qed

theorem backfill_is_the_end_of_the_record_witness: "length (hb_events demo_backfill) \<le> clamp 1 80 5"
  using backfill_is_the_end_of_the_record [OF demo_backfill_built] by blast

text \<open>
  The inventory's walks come back. Where directories do not contain one another in a circle
  (they have a rank that falls from a directory to those in it), walking with more fuel than the
  rank of the sessions directory finishes: both the report and a backfill are answered.
\<close>

theorem inventory_walks_return:
  assumes "ranked_dirs d rank" and "rank (path_join (codex_home_of d si) ''sessions'') < fuel"
  shows "build_host_sessions_report fuel d load_sessions si \<noteq> None
    \<and> build_host_session_backfill fuel d si session_id limit \<noteq> None"
  using build_report_returns [OF assms] build_backfill_returns [OF assms] by blast

theorem inventory_walks_return_witness: "build_host_session_backfill 1 demo_disk demo_si ''s2'' 5 \<noteq> None"
  using inventory_walks_return [of demo_disk "\<lambda>_. 0" demo_si 1] demo_ranked by simp

text \<open>
  A working directory is only resumed from the session's own record: when
  \<open>rollout_resume_cwd\<close> answers a directory, the file has a \<open>session_meta\<close> line of that session
  among its first lines. And the path \<open>find_rollout_path\<close> answers is such a file, with the name
  of a rollout.
\<close>

theorem resumed_directory_is_the_sessions:
  assumes "rollout_resume_cwd d path session_id = Inr (Some cwd)"
  shows "rollout_path_has_session_id d path session_id = Inr True
    \<and> (\<forall>fuel home m found. find_rollout_path fuel d home session_id m = Some (Inr (Some found)) \<longrightarrow>
         is_rollout_name found \<and> rollout_path_has_session_id d found session_id = Inr True)"
  using resume_cwd_of_session [OF assms] find_rollout_path_facts by blast

theorem resumed_directory_is_the_sessions_witness:
  "rollout_path_has_session_id demo_disk ''h/sessions/rollout-1.jsonl'' ''s2'' = Inr True"
proof -
  have "rollout_resume_cwd demo_disk ''h/sessions/rollout-1.jsonl'' ''s2'' = Inr (Some ''/work'')"
    by code_simp
  from resumed_directory_is_the_sessions [OF this] show ?thesis by blast
qed

end
