(* ===== verification/Interaction.thy ===== *)
theory Interaction
  imports Session_Types
begin

text \<open>
  The content of a turn interaction (\<open>session_inventory.rs\<close>): the event a request of the
  app-server becomes, the payload the user decides on, the decisions and permissions it may
  offer, the result sent back for the user's response, and the event of a resolution. Errors
  are the texts of \<open>AppServerCommandError::Other\<close>.
\<close>

definition method_command :: string where "method_command = ''item/commandExecution/requestApproval''"
definition method_file_change :: string where "method_file_change = ''item/fileChange/requestApproval''"
definition method_permissions :: string where "method_permissions = ''item/permissions/requestApproval''"
definition method_user_input :: string where "method_user_input = ''item/tool/requestUserInput''"

lemmas turn_methods = method_command_def method_file_change_def method_permissions_def method_user_input_def

definition app_server_turn_request_method :: "string \<Rightarrow> bool" where
  "app_server_turn_request_method m \<longleftrightarrow>
     m \<in> {method_command, method_file_change, method_permissions, method_user_input}"

definition auto_resolution_response_grace_ms :: nat where "auto_resolution_response_grace_ms = 250"

subsection \<open>What a request may offer\<close>

definition execpolicy_amendment_is_valid :: "json \<Rightarrow> bool" where
  "execpolicy_amendment_is_valid v =
     (case as_array v of None \<Rightarrow> False
      | Some items \<Rightarrow> items \<noteq> [] \<and> (\<forall>i \<in> set items. case as_str i of Some p \<Rightarrow> nonblank p | None \<Rightarrow> False))"

definition amendment_decision :: "json \<Rightarrow> json" where
  "amendment_decision a =
     jobj [(''acceptWithExecpolicyAmendment'', jobj [(''execpolicy_amendment'', a)])]"

definition normalized_approval_decision :: "json \<Rightarrow> json option" where
  "normalized_approval_decision v =
     (case v of
        JStr d \<Rightarrow>
          (if d \<in> {''accept'', ''acceptForSession'', ''decline'', ''cancel''} then Some (JStr d) else None)
      | JObj m \<Rightarrow>
          do { amendment \<leftarrow> map_of m ''acceptWithExecpolicyAmendment'';
               amendment \<leftarrow> jget amendment ''execpolicy_amendment'';
               (if execpolicy_amendment_is_valid amendment then Some (amendment_decision amendment) else None) }
      | _ \<Rightarrow> None)"

definition available_approval_decisions_from_request :: "json \<Rightarrow> json option" where
  "available_approval_decisions_from_request params =
     (case jget params ''availableDecisions'' of
        None \<Rightarrow> None
      | Some (JArr ds) \<Rightarrow> Some (JArr (List.map_filter normalized_approval_decision ds))
      | Some _ \<Rightarrow> Some (JArr []))"

definition proposed_execpolicy_amendment_from_request :: "json \<Rightarrow> json option" where
  "proposed_execpolicy_amendment_from_request params =
     do { a \<leftarrow> jget params ''proposedExecpolicyAmendment'';
          (if execpolicy_amendment_is_valid a then Some a else None) }"

definition network_approval_context_from_request :: "json \<Rightarrow> json option" where
  "network_approval_context_from_request params =
     do { v \<leftarrow> jget params ''networkApprovalContext''; m \<leftarrow> as_object v;
          (if m = [] then None else Some (JObj m)) }"

text \<open>The permissions asked for that are not \<open>null\<close>: those shown and those granted.\<close>

definition asked_permissions :: "json \<Rightarrow> (string \<times> json) list" where
  "asked_permissions requested =
     (let asked = \<lambda>k. opt_entry k (\<lambda>v. v) (case jget requested k of
                         Some v \<Rightarrow> (if is_null v then None else Some v) | None \<Rightarrow> None)
      in obj_of (asked ''network'' @ asked ''fileSystem''))"

definition granted_permissions_from_request :: "json \<Rightarrow> json" where
  "granted_permissions_from_request params =
     (case jget params ''permissions'' of None \<Rightarrow> jobj [] | Some r \<Rightarrow> JObj (asked_permissions r))"

definition requested_permissions_from_request :: "json \<Rightarrow> json option" where
  "requested_permissions_from_request params =
     (case jget params ''permissions'' of None \<Rightarrow> None
      | Some r \<Rightarrow> (if asked_permissions r = [] then None else Some (JObj (asked_permissions r))))"

definition question_flag :: "json \<Rightarrow> string \<Rightarrow> json" where
  "question_flag v k = JBool (case jget_bool v k of Some b \<Rightarrow> b | None \<Rightarrow> False)"

definition question_option :: "json \<Rightarrow> json option" where
  "question_option v =
     do { label \<leftarrow> jget_str v ''label''; description \<leftarrow> jget_str v ''description'';
          Some (jobj [(''label'', JStr label), (''description'', JStr description)]) }"

definition question_options :: "json \<Rightarrow> json list" where
  "question_options v =
     (case jget_array v ''options'' of None \<Rightarrow> [] | Some xs \<Rightarrow> List.map_filter question_option xs)"

definition turn_interaction_question :: "json \<Rightarrow> json option" where
  "turn_interaction_question v =
     do { i \<leftarrow> filter_nonblank (jget_str v ''id'');
          header \<leftarrow> filter_nonblank (jget_str v ''header'');
          question \<leftarrow> filter_nonblank (jget_str v ''question'');
          Some (jobj ([(''id'', JStr i), (''header'', JStr header), (''question'', JStr question),
                       (''is_other'', question_flag v ''isOther''),
                       (''is_secret'', question_flag v ''isSecret'')]
                    @ (if question_options v = [] then [] else [(''options'', JArr (question_options v))]))) }"

subsection \<open>The payload and the event\<close>

definition turn_interaction_id :: "('z serde_scheme) \<Rightarrow> string \<Rightarrow> json \<Rightarrow> json \<Rightarrow> string" where
  "turn_interaction_id sd m request_id params =
     (let target = (case jget_str params ''approvalId'' of Some t \<Rightarrow> Some t | None \<Rightarrow> jget_str params ''itemId'')
      in js_print sd (JArr [JStr m, (case target of Some t \<Rightarrow> JStr t | None \<Rightarrow> JNull), request_id]))"

definition json_rpc_turn_request_id :: "json option \<Rightarrow> json option" where
  "json_rpc_turn_request_id v =
     (case v of
        Some (JStr s) \<Rightarrow> Some (JStr s)
      | Some (JNum n) \<Rightarrow> (if is_i64 n \<or> is_u64 n then Some (JNum n) else None)
      | _ \<Rightarrow> None)"

definition approval_entries :: "json \<Rightarrow> string + (string \<times> json) list" where
  "approval_entries params =
     (let no_decisions = ''app-server approval request did not include any valid approval decisions'';
          actions = (case jget_array params ''commandActions'' of
                       Some a \<Rightarrow> (if a = [] then None else Some a) | None \<Rightarrow> None)
      in case available_approval_decisions_from_request params of
           None \<Rightarrow> Inl no_decisions
         | Some ds \<Rightarrow>
             (if (case as_array ds of Some xs \<Rightarrow> xs = [] | None \<Rightarrow> True) then Inl no_decisions
              else Inr (opt_entry ''command_actions'' JArr actions
                      @ opt_entry ''proposed_execpolicy_amendment'' (\<lambda>a. a)
                          (proposed_execpolicy_amendment_from_request params)
                      @ opt_entry ''network_approval_context'' (\<lambda>c. c)
                          (network_approval_context_from_request params)
                      @ [(''available_decisions'', ds)])))"

definition turn_interaction_payload ::
  "('z serde_scheme) \<Rightarrow> string \<Rightarrow> json \<Rightarrow> json \<Rightarrow> string \<Rightarrow> string option \<Rightarrow> string \<Rightarrow> string option
    \<Rightarrow> string option \<Rightarrow> string option \<Rightarrow> string option \<Rightarrow> json list option \<Rightarrow> nat option \<Rightarrow> string + json"
where
  "turn_interaction_payload sd m request_id params request_kind subject title detail command cwd
       grant_root questions auto_ms =
     (case jget_str params ''threadId'' of
        None \<Rightarrow> Inl ''app-server interaction request did not include threadId''
      | Some thread_id \<Rightarrow>
      (case jget_str params ''turnId'' of
        None \<Rightarrow> Inl ''app-server interaction request did not include turnId''
      | Some turn_id \<Rightarrow>
      (case (if request_kind = ''approval'' then approval_entries params else Inr []) of
        Inl e \<Rightarrow> Inl e
      | Inr approval \<Rightarrow>
          Inr (jobj (
            [(''type'', JStr ''turn_interaction''),
             (''interaction_id'', JStr (turn_interaction_id sd m request_id params)),
             (''status'', JStr ''pending''), (''method'', JStr m), (''request_kind'', JStr request_kind)]
            @ opt_entry ''subject'' JStr subject
            @ [(''app_server_thread_id'', JStr thread_id), (''app_server_turn_id'', JStr turn_id)]
            @ opt_entry ''app_server_item_id'' JStr (jget_str params ''itemId'')
            @ [(''title'', JStr title)]
            @ opt_entry ''detail'' JStr (filter_nonblank detail)
            @ opt_entry ''command'' JStr (filter_nonblank command)
            @ opt_entry ''cwd'' JStr (filter_nonblank cwd)
            @ approval
            @ opt_entry ''grant_root'' JStr (filter_nonblank grant_root)
            @ opt_entry ''requested_permissions'' (\<lambda>p. p) (requested_permissions_from_request params)
            @ opt_entry ''questions'' JArr
                (case questions of Some qs \<Rightarrow> (if qs = [] then None else Some qs) | None \<Rightarrow> None)
            @ (case auto_ms of None \<Rightarrow> []
               | Some ms \<Rightarrow> [(''auto_resolution_ms'', JNum (PosInt ms)),
                            (''auto_resolution_response_grace_ms'',
                             JNum (PosInt auto_resolution_response_grace_ms))]))))))"

definition interaction_event :: "string \<Rightarrow> string \<Rightarrow> string + json \<Rightarrow> string + connector_event" where
  "interaction_event kind summary payload =
     (case payload of Inl e \<Rightarrow> Inl e
      | Inr p \<Rightarrow> Inr \<lparr> ev_kind = kind, ev_priority = ''P0'', ev_summary = summary, ev_payload = Some p \<rparr>)"

definition turn_interaction_event ::
  "('z serde_scheme) \<Rightarrow> string \<Rightarrow> json \<Rightarrow> json \<Rightarrow> string + connector_event" where
  "turn_interaction_event sd m request_id params =
     (let cwd = jget_str params ''cwd''; reason = jget_str params ''reason'' in
      if m = method_command
      then (let command = filter_nonblank (jget_str params ''command'')
            in interaction_event ''approval.requested''
                 (case command of Some c \<Rightarrow> ''Approval requested for command: '' @ c
                  | None \<Rightarrow> ''Approval requested for command execution.'')
                 (turn_interaction_payload sd m request_id params ''approval'' (Some ''command_execution'')
                    ''Approve command execution'' reason command cwd None None None))
      else if m = method_file_change
      then (let grant_root = jget_str params ''grantRoot''
            in interaction_event ''approval.requested''
                 (case grant_root of Some r \<Rightarrow> ''Approval requested for file changes under '' @ r @ ''.''
                  | None \<Rightarrow> ''Approval requested for file changes.'')
                 (turn_interaction_payload sd m request_id params ''approval'' (Some ''file_change'')
                    ''Approve file change'' reason None None grant_root None None))
      else if m = method_permissions
      then interaction_event ''approval.requested'' ''Approval requested for app-server permissions.''
             (turn_interaction_payload sd m request_id params ''approval'' (Some ''permissions'')
                ''Approve permissions'' reason None cwd None None None)
      else if m = method_user_input
      then (let questions = (case jget_array params ''questions'' of None \<Rightarrow> []
                             | Some qs \<Rightarrow> List.map_filter turn_interaction_question qs)
            in if questions = []
               then Inl ''app-server user input request did not include any valid questions''
               else interaction_event ''input.requested''
                      (''Codex requested '' @ show_nat (length questions) @ '' input ''
                         @ (if length questions = 1 then ''answer'' else ''answers'') @ ''.'')
                      (turn_interaction_payload sd m request_id params ''input'' None
                         ''Provide requested input'' None None None None (Some questions)
                         (Option.bind (jget params ''autoResolutionMs'') as_u64)))
      else Inl (''unsupported app-server interaction method: '' @ m))"

subsection \<open>The result for the user's response\<close>

definition approval_decision_is :: "json \<Rightarrow> string \<Rightarrow> bool" where
  "approval_decision_is decision expected \<longleftrightarrow>
     as_str decision = Some expected
     \<or> (expected = ''acceptWithExecpolicyAmendment''
        \<and> (case jget2 decision ''acceptWithExecpolicyAmendment'' ''execpolicy_amendment'' of
             Some a \<Rightarrow> execpolicy_amendment_is_valid a | None \<Rightarrow> False))"

definition approval_resolution_status :: "json \<Rightarrow> string" where
  "approval_resolution_status decision =
     (if approval_decision_is decision ''accept'' then ''accepted''
      else if approval_decision_is decision ''acceptForSession'' then ''accepted_for_session''
      else if approval_decision_is decision ''decline'' then ''declined''
      else if approval_decision_is decision ''acceptWithExecpolicyAmendment''
      then ''accepted_with_execpolicy_amendment''
      else ''cancelled'')"

definition answers_json :: "(string \<times> string list) list \<Rightarrow> json" where
  "answers_json answers = jobj (map (\<lambda>(k, as). (k, jobj [(''answers'', JArr (map JStr as))])) answers)"

definition app_server_turn_interaction_result ::
  "string \<Rightarrow> json \<Rightarrow> turn_interaction_response \<Rightarrow> string + json" where
  "app_server_turn_interaction_result m params response =
     (case response of
        Approval decision \<Rightarrow>
          (if m \<in> {method_command, method_file_change} then Inr (jobj [(''decision'', decision)])
           else if m = method_permissions
           then Inr (jobj
                  [(''permissions'',
                    if approval_decision_is decision ''accept'' \<or> approval_decision_is decision ''acceptForSession''
                    then granted_permissions_from_request params else jobj []),
                   (''scope'', JStr (if approval_decision_is decision ''acceptForSession'' then ''session'' else ''turn''))])
           else if m = method_user_input then Inl ''input request received an approval response''
           else Inl (''unsupported app-server interaction method: '' @ m))
      | Input answers \<Rightarrow>
          (if m = method_user_input then Inr (jobj [(''answers'', answers_json answers)])
           else Inl ''approval request received an input response''))"

definition auto_resolved_input_response :: "string \<Rightarrow> string \<Rightarrow> turn_interaction_response_dispatch" where
  "auto_resolved_input_response command_id interaction_id =
     \<lparr> ti_request_id = None, ti_command_id = command_id, ti_interaction_id = interaction_id,
       ti_response = Input [], ti_auto_resolved = True \<rparr>"

definition turn_interaction_resolution_event ::
  "turn_interaction_response_dispatch \<Rightarrow> json option \<Rightarrow> string + connector_event" where
  "turn_interaction_resolution_event d request_payload =
     (case request_payload of
        None \<Rightarrow> Inl ''turn interaction resolution did not include request payload''
      | Some p \<Rightarrow>
          (let title = (case jget_str p ''title'' of Some t \<Rightarrow> t | None \<Rightarrow> ''requested interaction'')
           in case ti_response d of
                Input answers \<Rightarrow>
                  Inr \<lparr> ev_kind = ''input.received'', ev_priority = ''P1'',
                        ev_summary = ''Input auto-resolved for '' @ title @ ''.'',
                        ev_payload = Some (jobj
                          [(''type'', JStr ''turn_interaction_resolution''),
                           (''interaction_id'', JStr (ti_interaction_id d)), (''status'', JStr ''answered''),
                           (''answer_count'', JNum (PosInt (length answers)))]) \<rparr>
              | Approval decision \<Rightarrow>
                  (let status = approval_resolution_status decision
                   in Inr \<lparr> ev_kind = ''approval.resolved'', ev_priority = ''P1'',
                            ev_summary = ''Approval '' @ replace_char (CHR ''_'') (CHR '' '') status
                              @ '' for '' @ title @ ''.'',
                            ev_payload = Some (jobj
                              [(''type'', JStr ''turn_interaction_resolution''),
                               (''interaction_id'', JStr (ti_interaction_id d)), (''status'', JStr status),
                               (''decision'', decision)]) \<rparr>)))"

definition notification_matches :: "json \<Rightarrow> string \<Rightarrow> string \<Rightarrow> bool" where
  "notification_matches params thread_id turn_id \<longleftrightarrow>
     jget_str params ''threadId'' = Some thread_id \<and> jget_str params ''turnId'' = Some turn_id"

definition turn_completed_notification_matches :: "json \<Rightarrow> string \<Rightarrow> string \<Rightarrow> bool" where
  "turn_completed_notification_matches params thread_id turn_id \<longleftrightarrow>
     jget_str params ''threadId'' = Some thread_id
     \<and> Option.bind (jget2 params ''turn'' ''id'') as_str = Some turn_id"

end
