(* ===== verification/Interaction_Claims.thy ===== *)
theory Interaction_Claims
  imports Interaction Inventory_Text Connector_Claims
begin

text \<open>The properties of turn interactions, with witnesses.\<close>

subsection \<open>Lemmas\<close>

definition valid_decision :: "json \<Rightarrow> bool" where
  "valid_decision d \<longleftrightarrow>
     d \<in> {JStr ''accept'', JStr ''acceptForSession'', JStr ''decline'', JStr ''cancel''}
     \<or> (\<exists>a. d = amendment_decision a \<and> execpolicy_amendment_is_valid a)"

lemma normalized_is_valid: "normalized_approval_decision v = Some d \<Longrightarrow> valid_decision d"
  by (auto simp: normalized_approval_decision_def valid_decision_def bind_eq_Some_conv
      split: json.splits if_splits)

lemma set_map_filter: "x \<in> set (List.map_filter f xs) \<longleftrightarrow> (\<exists>y \<in> set xs. f y = Some x)"
  by (induction xs) (auto simp: map_filter_simps split: option.splits)

lemma available_decisions_valid:
  "available_approval_decisions_from_request params = Some ds \<Longrightarrow> \<exists>xs. ds = JArr xs \<and> (\<forall>d \<in> set xs. valid_decision d)"
  by (auto simp: available_approval_decisions_from_request_def set_map_filter normalized_is_valid
      split: option.splits json.splits)

lemma approval_entries_lookups:
  assumes "approval_entries params = Inr es"
  shows "\<exists>ds. map_of (rev es) ''available_decisions'' = Some (JArr ds) \<and> ds \<noteq> [] \<and> (\<forall>d \<in> set ds. valid_decision d)"
    and "k \<notin> {''command_actions'', ''proposed_execpolicy_amendment'', ''network_approval_context'',
              ''available_decisions''} \<Longrightarrow> map_of (rev es) k = None"
proof -
  obtain ds where ds: "available_approval_decisions_from_request params = Some ds"
    using assms by (auto simp: approval_entries_def Let_def split: option.splits)
  with available_decisions_valid obtain xs where xs: "ds = JArr xs" "\<forall>d \<in> set xs. valid_decision d" by blast
  from assms ds xs have "xs \<noteq> []" by (auto simp: approval_entries_def Let_def split: if_splits)
  with assms ds xs show "\<exists>ds. map_of (rev es) ''available_decisions'' = Some (JArr ds) \<and> ds \<noteq> []
      \<and> (\<forall>d \<in> set ds. valid_decision d)"
    by (auto simp: approval_entries_def Let_def)
  from assms ds xs \<open>xs \<noteq> []\<close> show "k \<notin> {''command_actions'', ''proposed_execpolicy_amendment'',
      ''network_approval_context'', ''available_decisions''} \<Longrightarrow> map_of (rev es) k = None"
    by (auto simp: approval_entries_def Let_def map_add_def map_of_opt_entry)
qed

lemma payload_lookups:
  assumes "turn_interaction_payload sd m request_id params kind subject title detail command cwd grant qs ms = Inr p"
  shows "jget p ''interaction_id'' = Some (JStr (turn_interaction_id sd m request_id params))"
    and "jget p ''requested_permissions'' = requested_permissions_from_request params"
    and "jget p ''title'' = Some (JStr title)"
    and "kind = ''approval'' \<Longrightarrow>
      \<exists>ds. jget p ''available_decisions'' = Some (JArr ds) \<and> ds \<noteq> [] \<and> (\<forall>d \<in> set ds. valid_decision d)"
proof -
  define approval where "approval = (if kind = ''approval'' then approval_entries params else Inr [])"
  obtain thread turn es where h: "jget_str params ''threadId'' = Some thread" "jget_str params ''turnId'' = Some turn"
      "approval = Inr es"
    using assms by (auto simp: turn_interaction_payload_def approval_def split: option.splits sum.splits if_splits)
  have other: "map_of (rev es) k = None" if "k \<notin> {''command_actions'', ''proposed_execpolicy_amendment'',
      ''network_approval_context'', ''available_decisions''}" for k
    using h(3) approval_entries_lookups(2) [OF _ that] by (auto simp: approval_def split: if_splits)
  have offered: "kind = ''approval'' \<Longrightarrow> \<exists>ds. map_of (rev es) ''available_decisions'' = Some (JArr ds) \<and> ds \<noteq> []
      \<and> (\<forall>d \<in> set ds. valid_decision d)"
    using h(3) approval_entries_lookups(1) by (auto simp: approval_def)
  note payload = assms [unfolded turn_interaction_payload_def approval_def [symmetric] h option.case sum.case, THEN sum.inject(2) [THEN iffD1], symmetric]
  show "jget p ''interaction_id'' = Some (JStr (turn_interaction_id sd m request_id params))"
    by (simp add: payload map_add_def map_of_opt_entry other split: option.split)
  show "jget p ''requested_permissions'' = requested_permissions_from_request params"
    by (simp add: payload map_add_def map_of_opt_entry other split: option.split)
  show "jget p ''title'' = Some (JStr title)"
    by (simp add: payload map_add_def map_of_opt_entry other split: option.split)
  show "kind = ''approval'' \<Longrightarrow>
      \<exists>ds. jget p ''available_decisions'' = Some (JArr ds) \<and> ds \<noteq> [] \<and> (\<forall>d \<in> set ds. valid_decision d)"
    using offered by (auto simp: payload map_add_def map_of_opt_entry split: option.split)
qed


lemma event_payload:
  assumes "turn_interaction_event sd m request_id params = Inr e"
  shows "\<exists>kind subject title detail command cwd grant qs ms p.
     turn_interaction_payload sd m request_id params kind subject title detail command cwd grant qs ms = Inr p
     \<and> ev_payload e = Some p \<and> (m \<noteq> method_user_input \<longrightarrow> kind = ''approval'')"
  using assms
  by (auto simp: turn_interaction_event_def interaction_event_def Let_def turn_methods
      split: if_splits sum.splits) blast+

subsection \<open>A request to evaluate on\<close>

definition demo_request :: json where
  "demo_request =
     jobj [(''threadId'', JStr ''t1''), (''turnId'', JStr ''u1''), (''itemId'', JStr ''i1''),
           (''availableDecisions'', JArr [JStr ''accept'', JStr ''always'', JStr ''cancel'']),
           (''permissions'', jobj [(''network'', JBool True), (''fileSystem'', JNull), (''root'', JBool True)])]"

definition demo_permission_event :: connector_event where
  "demo_permission_event =
     (case turn_interaction_event plain_wire method_permissions (JNum (PosInt 7)) demo_request of
        Inr e \<Rightarrow> e | Inl m \<Rightarrow> plain_event [] [] m)"

lemma demo_permission_event:
  "turn_interaction_event plain_wire method_permissions (JNum (PosInt 7)) demo_request = Inr demo_permission_event"
  by code_simp

subsection \<open>The properties\<close>

text \<open>
  Only decisions the connector understands are offered. The payload of an approval request
  always has decisions to offer, and each is one of the four plain ones or an amendment of the
  execution policy that names at least one non-blank command prefix, rebuilt without anything
  else the app server put into it. A request without a valid decision is an error, not an event.
\<close>

theorem offered_decisions_are_valid:
  assumes "turn_interaction_event sd m request_id params = Inr e" and "m \<noteq> method_user_input"
  shows "\<exists>p ds. ev_payload e = Some p \<and> jget p ''available_decisions'' = Some (JArr ds) \<and> ds \<noteq> []
    \<and> (\<forall>d \<in> set ds. d \<in> {JStr ''accept'', JStr ''acceptForSession'', JStr ''decline'', JStr ''cancel''}
         \<or> (\<exists>a. d = amendment_decision a \<and> execpolicy_amendment_is_valid a))"
proof -
  from event_payload [OF assms(1)] assms(2) obtain subject title detail command cwd grant qs ms p where
    p: "turn_interaction_payload sd m request_id params ''approval'' subject title detail command cwd grant qs ms = Inr p"
       "ev_payload e = Some p"
    by blast
  from payload_lookups(4) [OF p(1) refl] p(2) show ?thesis by (auto simp: valid_decision_def)
qed

theorem offered_decisions_are_valid_witness:
  "\<exists>p ds. ev_payload demo_permission_event = Some p \<and> jget p ''available_decisions'' = Some (JArr ds) \<and> ds \<noteq> []"
proof -
  have "method_permissions \<noteq> method_user_input" by (simp add: turn_methods)
  from offered_decisions_are_valid [OF demo_permission_event this] show ?thesis by blast
qed

text \<open>
  C28: What is granted is what was shown. The result of a permission request grants, on an
  acceptance, exactly the permissions the event showed to the user: the network and file system
  permissions that were asked for and are not null, and nothing else of the request. Any other
  decision grants nothing, and the grant lasts for the session only when the user said so.
\<close>

theorem granted_permissions_were_shown:
  assumes "turn_interaction_event sd method_permissions request_id params = Inr e"
    and "ev_payload e = Some p"
    and "app_server_turn_interaction_result method_permissions params (Approval decision) = Inr r"
  shows "jget r ''permissions'' =
      Some (if decision \<in> {JStr ''accept'', JStr ''acceptForSession''}
            then (case jget p ''requested_permissions'' of Some shown \<Rightarrow> shown | None \<Rightarrow> JObj [])
            else JObj [])
    \<and> jget r ''scope'' = Some (JStr (if decision = JStr ''acceptForSession'' then ''session'' else ''turn''))
    \<and> (\<forall>shown k v. jget p ''requested_permissions'' = Some shown \<and> jget shown k = Some v \<longrightarrow>
         k \<in> {''network'', ''fileSystem''} \<and> v \<noteq> JNull \<and> jget2 params ''permissions'' k = Some v)"
proof -
  from event_payload [OF assms(1)] assms(2) obtain kind subject title detail command cwd grant qs ms where
    "turn_interaction_payload sd method_permissions request_id params kind subject title detail command cwd grant qs ms = Inr p"
    by auto
  from payload_lookups(2) [OF this]
  have shown: "jget p ''requested_permissions'' = requested_permissions_from_request params" .
  have granted: "granted_permissions_from_request params =
      (case jget p ''requested_permissions'' of Some v \<Rightarrow> v | None \<Rightarrow> JObj [])"
    unfolding shown
    by (auto simp: granted_permissions_from_request_def requested_permissions_from_request_def
        jobj_def obj_of_def split: option.splits)
  have accept: "approval_decision_is decision ''accept'' \<longleftrightarrow> decision = JStr ''accept''"
    by (auto simp: approval_decision_is_def)
  have session: "approval_decision_is decision ''acceptForSession'' \<longleftrightarrow> decision = JStr ''acceptForSession''"
    by (auto simp: approval_decision_is_def)
  have r: "r = jobj [(''permissions'', if decision \<in> {JStr ''accept'', JStr ''acceptForSession''}
        then granted_permissions_from_request params else jobj []),
      (''scope'', JStr (if decision = JStr ''acceptForSession'' then ''session'' else ''turn''))]"
    using assms(3) by (auto simp: app_server_turn_interaction_result_def accept session turn_methods)
  have only: "k \<in> {''network'', ''fileSystem''} \<and> v \<noteq> JNull \<and> jget2 params ''permissions'' k = Some v"
    if "jget p ''requested_permissions'' = Some s" "jget s k = Some v" for s k v
    using that unfolding shown
    by (auto simp: requested_permissions_from_request_def asked_permissions_def Let_def jget2_def jget_def [of "JObj _"]
        map_of_obj_of map_add_def map_of_opt_entry is_null_def split: option.splits if_splits)
  have "jobj [] = JObj []" by (simp add: jobj_def obj_of_def)
  with r granted only show ?thesis by auto
qed

theorem granted_permissions_were_shown_witness:
  "\<exists>r. app_server_turn_interaction_result method_permissions demo_request (Approval (JStr ''accept'')) = Inr r
     \<and> jget r ''scope'' = Some (JStr ''turn'')"
proof -
  obtain p where p: "ev_payload demo_permission_event = Some p"
    using event_payload [OF demo_permission_event] by auto
  obtain r where r: "app_server_turn_interaction_result method_permissions demo_request (Approval (JStr ''accept'')) = Inr r"
    by (simp add: app_server_turn_interaction_result_def turn_methods)
  from granted_permissions_were_shown [OF demo_permission_event p r] r show ?thesis by auto
qed

text \<open>
  An interaction id names one request. Where printing is exact, two requests get the same id
  only when they agree on the method, on the JSON-RPC request id and on the target (the approval
  id, or else the item), so a response is never taken for another request's.
\<close>

theorem interaction_ids_are_injective:
  assumes "exact_text sd"
    and "json_rpc_turn_request_id (Some i) = Some i" and "json_rpc_turn_request_id (Some i') = Some i'"
    and "turn_interaction_id sd m i params = turn_interaction_id sd m' i' params'"
  shows "m = m' \<and> i = i'
    \<and> or_else (jget_str params ''approvalId'') (jget_str params ''itemId'')
        = or_else (jget_str params' ''approvalId'') (jget_str params' ''itemId'')"
proof -
  have plain: "no_floats j" if "json_rpc_turn_request_id (Some j) = Some j" for j
    using that by (auto simp: json_rpc_turn_request_id_def is_i64_def is_u64_def
        split: json.splits if_splits number.splits)
  define target where "target = (\<lambda>p. case or_else (jget_str p ''approvalId'') (jget_str p ''itemId'') of
      Some t \<Rightarrow> JStr t | None \<Rightarrow> JNull)"
  have id: "turn_interaction_id sd x j p = js_print sd (JArr [JStr x, target p, j])" for x j p
    by (cases "jget_str p ''approvalId''"; cases "jget_str p ''itemId''")
      (simp_all add: turn_interaction_id_def target_def or_else_def Let_def)
  have exact: "js_parse sd (js_print sd (JArr [JStr x, target p, j])) = Inr (JArr [JStr x, target p, j])"
    if "no_floats j" for x j p
  proof -
    have "no_floats (JArr [JStr x, target p, j])" using that by (simp add: target_def split: option.split)
    then show ?thesis using assms(1) unfolding exact_text_def by blast
  qed
  let ?a = "JArr [JStr m, target params, i]" and ?b = "JArr [JStr m', target params', i']"
  have "Inr ?a = js_parse sd (js_print sd ?a)" using exact [OF plain [OF assms(2)]] by (rule sym)
  also have "js_print sd ?a = js_print sd ?b" using assms(4) unfolding id .
  also have "js_parse sd (js_print sd ?b) = Inr ?b" by (rule exact [OF plain [OF assms(3)]])
  finally have "m = m' \<and> i = i' \<and> target params = target params'" by simp
  then show ?thesis by (auto simp: target_def split: option.splits)
qed

theorem interaction_ids_are_injective_witness:
  "turn_interaction_id demo_wire method_command (JNum (PosInt 1)) demo_request
     \<noteq> turn_interaction_id demo_wire method_command (JNum (PosInt 2)) demo_request"
proof
  have exact: "exact_text demo_wire"
    by (simp add: exact_text_def demo_wire_def demo_round_trip)
  have rid: "json_rpc_turn_request_id (Some (JNum (PosInt n))) = Some (JNum (PosInt n))" for n
    by (simp add: json_rpc_turn_request_id_def is_u64_def)
  assume "turn_interaction_id demo_wire method_command (JNum (PosInt 1)) demo_request
     = turn_interaction_id demo_wire method_command (JNum (PosInt 2)) demo_request"
  from interaction_ids_are_injective [OF exact rid rid this] show False by simp
qed

end
