(* ===== verification/Executor.thy ===== *)
theory Executor
  imports Agent_Config Session_Types Inventory_Text
begin

text \<open>
  \<open>executor.rs\<close>: a command run by the Codex CLI. The child's arguments, the loop that waits
  for it under a timeout and a cancellation flag, the capped readers of its output, and the
  events its output becomes. The record \<open>eworld\<close> has the answers of the system; the reads of
  the two pipes are given as the results of the successive \<open>read\<close> calls. The reader of one
  JSON line, which \<open>serde\<close> derives, is a parameter, and so is whether additions are checked.
\<close>

subsection \<open>Output\<close>

record capped_output =
  co_bytes :: string
  co_truncated :: bool

definition take_chunk :: "nat \<Rightarrow> capped_output \<Rightarrow> string \<Rightarrow> capped_output" where
  "take_chunk max_bytes out chunk =
     (let remaining = max_bytes - length (co_bytes out) in
      if remaining = 0 then out\<lparr>co_truncated := True\<rparr>
      else (let n = min remaining (length chunk) in
            out\<lparr>co_bytes := co_bytes out @ take n chunk,
                co_truncated := co_truncated out \<or> n < length chunk\<rparr>))"

text \<open>The results of \<open>read\<close>: an error ends the reader, an empty read is the end of the pipe.\<close>

fun read_capped :: "nat \<Rightarrow> (string + string) list \<Rightarrow> capped_output \<Rightarrow> string + capped_output" where
  "read_capped max_bytes [] out = Inr out"
| "read_capped max_bytes (Inl e # reads) out = Inl e"
| "read_capped max_bytes (Inr chunk # reads) out =
     (if chunk = [] then Inr out else read_capped max_bytes reads (take_chunk max_bytes out chunk))"

definition empty_output :: capped_output where
  "empty_output = \<lparr> co_bytes = [], co_truncated = False \<rparr>"

subsection \<open>The child\<close>

record codex_command_output =
  cc_success :: bool
  cc_code :: "int option"
  cc_stdout :: string
  cc_stderr :: string
  cc_timed_out :: bool
  cc_cancelled :: bool
  cc_truncated :: bool

record exit_status =
  es_success :: bool
  es_code :: "int option"

datatype io_fault = NotFound string | OtherIo string

datatype exec_action =
    XSpawn string "string list"
  | XWrite string
  | XSleep duration
  | XKill
  | XWait

datatype exec_fault = ExecError io_fault | ExecPanic | ExecFuel

record eworld =
  x_tick :: nat
  x_now :: "nat \<Rightarrow> instant"
  x_cancel :: "nat \<Rightarrow> bool"
  x_spawn :: "nat \<Rightarrow> io_fault option"
  x_write :: "nat \<Rightarrow> io_fault option"
  x_try_wait :: "nat \<Rightarrow> io_fault + exit_status option"
  x_wait :: "nat \<Rightarrow> io_fault + exit_status"
  x_stdout :: "(string + string) list"
  x_stderr :: "(string + string) list"
  x_join_panic :: "nat \<Rightarrow> bool"
  x_log :: "exec_action list"

type_synonym 'a exec = "(eworld, exec_fault + 'a) state"

definition xask :: "(eworld \<Rightarrow> nat \<Rightarrow> 'a) \<Rightarrow> (eworld, 'a) state" where
  "xask f = State (\<lambda>w. (f w (x_tick w), w\<lparr>x_tick := Suc (x_tick w)\<rparr>))"

definition xlog :: "exec_action \<Rightarrow> (eworld, unit) state" where
  "xlog a = modify (\<lambda>w. w\<lparr>x_log := x_log w @ [a]\<rparr>)"

definition xresult :: "io_fault + 'a \<Rightarrow> 'a exec" where
  "xresult r = ret (case r of Inl e \<Rightarrow> Inl (ExecError e) | Inr x \<Rightarrow> Inr x)"

definition xunless :: "io_fault option \<Rightarrow> unit exec" where
  "xunless r = ret (case r of None \<Rightarrow> Inr () | Some e \<Rightarrow> Inl (ExecError e))"

definition codex_args :: "execution_config \<Rightarrow> string \<Rightarrow> string list" where
  "codex_args c workspace_root =
     [''exec'']
     @ (case ex_codex_profile c of Some p \<Rightarrow> [''--profile'', p] | None \<Rightarrow> [])
     @ (case ex_codex_model c of Some m \<Rightarrow> [''--model'', m] | None \<Rightarrow> [])
     @ [''--json'', ''--ephemeral'', ''--sandbox'', ex_codex_sandbox c, ''-C'', workspace_root]
     @ ex_extra_args c @ [''-'']"

text \<open>The exit status, whether it timed out, whether it was cancelled.\<close>

definition kill_child :: "bool \<Rightarrow> bool \<Rightarrow> (exit_status \<times> bool \<times> bool) exec" where
  "kill_child timed_out cancelled =
     do { xlog XKill; xlog XWait; r \<leftarrow> xask x_wait;
          tryE (xresult r) (\<lambda>s. ret (Inr (s, timed_out, cancelled))) }"

definition child_round :: "duration \<Rightarrow> instant \<Rightarrow> (unit + exit_status \<times> bool \<times> bool) exec" where
  "child_round timeout started_at =
     do { r \<leftarrow> xask x_try_wait;
          tryE (xresult r) (\<lambda>status.
          (case status of
             Some s \<Rightarrow> ret (Inr (Inr (s, False, False)))
           | None \<Rightarrow>
               do { cancelled \<leftarrow> xask x_cancel;
                    (if cancelled then tryE (kill_child False True) (\<lambda>x. ret (Inr (Inr x)))
                     else do { t \<leftarrow> xask x_now;
                               (if timeout \<le> t - started_at
                                then tryE (kill_child True False) (\<lambda>x. ret (Inr (Inr x)))
                                else do { xlog (XSleep (millis 100)); ret (Inr (Inl ())) }) }) })) }"

definition wait_for_child :: "nat \<Rightarrow> duration \<Rightarrow> instant \<Rightarrow> (exit_status \<times> bool \<times> bool) exec" where
  "wait_for_child fuel timeout started_at = loopE fuel ExecFuel (\<lambda>_. child_round timeout started_at) ()"

definition join_capped_output :: "nat \<Rightarrow> (eworld \<Rightarrow> (string + string) list) \<Rightarrow> capped_output exec" where
  "join_capped_output max_bytes pipe =
     do { panicked \<leftarrow> xask x_join_panic;
          reads \<leftarrow> gets pipe;
          (if panicked then ret (Inl (ExecError (OtherIo ''codex output reader thread panicked'')))
           else xresult (case read_capped max_bytes reads empty_output of
                           Inl e \<Rightarrow> Inl (OtherIo e) | Inr out \<Rightarrow> Inr out)) }"

definition run_codex_command ::
  "nat \<Rightarrow> execution_config \<Rightarrow> string \<Rightarrow> string \<Rightarrow> codex_command_output exec" where
  "run_codex_command fuel c workspace_root prompt =
     do { xlog (XSpawn (ex_codex_command c) (codex_args c workspace_root));
          spawned \<leftarrow> xask x_spawn;
          tryE (xunless spawned) (\<lambda>_.
          do { xlog (XWrite prompt);
               written \<leftarrow> xask x_write;
               tryE (xunless written) (\<lambda>_.
               do { started_at \<leftarrow> xask x_now;
                    tryE (wait_for_child fuel (secs (max (ex_codex_timeout_seconds c) 1)) started_at)
                      (\<lambda>(status, timed_out, cancelled).
                    tryE (join_capped_output (ex_codex_output_max_bytes c) x_stdout) (\<lambda>out.
                    tryE (join_capped_output (ex_codex_output_max_bytes c) x_stderr) (\<lambda>err.
                      ret (Inr \<lparr> cc_success = (es_success status \<and> \<not> timed_out), cc_code = es_code status,
                                 cc_stdout = utf8_lossy (co_bytes out), cc_stderr = utf8_lossy (co_bytes err),
                                 cc_timed_out = timed_out, cc_cancelled = cancelled,
                                 cc_truncated = (co_truncated out \<or> co_truncated err) \<rparr>)))) }) }) }"

subsection \<open>Events\<close>

record codex_usage =
  cu_input_tokens :: "nat option"
  cu_cached_input_tokens :: "nat option"
  cu_output_tokens :: "nat option"
  cu_reasoning_output_tokens :: "nat option"
  cu_total_tokens :: "nat option"

record codex_item =
  ci_item_type :: "string option"
  ci_text :: "string option"

record codex_json_event =
  ce_event_type :: string
  ce_item :: "codex_item option"
  ce_usage :: "codex_usage option"

record codex_summary =
  cs_last_agent_message :: "string option"
  cs_usage :: "codex_usage option"

type_synonym line_reader = "string \<Rightarrow> codex_json_event option"

definition summary_line :: "line_reader \<Rightarrow> codex_summary \<Rightarrow> string \<Rightarrow> codex_summary" where
  "summary_line read_line s line =
     (case read_line line of
        None \<Rightarrow> s
      | Some e \<Rightarrow>
          (let s = (if ce_event_type e = ''item.completed''
                       \<and> Option.bind (ce_item e) ci_item_type = Some ''agent_message''
                    then (case Option.bind (ce_item e) ci_text of
                            Some t \<Rightarrow> s\<lparr>cs_last_agent_message := Some t\<rparr> | None \<Rightarrow> s)
                    else s)
           in if ce_event_type e = ''turn.completed'' then s\<lparr>cs_usage := ce_usage e\<rparr> else s))"

definition parse_codex_jsonl :: "line_reader \<Rightarrow> string \<Rightarrow> codex_summary" where
  "parse_codex_jsonl read_line stdout =
     foldl (summary_line read_line) \<lparr> cs_last_agent_message = None, cs_usage = None \<rparr> (str_lines stdout)"

definition exec_first_non_empty :: "string \<Rightarrow> string \<Rightarrow> string" where
  "exec_first_non_empty a b = (if trim a = [] then trim b else trim a)"

definition truncate_summary :: "string \<Rightarrow> nat \<Rightarrow> string" where
  "truncate_summary v max_chars = ellipsis max_chars (compact_ws v)"

text \<open>\<open>u64\<close> addition: past the range it panics (\<open>None\<close>) where it is checked and wraps where it is not.\<close>

definition add_u64 :: "bool \<Rightarrow> nat \<Rightarrow> nat \<Rightarrow> nat option" where
  "add_u64 checked a b =
     (if a + b \<le> u64_max then Some (a + b) else if checked then None else Some ((a + b) mod (u64_max + 1)))"

definition number_or_unknown :: "nat option \<Rightarrow> string" where
  "number_or_unknown n = (case n of Some k \<Rightarrow> show_nat k | None \<Rightarrow> ''unknown'')"

definition usage_summary :: "bool \<Rightarrow> codex_usage \<Rightarrow> string option" where
  "usage_summary checked u =
     do { total \<leftarrow> (case cu_total_tokens u of
                       Some t \<Rightarrow> Some (Some t)
                     | None \<Rightarrow> (case (cu_input_tokens u, cu_output_tokens u) of
                                  (Some i, Some out) \<Rightarrow> map_option Some (add_u64 checked i out)
                                | _ \<Rightarrow> Some None));
          Some (''Codex CLI fallback usage: '' @ number_or_unknown total @ '' total tokens, ''
                @ number_or_unknown (cu_input_tokens u) @ '' input (''
                @ show_nat (case cu_cached_input_tokens u of Some n \<Rightarrow> n | None \<Rightarrow> 0) @ '' cached), ''
                @ number_or_unknown (cu_output_tokens u) @ '' output, ''
                @ show_nat (case cu_reasoning_output_tokens u of Some n \<Rightarrow> n | None \<Rightarrow> 0) @ '' reasoning.'') }"

definition codex_result_events ::
  "bool \<Rightarrow> line_reader \<Rightarrow> bool \<Rightarrow> int option \<Rightarrow> string \<Rightarrow> string \<Rightarrow> bool \<Rightarrow> connector_event list option" where
  "codex_result_events checked read_line success code stdout stderr truncated =
     (if \<not> success
      then Some [plain_event ''command.failed'' ''P1''
             (''Codex CLI fallback failed''
              @ (case code of Some v \<Rightarrow> '' with exit code '' @ show_int v | None \<Rightarrow> [])
              @ '': '' @ truncate_summary (exec_first_non_empty stderr stdout) 600)]
      else (let s = parse_codex_jsonl read_line stdout in
        do { usage \<leftarrow> (case cs_usage s of
                          None \<Rightarrow> Some []
                        | Some u \<Rightarrow> map_option (\<lambda>t. [plain_event ''command.output'' ''P3'' t]) (usage_summary checked u));
             Some ([plain_event ''command.output'' ''P2''
                      (case cs_last_agent_message s of
                         Some t \<Rightarrow> ''Codex: '' @ truncate_summary t 700
                       | None \<Rightarrow> ''Codex CLI fallback completed without an assistant message.'')]
                   @ usage
                   @ (if truncated
                      then [plain_event ''command.output'' ''P2''
                              ''Codex CLI fallback output exceeded the connector cap; summaries may be incomplete.'']
                      else [])
                   @ [plain_event ''command.finished'' ''P1'' ''Codex CLI fallback completed successfully.'']) }))"

definition codex_exec_result_events_with_cancel ::
  "nat \<Rightarrow> bool \<Rightarrow> line_reader \<Rightarrow> execution_config \<Rightarrow> string \<Rightarrow> string \<Rightarrow> connector_event list exec" where
  "codex_exec_result_events_with_cancel fuel checked read_line c workspace_root prompt =
     do { output \<leftarrow> run_codex_command fuel c workspace_root prompt;
          ret (case output of
             Inr out \<Rightarrow>
               (if cc_cancelled out
                then Inr [plain_event ''command.failed'' ''P1''
                            ''Codex CLI fallback was cancelled because the connector connection closed.'']
                else if cc_timed_out out
                then Inr [plain_event ''command.failed'' ''P1''
                            (''Codex CLI fallback timed out after ''
                             @ show_nat (max (ex_codex_timeout_seconds c) 1) @ '' seconds.'')]
                else (case codex_result_events checked read_line (cc_success out) (cc_code out) (cc_stdout out)
                             (cc_stderr out) (cc_truncated out) of
                        None \<Rightarrow> Inl ExecPanic | Some es \<Rightarrow> Inr es))
           | Inl (ExecError (NotFound e)) \<Rightarrow>
               Inr [plain_event ''command.failed'' ''P1''
                      (''Codex executable not found: '' @ ex_codex_command c
                       @ ''. Set execution.codex_command to an absolute path visible to the connector process.'')]
           | Inl (ExecError (OtherIo e)) \<Rightarrow>
               Inr [plain_event ''command.failed'' ''P1'' (''Codex CLI fallback could not start: '' @ e @ ''.'')]
           | Inl f \<Rightarrow> Inl f) }"

end
