(* ===== verification/Executor_Claims.thy ===== *)
theory Executor_Claims
  imports Executor
begin

text \<open>The properties of the Codex CLI executor, with witnesses.\<close>

subsection \<open>Lemmas\<close>

definition capped :: "nat \<Rightarrow> string \<Rightarrow> capped_output" where
  "capped m content = \<lparr> co_bytes = take m content, co_truncated = (m < length content) \<rparr>"

lemma empty_output_capped: "empty_output = capped m []"
  by (simp add: empty_output_def capped_def)

lemma take_chunk_capped: "chunk \<noteq> [] \<Longrightarrow> take_chunk m (capped m content) chunk = capped m (content @ chunk)"
  by (auto simp: take_chunk_def capped_def Let_def min_def)

lemma read_capped_chunks:
  "read_capped m (map Inr chunks) (capped m content) =
     Inr (capped m (content @ concat (takeWhile (\<lambda>c. c \<noteq> []) chunks)))"
  by (induction chunks arbitrary: content) (auto simp: take_chunk_capped)

lemma result_events_well_ended:
  "codex_result_events checked read_line success code stdout stderr truncated = Some es \<Longrightarrow>
     well_ended es \<and> (ev_kind (last es) = ''command.finished'' \<longleftrightarrow> success)"
  by (auto simp: codex_result_events_def Let_def bind_eq_Some_conv well_ended_def is_end_def is_output_def
      butlast_append split: if_splits option.splits)

subsection \<open>The properties\<close>

text \<open>
  The capped reader keeps exactly the head of the output. However the child's output is cut
  into reads, what is kept are its first \<open>max_bytes\<close> bytes, and the output is marked truncated
  exactly when there was more than that; the pipe is drained to its end either way.
\<close>

theorem capped_reader_keeps_the_head:
  "read_capped max_bytes (map Inr chunks) empty_output =
     (let content = concat (takeWhile (\<lambda>c. c \<noteq> []) chunks)
      in Inr \<lparr> co_bytes = take max_bytes content, co_truncated = (max_bytes < length content) \<rparr>)"
  using read_capped_chunks [of max_bytes chunks "[]"]
  by (simp add: empty_output_def capped_def Let_def)

lemma codex_result_ends:
  assumes "run_state (codex_exec_result_events_with_cancel fuel checked read_line c workspace_root prompt) w = (Inr es, w')"
  shows "well_ended es
    \<and> (ev_kind (last es) = ''command.finished'' \<longrightarrow>
        (\<exists>out. fst (run_state (run_codex_command fuel c workspace_root prompt) w) = Inr out
           \<and> cc_success out \<and> \<not> cc_cancelled out \<and> \<not> cc_timed_out out))"
  using assms
  by (auto simp: codex_exec_result_events_with_cancel_def well_ended_one is_end_def
      dest: result_events_well_ended split: prod.splits sum.splits exec_fault.splits io_fault.splits if_splits option.splits)


definition demo_exec :: eworld where
  "demo_exec =
     \<lparr> x_tick = 0, x_now = (\<lambda>k. secs k), x_cancel = (\<lambda>_. False), x_spawn = (\<lambda>_. None), x_write = (\<lambda>_. None),
       x_try_wait = (\<lambda>k. Inr (if k < 5 then None else Some \<lparr> es_success = True, es_code = Some 0 \<rparr>)),
       x_wait = (\<lambda>_. Inr \<lparr> es_success = False, es_code = None \<rparr>),
       x_stdout = [Inr ''done'', Inr []], x_stderr = [Inr []], x_join_panic = (\<lambda>_. False), x_log = [] \<rparr>"

definition demo_exec_events :: "connector_event list" where
  "demo_exec_events =
     [plain_event ''command.output'' ''P2'' ''Codex CLI fallback completed without an assistant message.'',
      plain_event ''command.finished'' ''P1'' ''Codex CLI fallback completed successfully.'']"

lemma demo_exec_run:
  "fst (run_state (codex_exec_result_events_with_cancel 9 True (\<lambda>_. None) execution_config_default ''/w'' ''hi'') demo_exec)
     = Inr demo_exec_events"
  by code_simp


end
