(* ===== verification/Resolver.thy ===== *)
theory Resolver
  imports Net_Url "HOL-Library.Multiset"
begin

text \<open>
  \<open>AppServerResolver\<close> (\<open>session_inventory.rs\<close>): host names are resolved by a worker thread
  that cannot be cancelled. A caller that waited too long replaces the worker it had asked, at
  most two replaced workers may still be running, and callers run concurrently: each holds the
  generation of the worker it asked while others change the state. A caller's two parts, each
  under the lock or alone with its channel, are the steps of a relation.
\<close>

subsection \<open>The state and its operations\<close>

record resolver =
  rs_active :: "nat option"
  rs_retired :: "nat list"
  rs_next_generation :: nat

definition app_server_max_retired_resolver_workers :: nat where
  "app_server_max_retired_resolver_workers = 2"

definition start_resolver :: "string option \<Rightarrow> string + resolver" where
  "start_resolver spawn_error =
     (case spawn_error of
        None \<Rightarrow> Inr \<lparr> rs_active = Some 0, rs_retired = [], rs_next_generation = 1 \<rparr>
      | Some e \<Rightarrow> Inl e)"

text \<open>The resolver of the process is started by its first user; whether that failed is kept for the others.\<close>

definition shared_app_server_resolver ::
  "string option \<Rightarrow> (string + resolver) option \<Rightarrow> (string + resolver) \<times> (string + resolver) option" where
  "shared_app_server_resolver spawn_error cell =
     (let started = (case cell of Some r \<Rightarrow> r | None \<Rightarrow> start_resolver spawn_error)
      in ((case started of
             Inr st \<Rightarrow> Inr st
           | Inl e \<Rightarrow> Inl (''failed to start app-server resolver: '' @ e)), Some started))"

text \<open>
  A worker: the bounded queue of its requests, and the answers its thread gives until every
  sender is gone. \<open>Drop\<close> closes the active worker's queue and joins all threads, the retired
  ones first; the generations joined are listed.
\<close>

definition app_server_resolver_queue_capacity :: nat where
  "app_server_resolver_queue_capacity = 8"

datatype queue_outcome = Queued | QueueFull | QueueGone

definition queue_request ::
  "bool \<Rightarrow> string \<times> nat \<Rightarrow> (string \<times> nat) list \<Rightarrow> queue_outcome \<times> (string \<times> nat) list" where
  "queue_request alive request queue =
     (if \<not> alive then (QueueGone, queue)
      else if app_server_resolver_queue_capacity \<le> length queue then (QueueFull, queue)
      else (Queued, queue @ [request]))"

fun worker_loop :: "(string \<Rightarrow> nat \<Rightarrow> 'a) \<Rightarrow> (string \<times> nat) list \<Rightarrow> 'a list" where
  "worker_loop lookup [] = []"
| "worker_loop lookup ((host, port) # queue) = lookup host port # worker_loop lookup queue"

definition drop_resolver :: "resolver \<Rightarrow> nat list \<times> resolver" where
  "drop_resolver st =
     (rs_retired st @ (case rs_active st of Some g \<Rightarrow> [g] | None \<Rightarrow> []), st\<lparr>rs_retired := [], rs_active := None\<rparr>)"

definition swap_remove :: "nat \<Rightarrow> 'a list \<Rightarrow> 'a list" where
  "swap_remove i xs = (if Suc i = length xs then butlast xs else (butlast xs)[i := last xs])"

text \<open>\<open>finished g\<close>: the worker of generation \<open>g\<close> has returned.\<close>

function reap_finished_workers :: "(nat \<Rightarrow> bool) \<Rightarrow> nat list \<Rightarrow> nat \<Rightarrow> nat list" where
  "reap_finished_workers finished retired index =
     (if index < length retired
      then (if finished (retired ! index)
            then reap_finished_workers finished (swap_remove index retired) index
            else reap_finished_workers finished retired (Suc index))
      else retired)"
  by pat_completeness auto
termination
  by (relation "measure (\<lambda>(finished, retired, index). 2 * length retired - index)") (auto simp: swap_remove_def)

declare reap_finished_workers.simps [simp del]

definition reaped :: "(nat \<Rightarrow> bool) \<Rightarrow> resolver \<Rightarrow> resolver" where
  "reaped finished st = st\<lparr>rs_retired := reap_finished_workers finished (rs_retired st) 0\<rparr>"

definition active_sender :: "(nat \<Rightarrow> bool) \<Rightarrow> resolver \<Rightarrow> (string + nat) \<times> resolver" where
  "active_sender finished st =
     (case rs_active (reaped finished st) of
        None \<Rightarrow> (Inl ''app-server resolver is stopped'', reaped finished st)
      | Some g \<Rightarrow> (Inr g, reaped finished st))"

definition replace_timed_out_worker ::
  "(nat \<Rightarrow> bool) \<Rightarrow> string option \<Rightarrow> nat \<Rightarrow> resolver \<Rightarrow> (string + unit) \<times> resolver" where
  "replace_timed_out_worker finished spawn_error generation st0 =
     (let st = reaped finished st0 in
      if rs_active st \<noteq> Some generation then (Inr (), st)
      else if app_server_max_retired_resolver_workers \<le> length (rs_retired st)
      then (Inl ''app-server resolver recovery limit reached'', st)
      else (case spawn_error of
              Some e \<Rightarrow> (Inl e, st)
            | None \<Rightarrow>
                (Inr (), st\<lparr>rs_active := Some (rs_next_generation st),
                           rs_next_generation := sat_add u64_max (rs_next_generation st) 1,
                           rs_retired := rs_retired st @ [generation]\<rparr>)))"

subsection \<open>A caller\<close>

datatype wait_outcome = Answered "string + (ip_addr \<times> nat) list" | WaitTimedOut | WaitGone

definition recovery_error :: "string \<Rightarrow> string + unit \<Rightarrow> string" where
  "recovery_error e recovery = (case recovery of Inr _ \<Rightarrow> e | Inl r \<Rightarrow> e @ ''; '' @ r)"

text \<open>Until the request is queued: the generation asked, or the error.\<close>

definition resolve_ask ::
  "(nat \<Rightarrow> bool) \<Rightarrow> string option \<Rightarrow> queue_outcome \<Rightarrow> string \<Rightarrow> resolver \<Rightarrow> (string + nat) \<times> resolver" where
  "resolve_ask finished spawn_error outcome url st =
     (case active_sender finished st of
        (Inl e, st') \<Rightarrow> (Inl e, st')
      | (Inr g, st') \<Rightarrow>
          (case outcome of
             Queued \<Rightarrow> (Inr g, st')
           | QueueFull \<Rightarrow> (Inl (''app-server resolver is busy resolving '' @ url), st')
           | QueueGone \<Rightarrow>
               (case replace_timed_out_worker finished spawn_error g st' of
                  (recovery, st'') \<Rightarrow>
                    (Inl (recovery_error (''app-server resolver stopped before resolving '' @ url) recovery), st''))))"

text \<open>After the wait for the answer of the worker that was asked.\<close>

definition resolve_answer ::
  "(nat \<Rightarrow> bool) \<Rightarrow> string option \<Rightarrow> wait_outcome \<Rightarrow> string \<Rightarrow> nat \<Rightarrow> resolver
    \<Rightarrow> (string + (ip_addr \<times> nat) list) \<times> resolver" where
  "resolve_answer finished spawn_error outcome url g st =
     (case outcome of
        Answered r \<Rightarrow> (r, st)
      | WaitTimedOut \<Rightarrow>
          (case replace_timed_out_worker finished spawn_error g st of
             (recovery, st') \<Rightarrow> (Inl (recovery_error (''timed out resolving app-server URL '' @ url) recovery), st'))
      | WaitGone \<Rightarrow>
          (case replace_timed_out_worker finished spawn_error g st of
             (recovery, st') \<Rightarrow>
               (Inl (recovery_error (''app-server resolver stopped before resolving '' @ url) recovery), st')))"

subsection \<open>Callers at the same time\<close>

text \<open>The state and the generations asked by callers that wait; workers finish at any time.\<close>

inductive resolver_step :: "resolver \<times> nat multiset \<Rightarrow> resolver \<times> nat multiset \<Rightarrow> bool" where
  asked: "resolve_ask finished spawn_error outcome url st = (Inr g, st') \<Longrightarrow>
     resolver_step (st, waiting) (st', add_mset g waiting)"
| refused: "resolve_ask finished spawn_error outcome url st = (Inl e, st') \<Longrightarrow>
     resolver_step (st, waiting) (st', waiting)"
| answered: "resolve_answer finished spawn_error outcome url g st = (r, st') \<Longrightarrow>
     resolver_step (st, add_mset g waiting) (st', waiting)"

inductive resolver_reach :: "resolver \<times> nat multiset \<Rightarrow> bool" where
  started: "start_resolver None = Inr st \<Longrightarrow> resolver_reach (st, {#})"
| stepped: "resolver_reach s \<Longrightarrow> resolver_step s s' \<Longrightarrow> resolver_reach s'"

inductive_cases resolver_stepE: "resolver_step s s'"

subsection \<open>Lemmas\<close>

lemma length_swap_remove: "i < length xs \<Longrightarrow> length (swap_remove i xs) = length xs - 1"
  by (simp add: swap_remove_def)

lemma mset_swap_remove: "i < length xs \<Longrightarrow> mset (swap_remove i xs) = mset xs - {# xs ! i #}"
proof -
  assume i: "i < length xs"
  then obtain ys y where xs: "xs = ys @ [y]" by (metis list.size(3) not_less_zero rev_exhaust)
  with i show ?thesis
    by (cases "i = length ys") (auto simp: swap_remove_def nth_append mset_update diff_union_swap)
qed

text \<open>Reaping takes out exactly the workers that have finished, in whatever order it goes through them.\<close>

lemma reap_prefix:
  "(\<forall>k < index. k < length retired \<longrightarrow> \<not> finished (retired ! k)) \<Longrightarrow> index \<le> length retired \<Longrightarrow>
     mset (reap_finished_workers finished retired index) = filter_mset (\<lambda>g. \<not> finished g) (mset retired)"
proof (induction finished retired index rule: reap_finished_workers.induct)
  case (1 finished retired index)
  show ?case
  proof (cases "index < length retired")
    case False
    with "1.prems" have "\<forall>g \<in> set retired. \<not> finished g" by (auto simp: in_set_conv_nth)
    then have "filter_mset (\<lambda>g. \<not> finished g) (mset retired) = mset retired"
      by (simp add: filter_mset_eq_conv)
    with False show ?thesis by (simp add: reap_finished_workers.simps [of finished retired index])
  next
    case True
    show ?thesis
    proof (cases "finished (retired ! index)")
      case fin: True
      have "swap_remove index retired ! k = retired ! k" if "k < index" for k
        using that True by (auto simp: swap_remove_def nth_butlast)
      then have "mset (reap_finished_workers finished (swap_remove index retired) index)
          = filter_mset (\<lambda>g. \<not> finished g) (mset (swap_remove index retired))"
        using "1.prems" True fin by (intro "1.IH"(1)) (auto simp: length_swap_remove)
      also have "\<dots> = filter_mset (\<lambda>g. \<not> finished g) (mset retired)"
        using True fin by (simp add: mset_swap_remove)
      finally show ?thesis using True fin by (simp add: reap_finished_workers.simps [of finished retired index])
    next
      case False
      with "1.prems" True have "mset (reap_finished_workers finished retired (Suc index))
          = filter_mset (\<lambda>g. \<not> finished g) (mset retired)"
        by (intro "1.IH"(2)) (auto simp: less_Suc_eq)
      with True False show ?thesis by (simp add: reap_finished_workers.simps [of finished retired index])
    qed
  qed
qed

lemma mset_reap: "mset (reap_finished_workers finished retired 0) = filter_mset (\<lambda>g. \<not> finished g) (mset retired)"
  by (rule reap_prefix) simp_all

lemma length_reap: "length (reap_finished_workers finished retired 0) \<le> length retired"
  using mset_reap [of finished retired] by (metis size_filter_mset_lesseq size_mset)

lemma set_reap: "set (reap_finished_workers finished retired 0) \<subseteq> set retired"
  using arg_cong [OF mset_reap [of finished retired], of set_mset] by auto


definition resolver_inv :: "resolver \<times> nat multiset \<Rightarrow> bool" where
  "resolver_inv s =
     (case s of (st, waiting) \<Rightarrow>
        (\<exists>a. rs_active st = Some a \<and> length (rs_retired st) \<le> app_server_max_retired_resolver_workers
           \<and> a \<le> rs_next_generation st \<and> rs_next_generation st \<le> u64_max \<and> (\<forall>g \<in># waiting. g \<le> a)
           \<and> (rs_next_generation st < u64_max \<longrightarrow>
                a < rs_next_generation st \<and> distinct (rs_retired st) \<and> (\<forall>g \<in> set (rs_retired st). g < a))))"

lemma reaped_simps [simp]:
  "rs_active (reaped f st) = rs_active st" "rs_next_generation (reaped f st) = rs_next_generation st"
  by (simp_all add: reaped_def)

lemma distinct_reap: "distinct xs \<Longrightarrow> distinct (reap_finished_workers f xs 0)"
proof -
  assume d: "distinct xs"
  have "mset (reap_finished_workers f xs 0) = mset (filter (\<lambda>g. \<not> f g) xs)"
    by (simp add: mset_reap)
  with d show ?thesis by (metis distinct_filter mset_eq_imp_distinct_iff)
qed


lemma reaped_inv:
  assumes "resolver_inv (st, waiting)"
  shows "resolver_inv (reaped f st, waiting)"
proof -
  have len: "length (rs_retired (reaped f st)) \<le> length (rs_retired st)" by (simp add: reaped_def length_reap)
  have sub: "set (rs_retired (reaped f st)) \<subseteq> set (rs_retired st)" by (simp add: reaped_def set_reap)
  have dist: "distinct (rs_retired st) \<longrightarrow> distinct (rs_retired (reaped f st))" by (simp add: reaped_def distinct_reap)
  from assms obtain a where a: "rs_active st = Some a" "length (rs_retired st) \<le> app_server_max_retired_resolver_workers"
      "a \<le> rs_next_generation st" "rs_next_generation st \<le> u64_max" "\<forall>g \<in># waiting. g \<le> a"
      "rs_next_generation st < u64_max \<longrightarrow>
         a < rs_next_generation st \<and> distinct (rs_retired st) \<and> (\<forall>g \<in> set (rs_retired st). g < a)"
    by (auto simp: resolver_inv_def)
  from a(2) len have "length (rs_retired (reaped f st)) \<le> app_server_max_retired_resolver_workers" by simp
  with a sub dist show ?thesis by (auto simp: resolver_inv_def)
qed

lemma replace_inv:
  assumes inv: "resolver_inv (st, waiting)" and r: "replace_timed_out_worker f e g st = (r, st')"
  shows "resolver_inv (st', waiting)"
proof (cases "rs_active st = Some g \<and> length (rs_retired (reaped f st)) < app_server_max_retired_resolver_workers \<and> e = None")
  case False
  with r have "st' = reaped f st"
    by (auto simp: replace_timed_out_worker_def Let_def not_le split: if_splits option.splits)
  with reaped_inv [OF inv] show ?thesis by simp
next
  case True
  with r have st': "st' = (reaped f st)\<lparr>rs_active := Some (rs_next_generation st),
      rs_next_generation := sat_add u64_max (rs_next_generation st) 1,
      rs_retired := rs_retired (reaped f st) @ [g]\<rparr>"
    by (simp add: replace_timed_out_worker_def Let_def)
  from reaped_inv [OF inv, of f] True st' show ?thesis
    by (auto simp: resolver_inv_def sat_add_def min_def split: if_splits)
qed

lemma active_sender_inv:
  "resolver_inv (st, waiting) \<Longrightarrow> active_sender f st = (r, st') \<Longrightarrow>
     resolver_inv (st', waiting) \<and> (\<forall>g. r = Inr g \<longrightarrow> rs_active st' = Some g)"
  using reaped_inv [of st waiting f] by (auto simp: active_sender_def split: option.splits)

lemma resolve_ask_inv:
  assumes inv: "resolver_inv (st, waiting)" and r: "resolve_ask f e out url st = (r, st')"
  shows "resolver_inv (st', waiting) \<and> (\<forall>g. r = Inr g \<longrightarrow> rs_active st' = Some g)"
proof -
  obtain x st1 where x: "active_sender f st = (x, st1)" by fastforce
  from active_sender_inv [OF inv x] replace_inv [of st1 waiting f e] x r show ?thesis
    by (auto simp: resolve_ask_def split: sum.splits queue_outcome.splits prod.splits)
qed

lemma resolver_inv_waiting: "resolver_inv (st, add_mset g waiting) \<Longrightarrow> resolver_inv (st, waiting)"
  by (auto simp: resolver_inv_def)

lemma resolve_answer_inv:
  "resolver_inv (st, waiting) \<Longrightarrow> resolve_answer f e out url g st = (r, st') \<Longrightarrow> resolver_inv (st', waiting)"
  by (auto simp: resolve_answer_def split: wait_outcome.splits prod.splits intro: replace_inv)

lemma resolver_step_inv: "resolver_step s s' \<Longrightarrow> resolver_inv s \<Longrightarrow> resolver_inv s'"
proof (induction rule: resolver_step.induct)
  case (asked f e out url st g st' waiting)
  from resolve_ask_inv [OF asked(2,1)] show ?case by (auto simp: resolver_inv_def)
next
  case (refused f e out url st m st' waiting)
  from resolve_ask_inv [OF refused(2,1)] show ?case by blast
next
  case (answered f e out url g st r st' waiting)
  from resolve_answer_inv [OF resolver_inv_waiting [OF answered(2)] answered(1)] show ?case .
qed

lemma resolver_reach_inv: "resolver_reach s \<Longrightarrow> resolver_inv s"
proof (induction rule: resolver_reach.induct)
  case (started st)
  then show ?case by (auto simp: resolver_inv_def start_resolver_def u64_max_def)
qed (rule resolver_step_inv)

lemma stale_generation_replaces_nothing:
  "rs_active st \<noteq> Some g \<Longrightarrow> replace_timed_out_worker f e g st = (Inr (), reaped f st)"
  by (simp add: replace_timed_out_worker_def)

subsection \<open>The property\<close>



end
