(* ===== verification/App_Server_World.thy ===== *)
theory App_Server_World
  imports Inventory
begin

text \<open>
  Talking to an app server (\<open>session_inventory.rs\<close>). The record \<open>aworld\<close> has the answers of
  the system, indexed by the number of questions asked: the clock, the cancellation flag, the
  outcomes of connecting, the socket's reads and sends, the channels shared with the connector.
  Its log has every action in order. Loops take fuel (\<open>RFuel\<close>); a panic of the code is
  \<open>RPanic\<close>; \<open>RCancelled\<close>, \<open>RTimedOut\<close> and \<open>RError\<close> are the errors of the code.
  Connecting is here too: the two transports, their checks and their deadlines.
\<close>

subsection \<open>The world\<close>

datatype tls_answer = TlsReady | TlsFailed string | TlsWouldBlock
datatype handshake_answer = HandshakeDone | HandshakeFailed string | HandshakeInterrupted
datatype recv_answer = Delivered turn_interaction_response_dispatch | NothingYet | ChannelClosed

datatype rpc_action =
    RConnectTcp "ip_addr \<times> nat" duration
  | RConnectUnix string
  | RHandshake string "string option"
  | RSend json "string option"
  | RRead read_answer
  | RTimeout duration
  | RRecv "duration option" recv_answer
  | RAck turn_interaction_response_dispatch bool
  | REvent connector_event
  | RActive "string option"

datatype rpc_fault = RCancelled | RTimedOut nat | RError string | RPanic | RFuel

record aworld =
  a_serde :: serde
  a_urls :: uri_parser
  a_disk :: disk
  a_request_error :: "string \<Rightarrow> string option"
  a_header_error :: "string \<Rightarrow> string option"
  a_read_to_string :: "string \<Rightarrow> string + string"
  a_tick :: nat
  a_now :: "nat \<Rightarrow> instant"
  a_cancel :: "nat \<Rightarrow> bool"
  a_resolve :: "nat \<Rightarrow> string + (ip_addr \<times> nat) list"
  a_tcp :: "nat \<Rightarrow> string option"
  a_unix :: "nat \<Rightarrow> string option"
  a_setup :: "nat \<Rightarrow> string option"
  a_tls :: "nat \<Rightarrow> tls_answer"
  a_handshake :: "nat \<Rightarrow> handshake_answer"
  a_configure :: "nat \<Rightarrow> string option"
  a_read :: "nat \<Rightarrow> read_answer"
  a_send :: "nat \<Rightarrow> string option"
  a_recv :: "nat \<Rightarrow> recv_answer"
  a_event_closed :: "nat \<Rightarrow> bool"
  a_poisoned :: "nat \<Rightarrow> bool"
  a_log :: "rpc_action list"

type_synonym 'a rpc = "(aworld, rpc_fault + 'a) state"

definition rask :: "(aworld \<Rightarrow> nat \<Rightarrow> 'a) \<Rightarrow> (aworld, 'a) state" where
  "rask f = State (\<lambda>w. (f w (a_tick w), w\<lparr>a_tick := Suc (a_tick w)\<rparr>))"

definition rlog :: "rpc_action \<Rightarrow> (aworld, unit) state" where
  "rlog a = modify (\<lambda>w. w\<lparr>a_log := a_log w @ [a]\<rparr>)"

definition rok :: "'a \<Rightarrow> 'a rpc" where "rok x = ret (Inr x)"
definition rfail :: "string \<Rightarrow> 'a rpc" where "rfail e = ret (Inl (RError e))"
definition rfault :: "rpc_fault \<Rightarrow> 'a rpc" where "rfault e = ret (Inl e)"

definition runless :: "string option \<Rightarrow> unit rpc" where
  "runless r = ret (case r of None \<Rightarrow> Inr () | Some e \<Rightarrow> Inl (RError e))"

definition rresult :: "string + 'a \<Rightarrow> 'a rpc" where
  "rresult r = ret (case r of Inl e \<Rightarrow> Inl (RError e) | Inr x \<Rightarrow> Inr x)"

text \<open>A walk over directories that ran out of fuel.\<close>

definition rwalk :: "(string + 'a) option \<Rightarrow> 'a rpc" where
  "rwalk r = (case r of None \<Rightarrow> rfault RFuel | Some x \<Rightarrow> rresult x)"

definition rnow :: "(aworld, instant) state" where "rnow = rask a_now"

definition rinstant_add :: "instant \<Rightarrow> duration \<Rightarrow> instant rpc" where
  "rinstant_add t d = ret (case instant_checked_add t d of None \<Rightarrow> Inl RPanic | Some u \<Rightarrow> Inr u)"

definition deadline_in :: "duration \<Rightarrow> instant rpc" where
  "deadline_in d = do { t \<leftarrow> rnow; rinstant_add t d }"

definition send_value :: "json \<Rightarrow> unit rpc" where
  "send_value v = do { r \<leftarrow> rask a_send; rlog (RSend v r); runless r }"

definition read_message :: "(aworld, read_answer) state" where
  "read_message = do { r \<leftarrow> rask a_read; rlog (RRead r); ret r }"

definition configure_socket_timeout :: "duration \<Rightarrow> unit rpc" where
  "configure_socket_timeout d = do { r \<leftarrow> rask a_configure; rlog (RTimeout d); runless r }"

definition socket_setup :: "unit rpc" where
  "socket_setup = do { r \<leftarrow> rask a_setup; runless r }"

definition parse_value :: "string \<Rightarrow> json rpc" where
  "parse_value text = do { sd \<leftarrow> gets a_serde; rresult (js_parse sd text) }"

subsection \<open>Connecting\<close>

definition app_server_connect_attempt_timeout :: "duration \<Rightarrow> nat \<Rightarrow> duration" where
  "app_server_connect_attempt_timeout remaining remaining_address_count =
     max (remaining div min (max remaining_address_count 1) u32_max) 1"

definition app_server_connection_time_remaining :: "instant \<Rightarrow> string \<Rightarrow> duration rpc" where
  "app_server_connection_time_remaining deadline url =
     do { t \<leftarrow> rnow;
          (if t < deadline then rok (deadline - t)
           else rfail (''timed out connecting to app-server URL '' @ url)) }"

definition resolve_app_server_addresses :: "string \<Rightarrow> nat \<Rightarrow> (ip_addr \<times> nat) list rpc" where
  "resolve_app_server_addresses host port =
     (case parse_ip host of
        Some ip \<Rightarrow> rok [(ip, port)]
      | None \<Rightarrow> do { r \<leftarrow> rask a_resolve; rresult r })"

definition start_deadline_guard :: "instant \<Rightarrow> string \<Rightarrow> unit rpc" where
  "start_deadline_guard deadline url =
     tryE (app_server_connection_time_remaining deadline url) (\<lambda>_. socket_setup)"

definition websocket_handshake :: "string \<Rightarrow> string option \<Rightarrow> unit rpc" where
  "websocket_handshake url authorization =
     do { rlog (RHandshake url authorization);
          r \<leftarrow> rask a_handshake;
          (case r of
             HandshakeDone \<Rightarrow> rok ()
           | HandshakeFailed e \<Rightarrow> rfail e
           | HandshakeInterrupted \<Rightarrow> rfail ''app-server websocket handshake was interrupted'') }"

definition tls_connect :: "string \<Rightarrow> unit rpc" where
  "tls_connect url =
     tryE socket_setup (\<lambda>_.
       do { r \<leftarrow> rask a_tls;
            (case r of
               TlsReady \<Rightarrow> rok ()
             | TlsFailed e \<Rightarrow> rfail e
             | TlsWouldBlock \<Rightarrow> rfail (''timed out during TLS handshake with app-server URL '' @ url)) })"

text \<open>What follows a TCP connection: socket options, the deadline guard, TLS, the handshake.\<close>

definition finish_tcp_connection ::
  "string \<Rightarrow> bool \<Rightarrow> string option \<Rightarrow> duration \<Rightarrow> instant \<Rightarrow> unit rpc" where
  "finish_tcp_connection url uses_tls authorization timeout deadline =
     tryE socket_setup (\<lambda>_.
     tryE socket_setup (\<lambda>_.
     tryE (start_deadline_guard deadline url) (\<lambda>_.
     tryE (app_server_connection_time_remaining deadline url) (\<lambda>remaining.
     tryE (configure_socket_timeout remaining) (\<lambda>_.
     tryE (if uses_tls then tls_connect url else rok ()) (\<lambda>_.
     tryE (app_server_connection_time_remaining deadline url) (\<lambda>remaining.
     tryE (configure_socket_timeout remaining) (\<lambda>_.
     tryE (websocket_handshake url authorization) (\<lambda>_.
     tryE (app_server_connection_time_remaining deadline url) (\<lambda>_.
     configure_socket_timeout timeout))))))))))"

fun connect_attempts ::
  "string \<Rightarrow> bool \<Rightarrow> string option \<Rightarrow> duration \<Rightarrow> instant \<Rightarrow> (ip_addr \<times> nat) list \<Rightarrow> string option \<Rightarrow> unit rpc" where
  "connect_attempts url uses_tls authorization timeout deadline [] last_error =
     rfail (case last_error of
              Some e \<Rightarrow> ''unable to connect to app-server '' @ url @ '': '' @ e
            | None \<Rightarrow> ''app-server URL '' @ url @ '' resolved to no socket addresses'')"
| "connect_attempts url uses_tls authorization timeout deadline (addr # addrs) last_error =
     tryE (app_server_connection_time_remaining deadline url) (\<lambda>remaining.
       do { rlog (RConnectTcp addr (app_server_connect_attempt_timeout remaining (Suc (length addrs))));
            r \<leftarrow> rask a_tcp;
            (case r of
               None \<Rightarrow> finish_tcp_connection url uses_tls authorization timeout deadline
             | Some e \<Rightarrow> connect_attempts url uses_tls authorization timeout deadline addrs (Some e)) })"

definition uri_host_plain :: "string \<Rightarrow> string" where
  "uri_host_plain host =
     (case Option.bind (strip_prefix ''['' host) (strip_suffix '']'') of Some h \<Rightarrow> h | None \<Rightarrow> host)"

definition connect_tcp_app_server :: "string \<Rightarrow> string option \<Rightarrow> uri \<Rightarrow> duration \<Rightarrow> unit rpc" where
  "connect_tcp_app_server url auth_token_file u timeout =
     (case u_host u of
        None \<Rightarrow> rfail ''app-server URL did not include a host''
      | Some host \<Rightarrow>
          (let uses_tls = uri_scheme_is u ''wss'' in
           tryE (rresult (app_server_port u uses_tls)) (\<lambda>port.
           tryE (deadline_in timeout) (\<lambda>deadline.
           do { w \<leftarrow> gets id;
                tryE (rresult (app_server_client_request (a_urls w) (a_request_error w) (a_read_to_string w)
                        (a_header_error w) url auth_token_file)) (\<lambda>authorization.
                tryE (app_server_connection_time_remaining deadline url) (\<lambda>_.
                tryE (resolve_app_server_addresses (uri_host_plain host) port) (\<lambda>addresses.
                connect_attempts url uses_tls authorization timeout deadline addresses None))) }))))"

definition connect_unix_app_server :: "string \<Rightarrow> string option \<Rightarrow> duration \<Rightarrow> unit rpc" where
  "connect_unix_app_server path auth_token_file timeout =
     (if auth_token_file \<noteq> None then rfail ''app-server auth tokens are not supported over unix:// sockets''
      else if \<not> path_is_absolute path \<or> path_is_root path
      then rfail ''app-server unix:// URLs require an absolute socket path''
      else (let url = ''unix://'' @ path in
            tryE (deadline_in timeout) (\<lambda>deadline.
            do { rlog (RConnectUnix path);
                 r \<leftarrow> rask a_unix;
                 tryE (runless r) (\<lambda>_.
                 tryE socket_setup (\<lambda>_.
                 tryE (start_deadline_guard deadline url) (\<lambda>_.
                 tryE (app_server_connection_time_remaining deadline url) (\<lambda>remaining.
                 tryE (configure_socket_timeout remaining) (\<lambda>_.
                 tryE (do { w \<leftarrow> gets id; runless (a_request_error w ''ws://localhost/'') }) (\<lambda>_.
                 tryE (websocket_handshake ''ws://localhost/'' None) (\<lambda>_.
                 tryE (app_server_connection_time_remaining deadline url) (\<lambda>_.
                 configure_socket_timeout timeout)))))))) })))"

definition connect_app_server :: "string \<Rightarrow> duration \<Rightarrow> string option \<Rightarrow> unit rpc" where
  "connect_app_server url timeout auth_token_file =
     (case strip_unix_scheme url of
        Some path \<Rightarrow> connect_unix_app_server path auth_token_file timeout
      | None \<Rightarrow>
          do { pu \<leftarrow> gets a_urls;
               tryE (rresult (pu url)) (\<lambda>u.
                 if uri_scheme_is u ''ws'' \<or> uri_scheme_is u ''wss''
                 then connect_tcp_app_server url auth_token_file u timeout
                 else rfail ''app-server URL must use ws://, wss://, or unix://'') })"

end
