(* ===== verification/App_Server_Rpc.thy ===== *)
theory App_Server_Rpc
  imports App_Server_World
begin

text \<open>
  JSON-RPC with an app server under a deadline (\<open>session_inventory.rs\<close>): one request and the
  wait for its response, the initialisation, the listing of threads page by page, and the
  operations of the connector built from them: the inventory, the health check, creating a
  thread, attaching a host session, archiving and unarchiving.
\<close>

subsection \<open>Requests\<close>

definition rpc_request :: "nat \<Rightarrow> string \<Rightarrow> json \<Rightarrow> json" where
  "rpc_request i m params =
     jobj [(''jsonrpc'', JStr ''2.0''), (''id'', JNum (PosInt i)), (''method'', JStr m), (''params'', params)]"

definition initialize_params :: "string \<Rightarrow> json" where
  "initialize_params version =
     jobj [(''clientInfo'', jobj [(''name'', JStr ''chaop-agent''), (''title'', JStr ''Chaop connector''),
                                   (''version'', JStr version)]),
           (''capabilities'', jobj [(''experimentalApi'', JBool True), (''requestAttestation'', JBool False)])]"

definition initialized_notification :: json where
  "initialized_notification = jobj [(''jsonrpc'', JStr ''2.0''), (''method'', JStr ''initialized'')]"

definition cargo_pkg_version :: string where "cargo_pkg_version = ''0.1.0''"

definition app_server_error :: "string \<Rightarrow> json \<Rightarrow> string" where
  "app_server_error m error =
     ''app-server '' @ m @ '' failed: ''
       @ (case jget_str error ''message'' of Some t \<Rightarrow> t | None \<Rightarrow> ''unknown app-server error'')"

definition response_id_is :: "json \<Rightarrow> nat \<Rightarrow> bool" where
  "response_id_is v i \<longleftrightarrow> Option.bind (jget v ''id'') as_i64 = Some (int i)"

definition ensure_app_server_local_budget :: "instant \<Rightarrow> unit rpc" where
  "ensure_app_server_local_budget deadline =
     do { t \<leftarrow> rnow;
          (if deadline \<le> t then rfail ''app-server request exceeded local time budget'' else rok ()) }"

definition remaining_timeout :: "duration \<Rightarrow> instant \<Rightarrow> (aworld, duration) state" where
  "remaining_timeout timeout deadline =
     do { t \<leftarrow> rnow;
          ret (if deadline - t = 0 then millis 1 else max (min (deadline - t) timeout) (millis 1)) }"

text \<open>One round of the wait: \<open>Inl ()\<close> goes on, \<open>Inr v\<close> is the response.\<close>

definition response_round :: "nat \<Rightarrow> string \<Rightarrow> duration \<Rightarrow> instant \<Rightarrow> (unit + json) rpc" where
  "response_round i m timeout deadline =
     (let timed_out = ''app-server '' @ m @ '' timed out before matching response'' in
      do { t \<leftarrow> rnow;
           (if deadline \<le> t then rfail timed_out
            else do {
              d \<leftarrow> remaining_timeout timeout deadline;
              tryE (configure_socket_timeout d) (\<lambda>_.
              do { r \<leftarrow> read_message;
                   (case r of
                      ReadTimeout e \<Rightarrow> rfail timed_out
                    | ReadFailed e \<Rightarrow> rfail e
                    | ReadMsg (MsgText text) \<Rightarrow>
                        tryE (parse_value text) (\<lambda>v.
                          (if \<not> response_id_is v i then rok (Inl ())
                           else (case jget v ''error'' of
                                   Some error \<Rightarrow> rfail (app_server_error m error)
                                 | None \<Rightarrow> rok (Inr v))))
                    | ReadMsg MsgClose \<Rightarrow> rfail (''app-server closed before '' @ m @ '' completed'')
                    | ReadMsg _ \<Rightarrow> rok (Inl ())) }) }) })"

definition send_app_server_request_inner ::
  "nat \<Rightarrow> nat \<Rightarrow> string \<Rightarrow> json \<Rightarrow> duration \<Rightarrow> instant \<Rightarrow> json rpc" where
  "send_app_server_request_inner fuel i m params timeout deadline =
     tryE (send_value (rpc_request i m params)) (\<lambda>_.
       loopE fuel RFuel (\<lambda>_. response_round i m timeout deadline) ())"

definition send_app_server_request_before_deadline ::
  "nat \<Rightarrow> nat \<Rightarrow> string \<Rightarrow> json \<Rightarrow> duration \<Rightarrow> instant \<Rightarrow> json rpc" where
  "send_app_server_request_before_deadline fuel i m params timeout deadline =
     tryE (ensure_app_server_local_budget deadline) (\<lambda>_.
       do { d \<leftarrow> remaining_timeout timeout deadline;
            tryE (configure_socket_timeout d) (\<lambda>_.
              send_app_server_request_inner fuel i m params timeout deadline) })"

definition initialize_app_server_connection_before_deadline :: "nat \<Rightarrow> duration \<Rightarrow> instant \<Rightarrow> unit rpc" where
  "initialize_app_server_connection_before_deadline fuel timeout deadline =
     tryE (send_app_server_request_before_deadline fuel 0 ''initialize''
             (initialize_params cargo_pkg_version) timeout deadline) (\<lambda>_.
       send_value initialized_notification)"

subsection \<open>Threads\<close>

definition app_server_thread_list_data :: "json \<Rightarrow> json list option" where
  "app_server_thread_list_data v = Option.bind (jget v ''result'') (\<lambda>r. jget_array r ''data'')"

definition app_server_thread_list_next_cursor :: "json \<Rightarrow> string option" where
  "app_server_thread_list_next_cursor v =
     filter_nonblank (Option.bind (jget2 v ''result'' ''nextCursor'') as_str)"

definition app_server_thread_id :: "json \<Rightarrow> string option" where
  "app_server_thread_id thread = filter_nonblank (jget_str thread ''id'')"

definition app_server_thread_session_id :: "json \<Rightarrow> string option" where
  "app_server_thread_session_id thread =
     or_else (filter_nonblank (jget_str thread ''sessionId'')) (app_server_thread_id thread)"

definition thread_session :: "json \<Rightarrow> app_server_session" where
  "thread_session thread =
     \<lparr> ass_name = compact_title (jget_str thread ''name''), ass_cwd = jget_str thread ''cwd'',
       ass_updated_at = app_server_thread_timestamp thread \<rparr>"

definition add_thread_session ::
  "(string \<times> app_server_session) list \<Rightarrow> json \<Rightarrow> (string \<times> app_server_session) list" where
  "add_thread_session sessions thread =
     (case app_server_thread_session_id thread of
        None \<Rightarrow> sessions
      | Some session_id \<Rightarrow> entry_update session_id (thread_session thread) (\<lambda>s. s) sessions)"

definition app_server_sessions_from_response :: "json \<Rightarrow> (string \<times> app_server_session) list" where
  "app_server_sessions_from_response v =
     (case app_server_thread_list_data v of None \<Rightarrow> [] | Some data \<Rightarrow> foldl add_thread_session [] data)"

fun validate_threads :: "nat \<Rightarrow> json list \<Rightarrow> string + unit" where
  "validate_threads index [] = Inr ()"
| "validate_threads index (thread # threads) =
     (if \<not> is_object thread
      then Inl (''app-server thread/list response data['' @ show_nat index @ ''] was not an object'')
      else if app_server_thread_id thread = None
      then Inl (''app-server thread/list response data['' @ show_nat index @ ''] did not include thread.id'')
      else validate_threads (Suc index) threads)"

definition validate_app_server_thread_list_response :: "json \<Rightarrow> string + unit" where
  "validate_app_server_thread_list_response v =
     (case app_server_thread_list_data v of
        None \<Rightarrow> Inl ''app-server thread/list response did not include result.data''
      | Some data \<Rightarrow>
          tryR (validate_threads 0 data) (\<lambda>_.
            (case jget2 v ''result'' ''nextCursor'' of
               None \<Rightarrow> Inr ()
             | Some JNull \<Rightarrow> Inr ()
             | Some (JStr cursor) \<Rightarrow>
                 (if nonblank cursor then Inr ()
                  else Inl ''app-server thread/list response included empty nextCursor'')
             | Some _ \<Rightarrow> Inl ''app-server thread/list response included non-string nextCursor'')))"

definition app_server_thread_list_params :: "nat \<Rightarrow> string option \<Rightarrow> bool option \<Rightarrow> json" where
  "app_server_thread_list_params limit cursor archived_filter =
     jobj ([(''archived'', case archived_filter of Some b \<Rightarrow> JBool b | None \<Rightarrow> JNull),
            (''limit'', JNum (PosInt limit)), (''sortKey'', JStr ''updated_at''),
            (''sortDirection'', JStr ''desc''),
            (''sourceKinds'', JArr [JStr ''cli'', JStr ''vscode'', JStr ''appServer'']),
            (''useStateDbOnly'', JBool True)]
         @ opt_entry ''cursor'' JStr cursor)"

definition send_app_server_thread_list_request ::
  "nat \<Rightarrow> nat \<Rightarrow> nat \<Rightarrow> string option \<Rightarrow> bool option \<Rightarrow> duration \<Rightarrow> instant \<Rightarrow> json rpc" where
  "send_app_server_thread_list_request fuel i limit cursor archived_filter timeout deadline =
     send_app_server_request_before_deadline fuel i ''thread/list''
       (app_server_thread_list_params limit cursor archived_filter) timeout deadline"

record archive_page_matches =
  pm_exact_thread_id :: "string option"
  pm_session_thread_ids :: "string list"

fun match_threads :: "string \<Rightarrow> json list \<Rightarrow> string list \<Rightarrow> archive_page_matches" where
  "match_threads requested [] ids = \<lparr> pm_exact_thread_id = None, pm_session_thread_ids = ids \<rparr>"
| "match_threads requested (thread # threads) ids =
     (let thread_id = jget_str thread ''id''; session_id = jget_str thread ''sessionId'' in
      if thread_id = Some requested
      then (if session_id = Some requested then match_threads requested threads (ids @ [requested])
            else \<lparr> pm_exact_thread_id = Some requested, pm_session_thread_ids = ids \<rparr>)
      else if session_id = Some requested
      then (case thread_id of
              Some t \<Rightarrow> match_threads requested threads (ids @ [t])
            | None \<Rightarrow> match_threads requested threads ids)
      else match_threads requested threads ids)"

definition app_server_archive_thread_ids_from_response :: "json \<Rightarrow> string \<Rightarrow> archive_page_matches" where
  "app_server_archive_thread_ids_from_response v requested =
     (case app_server_thread_list_data v of
        None \<Rightarrow> \<lparr> pm_exact_thread_id = None, pm_session_thread_ids = [] \<rparr>
      | Some threads \<Rightarrow> match_threads requested threads [])"

definition app_server_thread_identity_keys_from_response :: "json \<Rightarrow> string list" where
  "app_server_thread_identity_keys_from_response v =
     (case app_server_thread_list_data v of
        None \<Rightarrow> []
      | Some threads \<Rightarrow>
          List.map_filter (\<lambda>t. or_else (jget_str t ''id'') (jget_str t ''sessionId'')) threads)"

text \<open>\<open>HashSet::insert\<close>, one key after another: the set after, and how many were new.\<close>

fun insert_new :: "string list \<Rightarrow> string set \<Rightarrow> string list \<times> string set" where
  "insert_new [] seen = ([], seen)"
| "insert_new (k # ks) seen =
     (case insert_new ks (insert k seen) of (new, seen') \<Rightarrow> (if k \<in> seen then new else k # new, seen'))"


subsection \<open>Finding a thread page by page\<close>

definition app_server_archive_sync_list_page_size :: nat where "app_server_archive_sync_list_page_size = 200"
definition app_server_archive_sync_max_pages_per_state :: nat where "app_server_archive_sync_max_pages_per_state = 2"
definition app_server_archive_sync_deadline_seconds :: nat where "app_server_archive_sync_deadline_seconds = 12"

datatype archive_page_scan =
    Complete "string list" bool
  | Exhausted "string list"

record page_scan =
  ps_cursor :: "string option"
  ps_seen_threads :: "string set"
  ps_seen_cursors :: "string set"
  ps_session_ids :: "string list"
  ps_request_id :: nat

definition new_page_scan :: "nat \<Rightarrow> page_scan" where
  "new_page_scan i = \<lparr> ps_cursor = None, ps_seen_threads = {}, ps_seen_cursors = {},
     ps_session_ids = [], ps_request_id = i \<rparr>"

text \<open>What one page leads to: \<open>Inr\<close> the result of the scan, \<open>Inl\<close> the state for the next page.\<close>

definition page_step :: "page_scan \<Rightarrow> string \<Rightarrow> json \<Rightarrow> page_scan + archive_page_scan" where
  "page_step st thread_id response =
     (let matches = app_server_archive_thread_ids_from_response response thread_id in
      case pm_exact_thread_id matches of
        Some exact \<Rightarrow> Inr (Complete [exact] True)
      | None \<Rightarrow>
          (let session_ids = ps_session_ids st
                 @ fst (insert_new (pm_session_thread_ids matches) (set (ps_session_ids st)));
               page_len = (case app_server_thread_list_data response of None \<Rightarrow> 0 | Some d \<Rightarrow> length d);
               (new_keys, seen) = insert_new (app_server_thread_identity_keys_from_response response)
                                    (ps_seen_threads st)
           in case app_server_thread_list_next_cursor response of
                None \<Rightarrow> Inr (Complete session_ids False)
              | Some cursor \<Rightarrow>
                  (if page_len = 0 \<or> new_keys = [] \<or> cursor \<in> ps_seen_cursors st
                   then Inr (Complete session_ids False)
                   else Inl (st\<lparr>ps_cursor := Some cursor, ps_seen_threads := seen,
                               ps_seen_cursors := insert cursor (ps_seen_cursors st),
                               ps_session_ids := session_ids\<rparr>))))"

fun scan_pages ::
  "nat \<Rightarrow> nat \<Rightarrow> string \<Rightarrow> bool option \<Rightarrow> duration \<Rightarrow> instant \<Rightarrow> page_scan \<Rightarrow> (archive_page_scan \<times> nat) rpc" where
  "scan_pages fuel 0 thread_id archived_filter timeout deadline st =
     rok (Exhausted (ps_session_ids st), ps_request_id st)"
| "scan_pages fuel (Suc pages) thread_id archived_filter timeout deadline st =
     tryE (ensure_app_server_local_budget deadline) (\<lambda>_.
     tryE (send_app_server_thread_list_request fuel (ps_request_id st) app_server_archive_sync_list_page_size
             (ps_cursor st) archived_filter timeout deadline) (\<lambda>response.
       (case page_step (st\<lparr>ps_request_id := Suc (ps_request_id st)\<rparr>) thread_id response of
          Inr scan \<Rightarrow> rok (scan, Suc (ps_request_id st))
        | Inl st' \<Rightarrow> scan_pages fuel pages thread_id archived_filter timeout deadline st')))"

definition find_app_server_thread_ids_in_pages ::
  "nat \<Rightarrow> string \<Rightarrow> bool option \<Rightarrow> nat \<Rightarrow> duration \<Rightarrow> instant \<Rightarrow> (archive_page_scan \<times> nat) rpc" where
  "find_app_server_thread_ids_in_pages fuel thread_id archived_filter i timeout deadline =
     scan_pages fuel app_server_archive_sync_max_pages_per_state thread_id archived_filter timeout deadline
       (new_page_scan i)"

subsection \<open>Archiving\<close>

datatype archive_resolution = NeedsUpdate "string list" | AlreadySynced

definition budget_tree :: string where
  "budget_tree = ''app-server archive sync exceeded page budget while resolving a session tree''"
definition budget_tree_state :: string where
  "budget_tree_state = ''app-server archive sync exceeded page budget before resolving session tree state''"
definition budget_thread_state :: string where
  "budget_thread_state = ''app-server archive sync exceeded page budget before resolving thread state''"

definition is_exhausted :: "archive_page_scan \<Rightarrow> bool" where
  "is_exhausted scan = (case scan of Exhausted _ \<Rightarrow> True | Complete _ _ \<Rightarrow> False)"

text \<open>After the threads in the wanted state were scanned too.\<close>

definition resolve_target_scan :: "bool \<Rightarrow> archive_page_scan \<Rightarrow> string + archive_resolution option" where
  "resolve_target_scan source_exhausted scan =
     (case scan of
        Complete ids exact \<Rightarrow>
          (if ids \<noteq> []
           then (if source_exhausted \<and> \<not> exact then Inl budget_tree_state else Inr (Some AlreadySynced))
           else if source_exhausted then Inl budget_thread_state else Inr None)
      | Exhausted ids \<Rightarrow>
          (if ids \<noteq> []
           then (if source_exhausted then Inl budget_tree_state else Inr (Some AlreadySynced))
           else Inl budget_thread_state))"

definition resolve_app_server_thread_ids_for_archive ::
  "nat \<Rightarrow> string \<Rightarrow> bool \<Rightarrow> nat \<Rightarrow> duration \<Rightarrow> instant \<Rightarrow> (archive_resolution option \<times> nat) rpc" where
  "resolve_app_server_thread_ids_for_archive fuel thread_id archived i timeout deadline =
     tryE (find_app_server_thread_ids_in_pages fuel thread_id (Some (\<not> archived)) i timeout deadline)
       (\<lambda>(source, i1).
         (case source of
            Complete (t # ts) exact \<Rightarrow> rok (Some (NeedsUpdate (t # ts)), i1)
          | Exhausted (t # ts) \<Rightarrow> rfail budget_tree
          | _ \<Rightarrow>
              tryE (find_app_server_thread_ids_in_pages fuel thread_id (Some archived) i1 timeout deadline)
                (\<lambda>(target, i2).
                  tryE (rresult (resolve_target_scan (is_exhausted source) target)) (\<lambda>r. rok (r, i2)))))"

record app_server_thread =
  at_id :: string
  at_session_id :: string
  at_name :: "string option"
  at_cwd :: "string option"
  at_updated_at :: string

definition app_server_thread_from_response :: "json \<Rightarrow> string + app_server_thread" where
  "app_server_thread_from_response v =
     (case jget2 v ''result'' ''thread'' of
        None \<Rightarrow> Inl ''app-server thread/start response did not include result.thread''
      | Some thread \<Rightarrow>
          (case jget_str thread ''id'' of
             None \<Rightarrow> Inl ''app-server thread/start response did not include thread.id''
           | Some i \<Rightarrow>
               Inr \<lparr> at_id = i,
                     at_session_id = (case app_server_thread_session_id thread of Some s \<Rightarrow> s | None \<Rightarrow> i),
                     at_name = jget_str thread ''name'', at_cwd = jget_str thread ''cwd'',
                     at_updated_at = (case app_server_thread_timestamp thread of Some t \<Rightarrow> t
                       | None \<Rightarrow> ''1970-01-01T00:00:00.000Z'') \<rparr>))"

text \<open>\<open>to_string_lossy\<close> of a path.\<close>

definition resume_params :: "string \<Rightarrow> string option \<Rightarrow> string option \<Rightarrow> json" where
  "resume_params thread_id path cwd =
     jobj ([(''threadId'', JStr thread_id), (''excludeTurns'', JBool True)]
         @ opt_entry ''path'' (\<lambda>p. JStr (utf8_lossy p)) path
         @ opt_entry ''cwd'' JStr cwd
         @ opt_entry ''runtimeWorkspaceRoots'' (\<lambda>c. JArr [JStr c]) cwd)"

definition resume_app_server_thread_from_rollout_path_for_archive ::
  "nat \<Rightarrow> string \<Rightarrow> (string \<times> nat) option \<Rightarrow> string option \<Rightarrow> nat \<Rightarrow> duration \<Rightarrow> instant
    \<Rightarrow> (string option \<times> nat) rpc" where
  "resume_app_server_thread_from_rollout_path_for_archive fuel thread_id rollout_lookup locked_cwd i timeout deadline =
     (case rollout_lookup of
        None \<Rightarrow> rok (None, i)
      | Some (codex_home, max_sessions) \<Rightarrow>
          do { d \<leftarrow> gets a_disk;
               tryE (rwalk (find_rollout_path fuel d codex_home thread_id max_sessions)) (\<lambda>found.
               (case found of
                  None \<Rightarrow> rok (None, i)
                | Some path \<Rightarrow>
                    tryE (case locked_cwd of Some cwd \<Rightarrow> rok (Some cwd)
                          | None \<Rightarrow> rresult (rollout_resume_cwd d path thread_id)) (\<lambda>cwd.
                    tryE (send_app_server_request_before_deadline fuel i ''thread/resume''
                            (resume_params thread_id (Some path) cwd) timeout deadline) (\<lambda>response.
                    tryE (rresult (app_server_thread_from_response response)) (\<lambda>resumed.
                      if at_session_id resumed \<noteq> thread_id
                      then rfail (''app-server thread/resume returned session '' @ at_session_id resumed
                                   @ '' while syncing archive for session '' @ thread_id)
                      else rok (Some (at_id resumed), Suc i)))))) })"

definition archive_method :: "bool \<Rightarrow> string" where
  "archive_method archived = (if archived then ''thread/archive'' else ''thread/unarchive'')"

definition thread_id_params :: "string \<Rightarrow> json" where
  "thread_id_params t = jobj [(''threadId'', JStr t)]"

fun archive_threads :: "nat \<Rightarrow> bool \<Rightarrow> string list \<Rightarrow> nat \<Rightarrow> duration \<Rightarrow> instant \<Rightarrow> unit rpc" where
  "archive_threads fuel archived [] i timeout deadline = rok ()"
| "archive_threads fuel archived (t # ts) i timeout deadline =
     tryE (ensure_app_server_local_budget deadline) (\<lambda>_.
     tryE (send_app_server_request_before_deadline fuel i (archive_method archived)
             (thread_id_params t) timeout deadline) (\<lambda>_.
       archive_threads fuel archived ts (Suc i) timeout deadline))"

definition app_server_archive_socket_timeout :: "nat \<Rightarrow> duration" where
  "app_server_archive_socket_timeout timeout_seconds =
     secs (min (max timeout_seconds 1) app_server_archive_sync_deadline_seconds)"

definition set_app_server_thread_archived_at_with_auth ::
  "nat \<Rightarrow> string \<Rightarrow> string \<Rightarrow> bool \<Rightarrow> (string \<times> nat) option \<Rightarrow> nat \<Rightarrow> string option \<Rightarrow> string option \<Rightarrow> bool rpc" where
  "set_app_server_thread_archived_at_with_auth fuel url thread_id archived rollout_lookup timeout_seconds
       locked_cwd auth_token_file =
     tryE (deadline_in (secs app_server_archive_sync_deadline_seconds)) (\<lambda>deadline.
     (let timeout = app_server_archive_socket_timeout timeout_seconds in
      do { d \<leftarrow> remaining_timeout timeout deadline;
           tryE (connect_app_server url d auth_token_file) (\<lambda>_.
           tryE (initialize_app_server_connection_before_deadline fuel timeout deadline) (\<lambda>_.
           tryE (resolve_app_server_thread_ids_for_archive fuel thread_id archived 1 timeout deadline)
             (\<lambda>(resolution, i).
               (case resolution of
                  Some AlreadySynced \<Rightarrow> rok True
                | Some (NeedsUpdate ids) \<Rightarrow>
                    tryE (archive_threads fuel archived ids i timeout deadline) (\<lambda>_. rok True)
                | None \<Rightarrow>
                    tryE (resume_app_server_thread_from_rollout_path_for_archive fuel thread_id rollout_lookup
                            locked_cwd i timeout deadline) (\<lambda>(resumed, i).
                      (case resumed of
                         None \<Rightarrow> rok False
                       | Some t \<Rightarrow>
                           tryE (archive_threads fuel archived [t] i timeout deadline) (\<lambda>_. rok True))))))) }))"


subsection \<open>Attaching and creating\<close>

definition app_server_timeout :: "nat \<Rightarrow> duration" where
  "app_server_timeout timeout_seconds = secs (max timeout_seconds 1)"

definition scan_app_server_thread_id_for_ensure ::
  "nat \<Rightarrow> string \<Rightarrow> bool option \<Rightarrow> nat \<Rightarrow> duration \<Rightarrow> instant \<Rightarrow> bool \<Rightarrow> (string option \<times> nat) rpc" where
  "scan_app_server_thread_id_for_ensure fuel session_id archived_filter i timeout deadline allow_exhausted_miss =
     tryE (find_app_server_thread_ids_in_pages fuel session_id archived_filter i timeout deadline) (\<lambda>(scan, i).
       (case scan of
          Complete (t # ts) exact \<Rightarrow> rok (Some t, i)
        | Complete [] exact \<Rightarrow> rok (None, i)
        | Exhausted (t # ts) \<Rightarrow> rok (Some t, i)
        | Exhausted [] \<Rightarrow>
            (if allow_exhausted_miss then rok (None, i)
             else rfail ''app-server host session attach exceeded page budget while resolving thread id'')))"

definition resolve_app_server_thread_for_ensure ::
  "nat \<Rightarrow> string \<Rightarrow> nat \<Rightarrow> duration \<Rightarrow> instant \<Rightarrow> bool \<Rightarrow> ((string \<times> bool) option \<times> nat) rpc" where
  "resolve_app_server_thread_for_ensure fuel session_id i timeout deadline allow_exhausted_miss =
     tryE (scan_app_server_thread_id_for_ensure fuel session_id (Some False) i timeout deadline allow_exhausted_miss)
       (\<lambda>(found, i).
         (case found of
            Some t \<Rightarrow> rok (Some (t, False), i)
          | None \<Rightarrow>
              tryE (scan_app_server_thread_id_for_ensure fuel session_id (Some True) i timeout deadline
                      allow_exhausted_miss) (\<lambda>(found, i).
                rok (map_option (\<lambda>t. (t, True)) found, i))))"

text \<open>The parameters of the resume that attaches, and the request id it uses.\<close>

definition ensure_resume_params ::
  "nat \<Rightarrow> string \<Rightarrow> string \<Rightarrow> string option \<Rightarrow> (string \<times> nat) option \<Rightarrow> bool \<Rightarrow> (string \<times> bool) option \<Rightarrow> nat
    \<Rightarrow> duration \<Rightarrow> instant \<Rightarrow> (json \<times> nat) rpc" where
  "ensure_resume_params fuel session_id cwd rollout_path rollout_lookup lock resolved i timeout deadline =
     (case resolved of
        Some (t, archived) \<Rightarrow>
          tryE (if archived
                then tryE (send_app_server_request_before_deadline fuel i ''thread/unarchive''
                             (thread_id_params t) timeout deadline) (\<lambda>_. rok (Suc i))
                else rok i) (\<lambda>i.
            rok (resume_params t None (Some cwd), i))
      | None \<Rightarrow>
          do { d \<leftarrow> gets a_disk;
               tryE (case rollout_path of
                       Some p \<Rightarrow> rok (Some p)
                     | None \<Rightarrow>
                         (case rollout_lookup of
                            None \<Rightarrow> rok None
                          | Some (codex_home, m) \<Rightarrow> rwalk (find_rollout_path fuel d codex_home session_id m)))
                 (\<lambda>found.
                   (case found of
                      None \<Rightarrow> rfail (''app-server host session attach could not find local rollout for session ''
                                      @ session_id)
                    | Some path \<Rightarrow>
                        tryE (if lock then rok cwd
                              else tryE (rresult (rollout_resume_cwd d path session_id)) (\<lambda>c.
                                     rok (case c of Some c \<Rightarrow> c | None \<Rightarrow> cwd))) (\<lambda>resume_cwd.
                          rok (resume_params session_id (Some path) (Some resume_cwd), i)))) })"

definition ensure_app_server_host_session_at_with_auth ::
  "nat \<Rightarrow> string \<Rightarrow> string \<Rightarrow> string option \<Rightarrow> string \<Rightarrow> string option \<Rightarrow> (string \<times> nat) option \<Rightarrow> nat \<Rightarrow> bool
    \<Rightarrow> string option \<Rightarrow> agent_host_session rpc" where
  "ensure_app_server_host_session_at_with_auth fuel url session_id title cwd rollout_path rollout_lookup
       timeout_seconds lock auth_token_file =
     (let timeout = app_server_timeout timeout_seconds in
      tryE (connect_app_server url timeout auth_token_file) (\<lambda>_.
      tryE (deadline_in timeout) (\<lambda>deadline.
      tryE (initialize_app_server_connection_before_deadline fuel timeout deadline) (\<lambda>_.
      tryE (resolve_app_server_thread_for_ensure fuel session_id 1 timeout deadline
              (rollout_path \<noteq> None \<or> rollout_lookup \<noteq> None)) (\<lambda>(resolved, i).
      tryE (ensure_resume_params fuel session_id cwd rollout_path rollout_lookup lock resolved i timeout deadline)
        (\<lambda>(params, i).
      tryE (send_app_server_request_before_deadline fuel i ''thread/resume'' params timeout deadline) (\<lambda>response.
      tryE (rresult (app_server_thread_from_response response)) (\<lambda>resumed.
        if at_session_id resumed \<noteq> session_id
        then rfail (''app-server thread/resume returned session '' @ at_session_id resumed
                     @ '' while attaching session '' @ session_id)
        else (let cwd' = (if lock then Some cwd else or_else (at_cwd resumed) (Some cwd)) in
              rok \<lparr> hs_session_id = session_id,
                    hs_title = (case or_else (compact_title (at_name resumed)) (compact_title title) of
                                  Some t \<Rightarrow> t | None \<Rightarrow> fallback_title session_id cwd'),
                    hs_title_source = TitleAppServer, hs_app_server_present = True, hs_cwd = cwd',
                    hs_updated_at = at_updated_at resumed \<rparr>)))))))))"

definition started_session :: "string option \<Rightarrow> app_server_thread \<Rightarrow> agent_host_session" where
  "started_session requested_title started =
     \<lparr> hs_session_id = at_session_id started,
       hs_title = (case or_else requested_title (compact_title (at_name started)) of
                     Some t \<Rightarrow> t | None \<Rightarrow> fallback_title (at_session_id started) (at_cwd started)),
       hs_title_source = TitleAppServer, hs_app_server_present = True, hs_cwd = at_cwd started,
       hs_updated_at = at_updated_at started \<rparr>"

text \<open>A failure to name the thread is ignored, a panic is not.\<close>

definition ignore_error :: "'a rpc \<Rightarrow> unit rpc" where
  "ignore_error m =
     do { r \<leftarrow> m;
          ret (case r of Inl RPanic \<Rightarrow> Inl RPanic | Inl RFuel \<Rightarrow> Inl RFuel | _ \<Rightarrow> Inr ()) }"

definition create_app_server_thread_at_with_auth ::
  "nat \<Rightarrow> string \<Rightarrow> string option \<Rightarrow> string \<Rightarrow> nat \<Rightarrow> string option \<Rightarrow> agent_host_session rpc" where
  "create_app_server_thread_at_with_auth fuel url title cwd timeout_seconds auth_token_file =
     (let timeout = app_server_timeout timeout_seconds in
      tryE (deadline_in timeout) (\<lambda>deadline.
      tryE (connect_app_server url timeout auth_token_file) (\<lambda>_.
      tryE (initialize_app_server_connection_before_deadline fuel timeout deadline) (\<lambda>_.
      tryE (send_app_server_request_before_deadline fuel 1 ''thread/start''
              (jobj [(''cwd'', JStr cwd), (''ephemeral'', JBool False), (''threadSource'', JStr ''user'')])
              timeout deadline) (\<lambda>response.
      tryE (rresult (app_server_thread_from_response response)) (\<lambda>started.
        (let requested_title = compact_title title in
         tryE (case requested_title of
                 None \<Rightarrow> rok ()
               | Some t \<Rightarrow>
                   ignore_error (send_app_server_request_before_deadline fuel 2 ''thread/name/set''
                     (jobj [(''threadId'', JStr (at_id started)), (''name'', JStr t)]) timeout deadline)) (\<lambda>_.
           rok (started_session requested_title started)))))))))"

subsection \<open>The inventory and the health check\<close>

definition load_app_server_sessions_with_auth ::
  "nat \<Rightarrow> string \<Rightarrow> nat \<Rightarrow> nat \<Rightarrow> string option \<Rightarrow> app_server_session_inventory rpc" where
  "load_app_server_sessions_with_auth fuel url limit timeout_seconds auth_token_file =
     (let timeout = app_server_timeout timeout_seconds in
      tryE (deadline_in timeout) (\<lambda>deadline.
      tryE (connect_app_server url timeout auth_token_file) (\<lambda>_.
      tryE (initialize_app_server_connection_before_deadline fuel timeout deadline) (\<lambda>_.
      (let session_limit = max limit 1 in
       tryE (send_app_server_thread_list_request fuel 1 (sat_add u64_max session_limit 1) None (Some False)
               timeout deadline) (\<lambda>v.
       tryE (rresult (validate_app_server_thread_list_response v)) (\<lambda>_.
       (let raw_thread_count = (case app_server_thread_list_data v of Some d \<Rightarrow> length d | None \<Rightarrow> 0)
        in rok \<lparr> asi_sessions = app_server_sessions_from_response v,
                 asi_truncated = (session_limit < raw_thread_count
                   \<or> app_server_thread_list_next_cursor v \<noteq> None) \<rparr>))))))))"

definition app_server_health_check_with_auth_timeout ::
  "nat \<Rightarrow> string \<Rightarrow> duration \<Rightarrow> string option \<Rightarrow> unit rpc" where
  "app_server_health_check_with_auth_timeout fuel url timeout auth_token_file =
     tryE (deadline_in timeout) (\<lambda>deadline.
     tryE (connect_app_server url timeout auth_token_file) (\<lambda>_.
       initialize_app_server_connection_before_deadline fuel timeout deadline))"

definition app_server_health_check_with_auth :: "nat \<Rightarrow> string \<Rightarrow> nat \<Rightarrow> string option \<Rightarrow> unit rpc" where
  "app_server_health_check_with_auth fuel url timeout_seconds auth_token_file =
     app_server_health_check_with_auth_timeout fuel url (app_server_timeout timeout_seconds) auth_token_file"

subsection \<open>What the connector calls\<close>

definition lock_app_server_cwd_to_workspace_root :: "agent_config \<Rightarrow> bool" where
  "lock_app_server_cwd_to_workspace_root c \<longleftrightarrow>
     ma_enabled (si_managed_app_server (ac_session_inventory c))
     \<and> ma_lock_cwd_to_workspace_root (si_managed_app_server (ac_session_inventory c))"

definition workspace_root_text :: "agent_config \<Rightarrow> string" where
  "workspace_root_text c = utf8_lossy (ac_workspace_root c)"

definition app_server_command_cwd :: "agent_config \<Rightarrow> string option \<Rightarrow> string" where
  "app_server_command_cwd c cwd =
     (if lock_app_server_cwd_to_workspace_root c then workspace_root_text c
      else (case cwd of
              Some p \<Rightarrow> (if path_is_absolute p then p else workspace_root_text c)
            | None \<Rightarrow> workspace_root_text c))"

definition create_app_server_thread :: "nat \<Rightarrow> agent_config \<Rightarrow> string option \<Rightarrow> agent_host_session rpc" where
  "create_app_server_thread fuel c title =
     (let si = ac_session_inventory c in
      case si_app_server_url si of
        None \<Rightarrow> rfail ''session_inventory.app_server_url is required for local thread creation''
      | Some url \<Rightarrow>
          create_app_server_thread_at_with_auth fuel url title (workspace_root_text c)
            (si_app_server_timeout_seconds si) (si_app_server_auth_token_file si))"

definition ensure_app_server_host_session ::
  "nat \<Rightarrow> agent_config \<Rightarrow> string \<Rightarrow> string option \<Rightarrow> string option \<Rightarrow> agent_host_session rpc" where
  "ensure_app_server_host_session fuel c session_id title cwd =
     (let si = ac_session_inventory c in
      case si_app_server_url si of
        None \<Rightarrow> rfail ''session_inventory.app_server_url is required for app-server host session attach''
      | Some url \<Rightarrow>
          do { d \<leftarrow> gets a_disk;
               ensure_app_server_host_session_at_with_auth fuel url session_id title
                 (app_server_command_cwd c cwd) None (Some (codex_home_of d si, si_max_sessions si))
                 (si_app_server_timeout_seconds si) (lock_app_server_cwd_to_workspace_root c)
                 (si_app_server_auth_token_file si) })"

definition set_app_server_thread_archived :: "nat \<Rightarrow> agent_config \<Rightarrow> string \<Rightarrow> bool \<Rightarrow> bool rpc" where
  "set_app_server_thread_archived fuel c thread_id archived =
     (let si = ac_session_inventory c in
      case si_app_server_url si of
        None \<Rightarrow> rfail ''session_inventory.app_server_url is required for app-server archive sync''
      | Some url \<Rightarrow>
          do { d \<leftarrow> gets a_disk;
               set_app_server_thread_archived_at_with_auth fuel url thread_id archived
                 (Some (codex_home_of d si, si_max_sessions si)) (si_app_server_timeout_seconds si)
                 (if lock_app_server_cwd_to_workspace_root c then Some (workspace_root_text c) else None)
                 (si_app_server_auth_token_file si) })"

end
