(* ===== verification/App_Server_Command.thy ===== *)
theory App_Server_Command
  imports App_Server_Rpc Interaction
begin

text \<open>
  A command run as a turn of the app server (\<open>session_inventory.rs\<close>): the requests of a
  command, which can be cancelled and have a budget; the start of the turn and its interruption;
  the wait for its completion; the requests of the app server for the user's decision, with the
  channel on which the decision comes; the events a turn becomes.
\<close>

subsection \<open>Requests under the budget of a command\<close>

record command_limits =
  cl_timeout :: duration
  cl_deadline :: instant
  cl_timeout_seconds :: nat

definition app_server_command_interruption :: "command_limits \<Rightarrow> (aworld, rpc_fault option) state" where
  "app_server_command_interruption l =
     do { cancelled \<leftarrow> rask a_cancel;
          (if cancelled then ret (Some RCancelled)
           else do { t \<leftarrow> rnow;
                     ret (if cl_deadline l \<le> t then Some (RTimedOut (cl_timeout_seconds l)) else None) }) }"

definition ensure_app_server_command_budget :: "command_limits \<Rightarrow> unit rpc" where
  "ensure_app_server_command_budget l =
     do { i \<leftarrow> app_server_command_interruption l;
          (case i of Some e \<Rightarrow> rfault e | None \<Rightarrow> rok ()) }"

definition app_server_command_socket_timeout :: "nat \<Rightarrow> nat \<Rightarrow> duration" where
  "app_server_command_socket_timeout app_server_timeout_seconds command_timeout_seconds =
     secs (min (min (max app_server_timeout_seconds 1) command_timeout_seconds) 5)"

definition command_response_round :: "nat \<Rightarrow> string \<Rightarrow> command_limits \<Rightarrow> (unit + json) rpc" where
  "command_response_round i m l =
     tryE (ensure_app_server_command_budget l) (\<lambda>_.
     do { d \<leftarrow> remaining_timeout (cl_timeout l) (cl_deadline l);
          tryE (configure_socket_timeout d) (\<lambda>_.
          do { r \<leftarrow> read_message;
               (case r of
                  ReadMsg (MsgText text) \<Rightarrow>
                    tryE (parse_value text) (\<lambda>v.
                      (if \<not> response_id_is v i then rok (Inl ())
                       else (case jget v ''error'' of
                               Some error \<Rightarrow> rfail (app_server_error m error)
                             | None \<Rightarrow> rok (Inr v))))
                | ReadMsg MsgClose \<Rightarrow> rfail (''app-server closed before '' @ m @ '' completed'')
                | ReadMsg _ \<Rightarrow> rok (Inl ())
                | ReadTimeout e \<Rightarrow> rok (Inl ())
                | ReadFailed e \<Rightarrow> rfail e) }) })"

definition send_app_server_request_for_command ::
  "nat \<Rightarrow> nat \<Rightarrow> string \<Rightarrow> json \<Rightarrow> command_limits \<Rightarrow> json rpc" where
  "send_app_server_request_for_command fuel i m params l =
     tryE (send_value (rpc_request i m params)) (\<lambda>_.
       loopE fuel RFuel (\<lambda>_. command_response_round i m l) ())"

definition initialize_app_server_connection_for_command :: "nat \<Rightarrow> command_limits \<Rightarrow> unit rpc" where
  "initialize_app_server_connection_for_command fuel l =
     tryE (send_app_server_request_for_command fuel 0 ''initialize'' (initialize_params cargo_pkg_version) l)
       (\<lambda>_. send_value initialized_notification)"

subsection \<open>The thread of a session\<close>

text \<open>One page: \<open>Inr\<close> the ids found (possibly none), \<open>Inl\<close> the state for the next page.\<close>

definition command_page_step :: "page_scan \<Rightarrow> string \<Rightarrow> json \<Rightarrow> page_scan + string list" where
  "command_page_step st thread_id response =
     (let matches = app_server_archive_thread_ids_from_response response thread_id in
      case pm_exact_thread_id matches of
        Some exact \<Rightarrow> Inr [exact]
      | None \<Rightarrow>
          (case pm_session_thread_ids matches of
             t # ts \<Rightarrow> Inr [t]
           | [] \<Rightarrow>
               (let page_len = (case app_server_thread_list_data response of None \<Rightarrow> 0 | Some d \<Rightarrow> length d);
                    (new_keys, seen) = insert_new (app_server_thread_identity_keys_from_response response)
                                         (ps_seen_threads st)
                in case app_server_thread_list_next_cursor response of
                     None \<Rightarrow> Inr []
                   | Some cursor \<Rightarrow>
                       (if page_len = 0 \<or> new_keys = [] \<or> cursor \<in> ps_seen_cursors st then Inr []
                        else Inl (st\<lparr>ps_cursor := Some cursor, ps_seen_threads := seen,
                                    ps_seen_cursors := insert cursor (ps_seen_cursors st)\<rparr>)))))"

definition command_page_round ::
  "nat \<Rightarrow> string \<Rightarrow> bool option \<Rightarrow> command_limits \<Rightarrow> page_scan \<Rightarrow> (page_scan + string list \<times> nat) rpc" where
  "command_page_round fuel thread_id archived_filter l st =
     tryE (ensure_app_server_command_budget l) (\<lambda>_.
     tryE (send_app_server_request_for_command fuel (ps_request_id st) ''thread/list''
             (app_server_thread_list_params app_server_archive_sync_list_page_size (ps_cursor st) archived_filter) l)
       (\<lambda>response.
         rok (case command_page_step (st\<lparr>ps_request_id := Suc (ps_request_id st)\<rparr>) thread_id response of
                Inr ids \<Rightarrow> Inr (ids, Suc (ps_request_id st))
              | Inl st' \<Rightarrow> Inl st')))"

definition find_app_server_thread_ids_in_pages_for_command ::
  "nat \<Rightarrow> string \<Rightarrow> bool option \<Rightarrow> nat \<Rightarrow> command_limits \<Rightarrow> (string list \<times> nat) rpc" where
  "find_app_server_thread_ids_in_pages_for_command fuel thread_id archived_filter i l =
     loopE fuel RFuel (command_page_round fuel thread_id archived_filter l) (new_page_scan i)"

definition resolve_app_server_thread_id_for_command ::
  "nat \<Rightarrow> string \<Rightarrow> nat \<Rightarrow> command_limits \<Rightarrow> (string option \<times> nat) rpc" where
  "resolve_app_server_thread_id_for_command fuel session_id i l =
     tryE (find_app_server_thread_ids_in_pages_for_command fuel session_id (Some False) i l) (\<lambda>(ids, i).
       rok (case ids of t # ts \<Rightarrow> Some t | [] \<Rightarrow> None, i))"

subsection \<open>Starting and interrupting a turn\<close>

definition turn_interrupt_request :: "nat \<Rightarrow> string \<Rightarrow> string \<Rightarrow> json" where
  "turn_interrupt_request i thread_id turn_id =
     rpc_request i ''turn/interrupt'' (jobj [(''threadId'', JStr thread_id), (''turnId'', JStr turn_id)])"

text \<open>The outcome of the send is dropped.\<close>

definition send_app_server_turn_interrupt :: "nat \<Rightarrow> string \<Rightarrow> string \<Rightarrow> (aworld, unit) state" where
  "send_app_server_turn_interrupt i thread_id turn_id =
     do { r \<leftarrow> rask a_send; rlog (RSend (turn_interrupt_request i thread_id turn_id) r) }"

definition turn_id_from_start_response :: "json \<Rightarrow> string option" where
  "turn_id_from_start_response v =
     Option.bind (jget2 v ''result'' ''turn'') (\<lambda>turn. jget_str turn ''id'')"

definition response_thread_id :: "json \<Rightarrow> string option" where
  "response_thread_id v = Option.bind (jget2 v ''result'' ''thread'') (\<lambda>thread. jget_str thread ''id'')"

text \<open>The interruption noticed while the response is awaited, with the time it is given.\<close>

type_synonym interruption = "(rpc_fault \<times> instant) option"

definition notice_interruption :: "command_limits \<Rightarrow> interruption \<Rightarrow> interruption rpc" where
  "notice_interruption l interruption =
     (case interruption of
        Some x \<Rightarrow> rok (Some x)
      | None \<Rightarrow>
          do { i \<leftarrow> app_server_command_interruption l;
               (case i of
                  None \<Rightarrow> rok None
                | Some e \<Rightarrow> tryE (deadline_in (cl_timeout l)) (\<lambda>u. rok (Some (e, u)))) })"

definition turn_start_response ::
  "nat \<Rightarrow> string \<Rightarrow> interruption \<Rightarrow> json \<Rightarrow> (interruption + json) rpc" where
  "turn_start_response i thread_id interruption v =
     (if \<not> response_id_is v i then rok (Inl interruption)
      else (case (jget v ''error'', interruption) of
              (Some error, Some (e, u)) \<Rightarrow> rfault e
            | (Some error, None) \<Rightarrow> rfail (app_server_error ''turn/start'' error)
            | (None, Some (e, u)) \<Rightarrow>
                (case turn_id_from_start_response v of
                   Some turn_id \<Rightarrow>
                     do { send_app_server_turn_interrupt (Suc i) thread_id turn_id; rfault e }
                 | None \<Rightarrow> rfault e)
            | (None, None) \<Rightarrow> rok (Inr v)))"

definition turn_start_round ::
  "nat \<Rightarrow> string \<Rightarrow> command_limits \<Rightarrow> interruption \<Rightarrow> (interruption + json) rpc" where
  "turn_start_round i thread_id l interruption0 =
     tryE (notice_interruption l interruption0) (\<lambda>interruption.
     do { expired \<leftarrow> (case interruption of
                         None \<Rightarrow> ret None
                       | Some (e, u) \<Rightarrow> do { t \<leftarrow> rnow; ret (if u \<le> t then Some e else None) });
          (case expired of
             Some e \<Rightarrow> rfault e
           | None \<Rightarrow>
               do { d \<leftarrow> remaining_timeout (cl_timeout l)
                          (case interruption of Some (e, u) \<Rightarrow> u | None \<Rightarrow> cl_deadline l);
                    tryE (configure_socket_timeout d) (\<lambda>_.
                    do { r \<leftarrow> read_message;
                         (case r of
                            ReadMsg (MsgText text) \<Rightarrow>
                              tryE (parse_value text) (turn_start_response i thread_id interruption)
                          | ReadMsg MsgClose \<Rightarrow> rfail ''app-server closed before turn/start completed''
                          | ReadMsg _ \<Rightarrow> rok (Inl interruption)
                          | ReadTimeout e \<Rightarrow> rok (Inl interruption)
                          | ReadFailed e \<Rightarrow> rfail e) }) }) })"

definition send_app_server_turn_start_for_command ::
  "nat \<Rightarrow> nat \<Rightarrow> string \<Rightarrow> json \<Rightarrow> command_limits \<Rightarrow> (json \<times> nat) rpc" where
  "send_app_server_turn_start_for_command fuel i thread_id params l =
     tryE (ensure_app_server_command_budget l) (\<lambda>_.
     tryE (send_value (rpc_request i ''turn/start'' params)) (\<lambda>_.
     tryE (loopE fuel RFuel (turn_start_round i thread_id l) None) (\<lambda>v. rok (v, Suc i))))"


subsection \<open>What a turn becomes\<close>

record app_server_turn_output =
  to_agent_message :: string
  to_agent_message_max_bytes :: nat

text \<open>The characters of a delta that fit whole into the bytes that remain.\<close>

fun fitting_chars :: "nat \<Rightarrow> string list \<Rightarrow> string" where
  "fitting_chars remaining [] = []"
| "fitting_chars remaining (c # cs) =
     (if length c \<le> remaining then c @ fitting_chars (remaining - length c) cs else [])"

definition push_agent_message_delta :: "string \<Rightarrow> app_server_turn_output \<Rightarrow> app_server_turn_output" where
  "push_agent_message_delta delta out =
     out\<lparr>to_agent_message := to_agent_message out
        @ fitting_chars (to_agent_message_max_bytes out - length (to_agent_message out)) (rchars delta)\<rparr>"

definition turn_status :: "json \<Rightarrow> string option" where
  "turn_status turn = jget_str turn ''status''"

definition turn_is_terminal :: "json \<Rightarrow> bool" where
  "turn_is_terminal turn \<longleftrightarrow> turn_status turn \<in> {Some ''completed'', Some ''failed'', Some ''interrupted''}"

definition last_agent_message_from_turn :: "json \<Rightarrow> string option" where
  "last_agent_message_from_turn turn =
     do { items \<leftarrow> jget_array turn ''items'';
          let texts = List.map_filter (\<lambda>item. Option.bind (jget_str item ''text'')
                        (\<lambda>t. compact_command_summary t 700))
                        (filter (\<lambda>item. jget_str item ''type'' = Some ''agentMessage'') items);
          (if texts = [] then None else Some (last texts)) }"

definition app_server_turn_error_message :: "json option \<Rightarrow> string" where
  "app_server_turn_error_message error =
     (case Option.bind (Option.bind error (\<lambda>e. jget_str e ''message'')) (\<lambda>t. compact_command_summary t 500) of
        Some t \<Rightarrow> t | None \<Rightarrow> ''unknown error'')"

definition turn_output_events :: "json \<Rightarrow> app_server_turn_output option \<Rightarrow> connector_event list" where
  "turn_output_events turn fallback =
     (case or_else (last_agent_message_from_turn turn)
             (Option.bind fallback (\<lambda>out. compact_command_summary (to_agent_message out) 700)) of
        Some t \<Rightarrow> [plain_event ''command.output'' ''P2'' (''Codex: '' @ t)]
      | None \<Rightarrow>
          (if turn_status turn = Some ''completed''
           then [plain_event ''command.output'' ''P2'' ''Codex app-server turn completed without an assistant message.'']
           else []))"

definition turn_end_event :: "json \<Rightarrow> connector_event" where
  "turn_end_event turn =
     (if turn_status turn = Some ''completed''
      then plain_event ''command.finished'' ''P1'' ''Codex app-server turn completed successfully.''
      else if turn_status turn = Some ''interrupted''
      then plain_event ''command.failed'' ''P1'' ''Codex app-server turn was interrupted.''
      else if turn_status turn = Some ''failed''
      then plain_event ''command.failed'' ''P1''
             (''Codex app-server turn failed: '' @ app_server_turn_error_message (jget turn ''error''))
      else plain_event ''command.failed'' ''P1'' ''Codex app-server turn ended with an unknown status.'')"

definition app_server_command_events_from_turn ::
  "json \<Rightarrow> app_server_turn_output option \<Rightarrow> connector_event list" where
  "app_server_command_events_from_turn turn fallback = turn_output_events turn fallback @ [turn_end_event turn]"

subsection \<open>The user's decision\<close>

text \<open>A response that was received, and whether its delivery waits for an acknowledgement.\<close>

type_synonym received = "turn_interaction_response_dispatch \<times> bool"

definition recv_delivery :: "duration option \<Rightarrow> (aworld, recv_answer) state" where
  "recv_delivery wait = do { r \<leftarrow> rask a_recv; rlog (RRecv wait r); ret r }"

definition channel_closed :: string where
  "channel_closed = ''turn interaction response channel closed''"

definition answers_interaction :: "string \<Rightarrow> string \<Rightarrow> turn_interaction_response_dispatch \<Rightarrow> bool" where
  "answers_interaction command_id interaction_id d \<longleftrightarrow>
     ti_command_id d = command_id \<and> ti_interaction_id d = interaction_id"

text \<open>A delivery is taken when it answers this interaction, else it is refused and the loop goes on.\<close>

definition take_delivery ::
  "string \<Rightarrow> string \<Rightarrow> turn_interaction_response_dispatch \<Rightarrow> (unit + received) rpc" where
  "take_delivery command_id interaction_id d =
     (if answers_interaction command_id interaction_id d then rok (Inr (d, True))
      else do { rlog (RAck d False); rok (Inl ()) })"

definition try_receive_round :: "string \<Rightarrow> string \<Rightarrow> (unit + received option) rpc" where
  "try_receive_round command_id interaction_id =
     do { r \<leftarrow> recv_delivery None;
          (case r of
             Delivered d \<Rightarrow>
               tryE (take_delivery command_id interaction_id d) (\<lambda>x.
                 rok (case x of Inl u \<Rightarrow> Inl u | Inr y \<Rightarrow> Inr (Some y)))
           | NothingYet \<Rightarrow> rok (Inr None)
           | ChannelClosed \<Rightarrow> rfail channel_closed) }"

definition try_receive_turn_interaction_response ::
  "nat \<Rightarrow> string \<Rightarrow> string \<Rightarrow> received option rpc" where
  "try_receive_turn_interaction_response fuel command_id interaction_id =
     loopE fuel RFuel (\<lambda>_. try_receive_round command_id interaction_id) ()"

definition wait_for_delivery :: "string \<Rightarrow> string \<Rightarrow> duration \<Rightarrow> (unit + received) rpc" where
  "wait_for_delivery command_id interaction_id wait =
     do { r \<leftarrow> recv_delivery (Some wait);
          (case r of
             Delivered d \<Rightarrow> take_delivery command_id interaction_id d
           | NothingYet \<Rightarrow> rok (Inl ())
           | ChannelClosed \<Rightarrow> rfail channel_closed) }"

definition receive_round ::
  "nat \<Rightarrow> string \<Rightarrow> string \<Rightarrow> command_limits \<Rightarrow> instant option \<Rightarrow> (unit + received) rpc" where
  "receive_round fuel command_id interaction_id l auto_deadline =
     (let grace = Option.bind auto_deadline
                    (\<lambda>u. instant_checked_add u (millis auto_resolution_response_grace_ms));
          auto_resolved = rok (Inr (auto_resolved_input_response command_id interaction_id, False))
      in tryE (ensure_app_server_command_budget l) (\<lambda>_.
         tryE (try_receive_turn_interaction_response fuel command_id interaction_id) (\<lambda>found.
         (case found of
            Some x \<Rightarrow> rok (Inr x)
          | None \<Rightarrow>
              do { t \<leftarrow> rnow;
                   (if (case auto_deadline of Some u \<Rightarrow> u \<le> t | None \<Rightarrow> False)
                    then (case grace of
                            Some g \<Rightarrow>
                              (if t < g
                               then wait_for_delivery command_id interaction_id
                                      (min (min (cl_deadline l - t) (g - t)) (millis 100))
                               else auto_resolved)
                          | None \<Rightarrow> auto_resolved)
                    else wait_for_delivery command_id interaction_id
                           (case auto_deadline of
                              Some u \<Rightarrow> min (min (cl_deadline l - t) (millis 100)) (u - t)
                            | None \<Rightarrow> min (cl_deadline l - t) (millis 100))) }))))"

definition receive_turn_interaction_response ::
  "nat \<Rightarrow> string \<Rightarrow> string \<Rightarrow> command_limits \<Rightarrow> instant option \<Rightarrow> received rpc" where
  "receive_turn_interaction_response fuel command_id interaction_id l auto_deadline =
     loopE fuel RFuel (\<lambda>_. receive_round fuel command_id interaction_id l auto_deadline) ()"

definition auto_resolution_deadline :: "string \<Rightarrow> json \<Rightarrow> (aworld, instant option) state" where
  "auto_resolution_deadline m params =
     (if m \<noteq> method_user_input then ret None
      else (case Option.bind (jget params ''autoResolutionMs'') as_u64 of
              None \<Rightarrow> ret None
            | Some ms \<Rightarrow> do { t \<leftarrow> rnow; ret (instant_checked_add t (millis ms)) }))"

definition acknowledge_turn_interaction_delivery :: "received \<Rightarrow> bool \<Rightarrow> (aworld, unit) state" where
  "acknowledge_turn_interaction_delivery x accepted =
     (case x of (d, waits) \<Rightarrow> whenS waits (rlog (RAck d accepted)))"

definition set_active_turn_interaction :: "string option \<Rightarrow> unit rpc" where
  "set_active_turn_interaction i =
     do { poisoned \<leftarrow> rask a_poisoned;
          (if poisoned then rfail ''turn interaction state lock poisoned''
           else do { rlog (RActive i); rok () }) }"

definition send_event :: "connector_event \<Rightarrow> bool rpc" where
  "send_event e =
     do { closed \<leftarrow> rask a_event_closed;
          (if closed then rok False else do { rlog (REvent e); rok True }) }"

definition interaction_result_message :: "json \<Rightarrow> json \<Rightarrow> json" where
  "interaction_result_message request_id result =
     jobj [(''jsonrpc'', JStr ''2.0''), (''id'', request_id), (''result'', result)]"

text \<open>After a response was received: its result is sent, its delivery acknowledged, a resolution reported.\<close>

definition answer_turn_request :: "json \<Rightarrow> string \<Rightarrow> json \<Rightarrow> json option \<Rightarrow> received \<Rightarrow> bool rpc" where
  "answer_turn_request request_id m params request_payload x =
     (case app_server_turn_interaction_result m params (ti_response (fst x)) of
        Inl e \<Rightarrow> do { acknowledge_turn_interaction_delivery x False; rfail e }
      | Inr result \<Rightarrow>
          do { sent \<leftarrow> send_value (interaction_result_message request_id result);
               (case sent of
                  Inl e \<Rightarrow> do { acknowledge_turn_interaction_delivery x False; rfault e }
                | Inr _ \<Rightarrow>
                    do { acknowledge_turn_interaction_delivery x True;
                         (if \<not> ti_auto_resolved (fst x) then rok True
                          else tryE (rresult (turn_interaction_resolution_event (fst x) request_payload)) (\<lambda>e.
                               tryE (send_event e) (\<lambda>delivered.
                                 if delivered then rok True
                                 else rfail ''turn interaction resolution event channel closed''))) }) })"

text \<open>While the decision is awaited the interaction is the active one.\<close>

definition await_decision ::
  "nat \<Rightarrow> string \<Rightarrow> json \<Rightarrow> string \<Rightarrow> connector_event \<Rightarrow> string \<Rightarrow> command_limits \<Rightarrow> (rpc_fault + received) rpc" where
  "await_decision fuel m params command_id event interaction_id l =
     tryE (set_active_turn_interaction (Some interaction_id)) (\<lambda>_.
     tryE (send_event event) (\<lambda>delivered.
       if \<not> delivered
       then do { _ \<leftarrow> set_active_turn_interaction None; rfail ''turn interaction event channel closed'' }
       else do { auto_deadline \<leftarrow> auto_resolution_deadline m params;
                 r \<leftarrow> receive_turn_interaction_response fuel command_id interaction_id l auto_deadline;
                 tryE (set_active_turn_interaction None) (\<lambda>_. rok r) }))"

definition handle_app_server_turn_request ::
  "nat \<Rightarrow> json \<Rightarrow> string \<Rightarrow> json \<Rightarrow> string \<Rightarrow> string \<Rightarrow> string \<Rightarrow> command_limits \<Rightarrow> nat \<Rightarrow> bool \<Rightarrow> bool rpc" where
  "handle_app_server_turn_request fuel request_id m params thread_id turn_id command_id l i has_channels =
     (if \<not> app_server_turn_request_method m \<or> \<not> notification_matches params thread_id turn_id then rok False
      else if \<not> has_channels
      then rfail ''app-server requested user interaction, but the connector interaction channel is unavailable''
      else do {
        sd \<leftarrow> gets a_serde;
        tryE (rresult (turn_interaction_event sd m request_id params)) (\<lambda>event.
        (case Option.bind (Option.bind (ev_payload event) (\<lambda>p. jget p ''interaction_id'')) as_str of
           None \<Rightarrow> rfail ''turn interaction event did not include interaction_id''
         | Some interaction_id \<Rightarrow>
             tryE (await_decision fuel m params command_id event interaction_id l) (\<lambda>r.
             (case r of
                Inr x \<Rightarrow> answer_turn_request request_id m params (ev_payload event) x
              | Inl RCancelled \<Rightarrow>
                  do { send_app_server_turn_interrupt i thread_id turn_id; rfault RCancelled }
              | Inl (RTimedOut s) \<Rightarrow>
                  do { send_app_server_turn_interrupt i thread_id turn_id; rfault (RTimedOut s) }
              | Inl e \<Rightarrow> rfault e)))) })"

subsection \<open>Waiting for the turn\<close>

definition handle_turn_notification ::
  "string \<Rightarrow> json \<Rightarrow> string \<Rightarrow> string \<Rightarrow> app_server_turn_output \<Rightarrow> (app_server_turn_output + connector_event list) rpc" where
  "handle_turn_notification m params thread_id turn_id out =
     (if m = ''item/agentMessage/delta'' \<and> notification_matches params thread_id turn_id
      then rok (Inl (case jget_str params ''delta'' of
                       Some delta \<Rightarrow> push_agent_message_delta delta out | None \<Rightarrow> out))
      else if m = ''turn/completed'' \<and> turn_completed_notification_matches params thread_id turn_id
      then (case jget params ''turn'' of
              None \<Rightarrow> rfail ''app-server turn/completed notification did not include turn''
            | Some turn \<Rightarrow> rok (Inr (app_server_command_events_from_turn turn (Some out))))
      else if m = ''error'' \<and> notification_matches params thread_id turn_id
      then (if jget_bool params ''willRetry'' = Some True then rok (Inl out)
            else rfail (''app-server reported a turn error: ''
                         @ app_server_turn_error_message (jget params ''error'')))
      else rok (Inl out))"

definition handle_app_server_turn_message ::
  "nat \<Rightarrow> json \<Rightarrow> string \<Rightarrow> string \<Rightarrow> string \<Rightarrow> command_limits \<Rightarrow> nat \<Rightarrow> bool
    \<Rightarrow> app_server_turn_output \<Rightarrow> (app_server_turn_output + connector_event list) rpc" where
  "handle_app_server_turn_message fuel v thread_id turn_id command_id l i has_channels out =
     (case jget_str v ''method'' of
        None \<Rightarrow> rok (Inl out)
      | Some m \<Rightarrow>
          (let params = (case jget v ''params'' of Some p \<Rightarrow> p | None \<Rightarrow> JNull) in
           tryE (case json_rpc_turn_request_id (jget v ''id'') of
                   None \<Rightarrow> rok False
                 | Some request_id \<Rightarrow>
                     handle_app_server_turn_request fuel request_id m params thread_id turn_id command_id l i
                       has_channels) (\<lambda>handled.
             if handled then rok (Inl out)
             else handle_turn_notification m params thread_id turn_id out)))"

definition turn_completion_round ::
  "nat \<Rightarrow> string \<Rightarrow> string \<Rightarrow> string \<Rightarrow> command_limits \<Rightarrow> nat \<Rightarrow> bool
    \<Rightarrow> app_server_turn_output \<Rightarrow> (app_server_turn_output + connector_event list) rpc" where
  "turn_completion_round fuel thread_id turn_id command_id l i has_channels out =
     do { interruption \<leftarrow> app_server_command_interruption l;
          (case interruption of
             Some e \<Rightarrow> do { send_app_server_turn_interrupt i thread_id turn_id; rfault e }
           | None \<Rightarrow>
               do { d \<leftarrow> remaining_timeout (cl_timeout l) (cl_deadline l);
                    tryE (configure_socket_timeout d) (\<lambda>_.
                    do { r \<leftarrow> read_message;
                         (case r of
                            ReadMsg (MsgText text) \<Rightarrow>
                              tryE (parse_value text) (\<lambda>v.
                                handle_app_server_turn_message fuel v thread_id turn_id command_id l i
                                  has_channels out)
                          | ReadMsg MsgClose \<Rightarrow> rfail ''app-server closed before turn completed''
                          | ReadMsg _ \<Rightarrow> rok (Inl out)
                          | ReadTimeout e \<Rightarrow> rok (Inl out)
                          | ReadFailed e \<Rightarrow> rfail e) }) }) }"

definition wait_for_app_server_turn_completion ::
  "nat \<Rightarrow> string \<Rightarrow> string \<Rightarrow> string \<Rightarrow> command_limits \<Rightarrow> nat \<Rightarrow> nat \<Rightarrow> bool \<Rightarrow> connector_event list rpc" where
  "wait_for_app_server_turn_completion fuel thread_id turn_id command_id l output_max_bytes i has_channels =
     loopE fuel RFuel (turn_completion_round fuel thread_id turn_id command_id l i has_channels)
       \<lparr> to_agent_message = [], to_agent_message_max_bytes = output_max_bytes \<rparr>"


subsection \<open>The command\<close>

text \<open>How the thread is resumed: the parameters, the id to fall back on, whether the response must name it.\<close>

record command_resume =
  cr_params :: json
  cr_fallback_thread_id :: string
  cr_require_thread :: bool
  cr_turn_cwd :: string

definition plan_command_resume ::
  "nat \<Rightarrow> agent_config \<Rightarrow> string \<Rightarrow> string \<Rightarrow> string option \<Rightarrow> command_resume rpc" where
  "plan_command_resume fuel c session_id cwd resolved =
     (case resolved of
        Some t \<Rightarrow>
          rok \<lparr> cr_params = resume_params t None (Some cwd), cr_fallback_thread_id = t,
                cr_require_thread = False, cr_turn_cwd = cwd \<rparr>
      | None \<Rightarrow>
          do { d \<leftarrow> gets a_disk;
               tryE (rwalk (find_rollout_path fuel d (codex_home_of d (ac_session_inventory c)) session_id
                              (si_max_sessions (ac_session_inventory c)))) (\<lambda>found.
               (case found of
                  None \<Rightarrow> rfail (''active app-server thread '' @ session_id
                                  @ '' was not found and no local rollout was available'')
                | Some path \<Rightarrow>
                    tryE (if lock_app_server_cwd_to_workspace_root c then rok cwd
                          else tryE (rresult (rollout_resume_cwd d path session_id)) (\<lambda>r.
                                 rok (case r of Some p \<Rightarrow> p | None \<Rightarrow> cwd))) (\<lambda>resume_cwd.
                      rok \<lparr> cr_params = resume_params session_id (Some path) (Some resume_cwd),
                            cr_fallback_thread_id = session_id, cr_require_thread = True,
                            cr_turn_cwd = resume_cwd \<rparr>))) })"

definition missing_thread_id :: string where
  "missing_thread_id = ''app-server thread/start response did not include thread.id''"

text \<open>The id of the thread that was resumed.\<close>

definition resumed_thread_id :: "command_resume \<Rightarrow> string \<Rightarrow> json \<Rightarrow> string + string" where
  "resumed_thread_id plan session_id response =
     (if \<not> cr_require_thread plan
      then Inr (case response_thread_id response of Some t \<Rightarrow> t | None \<Rightarrow> cr_fallback_thread_id plan)
      else (case app_server_thread_from_response response of
              Inl e \<Rightarrow>
                Inl (if e = missing_thread_id
                     then ''app-server thread/resume response did not include thread.id for rollout path resume''
                     else e)
            | Inr resumed \<Rightarrow>
                (if at_session_id resumed \<noteq> session_id
                 then Inl (''app-server thread/resume returned session '' @ at_session_id resumed
                            @ '' while starting session '' @ session_id)
                 else Inr (at_id resumed))))"

definition turn_cwd :: "agent_config \<Rightarrow> string \<Rightarrow> command_resume \<Rightarrow> json \<Rightarrow> string" where
  "turn_cwd c cwd plan response =
     (if lock_app_server_cwd_to_workspace_root c then cwd
      else (case filter_nonblank (Option.bind (jget2 response ''result'' ''thread'') (\<lambda>t. jget_str t ''cwd'')) of
              Some p \<Rightarrow> p | None \<Rightarrow> cr_turn_cwd plan))"

definition turn_start_params :: "string \<Rightarrow> string \<Rightarrow> string \<Rightarrow> string \<Rightarrow> json" where
  "turn_start_params thread_id command_id prompt cwd =
     jobj [(''threadId'', JStr thread_id), (''clientUserMessageId'', JStr command_id),
           (''input'', JArr [jobj [(''type'', JStr ''text''), (''text'', JStr prompt), (''text_elements'', JArr [])]]),
           (''cwd'', JStr cwd), (''runtimeWorkspaceRoots'', JArr [JStr cwd]),
           (''approvalPolicy'', JStr ''on-request''), (''approvalsReviewer'', JStr ''user'')]"

definition run_turn ::
  "nat \<Rightarrow> agent_config \<Rightarrow> string \<Rightarrow> string \<Rightarrow> string \<Rightarrow> string \<Rightarrow> command_limits \<Rightarrow> nat \<Rightarrow> bool \<Rightarrow> connector_event list rpc"
where
  "run_turn fuel c thread_id command_id prompt cwd l i has_channels =
     tryE (send_app_server_turn_start_for_command fuel i thread_id
             (turn_start_params thread_id command_id prompt cwd) l) (\<lambda>(response, i).
     (case jget2 response ''result'' ''turn'' of
        None \<Rightarrow> rfail ''app-server turn/start response did not include result.turn''
      | Some turn \<Rightarrow>
          (case jget_str turn ''id'' of
             None \<Rightarrow> rfail ''app-server turn/start response did not include turn.id''
           | Some turn_id \<Rightarrow>
               (if turn_is_terminal turn then rok (app_server_command_events_from_turn turn None)
                else wait_for_app_server_turn_completion fuel thread_id turn_id command_id l
                       (ex_codex_output_max_bytes (ac_execution c)) i has_channels))))"

definition run_app_server_command ::
  "nat \<Rightarrow> agent_config \<Rightarrow> string \<Rightarrow> string option \<Rightarrow> string \<Rightarrow> string \<Rightarrow> bool \<Rightarrow> connector_event list rpc" where
  "run_app_server_command fuel c session_id cwd0 command_id prompt has_channels =
     (case si_app_server_url (ac_session_inventory c) of
        None \<Rightarrow> rfail ''session_inventory.app_server_url is required for app-server execution''
      | Some url \<Rightarrow>
          (let timeout_seconds = max (ex_codex_timeout_seconds (ac_execution c)) 1;
               timeout = app_server_command_socket_timeout
                           (si_app_server_timeout_seconds (ac_session_inventory c)) timeout_seconds in
           tryE (deadline_in (secs timeout_seconds)) (\<lambda>deadline.
           tryE (connect_app_server url timeout (si_app_server_auth_token_file (ac_session_inventory c))) (\<lambda>_.
           (let l = \<lparr> cl_timeout = timeout, cl_deadline = deadline, cl_timeout_seconds = timeout_seconds \<rparr>;
                cwd = app_server_command_cwd c cwd0 in
            tryE (initialize_app_server_connection_for_command fuel l) (\<lambda>_.
            tryE (resolve_app_server_thread_id_for_command fuel session_id 1 l) (\<lambda>(resolved, i).
            tryE (plan_command_resume fuel c session_id cwd resolved) (\<lambda>plan.
            tryE (send_app_server_request_for_command fuel i ''thread/resume'' (cr_params plan) l) (\<lambda>response.
            tryE (rresult (resumed_thread_id plan session_id response)) (\<lambda>thread_id.
              run_turn fuel c thread_id command_id prompt (turn_cwd c cwd plan response) l (Suc i)
                has_channels)))))))))) "

definition app_server_command_result_events_with_cancel ::
  "nat \<Rightarrow> agent_config \<Rightarrow> string \<Rightarrow> string option \<Rightarrow> string \<Rightarrow> string \<Rightarrow> bool \<Rightarrow> connector_event list rpc" where
  "app_server_command_result_events_with_cancel fuel c session_id cwd command_id prompt has_channels =
     do { r \<leftarrow> run_app_server_command fuel c session_id cwd command_id prompt has_channels;
          (case r of
             Inr events \<Rightarrow> rok events
           | Inl RCancelled \<Rightarrow> rok [plain_event ''command.failed'' ''P1''
               ''Codex app-server turn was cancelled because the connector connection closed.'']
           | Inl (RTimedOut s) \<Rightarrow> rok [plain_event ''command.failed'' ''P1''
               (''Codex app-server turn timed out after '' @ show_nat s @ '' seconds.'')]
           | Inl (RError e) \<Rightarrow> rok [plain_event ''command.failed'' ''P1''
               (''Codex app-server turn could not start: '' @ e @ ''.'')]
           | Inl e \<Rightarrow> rfault e) }"

end
