(* ===== verification/App_Server_Facts.thy ===== *)
theory App_Server_Facts
  imports App_Server_Command
begin

text \<open>
  What the operations on an app server do to the world: they leave its oracles alone, the tick
  only grows and the log is only appended to. The relation \<open>logs P\<close> says that the actions that
  were added satisfy \<open>P\<close>; it is closed under the combinators by the locale of the prelude.
\<close>

subsection \<open>The relation\<close>

definition env :: "aworld \<Rightarrow> aworld" where
  "env w = w\<lparr>a_tick := 0, a_log := []\<rparr>"

definition logs :: "(rpc_action \<Rightarrow> bool) \<Rightarrow> aworld \<Rightarrow> aworld \<Rightarrow> bool" where
  "logs P w w' \<longleftrightarrow> env w' = env w \<and> a_tick w \<le> a_tick w' \<and> (\<exists>l. a_log w' = a_log w @ l \<and> (\<forall>a \<in> set l. P a))"

interpretation rl: effect_rel "logs P" for P
proof
  show "logs P s s" for s by (simp add: logs_def)
  show "logs P s u" if "logs P s t" "logs P t u" for s t u
  proof -
    from that(1) obtain l where l: "a_log t = a_log s @ l" "\<forall>a \<in> set l. P a" by (auto simp: logs_def)
    from that(2) obtain l' where l': "a_log u = a_log t @ l'" "\<forall>a \<in> set l'. P a" by (auto simp: logs_def)
    have "a_log u = a_log s @ (l @ l') \<and> (\<forall>a \<in> set (l @ l'). P a)" using l l' by auto
    with that show ?thesis by (auto simp: logs_def intro: order_trans)
  qed
qed

lemma logs_mono: "logs P w w' \<Longrightarrow> (\<And>a. P a \<Longrightarrow> Q a) \<Longrightarrow> logs Q w w'"
  by (auto simp: logs_def)

lemma keeps_mono: "rl.keeps P m \<Longrightarrow> (\<And>a. P a \<Longrightarrow> Q a) \<Longrightarrow> rl.keeps Q m"
  by (meson rl.keepsI rl.keepsD logs_mono)

lemma logsE:
  assumes "logs P w w'"
  obtains l where "a_log w' = a_log w @ l" "\<forall>a \<in> set l. P a" "env w' = env w" "a_tick w \<le> a_tick w'"
  using assms by (auto simp: logs_def)

lemma env_simps [simp]:
  "a_serde (env w) = a_serde w" "a_now (env w) = a_now w" "a_recv (env w) = a_recv w"
  "a_disk (env w) = a_disk w" "a_urls (env w) = a_urls w"
  by (simp_all add: env_def)

lemma env_fields:
  "env w' = env w \<Longrightarrow> a_serde w' = a_serde w \<and> a_now w' = a_now w \<and> a_recv w' = a_recv w
     \<and> a_disk w' = a_disk w \<and> a_urls w' = a_urls w"
  by (metis env_simps)

subsection \<open>The primitives\<close>

lemma keeps_rask: "rl.keeps P (rask f)"
  by (rule rl.keepsI) (simp add: rask_def logs_def env_def)

lemma keeps_rlog: "P a \<Longrightarrow> rl.keeps P (rlog a)"
  by (rule rl.keepsI) (simp add: rlog_def logs_def env_def)

lemma keeps_results:
  "rl.keeps P (rok x)" "rl.keeps P (rfail e)" "rl.keeps P (rfault f)" "rl.keeps P (runless o')"
  "rl.keeps P (rresult r)" "rl.keeps P (rinstant_add t d)"
  by (simp_all add: rok_def rfail_def rfault_def runless_def rresult_def rinstant_add_def rl.keeps_ret)

lemma keeps_rwalk: "rl.keeps P (rwalk r)"
  by (simp add: rwalk_def keeps_results split: option.split)

lemma keeps_rnow: "rl.keeps P rnow"
  by (simp add: rnow_def keeps_rask)

lemmas quiet_intros = rl.keeps_intros keeps_rask keeps_results keeps_rwalk keeps_rnow

lemma keeps_deadline_in: "rl.keeps P (deadline_in d)"
  and keeps_socket_setup: "rl.keeps P socket_setup"
  and keeps_parse_value: "rl.keeps P (parse_value text)"
  and keeps_remaining: "rl.keeps P (remaining_timeout t u)"
  and keeps_budget: "rl.keeps P (ensure_app_server_local_budget u)"
  and keeps_interruption: "rl.keeps P (app_server_command_interruption l)"
  by (simp_all add: deadline_in_def socket_setup_def parse_value_def remaining_timeout_def
      ensure_app_server_local_budget_def app_server_command_interruption_def) (intro quiet_intros)+

lemma keeps_command_budget: "rl.keeps P (ensure_app_server_command_budget l)"
  unfolding ensure_app_server_command_budget_def by (intro quiet_intros keeps_interruption)

lemma keeps_configure: "(\<And>d. P (RTimeout d)) \<Longrightarrow> rl.keeps P (configure_socket_timeout d)"
  unfolding configure_socket_timeout_def by (intro quiet_intros keeps_rlog)

lemma keeps_read: "(\<And>r. P (RRead r)) \<Longrightarrow> rl.keeps P read_message"
  unfolding read_message_def by (intro quiet_intros keeps_rlog)

lemma keeps_send: "(\<And>r. P (RSend v r)) \<Longrightarrow> rl.keeps P (send_value v)"
  unfolding send_value_def by (intro quiet_intros keeps_rlog)

lemmas log_intros =
  quiet_intros keeps_rlog keeps_deadline_in keeps_socket_setup keeps_parse_value keeps_remaining
  keeps_budget keeps_interruption keeps_command_budget keeps_configure keeps_read keeps_send

lemma keeps_read_case:
  "(\<And>t. rl.keeps P (f t)) \<Longrightarrow> rl.keeps P pg \<Longrightarrow> rl.keeps P cl \<Longrightarrow> rl.keeps P ot \<Longrightarrow> (\<And>e. rl.keeps P (rt e)) \<Longrightarrow>
     (\<And>e. rl.keeps P (rf e)) \<Longrightarrow>
     rl.keeps P (case r of ReadMsg (MsgText t) \<Rightarrow> f t | ReadMsg (MsgPing x) \<Rightarrow> pg | ReadMsg MsgClose \<Rightarrow> cl
       | ReadMsg MsgOther \<Rightarrow> ot | ReadTimeout e \<Rightarrow> rt e | ReadFailed e \<Rightarrow> rf e)"
  by (auto split: read_answer.split message.split)

subsection \<open>Requests\<close>

text \<open>An action of waiting for a response: no send, no channel.\<close>

definition waiting :: "rpc_action \<Rightarrow> bool" where
  "waiting a \<longleftrightarrow> (\<exists>r. a = RRead r) \<or> (\<exists>d. a = RTimeout d)"

lemma waiting_simps [simp]: "waiting (RRead r)" "waiting (RTimeout d)" "\<not> waiting (RSend v s)"
  "\<not> waiting (RAck dispatch b)" "\<not> waiting (RActive i)" "\<not> waiting (REvent e)" "\<not> waiting (RHandshake u h)"
  "\<not> waiting (RRecv x y)" "\<not> waiting (RConnectTcp p timeout)" "\<not> waiting (RConnectUnix u)"
  by (simp_all add: waiting_def)

lemma keeps_response_round: "(\<And>a. waiting a \<Longrightarrow> P a) \<Longrightarrow> rl.keeps P (response_round i m t u)"
  unfolding response_round_def Let_def
  by (intro log_intros keeps_read_case) simp_all

lemma keeps_command_response_round: "(\<And>a. waiting a \<Longrightarrow> P a) \<Longrightarrow> rl.keeps P (command_response_round i m l)"
  unfolding command_response_round_def
  by (intro log_intros keeps_read_case) simp_all

lemma keeps_request:
  "(\<And>a. waiting a \<Longrightarrow> P a) \<Longrightarrow> (\<And>s. P (RSend (rpc_request i m params) s)) \<Longrightarrow>
     rl.keeps P (send_app_server_request_before_deadline fuel i m params t u)"
  unfolding send_app_server_request_before_deadline_def send_app_server_request_inner_def
  by (intro log_intros keeps_response_round) simp_all

lemma keeps_request_for_command:
  "(\<And>a. waiting a \<Longrightarrow> P a) \<Longrightarrow> (\<And>s. P (RSend (rpc_request i m params) s)) \<Longrightarrow>
     rl.keeps P (send_app_server_request_for_command fuel i m params l)"
  unfolding send_app_server_request_for_command_def
  by (intro log_intros keeps_command_response_round) simp_all


subsection \<open>The response is the request's own\<close>

definition other_response :: "serde \<Rightarrow> nat \<Rightarrow> rpc_action \<Rightarrow> bool" where
  "other_response sd i a \<longleftrightarrow>
     waiting a \<and> (\<forall>text v. a = RRead (ReadMsg (MsgText text)) \<and> js_parse sd text = Inr v \<longrightarrow> \<not> response_id_is v i)"

definition own_response :: "nat \<Rightarrow> json \<Rightarrow> aworld \<Rightarrow> aworld \<Rightarrow> bool" where
  "own_response i v w w' \<longleftrightarrow>
     (\<exists>l text. a_log w' = a_log w @ l @ [RRead (ReadMsg (MsgText text))]
        \<and> (\<forall>a \<in> set l. other_response (a_serde w) i a)
        \<and> js_parse (a_serde w) text = Inr v \<and> response_id_is v i \<and> jget v ''error'' = None)"

lemma other_response_timeout [simp]: "other_response sd i (RTimeout d)"
  by (simp add: other_response_def)

lemma env_serde: "env w' = env w \<Longrightarrow> a_serde w' = a_serde w"
  by (metis env_simps(1))

lemma own_response_after: "logs (other_response (a_serde w) i) w w1 \<Longrightarrow> own_response i v w1 w' \<Longrightarrow> own_response i v w w'"
proof -
  assume l: "logs (other_response (a_serde w) i) w w1" and o: "own_response i v w1 w'"
  from l obtain l1 where l1: "a_log w1 = a_log w @ l1" "\<forall>a \<in> set l1. other_response (a_serde w) i a"
    and e: "env w1 = env w" by (rule logsE)
  have sd: "a_serde w1 = a_serde w" using e by (rule env_serde)
  obtain l2 t where o2: "a_log w' = a_log w1 @ l2 @ [RRead (ReadMsg (MsgText t))]"
      "\<forall>a \<in> set l2. other_response (a_serde w) i a" "js_parse (a_serde w) t = Inr v"
      "response_id_is v i" "jget v ''error'' = None"
    using o unfolding own_response_def sd by blast
  have "a_log w' = a_log w @ (l1 @ l2) @ [RRead (ReadMsg (MsgText t))]"
    using o2(1) l1(1) by simp
  moreover have "\<forall>a \<in> set (l1 @ l2). other_response (a_serde w) i a"
    using o2(2) l1(2) by (auto simp only: set_append)
  ultimately show ?thesis unfolding own_response_def using o2(3-5) by blast
qed

text \<open>A round of waiting: it goes on after other messages only, and ends with the own response.\<close>

definition waits_for :: "nat \<Rightarrow> (unit + json) rpc \<Rightarrow> bool" where
  "waits_for i m \<longleftrightarrow>
     (\<forall>w r w'. run_state m w = (Inr r, w') \<longrightarrow>
        (case r of Inl _ \<Rightarrow> logs (other_response (a_serde w) i) w w' | Inr v \<Rightarrow> own_response i v w w'))"

lemma loop_waits_for:
  "waits_for i m \<Longrightarrow> run_state (loopE n RFuel (\<lambda>_. m) ()) w = (Inr v, w') \<Longrightarrow> own_response i v w w'"
proof (induction n arbitrary: w)
  case (Suc n)
  obtain r w1 where r: "run_state m w = (r, w1)" by fastforce
  with Suc.prems(2) obtain x where x: "r = Inr x" by (cases r) auto
  show ?case
  proof (cases x)
    case (Inl u)
    with Suc.prems r x have "logs (other_response (a_serde w) i) w w1"
      by (fastforce simp: waits_for_def)
    moreover have "own_response i v w1 w'" using Suc.IH [OF Suc.prems(1)] Suc.prems(2) r x Inl by simp
    ultimately show ?thesis by (rule own_response_after)
  next
    case (Inr v')
    with Suc.prems(2) r x have "v' = v" "w1 = w'" by simp_all
    with Suc.prems(1) r x Inr show ?thesis by (fastforce simp: waits_for_def)
  qed
qed simp

lemma run_rpc_simps [simp]:
  "run_state (rok x) w = (Inr x, w)" "run_state (rfail e) w = (Inl (RError e), w)"
  "run_state (rfault f) w = (Inl f, w)"
  "run_state (runless o') w = ((case o' of None \<Rightarrow> Inr () | Some e \<Rightarrow> Inl (RError e)), w)"
  "run_state (rresult r) w = ((case r of Inl e \<Rightarrow> Inl (RError e) | Inr x \<Rightarrow> Inr x), w)"
  "run_state (rask g) w = (g w (a_tick w), w\<lparr>a_tick := Suc (a_tick w)\<rparr>)"
  "run_state (rlog a) w = ((), w\<lparr>a_log := a_log w @ [a]\<rparr>)"
  by (simp_all add: rok_def rfail_def rfault_def runless_def rresult_def rask_def rlog_def)

lemma run_read_message:
  "run_state read_message w = (a_read w (a_tick w),
     w\<lparr>a_tick := Suc (a_tick w), a_log := a_log w @ [RRead (a_read w (a_tick w))]\<rparr>)"
  by (simp add: read_message_def)

lemma run_configure:
  "run_state (configure_socket_timeout d) w =
     ((case a_configure w (a_tick w) of None \<Rightarrow> Inr () | Some e \<Rightarrow> Inl (RError e)),
      w\<lparr>a_tick := Suc (a_tick w), a_log := a_log w @ [RTimeout d]\<rparr>)"
  by (simp add: configure_socket_timeout_def)

lemma run_send_value:
  "run_state (send_value v) w =
     ((case a_send w (a_tick w) of None \<Rightarrow> Inr () | Some e \<Rightarrow> Inl (RError e)),
      w\<lparr>a_tick := Suc (a_tick w), a_log := a_log w @ [RSend v (a_send w (a_tick w))]\<rparr>)"
  by (simp add: send_value_def)

lemma run_parse_value:
  "run_state (parse_value text) w = ((case js_parse (a_serde w) text of Inl e \<Rightarrow> Inl (RError e) | Inr v \<Rightarrow> Inr v), w)"
  by (simp add: parse_value_def)

lemma run_remaining: "\<exists>d. run_state (remaining_timeout t u) w = (d, w\<lparr>a_tick := Suc (a_tick w)\<rparr>)"
  by (simp add: remaining_timeout_def rnow_def)

text \<open>What both rounds do after the socket was configured.\<close>

definition read_part :: "nat \<Rightarrow> (json \<Rightarrow> string) \<Rightarrow> string \<Rightarrow> (string \<Rightarrow> (unit + json) rpc) \<Rightarrow> (unit + json) rpc" where
  "read_part i f cl rt =
     do { r \<leftarrow> read_message;
          (case r of
             ReadMsg (MsgText text) \<Rightarrow>
               tryE (parse_value text) (\<lambda>v.
                 (if \<not> response_id_is v i then rok (Inl ())
                  else (case jget v ''error'' of Some error \<Rightarrow> rfail (f error) | None \<Rightarrow> rok (Inr v))))
           | ReadMsg (MsgPing x) \<Rightarrow> rok (Inl ()) | ReadMsg MsgClose \<Rightarrow> rfail cl
           | ReadMsg MsgOther \<Rightarrow> rok (Inl ()) | ReadTimeout e \<Rightarrow> rt e | ReadFailed e \<Rightarrow> rfail e) }"

lemma read_part_waits:
  assumes run: "run_state (read_part i f cl rt) w = (Inr r, w')"
    and rt: "\<And>e. rt e = rok (Inl ()) \<or> (\<exists>m. rt e = rfail m)"
  shows "case r of Inl _ \<Rightarrow> logs (other_response (a_serde w) i) w w' | Inr v \<Rightarrow> own_response i v w w'"
proof (cases "a_read w (a_tick w)")
  case (ReadMsg msg)
  show ?thesis
  proof (cases "\<exists>text. msg = MsgText text")
    case True
    with run ReadMsg show ?thesis
      by (auto simp: read_part_def run_read_message run_parse_value logs_def env_def own_response_def other_response_def
          split: sum.splits if_splits option.splits)
  next
    case False
    with run ReadMsg show ?thesis
      by (cases msg) (auto simp: read_part_def run_read_message logs_def env_def other_response_def)
  qed
next
  case (ReadTimeout e)
  with run rt [of e] show ?thesis by (auto simp: read_part_def run_read_message logs_def env_def other_response_def)
next
  case (ReadFailed e)
  with run have False by (simp add: read_part_def run_read_message)
  then show ?thesis ..
qed

lemma own_response_step:
  "env w1 = env w \<Longrightarrow> a_tick w \<le> a_tick w1 \<Longrightarrow> a_log w1 = a_log w @ [RTimeout d] \<Longrightarrow>
   (case r of Inl _ \<Rightarrow> logs (other_response (a_serde w1) i) w1 w' | Inr v \<Rightarrow> own_response i v w1 w') \<Longrightarrow>
   (case r of Inl _ \<Rightarrow> logs (other_response (a_serde w) i) w w' | Inr v \<Rightarrow> own_response i v w w')"
proof -
  assume h: "env w1 = env w" "a_tick w \<le> a_tick w1" "a_log w1 = a_log w @ [RTimeout d]"
    and r: "case r of Inl _ \<Rightarrow> logs (other_response (a_serde w1) i) w1 w' | Inr v \<Rightarrow> own_response i v w1 w'"
  from h have l: "logs (other_response (a_serde w) i) w w1" by (simp add: logs_def)
  have sd: "a_serde w1 = a_serde w" using h(1) by (rule env_serde)
  have r': "case r of Inl _ \<Rightarrow> logs (other_response (a_serde w) i) w1 w' | Inr v \<Rightarrow> own_response i v w1 w'"
    using r unfolding sd .
  show ?thesis
  proof (cases r)
    case (Inl u)
    with r' have "logs (other_response (a_serde w) i) w1 w'" by simp
    with l have "logs (other_response (a_serde w) i) w w'" by (rule rl.R_trans)
    with Inl show ?thesis by simp
  next
    case (Inr v)
    with r' have "own_response i v w1 w'" by simp
    with l have "own_response i v w w'" by (rule own_response_after)
    with Inr show ?thesis by simp
  qed
qed

lemma after_configure_waits:
  assumes run: "run_state (tryE (configure_socket_timeout d) (\<lambda>_. read_part i f cl rt)) w0 = (Inr r, w')"
    and w0: "env w0 = env w" "a_tick w \<le> a_tick w0" "a_log w0 = a_log w"
    and rt: "\<And>e. rt e = rok (Inl ()) \<or> (\<exists>m. rt e = rfail m)"
  shows "case r of Inl _ \<Rightarrow> logs (other_response (a_serde w) i) w w' | Inr v \<Rightarrow> own_response i v w w'"
proof -
  define w1 where "w1 = w0\<lparr>a_tick := Suc (a_tick w0), a_log := a_log w0 @ [RTimeout d]\<rparr>"
  have "run_state (read_part i f cl rt) w1 = (Inr r, w')"
    using run by (simp add: run_configure w1_def split: option.splits)
  then have "case r of Inl _ \<Rightarrow> logs (other_response (a_serde w1) i) w1 w' | Inr v \<Rightarrow> own_response i v w1 w'"
    using rt by (rule read_part_waits)
  moreover have "env w1 = env w0" by (simp add: w1_def env_def)
  ultimately show ?thesis
    using w0 by (intro own_response_step [of w1 w d]) (simp_all add: w1_def)
qed

lemma response_round_waits: "waits_for i (response_round i m t u)"
  unfolding waits_for_def
proof (intro allI impI)
  fix w r w'
  assume run: "run_state (response_round i m t u) w = (Inr r, w')"
  have eq: "response_round i m t u =
      (do { t' \<leftarrow> rnow;
         (if u \<le> t' then rfail (''app-server '' @ m @ '' timed out before matching response'')
          else do { d \<leftarrow> remaining_timeout t u;
                    tryE (configure_socket_timeout d) (\<lambda>_.
                      read_part i (app_server_error m) (''app-server closed before '' @ m @ '' completed'')
                        (\<lambda>e. rfail (''app-server '' @ m @ '' timed out before matching response''))) }) })"
    by (simp only: response_round_def Let_def read_part_def)
  define w1 where "w1 = w\<lparr>a_tick := Suc (Suc (a_tick w))\<rparr>"
  obtain d where "run_state (remaining_timeout t u) (w\<lparr>a_tick := Suc (a_tick w)\<rparr>) = (d, w1)"
    using run_remaining [of t u "w\<lparr>a_tick := Suc (a_tick w)\<rparr>"] by (auto simp: w1_def)
  with run have "run_state (tryE (configure_socket_timeout d) (\<lambda>_.
      read_part i (app_server_error m) (''app-server closed before '' @ m @ '' completed'')
        (\<lambda>e. rfail (''app-server '' @ m @ '' timed out before matching response'')))) w1 = (Inr r, w')"
    unfolding eq by (simp add: rnow_def del: run_tryE split: if_splits)
  then show "case r of Inl _ \<Rightarrow> logs (other_response (a_serde w) i) w w' | Inr v \<Rightarrow> own_response i v w w'"
    by (rule after_configure_waits) (auto simp add: w1_def env_def)
qed

lemma run_interruption:
  "\<exists>k. run_state (app_server_command_interruption l) w =
     ((if a_cancel w (a_tick w) then Some RCancelled
       else if cl_deadline l \<le> a_now w (Suc (a_tick w)) then Some (RTimedOut (cl_timeout_seconds l)) else None),
      w\<lparr>a_tick := a_tick w + Suc k\<rparr>)"
  by (cases "a_cancel w (a_tick w)") (auto simp: app_server_command_interruption_def rnow_def intro: exI [of _ 0] exI [of _ 1])

lemma command_response_round_waits: "waits_for i (command_response_round i m l)"
  unfolding waits_for_def
proof (intro allI impI)
  fix w r w'
  assume run: "run_state (command_response_round i m l) w = (Inr r, w')"
  have eq: "command_response_round i m l =
      tryE (ensure_app_server_command_budget l) (\<lambda>_.
        do { d \<leftarrow> remaining_timeout (cl_timeout l) (cl_deadline l);
             tryE (configure_socket_timeout d) (\<lambda>_.
               read_part i (app_server_error m) (''app-server closed before '' @ m @ '' completed'')
                 (\<lambda>e. rok (Inl ()))) })"
    by (simp only: command_response_round_def Let_def read_part_def)
  obtain k x where i: "run_state (app_server_command_interruption l) w = (x, w\<lparr>a_tick := a_tick w + Suc k\<rparr>)"
    using run_interruption by blast
  define w1 where "w1 = w\<lparr>a_tick := Suc (a_tick w + Suc k)\<rparr>"
  obtain d where "run_state (remaining_timeout (cl_timeout l) (cl_deadline l)) (w\<lparr>a_tick := a_tick w + Suc k\<rparr>) = (d, w1)"
    using run_remaining [of "cl_timeout l" "cl_deadline l" "w\<lparr>a_tick := a_tick w + Suc k\<rparr>"] by (auto simp: w1_def)
  with run i have "run_state (tryE (configure_socket_timeout d) (\<lambda>_.
      read_part i (app_server_error m) (''app-server closed before '' @ m @ '' completed'') (\<lambda>e. rok (Inl ())))) w1
      = (Inr r, w')"
    unfolding eq by (cases x) (simp_all add: ensure_app_server_command_budget_def)
  then show "case r of Inl _ \<Rightarrow> logs (other_response (a_serde w) i) w w' | Inr v \<Rightarrow> own_response i v w w'"
    by (rule after_configure_waits) (simp_all add: w1_def env_def)
qed

text \<open>The request: it is sent first, then only other messages are read until its own response.\<close>

definition answered :: "nat \<Rightarrow> string \<Rightarrow> json \<Rightarrow> json \<Rightarrow> aworld \<Rightarrow> aworld \<Rightarrow> bool" where
  "answered i m params v w w' \<longleftrightarrow>
     (\<exists>pre l t. a_log w' = a_log w @ pre @ [RSend (rpc_request i m params) None] @ l @ [RRead (ReadMsg (MsgText t))]
        \<and> (\<forall>a \<in> set pre. \<exists>d. a = RTimeout d) \<and> (\<forall>a \<in> set l. other_response (a_serde w) i a)
        \<and> js_parse (a_serde w) t = Inr v \<and> response_id_is v i \<and> jget v ''error'' = None)"

lemma request_loop_answered:
  assumes run: "run_state (tryE (send_value (rpc_request i m params)) (\<lambda>_. loopE n RFuel (\<lambda>_. rd) ())) w0 = (Inr v, w')"
    and rd: "waits_for i rd"
    and w0: "env w0 = env w" "a_log w0 = a_log w @ pre" "\<forall>a \<in> set pre. \<exists>d. a = RTimeout d"
  shows "answered i m params v w w'"
proof -
  define w1 where "w1 = w0\<lparr>a_tick := Suc (a_tick w0), a_log := a_log w0 @ [RSend (rpc_request i m params) None]\<rparr>"
  have "run_state (loopE n RFuel (\<lambda>_. rd) ()) w1 = (Inr v, w')"
    using run by (simp add: run_send_value w1_def split: option.splits)
  with rd have o: "own_response i v w1 w'" by (rule loop_waits_for)
  have "env w1 = env w" using w0 by (simp add: w1_def env_def)
  then have sd: "a_serde w1 = a_serde w" by (rule env_serde)
  have "a_log w1 = a_log w @ pre @ [RSend (rpc_request i m params) None]" using w0 by (simp add: w1_def)
  with o w0(3) show ?thesis unfolding own_response_def answered_def sd by fastforce
qed

lemma request_answered:
  assumes run: "run_state (send_app_server_request_before_deadline fuel i m params t u) w = (Inr v, w')"
  shows "answered i m params v w w'"
proof -
  define w1 where "w1 = w\<lparr>a_tick := Suc (Suc (a_tick w))\<rparr>"
  obtain d where d: "run_state (remaining_timeout t u) (w\<lparr>a_tick := Suc (a_tick w)\<rparr>) = (d, w1)"
    using run_remaining [of t u "w\<lparr>a_tick := Suc (a_tick w)\<rparr>"] by (auto simp: w1_def)
  define w2 where "w2 = w1\<lparr>a_tick := Suc (a_tick w1), a_log := a_log w1 @ [RTimeout d]\<rparr>"
  from run d have "run_state (send_app_server_request_inner fuel i m params t u) w2 = (Inr v, w')"
    unfolding send_app_server_request_before_deadline_def ensure_app_server_local_budget_def
    by (simp add: rnow_def run_configure w2_def split: if_splits option.splits)
  then show ?thesis
    unfolding send_app_server_request_inner_def
    by (rule request_loop_answered [where pre = "[RTimeout d]", OF _ response_round_waits])
      (simp_all add: w2_def w1_def env_def)
qed

lemma command_request_answered:
  "run_state (send_app_server_request_for_command fuel i m params l) w = (Inr v, w') \<Longrightarrow> answered i m params v w w'"
  unfolding send_app_server_request_for_command_def
  by (erule request_loop_answered [where pre = "[]", OF _ command_response_round_waits]) simp_all

subsection \<open>What holds after a run\<close>

text \<open>After a failure \<open>G\<close> holds of the world, after a result \<open>Q\<close> holds of it and the world.\<close>

definition ensures :: "('s \<Rightarrow> bool) \<Rightarrow> ('s, 'e + 'a) state \<Rightarrow> 's \<Rightarrow> ('a \<Rightarrow> 's \<Rightarrow> bool) \<Rightarrow> bool" where
  "ensures G m w Q \<longleftrightarrow> (case run_state m w of (Inl e, w') \<Rightarrow> G w' | (Inr v, w') \<Rightarrow> Q v w')"

lemma ensuresD:
  "ensures G m w Q \<Longrightarrow> run_state m w = (Inl e, w') \<Longrightarrow> G w'"
  "ensures G m w Q \<Longrightarrow> run_state m w = (Inr v, w') \<Longrightarrow> Q v w'"
  by (simp_all add: ensures_def)

lemma ensuresI:
  "(\<And>e w'. run_state m w = (Inl e, w') \<Longrightarrow> G w') \<Longrightarrow> (\<And>v w'. run_state m w = (Inr v, w') \<Longrightarrow> Q v w') \<Longrightarrow> ensures G m w Q"
  by (auto simp: ensures_def split: prod.split sum.split)

lemma ensures_tryE:
  "ensures G m w R \<Longrightarrow> (\<And>v w1. R v w1 \<Longrightarrow> ensures G (f v) w1 Q) \<Longrightarrow> ensures G (tryE m f) w Q"
proof -
  assume m: "ensures G m w R" and f: "\<And>v w1. R v w1 \<Longrightarrow> ensures G (f v) w1 Q"
  obtain r w1 where r: "run_state m w = (r, w1)" by fastforce
  show ?thesis
  proof (cases r)
    case (Inl e)
    with m r show ?thesis by (simp add: ensures_def)
  next
    case (Inr v)
    with m r have "R v w1" by (simp add: ensures_def)
    from f [OF this] r Inr show ?thesis by (simp add: ensures_def)
  qed
qed

lemma ensures_mono: "ensures G m w R \<Longrightarrow> (\<And>v w1. R v w1 \<Longrightarrow> Q v w1) \<Longrightarrow> ensures G m w Q"
  by (auto simp: ensures_def split: prod.splits sum.splits)

lemma ensures_results:
  "Q x w \<Longrightarrow> ensures G (rok x) w Q" "G w \<Longrightarrow> ensures G (rfail e) w Q"
  "(\<And>x. r = Inr x \<Longrightarrow> Q x w) \<Longrightarrow> G w \<Longrightarrow> ensures G (rresult r) w Q"
  by (simp_all add: ensures_def split: sum.split)

lemma ensures_bind_gets: "ensures G (f (g w)) w Q \<Longrightarrow> ensures G (State_Monad.bind (gets g) f) w Q"
  by (simp add: ensures_def)

lemma ensures_keeps:
  assumes "rl.keeps P m" and "\<And>w1. logs P w w1 \<Longrightarrow> G w1" and "\<And>v w1. logs P w w1 \<Longrightarrow> Q v w1"
  shows "ensures G m w Q"
  using assms by (intro ensuresI) (blast dest: rl.keepsE)+

text \<open>A request: whatever comes of it, it was at most sent and waited for; a result was answered.\<close>

definition asking :: "json \<Rightarrow> rpc_action \<Rightarrow> bool" where
  "asking v a \<longleftrightarrow> waiting a \<or> (\<exists>s. a = RSend v s)"

lemma keeps_request_asking:
  "rl.keeps (asking (rpc_request i m params)) (send_app_server_request_before_deadline fuel i m params t u)"
  "rl.keeps (asking (rpc_request i m params)) (send_app_server_request_for_command fuel i m params l)"
  by (intro keeps_request keeps_request_for_command; simp add: asking_def)+

lemma ensures_request:
  assumes "\<And>w1. logs (asking (rpc_request i m params)) w w1 \<Longrightarrow> G w1"
    and "\<And>v w1. logs (asking (rpc_request i m params)) w w1 \<Longrightarrow> answered i m params v w w1 \<Longrightarrow> Q v w1"
  shows "ensures G (send_app_server_request_before_deadline fuel i m params t u) w Q"
    and "ensures G (send_app_server_request_for_command fuel i m params l) w Q"
proof -
  show "ensures G (send_app_server_request_before_deadline fuel i m params t u) w Q"
    by (rule ensuresI, erule assms(1) [OF rl.keepsE [OF keeps_request_asking(1)]])
      (rule assms(2) [OF rl.keepsE [OF keeps_request_asking(1)] request_answered])
  show "ensures G (send_app_server_request_for_command fuel i m params l) w Q"
    by (rule ensuresI, erule assms(1) [OF rl.keepsE [OF keeps_request_asking(2)]])
      (rule assms(2) [OF rl.keepsE [OF keeps_request_asking(2)] command_request_answered])
qed

end
