(* ===== verification/App_Server_Claims.thy ===== *)
theory App_Server_Claims
  imports App_Server_Facts Inventory_Claims
begin

text \<open>
  The properties of connecting to an app server and of the requests made of it, with a world to
  evaluate them in.
\<close>

subsection \<open>Actions that depend on what the world has to read\<close>

definition env_logs :: "(aworld \<Rightarrow> rpc_action \<Rightarrow> bool) \<Rightarrow> aworld \<Rightarrow> aworld \<Rightarrow> bool" where
  "env_logs Q w w' \<longleftrightarrow> logs (Q (env w)) w w'"

interpretation el: effect_rel "env_logs Q" for Q
proof
  show "env_logs Q s s" for s by (simp add: env_logs_def rl.R_refl)
  show "env_logs Q s u" if "env_logs Q s t" "env_logs Q t u" for s t u
  proof -
    have "env t = env s" using that(1) unfolding env_logs_def by (rule logsE)
    with that show ?thesis unfolding env_logs_def by (metis rl.R_trans)
  qed
qed

lemma env_keeps: "(\<And>e. rl.keeps (Q e) m) \<Longrightarrow> el.keeps Q m"
  by (intro el.keepsI) (simp add: env_logs_def rl.keepsD)

lemma env_keeps_gets_id:
  "(\<And>w. logs (Q (env w)) w (snd (run_state (f w) w))) \<Longrightarrow> el.keeps Q (State_Monad.bind (gets id) f)"
  by (rule el.keepsI) (simp add: env_logs_def)

lemmas env_log_intros = el.keeps_intros log_intros [THEN env_keeps]

subsection \<open>The token\<close>

text \<open>What is shown of the token: the header of the configured file, to the configured URL, over TLS.\<close>

definition token_for :: "string \<Rightarrow> string option \<Rightarrow> aworld \<Rightarrow> rpc_action \<Rightarrow> bool" where
  "token_for url auth_token_file w a \<longleftrightarrow>
     (\<forall>u token. a = RHandshake u (Some token) \<longrightarrow>
        u = url \<and> (\<exists>p path raw. a_urls w url = Inr p \<and> uri_scheme_is p ''wss'' \<and> auth_token_file = Some path
          \<and> a_read_to_string w path = Inr raw \<and> trim raw \<noteq> [] \<and> token = ''Bearer '' @ trim raw))"

lemma env_more [simp]:
  "a_read_to_string (env w) = a_read_to_string w" "a_header_error (env w) = a_header_error w"
  "a_request_error (env w) = a_request_error w"
  by (simp_all add: env_def)

lemma token_for_other:
  "token_for url f w (RTimeout d)" "token_for url f w (RHandshake u None)" "token_for url f w (RConnectTcp p d)"
  "token_for url f w (RConnectUnix u)"
  by (simp_all add: token_for_def)

lemma client_request_token:
  "app_server_client_request (a_urls w) (a_request_error w) (a_read_to_string w) (a_header_error w) url f = Inr h
    \<Longrightarrow> token_for url f (env w) (RHandshake url h)"
  by (auto simp: app_server_client_request_def token_for_def Let_def split: option.splits sum.splits if_splits)

lemma keeps_guard: "rl.keeps P (app_server_connection_time_remaining u url)"
    "rl.keeps P (start_deadline_guard u url)" "rl.keeps P (resolve_app_server_addresses h p)" "rl.keeps P (tls_connect url)"
  unfolding start_deadline_guard_def app_server_connection_time_remaining_def resolve_app_server_addresses_def tls_connect_def
  by (intro log_intros | simp add: keeps_results split: tls_answer.split)+

lemma keeps_handshake: "P (RHandshake url h) \<Longrightarrow> rl.keeps P (websocket_handshake url h)"
  unfolding websocket_handshake_def
  by (intro log_intros) (simp_all add: keeps_results split: handshake_answer.split)

lemma keeps_finish_tcp:
  "P (RHandshake url h) \<Longrightarrow> (\<And>d. P (RTimeout d)) \<Longrightarrow> rl.keeps P (finish_tcp_connection url tls h t u)"
  unfolding finish_tcp_connection_def
  by (intro log_intros keeps_guard keeps_handshake)

lemma keeps_attempts:
  "P (RHandshake url h) \<Longrightarrow> (\<And>d. P (RTimeout d)) \<Longrightarrow> (\<And>p d. P (RConnectTcp p d)) \<Longrightarrow>
     rl.keeps P (connect_attempts url tls h t u addrs last_error)"
proof (induction addrs arbitrary: last_error)
  case (Cons addr addrs)
  show ?case
    unfolding connect_attempts.simps
    by (intro log_intros keeps_guard keeps_finish_tcp Cons)
qed (simp add: keeps_results)

lemma keeps_connect_tcp: "el.keeps (token_for url f) (connect_tcp_app_server url f u t)"
proof -
  have after: "logs (token_for url f (env w)) w (snd (run_state
      (tryE (rresult (app_server_client_request (a_urls w) (a_request_error w) (a_read_to_string w)
          (a_header_error w) url f)) (\<lambda>authorization.
       tryE (app_server_connection_time_remaining deadline url) (\<lambda>_.
       tryE (resolve_app_server_addresses (uri_host_plain host) port) (\<lambda>addresses.
       connect_attempts url tls authorization t deadline addresses None)))) w))" for w deadline host port tls
  proof (cases "app_server_client_request (a_urls w) (a_request_error w) (a_read_to_string w) (a_header_error w) url f")
    case (Inl e)
    then show ?thesis by (simp add: rl.R_refl)
  next
    case (Inr h)
    have "rl.keeps (token_for url f (env w)) (tryE (app_server_connection_time_remaining deadline url) (\<lambda>_.
        tryE (resolve_app_server_addresses (uri_host_plain host) port) (\<lambda>addresses.
        connect_attempts url tls h t deadline addresses None)))"
      by (intro log_intros keeps_guard keeps_attempts client_request_token Inr token_for_other)
    from rl.keepsD [OF this] Inr show ?thesis by simp
  qed
  show ?thesis
    unfolding connect_tcp_app_server_def Let_def
    by (intro env_log_intros env_keeps_gets_id after)
qed

lemma keeps_connect_unix:
  "(\<And>h. P (RHandshake h None)) \<Longrightarrow> (\<And>d. P (RTimeout d)) \<Longrightarrow> P (RConnectUnix p) \<Longrightarrow>
     rl.keeps P (connect_unix_app_server p f t)"
  unfolding connect_unix_app_server_def Let_def
  by (intro log_intros keeps_guard keeps_handshake)

lemma keeps_connect: "el.keeps (token_for url f) (connect_app_server url t f)"
  unfolding connect_app_server_def
  by (intro env_log_intros keeps_connect_tcp env_keeps [OF keeps_connect_unix] token_for_other)

lemma other_response_cases:
  "other_response sd i a \<Longrightarrow>
     (\<exists>d. a = RTimeout d) \<or> (\<exists>r. a = RRead r \<and> (\<forall>t v. r = ReadMsg (MsgText t) \<and> js_parse sd t = Inr v \<longrightarrow> \<not> response_id_is v i))"
  by (cases a) (simp_all add: other_response_def)

lemma keeps_connect_plain:
  "(\<And>u h. P (RHandshake u h)) \<Longrightarrow> (\<And>d. P (RTimeout d)) \<Longrightarrow> (\<And>p d. P (RConnectTcp p d)) \<Longrightarrow>
     (\<And>p. P (RConnectUnix p)) \<Longrightarrow> rl.keeps P (connect_app_server url t f)"
  unfolding connect_app_server_def connect_tcp_app_server_def Let_def
  by (intro log_intros keeps_guard keeps_attempts keeps_connect_unix)

lemma keeps_initialize:
  "(\<And>a. waiting a \<Longrightarrow> P a) \<Longrightarrow> (\<And>s. P (RSend (rpc_request 0 ''initialize'' (initialize_params cargo_pkg_version)) s)) \<Longrightarrow>
     (\<And>s. P (RSend initialized_notification s)) \<Longrightarrow>
     rl.keeps P (initialize_app_server_connection_before_deadline fuel t u)"
  unfolding initialize_app_server_connection_before_deadline_def
  by (intro log_intros keeps_request)

lemma answered_logs: "answered i m params v w w' \<Longrightarrow>
    \<exists>l t. a_log w' = a_log w @ l @ [RRead (ReadMsg (MsgText t))] \<and> RSend (rpc_request i m params) None \<in> set l
      \<and> js_parse (a_serde w) t = Inr v"
  unfolding answered_def by fastforce

subsection \<open>The listing of sessions\<close>

lemma map_of_add_thread:
  "map_of (add_thread_session acc t) s =
     (case map_of acc s of Some x \<Rightarrow> Some x
      | None \<Rightarrow> if app_server_thread_session_id t = Some s then Some (thread_session t) else None)"
  by (auto simp: add_thread_session_def map_of_entry_update split: option.split)

lemma map_of_sessions:
  "map_of (foldl add_thread_session acc data) s =
     (case map_of acc s of Some x \<Rightarrow> Some x
      | None \<Rightarrow> map_option thread_session (find (\<lambda>t. app_server_thread_session_id t = Some s) data))"
proof (induction data arbitrary: acc)
  case (Cons t data)
  show ?case
    unfolding foldl.simps Cons map_of_add_thread by (simp split: option.split)
qed (simp split: option.split)

lemma distinct_add_thread: "distinct (map fst (add_thread_session acc t)) \<longleftrightarrow> distinct (map fst acc)"
  by (simp add: add_thread_session_def distinct_entry_update split: option.split)

lemma distinct_sessions: "distinct (map fst acc) \<Longrightarrow> distinct (map fst (foldl add_thread_session acc data))"
  by (induction data arbitrary: acc) (simp_all add: distinct_add_thread)

lemma sessions_from_response:
  assumes "app_server_thread_list_data v = Some data"
  shows "distinct (map fst (app_server_sessions_from_response v))"
    and "map_of (app_server_sessions_from_response v) s =
      map_option thread_session (find (\<lambda>t. app_server_thread_session_id t = Some s) data)"
  using assms by (simp_all add: app_server_sessions_from_response_def distinct_sessions map_of_sessions)

lemma validate_threads_ids:
  "validate_threads n data = Inr () \<Longrightarrow> t \<in> set data \<Longrightarrow> is_object t \<and> app_server_thread_id t \<noteq> None"
  by (induction data arbitrary: n) (auto split: if_splits)

lemma validated_data:
  "validate_app_server_thread_list_response v = Inr u \<Longrightarrow>
     \<exists>data. app_server_thread_list_data v = Some data \<and> (\<forall>t \<in> set data. app_server_thread_id t \<noteq> None)"
  by (auto simp: validate_app_server_thread_list_response_def tryR_def dest: validate_threads_ids
      split: option.splits sum.splits)

subsection \<open>A world to evaluate in\<close>

text \<open>
  An app server whose messages come round and round: a response to each request of a client,
  and notifications of a turn. A request skips what is not its own response.
\<close>

definition demo_thread :: "string \<Rightarrow> string \<Rightarrow> json" where
  "demo_thread i session = jobj [(''id'', JStr i), (''sessionId'', JStr session), (''cwd'', JStr ''/work'')]"

definition demo_response :: "nat \<Rightarrow> json \<Rightarrow> json" where
  "demo_response i result = jobj [(''id'', JNum (PosInt i)), (''result'', result)]"

definition demo_app_message :: "string \<Rightarrow> json" where
  "demo_app_message text =
     (if text = ''hello'' then demo_response 0 (jobj [])
      else if text = ''page''
      then demo_response 1 (jobj [(''data'', JArr [demo_thread ''t9'' ''s9'', demo_thread ''t1'' ''s1'',
                                                    demo_thread ''t2'' ''s1''])])
      else if text = ''done'' then demo_response 2 (jobj [(''thread'', demo_thread ''t1'' ''s1'')])
      else jobj [(''method'', JStr ''turn/completed''),
                 (''params'', jobj [(''threadId'', JStr ''t1''),
                    (''turn'', jobj [(''id'', JStr ''u1''), (''status'', JStr ''completed'')])])])"

definition demo_app_uri :: uri where
  "demo_app_uri = \<lparr> u_scheme = Some ''wss'', u_authority = Some ''10.0.0.1:7'', u_host = Some ''10.0.0.1'' \<rparr>"

definition demo_app :: "string list \<Rightarrow> aworld" where
  "demo_app texts =
     \<lparr> a_serde = \<lparr> js_print = (\<lambda>v. []), js_parse = (\<lambda>t. Inr (demo_app_message t)), js_type_error = (\<lambda>v. []) \<rparr>,
       a_urls = (\<lambda>url. if url = ''wss://10.0.0.1:7'' then Inr demo_app_uri else Inl ''invalid uri''),
       a_disk = demo_disk, a_request_error = (\<lambda>u. None), a_header_error = (\<lambda>h. None),
       a_read_to_string = (\<lambda>p. Inr (''sesame'' @ [nl])), a_tick = 0, a_now = (\<lambda>k. k), a_cancel = (\<lambda>k. False),
       a_resolve = (\<lambda>k. Inr []), a_tcp = (\<lambda>k. None), a_unix = (\<lambda>k. None), a_setup = (\<lambda>k. None),
       a_tls = (\<lambda>k. TlsReady), a_handshake = (\<lambda>k. HandshakeDone), a_configure = (\<lambda>k. None),
       a_read = (\<lambda>k. ReadMsg (if texts = [] then MsgClose else MsgText (texts ! (k mod length texts)))),
       a_send = (\<lambda>k. None), a_recv = (\<lambda>k. NothingYet), a_event_closed = (\<lambda>k. False),
       a_poisoned = (\<lambda>k. False), a_log = [] \<rparr>"

subsection \<open>The properties\<close>



text \<open>
  C21: A request returns its own response. When a request to the app server returns a value, the
  request was sent, and after it only other messages were read until a text came that parses to
  that value; the value bears the id of the request and no error. This holds for requests under
  a deadline and for requests of a command.
\<close>
theorem request_gets_its_own_response:
  assumes "run_state (send_app_server_request_before_deadline fuel i m params timeout deadline) w = (Inr v, w')
         \<or> run_state (send_app_server_request_for_command fuel i m params l) w = (Inr v, w')"
  shows "\<exists>pre others t. a_log w' = a_log w @ pre @ [RSend (rpc_request i m params) None] @ others @ [RRead (ReadMsg (MsgText t))]
     \<and> (\<forall>a \<in> set pre. \<exists>d. a = RTimeout d)
     \<and> (\<forall>a \<in> set others. (\<exists>d. a = RTimeout d) \<or> (\<exists>r. a = RRead r \<and> (\<forall>t' v'. r = ReadMsg (MsgText t')
          \<and> js_parse (a_serde w) t' = Inr v' \<longrightarrow> \<not> response_id_is v' i)))
     \<and> js_parse (a_serde w) t = Inr v \<and> response_id_is v i \<and> jget v ''error'' = None"
proof -
  from assms have "answered i m params v w w'" by (auto intro: request_answered command_request_answered)
  then obtain pre others t where h: "a_log w' = a_log w @ pre @ [RSend (rpc_request i m params) None] @ others
        @ [RRead (ReadMsg (MsgText t))]" "\<forall>a \<in> set pre. \<exists>d. a = RTimeout d"
      "\<forall>a \<in> set others. other_response (a_serde w) i a"
      "js_parse (a_serde w) t = Inr v \<and> response_id_is v i \<and> jget v ''error'' = None"
    unfolding answered_def by blast
  have "\<forall>a \<in> set others. (\<exists>d. a = RTimeout d) \<or> (\<exists>r. a = RRead r \<and> (\<forall>t' v'. r = ReadMsg (MsgText t')
          \<and> js_parse (a_serde w) t' = Inr v' \<longrightarrow> \<not> response_id_is v' i))"
    using h(3) other_response_cases by blast
  with h show ?thesis by blast
qed

theorem request_gets_its_own_response_witness:
  "\<exists>w' t. run_state (send_app_server_request_before_deadline 9 2 ''thread/resume'' JNull (secs 1) (secs 2))
            (demo_app [''hello'', ''page'', ''done'']) = (Inr (demo_app_message ''done''), w')
     \<and> last (a_log w') = RRead (ReadMsg (MsgText t)) \<and> demo_app_message t = demo_app_message ''done''"
proof -
  let ?run = "run_state (send_app_server_request_before_deadline 9 2 ''thread/resume'' JNull (secs 1) (secs 2))
            (demo_app [''hello'', ''page'', ''done''])"
  have "fst ?run = Inr (demo_app_message ''done'')" by code_simp
  then have run: "?run = (Inr (demo_app_message ''done''), snd ?run)" by (cases ?run) simp
  from request_gets_its_own_response [OF disjI1, OF run]
  obtain pre others t where h: "a_log (snd ?run) = a_log (demo_app [''hello'', ''page'', ''done'']) @ pre
        @ [RSend (rpc_request 2 ''thread/resume'' JNull) None] @ others @ [RRead (ReadMsg (MsgText t))]"
      "js_parse (a_serde (demo_app [''hello'', ''page'', ''done''])) t = Inr (demo_app_message ''done'')" by blast
  have "last (a_log (snd ?run)) = RRead (ReadMsg (MsgText t))" unfolding h(1) by simp
  moreover have "demo_app_message t = demo_app_message ''done''" using h(2) by (simp add: demo_app_def)
  ultimately show ?thesis using run by blast
qed

text \<open>
  The listing of the app server is its answer. The inventory is built from the last text
  read, the response to a listing of the threads that are not archived, asked for one row more
  than the limit. Every row of it has an id; each session is listed once, from its first row; the
  inventory is marked truncated exactly when there were more rows than the limit or a next page.
\<close>
theorem listing_is_the_servers_answer:
  assumes run: "run_state (load_app_server_sessions_with_auth fuel url limit timeout_seconds auth_token_file) w = (Inr listing, w')"
  shows "\<exists>t v data. last (a_log w') = RRead (ReadMsg (MsgText t)) \<and> js_parse (a_serde w) t = Inr v
     \<and> RSend (rpc_request 1 ''thread/list'' (app_server_thread_list_params (min u64_max (max limit 1 + 1)) None (Some False)))
         None \<in> set (a_log w')
     \<and> app_server_thread_list_data v = Some data \<and> (\<forall>th \<in> set data. app_server_thread_id th \<noteq> None)
     \<and> distinct (map fst (asi_sessions listing))
     \<and> (\<forall>s. map_of (asi_sessions listing) s =
            map_option thread_session (find (\<lambda>th. app_server_thread_session_id th = Some s) data))
     \<and> (asi_truncated listing \<longleftrightarrow> max limit 1 < length data \<or> app_server_thread_list_next_cursor v \<noteq> None)"
proof -
  let ?timeout = "app_server_timeout timeout_seconds"
  let ?params = "app_server_thread_list_params (sat_add u64_max (max limit 1) 1) None (Some False)"
  obtain deadline w1 where w1: "run_state (deadline_in ?timeout) w = (Inr deadline, w1)"
    using run by (auto simp: load_app_server_sessions_with_auth_def Let_def split: sum.splits prod.splits)
  obtain w2 where w2: "run_state (connect_app_server url ?timeout auth_token_file) w1 = (Inr (), w2)"
    using run w1 by (auto simp: load_app_server_sessions_with_auth_def Let_def split: sum.splits prod.splits)
  obtain w3 where w3: "run_state (initialize_app_server_connection_before_deadline fuel ?timeout deadline) w2 = (Inr (), w3)"
    using run w1 w2 by (auto simp: load_app_server_sessions_with_auth_def Let_def split: sum.splits prod.splits)
  obtain v w4 where w4: "run_state (send_app_server_request_before_deadline fuel 1 ''thread/list'' ?params ?timeout deadline) w3
      = (Inr v, w4)"
    using run w1 w2 w3
    by (auto simp: load_app_server_sessions_with_auth_def send_app_server_thread_list_request_def Let_def
        split: sum.splits prod.splits)
  have rest: "w' = w4 \<and> validate_app_server_thread_list_response v = Inr ()
      \<and> asi_sessions listing = app_server_sessions_from_response v
      \<and> (asi_truncated listing \<longleftrightarrow>
          (max limit 1 < (case app_server_thread_list_data v of Some d \<Rightarrow> length d | None \<Rightarrow> 0)
           \<or> app_server_thread_list_next_cursor v \<noteq> None))"
    using run w1 w2 w3 w4
    by (auto simp: load_app_server_sessions_with_auth_def send_app_server_thread_list_request_def Let_def
        split: sum.splits prod.splits)
  have "logs (\<lambda>_. True) w w1" using w1 by (rule rl.keepsE [OF keeps_deadline_in])
  also have "logs (\<lambda>_. True) w1 w2" by (rule rl.keepsE [OF keeps_connect_plain w2]) simp_all
  also (rl.R_trans) have "logs (\<lambda>_. True) w2 w3" by (rule rl.keepsE [OF keeps_initialize w3]) simp_all
  finally (rl.R_trans) obtain l where l: "a_log w3 = a_log w @ l" and "env w3 = env w" by (rule logsE)
  then have sd: "a_serde w3 = a_serde w" by (intro env_serde)
  obtain t l' where t: "a_log w4 = a_log w3 @ l' @ [RRead (ReadMsg (MsgText t))]"
      "RSend (rpc_request 1 ''thread/list'' ?params) None \<in> set l'" "js_parse (a_serde w) t = Inr v"
    using answered_logs [OF request_answered [OF w4]] unfolding sd by blast
  from rest obtain data where d: "app_server_thread_list_data v = Some data" "\<forall>th \<in> set data. app_server_thread_id th \<noteq> None"
    using validated_data by blast
  have "last (a_log w') = RRead (ReadMsg (MsgText t))" using rest t(1) by simp
  moreover have "RSend (rpc_request 1 ''thread/list'' ?params) None \<in> set (a_log w')" using rest t(1,2) by simp
  moreover have "asi_truncated listing \<longleftrightarrow> max limit 1 < length data \<or> app_server_thread_list_next_cursor v \<noteq> None"
    using rest d(1) by simp
  ultimately show ?thesis
    using rest d t(3) sessions_from_response [OF d(1)] unfolding sat_add_def by metis
qed

definition demo_listing :: app_server_session_inventory where
  "demo_listing =
     \<lparr> asi_sessions = [(''s9'', \<lparr> ass_name = None, ass_cwd = Some ''/work'', ass_updated_at = None \<rparr>),
                       (''s1'', \<lparr> ass_name = None, ass_cwd = Some ''/work'', ass_updated_at = None \<rparr>)],
       asi_truncated = True \<rparr>"

theorem listing_is_the_servers_answer_witness:
  "\<exists>w'. run_state (load_app_server_sessions_with_auth 9 ''wss://10.0.0.1:7'' 2 3 None) (demo_app [''hello'', ''page'', ''done''])
          = (Inr demo_listing, w') \<and> distinct (map fst (asi_sessions demo_listing))"
proof -
  let ?run = "run_state (load_app_server_sessions_with_auth 9 ''wss://10.0.0.1:7'' 2 3 None) (demo_app [''hello'', ''page'', ''done''])"
  have "fst ?run = Inr demo_listing" by code_simp
  then have run: "?run = (Inr demo_listing, snd ?run)" by (cases ?run) simp
  from listing_is_the_servers_answer [OF run] run show ?thesis by blast
qed

end
