(* ===== verification/App_Server_Archive.thy ===== *)
theory App_Server_Archive
  imports App_Server_Claims
begin

text \<open>
  Archiving touches only the session's threads: what each step of the archive sync knows of the
  ids it is about to name, and the property, proved by following the sync through its requests.
\<close>

subsection \<open>Requests that archive\<close>

definition archive_request :: "json \<Rightarrow> bool" where
  "archive_request v \<longleftrightarrow> jget v ''method'' \<in> {Some (JStr ''thread/archive''), Some (JStr ''thread/unarchive'')}"

lemma archive_request_rpc [simp]:
  "archive_request (rpc_request i m params) \<longleftrightarrow> m \<in> {''thread/archive'', ''thread/unarchive''}"
  "\<not> archive_request initialized_notification"
  by (simp_all add: archive_request_def rpc_request_def initialized_notification_def)

text \<open>An action that reads a text which shows that the thread belongs to what was requested.\<close>

definition listed_in :: "json \<Rightarrow> string \<Rightarrow> string \<Rightarrow> bool" where
  "listed_in v requested t \<longleftrightarrow>
     (\<exists>data th. app_server_thread_list_data v = Some data \<and> th \<in> set data \<and> jget_str th ''id'' = Some t
        \<and> (t = requested \<or> jget_str th ''sessionId'' = Some requested))"

definition shows_thread :: "serde \<Rightarrow> string \<Rightarrow> string \<Rightarrow> rpc_action \<Rightarrow> bool" where
  "shows_thread sd requested t a \<longleftrightarrow>
     (\<exists>text v. a = RRead (ReadMsg (MsgText text)) \<and> js_parse sd text = Inr v
        \<and> (listed_in v requested t
           \<or> (\<exists>th. app_server_thread_from_response v = Inr th \<and> at_id th = t \<and> at_session_id th = requested)))"

definition seen :: "serde \<Rightarrow> string \<Rightarrow> aworld \<Rightarrow> aworld \<Rightarrow> string \<Rightarrow> bool" where
  "seen sd requested w w' t \<longleftrightarrow> (\<exists>l. a_log w' = a_log w @ l \<and> (\<exists>a \<in> set l. shows_thread sd requested t a))"

lemma seen_later: "seen sd q w w1 t \<Longrightarrow> logs P w1 w2 \<Longrightarrow> seen sd q w w2 t"
  by (fastforce simp: seen_def logs_def)

lemma seen_earlier: "logs P w w1 \<Longrightarrow> seen sd q w1 w2 t \<Longrightarrow> seen sd q w w2 t"
  by (fastforce simp: seen_def logs_def)

lemma answered_seen:
  "answered i m params v w w' \<Longrightarrow> a_serde w = sd \<Longrightarrow>
   listed_in v q t \<or> (\<exists>th. app_server_thread_from_response v = Inr th \<and> at_id th = t \<and> at_session_id th = q) \<Longrightarrow>
   seen sd q w w' t"
  unfolding answered_def seen_def shows_thread_def by fastforce

subsection \<open>What a page lists\<close>

lemma match_threads_ids:
  "\<forall>t \<in> set ids. L t \<Longrightarrow>
   (\<And>th t. th \<in> set threads \<Longrightarrow> jget_str th ''id'' = Some t \<Longrightarrow> t = q \<or> jget_str th ''sessionId'' = Some q \<Longrightarrow> L t) \<Longrightarrow>
   (\<forall>t \<in> set (pm_session_thread_ids (match_threads q threads ids)). L t)
   \<and> (\<forall>t. pm_exact_thread_id (match_threads q threads ids) = Some t \<longrightarrow> L t)"
proof (induction threads arbitrary: ids)
  case (Cons th threads)
  have h: "jget_str th ''id'' = Some t \<Longrightarrow> t = q \<or> jget_str th ''sessionId'' = Some q \<Longrightarrow> L t" for t
    by (rule Cons.prems(2) [of th]) simp_all
  have rest: "\<forall>t \<in> set ids'. L t \<Longrightarrow> (\<forall>t \<in> set (pm_session_thread_ids (match_threads q threads ids')). L t)
     \<and> (\<forall>t. pm_exact_thread_id (match_threads q threads ids') = Some t \<longrightarrow> L t)" for ids'
    by (rule Cons.IH, assumption, rule Cons.prems(2)) simp_all
  have grown: "\<forall>t \<in> set (ids @ [t']). L t" if "L t'" for t'
    using that Cons.prems(1) by simp
  consider (exact) "jget_str th ''id'' = Some q" "jget_str th ''sessionId'' \<noteq> Some q"
    | (own) "jget_str th ''id'' = Some q" "jget_str th ''sessionId'' = Some q"
    | (child) t' where "jget_str th ''id'' = Some t'" "t' \<noteq> q" "jget_str th ''sessionId'' = Some q"
    | (skip) "jget_str th ''id'' \<noteq> Some q" "jget_str th ''sessionId'' \<noteq> Some q \<or> jget_str th ''id'' = None"
    by (cases "jget_str th ''id''") auto
  then show ?case
  proof cases
    case exact
    then have eq: "match_threads q (th # threads) ids = \<lparr> pm_exact_thread_id = Some q, pm_session_thread_ids = ids \<rparr>"
      by simp
    have "L q" using exact(1) by (rule h) simp
    with Cons.prems(1) show ?thesis unfolding eq by simp
  next
    case own
    then have eq: "match_threads q (th # threads) ids = match_threads q threads (ids @ [q])" by simp
    have "L q" using own(1) by (rule h) simp
    then show ?thesis unfolding eq by (intro rest grown)
  next
    case (child t')
    then have eq: "match_threads q (th # threads) ids = match_threads q threads (ids @ [t'])" by simp
    have "L t'" using child(1) by (rule h) (simp add: child)
    then show ?thesis unfolding eq by (intro rest grown)
  next
    case skip
    then have eq: "match_threads q (th # threads) ids = match_threads q threads ids" by auto
    show ?thesis unfolding eq by (rule rest [OF Cons.prems(1)])
  qed
qed simp

lemma page_matches_listed:
  "t \<in> set (pm_session_thread_ids (app_server_archive_thread_ids_from_response v q)) \<Longrightarrow> listed_in v q t"
  "pm_exact_thread_id (app_server_archive_thread_ids_from_response v q) = Some t \<Longrightarrow> listed_in v q t"
proof -
  have "(\<forall>t \<in> set (pm_session_thread_ids (app_server_archive_thread_ids_from_response v q)). listed_in v q t)
      \<and> (\<forall>t. pm_exact_thread_id (app_server_archive_thread_ids_from_response v q) = Some t \<longrightarrow> listed_in v q t)"
    unfolding app_server_archive_thread_ids_from_response_def
    by (split option.split, intro conjI allI impI match_threads_ids) (auto simp: listed_in_def)
  then show "t \<in> set (pm_session_thread_ids (app_server_archive_thread_ids_from_response v q)) \<Longrightarrow> listed_in v q t"
    "pm_exact_thread_id (app_server_archive_thread_ids_from_response v q) = Some t \<Longrightarrow> listed_in v q t" by blast+
qed

lemma insert_new_subset: "set (fst (insert_new ks known)) \<subseteq> set ks"
proof (induction ks arbitrary: known)
  case (Cons k ks)
  obtain new known' where n: "insert_new ks (insert k known) = (new, known')" by fastforce
  with Cons [of "insert k known"] show ?case by auto
qed simp

definition scan_ids :: "archive_page_scan \<Rightarrow> string list" where
  "scan_ids scan = (case scan of Complete ids exact \<Rightarrow> ids | Exhausted ids \<Rightarrow> ids)"

lemma page_step_ids:
  "page_step st q v = Inr scan \<Longrightarrow> t \<in> set (scan_ids scan) \<Longrightarrow> t \<in> set (ps_session_ids st) \<or> listed_in v q t"
  "page_step st q v = Inl st' \<Longrightarrow> t \<in> set (ps_session_ids st') \<Longrightarrow> t \<in> set (ps_session_ids st) \<or> listed_in v q t"
  using insert_new_subset [of "pm_session_thread_ids (app_server_archive_thread_ids_from_response v q)" "set (ps_session_ids st)"]
  by (auto simp: page_step_def Let_def scan_ids_def dest!: page_matches_listed
      split: option.splits if_splits prod.splits)

subsection \<open>The threads a sync knows of\<close>

text \<open>Actions that do not archive; what is seen goes with the worlds before and after.\<close>

definition no_archive :: "rpc_action \<Rightarrow> bool" where
  "no_archive a \<longleftrightarrow> (\<forall>v s. a = RSend v s \<longrightarrow> \<not> archive_request v)"

lemma no_archive_simps [simp]:
  "no_archive (RSend v s) \<longleftrightarrow> \<not> archive_request v" "no_archive (RTimeout d)" "no_archive (RRead r)"
  "no_archive (RHandshake u h)" "no_archive (RConnectTcp p d)" "no_archive (RConnectUnix u)"
  by (simp_all add: no_archive_def)

lemma no_archive_waiting: "waiting a \<Longrightarrow> no_archive a"
  by (auto simp: waiting_def)

lemma no_archive_asking: "asking v a \<Longrightarrow> \<not> archive_request v \<Longrightarrow> no_archive a"
  by (auto simp: asking_def no_archive_waiting)

abbreviation calm :: "aworld \<Rightarrow> aworld \<Rightarrow> bool" where "calm \<equiv> logs no_archive"

text \<open>A run that does not archive, of whose result something is known.\<close>

abbreviation calmly :: "'a rpc \<Rightarrow> aworld \<Rightarrow> ('a \<Rightarrow> aworld \<Rightarrow> bool) \<Rightarrow> bool" where
  "calmly m w Q \<equiv> ensures (calm w) m w (\<lambda>v w'. calm w w' \<and> Q v w')"

lemma calmly_keeps: "rl.keeps no_archive m \<Longrightarrow> calmly m w (\<lambda>v w'. True)"
  by (rule ensures_keeps) simp_all

lemma calm_asking: "\<not> archive_request v \<Longrightarrow> logs (asking v) w w1 \<Longrightarrow> calm w w1"
  by (erule logs_mono) (erule no_archive_asking)

lemma calmly_request:
  assumes "m \<notin> {''thread/archive'', ''thread/unarchive''}"
  shows "calmly (send_app_server_request_before_deadline fuel i m params t u) w (\<lambda>v w'. answered i m params v w w')"
proof -
  have "\<not> archive_request (rpc_request i m params)" using assms by simp
  from calm_asking [OF this] show ?thesis by (intro ensures_request(1) conjI)
qed

lemma calmly_tryE:
  assumes m: "calmly m w R"
    and f: "\<And>v w1. calm w w1 \<Longrightarrow> R v w1 \<Longrightarrow> calmly (f v) w1 (\<lambda>x w2. Q x w2)"
  shows "calmly (tryE m f) w Q"
proof (rule ensures_tryE [OF m])
  fix v w1
  assume h: "calm w w1 \<and> R v w1"
  then have "calmly (f v) w1 Q" by (intro f) simp_all
  with h show "ensures (calm w) (f v) w1 (\<lambda>x w2. calm w w2 \<and> Q x w2)"
    by (auto simp: ensures_def intro: rl.R_trans split: prod.splits sum.splits)
qed

lemma calmly_mono: "calmly m w R \<Longrightarrow> (\<And>v w1. R v w1 \<Longrightarrow> Q v w1) \<Longrightarrow> calmly m w Q"
  by (erule ensures_mono) simp

lemma calmly_results: "Q x w \<Longrightarrow> calmly (rok x) w Q" "calmly (rfail e) w Q"
    "(\<And>x. r = Inr x \<Longrightarrow> Q x w) \<Longrightarrow> calmly (rresult r) w Q"
  by (auto intro: ensures_results simp: rl.R_refl)

text \<open>The sync in world \<open>w0\<close> on its way: its environment, and what it saw.\<close>

definition on_way :: "aworld \<Rightarrow> aworld \<Rightarrow> bool" where
  "on_way w0 w \<longleftrightarrow> logs (\<lambda>_. True) w0 w"

lemma on_way_serde: "on_way w0 w \<Longrightarrow> a_serde w = a_serde w0"
  unfolding on_way_def by (elim logsE) (rule env_serde)

lemma on_way_later: "on_way w0 w \<Longrightarrow> logs P w w1 \<Longrightarrow> on_way w0 w1"
  unfolding on_way_def by (erule rl.R_trans) (erule logs_mono, rule TrueI)

definition known :: "string \<Rightarrow> aworld \<Rightarrow> string list \<Rightarrow> aworld \<Rightarrow> bool" where
  "known q w0 ts w \<longleftrightarrow> on_way w0 w \<and> (\<forall>t \<in> set ts. seen (a_serde w0) q w0 w t)"

lemma known_later: "known q w0 ts w \<Longrightarrow> logs P w w1 \<Longrightarrow> known q w0 ts w1"
  by (auto simp: known_def intro: on_way_later seen_later)

lemma known_answered:
  assumes "known q w0 ts w" "calm w w1" "answered i m params v w w1"
    and "\<And>t. t \<in> set ts' \<Longrightarrow> t \<in> set ts \<or> listed_in v q t
           \<or> (\<exists>th. app_server_thread_from_response v = Inr th \<and> at_id th = t \<and> at_session_id th = q)"
  shows "known q w0 ts' w1"
  unfolding known_def
proof (intro conjI ballI)
  from assms(1,2) show "on_way w0 w1" by (auto simp: known_def intro: on_way_later)
  fix t assume "t \<in> set ts'"
  with assms(4) consider "t \<in> set ts" | "listed_in v q t
      \<or> (\<exists>th. app_server_thread_from_response v = Inr th \<and> at_id th = t \<and> at_session_id th = q)" by blast
  then show "seen (a_serde w0) q w0 w1 t"
  proof cases
    case 1
    with assms(1,2) show ?thesis by (auto simp: known_def intro: seen_later)
  next
    case 2
    have "on_way w0 w" using assms(1) by (simp add: known_def)
    then have "a_serde w = a_serde w0" by (rule on_way_serde)
    then have "seen (a_serde w0) q w w1 t" using answered_seen [OF assms(3) _ 2] by simp
    with \<open>on_way w0 w\<close> show ?thesis unfolding on_way_def by (rule seen_earlier)
  qed
qed

lemma calmly_scan_pages:
  "known q w0 (ps_session_ids st) w \<Longrightarrow>
   calmly (scan_pages fuel n q archived_filter t u st) w (\<lambda>(scan, i) w'. known q w0 (scan_ids scan) w')"
proof (induction n arbitrary: st w)
  case 0
  then show ?case unfolding scan_pages.simps by (intro calmly_results) (simp add: scan_ids_def)
next
  case (Suc n)
  show ?case
    unfolding scan_pages.simps send_app_server_thread_list_request_def
  proof (rule calmly_tryE [OF calmly_keeps [OF keeps_budget]])
    fix v w1 assume w1: "calm w w1"
    let ?params = "app_server_thread_list_params app_server_archive_sync_list_page_size (ps_cursor st) archived_filter"
    let ?st = "st\<lparr>ps_request_id := Suc (ps_request_id st)\<rparr>"
    have k1: "known q w0 (ps_session_ids st) w1" using Suc.prems w1 by (rule known_later)
    show "calmly (tryE (send_app_server_request_before_deadline fuel (ps_request_id st) ''thread/list'' ?params t u)
        (\<lambda>response. case page_step ?st q response of
            Inr scan \<Rightarrow> rok (scan, Suc (ps_request_id st))
          | Inl st' \<Rightarrow> scan_pages fuel n q archived_filter t u st')) w1
        (\<lambda>(scan, i) w'. known q w0 (scan_ids scan) w')"
    proof (rule calmly_tryE [OF calmly_request])
      fix v w2 assume w2: "calm w1 w2" "answered (ps_request_id st) ''thread/list'' ?params v w1 w2"
      show "calmly (case page_step ?st q v of Inr scan \<Rightarrow> rok (scan, Suc (ps_request_id st))
          | Inl st' \<Rightarrow> scan_pages fuel n q archived_filter t u st') w2 (\<lambda>(scan, i) w'. known q w0 (scan_ids scan) w')"
      proof (cases "page_step ?st q v")
        case (Inl st')
        have "known q w0 (ps_session_ids st') w2"
          using page_step_ids(2) [OF Inl] by (intro known_answered [OF k1 w2]) auto
        from Suc.IH [OF this] Inl show ?thesis by simp
      next
        case (Inr scan)
        have "known q w0 (scan_ids scan) w2"
          using page_step_ids(1) [OF Inr] by (intro known_answered [OF k1 w2]) auto
        with Inr show ?thesis by (simp add: calmly_results)
      qed
    qed simp
  qed
qed

lemma calmly_find:
  "on_way w0 w \<Longrightarrow> calmly (find_app_server_thread_ids_in_pages fuel q archived_filter i t u) w
     (\<lambda>(scan, i) w'. known q w0 (scan_ids scan) w')"
  unfolding find_app_server_thread_ids_in_pages_def
  by (rule calmly_scan_pages) (simp add: new_page_scan_def known_def)

lemma calmly_resolve:
  assumes "on_way w0 w"
  shows "calmly (resolve_app_server_thread_ids_for_archive fuel q archived i t u) w
     (\<lambda>(r, i) w'. on_way w0 w' \<and> (\<forall>ids. r = Some (NeedsUpdate ids) \<longrightarrow> known q w0 ids w'))"
  unfolding resolve_app_server_thread_ids_for_archive_def
proof (rule calmly_tryE [OF calmly_find [OF assms]])
  fix x :: "archive_page_scan \<times> nat" and w1
  assume w1: "calm w w1" and x: "(case x of (scan, i) \<Rightarrow> \<lambda>w'. known q w0 (scan_ids scan) w') w1"
  obtain source i1 where x_eq: "x = (source, i1)" by (cases x)
  have way: "on_way w0 w1" using assms w1 by (rule on_way_later)
  let ?target = "\<lambda>source i1. tryE (find_app_server_thread_ids_in_pages fuel q (Some archived) i1 t u)
      (\<lambda>(target, i2). tryE (rresult (resolve_target_scan (is_exhausted source) target)) (\<lambda>r. rok (r, i2)))"
  let ?Q = "\<lambda>(r, i) w'. on_way w0 w' \<and> (\<forall>ids. r = Some (NeedsUpdate ids) \<longrightarrow> known q w0 ids w')"
  have other: "r \<noteq> Some (NeedsUpdate ids)" if "resolve_target_scan b target = Inr r" for b target r ids
    using that by (auto simp: resolve_target_scan_def split: archive_page_scan.splits if_splits)
  have target: "calmly (?target source i1) w1 ?Q"
  proof (rule calmly_tryE [OF calmly_find [OF way]])
    fix y w2
    assume w2: "calm w1 w2"
    have "on_way w0 w2" using way w2 by (rule on_way_later)
    then show "calmly (case y of (target, i2) \<Rightarrow>
        tryE (rresult (resolve_target_scan (is_exhausted source) target)) (\<lambda>r. rok (r, i2))) w2 ?Q"
      using other by (cases y; cases "resolve_target_scan (is_exhausted source) (fst y)")
        (auto simp: ensures_def rl.R_refl)
  qed
  consider (update) t0 ts exact where "source = Complete (t0 # ts) exact"
    | (budget) t0 ts where "source = Exhausted (t0 # ts)" | (none) "scan_ids source = []"
    by (cases source; cases "scan_ids source") (auto simp: scan_ids_def)
  then show "calmly (case x of (source, i1) \<Rightarrow> case source of
      Complete [] exact \<Rightarrow> ?target source i1 | Complete (t # ts) exact \<Rightarrow> rok (Some (NeedsUpdate (t # ts)), i1)
    | Exhausted [] \<Rightarrow> ?target source i1 | Exhausted (t # ts) \<Rightarrow> rfail budget_tree) w1 ?Q"
  proof cases
    case update
    with x way show ?thesis by (simp add: x_eq calmly_results scan_ids_def)
  next
    case budget
    then show ?thesis by (simp add: x_eq calmly_results)
  next
    case none
    then show ?thesis
      using target by (cases source) (auto simp: x_eq scan_ids_def split: list.split)
  qed
qed

lemma calmly_bind_gets: "calmly (f (g w)) w Q \<Longrightarrow> calmly (State_Monad.bind (gets g) f) w Q"
  by (rule ensures_bind_gets)

lemma calmly_resume:
  assumes "on_way w0 w"
  shows "calmly (resume_app_server_thread_from_rollout_path_for_archive fuel q lookup cwd i t u) w
     (\<lambda>(r, i) w'. \<forall>t. r = Some t \<longrightarrow> known q w0 [t] w')"
proof (cases lookup)
  case None
  then show ?thesis
    by (simp add: resume_app_server_thread_from_rollout_path_for_archive_def calmly_results)
next
  case (Some home)
  obtain codex_home m where home: "home = (codex_home, m)" by (cases home)
  let ?Q = "\<lambda>(r, i) w'. \<forall>t. r = Some t \<longrightarrow> known q w0 [t] w'"
  have path: "calmly (tryE (case cwd of Some c \<Rightarrow> rok (Some c) | None \<Rightarrow> rresult (rollout_resume_cwd d path q)) (\<lambda>c.
      tryE (send_app_server_request_before_deadline fuel i ''thread/resume'' (resume_params q (Some path) c) t u) (\<lambda>response.
      tryE (rresult (app_server_thread_from_response response)) (\<lambda>resumed.
        if at_session_id resumed \<noteq> q
        then rfail (''app-server thread/resume returned session '' @ at_session_id resumed
                     @ '' while syncing archive for session '' @ q)
        else rok (Some (at_id resumed), Suc i))))) w1 ?Q" if w1: "calm w w1" for d path w1
  proof (rule calmly_tryE [OF calmly_keeps])
    show "rl.keeps no_archive (case cwd of Some c \<Rightarrow> rok (Some c) | None \<Rightarrow> rresult (rollout_resume_cwd d path q))"
      by (intro log_intros)
    fix c w2 assume w2: "calm w1 w2"
    show "calmly (tryE (send_app_server_request_before_deadline fuel i ''thread/resume'' (resume_params q (Some path) c) t u) (\<lambda>response.
      tryE (rresult (app_server_thread_from_response response)) (\<lambda>resumed.
        if at_session_id resumed \<noteq> q
        then rfail (''app-server thread/resume returned session '' @ at_session_id resumed
                     @ '' while syncing archive for session '' @ q)
        else rok (Some (at_id resumed), Suc i)))) w2 ?Q"
    proof (rule calmly_tryE [OF calmly_request])
      fix v w3 assume w3: "calm w2 w3" "answered i ''thread/resume'' (resume_params q (Some path) c) v w2 w3"
      have k: "known q w0 [] w2" using on_way_later [OF on_way_later [OF assms w1] w2] by (simp add: known_def)
      have "known q w0 [at_id th] w3" if "app_server_thread_from_response v = Inr th" "at_session_id th = q" for th
        using that by (intro known_answered [OF k w3]) auto
      then show "calmly (tryE (rresult (app_server_thread_from_response v)) (\<lambda>resumed.
        if at_session_id resumed \<noteq> q
        then rfail (''app-server thread/resume returned session '' @ at_session_id resumed
                     @ '' while syncing archive for session '' @ q)
        else rok (Some (at_id resumed), Suc i))) w3 ?Q"
        by (cases "app_server_thread_from_response v") (auto simp: ensures_def rl.R_refl)
    qed simp
  qed
  show ?thesis
    unfolding resume_app_server_thread_from_rollout_path_for_archive_def Some home option.case prod.case
  proof (rule calmly_bind_gets, rule calmly_tryE [OF calmly_keeps [OF keeps_rwalk]])
    fix found w1 assume w1: "calm w w1"
    show "calmly (case found of None \<Rightarrow> rok (None, i) | Some path \<Rightarrow>
      tryE (case cwd of Some c \<Rightarrow> rok (Some c) | None \<Rightarrow> rresult (rollout_resume_cwd (a_disk w) path q)) (\<lambda>c.
      tryE (send_app_server_request_before_deadline fuel i ''thread/resume'' (resume_params q (Some path) c) t u) (\<lambda>response.
      tryE (rresult (app_server_thread_from_response response)) (\<lambda>resumed.
        if at_session_id resumed \<noteq> q
        then rfail (''app-server thread/resume returned session '' @ at_session_id resumed
                     @ '' while syncing archive for session '' @ q)
        else rok (Some (at_id resumed), Suc i))))) w1 ?Q"
      using path [OF w1] by (cases found) (simp_all add: calmly_results)
  qed
qed

subsection \<open>Lawful archiving\<close>

text \<open>Each archive request since \<open>w0\<close> names a thread shown before it.\<close>

definition lawful_at :: "string \<Rightarrow> bool \<Rightarrow> serde \<Rightarrow> rpc_action list \<Rightarrow> json \<Rightarrow> bool" where
  "lawful_at q archived sd before v \<longleftrightarrow>
     (\<exists>i t. v = rpc_request i (archive_method archived) (thread_id_params t) \<and> (\<exists>a \<in> set before. shows_thread sd q t a))"

definition lawful :: "string \<Rightarrow> bool \<Rightarrow> aworld \<Rightarrow> aworld \<Rightarrow> bool" where
  "lawful q archived w0 w \<longleftrightarrow> on_way w0 w \<and>
     (\<forall>k v s. length (a_log w0) \<le> k \<and> k < length (a_log w) \<and> a_log w ! k = RSend v s \<and> archive_request v \<longrightarrow>
        lawful_at q archived (a_serde w0) (drop (length (a_log w0)) (take k (a_log w))) v)"

lemma lawful_start: "lawful q archived w w"
  by (auto simp: lawful_def on_way_def rl.R_refl)

lemma lawful_later:
  assumes law: "lawful q archived w0 w"
    and run: "logs (\<lambda>a. no_archive a \<or> (\<exists>i t s. a = RSend (rpc_request i (archive_method archived) (thread_id_params t)) s
                \<and> seen (a_serde w0) q w0 w t)) w w1"
  shows "lawful q archived w0 w1"
proof -
  let ?n = "length (a_log w0)"
  from run obtain l where l: "a_log w1 = a_log w @ l"
    and new: "\<forall>a \<in> set l. no_archive a \<or> (\<exists>i t s. a = RSend (rpc_request i (archive_method archived) (thread_id_params t)) s
                \<and> seen (a_serde w0) q w0 w t)"
    by (rule logsE)
  from law have way: "on_way w0 w" by (simp add: lawful_def)
  then obtain l0 where l0: "a_log w = a_log w0 @ l0" unfolding on_way_def by (rule logsE)
  have "lawful_at q archived (a_serde w0) (drop ?n (take k (a_log w1))) v"
    if k: "?n \<le> k" "k < length (a_log w1)" "a_log w1 ! k = RSend v s" "archive_request v" for k v s
  proof (cases "k < length (a_log w)")
    case True
    then have "a_log w ! k = RSend v s" "take k (a_log w1) = take k (a_log w)" using k(3) l by (simp_all add: nth_append)
    with law k True show ?thesis by (simp add: lawful_def)
  next
    case False
    then have "RSend v s \<in> set l" using k(2,3) l by (simp add: nth_append) (metis nth_mem add_diff_inverse_nat nat_add_left_cancel_less)
    with new k(4) obtain i t where t: "v = rpc_request i (archive_method archived) (thread_id_params t)"
        "seen (a_serde w0) q w0 w t" by fastforce
    then obtain a where a: "a \<in> set l0" "shows_thread (a_serde w0) q t a" using l0 by (auto simp: seen_def)
    have "a \<in> set (drop ?n (take k (a_log w1)))"
      using a(1) False l l0 by simp
    with a(2) t(1) show ?thesis unfolding lawful_at_def by blast
  qed
  moreover have "on_way w0 w1" using way run by (rule on_way_later)
  ultimately show ?thesis by (simp add: lawful_def)
qed

lemma lawful_calm: "lawful q archived w0 w \<Longrightarrow> calm w w1 \<Longrightarrow> lawful q archived w0 w1"
  by (erule lawful_later) (erule logs_mono, simp)

lemma calmly_lawful:
  assumes "calmly m w R" "lawful q archived w0 w"
    and "\<And>v w1. calm w w1 \<Longrightarrow> R v w1 \<Longrightarrow> lawful q archived w0 w1 \<Longrightarrow> ensures (lawful q archived w0) (f v) w1 Q"
  shows "ensures (lawful q archived w0) (tryE m f) w Q"
proof (rule ensures_tryE)
  show "ensures (lawful q archived w0) m w (\<lambda>v w1. calm w w1 \<and> R v w1)"
    using assms(1) lawful_calm [OF assms(2)] by (auto simp: ensures_def split: prod.splits sum.splits)
  show "ensures (lawful q archived w0) (f v) w1 Q" if "calm w w1 \<and> R v w1" for v w1
    using that assms(3) lawful_calm [OF assms(2)] by blast
qed

lemma archive_threads_lawful:
  "lawful q archived w0 w \<Longrightarrow> known q w0 ids w \<Longrightarrow>
   ensures (lawful q archived w0) (archive_threads fuel archived ids i t u) w (\<lambda>v. lawful q archived w0)"
proof (induction ids arbitrary: i w)
  case Nil
  then show ?case by (simp add: ensures_results)
next
  case (Cons th ids)
  show ?case
    unfolding archive_threads.simps
  proof (rule calmly_lawful [OF calmly_keeps [OF keeps_budget] Cons.prems(1)])
    fix v w1
    assume w1: "calm w w1" "lawful q archived w0 w1"
    have k1: "known q w0 (th # ids) w1" using Cons.prems(2) w1(1) by (rule known_later)
    have law: "lawful q archived w0 w2"
      if "logs (asking (rpc_request i (archive_method archived) (thread_id_params th))) w1 w2" for w2
    proof (rule lawful_later [OF w1(2) logs_mono [OF that]])
      fix a assume "asking (rpc_request i (archive_method archived) (thread_id_params th)) a"
      then show "no_archive a \<or> (\<exists>i t s. a = RSend (rpc_request i (archive_method archived) (thread_id_params t)) s
          \<and> seen (a_serde w0) q w0 w1 t)"
        using k1 unfolding asking_def known_def by (auto intro: no_archive_waiting)
    qed
    show "ensures (lawful q archived w0)
       (tryE (send_app_server_request_before_deadline fuel i (archive_method archived) (thread_id_params th) t u)
         (\<lambda>_. archive_threads fuel archived ids (Suc i) t u)) w1 (\<lambda>v. lawful q archived w0)"
    proof (rule ensures_tryE [OF ensures_request(1) [where Q = "\<lambda>v w2. lawful q archived w0 w2 \<and> known q w0 ids w2"]])
      show "lawful q archived w0 w2"
        if "logs (asking (rpc_request i (archive_method archived) (thread_id_params th))) w1 w2" for w2
        using that by (rule law)
      show "lawful q archived w0 w2 \<and> known q w0 ids w2"
        if "logs (asking (rpc_request i (archive_method archived) (thread_id_params th))) w1 w2" for v w2
        using law [OF that] known_later [OF k1 that] by (simp add: known_def)
      show "ensures (lawful q archived w0) (archive_threads fuel archived ids (Suc i) t u) w2 (\<lambda>v. lawful q archived w0)"
        if "lawful q archived w0 w2 \<and> known q w0 ids w2" for v w2
        using that by (intro Cons.IH) simp_all
    qed
  qed
qed

lemma archive_threads_then: 
  "lawful q archived w0 w \<Longrightarrow> known q w0 ids w \<Longrightarrow>
   ensures (lawful q archived w0) (tryE (archive_threads fuel archived ids i t u) (\<lambda>_. rok b)) w (\<lambda>v. lawful q archived w0)"
  by (rule ensures_tryE [OF archive_threads_lawful]) (simp_all add: ensures_results)

text \<open>The sync after the connection was initialised.\<close>

lemma resume_then_archive:
  assumes "lawful q archived w0 w"
  shows "ensures (lawful q archived w0)
    (tryE (resume_app_server_thread_from_rollout_path_for_archive fuel q lookup cwd i t u) (\<lambda>(resumed, i).
       (case resumed of
          None \<Rightarrow> rok False
        | Some th \<Rightarrow> tryE (archive_threads fuel archived [th] i t u) (\<lambda>_. rok True)))) w (\<lambda>v. lawful q archived w0)"
proof (rule calmly_lawful [OF calmly_resume assms])
  show "on_way w0 w" using assms by (simp add: lawful_def)
  fix x :: "string option \<times> nat" and w1
  assume h: "(case x of (r, i) \<Rightarrow> \<lambda>w'. \<forall>t. r = Some t \<longrightarrow> known q w0 [t] w') w1" "lawful q archived w0 w1"
  then show "ensures (lawful q archived w0)
     (case x of (resumed, i) \<Rightarrow> (case resumed of
          None \<Rightarrow> rok False
        | Some th \<Rightarrow> tryE (archive_threads fuel archived [th] i t u) (\<lambda>_. rok True))) w1 (\<lambda>v. lawful q archived w0)"
    by (cases x; cases "fst x") (simp_all add: ensures_results archive_threads_then del: archive_threads.simps)
qed

lemma resolve_then_archive:
  assumes "lawful q archived w0 w"
  shows "ensures (lawful q archived w0)
    (tryE (resolve_app_server_thread_ids_for_archive fuel q archived n t u) (\<lambda>(resolution, i).
       (case resolution of
          Some AlreadySynced \<Rightarrow> rok True
        | Some (NeedsUpdate ids) \<Rightarrow> tryE (archive_threads fuel archived ids i t u) (\<lambda>_. rok True)
        | None \<Rightarrow>
            tryE (resume_app_server_thread_from_rollout_path_for_archive fuel q lookup cwd i t u) (\<lambda>(resumed, i).
              (case resumed of
                 None \<Rightarrow> rok False
               | Some th \<Rightarrow> tryE (archive_threads fuel archived [th] i t u) (\<lambda>_. rok True)))))) w
    (\<lambda>v. lawful q archived w0)"
proof (rule calmly_lawful [OF calmly_resolve assms])
  show "on_way w0 w" using assms by (simp add: lawful_def)
  fix x :: "archive_resolution option \<times> nat" and w1
  assume h: "(case x of (r, i) \<Rightarrow> \<lambda>w'. on_way w0 w' \<and> (\<forall>ids. r = Some (NeedsUpdate ids) \<longrightarrow> known q w0 ids w')) w1"
    "lawful q archived w0 w1"
  then show "ensures (lawful q archived w0)
     (case x of (resolution, i) \<Rightarrow> (case resolution of
          Some AlreadySynced \<Rightarrow> rok True
        | Some (NeedsUpdate ids) \<Rightarrow> tryE (archive_threads fuel archived ids i t u) (\<lambda>_. rok True)
        | None \<Rightarrow>
            tryE (resume_app_server_thread_from_rollout_path_for_archive fuel q lookup cwd i t u) (\<lambda>(resumed, i).
              (case resumed of
                 None \<Rightarrow> rok False
               | Some th \<Rightarrow> tryE (archive_threads fuel archived [th] i t u) (\<lambda>_. rok True))))) w1
     (\<lambda>v. lawful q archived w0)"
    by (cases x; cases "fst x"; cases "the (fst x)")
      (simp_all add: ensures_results archive_threads_then resume_then_archive del: archive_threads.simps)
qed

lemma archive_sync_lawful:
  "ensures (lawful q archived w) (set_app_server_thread_archived_at_with_auth fuel url q archived lookup seconds cwd auth)
     w (\<lambda>v. lawful q archived w)"
proof -
  let ?t = "app_server_archive_socket_timeout seconds"
  have connect: "rl.keeps no_archive (connect_app_server url d auth)" for d
    by (rule keeps_connect_plain) simp_all
  have initialize: "rl.keeps no_archive (initialize_app_server_connection_before_deadline fuel ?t u)" for u
    by (rule keeps_initialize) (simp_all add: no_archive_waiting)
  have bind: "ensures G (State_Monad.bind m f) v Q"
    if "rl.keeps no_archive m" "lawful q archived w v"
      "\<And>d v1. lawful q archived w v1 \<Longrightarrow> ensures G (f d) v1 Q" for m f v and G :: "aworld \<Rightarrow> bool"
      and Q :: "bool \<Rightarrow> aworld \<Rightarrow> bool"
  proof -
    obtain d v1 where d: "run_state m v = (d, v1)" by fastforce
    have "lawful q archived w v1" using lawful_calm [OF that(2) rl.keepsE [OF that(1) d]] .
    from that(3) [OF this, of d] d show ?thesis by (simp add: ensures_def)
  qed
  show ?thesis
    unfolding set_app_server_thread_archived_at_with_auth_def Let_def
    by (rule calmly_lawful [OF calmly_keeps [OF keeps_deadline_in] lawful_start], rule bind [OF keeps_remaining],
        assumption, rule calmly_lawful [OF calmly_keeps [OF connect]], assumption,
        rule calmly_lawful [OF calmly_keeps [OF initialize]], assumption, erule resolve_then_archive)
qed

subsection \<open>The property\<close>

text \<open>
  C2: Archiving touches only the threads of the session. Whatever the outcome of a sync, each
  request to archive or unarchive a thread that it sends is of the kind asked for and names a
  thread which a text read earlier in the sync shows to belong to the session: a listing has the
  thread under that session or with the requested id itself, or a response to a resume says that
  the thread it resumed is the session's.
\<close>
theorem archiving_touches_only_the_session:
  assumes run: "run_state (set_app_server_thread_archived_at_with_auth fuel url q archived lookup seconds cwd auth) w = (r, w')"
    and k: "length (a_log w) \<le> k" "k < length (a_log w')" "a_log w' ! k = RSend v s"
    and v: "jget v ''method'' \<in> {Some (JStr ''thread/archive''), Some (JStr ''thread/unarchive'')}"
  shows "\<exists>i t text answer. v = rpc_request i (archive_method archived) (thread_id_params t)
     \<and> RRead (ReadMsg (MsgText text)) \<in> set (drop (length (a_log w)) (take k (a_log w')))
     \<and> js_parse (a_serde w) text = Inr answer
     \<and> ((\<exists>data th. app_server_thread_list_data answer = Some data \<and> th \<in> set data \<and> jget_str th ''id'' = Some t
            \<and> (t = q \<or> jget_str th ''sessionId'' = Some q))
        \<or> (\<exists>th. app_server_thread_from_response answer = Inr th \<and> at_id th = t \<and> at_session_id th = q))"
proof -
  note sync = archive_sync_lawful [of q archived w fuel url lookup seconds cwd auth]
  have "lawful q archived w w'"
    using run ensuresD(1) [OF sync] ensuresD(2) [OF sync] by (cases r) simp_all
  then have "lawful_at q archived (a_serde w) (drop (length (a_log w)) (take k (a_log w'))) v"
    using k v unfolding lawful_def archive_request_def by blast
  then show ?thesis
    unfolding lawful_at_def shows_thread_def listed_in_def by blast
qed

theorem archiving_touches_only_the_session_witness:
  "\<exists>w' i t. run_state (set_app_server_thread_archived_at_with_auth 9 ''wss://10.0.0.1:7'' ''t9'' True None 5 None None)
          (demo_app [''hello'', ''page'', ''done'']) = (Inr True, w')
     \<and> RSend (rpc_request 2 ''thread/archive'' (thread_id_params ''t9'')) None \<in> set (a_log w')
     \<and> rpc_request 2 ''thread/archive'' (thread_id_params ''t9'') = rpc_request i (archive_method True) (thread_id_params t)"
proof -
  let ?run = "run_state (set_app_server_thread_archived_at_with_auth 9 ''wss://10.0.0.1:7'' ''t9'' True None 5 None None)
          (demo_app [''hello'', ''page'', ''done''])"
  let ?v = "rpc_request 2 ''thread/archive'' (thread_id_params ''t9'')"
  have ok: "fst ?run = Inr True" and sent: "RSend ?v None \<in> set (a_log (snd ?run))" by code_simp+
  have run: "?run = (Inr True, snd ?run)" using ok by (cases ?run) simp
  from sent obtain k where k: "k < length (a_log (snd ?run))" "a_log (snd ?run) ! k = RSend ?v None"
    by (auto simp: in_set_conv_nth)
  have "length (a_log (demo_app [''hello'', ''page'', ''done''])) \<le> k" by (simp add: demo_app_def)
  moreover have "jget ?v ''method'' \<in> {Some (JStr ''thread/archive''), Some (JStr ''thread/unarchive'')}"
    by (simp add: rpc_request_def)
  ultimately obtain i t where "?v = rpc_request i (archive_method True) (thread_id_params t)"
    using archiving_touches_only_the_session [OF run _ k] by blast
  with run sent show ?thesis by blast
qed

end
