(* ===== verification/App_Server_Turns.thy ===== *)
theory App_Server_Turns
  imports App_Server_Claims
begin

text \<open>
  The properties of a command run as a turn of the app server: the turn that is cut short, the
  events it becomes, the text it keeps of the assistant's message.
\<close>

subsection \<open>Interruption\<close>

definition stopping :: "rpc_fault \<Rightarrow> bool" where
  "stopping e \<longleftrightarrow> (case e of RCancelled \<Rightarrow> True | RTimedOut s \<Rightarrow> True | _ \<Rightarrow> False)"

lemma stopping_iff: "stopping e \<longleftrightarrow> e = RCancelled \<or> (\<exists>s. e = RTimedOut s)"
  by (cases e) (simp_all add: stopping_def)

lemma stopping_simps [simp]:
  "stopping RCancelled" "stopping (RTimedOut s)" "\<not> stopping (RError m)" "\<not> stopping RPanic" "\<not> stopping RFuel"
  by (simp_all add: stopping_def)

definition no_interrupt :: "rpc_action \<Rightarrow> bool" where
  "no_interrupt a \<longleftrightarrow> (\<forall>v s. a = RSend v s \<longrightarrow> jget v ''method'' \<noteq> Some (JStr ''turn/interrupt''))"

lemma no_interrupt_simps [simp]:
  "no_interrupt (RSend v s) \<longleftrightarrow> jget v ''method'' \<noteq> Some (JStr ''turn/interrupt'')"
  "no_interrupt (RTimeout d)" "no_interrupt (RRead r)" "no_interrupt (RRecv x y)" "no_interrupt (RAck dispatch b)"
  "no_interrupt (REvent e)" "no_interrupt (RActive x')"
  by (simp_all add: no_interrupt_def)

text \<open>The world after a run that answered \<open>r\<close>: when the turn is to stop, its interruption was sent last.\<close>

definition outcome :: "json \<Rightarrow> rpc_fault + 'a \<Rightarrow> aworld \<Rightarrow> aworld \<Rightarrow> bool" where
  "outcome request r w w' \<longleftrightarrow>
     (if \<exists>e. r = Inl e \<and> stopping e
      then \<exists>w1 s. logs no_interrupt w w1 \<and> a_log w' = a_log w1 @ [RSend request s]
      else logs no_interrupt w w')"

definition settles :: "json \<Rightarrow> 'a rpc \<Rightarrow> bool" where
  "settles request m \<longleftrightarrow> (\<forall>w r w'. run_state m w = (r, w') \<longrightarrow> outcome request r w w')"

lemma outcome_after: "logs no_interrupt w w1 \<Longrightarrow> outcome request r w1 w' \<Longrightarrow> outcome request r w w'"
  unfolding outcome_def by (auto intro: rl.R_trans split: if_splits)

lemma settles_tryE:
  assumes m: "settles request m" and f: "\<And>x. settles request (f x)"
  shows "settles request (tryE m f)"
  unfolding settles_def
proof (intro allI impI)
  fix w r w'
  assume run: "run_state (tryE m f) w = (r, w')"
  obtain x w1 where x: "run_state m w = (x, w1)" by fastforce
  show "outcome request r w w'"
  proof (cases x)
    case (Inl e)
    with run x have "r = Inl e" "w' = w1" by simp_all
    moreover have "outcome request x w w1" using m x by (simp add: settles_def)
    ultimately show ?thesis using Inl by (auto simp: outcome_def split: if_splits)
  next
    case (Inr v)
    with m x have "logs no_interrupt w w1" by (auto simp: settles_def outcome_def)
    moreover have "outcome request r w1 w'" using f [of v] run x Inr by (simp add: settles_def)
    ultimately show ?thesis by (rule outcome_after)
  qed
qed

lemma settles_bind_result:
  assumes m: "rl.keeps no_interrupt m" and f: "\<And>w x w'. run_state m w = (x, w') \<Longrightarrow> settles request (f x)"
  shows "settles request (State_Monad.bind m f)"
  unfolding settles_def
proof (intro allI impI)
  fix w r w'
  assume run: "run_state (State_Monad.bind m f) w = (r, w')"
  obtain x w1 where x: "run_state m w = (x, w1)" by fastforce
  have "logs no_interrupt w w1" using m x by (rule rl.keepsE)
  moreover have "outcome request r w1 w'" using f [OF x] run x by (simp add: settles_def)
  ultimately show "outcome request r w w'" by (rule outcome_after)
qed

lemma settles_bind:
  "rl.keeps no_interrupt m \<Longrightarrow> (\<And>x. settles request (f x)) \<Longrightarrow> settles request (State_Monad.bind m f)"
  by (rule settles_bind_result)

lemma settles_results:
  "settles request (rok x)" "settles request (rfail m)" "\<not> stopping e \<Longrightarrow> settles request (rfault e)"
  "settles request (rresult res)" "settles request (runless o')"
  by (auto simp: settles_def outcome_def rl.R_refl split: sum.splits option.splits)

lemma settles_quiet:
  assumes "rl.keeps no_interrupt m" "\<And>w e w'. run_state m w = (Inl e, w') \<Longrightarrow> \<not> stopping e"
  shows "settles request m"
  using assms by (fastforce simp: settles_def outcome_def dest: rl.keepsE)

lemma settles_loopE:
  assumes "\<And>b. settles request (body b)"
  shows "settles request (loopE n RFuel body b)"
proof (induction n arbitrary: b)
  case 0
  then show ?case by (simp add: settles_def outcome_def rl.R_refl)
next
  case (Suc n)
  show ?case
    unfolding loopE.simps
  proof (rule settles_tryE [OF assms])
    show "settles request (case r of Inl b' \<Rightarrow> loopE n RFuel body b' | Inr a \<Rightarrow> ret (Inr a))" for r
    proof (cases r)
      case (Inl b')
      with Suc show ?thesis by simp
    next
      case (Inr a)
      then show ?thesis by (simp add: settles_def outcome_def rl.R_refl)
    qed
  qed
qed

lemma settles_if: "(b \<Longrightarrow> settles request m) \<Longrightarrow> (\<not> b \<Longrightarrow> settles request n) \<Longrightarrow> settles request (if b then m else n)"
  by simp

lemma settles_option:
  "(y = None \<Longrightarrow> settles request m) \<Longrightarrow> (\<And>x. y = Some x \<Longrightarrow> settles request (f x)) \<Longrightarrow>
     settles request (case y of None \<Rightarrow> m | Some x \<Rightarrow> f x)"
  by (cases y) simp_all

lemma settles_sum:
  "(\<And>e. settles request (f e)) \<Longrightarrow> (\<And>x. settles request (g x)) \<Longrightarrow> settles request (case y of Inl e \<Rightarrow> f e | Inr x \<Rightarrow> g x)"
  by (cases y) simp_all

lemma settles_interrupt:
  "settles (turn_interrupt_request i thread_id turn_id) (do { send_app_server_turn_interrupt i thread_id turn_id; rfault e })"
  if "stopping e"
proof -
  have "outcome (turn_interrupt_request i thread_id turn_id) (Inl e) w
      (w\<lparr>a_tick := Suc (a_tick w), a_log := a_log w @ [RSend (turn_interrupt_request i thread_id turn_id) (a_send w (a_tick w))]\<rparr>)"
    for w using that rl.R_refl [of no_interrupt w] by (auto simp: outcome_def)
  then show ?thesis
    unfolding settles_def send_app_server_turn_interrupt_def by (auto simp: rlog_def rfault_def rask_def)
qed

lemmas settle_intros = settles_results settles_tryE settles_bind settles_loopE settles_if settles_option settles_sum

lemma settles_configure: "settles request (configure_socket_timeout d)"
  unfolding configure_socket_timeout_def by (intro settle_intros log_intros) simp

lemma settles_parse: "settles request (parse_value t)"
  unfolding parse_value_def by (intro settle_intros log_intros)

lemma settles_read_case:
  "(\<And>t. settles q (f t)) \<Longrightarrow> settles q pg \<Longrightarrow> settles q cl \<Longrightarrow> settles q ot \<Longrightarrow> (\<And>e. settles q (rt e)) \<Longrightarrow>
     (\<And>e. settles q (rf e)) \<Longrightarrow>
     settles q (case r of ReadMsg (MsgText t) \<Rightarrow> f t | ReadMsg (MsgPing x) \<Rightarrow> pg | ReadMsg MsgClose \<Rightarrow> cl
       | ReadMsg MsgOther \<Rightarrow> ot | ReadTimeout e \<Rightarrow> rt e | ReadFailed e \<Rightarrow> rf e)"
  by (auto split: read_answer.split message.split)

subsection \<open>The handling of a request settles\<close>

lemma keeps_take: "P (RAck d False) \<Longrightarrow> rl.keeps P (take_delivery command_id interaction_id d)"
  unfolding take_delivery_def by (intro log_intros)

lemma keeps_recv_delivery: "(\<And>x. P (RRecv wait x)) \<Longrightarrow> rl.keeps P (recv_delivery wait)"
  unfolding recv_delivery_def by (intro log_intros)

lemma keeps_recv_case:
  "(\<And>d. rl.keeps P (f d)) \<Longrightarrow> rl.keeps P n \<Longrightarrow> rl.keeps P c \<Longrightarrow>
     rl.keeps P (case r of Delivered d \<Rightarrow> f d | NothingYet \<Rightarrow> n | ChannelClosed \<Rightarrow> c)"
  by (cases r) simp_all

lemma keeps_try_receive:
  "(\<And>d. P (RAck d False)) \<Longrightarrow> (\<And>x y. P (RRecv x y)) \<Longrightarrow>
     rl.keeps P (try_receive_turn_interaction_response fuel command_id interaction_id)"
  unfolding try_receive_turn_interaction_response_def try_receive_round_def
  by (intro log_intros keeps_recv_delivery keeps_recv_case keeps_take)

lemma keeps_wait_for_delivery:
  "(\<And>d. P (RAck d False)) \<Longrightarrow> (\<And>x y. P (RRecv x y)) \<Longrightarrow> rl.keeps P (wait_for_delivery command_id interaction_id wait)"
  unfolding wait_for_delivery_def by (intro log_intros keeps_recv_delivery keeps_recv_case keeps_take)

lemma keeps_receive:
  "(\<And>d. P (RAck d False)) \<Longrightarrow> (\<And>x y. P (RRecv x y)) \<Longrightarrow>
     rl.keeps P (receive_turn_interaction_response fuel command_id interaction_id l auto)"
  unfolding receive_turn_interaction_response_def receive_round_def Let_def
  by (intro log_intros keeps_try_receive keeps_wait_for_delivery)

lemma keeps_auto_deadline: "rl.keeps P (auto_resolution_deadline m params)"
  unfolding auto_resolution_deadline_def by (intro log_intros)

lemma keeps_acknowledge: "(\<And>d. P (RAck d b)) \<Longrightarrow> rl.keeps P (acknowledge_turn_interaction_delivery x b)"
  unfolding acknowledge_turn_interaction_delivery_def by (intro log_intros)

lemma keeps_set_active: "P (RActive i) \<Longrightarrow> rl.keeps P (set_active_turn_interaction i)"
  unfolding set_active_turn_interaction_def by (intro log_intros)

lemma keeps_send_event: "P (REvent e) \<Longrightarrow> rl.keeps P (send_event e)"
  unfolding send_event_def by (intro log_intros)

lemma settles_set_active: "settles q (set_active_turn_interaction i)"
  unfolding set_active_turn_interaction_def by (intro settle_intros log_intros) simp

lemma settles_send_event: "settles q (send_event e)"
  unfolding send_event_def by (intro settle_intros log_intros) simp

lemma no_method_result [simp]: "jget (interaction_result_message request_id result) ''method'' = None"
  by (simp add: interaction_result_message_def)

lemma keeps_send_result: "rl.keeps no_interrupt (send_value (interaction_result_message request_id result))"
  by (intro keeps_send) simp

lemma send_value_fault: "run_state (send_value v) w = (Inl e, w') \<Longrightarrow> \<exists>m. e = RError m"
  by (auto simp: run_send_value split: option.splits)

lemma settles_answer: "settles q (answer_turn_request request_id m params request_payload x)"
proof -
  have sent: "settles q (case sent of
        Inl e \<Rightarrow> do { acknowledge_turn_interaction_delivery x False; rfault e }
      | Inr _ \<Rightarrow> do { acknowledge_turn_interaction_delivery x True;
           (if \<not> ti_auto_resolved (fst x) then rok True
            else tryE (rresult (turn_interaction_resolution_event (fst x) request_payload)) (\<lambda>e.
                 tryE (send_event e) (\<lambda>delivered.
                   if delivered then rok True else rfail ''turn interaction resolution event channel closed''))) })"
    if "run_state (send_value v) w = (sent, w')" for v w sent w'
  proof (cases sent)
    case (Inl e)
    with that obtain m where "e = RError m" using send_value_fault by blast
    with Inl show ?thesis by (auto intro!: settle_intros keeps_acknowledge)
  next
    case (Inr y)
    then show ?thesis by (auto intro!: settle_intros keeps_acknowledge settles_send_event)
  qed
  show ?thesis
    unfolding answer_turn_request_def
    by (intro settle_intros keeps_acknowledge settles_bind_result [OF keeps_send_result sent]) simp_all
qed

lemma settles_await: "settles q (await_decision fuel m params command_id event interaction_id l)"
  unfolding await_decision_def
  by (intro settle_intros settles_set_active settles_send_event keeps_set_active keeps_auto_deadline keeps_receive) simp_all

lemma settles_handle_request:
  "settles (turn_interrupt_request i thread_id turn_id)
     (handle_app_server_turn_request fuel request_id m params thread_id turn_id command_id l i has_channels)"
proof -
  have answered: "settles (turn_interrupt_request i thread_id turn_id) (case r of
        Inr x \<Rightarrow> answer_turn_request request_id m params payload x
      | Inl RCancelled \<Rightarrow> do { send_app_server_turn_interrupt i thread_id turn_id; rfault RCancelled }
      | Inl (RTimedOut s) \<Rightarrow> do { send_app_server_turn_interrupt i thread_id turn_id; rfault (RTimedOut s) }
      | Inl e \<Rightarrow> rfault e)" for r payload
    by (auto intro: settles_answer settles_interrupt settles_results split: sum.split rpc_fault.split)
  show ?thesis
    unfolding handle_app_server_turn_request_def
    by (intro settle_intros rl.keeps_gets settles_await answered)
qed

lemma settles_handle_message:
  "settles (turn_interrupt_request i thread_id turn_id)
     (handle_app_server_turn_message fuel v thread_id turn_id command_id l i has_channels out)"
  unfolding handle_app_server_turn_message_def handle_turn_notification_def Let_def
  by (intro settle_intros settles_handle_request)

lemma settles_completion_round:
  "settles (turn_interrupt_request i thread_id turn_id)
     (turn_completion_round fuel thread_id turn_id command_id l i has_channels out)"
proof -
  have read: "settles (turn_interrupt_request i thread_id turn_id) (
      do { d \<leftarrow> remaining_timeout (cl_timeout l) (cl_deadline l);
           tryE (configure_socket_timeout d) (\<lambda>_.
           do { r \<leftarrow> read_message;
                (case r of
                   ReadMsg (MsgText text) \<Rightarrow>
                     tryE (parse_value text) (\<lambda>v.
                       handle_app_server_turn_message fuel v thread_id turn_id command_id l i has_channels out)
                 | ReadMsg (MsgPing x) \<Rightarrow> rok (Inl out)
                 | ReadMsg MsgClose \<Rightarrow> rfail ''app-server closed before turn completed''
                 | ReadMsg MsgOther \<Rightarrow> rok (Inl out)
                 | ReadTimeout e \<Rightarrow> rok (Inl out)
                 | ReadFailed e \<Rightarrow> rfail e) }) })"
    by (intro settle_intros settles_configure keeps_remaining keeps_read settles_read_case settles_parse
        settles_handle_message) simp
  have interrupted: "stopping e" if "run_state (app_server_command_interruption l) w = (Some e, w')" for w e w'
    using that run_interruption [of l w] by (auto split: if_splits)
  show ?thesis
    unfolding turn_completion_round_def
  proof (rule settles_bind_result [OF keeps_interruption])
    fix w x w'
    assume x: "run_state (app_server_command_interruption l) w = (x, w')"
    show "settles (turn_interrupt_request i thread_id turn_id) (case x of
        Some e \<Rightarrow> do { send_app_server_turn_interrupt i thread_id turn_id; rfault e }
      | None \<Rightarrow> do { d \<leftarrow> remaining_timeout (cl_timeout l) (cl_deadline l);
           tryE (configure_socket_timeout d) (\<lambda>_.
           do { r \<leftarrow> read_message;
                (case r of
                   ReadMsg (MsgText text) \<Rightarrow>
                     tryE (parse_value text) (\<lambda>v.
                       handle_app_server_turn_message fuel v thread_id turn_id command_id l i has_channels out)
                 | ReadMsg (MsgPing x) \<Rightarrow> rok (Inl out)
                 | ReadMsg MsgClose \<Rightarrow> rfail ''app-server closed before turn completed''
                 | ReadMsg MsgOther \<Rightarrow> rok (Inl out)
                 | ReadTimeout e \<Rightarrow> rok (Inl out)
                 | ReadFailed e \<Rightarrow> rfail e) }) })"
      using x read by (cases x) (auto intro: settles_interrupt interrupted)
  qed
qed

lemma settles_completion:
  "settles (turn_interrupt_request i thread_id turn_id)
     (wait_for_app_server_turn_completion fuel thread_id turn_id command_id l max_bytes i has_channels)"
  unfolding wait_for_app_server_turn_completion_def by (intro settles_loopE settles_completion_round)

subsection \<open>What a turn ends with\<close>

text \<open>A property of every result.\<close>

definition yields :: "('a \<Rightarrow> bool) \<Rightarrow> 'a rpc \<Rightarrow> bool" where
  "yields Q m \<longleftrightarrow> (\<forall>w v w'. run_state m w = (Inr v, w') \<longrightarrow> Q v)"

lemma yields_tryE: "(\<And>x. yields Q (f x)) \<Longrightarrow> yields Q (tryE m f)"
  by (auto simp: yields_def split: prod.splits sum.splits)

lemma yields_bind: "(\<And>x. yields Q (f x)) \<Longrightarrow> yields Q (State_Monad.bind m f)"
  by (auto simp: yields_def split: prod.splits)

lemma yields_results: "Q x \<Longrightarrow> yields Q (rok x)" "yields Q (rfail m)" "yields Q (rfault e)"
  by (simp_all add: yields_def)

lemma yields_loopE:
  assumes "\<And>b. yields (\<lambda>r. case r of Inl b' \<Rightarrow> True | Inr a \<Rightarrow> Q a) (body b)"
  shows "yields Q (loopE n out body b)"
proof (induction n arbitrary: b)
  case 0
  then show ?case by (simp add: yields_def)
next
  case (Suc n)
  have rounds: "Q v" if "run_state (loopE (Suc n) out body b) w = (Inr v, w')" for w v w'
  proof -
    obtain x w1 where x: "run_state (body b) w = (x, w1)" by fastforce
    show ?thesis
    proof (cases x)
      case (Inl e)
      with that x show ?thesis by simp
    next
      case (Inr y)
      show ?thesis
      proof (cases y)
        case (Inl b')
        with that x \<open>x = Inr y\<close> have "run_state (loopE n out body b') w1 = (Inr v, w')" by simp
        with Suc [of b'] show ?thesis unfolding yields_def by blast
      next
        case (Inr a)
        with that x \<open>x = Inr y\<close> have "run_state (body b) w = (Inr (Inr v), w1)" by simp
        with assms [of b] show ?thesis by (fastforce simp: yields_def)
      qed
    qed
  qed
  then show ?case unfolding yields_def by blast
qed

lemma yields_option:
  "yields Q m \<Longrightarrow> (\<And>x. y = Some x \<Longrightarrow> yields Q (f x)) \<Longrightarrow> yields Q (case y of None \<Rightarrow> m | Some x \<Rightarrow> f x)"
  by (cases y) simp_all

lemma yields_if: "(b \<Longrightarrow> yields Q m) \<Longrightarrow> (\<not> b \<Longrightarrow> yields Q n) \<Longrightarrow> yields Q (if b then m else n)"
  by simp

lemma yields_read_case:
  "(\<And>t. yields q (f t)) \<Longrightarrow> yields q pg \<Longrightarrow> yields q cl \<Longrightarrow> yields q ot \<Longrightarrow> (\<And>e. yields q (rt e)) \<Longrightarrow>
     (\<And>e. yields q (rf e)) \<Longrightarrow>
     yields q (case r of ReadMsg (MsgText t) \<Rightarrow> f t | ReadMsg (MsgPing x) \<Rightarrow> pg | ReadMsg MsgClose \<Rightarrow> cl
       | ReadMsg MsgOther \<Rightarrow> ot | ReadTimeout e \<Rightarrow> rt e | ReadFailed e \<Rightarrow> rf e)"
  by (auto split: read_answer.split message.split)

lemmas yields_intros = yields_results yields_tryE yields_bind yields_loopE yields_option yields_if yields_read_case

lemma turn_events_end: "well_ended (app_server_command_events_from_turn turn fallback)"
  unfolding app_server_command_events_from_turn_def
  by (rule well_ended_snoc)
    (auto simp: turn_end_event_def turn_output_events_def is_end_def is_output_def split: option.splits)

lemma handle_message_ends:
  "yields (\<lambda>r. case r of Inl b' \<Rightarrow> True | Inr es \<Rightarrow> well_ended es)
     (handle_app_server_turn_message fuel v thread_id turn_id command_id l i has_channels out)"
  unfolding handle_app_server_turn_message_def handle_turn_notification_def Let_def
  by (intro yields_intros) (simp_all add: turn_events_end)

lemma completion_round_ends:
  "yields (\<lambda>r. case r of Inl b' \<Rightarrow> True | Inr es \<Rightarrow> well_ended es)
     (turn_completion_round fuel thread_id turn_id command_id l i has_channels out)"
  unfolding turn_completion_round_def
  by (intro yields_intros handle_message_ends) simp_all

lemma run_turn_ends: "yields well_ended (run_turn fuel c thread_id command_id prompt cwd l i has_channels)"
proof -
  have ends: "yields well_ended (case jget2 response ''result'' ''turn'' of
       None \<Rightarrow> rfail ''app-server turn/start response did not include result.turn''
     | Some turn \<Rightarrow>
         (case jget_str turn ''id'' of
            None \<Rightarrow> rfail ''app-server turn/start response did not include turn.id''
          | Some turn_id \<Rightarrow>
              (if turn_is_terminal turn then rok (app_server_command_events_from_turn turn None)
               else wait_for_app_server_turn_completion fuel thread_id turn_id command_id l
                      (ex_codex_output_max_bytes (ac_execution c)) i has_channels)))" for response i
    unfolding wait_for_app_server_turn_completion_def
    by (intro yields_intros turn_events_end completion_round_ends)
  show ?thesis
    unfolding run_turn_def by (rule yields_tryE) (simp add: ends split: prod.split)
qed

lemma command_ends: "yields well_ended (run_app_server_command fuel c session_id cwd command_id prompt has_channels)"
  unfolding run_app_server_command_def Let_def
  by (intro yields_option yields_results yields_tryE) (auto intro!: yields_tryE run_turn_ends split: prod.split)

subsection \<open>The text that is kept\<close>

lemma length_fitting: "length (fitting_chars remaining cs) \<le> remaining"
proof (induction cs arbitrary: remaining)
  case (Cons c cs)
  show ?case using Cons [of "remaining - length c"] by auto
qed simp

lemma fitting_all: "length (concat cs) \<le> remaining \<Longrightarrow> fitting_chars remaining cs = concat cs"
  by (induction cs arbitrary: remaining) auto

lemma fitting_some: "\<exists>n. fitting_chars remaining cs = concat (take n cs)"
proof (induction cs arbitrary: remaining)
  case (Cons c cs)
  obtain n where n: "fitting_chars (remaining - length c) cs = concat (take n cs)" using Cons by blast
  show ?case
  proof (cases "length c \<le> remaining")
    case True
    with n have "fitting_chars remaining (c # cs) = concat (take (Suc n) (c # cs))" by simp
    then show ?thesis ..
  next
    case False
    then have "fitting_chars remaining (c # cs) = concat (take 0 (c # cs))" by simp
    then show ?thesis ..
  qed
qed simp

subsection \<open>The properties\<close>

text \<open>
  C3: A turn that is given up is interrupted. The wait for a turn that ends because the command
  was cancelled or ran out of time, also while the user's decision was awaited, has the request
  to interrupt this turn of this thread as its last action, and sent no other; a wait that ends
  in any other way, with the events of the turn or with an error, did not interrupt it.
\<close>
theorem given_up_turn_is_interrupted:
  assumes "run_state (wait_for_app_server_turn_completion fuel thread_id turn_id command_id l max_bytes i has_channels) w
    = (r, w')"
  shows "\<exists>new. (\<forall>v s. RSend v s \<in> set new \<longrightarrow> jget v ''method'' \<noteq> Some (JStr ''turn/interrupt''))
    \<and> (if r = Inl RCancelled \<or> (\<exists>s. r = Inl (RTimedOut s))
       then \<exists>s. a_log w' = a_log w @ new @ [RSend (turn_interrupt_request i thread_id turn_id) s]
       else a_log w' = a_log w @ new)"
proof -
  have out: "outcome (turn_interrupt_request i thread_id turn_id) r w w'"
    using settles_completion assms by (simp add: settles_def)
  have stop: "(\<exists>e. r = Inl e \<and> stopping e) \<longleftrightarrow> r = Inl RCancelled \<or> (\<exists>s. r = Inl (RTimedOut s))"
    by (auto simp: stopping_iff)
  show ?thesis
  proof (cases "r = Inl RCancelled \<or> (\<exists>s. r = Inl (RTimedOut s))")
    case True
    with out stop obtain w1 s where w1: "logs no_interrupt w w1"
        "a_log w' = a_log w1 @ [RSend (turn_interrupt_request i thread_id turn_id) s]"
      unfolding outcome_def by metis
    then obtain new where "a_log w1 = a_log w @ new" "\<forall>a \<in> set new. no_interrupt a" by (elim logsE)
    with w1(2) True show ?thesis by (intro exI [of _ new]) (auto simp: no_interrupt_def)
  next
    case False
    with out stop have "logs no_interrupt w w'" unfolding outcome_def by metis
    then obtain new where "a_log w' = a_log w @ new" "\<forall>a \<in> set new. no_interrupt a" by (elim logsE)
    with False show ?thesis by (intro exI [of _ new]) (auto simp: no_interrupt_def)
  qed
qed

definition demo_limits :: command_limits where
  "demo_limits = \<lparr> cl_timeout = secs 1, cl_deadline = secs 5, cl_timeout_seconds = 5 \<rparr>"

theorem given_up_turn_is_interrupted_witness:
  "\<exists>w' s. run_state (wait_for_app_server_turn_completion 9 ''t1'' ''u1'' ''c1'' demo_limits 100 4 True)
           ((demo_app [''other''])\<lparr>a_cancel := (\<lambda>k. 3 < k), a_read := (\<lambda>k. ReadTimeout ''again'')\<rparr>) = (Inl RCancelled, w')
     \<and> last (a_log w') = RSend (turn_interrupt_request 4 ''t1'' ''u1'') s"
proof -
  let ?run = "run_state (wait_for_app_server_turn_completion 9 ''t1'' ''u1'' ''c1'' demo_limits 100 4 True)
           ((demo_app [''other''])\<lparr>a_cancel := (\<lambda>k. 3 < k), a_read := (\<lambda>k. ReadTimeout ''again'')\<rparr>)"
  have "fst ?run = Inl RCancelled" by code_simp
  then have run: "?run = (Inl RCancelled, snd ?run)" by (cases ?run) simp
  from given_up_turn_is_interrupted [OF run] obtain new s where
    "a_log (snd ?run) = a_log ((demo_app [''other''])\<lparr>a_cancel := (\<lambda>k. 3 < k), a_read := (\<lambda>k. ReadTimeout ''again'')\<rparr>)
       @ new @ [RSend (turn_interrupt_request 4 ''t1'' ''u1'') s]" by auto
  then have "last (a_log (snd ?run)) = RSend (turn_interrupt_request 4 ''t1'' ''u1'') s" by simp
  with run show ?thesis by blast
qed

lemma app_server_result_ends:
  "case run_state (app_server_command_result_events_with_cancel fuel c session_id cwd command_id prompt has_channels) w of
     (Inr events, w') \<Rightarrow> well_ended events
   | (Inl e, w') \<Rightarrow> e = RPanic \<or> e = RFuel"
proof -
  obtain r w1 where r: "run_state (run_app_server_command fuel c session_id cwd command_id prompt has_channels) w = (r, w1)"
    by fastforce
  show ?thesis
  proof (cases r)
    case (Inl e)
    with r show ?thesis
      by (cases e) (auto simp: app_server_command_result_events_with_cancel_def is_end_def intro!: well_ended_one)
  next
    case (Inr events)
    with r command_ends have "well_ended events" unfolding yields_def by blast
    with r Inr show ?thesis by (simp add: app_server_command_result_events_with_cancel_def)
  qed
qed


text \<open>
  C39: The text kept of the assistant's message is bounded. However the deltas come, it has at
  most the configured number of bytes; when they all fit it is their concatenation; and each
  delta that does not fit is cut between two characters, never inside one.
\<close>
theorem agent_message_is_bounded:
  fixes max_bytes :: nat
  defines "start \<equiv> \<lparr> to_agent_message = [], to_agent_message_max_bytes = max_bytes \<rparr>"
  shows "length (to_agent_message (foldl (\<lambda>out d. push_agent_message_delta d out) start ds)) \<le> max_bytes
    \<and> (length (concat ds) \<le> max_bytes \<longrightarrow>
         to_agent_message (foldl (\<lambda>out d. push_agent_message_delta d out) start ds) = concat ds)
    \<and> (\<exists>kept. list_all2 (\<lambda>k d. \<exists>n. k = concat (take n (rchars d))) kept ds
         \<and> to_agent_message (foldl (\<lambda>out d. push_agent_message_delta d out) start ds) = concat kept)"
proof -
  let ?push = "\<lambda>out d. push_agent_message_delta d out"
  have max: "to_agent_message_max_bytes (foldl ?push out ds) = to_agent_message_max_bytes out" for out and ds :: "string list"
    by (induction ds arbitrary: out) (simp_all add: push_agent_message_delta_def)
  have bound: "length (to_agent_message (foldl ?push out ds)) \<le> to_agent_message_max_bytes out"
    if "length (to_agent_message out) \<le> to_agent_message_max_bytes out" for out and ds :: "string list"
    using that
  proof (induction ds arbitrary: out)
    case (Cons d ds)
    have "length (to_agent_message (push_agent_message_delta d out)) \<le> to_agent_message_max_bytes out"
      using Cons.prems length_fitting [of "to_agent_message_max_bytes out - length (to_agent_message out)" "rchars d"]
      by (simp add: push_agent_message_delta_def)
    with Cons.IH [of "push_agent_message_delta d out"] show ?case by (simp add: push_agent_message_delta_def)
  qed simp
  have whole: "to_agent_message (foldl ?push out ds) = to_agent_message out @ concat ds"
    if "length (to_agent_message out @ concat ds) \<le> to_agent_message_max_bytes out" for out and ds :: "string list"
    using that
  proof (induction ds arbitrary: out)
    case (Cons d ds)
    have "push_agent_message_delta d out = out\<lparr>to_agent_message := to_agent_message out @ d\<rparr>"
      using Cons.prems by (simp add: push_agent_message_delta_def fitting_all concat_rchars)
    with Cons show ?case by simp
  qed simp
  have pieces: "\<exists>kept. list_all2 (\<lambda>k d. \<exists>n. k = concat (take n (rchars d))) kept ds
         \<and> to_agent_message (foldl ?push out ds) = to_agent_message out @ concat kept" for out and ds :: "string list"
  proof (induction ds arbitrary: out)
    case (Cons d ds)
    obtain n where n: "fitting_chars (to_agent_message_max_bytes out - length (to_agent_message out)) (rchars d)
        = concat (take n (rchars d))" using fitting_some by blast
    obtain kept where kept: "list_all2 (\<lambda>k d. \<exists>n. k = concat (take n (rchars d))) kept ds"
        "to_agent_message (foldl ?push (push_agent_message_delta d out) ds)
          = to_agent_message (push_agent_message_delta d out) @ concat kept" using Cons by blast
    with n show ?case
      by (intro exI [of _ "concat (take n (rchars d)) # kept"]) (auto simp: push_agent_message_delta_def)
  qed simp
  show ?thesis
    using bound [of start ds] whole [of start ds] pieces [of ds start] by (auto simp: start_def)
qed

theorem agent_message_is_bounded_witness:
  "to_agent_message (foldl (\<lambda>out d. push_agent_message_delta d out)
     \<lparr> to_agent_message = [], to_agent_message_max_bytes = 5 \<rparr> [''ab'', ''cd'']) = ''abcd''"
  using agent_message_is_bounded [of 5 "[''ab'', ''cd'']"] by simp

text \<open>A delta that did not fit does not end the message: a shorter one after it still gets in.\<close>

lemma late_text_after_truncation:
  "to_agent_message (foldl (\<lambda>out d. push_agent_message_delta d out)
     \<lparr> to_agent_message = [], to_agent_message_max_bytes = 4 \<rparr>
     [''abc'', [CHR 0xC3, CHR 0xA9], ''d'']) = ''abcd''"
  by code_simp

end
