(* ===== verification/App_Server_Deliveries.thy ===== *)
theory App_Server_Deliveries
  imports App_Server_Turns Interaction_Claims
begin

text \<open>
  The user's decision on its way to the app server: every response that is taken from the
  channel is accounted for, and is said to be accepted only once its result was sent.
\<close>

subsection \<open>What a log says of deliveries\<close>

definition delivery_of :: "rpc_action \<Rightarrow> turn_interaction_response_dispatch option" where
  "delivery_of a = (case a of RRecv y (Delivered d) \<Rightarrow> Some d | _ \<Rightarrow> None)"

definition ack_of :: "rpc_action \<Rightarrow> (turn_interaction_response_dispatch \<times> bool) option" where
  "ack_of a = (case a of RAck d b \<Rightarrow> Some (d, b) | _ \<Rightarrow> None)"

definition active_of :: "rpc_action \<Rightarrow> string option option" where
  "active_of a = (case a of RActive i \<Rightarrow> Some i | _ \<Rightarrow> None)"

abbreviation deliveries :: "rpc_action list \<Rightarrow> turn_interaction_response_dispatch list" where
  "deliveries \<equiv> List.map_filter delivery_of"

abbreviation acknowledged :: "rpc_action list \<Rightarrow> (turn_interaction_response_dispatch \<times> bool) list" where
  "acknowledged \<equiv> List.map_filter ack_of"

abbreviation actives :: "rpc_action list \<Rightarrow> string option list" where
  "actives \<equiv> List.map_filter active_of"

lemma of_simps [simp]:
  "delivery_of (RRecv y (Delivered d)) = Some d" "delivery_of (RRecv y NothingYet) = None"
  "delivery_of (RRecv y ChannelClosed) = None" "delivery_of (RAck d b) = None" "delivery_of (RActive i) = None"
  "delivery_of (RSend v s) = None" "delivery_of (REvent e) = None"
  "ack_of (RRecv y z) = None" "ack_of (RAck d b) = Some (d, b)" "ack_of (RActive i) = None"
  "ack_of (RSend v s) = None" "ack_of (REvent e) = None"
  "active_of (RRecv y z) = None" "active_of (RAck d b) = None" "active_of (RActive i) = Some i"
  "active_of (RSend v s) = None" "active_of (REvent e) = None"
  by (simp_all add: delivery_of_def ack_of_def active_of_def)

text \<open>The channel was used only: the deliveries were refused, but for those still held.\<close>

definition got :: "turn_interaction_response_dispatch list \<Rightarrow> aworld \<Rightarrow> aworld \<Rightarrow> bool" where
  "got held w w' \<longleftrightarrow> env w' = env w \<and>
     (\<exists>l. a_log w' = a_log w @ l \<and> deliveries l = map fst (acknowledged l) @ held
        \<and> (\<forall>x \<in> set (acknowledged l). \<not> snd x) \<and> actives l = [])"

lemma got_refl: "got [] w w"
  by (simp add: got_def)

lemma got_trans: "got [] w w1 \<Longrightarrow> got held w1 w2 \<Longrightarrow> got held w w2"
proof -
  assume a: "got [] w w1" and b: "got held w1 w2"
  from a obtain l where l: "a_log w1 = a_log w @ l" "deliveries l = map fst (acknowledged l)"
    "\<forall>x \<in> set (acknowledged l). \<not> snd x" "actives l = []" unfolding got_def by auto
  from b obtain l' where l': "a_log w2 = a_log w1 @ l'" "deliveries l' = map fst (acknowledged l') @ held"
    "\<forall>x \<in> set (acknowledged l'). \<not> snd x" "actives l' = []" unfolding got_def by auto
  have "a_log w2 = a_log w @ (l @ l')" using l l' by simp
  moreover have "deliveries (l @ l') = map fst (acknowledged (l @ l')) @ held" "actives (l @ l') = []"
    "\<forall>x \<in> set (acknowledged (l @ l')). \<not> snd x"
    using l l' by (auto simp: map_filter_append)
  moreover have "env w2 = env w" using a b by (simp add: got_def)
  ultimately show ?thesis unfolding got_def by blast
qed

lemma got_quiet: "logs (\<lambda>_. False) w w' \<Longrightarrow> got [] w w'"
  unfolding got_def logs_def by auto

definition receives :: "(rpc_fault + 'a \<Rightarrow> turn_interaction_response_dispatch list) \<Rightarrow> 'a rpc \<Rightarrow> bool" where
  "receives h m \<longleftrightarrow> (\<forall>w r w'. run_state m w = (r, w') \<longrightarrow> got (h r) w w')"

lemma receivesD: "receives h m \<Longrightarrow> run_state m w = (r, w') \<Longrightarrow> got (h r) w w'"
  unfolding receives_def by blast

lemma receives_tryE:
  assumes m: "receives (\<lambda>_. []) m" and f: "\<And>x. receives h (f x)" and h: "\<And>e. h (Inl e) = []"
  shows "receives h (tryE m f)"
  unfolding receives_def
proof (intro allI impI)
  fix w r w'
  assume run: "run_state (tryE m f) w = (r, w')"
  obtain x w1 where x: "run_state m w = (x, w1)" by fastforce
  have g: "got [] w w1" using m x by (rule receivesD)
  show "got (h r) w w'"
  proof (cases x)
    case (Inl e)
    with run x have "r = Inl e" "w' = w1" by auto
    with g h show ?thesis by simp
  next
    case (Inr v)
    with run x have "run_state (f v) w1 = (r, w')" by simp
    with f have "got (h r) w1 w'" by (rule receivesD)
    with g show ?thesis by (rule got_trans)
  qed
qed

lemma receives_quiet: "rl.keeps (\<lambda>_. False) m \<Longrightarrow> receives (\<lambda>_. []) m"
  unfolding receives_def by (blast intro: got_quiet rl.keepsE)

text \<open>What a round holds, and what the loop of it holds.\<close>

definition held :: "rpc_fault + received \<Rightarrow> turn_interaction_response_dispatch list" where
  "held r = (case r of Inr (d, True) \<Rightarrow> [d] | _ \<Rightarrow> [])"

definition held_round :: "rpc_fault + (unit + received) \<Rightarrow> turn_interaction_response_dispatch list" where
  "held_round r = (case r of Inr (Inr x) \<Rightarrow> held (Inr x) | _ \<Rightarrow> [])"

definition held_option :: "rpc_fault + received option \<Rightarrow> turn_interaction_response_dispatch list" where
  "held_option r = (case r of Inr (Some x) \<Rightarrow> held (Inr x) | _ \<Rightarrow> [])"

lemma held_simps [simp]:
  "held (Inl e) = []" "held (Inr (d, b)) = (if b then [d] else [])"
  "held_round (Inl e) = []" "held_round (Inr (Inl u)) = []" "held_round (Inr (Inr x)) = held (Inr x)"
  "held_option (Inl e) = []" "held_option (Inr None) = []" "held_option (Inr (Some x)) = held (Inr x)"
  by (simp_all add: held_def held_round_def held_option_def split: bool.split)

lemma receives_loopE:
  assumes body: "receives hb body" and a: "\<And>x. hb (Inr (Inr x)) = h (Inr x)"
    and out: "\<And>e. hb (Inl e) = []" "hb (Inr (Inl ())) = []" "\<And>e. h (Inl e) = []"
  shows "receives h (loopE n RFuel (\<lambda>_. body) ())"
proof (induction n)
  case 0
  then show ?case by (simp add: receives_def out got_refl)
next
  case (Suc n)
  have round: "got (h r) w w'" if "run_state (loopE (Suc n) RFuel (\<lambda>_. body) ()) w = (r, w')" for w r w'
  proof -
    obtain x w1 where x: "run_state body w = (x, w1)" by fastforce
    have g: "got (hb x) w w1" using body x by (rule receivesD)
    consider (fault) e where "x = Inl e" | (on) "x = Inr (Inl ())" | (stop) y where "x = Inr (Inr y)"
      by (cases x) (auto split: sum.splits, metis old.unit.exhaust sum.exhaust)
    then show ?thesis
    proof cases
      case (fault e)
      with that x have "r = Inl e" "w' = w1" by auto
      with g fault out show ?thesis by simp
    next
      case on
      with that x have "run_state (loopE n RFuel (\<lambda>_. body) ()) w1 = (r, w')" by simp
      with Suc have "got (h r) w1 w'" by (rule receivesD)
      with g on out show ?thesis by (auto intro: got_trans)
    next
      case (stop y)
      with that x have "r = Inr y" "w' = w1" by auto
      with g stop a show ?thesis by simp
    qed
  qed
  then show ?case unfolding receives_def by blast
qed

lemma receives_take:
  "run_state (take_delivery command_id interaction_id d) w = (r, w') \<Longrightarrow>
   (r = Inr (Inr (d, True)) \<and> w' = w) \<or> (r = Inr (Inl ()) \<and> w' = w\<lparr>a_log := a_log w @ [RAck d False]\<rparr>)"
  by (auto simp: take_delivery_def split: if_splits)

lemma got_one: "a_log w' = a_log w @ l \<Longrightarrow> env w' = env w \<Longrightarrow> deliveries l = map fst (acknowledged l) @ h \<Longrightarrow>
    \<forall>x \<in> set (acknowledged l). \<not> snd x \<Longrightarrow> actives l = [] \<Longrightarrow> got h w w'"
  unfolding got_def by blast

lemma recv_then_take:
  assumes run: "run_state (do { r \<leftarrow> recv_delivery wait;
       (case r of Delivered d \<Rightarrow> f d | NothingYet \<Rightarrow> rok n | ChannelClosed \<Rightarrow> rfail m) }) w = (r, w')"
    and f: "\<And>d w r w'. run_state (f d) w = (r, w') \<Longrightarrow>
        (h r = [d] \<and> w' = w) \<or> (h r = [] \<and> w' = w\<lparr>a_log := a_log w @ [RAck d False]\<rparr>)"
    and h: "h (Inr n) = []" "\<And>e. h (Inl e) = []"
  shows "got (h r) w w'"
proof (cases "a_recv w (a_tick w)")
  case (Delivered d)
  let ?w1 = "w\<lparr>a_tick := Suc (a_tick w), a_log := a_log w @ [RRecv wait (Delivered d)]\<rparr>"
  have "run_state (f d) ?w1 = (r, w')" using run Delivered by (simp add: recv_delivery_def)
  with f consider "h r = [d]" "w' = ?w1" | "h r = []" "w' = ?w1\<lparr>a_log := a_log ?w1 @ [RAck d False]\<rparr>" by blast
  then show ?thesis
  proof cases
    case 1
    then show ?thesis by (intro got_one [of _ _ "[RRecv wait (Delivered d)]"]) (simp_all add: map_filter_simps env_def)
  next
    case 2
    then show ?thesis
      by (intro got_one [of _ _ "[RRecv wait (Delivered d), RAck d False]"]) (simp_all add: map_filter_simps env_def)
  qed
next
  case NothingYet
  with run have "r = Inr n" "w' = w\<lparr>a_tick := Suc (a_tick w), a_log := a_log w @ [RRecv wait NothingYet]\<rparr>"
    by (auto simp: recv_delivery_def)
  with h show ?thesis by (intro got_one [of _ _ "[RRecv wait NothingYet]"]) (simp_all add: map_filter_simps env_def)
next
  case ChannelClosed
  with run have "r = Inl (RError m)" "w' = w\<lparr>a_tick := Suc (a_tick w), a_log := a_log w @ [RRecv wait ChannelClosed]\<rparr>"
    by (auto simp: recv_delivery_def)
  with h show ?thesis by (intro got_one [of _ _ "[RRecv wait ChannelClosed]"]) (simp_all add: map_filter_simps env_def)
qed

lemma receives_wait: "receives held_round (wait_for_delivery command_id interaction_id wait)"
  unfolding receives_def wait_for_delivery_def
  by (intro allI impI, erule recv_then_take) (auto dest!: receives_take)

definition held_try :: "rpc_fault + (unit + received option) \<Rightarrow> turn_interaction_response_dispatch list" where
  "held_try r = (case r of Inr (Inr (Some x)) \<Rightarrow> held (Inr x) | _ \<Rightarrow> [])"

lemma held_try_simps [simp]:
  "held_try (Inl e) = []" "held_try (Inr (Inl u)) = []" "held_try (Inr (Inr None)) = []"
  "held_try (Inr (Inr (Some x))) = held (Inr x)"
  by (simp_all add: held_try_def)

lemma receives_try: "receives held_option (try_receive_turn_interaction_response fuel command_id interaction_id)"
  unfolding try_receive_turn_interaction_response_def
proof (rule receives_loopE)
  show "receives held_try (try_receive_round command_id interaction_id)"
    unfolding receives_def try_receive_round_def
    by (intro allI impI, erule recv_then_take) (auto dest!: receives_take split: prod.splits sum.splits)
  show "held_try (Inr (Inr x)) = held_option (Inr x)" for x by (cases x) simp_all
qed simp_all

lemma receives_bind: "rl.keeps (\<lambda>_. False) m \<Longrightarrow> (\<And>x. receives h (f x)) \<Longrightarrow> receives h (State_Monad.bind m f)"
proof -
  assume m: "rl.keeps (\<lambda>_. False) m" and f: "\<And>x. receives h (f x)"
  have "got (h r) w w'" if "run_state (State_Monad.bind m f) w = (r, w')" for w r w'
  proof -
    obtain x w1 where x: "run_state m w = (x, w1)" by fastforce
    have "got [] w w1" using m x by (intro got_quiet) (rule rl.keepsE)
    moreover have "got (h r) w1 w'" using f [of x] that x by (intro receivesD) simp_all
    ultimately show ?thesis by (rule got_trans)
  qed
  then show ?thesis unfolding receives_def by blast
qed

lemma receives_ok: "h (Inr x) = [] \<Longrightarrow> receives h (rok x)"
  by (simp add: receives_def got_refl)

lemma receives_if: "(b \<Longrightarrow> receives h m) \<Longrightarrow> (\<not> b \<Longrightarrow> receives h n) \<Longrightarrow> receives h (if b then m else n)"
  by simp

lemma receives_option:
  "receives h m \<Longrightarrow> (\<And>x. receives h (f x)) \<Longrightarrow> receives h (case y of None \<Rightarrow> m | Some x \<Rightarrow> f x)"
  by (cases y) simp_all

text \<open>A response found at once ends the round.\<close>

lemma receives_found:
  assumes m: "receives held_option m" and f: "receives held_round n"
  shows "receives held_round (tryE m (\<lambda>found. case found of Some x \<Rightarrow> rok (Inr x) | None \<Rightarrow> n))"
proof -
  have "got (held_round r) w w'"
    if run: "run_state (tryE m (\<lambda>found. case found of Some x \<Rightarrow> rok (Inr x) | None \<Rightarrow> n)) w = (r, w')" for w r w'
  proof -
    obtain x w1 where x: "run_state m w = (x, w1)" by fastforce
    have g: "got (held_option x) w w1" using m x by (rule receivesD)
    consider (fault) e where "x = Inl e" | (none) "x = Inr None" | (found) y where "x = Inr (Some y)"
      by (metis option.exhaust sum.exhaust)
    then show ?thesis
    proof cases
      case (fault e)
      with run x have "r = Inl e" "w' = w1" by auto
      with g fault show ?thesis by simp
    next
      case none
      with run x have "run_state n w1 = (r, w')" by simp
      with f have "got (held_round r) w1 w'" by (rule receivesD)
      with g none show ?thesis by (auto intro: got_trans)
    next
      case (found y)
      with run x have "r = Inr (Inr y)" "w' = w1" by auto
      with g found show ?thesis by simp
    qed
  qed
  then show ?thesis unfolding receives_def by blast
qed

lemma receives_round: "receives held_round (receive_round fuel command_id interaction_id l auto)"
  unfolding receive_round_def Let_def
  by (intro receives_tryE receives_quiet keeps_command_budget receives_found receives_try receives_bind keeps_rnow
      receives_if receives_option receives_wait receives_ok) (simp_all add: receives_def got_refl)

lemma receives_response: "receives held (receive_turn_interaction_response fuel command_id interaction_id l auto)"
  unfolding receive_turn_interaction_response_def
  by (rule receives_loopE [OF receives_round]) simp_all

text \<open>What is received answers the interaction that was asked.\<close>

lemma received_answers:
  "yields (\<lambda>x. answers_interaction command_id interaction_id (fst x))
     (receive_turn_interaction_response fuel command_id interaction_id l auto)"
proof -
  let ?A = "\<lambda>x :: received. answers_interaction command_id interaction_id (fst x)"
  let ?R = "\<lambda>r. case r of Inl b' \<Rightarrow> True | Inr a \<Rightarrow> ?A a"
  have take_it: "yields ?R (take_delivery command_id interaction_id d)" for d
    unfolding take_delivery_def by (intro yields_intros) simp_all
  have wait: "yields ?R (wait_for_delivery command_id interaction_id wait)" for wait
    unfolding wait_for_delivery_def
    by (intro yields_intros) (simp add: take_it yields_results split: recv_answer.split)
  have "yields (\<lambda>r. case r of Inl b' \<Rightarrow> True | Inr a \<Rightarrow> (\<forall>x. a = Some x \<longrightarrow> ?A x))
      (try_receive_round command_id interaction_id)"
    unfolding try_receive_round_def
  proof (intro yields_bind)
    fix r
    show "yields (\<lambda>r. case r of Inl b' \<Rightarrow> True | Inr a \<Rightarrow> (\<forall>x. a = Some x \<longrightarrow> ?A x))
      (case r of Delivered d \<Rightarrow> tryE (take_delivery command_id interaction_id d) (\<lambda>x.
                 rok (case x of Inl u \<Rightarrow> Inl u | Inr y \<Rightarrow> Inr (Some y)))
        | NothingYet \<Rightarrow> rok (Inr None) | ChannelClosed \<Rightarrow> rfail channel_closed)"
      by (cases r) (auto simp: yields_def take_delivery_def split: if_splits)
  qed
  then have try_it: "yields (\<lambda>a. \<forall>x. a = Some x \<longrightarrow> ?A x) (try_receive_turn_interaction_response fuel command_id interaction_id)"
    unfolding try_receive_turn_interaction_response_def by (intro yields_loopE)
  have found: "yields ?R (tryE (try_receive_turn_interaction_response fuel command_id interaction_id)
      (\<lambda>found. case found of Some x \<Rightarrow> rok (Inr x) | None \<Rightarrow> n))" if "yields ?R n" for n
    using that try_it unfolding yields_def
    by (clarsimp split: prod.splits sum.splits option.splits) fastforce
  have auto_it: "answers_interaction command_id interaction_id (auto_resolved_input_response command_id interaction_id)"
    by (simp add: answers_interaction_def auto_resolved_input_response_def)
  show ?thesis
    unfolding receive_turn_interaction_response_def receive_round_def Let_def
    by (intro yields_loopE yields_tryE [where m = "ensure_app_server_command_budget l"] found yields_bind
        yields_if yields_option wait yields_results) (simp_all add: auto_it)
qed

subsection \<open>Answering\<close>

definition answer_tail ::
  "json \<Rightarrow> string \<Rightarrow> json \<Rightarrow> received \<Rightarrow> rpc_action list \<Rightarrow> bool" where
  "answer_tail request_id m params x tail \<longleftrightarrow>
     deliveries tail = [] \<and> map fst (acknowledged tail) = (if snd x then [fst x] else []) \<and> actives tail = []
     \<and> (\<forall>d. (d, True) \<in> set (acknowledged tail) \<longrightarrow>
          d = fst x \<and> (\<exists>result rest. app_server_turn_interaction_result m params (ti_response d) = Inr result
            \<and> tail = [RSend (interaction_result_message request_id result) None, RAck d True] @ rest))"

lemma run_acknowledge:
  "run_state (acknowledge_turn_interaction_delivery x b) w =
     ((), if snd x then w\<lparr>a_log := a_log w @ [RAck (fst x) b]\<rparr> else w)"
  by (cases x) (simp add: acknowledge_turn_interaction_delivery_def)

lemma answer_log:
  assumes run: "run_state (answer_turn_request request_id m params payload x) w = (r, w')"
  shows "\<exists>tail. a_log w' = a_log w @ tail \<and> answer_tail request_id m params x tail"
proof -
  let ?acks = "\<lambda>b. if snd x then [RAck (fst x) b] else []"
  show ?thesis
  proof (cases "app_server_turn_interaction_result m params (ti_response (fst x))")
    case (Inl e)
    with run have "a_log w' = a_log w @ ?acks False"
      by (auto simp: answer_turn_request_def run_acknowledge)
    moreover have "answer_tail request_id m params x (?acks False)"
      by (simp add: answer_tail_def map_filter_simps)
    ultimately show ?thesis by blast
  next
    case (Inr result)
    let ?send = "\<lambda>s. RSend (interaction_result_message request_id result) s"
    show ?thesis
    proof (cases "a_send w (a_tick w)")
      case (Some e)
      with run Inr have "a_log w' = a_log w @ [?send (Some e)] @ ?acks False"
        by (auto simp: answer_turn_request_def run_acknowledge run_send_value)
      moreover have "answer_tail request_id m params x ([?send (Some e)] @ ?acks False)"
        by (simp add: answer_tail_def map_filter_simps)
      ultimately show ?thesis by blast
    next
      case None
      let ?w1 = "w\<lparr>a_tick := Suc (a_tick w), a_log := a_log w @ [?send None] @ ?acks True\<rparr>"
      have w1: "run_state (do { sent \<leftarrow> send_value (interaction_result_message request_id result);
          acknowledge_turn_interaction_delivery x True }) w = ((), ?w1)"
        using None by (auto simp: run_send_value run_acknowledge)
      have "\<exists>rest. a_log w' = a_log ?w1 @ rest \<and> (\<forall>a \<in> set rest. \<exists>e. a = REvent e)"
        using run Inr None
        by (auto simp: answer_turn_request_def run_send_value run_acknowledge send_event_def
            split: if_splits sum.splits)
      then obtain rest where rest: "a_log w' = a_log w @ [?send None] @ ?acks True @ rest" "\<forall>a \<in> set rest. \<exists>e. a = REvent e"
        by auto
      have "deliveries rest = []" "acknowledged rest = []" "actives rest = []"
        using rest(2) by (induction rest) (auto simp: map_filter_simps)
      then have "answer_tail request_id m params x ([?send None] @ ?acks True @ rest)"
        using Inr by (simp add: answer_tail_def map_filter_simps map_filter_append)
      with rest(1) show ?thesis by blast
    qed
  qed
qed

text \<open>With a lock that is not poisoned, waiting for the decision brackets it as the active interaction.\<close>

lemma run_set_active:
  "\<not> a_poisoned w (a_tick w) \<Longrightarrow> run_state (set_active_turn_interaction i) w =
     (Inr (), w\<lparr>a_tick := Suc (a_tick w), a_log := a_log w @ [RActive i]\<rparr>)"
  by (simp add: set_active_turn_interaction_def)

lemma env_poisoned: "env w' = env w \<Longrightarrow> a_poisoned w' = a_poisoned w"
proof -
  have "a_poisoned (env v) = a_poisoned v" for v by (simp add: env_def)
  then show "env w' = env w \<Longrightarrow> a_poisoned w' = a_poisoned w" by metis
qed

lemma await_log:
  assumes run: "run_state (await_decision fuel m params command_id event interaction_id l) w = (r, w')"
    and lock: "\<forall>k. \<not> a_poisoned w k"
  shows "\<exists>new. a_log w' = a_log w @ new \<and> env w' = env w \<and> actives new = [Some interaction_id, None]
     \<and> (\<forall>x \<in> set (acknowledged new). \<not> snd x)
     \<and> (case r of
          Inr (Inr x) \<Rightarrow> answers_interaction command_id interaction_id (fst x)
            \<and> deliveries new = map fst (acknowledged new) @ (if snd x then [fst x] else [])
        | _ \<Rightarrow> deliveries new = map fst (acknowledged new))"
proof -
  let ?w1 = "w\<lparr>a_tick := Suc (a_tick w), a_log := a_log w @ [RActive (Some interaction_id)]\<rparr>"
  have set1: "run_state (set_active_turn_interaction (Some interaction_id)) w = (Inr (), ?w1)"
    using lock by (intro run_set_active) simp
  show ?thesis
  proof (cases "a_event_closed ?w1 (a_tick ?w1)")
    case True
    with run set1 lock have "r = Inl (RError ''turn interaction event channel closed'')"
      "a_log w' = a_log w @ [RActive (Some interaction_id), RActive None]" "env w' = env w"
      by (auto simp: await_decision_def send_event_def run_set_active env_def)
    then show ?thesis by (intro exI [of _ "[RActive (Some interaction_id), RActive None]"]) (simp add: map_filter_simps)
  next
    case False
    let ?w2 = "w\<lparr>a_tick := Suc (Suc (a_tick w)), a_log := a_log w @ [RActive (Some interaction_id), REvent event]\<rparr>"
    obtain auto_deadline w3 where w3: "run_state (auto_resolution_deadline m params) ?w2 = (auto_deadline, w3)" by fastforce
    obtain x w4 where w4: "run_state (receive_turn_interaction_response fuel command_id interaction_id l auto_deadline) w3 = (x, w4)"
      by fastforce
    have "got [] ?w2 w3" using w3 by (intro got_quiet) (rule rl.keepsE [OF keeps_auto_deadline])
    moreover have "got (held x) w3 w4" using receives_response w4 by (rule receivesD)
    ultimately have g: "got (held x) ?w2 w4" by (rule got_trans)
    then obtain l1 where l1: "a_log w4 = a_log ?w2 @ l1" "deliveries l1 = map fst (acknowledged l1) @ held x"
        "\<forall>y \<in> set (acknowledged l1). \<not> snd y" "actives l1 = []" and e4: "env w4 = env ?w2"
      unfolding got_def by blast
    have e4': "env w4 = env w" using e4 by (simp add: env_def)
    have lock4: "\<not> a_poisoned w4 (a_tick w4)" using lock unfolding env_poisoned [OF e4'] ..
    have "r = Inr x \<and> w' = w4\<lparr>a_tick := Suc (a_tick w4), a_log := a_log w4 @ [RActive None]\<rparr>"
      using run set1 False w3 w4 lock4 by (auto simp: await_decision_def send_event_def run_set_active)
    then have r: "r = Inr x" and w': "w' = w4\<lparr>a_tick := Suc (a_tick w4), a_log := a_log w4 @ [RActive None]\<rparr>" by simp_all
    define new where "new = [RActive (Some interaction_id), REvent event] @ l1 @ [RActive None]"
    have log: "a_log w' = a_log w @ new" using w' l1(1) by (simp add: new_def)
    have ack: "acknowledged new = acknowledged l1" and del: "deliveries new = deliveries l1"
      and act: "actives new = [Some interaction_id, None]"
      using l1(4) by (simp_all add: new_def map_filter_simps map_filter_append)
    have ans: "answers_interaction command_id interaction_id (fst y)" if "x = Inr y" for y
      using received_answers w4 that unfolding yields_def by blast
    have "env w' = env w" using e4' w' by (simp add: env_def)
    then show ?thesis
      using log act l1(2,3) ans unfolding r
      by (intro exI [of _ new]) (auto simp: ack del held_def split: sum.split prod.split)
  qed
qed

subsection \<open>The property\<close>

lemma interrupt_log:
  "run_state (do { send_app_server_turn_interrupt i thread_id turn_id; rfault e }) w = (r, w') \<Longrightarrow>
     \<exists>s. a_log w' = a_log w @ [RSend (turn_interrupt_request i thread_id turn_id) s]"
  by (auto simp: send_app_server_turn_interrupt_def)

text \<open>What the handling of a request adds to the log.\<close>

lemma handle_request_log:
  assumes run: "run_state (handle_app_server_turn_request fuel request_id m params thread_id turn_id command_id l i
                  has_channels) w = (r, w')"
    and lock: "\<forall>k. \<not> a_poisoned w k"
  shows "a_log w' = a_log w
    \<or> (\<exists>event interaction_id new tail x. turn_interaction_event (a_serde w) m request_id params = Inr event
        \<and> Option.bind (Option.bind (ev_payload event) (\<lambda>p. jget p ''interaction_id'')) as_str = Some interaction_id
        \<and> a_log w' = a_log w @ new @ tail \<and> actives new = [Some interaction_id, None]
        \<and> (\<forall>y \<in> set (acknowledged new). \<not> snd y)
        \<and> (deliveries new = map fst (acknowledged new) \<and> deliveries tail = [] \<and> acknowledged tail = [] \<and> actives tail = []
           \<or> deliveries new = map fst (acknowledged new) @ (if snd x then [fst x] else [])
             \<and> answers_interaction command_id interaction_id (fst x) \<and> answer_tail request_id m params x tail))"
proof (cases "app_server_turn_request_method m \<and> notification_matches params thread_id turn_id \<and> has_channels")
  case False
  with run have "w' = w" by (auto simp: handle_app_server_turn_request_def split: if_splits)
  then show ?thesis by simp
next
  case here: True
  show ?thesis
  proof (cases "turn_interaction_event (a_serde w) m request_id params")
    case (Inl e)
    with run here have "w' = w" by (auto simp: handle_app_server_turn_request_def)
    then show ?thesis by simp
  next
    case event: (Inr event)
    show ?thesis
    proof (cases "Option.bind (Option.bind (ev_payload event) (\<lambda>p. jget p ''interaction_id'')) as_str")
      case None
      with run here event have "w' = w" by (auto simp: handle_app_server_turn_request_def)
      then show ?thesis by simp
    next
      case (Some interaction_id)
      obtain y w1 where y: "run_state (await_decision fuel m params command_id event interaction_id l) w = (y, w1)"
        by fastforce
      obtain new where new: "a_log w1 = a_log w @ new" "actives new = [Some interaction_id, None]"
          "\<forall>x \<in> set (acknowledged new). \<not> snd x"
        and del: "case y of
          Inr (Inr x) \<Rightarrow> answers_interaction command_id interaction_id (fst x)
            \<and> deliveries new = map fst (acknowledged new) @ (if snd x then [fst x] else [])
        | _ \<Rightarrow> deliveries new = map fst (acknowledged new)"
        using await_log [OF y lock] by blast
      have rest: "(case y of Inl e \<Rightarrow> (Inl e, w1) | Inr z \<Rightarrow> run_state (case z of
           Inr x \<Rightarrow> answer_turn_request request_id m params (ev_payload event) x
         | Inl RCancelled \<Rightarrow> do { send_app_server_turn_interrupt i thread_id turn_id; rfault RCancelled }
         | Inl (RTimedOut s) \<Rightarrow> do { send_app_server_turn_interrupt i thread_id turn_id; rfault (RTimedOut s) }
         | Inl e \<Rightarrow> rfault e) w1) = (r, w')"
        using run here event Some y by (simp add: handle_app_server_turn_request_def)
      consider (answer) x where "y = Inr (Inr x)" | (stop) e where "y = Inr (Inl e)" "stopping e"
        | (fault) e where "y = Inr (Inl e)" "\<not> stopping e" | (early) e where "y = Inl e"
        by (metis sum.exhaust)
      then have "\<exists>tail x. a_log w' = a_log w1 @ tail
         \<and> (deliveries new = map fst (acknowledged new) \<and> deliveries tail = [] \<and> acknowledged tail = [] \<and> actives tail = []
           \<or> deliveries new = map fst (acknowledged new) @ (if snd x then [fst x] else [])
             \<and> answers_interaction command_id interaction_id (fst x) \<and> answer_tail request_id m params x tail)"
      proof cases
        case (answer x)
        with rest have "run_state (answer_turn_request request_id m params (ev_payload event) x) w1 = (r, w')" by simp
        from answer_log [OF this] obtain tail where "a_log w' = a_log w1 @ tail" "answer_tail request_id m params x tail"
          by blast
        with del answer show ?thesis by (intro exI [of _ tail] exI [of _ x]) simp
      next
        case (stop e)
        then have "\<exists>s. a_log w' = a_log w1 @ [RSend (turn_interrupt_request i thread_id turn_id) s]"
          using rest by (cases e) (auto intro: interrupt_log)
        then obtain s where "a_log w' = a_log w1 @ [RSend (turn_interrupt_request i thread_id turn_id) s]" ..
        then show ?thesis using del stop(1)
          by (intro exI [of _ "[RSend (turn_interrupt_request i thread_id turn_id) s]"]) (simp add: map_filter_simps)
      next
        case (fault e)
        then have "w' = w1" using rest by (cases e) auto
        then show ?thesis using del fault(1) by (intro exI [of _ "[]"]) (simp add: map_filter_simps)
      next
        case (early e)
        then have "w' = w1" using rest by auto
        then show ?thesis using del early by (intro exI [of _ "[]"]) (simp add: map_filter_simps)
      qed
      with event Some new show ?thesis by fastforce
    qed
  qed
qed

text \<open>
  C1: A decision is settled. While the lock of the active interaction is usable, the handling of
  a request of the app server acknowledges every response it takes from the channel exactly once,
  in the order they came; it sets the active interaction only to the one it asked for, and clears
  it again. A response is acknowledged as accepted only immediately after its result was sent
  to the app server under the id of the request, and only when it is for this command and for the
  interaction this request has.
\<close>
theorem decisions_are_settled:
  assumes "run_state (handle_app_server_turn_request fuel request_id m params thread_id turn_id command_id l i
             has_channels) w = (r, w')"
    and "\<forall>k. \<not> a_poisoned w k"
  shows "\<exists>new. a_log w' = a_log w @ new
    \<and> deliveries new = map fst (acknowledged new)
    \<and> (actives new = [] \<or> actives new = [Some (turn_interaction_id (a_serde w) m request_id params), None])
    \<and> (\<forall>d. (d, True) \<in> set (acknowledged new) \<longrightarrow>
          ti_command_id d = command_id \<and> ti_interaction_id d = turn_interaction_id (a_serde w) m request_id params
          \<and> (\<exists>before result after. app_server_turn_interaction_result m params (ti_response d) = Inr result
              \<and> new = before @ [RSend (interaction_result_message request_id result) None, RAck d True] @ after))"
  using handle_request_log [OF assms]
proof (elim disjE exE conjE)
  assume "a_log w' = a_log w"
  then show ?thesis by (intro exI [of _ "[]"]) (simp add: map_filter_simps)
next
  fix event interaction_id new tail and x :: received
  assume event: "turn_interaction_event (a_serde w) m request_id params = Inr event"
    and some: "Option.bind (Option.bind (ev_payload event) (\<lambda>p. jget p ''interaction_id'')) as_str = Some interaction_id"
    and log: "a_log w' = a_log w @ new @ tail" and act: "actives new = [Some interaction_id, None]"
    and ack: "\<forall>y \<in> set (acknowledged new). \<not> snd y"
  from event_payload [OF event] obtain p where p: "ev_payload event = Some p"
      "jget p ''interaction_id'' = Some (JStr (turn_interaction_id (a_serde w) m request_id params))"
    using payload_lookups(1) by blast
  with some have id: "interaction_id = turn_interaction_id (a_serde w) m request_id params" by simp
  {
    assume "deliveries new = map fst (acknowledged new)" "deliveries tail = []" "acknowledged tail = []" "actives tail = []"
    with log act ack id show ?thesis
      by (intro exI [of _ "new @ tail"]) (auto simp: map_filter_append)
  next
    assume del: "deliveries new = map fst (acknowledged new) @ (if snd x then [fst x] else [])"
      and ans: "answers_interaction command_id interaction_id (fst x)" and tail: "answer_tail request_id m params x tail"
    have d: "deliveries tail = []" "map fst (acknowledged tail) = (if snd x then [fst x] else [])" "actives tail = []"
      using tail by (simp_all add: answer_tail_def)
    have accepted: "ti_command_id d = command_id \<and> ti_interaction_id d = interaction_id
        \<and> (\<exists>before result after. app_server_turn_interaction_result m params (ti_response d) = Inr result
            \<and> new @ tail = before @ [RSend (interaction_result_message request_id result) None, RAck d True] @ after)"
      if h: "(d, True) \<in> set (acknowledged (new @ tail))" for d
    proof -
      have "(d, True) \<in> set (acknowledged tail)" using h ack by (auto simp: map_filter_append)
      with tail obtain result rest where "d = fst x" "app_server_turn_interaction_result m params (ti_response d) = Inr result"
          "tail = [RSend (interaction_result_message request_id result) None, RAck d True] @ rest"
        unfolding answer_tail_def by blast
      with ans show ?thesis unfolding answers_interaction_def by blast
    qed
    have "deliveries (new @ tail) = map fst (acknowledged (new @ tail))"
      using del d by (simp add: map_filter_append)
    moreover have "actives (new @ tail) = [Some interaction_id, None]" using act d by (simp add: map_filter_append)
    ultimately show ?thesis
      using log accepted id by (intro exI [of _ "new @ tail"]) simp
  }
qed

definition demo_decision :: turn_interaction_response_dispatch where
  "demo_decision =
     \<lparr> ti_request_id = Some ''r1'', ti_command_id = ''c1'',
       ti_interaction_id = turn_interaction_id plain_wire method_permissions (JNum (PosInt 7)) demo_request,
       ti_response = Approval (JStr ''accept''), ti_auto_resolved = False \<rparr>"

definition demo_asked :: aworld where
  "demo_asked = (demo_app [''other''])
     \<lparr>a_serde := serde.truncate plain_wire,
       a_recv := (\<lambda>k. if k < 6 then Delivered (demo_decision\<lparr>ti_command_id := ''c0''\<rparr>) else Delivered demo_decision)\<rparr>"

theorem decisions_are_settled_witness:
  "\<exists>new w'. run_state (handle_app_server_turn_request 9 (JNum (PosInt 7)) method_permissions demo_request ''t1'' ''u1'' ''c1''
              demo_limits 4 True) demo_asked = (Inr True, w')
     \<and> a_log w' = new \<and> deliveries new = map fst (acknowledged new) \<and> (demo_decision, True) \<in> set (acknowledged new)"
proof -
  let ?w = "demo_asked"
  let ?run = "run_state (handle_app_server_turn_request 9 (JNum (PosInt 7)) method_permissions demo_request ''t1'' ''u1'' ''c1''
              demo_limits 4 True) ?w"
  have ok: "fst ?run = Inr True" and acked: "(demo_decision, True) \<in> set (acknowledged (a_log (snd ?run)))"
    by code_simp+
  have run: "?run = (Inr True, snd ?run)" using ok by (cases ?run) simp
  have w: "\<forall>k. \<not> a_poisoned ?w k" "a_log ?w = []" by (simp_all add: demo_asked_def demo_app_def)
  from decisions_are_settled [OF run w(1)] obtain new where
    "a_log (snd ?run) = new" "deliveries new = map fst (acknowledged new)"
    unfolding w(2) by auto
  with run acked show ?thesis by auto
qed

end
