(* ===== verification/App_Server_Ends.thy ===== *)
theory App_Server_Ends
  imports App_Server_Deliveries
begin

text \<open>
  Waiting ends: with a clock that passes the deadline of a command and a channel that falls
  silent, fuel beyond the number of questions until then is enough for every loop of the wait.
\<close>

subsection \<open>Runs that do not run out of fuel\<close>

definition silent_after :: "nat \<Rightarrow> command_limits \<Rightarrow> aworld \<Rightarrow> bool" where
  "silent_after N l w \<longleftrightarrow> (\<forall>k \<ge> N. cl_deadline l \<le> a_now w k) \<and> (\<forall>k \<ge> N. \<forall>d. a_recv w k \<noteq> Delivered d)"

definition ends :: "nat \<Rightarrow> command_limits \<Rightarrow> 'a rpc \<Rightarrow> bool" where
  "ends N l m \<longleftrightarrow> (\<forall>w. silent_after N l w \<longrightarrow> fst (run_state m w) \<noteq> Inl RFuel)"

lemma silent_env: "silent_after N l w \<Longrightarrow> env w' = env w \<Longrightarrow> silent_after N l w'"
  unfolding silent_after_def by (metis env_simps(2,3))

lemma silent_keeps: "silent_after N l w \<Longrightarrow> logs P w w' \<Longrightarrow> silent_after N l w'"
  by (erule logsE) (rule silent_env)

text \<open>Whatever it logs, a run keeps the world's environment.\<close>


abbreviation steady :: "(aworld, 'a) state \<Rightarrow> bool" where
  "steady m \<equiv> rl.keeps (\<lambda>_. True) m"

lemma ends_tryE:
  assumes m: "steady m" "ends N l m" and f: "\<And>x. ends N l (f x)"
  shows "ends N l (tryE m f)"
  unfolding ends_def
proof (intro allI impI)
  fix w
  assume s: "silent_after N l w"
  obtain x w1 where x: "run_state m w = (x, w1)" by fastforce
  have s1: "silent_after N l w1" using s rl.keepsE [OF m(1) x] by (rule silent_keeps)
  show "fst (run_state (tryE m f) w) \<noteq> Inl RFuel"
  proof (cases x)
    case (Inl e)
    with m(2) s x show ?thesis by (fastforce simp: ends_def)
  next
    case (Inr v)
    with f [of v] s1 x show ?thesis by (simp add: ends_def)
  qed
qed

lemma ends_bind:
  assumes m: "steady m" and f: "\<And>x. ends N l (f x)"
  shows "ends N l (State_Monad.bind m f)"
  unfolding ends_def
proof (intro allI impI)
  fix w
  assume s: "silent_after N l w"
  obtain x w1 where x: "run_state m w = (x, w1)" by fastforce
  have "silent_after N l w1" using s rl.keepsE [OF m x] by (rule silent_keeps)
  with f [of x] x show "fst (run_state (State_Monad.bind m f) w) \<noteq> Inl RFuel" by (simp add: ends_def)
qed

lemma ends_results:
  "ends N l (rok x)" "ends N l (rfail m)" "e \<noteq> RFuel \<Longrightarrow> ends N l (rfault e)" "ends N l (rresult r)" "ends N l (runless o')"
  by (auto simp: ends_def split: sum.split option.split)

lemma ends_if: "(b \<Longrightarrow> ends N l m) \<Longrightarrow> (\<not> b \<Longrightarrow> ends N l n) \<Longrightarrow> ends N l (if b then m else n)"
  by simp

lemma ends_option:
  "(y = None \<Longrightarrow> ends N l m) \<Longrightarrow> (\<And>x. y = Some x \<Longrightarrow> ends N l (f x)) \<Longrightarrow> ends N l (case y of None \<Rightarrow> m | Some x \<Rightarrow> f x)"
  by (cases y) simp_all

text \<open>A loop whose rounds go on only before the last question of interest, each asking at least one.\<close>

lemma ends_loopE:
  assumes body: "\<And>b. steady (body b)"
    and ends: "\<And>b. ends N l (body b)"
    and goes: "\<And>b w b' w'. silent_after N l w \<Longrightarrow> run_state (body b) w = (Inr (Inl b'), w') \<Longrightarrow> a_tick w < N \<and> a_tick w < a_tick w'"
    and fuel: "N < fuel"
  shows "ends N l (loopE fuel RFuel body b)"
  unfolding ends_def
proof (intro allI impI)
  fix w
  assume s: "silent_after N l w"
  obtain r w' where r: "run_state (loopE fuel RFuel body b) w = (r, w')" by fastforce
  have "r \<noteq> Inl RFuel"
  proof (rule loopE_returns [where I = "\<lambda>b. silent_after N l" and m = "\<lambda>b w. N - a_tick w", OF _ _ s _ r])
    show "silent_after N l w2 \<and> N - a_tick w2 < N - a_tick w1"
      if "run_state (body b1) w1 = (Inr (Inl b2), w2)" "silent_after N l w1" for b1 w1 b2 w2
      using goes [OF that(2,1)] silent_keeps [OF that(2) rl.keepsE [OF body that(1)]] by auto
    show "\<not> silent_after N l w1" if "run_state (body b1) w1 = (Inl RFuel, w2)" for b1 w1 w2
      using ends [of b1] that by (auto simp: ends_def)
    show "N - a_tick w < fuel" using fuel by simp
  qed
  with r show "fst (run_state (loopE fuel RFuel body b) w) \<noteq> Inl RFuel" by simp
qed

lemmas ends_intros = ends_results ends_tryE ends_bind ends_if ends_option
lemmas steady_intros = log_intros keeps_set_active keeps_send_event keeps_acknowledge keeps_auto_deadline keeps_receive
  keeps_try_receive keeps_wait_for_delivery keeps_take keeps_recv_delivery keeps_recv_case

lemma ends_budget: "ends N l (ensure_app_server_command_budget l')"
  by (auto simp: ends_def ensure_app_server_command_budget_def app_server_command_interruption_def rnow_def)

text \<open>A budget that is left: the deadline has not passed when it was looked at.\<close>

lemma budget_left:
  assumes "silent_after N l w" and "run_state (ensure_app_server_command_budget l) w = (Inr u, w')"
  shows "a_tick w < N \<and> a_tick w < a_tick w'"
proof -
  have c: "\<not> a_cancel w (a_tick w)" and t: "\<not> cl_deadline l \<le> a_now w (Suc (a_tick w))"
    and w': "w' = w\<lparr>a_tick := Suc (Suc (a_tick w))\<rparr>"
    using assms(2)
    by (auto simp: ensure_app_server_command_budget_def app_server_command_interruption_def rnow_def split: if_splits)
  have "\<not> N \<le> Suc (a_tick w)" using assms(1) t unfolding silent_after_def by blast
  then show ?thesis using w' by simp
qed

subsection \<open>The wait for a decision\<close>

lemma tryE_goes:
  assumes "run_state (tryE m f) w = (Inr y, w')" and "steady m" and "\<And>x. steady (f x)"
  obtains x w1 where "run_state m w = (Inr x, w1)" "run_state (f x) w1 = (Inr y, w')" "a_tick w \<le> a_tick w1" "a_tick w1 \<le> a_tick w'"
proof -
  obtain r w1 where r: "run_state m w = (r, w1)" by fastforce
  with assms(1) obtain x where x: "r = Inr x" by (cases r) auto
  from assms(1) r x have f: "run_state (f x) w1 = (Inr y, w')" by simp
  have "a_tick w \<le> a_tick w1" using rl.keepsE [OF assms(2) r] by (simp add: logs_def)
  moreover have "a_tick w1 \<le> a_tick w'" using rl.keepsE [OF assms(3) f] by (simp add: logs_def)
  ultimately show ?thesis using that r x f by blast
qed

lemma ends_take: "ends N l (take_delivery command_id interaction_id d)"
  by (simp add: ends_def take_delivery_def)

lemma ends_recv_case:
  "(\<And>d. ends N l (f d)) \<Longrightarrow> ends N l n \<Longrightarrow> ends N l c \<Longrightarrow>
     ends N l (case r of Delivered d \<Rightarrow> f d | NothingYet \<Rightarrow> n | ChannelClosed \<Rightarrow> c)"
  by (cases r) simp_all

lemma steady_try_round: "steady (try_receive_round command_id interaction_id)"
  unfolding try_receive_round_def by (intro steady_intros TrueI)

lemma ends_try_receive: "N < fuel \<Longrightarrow> ends N l (try_receive_turn_interaction_response fuel command_id interaction_id)"
  unfolding try_receive_turn_interaction_response_def
proof (rule ends_loopE [OF steady_try_round])
  show "ends N l (try_receive_round command_id interaction_id)"
    unfolding try_receive_round_def by (intro ends_intros steady_intros ends_recv_case ends_take TrueI)
  fix b :: unit and w b' w'
  assume s: "silent_after N l w" and run: "run_state (try_receive_round command_id interaction_id) w = (Inr (Inl b'), w')"
  obtain d where d: "a_recv w (a_tick w) = Delivered d"
    using run by (cases "a_recv w (a_tick w)") (auto simp: try_receive_round_def recv_delivery_def)
  then have "\<not> N \<le> a_tick w" using s unfolding silent_after_def by blast
  moreover have "a_tick w < a_tick w'"
    using run d by (auto simp: try_receive_round_def recv_delivery_def take_delivery_def split: if_splits)
  ultimately show "a_tick w < N \<and> a_tick w < a_tick w'" by simp
qed

lemma steady_receive_round: "steady (receive_round fuel command_id interaction_id l auto)"
  unfolding receive_round_def Let_def by (intro steady_intros TrueI)

lemma ends_wait: "ends N l (wait_for_delivery command_id interaction_id wait)"
  unfolding wait_for_delivery_def by (intro ends_intros steady_intros ends_recv_case ends_take TrueI)

lemma ends_receive: "N < fuel \<Longrightarrow> ends N l (receive_turn_interaction_response fuel command_id interaction_id l auto)"
  unfolding receive_turn_interaction_response_def
proof (rule ends_loopE [OF steady_receive_round])
  assume fuel: "N < fuel"
  show "ends N l (receive_round fuel command_id interaction_id l auto)"
    unfolding receive_round_def Let_def
    by (intro ends_intros steady_intros ends_budget ends_try_receive fuel ends_wait TrueI)
  fix b :: unit and w b' w'
  assume s: "silent_after N l w" and run: "run_state (receive_round fuel command_id interaction_id l auto) w = (Inr (Inl b'), w')"
  from run obtain u w1 where u: "run_state (ensure_app_server_command_budget l) w = (Inr u, w1)" and t: "a_tick w1 \<le> a_tick w'"
    unfolding receive_round_def Let_def by (rule tryE_goes) (intro steady_intros TrueI)+
  from budget_left [OF s u] t show "a_tick w < N \<and> a_tick w < a_tick w'" by simp
qed

subsection \<open>The wait for the turn\<close>

lemma ends_set_active: "ends N l (set_active_turn_interaction i)"
  unfolding set_active_turn_interaction_def by (intro ends_intros steady_intros TrueI)

lemma ends_send_event: "ends N l (send_event e)"
  unfolding send_event_def by (intro ends_intros steady_intros TrueI)

lemma ends_send: "ends N l (send_value v)"
  unfolding send_value_def by (intro ends_intros steady_intros TrueI)

lemma ends_configure: "ends N l (configure_socket_timeout d)"
  unfolding configure_socket_timeout_def by (intro ends_intros steady_intros TrueI)

lemma ends_parse: "ends N l (parse_value t)"
  unfolding parse_value_def by (intro ends_intros steady_intros TrueI)

lemma steady_interrupt: "steady (send_app_server_turn_interrupt i thread_id turn_id)"
  unfolding send_app_server_turn_interrupt_def by (intro steady_intros TrueI)

lemma steady_answer: "steady (answer_turn_request request_id m params payload x)"
  unfolding answer_turn_request_def by (intro steady_intros TrueI)

lemma steady_await: "steady (await_decision fuel m params command_id event interaction_id l)"
  unfolding await_decision_def by (intro steady_intros TrueI)

lemma ends_answer: "ends N l (answer_turn_request request_id m params payload x)"
proof -
  have "fst (run_state (answer_turn_request request_id m params payload x) w) \<noteq> Inl RFuel" for w
  proof (cases "app_server_turn_interaction_result m params (ti_response (fst x))")
    case (Inl e)
    then show ?thesis by (simp add: answer_turn_request_def run_acknowledge)
  next
    case (Inr result)
    then show ?thesis
      by (cases "a_send w (a_tick w)")
        (auto simp: answer_turn_request_def run_acknowledge run_send_value send_event_def split: sum.split if_splits)
  qed
  then show ?thesis by (simp add: ends_def)
qed

text \<open>The decision is awaited until it comes, the budget is spent, or the channel is gone.\<close>

definition ends_both :: "nat \<Rightarrow> command_limits \<Rightarrow> (rpc_fault + 'a) rpc \<Rightarrow> bool" where
  "ends_both N l m \<longleftrightarrow> (\<forall>w. silent_after N l w \<longrightarrow> fst (run_state m w) \<notin> {Inl RFuel, Inr (Inl RFuel)})"

lemma ends_both_tryE:
  assumes "steady m" "ends N l m" and "\<And>x. ends_both N l (f x)"
  shows "ends_both N l (tryE m f)"
  unfolding ends_both_def
proof (intro allI impI)
  fix w
  assume s: "silent_after N l w"
  obtain x w1 where x: "run_state m w = (x, w1)" by fastforce
  have s1: "silent_after N l w1" using s rl.keepsE [OF assms(1) x] by (rule silent_keeps)
  show "fst (run_state (tryE m f) w) \<notin> {Inl RFuel, Inr (Inl RFuel)}"
  proof (cases x)
    case (Inl e)
    with assms(2) s x show ?thesis by (fastforce simp: ends_def)
  next
    case (Inr v)
    with assms(3) [of v] s1 x show ?thesis by (simp add: ends_both_def)
  qed
qed

lemma ends_both_bind:
  assumes "steady m" and "ends N l m" and "\<And>x. x \<noteq> Inl RFuel \<Longrightarrow> ends_both N l (f x)"
  shows "ends_both N l (State_Monad.bind m f)"
  unfolding ends_both_def
proof (intro allI impI)
  fix w
  assume s: "silent_after N l w"
  obtain x w1 where x: "run_state m w = (x, w1)" by fastforce
  have "silent_after N l w1" using s rl.keepsE [OF assms(1) x] by (rule silent_keeps)
  moreover have "x \<noteq> Inl RFuel" using assms(2) s x by (fastforce simp: ends_def)
  ultimately show "fst (run_state (State_Monad.bind m f) w) \<notin> {Inl RFuel, Inr (Inl RFuel)}"
    using assms(3) [of x] x by (simp add: ends_both_def)
qed

lemma ends_both_quiet_bind:
  "steady m \<Longrightarrow> (\<And>x. ends_both N l (f x)) \<Longrightarrow> ends_both N l (State_Monad.bind m f)"
proof -
  assume m: "steady m" and f: "\<And>x. ends_both N l (f x)"
  have "fst (run_state (State_Monad.bind m f) w) \<notin> {Inl RFuel, Inr (Inl RFuel)}" if s: "silent_after N l w" for w
  proof -
    obtain x w1 where x: "run_state m w = (x, w1)" by fastforce
    have "silent_after N l w1" using s rl.keepsE [OF m x] by (rule silent_keeps)
    with f [of x] x show ?thesis by (simp add: ends_both_def)
  qed
  then show ?thesis by (simp add: ends_both_def)
qed

lemma ends_both_results: "x \<noteq> Inl RFuel \<Longrightarrow> ends_both N l (rok x)" "ends_both N l (rfail e)"
  by (auto simp: ends_both_def)

lemma ends_both_if: "(b \<Longrightarrow> ends_both N l m) \<Longrightarrow> (\<not> b \<Longrightarrow> ends_both N l n) \<Longrightarrow> ends_both N l (if b then m else n)"
  by simp

lemma ends_await: "N < fuel \<Longrightarrow> ends_both N l (await_decision fuel m params command_id event interaction_id l)"
proof -
  assume fuel: "N < fuel"
  have after: "ends_both N l (State_Monad.bind (receive_turn_interaction_response fuel command_id interaction_id l auto)
      (\<lambda>r. tryE (set_active_turn_interaction None) (\<lambda>_. rok r)))" for auto
    by (rule ends_both_bind)
      (intro steady_intros ends_receive fuel ends_both_tryE ends_set_active ends_both_results TrueI; assumption)+
  show ?thesis
    unfolding await_decision_def
    by (intro ends_both_tryE ends_both_if ends_both_quiet_bind after ends_both_results ends_set_active ends_send_event
        steady_intros TrueI)
qed

lemma ends_handle_request:
  assumes fuel: "N < fuel"
  shows "ends N l (handle_app_server_turn_request fuel request_id m params thread_id turn_id command_id l i has_channels)"
proof -
  have after: "fst (run_state (tryE (await_decision fuel m params command_id event interaction_id l) (\<lambda>r.
      (case r of
         Inr x \<Rightarrow> answer_turn_request request_id m params (ev_payload event) x
       | Inl RCancelled \<Rightarrow> do { send_app_server_turn_interrupt i thread_id turn_id; rfault RCancelled }
       | Inl (RTimedOut s) \<Rightarrow> do { send_app_server_turn_interrupt i thread_id turn_id; rfault (RTimedOut s) }
       | Inl e \<Rightarrow> rfault e))) w) \<noteq> Inl RFuel" if s: "silent_after N l w" for event interaction_id w
  proof -
    obtain x w1 where x: "run_state (await_decision fuel m params command_id event interaction_id l) w = (x, w1)" by fastforce
    have s1: "silent_after N l w1" using s rl.keepsE [OF steady_await x] by (rule silent_keeps)
    have x': "x \<notin> {Inl RFuel, Inr (Inl RFuel)}"
      using ends_await [OF fuel, of l m params command_id event interaction_id] s x unfolding ends_both_def by (metis fst_conv)
    consider (early) e where "x = Inl e" | (fault) e where "x = Inr (Inl e)" | (answer) y where "x = Inr (Inr y)"
      by (metis sum.exhaust)
    then show ?thesis
    proof cases
      case early
      with x x' show ?thesis by auto
    next
      case (fault e)
      with x x' show ?thesis by (cases e) (auto simp: send_app_server_turn_interrupt_def)
    next
      case (answer y)
      with x s1 ends_answer [of N l request_id m params "ev_payload event" y] show ?thesis by (simp add: ends_def)
    qed
  qed
  then have after': "ends N l (tryE (await_decision fuel m params command_id event interaction_id l) (\<lambda>r.
      (case r of
         Inr x \<Rightarrow> answer_turn_request request_id m params (ev_payload event) x
       | Inl RCancelled \<Rightarrow> do { send_app_server_turn_interrupt i thread_id turn_id; rfault RCancelled }
       | Inl (RTimedOut s) \<Rightarrow> do { send_app_server_turn_interrupt i thread_id turn_id; rfault (RTimedOut s) }
       | Inl e \<Rightarrow> rfault e)))" for event interaction_id
    unfolding ends_def by blast
  show ?thesis
    unfolding handle_app_server_turn_request_def
    by (intro ends_if ends_bind ends_tryE ends_option ends_results steady_intros after' TrueI)
qed

lemma steady_handle_request:
  "steady (handle_app_server_turn_request fuel request_id m params thread_id turn_id command_id l i has_channels)"
proof -
  have after: "steady (case r of
         Inr x \<Rightarrow> answer_turn_request request_id m params payload x
       | Inl RCancelled \<Rightarrow> do { send_app_server_turn_interrupt i thread_id turn_id; rfault RCancelled }
       | Inl (RTimedOut s) \<Rightarrow> do { send_app_server_turn_interrupt i thread_id turn_id; rfault (RTimedOut s) }
       | Inl e \<Rightarrow> rfault e)" for r :: "rpc_fault + received" and payload
    by (auto intro: steady_answer rl.keeps_bind steady_interrupt keeps_results split: sum.split rpc_fault.split)
  show ?thesis
    unfolding handle_app_server_turn_request_def by (intro steady_intros steady_await after)
qed

lemma handle_message_runs:
  "steady (handle_app_server_turn_message fuel v thread_id turn_id command_id l i has_channels out)"
  "N < fuel \<Longrightarrow> ends N l (handle_app_server_turn_message fuel v thread_id turn_id command_id l i has_channels out)"
  unfolding handle_app_server_turn_message_def handle_turn_notification_def Let_def
  by (intro steady_intros steady_handle_request,
      intro ends_intros steady_intros ends_handle_request steady_handle_request)

lemma ends_read_case:
  "(\<And>t. ends N l (f t)) \<Longrightarrow> ends N l pg \<Longrightarrow> ends N l cl \<Longrightarrow> ends N l ot \<Longrightarrow> (\<And>e. ends N l (rt e)) \<Longrightarrow>
     (\<And>e. ends N l (rf e)) \<Longrightarrow>
     ends N l (case r of ReadMsg (MsgText t) \<Rightarrow> f t | ReadMsg (MsgPing x) \<Rightarrow> pg | ReadMsg MsgClose \<Rightarrow> cl
       | ReadMsg MsgOther \<Rightarrow> ot | ReadTimeout e \<Rightarrow> rt e | ReadFailed e \<Rightarrow> rf e)"
  by (auto split: read_answer.split message.split)

text \<open>The round is a check of the budget, an interrupt when it is spent, and a read.\<close>

definition read_turn ::
  "nat \<Rightarrow> string \<Rightarrow> string \<Rightarrow> string \<Rightarrow> command_limits \<Rightarrow> nat \<Rightarrow> bool
    \<Rightarrow> app_server_turn_output \<Rightarrow> (app_server_turn_output + connector_event list) rpc" where
  "read_turn fuel thread_id turn_id command_id l i has_channels out =
     do { d \<leftarrow> remaining_timeout (cl_timeout l) (cl_deadline l);
          tryE (configure_socket_timeout d) (\<lambda>_.
          do { r \<leftarrow> read_message;
               (case r of
                  ReadMsg (MsgText text) \<Rightarrow>
                    tryE (parse_value text) (\<lambda>v.
                      handle_app_server_turn_message fuel v thread_id turn_id command_id l i has_channels out)
                | ReadMsg (MsgPing x) \<Rightarrow> rok (Inl out)
                | ReadMsg MsgClose \<Rightarrow> rfail ''app-server closed before turn completed''
                | ReadMsg MsgOther \<Rightarrow> rok (Inl out)
                | ReadTimeout e \<Rightarrow> rok (Inl out)
                | ReadFailed e \<Rightarrow> rfail e) }) }"

lemma completion_round_eq:
  "turn_completion_round fuel thread_id turn_id command_id l i has_channels out =
     do { interruption \<leftarrow> app_server_command_interruption l;
          (case interruption of
             Some e \<Rightarrow> do { send_app_server_turn_interrupt i thread_id turn_id; rfault e }
           | None \<Rightarrow> read_turn fuel thread_id turn_id command_id l i has_channels out) }"
  by (simp only: turn_completion_round_def read_turn_def)

lemma read_turn_runs:
  "steady (read_turn fuel thread_id turn_id command_id l i has_channels out)"
  "N < fuel \<Longrightarrow> ends N l (read_turn fuel thread_id turn_id command_id l i has_channels out)"
  unfolding read_turn_def
  by (intro steady_intros keeps_read_case handle_message_runs(1) TrueI,
      intro ends_intros steady_intros ends_configure ends_read_case ends_parse handle_message_runs TrueI)

lemma steady_completion_round: "steady (turn_completion_round fuel thread_id turn_id command_id l i has_channels out)"
  unfolding completion_round_eq by (intro steady_intros steady_interrupt read_turn_runs(1))

lemma run_interruption_fault:
  "run_state (app_server_command_interruption l) w = (x, w1) \<Longrightarrow> x \<noteq> Some RFuel"
  by (auto simp: app_server_command_interruption_def rnow_def split: if_splits)

lemma completion_ends:
  assumes fuel: "N < fuel"
  shows "ends N l (wait_for_app_server_turn_completion fuel thread_id turn_id command_id l max_bytes i has_channels)"
  unfolding wait_for_app_server_turn_completion_def
proof (rule ends_loopE [OF steady_completion_round _ _ fuel])
  fix out
  show "ends N l (turn_completion_round fuel thread_id turn_id command_id l i has_channels out)"
    unfolding ends_def
  proof (intro allI impI)
    fix w
    assume s: "silent_after N l w"
    obtain x w1 where x: "run_state (app_server_command_interruption l) w = (x, w1)" by fastforce
    have s1: "silent_after N l w1" using s rl.keepsE [OF keeps_interruption x] by (rule silent_keeps)
    show "fst (run_state (turn_completion_round fuel thread_id turn_id command_id l i has_channels out) w) \<noteq> Inl RFuel"
    proof (cases x)
      case None
      with x s1 read_turn_runs(2) [OF fuel] show ?thesis unfolding completion_round_eq ends_def by simp
    next
      case (Some e)
      with run_interruption_fault [OF x] x show ?thesis
        by (simp add: completion_round_eq send_app_server_turn_interrupt_def)
    qed
  qed
next
  fix out :: app_server_turn_output and w out' w'
  assume s: "silent_after N l w"
    and run: "run_state (turn_completion_round fuel thread_id turn_id command_id l i has_channels out) w = (Inr (Inl out'), w')"
  obtain x w1 where x: "run_state (app_server_command_interruption l) w = (x, w1)" by fastforce
  have none: "x = None"
    using run x by (cases x) (simp_all add: completion_round_eq send_app_server_turn_interrupt_def)
  with run x have r: "run_state (read_turn fuel thread_id turn_id command_id l i has_channels out) w1 = (Inr (Inl out'), w')"
    by (simp add: completion_round_eq)
  have "run_state (ensure_app_server_command_budget l) w = (Inr (), w1)"
    using x none by (simp add: ensure_app_server_command_budget_def)
  from budget_left [OF s this] have "a_tick w < N \<and> a_tick w < a_tick w1" .
  moreover have "a_tick w1 \<le> a_tick w'" using rl.keepsE [OF read_turn_runs(1) r] by (simp add: logs_def)
  ultimately show "a_tick w < N \<and> a_tick w < a_tick w'" by simp
qed

text \<open>
  C25: A wait for a turn ends. When from the N-th question on the clock has passed the command's
  deadline and the channel of decisions brings nothing more, then fuel beyond N is enough: the
  wait for the turn, with all the requests for decisions it handles, answers with events or with
  an error, never by running out of fuel, however many messages the app server keeps sending.
\<close>
theorem turn_wait_ends:
  assumes "N < fuel" and "\<forall>k \<ge> N. cl_deadline l \<le> a_now w k" and "\<forall>k \<ge> N. \<forall>d. a_recv w k \<noteq> Delivered d"
    and "run_state (wait_for_app_server_turn_completion fuel thread_id turn_id command_id l max_bytes i has_channels) w = (r, w')"
  shows "r \<noteq> Inl RFuel"
  using completion_ends [OF assms(1), of l thread_id turn_id command_id max_bytes i has_channels] assms(2-4)
  unfolding ends_def silent_after_def by (metis fst_conv)

theorem turn_wait_ends_witness:
  "\<exists>w'. run_state (wait_for_app_server_turn_completion 31 ''t1'' ''u1'' ''c1'' demo_limits 100 4 True)
          ((demo_app [''page''])\<lparr>a_now := (\<lambda>k. if k < 30 then k else secs 6)\<rparr>) = (Inl (RTimedOut 5), w')
     \<and> Inl (RTimedOut 5) \<noteq> (Inl RFuel :: rpc_fault + connector_event list)"
proof -
  let ?w = "(demo_app [''page''])\<lparr>a_now := (\<lambda>k. if k < 30 then k else secs 6)\<rparr>"
  let ?run = "run_state (wait_for_app_server_turn_completion 31 ''t1'' ''u1'' ''c1'' demo_limits 100 4 True) ?w"
  have "fst ?run = Inl (RTimedOut 5)" by code_simp
  then have run: "?run = (Inl (RTimedOut 5), snd ?run)" by (cases ?run) simp
  have "(30 :: nat) < 31" "\<forall>k \<ge> 30. cl_deadline demo_limits \<le> a_now ?w k" "\<forall>k \<ge> 30. \<forall>d. a_recv ?w k \<noteq> Delivered d"
    by (simp_all add: demo_limits_def demo_app_def secs_def)
  from turn_wait_ends [OF this run] run show ?thesis by blast
qed

end
