(* ===== verification/Calendar.thy ===== *)
theory Calendar
  imports Inventory_Text
begin

text \<open>
  The dates \<open>civil_from_days\<close> computes are those of the Gregorian calendar: the reference goes
  from a day to the next by the lengths of the months and the rule of leap years, and the
  computation by divisions agrees with it from 1 January 1970 on.
\<close>

subsection \<open>The reference\<close>

definition is_leap :: "int \<Rightarrow> bool" where
  "is_leap y \<longleftrightarrow> y mod 4 = 0 \<and> (y mod 100 \<noteq> 0 \<or> y mod 400 = 0)"

definition month_length :: "int \<Rightarrow> int \<Rightarrow> int" where
  "month_length y m =
     (if m = 2 then (if is_leap y then 29 else 28) else if m \<in> {4, 6, 9, 11} then 30 else 31)"

definition next_date :: "int \<times> int \<times> int \<Rightarrow> int \<times> int \<times> int" where
  "next_date = (\<lambda>(y, m, d).
     if d < month_length y m then (y, m, d + 1) else if m < 12 then (y, m + 1, 1) else (y + 1, 1, 1))"

subsection \<open>The year within an era\<close>

definition year_of :: "int \<Rightarrow> int" where
  "year_of doe = (doe - doe div 1460 + doe div 36524 - doe div 146096) div 365"

text \<open>Where a year starts; an era has one day more than its 400 years of this measure.\<close>

definition year_start :: "int \<Rightarrow> int" where
  "year_start y = 365 * y + y div 4 - y div 100 + y div 400"

lemma div_next: "0 < k \<Longrightarrow> (x + 1) div k \<in> {x div k, x div k + (1 :: int)}"
proof -
  assume k: "0 < k"
  then have "x div k \<le> (x + 1) div k" by (simp add: zdiv_mono1)
  moreover have "(x + 1) div k \<le> (x + k) div k" using k by (intro zdiv_mono1) simp_all
  moreover have "(x + k) div k = x div k + 1" using k by simp
  ultimately show ?thesis by auto
qed

lemma year_of_step: "year_of x \<le> year_of (x + 1)"
proof -
  define q q' where "q = x div 36524" and "q' = (x + 1) div 36524"
  have q': "q' \<in> {q, q + 1}" using div_next [of 36524 x] by (simp add: q_def q'_def)
  have "x div (36524 * 4) = q div 4" "(x + 1) div (36524 * 4) = q' div 4"
    unfolding q_def q'_def by (rule zdiv_zmult2_eq, simp)+
  then have "x div 146096 = q div 4" "(x + 1) div 146096 = q' div 4" by simp_all
  moreover have "(x + 1) div 1460 \<le> x div 1460 + 1" using div_next [of 1460 x] by auto
  moreover have "q' div 4 - q div 4 \<le> q' - q" using q' div_next [of 4 q] by auto
  moreover have "x - a + q - c \<le> x + 1 - a' + q' - c'" if "c = e" "c' = e'" "a' \<le> a + 1" "e' - e \<le> q' - q" for a a' c c' e e'
    using that by linarith
  ultimately have "x - x div 1460 + q - x div 146096 \<le> x + 1 - (x + 1) div 1460 + q' - (x + 1) div 146096" by blast
  then have "x - x div 1460 + x div 36524 - x div 146096
      \<le> x + 1 - (x + 1) div 1460 + (x + 1) div 36524 - (x + 1) div 146096" unfolding q_def q'_def .
  then show ?thesis unfolding year_of_def by (rule zdiv_mono1) simp
qed

lemma year_of_mono: "a \<le> b \<Longrightarrow> year_of a \<le> year_of b"
proof -
  have "year_of a \<le> year_of (a + int n)" for n
  proof (induction n)
    case (Suc n)
    with year_of_step [of "a + int n"] show ?case by (simp add: ac_simps)
  qed simp
  from this [of "nat (b - a)"] show "a \<le> b \<Longrightarrow> year_of a \<le> year_of b" by simp
qed

text \<open>The ends of the years, checked one by one.\<close>

lemma year_ends: "\<forall>y \<in> set [0..399]. year_of (year_start y) = y \<and> year_of (year_start (y + 1) - 1) = y"
  by code_simp

lemma year_ofI:
  assumes "0 \<le> y" "y < 400" "year_start y \<le> doe" "doe < year_start (y + 1)"
  shows "year_of doe = y"
proof -
  have "y \<in> set [0..399]" using assms by simp
  with year_ends have "year_of (year_start y) = y" "year_of (year_start (y + 1) - 1) = y" by blast+
  with year_of_mono [of "year_start y" doe] year_of_mono [of doe "year_start (y + 1) - 1"] assms show ?thesis by simp
qed

lemma in_some_year:
  assumes "0 \<le> doe" "doe < 146097"
  obtains y where "0 \<le> y" "y < 400" "year_start y \<le> doe" "doe < year_start (y + 1)"
proof -
  have found: "doe < year_start (int n) \<Longrightarrow> \<exists>y. 0 \<le> y \<and> y < int n \<and> year_start y \<le> doe \<and> doe < year_start (y + 1)" for n
  proof (induction n)
    case 0
    with assms show ?case by (simp add: year_start_def)
  next
    case (Suc n)
    show ?case
    proof (cases "doe < year_start (int n)")
      case True
      with Suc.IH show ?thesis by force
    next
      case False
      with Suc.prems show ?thesis by (intro exI [of _ "int n"]) (simp add: add.commute)
    qed
  qed
  have "year_start (int 400) = 146097" by (simp add: year_start_def)
  then have "doe < year_start (int 400)" using assms(2) by linarith
  from found [OF this] obtain y where "0 \<le> y" "y < int 400" "year_start y \<le> doe" "doe < year_start (y + 1)" by blast
  then show thesis by (intro that [of y]) simp_all
qed

lemma year_length:
  "0 \<le> y \<Longrightarrow> y < 400 \<Longrightarrow> year_start (y + 1) - year_start y = (if is_leap (y + 1) then 366 else 365)"
proof -
  have "\<forall>y \<in> set [0..399]. year_start (y + 1) - year_start y = (if is_leap (y + 1) then 366 else 365)"
    by code_simp
  then show "0 \<le> y \<Longrightarrow> y < 400 \<Longrightarrow> ?thesis" by simp
qed

subsection \<open>The day within a year\<close>

text \<open>Years of the computation start on 1 March.\<close>

definition month_day :: "int \<Rightarrow> int \<times> int" where
  "month_day doy =
     (let mp = (5 * doy + 2) div 153
      in (mp + (if mp < 10 then 3 else -9), doy - (153 * mp + 2) div 5 + 1))"

definition date_of :: "int \<Rightarrow> int \<Rightarrow> int \<times> int \<times> int" where
  "date_of y doy = (case month_day doy of (m, d) \<Rightarrow> (if m \<le> 2 then y + 1 else y, m, d))"

lemma is_leap_era: "is_leap (y + era * 400) = is_leap y"
proof -
  have "(y + era * 400) mod 4 = y mod 4" using mod_mult_self1 [of y "era * 100" 4] by (simp add: mult.assoc)
  moreover have "(y + era * 400) mod 100 = y mod 100" using mod_mult_self1 [of y "era * 4" 100] by (simp add: mult.assoc)
  ultimately show ?thesis by (simp add: is_leap_def)
qed

text \<open>The days but the last two of February, checked one by one.\<close>

lemma month_days:
  "\<forall>doy \<in> set [0..363]. (case month_day doy of (m, d) \<Rightarrow>
     (m \<noteq> 2 \<longrightarrow> month_day (doy + 1) = (if d < month_length 1 m then (m, d + 1) else if m < 12 then (m + 1, 1) else (1, 1)))
     \<and> (m = 2 \<longrightarrow> month_day (doy + 1) = (m, d + 1) \<and> d < 28) \<and> 1 \<le> m \<and> m \<le> 12)"
  by code_simp

lemma february: "month_day 0 = (3, 1)" "month_day 364 = (2, 28)" "month_day 365 = (2, 29)"
  by code_simp+

lemma next_in_year:
  assumes "0 \<le> doy" "doy < 364"
  shows "next_date (date_of y doy) = date_of y (doy + 1)"
proof -
  obtain m d where md: "month_day doy = (m, d)" by fastforce
  have "doy \<in> set [0..363]" using assms by simp
  with month_days md have h: "m \<noteq> 2 \<longrightarrow> month_day (doy + 1)
        = (if d < month_length 1 m then (m, d + 1) else if m < 12 then (m + 1, 1) else (1, 1))"
      "m = 2 \<longrightarrow> month_day (doy + 1) = (m, d + 1) \<and> d < 28" "1 \<le> m" "m \<le> 12"
    by fastforce+
  have len: "m \<noteq> 2 \<Longrightarrow> month_length z m = month_length 1 m" for z by (simp add: month_length_def)
  show ?thesis
  proof (cases "m = 2")
    case True
    with h md show ?thesis by (simp add: date_of_def next_date_def month_length_def)
  next
    case False
    with h md len [of "if m \<le> 2 then y + 1 else y"] show ?thesis
      by (auto simp: date_of_def next_date_def)
  qed
qed

lemma next_leap_day: "is_leap (y + 1) \<Longrightarrow> next_date (date_of y 364) = date_of y 365"
  and next_year_leap: "is_leap (y + 1) \<Longrightarrow> next_date (date_of y 365) = date_of (y + 1) 0"
  and next_year: "\<not> is_leap (y + 1) \<Longrightarrow> next_date (date_of y 364) = date_of (y + 1) 0"
  by (simp_all add: date_of_def february next_date_def month_length_def)

subsection \<open>The days\<close>

lemma era_div: "tdiv (if 0 \<le> s then s else s - 146096) 146097 = s div 146097"
proof (cases "0 \<le> s")
  case True
  then show ?thesis by (simp add: tdiv_def)
next
  case False
  then have "tdiv (if 0 \<le> s then s else s - 146096) 146097 = - ((146096 - s) div 146097)" by (simp add: tdiv_def)
  also have "\<dots> = s div 146097"
  proof -
    define e r where "e = s div 146097" and "r = s mod 146097"
    have s: "s = e * 146097 + r" and r: "0 \<le> r" "r < 146097" by (simp_all add: e_def r_def)
    have "(146096 - s) div 146097 = ((146096 - r) + (- e) * 146097) div 146097" using s by (simp add: algebra_simps)
    also have "\<dots> = - e + (146096 - r) div 146097" by (rule div_mult_self1) simp
    also have "(146096 - r) div 146097 = 0" using r by (intro div_pos_pos_trivial) simp_all
    finally show ?thesis by (simp add: e_def)
  qed
  finally show ?thesis .
qed

lemma year_starts: "\<forall>y \<in> set [0..399]. 0 \<le> year_start y \<and> year_start (y + 1) \<le> 146097"
  by code_simp

lemma civil_by_year:
  "civil_from_days days =
     (let era = (days + 719468) div 146097; doe = days + 719468 - era * 146097; yoe = year_of doe
      in date_of (yoe + era * 400) (doe - (365 * yoe + yoe div 4 - yoe div 100)))"
  unfolding civil_from_days_def era_div Let_def year_of_def date_of_def month_day_def prod.case ..

text \<open>A day as a year of the computation, in which the new year is in March, and a day of it.\<close>

lemma civil_from_days_eq:
  assumes y: "0 \<le> y" "y < 400" and d: "0 \<le> doy" "doy < (if is_leap (y + 1) then 366 else 365)"
    and days: "days + 719468 = era * 146097 + year_start y + doy"
  shows "civil_from_days days = date_of (y + era * 400) doy"
proof -
  have "y \<in> set [0..399]" using y by simp
  then have start: "0 \<le> year_start y" "year_start (y + 1) \<le> 146097" using year_starts by blast+
  have doe: "year_start y \<le> year_start y + doy" "year_start y + doy < year_start (y + 1)"
    using d year_length [OF y] by simp_all
  have s: "days + 719468 = (year_start y + doy) + era * 146097" using days by simp
  have "(days + 719468) div 146097 = era + (year_start y + doy) div 146097"
    unfolding s by (rule div_mult_self1) simp
  also have "(year_start y + doy) div 146097 = 0"
    using start doe d(1) by (intro div_pos_pos_trivial) simp_all
  finally have era: "(days + 719468) div 146097 = era" by simp
  have rest: "days + 719468 - era * 146097 = year_start y + doy" using s by simp
  have year: "year_of (year_start y + doy) = y" using y doe by (rule year_ofI)
  have "y div 400 = 0" using y by (rule div_pos_pos_trivial)
  then have doy: "year_start y + doy - (365 * y + y div 4 - y div 100) = doy" by (simp add: year_start_def)
  show ?thesis
    using civil_by_year [of days] unfolding era rest year Let_def doy .
qed

lemma day_split:
  obtains era y doy where "0 \<le> y" "y < 400" "0 \<le> doy" "doy < (if is_leap (y + 1) then 366 else 365)"
    "days + 719468 = era * 146097 + year_start y + doy"
proof -
  define era doe where "era = (days + 719468) div 146097" and "doe = (days + 719468) mod 146097"
  have "0 \<le> doe" "doe < 146097" by (simp_all add: doe_def)
  then obtain y where y: "0 \<le> y" "y < 400" "year_start y \<le> doe" "doe < year_start (y + 1)" by (rule in_some_year)
  have "days + 719468 = era * 146097 + year_start y + (doe - year_start y)" by (simp add: era_def doe_def)
  with y year_length [OF y(1,2)] show thesis by (intro that [of y "doe - year_start y"]) simp_all
qed

lemma civil_next: "civil_from_days (days + 1) = next_date (civil_from_days days)"
proof -
  obtain era y doy where y: "0 \<le> y" "y < 400" and d: "0 \<le> doy" "doy < (if is_leap (y + 1) then 366 else 365)"
      and days: "days + 719468 = era * 146097 + year_start y + doy" by (rule day_split)
  note here = civil_from_days_eq [OF y d days]
  have leap: "is_leap (y + era * 400 + 1) \<longleftrightarrow> is_leap (y + 1)"
    using is_leap_era [of "y + 1" era] by (simp add: ac_simps)
  show ?thesis
  proof (cases "doy + 1 < (if is_leap (y + 1) then 366 else 365)")
    case True
    have "civil_from_days (days + 1) = date_of (y + era * 400) (doy + 1)"
      using y d(1) True days by (intro civil_from_days_eq) simp_all
    moreover have "next_date (date_of (y + era * 400) doy) = date_of (y + era * 400) (doy + 1)"
    proof (cases "doy < 364")
      case True
      with d(1) show ?thesis by (rule next_in_year)
    next
      case False
      with True have "doy = 364" "is_leap (y + 1)" by (auto split: if_splits)
      with leap next_leap_day show ?thesis by simp
    qed
    ultimately show ?thesis using here by simp
  next
    case False
    with d have last: "doy = (if is_leap (y + 1) then 365 else 364)" by (auto split: if_splits)
    have next_start: "year_start y + doy + 1 = year_start (y + 1)"
      using last year_length [OF y] by (auto split: if_splits)
    have next_days: "(days + 1) + 719468 = era * 146097 + year_start (y + 1)" using days next_start by simp
    have len: "(0 :: int) < (if is_leap z then 366 else 365)" for z by simp
    have "civil_from_days (days + 1) = date_of (y + era * 400 + 1) 0"
    proof (cases "y = 399")
      case True
      have "(days + 1) + 719468 = (era + 1) * 146097 + year_start 0 + 0"
        using next_days True by (simp add: year_start_def algebra_simps)
      from civil_from_days_eq [OF _ _ _ len this] True show ?thesis by (simp add: algebra_simps)
    next
      case False
      have "(days + 1) + 719468 = era * 146097 + year_start (y + 1) + 0" using next_days by simp
      from civil_from_days_eq [OF _ _ _ len this] y False show ?thesis by (simp add: ac_simps)
    qed
    moreover have "next_date (date_of (y + era * 400) doy) = date_of (y + era * 400 + 1) 0"
      using last leap next_year next_year_leap by (auto split: if_splits)
    ultimately show ?thesis using here by simp
  qed
qed

text \<open>
  C16: The dates are the calendar's. The conversion of days since the epoch agrees with counting
  days in the Gregorian calendar: day 0 is 1 January 1970, and each day, before the epoch as well
  as after it, is followed by the next date by the lengths of the months and the rule of leap
  years.
\<close>
theorem dates_are_gregorian:
  "civil_from_days (int n) = (next_date ^^ n) (1970, 1, 1) \<and> next_date (civil_from_days (- int n - 1)) = civil_from_days (- int n)"
proof
  have start: "civil_from_days 0 = (1970, 1, 1)" by code_simp
  show "civil_from_days (int n) = (next_date ^^ n) (1970, 1, 1)"
  proof (induction n)
    case (Suc n)
    have "civil_from_days (int (Suc n)) = civil_from_days (int n + 1)" by (simp add: add.commute)
    then show ?case using civil_next Suc by simp
  qed (simp add: start)
  show "next_date (civil_from_days (- int n - 1)) = civil_from_days (- int n)"
    using civil_next [of "- int n - 1"] by simp
qed

end
