(* ===== verification/Unix_Socket.thy ===== *)
theory Unix_Socket
  imports Net_Url
begin

unbundle bit_operations_syntax

text \<open>
  \<open>connect_unix_stream_with_deadline\<close> (\<open>session_inventory.rs\<close>): a connection to a unix socket
  that gives up at a deadline, driven over a non-blocking descriptor because the standard
  library has no such call. The record \<open>uworld\<close> has the open descriptors of the process and
  the kernel's answers, indexed by the number of questions asked: the clock, \<open>socket\<close>,
  \<open>fcntl\<close>, \<open>connect\<close>, \<open>poll\<close>, \<open>getsockopt\<close>. Error numbers are those of Linux, where
  \<open>EWOULDBLOCK\<close> is \<open>EAGAIN\<close>. The abstract specification is one call that opens a connected
  blocking descriptor or leaves the table of descriptors as it was.
\<close>

subsection \<open>Descriptors and the kernel\<close>

record descriptor =
  fd_flags :: "32 word"
  fd_status :: "32 word"
  fd_peer :: "string option"

datatype poll_answer = PollReady | PollTimeout | PollError nat
datatype socket_error = OsError nat | BadSocketPath | SocketTimeout
datatype usock_fault = USock socket_error | UFuel
datatype usock_action =
    UConnect nat nat
  | UPoll instant nat
  | USleep instant duration
  | UClose nat

definition eintr :: nat where "eintr = 4"
definition eagain :: nat where "eagain = 11"
definition eisconn :: nat where "eisconn = 106"
definition ealready :: nat where "ealready = 114"
definition einprogress :: nat where "einprogress = 115"
definition fd_cloexec :: "32 word" where "fd_cloexec = 1"
definition o_nonblock :: "32 word" where "o_nonblock = 2048"
definition i32_max :: nat where "i32_max = 2147483647"

lemmas errnos = eintr_def eagain_def eisconn_def ealready_def einprogress_def

text \<open>
  \<open>u_socket\<close> gives the number of the new descriptor with its descriptor flags and status flags:
  whether close-on-exec is set from the start depends on the target.
\<close>

record uworld =
  u_fds :: "nat \<rightharpoonup> descriptor"
  u_tick :: nat
  u_now :: "nat \<Rightarrow> instant"
  u_socket :: "nat \<Rightarrow> nat + (nat \<times> 32 word \<times> 32 word)"
  u_fcntl :: "nat \<Rightarrow> nat option"
  u_connect :: "nat \<Rightarrow> nat option"
  u_poll :: "nat \<Rightarrow> poll_answer"
  u_sockopt :: "nat \<Rightarrow> nat + nat"
  u_log :: "usock_action list"

type_synonym 'a usock = "(uworld, usock_fault + 'a) state"

definition uask :: "(uworld \<Rightarrow> nat \<Rightarrow> 'a) \<Rightarrow> (uworld, 'a) state" where
  "uask f = State (\<lambda>w. (f w (u_tick w), w\<lparr>u_tick := Suc (u_tick w)\<rparr>))"

definition ulog :: "usock_action \<Rightarrow> (uworld, unit) state" where
  "ulog a = modify (\<lambda>w. w\<lparr>u_log := u_log w @ [a]\<rparr>)"

definition uok :: "'a \<Rightarrow> 'a usock" where "uok x = ret (Inr x)"
definition ufail :: "socket_error \<Rightarrow> 'a usock" where "ufail e = ret (Inl (USock e))"

definition uinstant :: "(uworld, instant) state" where "uinstant = uask u_now"

definition set_fd :: "nat \<Rightarrow> (descriptor \<Rightarrow> descriptor) \<Rightarrow> (uworld, unit) state" where
  "set_fd fd f = modify (\<lambda>w. w\<lparr>u_fds := (u_fds w)(fd := map_option f (u_fds w fd))\<rparr>)"

definition sys_socket :: "nat usock" where
  "sys_socket =
     do { r \<leftarrow> uask u_socket;
          (case r of
             Inl e \<Rightarrow> ufail (OsError e)
           | Inr (fd, flags, status) \<Rightarrow>
               do { modify (\<lambda>w. w\<lparr>u_fds := (u_fds w)(fd \<mapsto>
                      \<lparr>fd_flags = flags, fd_status = status, fd_peer = None\<rparr>)\<rparr>);
                    uok fd }) }"

text \<open>\<open>fcntl\<close> to read a word of the descriptor and to write one: the caller turns -1 into the error.\<close>

definition sys_getfl :: "(descriptor \<Rightarrow> 32 word) \<Rightarrow> nat \<Rightarrow> 32 word usock" where
  "sys_getfl field fd =
     do { r \<leftarrow> uask u_fcntl;
          w \<leftarrow> gets id;
          (case r of Some e \<Rightarrow> ufail (OsError e)
           | None \<Rightarrow> uok (case u_fds w fd of Some d \<Rightarrow> field d | None \<Rightarrow> 0)) }"

definition sys_setfl :: "nat \<Rightarrow> (descriptor \<Rightarrow> descriptor) \<Rightarrow> unit usock" where
  "sys_setfl fd f =
     do { r \<leftarrow> uask u_fcntl;
          (case r of Some e \<Rightarrow> ufail (OsError e) | None \<Rightarrow> do { set_fd fd f; uok () }) }"

definition sys_close :: "nat \<Rightarrow> (uworld, unit) state" where
  "sys_close fd = do { ulog (UClose fd); modify (\<lambda>w. w\<lparr>u_fds := (u_fds w)(fd := None)\<rparr>) }"

text \<open>
  The kernel has connected the descriptor when \<open>connect\<close> succeeds or answers \<open>EISCONN\<close>, or
  when the descriptor became writable and its pending error is 0 or \<open>EISCONN\<close>.
\<close>

definition sys_connect :: "nat \<Rightarrow> string \<Rightarrow> nat \<Rightarrow> (uworld, nat option) state" where
  "sys_connect fd path address_len =
     do { ulog (UConnect fd address_len);
          r \<leftarrow> uask u_connect;
          whenS (r = None \<or> r = Some eisconn) (set_fd fd (\<lambda>d. d\<lparr>fd_peer := Some path\<rparr>));
          ret r }"

definition sys_pending_error :: "nat \<Rightarrow> string \<Rightarrow> nat usock" where
  "sys_pending_error fd path =
     do { r \<leftarrow> uask u_sockopt;
          (case r of
             Inl e \<Rightarrow> ufail (OsError e)
           | Inr e \<Rightarrow>
               do { whenS (e = 0 \<or> e = eisconn) (set_fd fd (\<lambda>d. d\<lparr>fd_peer := Some path\<rparr>));
                    uok e }) }"

subsection \<open>Waiting for the descriptor\<close>

definition poll_timeout_ms :: "duration \<Rightarrow> nat" where
  "poll_timeout_ms remaining = min (max (remaining div 1000000) 1) i32_max"

definition writable_round :: "instant \<Rightarrow> (unit + unit) usock" where
  "writable_round deadline =
     do { t \<leftarrow> uinstant;
          (if deadline \<le> t then ufail SocketTimeout
           else do {
             ulog (UPoll t (poll_timeout_ms (deadline - t)));
             r \<leftarrow> uask u_poll;
             (case r of
                PollReady \<Rightarrow> uok (Inr ())
              | PollTimeout \<Rightarrow> ufail SocketTimeout
              | PollError e \<Rightarrow> (if e = eintr then uok (Inl ()) else ufail (OsError e))) }) }"

definition wait_for_unix_socket_writable :: "nat \<Rightarrow> instant \<Rightarrow> unit usock" where
  "wait_for_unix_socket_writable fuel deadline = loopE fuel UFuel (\<lambda>_. writable_round deadline) ()"

subsection \<open>The connection\<close>

datatype connect_state = CRetry | CBacklogFull | CInProgress

definition pending_state :: "nat \<Rightarrow> connect_state option" where
  "pending_state e =
     (if e = eagain then Some CBacklogFull
      else if e = einprogress \<or> e = ealready then Some CInProgress else None)"

text \<open>One turn of the loop: the next state (\<open>Inl\<close>) or the end of the loop (\<open>Inr\<close>).\<close>

fun connect_turn ::
  "nat \<Rightarrow> nat \<Rightarrow> string \<Rightarrow> nat \<Rightarrow> instant \<Rightarrow> connect_state \<Rightarrow> (connect_state + unit) usock" where
  "connect_turn fuel fd path address_len deadline CRetry =
     do { r \<leftarrow> sys_connect fd path address_len;
          (case r of
             None \<Rightarrow> uok (Inr ())
           | Some e \<Rightarrow>
               (if e = eintr then uok (Inl CRetry)
                else if e = eisconn then uok (Inr ())
                else (case pending_state e of Some s \<Rightarrow> uok (Inl s) | None \<Rightarrow> ufail (OsError e)))) }"
| "connect_turn fuel fd path address_len deadline CBacklogFull =
     tryE (wait_for_unix_socket_writable fuel deadline) (\<lambda>_.
       do { t \<leftarrow> uinstant;
            (if deadline \<le> t then ufail SocketTimeout
             else do { ulog (USleep t (min (deadline - t) (millis 1))); uok (Inl CRetry) }) })"
| "connect_turn fuel fd path address_len deadline CInProgress =
     tryE (wait_for_unix_socket_writable fuel deadline) (\<lambda>_.
     tryE (sys_pending_error fd path) (\<lambda>e.
       if e = 0 \<or> e = eisconn then uok (Inr ())
       else (case pending_state e of Some s \<Rightarrow> uok (Inl s) | None \<Rightarrow> ufail (OsError e))))"

text \<open>
  The path goes into \<open>sun_path\<close>, 108 bytes at offset 2, with the zero byte after it.
\<close>

definition sun_path_len :: nat where "sun_path_len = 108"
definition sun_path_offset :: nat where "sun_path_offset = 2"

definition unix_address_len :: "string \<Rightarrow> nat" where
  "unix_address_len path = sun_path_offset + length path + 1"

definition connect_steps :: "nat \<Rightarrow> nat \<Rightarrow> string \<Rightarrow> instant \<Rightarrow> unit usock" where
  "connect_steps fuel fd path deadline =
     tryE (sys_getfl fd_flags fd) (\<lambda>descriptor_flags.
     tryE (if descriptor_flags AND fd_cloexec = 0
           then sys_setfl fd (\<lambda>d. d\<lparr>fd_flags := descriptor_flags OR fd_cloexec\<rparr>) else uok ()) (\<lambda>_.
     tryE (sys_getfl fd_status fd) (\<lambda>original_flags.
     tryE (sys_setfl fd (\<lambda>d. d\<lparr>fd_status := original_flags OR o_nonblock\<rparr>)) (\<lambda>_.
     tryE (loopE fuel UFuel (connect_turn fuel fd path (unix_address_len path) deadline) CRetry) (\<lambda>_.
     sys_setfl fd (\<lambda>d. d\<lparr>fd_status := original_flags\<rparr>))))))"

text \<open>The owned descriptor is closed when an error leaves the function before it is handed over.\<close>

definition connect_unix_stream_with_deadline :: "nat \<Rightarrow> string \<Rightarrow> instant \<Rightarrow> nat usock" where
  "connect_unix_stream_with_deadline fuel path deadline =
     (if CHR 0x00 \<in> set path \<or> sun_path_len \<le> length path then ufail BadSocketPath
      else tryE sys_socket (\<lambda>fd.
        do { r \<leftarrow> connect_steps fuel fd path deadline;
             (case r of
                Inr _ \<Rightarrow> uok fd
              | Inl (USock e) \<Rightarrow> do { sys_close fd; ufail e }
              | Inl UFuel \<Rightarrow> ret (Inl UFuel)) }))"


subsection \<open>What the steps leave alone\<close>

lemma run_uask [simp]: "run_state (uask f) w = (f w (u_tick w), w\<lparr>u_tick := Suc (u_tick w)\<rparr>)"
  by (simp add: uask_def)

lemma run_ulog [simp]: "run_state (ulog a) w = ((), w\<lparr>u_log := u_log w @ [a]\<rparr>)"
  by (simp add: ulog_def)

lemma run_set_fd [simp]:
  "run_state (set_fd fd f) w = ((), w\<lparr>u_fds := (u_fds w)(fd := map_option f (u_fds w fd))\<rparr>)"
  by (simp add: set_fd_def)

lemmas usock_ret = uok_def ufail_def uinstant_def

text \<open>A step on one descriptor: the others are as they were, the kernel's answers too, and time goes on.\<close>

definition on_fd :: "nat \<Rightarrow> uworld \<Rightarrow> uworld \<Rightarrow> bool" where
  "on_fd fd s t \<longleftrightarrow> (\<forall>x. x \<noteq> fd \<longrightarrow> u_fds t x = u_fds s x) \<and> (u_fds t fd = None \<longleftrightarrow> u_fds s fd = None)
     \<and> u_now t = u_now s \<and> u_connect t = u_connect s \<and> u_tick s \<le> u_tick t"

interpretation fr: effect_rel "on_fd fd" for fd
  by unfold_locales (auto simp: on_fd_def)

text \<open>Within the loop the words of the descriptor stay as they were set before it.\<close>

definition same_words :: "nat \<Rightarrow> uworld \<Rightarrow> uworld \<Rightarrow> bool" where
  "same_words fd s t \<longleftrightarrow> map_option fd_flags (u_fds t fd) = map_option fd_flags (u_fds s fd)
     \<and> map_option fd_status (u_fds t fd) = map_option fd_status (u_fds s fd)"

interpretation sw: effect_rel "same_words fd" for fd
  by unfold_locales (auto simp: same_words_def)

lemma on_fd_prims [intro]:
  "fr.keeps fd (uask f)" "fr.keeps fd (ulog a)" "fr.keeps fd (uok x)" "fr.keeps fd (ufail e)"
  "fr.keeps fd (set_fd fd g)" "fr.keeps fd uinstant"
  by (auto intro!: fr.keepsI simp: on_fd_def usock_ret)

lemma same_words_prims [intro]:
  "sw.keeps fd (uask f)" "sw.keeps fd (ulog a)" "sw.keeps fd (uok x)" "sw.keeps fd (ufail e)"
  "sw.keeps fd uinstant" "sw.keeps fd (set_fd fd (\<lambda>d. d\<lparr>fd_peer := p\<rparr>))"
  by (auto intro!: sw.keepsI simp: same_words_def usock_ret option.map_comp o_def)

lemma keeps_writable:
  "fr.keeps fd (wait_for_unix_socket_writable fuel deadline)" "sw.keeps fd (wait_for_unix_socket_writable fuel deadline)"
  unfolding wait_for_unix_socket_writable_def writable_round_def
  by (intro fr.keeps_intros sw.keeps_intros on_fd_prims same_words_prims; auto split: poll_answer.splits)+

lemma keeps_turn:
  "fr.keeps fd (connect_turn fuel fd path n deadline st)" "sw.keeps fd (connect_turn fuel fd path n deadline st)"
  by (cases st; simp add: sys_connect_def sys_pending_error_def;
      intro fr.keeps_intros sw.keeps_intros on_fd_prims same_words_prims keeps_writable)+

lemma keeps_getfl: "fr.keeps fd (sys_getfl field fd)"
  unfolding sys_getfl_def by (intro fr.keeps_intros on_fd_prims)

lemma keeps_setfl: "fr.keeps fd (sys_setfl fd f)"
  unfolding sys_setfl_def by (intro fr.keeps_intros on_fd_prims)

lemma keeps_steps: "fr.keeps fd (connect_steps fuel fd path deadline)"
  unfolding connect_steps_def
  by (intro fr.keeps_intros on_fd_prims keeps_getfl keeps_setfl keeps_turn)


subsection \<open>What the steps return\<close>

text \<open>What holds when a loop ends: its last turn established it under the invariant of the turns before.\<close>

lemma loopE_post:
  assumes "\<And>b w b' w'. run_state (body b) w = (Inr (Inl b'), w') \<Longrightarrow> I b w \<Longrightarrow> I b' w'"
    and "\<And>b w a w'. run_state (body b) w = (Inr (Inr a), w') \<Longrightarrow> I b w \<Longrightarrow> Q a w'"
  shows "I b w \<Longrightarrow> run_state (loopE n out body b) w = (Inr a, w') \<Longrightarrow> Q a w'"
proof (induction n arbitrary: b w)
  case (Suc n)
  obtain x w1 where x: "run_state (body b) w = (x, w1)" by fastforce
  with Suc.prems(2) obtain y where y: "x = Inr y" by (cases x) auto
  show ?case
  proof (cases y)
    case (Inl b')
    with x y Suc.prems show ?thesis by (auto intro: Suc.IH assms(1))
  next
    case (Inr a')
    with x y Suc.prems show ?thesis by (auto intro: assms(2))
  qed
qed simp

lemma writable_round_Inl: "run_state (writable_round deadline) w = (Inr (Inl u), w') \<Longrightarrow>
    u_now w (u_tick w) < deadline \<and> u_tick w' = u_tick w + 2"
  by (auto simp: writable_round_def usock_ret split: if_splits poll_answer.splits)

lemma writable_round_Inr: "run_state (writable_round deadline) w = (Inr (Inr u), w') \<Longrightarrow>
    u_now w (u_tick w) < deadline \<and> u_tick w' = u_tick w + 2"
  by (auto simp: writable_round_def usock_ret split: if_splits poll_answer.splits)

lemma writable_round_no_fuel: "run_state (writable_round deadline) w \<noteq> (Inl UFuel, w')"
  by (auto simp: writable_round_def usock_ret split: if_splits poll_answer.splits)

lemma keeps_round: "fr.keeps fd (writable_round deadline)"
  unfolding writable_round_def by (intro fr.keeps_intros on_fd_prims; auto split: poll_answer.splits)

text \<open>The clock has reached the deadline from the question \<open>N\<close> on.\<close>

lemma writable_Inr:
  assumes run: "run_state (wait_for_unix_socket_writable fuel deadline) w = (Inr u, w')"
    and clock: "\<And>n. N \<le> n \<Longrightarrow> deadline \<le> u_now w n"
  shows "u_tick w < N \<and> u_tick w + 2 \<le> u_tick w'"
proof -
  define I where "I = (\<lambda>(_ :: unit) w1. on_fd 0 w w1)"
  have "u_tick w < N \<and> u_tick w + 2 \<le> u_tick w'"
  proof (rule loopE_post [where I = I and Q = "\<lambda>_ w1. u_tick w < N \<and> u_tick w + 2 \<le> u_tick w1"
        and body = "\<lambda>_. writable_round deadline"])
    fix b w1 b' w2
    assume "run_state (writable_round deadline) w1 = (Inr (Inl b'), w2)" "I b w1"
    then show "I b' w2"
      unfolding I_def using fr.keepsE [OF keeps_round] fr.R_trans by blast
  next
    fix b w1 a w2
    assume r: "run_state (writable_round deadline) w1 = (Inr (Inr a), w2)" and i: "I b w1"
    from i have now: "u_now w1 = u_now w" and tick: "u_tick w \<le> u_tick w1"
      by (auto simp: I_def on_fd_def)
    from writable_round_Inr [OF r] now have "\<not> deadline \<le> u_now w (u_tick w1)" "u_tick w2 = u_tick w1 + 2"
      by simp_all
    with clock have "u_tick w1 < N" by (meson leI)
    with tick \<open>u_tick w2 = u_tick w1 + 2\<close> show "u_tick w < N \<and> u_tick w + 2 \<le> u_tick w2" by linarith
  next
    show "I () w" by (simp add: I_def on_fd_def)
  qed (use run in \<open>simp add: wait_for_unix_socket_writable_def\<close>)
  then show ?thesis .
qed

lemma writable_returns:
  assumes clock: "\<And>n. N \<le> n \<Longrightarrow> deadline \<le> u_now w n" and fuel: "N - u_tick w < fuel"
  shows "run_state (wait_for_unix_socket_writable fuel deadline) w \<noteq> (Inl UFuel, w')"
proof
  assume run: "run_state (wait_for_unix_socket_writable fuel deadline) w = (Inl UFuel, w')"
  have "(Inl UFuel :: usock_fault + unit) \<noteq> Inl UFuel"
  proof (rule loopE_returns [where I = "\<lambda>_ w1. u_now w1 = u_now w" and m = "\<lambda>_ w1. N - u_tick w1"
        and body = "\<lambda>_. writable_round deadline" and b = "()" and w = w and n = fuel and w' = w'])
    fix b w1 b' w2
    assume r: "run_state (writable_round deadline) w1 = (Inr (Inl b'), w2)" and i: "u_now w1 = u_now w"
    from writable_round_Inl [OF r] i have "\<not> deadline \<le> u_now w (u_tick w1)" and t: "u_tick w2 = u_tick w1 + 2"
      by simp_all
    with clock have "u_tick w1 < N" by (meson leI)
    moreover have "u_now w2 = u_now w1"
      using fr.keepsE [OF keeps_round r, of 0] by (simp add: on_fd_def)
    ultimately show "u_now w2 = u_now w \<and> N - u_tick w2 < N - u_tick w1" using i t by simp
  qed (use run fuel in \<open>auto simp: wait_for_unix_socket_writable_def writable_round_no_fuel\<close>)
  then show False by simp
qed


subsection \<open>The loop ends\<close>

definition turns_left :: "nat \<Rightarrow> connect_state \<Rightarrow> uworld \<Rightarrow> nat" where
  "turns_left N st w = 2 * (N - u_tick w) + (if st = CRetry then 1 else 0)"

lemma turn_falls:
  assumes run: "run_state (connect_turn fuel fd path len deadline st) w = (Inr (Inl st'), w')"
    and clock: "\<And>n. N \<le> n \<Longrightarrow> deadline \<le> u_now w n"
    and signals: "\<And>n. N \<le> n \<Longrightarrow> u_connect w n \<noteq> Some eintr"
  shows "turns_left N st' w' < turns_left N st w"
proof (cases st)
  case CRetry
  from run CRetry have tick: "u_tick w' = Suc (u_tick w)"
    by (auto simp: sys_connect_def usock_ret split: option.splits if_splits)
  show ?thesis
  proof (cases "u_connect w (u_tick w) = Some eintr")
    case True
    with signals have "u_tick w < N" by (meson leI)
    with tick CRetry show ?thesis by (auto simp: turns_left_def)
  next
    case False
    with run CRetry have "st' \<noteq> CRetry"
      by (auto simp: sys_connect_def usock_ret pending_state_def split: option.splits if_splits)
    with tick CRetry show ?thesis by (simp add: turns_left_def)
  qed
next
  case CBacklogFull
  with run obtain u w1 where w1: "run_state (wait_for_unix_socket_writable fuel deadline) w = (Inr u, w1)"
      and rest: "u_tick w' = Suc (u_tick w1)"
    by (auto simp: usock_ret split: prod.splits sum.splits if_splits)
  have "u_tick w < N \<and> u_tick w + 2 \<le> u_tick w1" using clock by (rule writable_Inr [OF w1])
  with rest CBacklogFull show ?thesis by (auto simp: turns_left_def)
next
  case CInProgress
  with run obtain u w1 where w1: "run_state (wait_for_unix_socket_writable fuel deadline) w = (Inr u, w1)"
      and rest: "u_tick w' = Suc (u_tick w1)"
    by (auto simp: usock_ret sys_pending_error_def split: prod.splits sum.splits if_splits option.splits)
  have "u_tick w < N \<and> u_tick w + 2 \<le> u_tick w1" using clock by (rule writable_Inr [OF w1])
  with rest CInProgress show ?thesis by (auto simp: turns_left_def)
qed

lemma turn_no_fuel:
  assumes clock: "\<And>n. N \<le> n \<Longrightarrow> deadline \<le> u_now w n" and fuel: "N - u_tick w < fuel"
  shows "run_state (connect_turn fuel fd path len deadline st) w \<noteq> (Inl UFuel, w')"
proof (cases st)
  case CRetry
  then show ?thesis
    by (auto simp: sys_connect_def usock_ret split: option.splits)
qed (use writable_returns [OF clock fuel] in
      \<open>auto simp: usock_ret sys_pending_error_def split: prod.splits sum.splits option.splits if_splits\<close>)

lemma connect_loop_returns:
  assumes clock: "\<And>n. N \<le> n \<Longrightarrow> deadline \<le> u_now w n"
    and signals: "\<And>n. N \<le> n \<Longrightarrow> u_connect w n \<noteq> Some eintr"
    and fuel: "2 * N + 1 < fuel"
  shows "run_state (loopE fuel UFuel (connect_turn fuel fd path len deadline) CRetry) w \<noteq> (Inl UFuel, w')"
proof
  assume run: "run_state (loopE fuel UFuel (connect_turn fuel fd path len deadline) CRetry) w = (Inl UFuel, w')"
  have "(Inl UFuel :: usock_fault + unit) \<noteq> Inl UFuel"
  proof (rule loopE_returns [where I = "\<lambda>_. on_fd fd w" and m = "turns_left N"
        and body = "connect_turn fuel fd path len deadline" and b = CRetry and w = w and n = fuel and w' = w'])
    fix st w1 st' w2
    assume r: "run_state (connect_turn fuel fd path len deadline st) w1 = (Inr (Inl st'), w2)" and i: "on_fd fd w w1"
    have "on_fd fd w1 w2" by (rule fr.keepsE [OF keeps_turn(1) r])
    with i have "on_fd fd w w2" by (rule fr.R_trans)
    moreover have "turns_left N st' w2 < turns_left N st w1"
      using i clock signals by (intro turn_falls [OF r]) (auto simp: on_fd_def)
    ultimately show "on_fd fd w w2 \<and> turns_left N st' w2 < turns_left N st w1" ..
  next
    fix st w1 w2
    assume r: "run_state (connect_turn fuel fd path len deadline st) w1 = (Inl UFuel, w2)"
    show "\<not> on_fd fd w w1"
    proof
      assume "on_fd fd w w1"
      then have "u_now w1 = u_now w" by (simp add: on_fd_def)
      with r turn_no_fuel [of N deadline w1 fuel] clock fuel show False by auto
    qed
  next
    show "on_fd fd w w" by (rule fr.R_refl)
    show "turns_left N CRetry w < fuel" using fuel by (simp add: turns_left_def)
  qed (use run in simp)
  then show False by simp
qed

lemma turn_connects:
  assumes run: "run_state (connect_turn fuel fd path len deadline st) w = (Inr (Inr u), w')"
    and fd: "u_fds w fd \<noteq> None"
  shows "map_option fd_peer (u_fds w' fd) = Some (Some path)"
proof (cases st)
  case CRetry
  with run fd show ?thesis
    by (auto simp: sys_connect_def usock_ret pending_state_def split: option.splits if_splits)
next
  case CBacklogFull
  with run show ?thesis by (auto simp: usock_ret split: prod.splits sum.splits if_splits)
next
  case CInProgress
  with run obtain v w1 where w1: "run_state (wait_for_unix_socket_writable fuel deadline) w = (Inr v, w1)"
      and rest: "run_state (tryE (sys_pending_error fd path) (\<lambda>e.
            if e = 0 \<or> e = eisconn then uok (Inr ())
            else (case pending_state e of Some s \<Rightarrow> uok (Inl s) | None \<Rightarrow> ufail (OsError e)))) w1 = (Inr (Inr u), w')"
    by (auto split: prod.splits sum.splits)
  have "u_fds w1 fd \<noteq> None"
    using fr.keepsE [OF keeps_writable(1) w1, of fd] fd by (simp add: on_fd_def)
  with rest show ?thesis
    by (auto simp: sys_pending_error_def usock_ret pending_state_def split: sum.splits if_splits option.splits)
qed

lemma connect_loop_connects:
  assumes run: "run_state (loopE n UFuel (connect_turn fuel fd path len deadline) CRetry) w = (Inr u, w')"
    and fd: "u_fds w fd = Some d"
  shows "u_fds w' fd = Some (d\<lparr>fd_peer := Some path\<rparr>)"
proof -
  have "map_option fd_peer (u_fds w' fd) = Some (Some path)"
  proof (rule loopE_post [where I = "\<lambda>_. on_fd fd w" and body = "connect_turn fuel fd path len deadline"
        and Q = "\<lambda>_ w1. map_option fd_peer (u_fds w1 fd) = Some (Some path)", OF _ _ fr.R_refl run])
    fix st w1 st' w2
    assume r: "run_state (connect_turn fuel fd path len deadline st) w1 = (Inr (Inl st'), w2)" and i: "on_fd fd w w1"
    show "on_fd fd w w2" using i fr.keepsE [OF keeps_turn(1) r] by (rule fr.R_trans)
  next
    fix st w1 a w2
    assume r: "run_state (connect_turn fuel fd path len deadline st) w1 = (Inr (Inr a), w2)" and i: "on_fd fd w w1"
    from i fd have "u_fds w1 fd \<noteq> None" by (auto simp: on_fd_def)
    with r show "map_option fd_peer (u_fds w2 fd) = Some (Some path)" by (rule turn_connects)
  qed
  moreover have "same_words fd w w'"
    using run by (rule sw.keepsE [OF sw.keeps_loopE [OF keeps_turn(2)]])
  ultimately show ?thesis using fd by (auto simp: same_words_def intro!: descriptor.equality)
qed


subsection \<open>The specification\<close>

text \<open>
  The call as its users see it: it fails and the open descriptors are those from before, or it
  opens one more, which is connected to the path, blocks, and does not outlive an \<open>exec\<close>.
\<close>

inductive connect_spec ::
  "string \<Rightarrow> (nat \<rightharpoonup> descriptor) \<Rightarrow> socket_error + nat \<Rightarrow> (nat \<rightharpoonup> descriptor) \<Rightarrow> bool" for path fds where
  refused: "connect_spec path fds (Inl e) fds"
| opened: "fds fd = None \<Longrightarrow> fd_peer d = Some path \<Longrightarrow> fd_status d AND o_nonblock = 0 \<Longrightarrow>
     fd_flags d AND fd_cloexec \<noteq> 0 \<Longrightarrow> connect_spec path fds (Inr fd) (fds(fd \<mapsto> d))"

lemma getfl_Inr: "run_state (sys_getfl field fd) w = (Inr v, w') \<Longrightarrow> u_fds w fd = Some d \<Longrightarrow>
    v = field d \<and> u_fds w' = u_fds w"
  by (auto simp: sys_getfl_def usock_ret split: option.splits)

lemma setfl_Inr: "run_state (sys_setfl fd f) w = (Inr u, w') \<Longrightarrow>
    u_fds w' = (u_fds w)(fd := map_option f (u_fds w fd))"
  by (auto simp: sys_setfl_def usock_ret split: option.splits)

lemma fl_no_fuel: "run_state (sys_getfl field fd) w \<noteq> (Inl UFuel, w')" "run_state (sys_setfl fd f) w \<noteq> (Inl UFuel, w')"
  by (auto simp: sys_getfl_def sys_setfl_def usock_ret split: option.splits)

lemma cloexec_set: "((x :: 32 word) OR fd_cloexec) AND fd_cloexec \<noteq> 0"
proof -
  have "(x OR 1) AND 1 = 1" by (rule bit_word_eqI) (auto simp: bit_simps)
  then show ?thesis by (simp add: fd_cloexec_def)
qed

lemma cloexec_kept:
  assumes "(x :: 32 word) AND fd_cloexec \<noteq> 0"
  shows "x OR fd_cloexec = x"
proof -
  from assms have "bit x 0" by (auto simp: fd_cloexec_def and_one_eq bit_0 even_iff_mod_2_eq_zero)
  then show ?thesis unfolding fd_cloexec_def by (intro bit_word_eqI) (auto simp: bit_simps)
qed

lemma connect_steps_Inr:
  assumes run: "run_state (connect_steps fuel fd path deadline) w = (Inr u, w')" and fd: "u_fds w fd = Some d"
  shows "u_fds w' fd = Some \<lparr>fd_flags = fd_flags d OR fd_cloexec, fd_status = fd_status d, fd_peer = Some path\<rparr>"
proof -
  let ?loop = "loopE fuel UFuel (connect_turn fuel fd path (unix_address_len path) deadline) CRetry"
  let ?set = "if fd_flags d AND fd_cloexec = 0
     then sys_setfl fd (\<lambda>d'. d'\<lparr>fd_flags := fd_flags d OR fd_cloexec\<rparr>) else uok ()"
  let ?d1 = "d\<lparr>fd_flags := fd_flags d OR fd_cloexec\<rparr>"
  from run obtain v w1 where w1: "run_state (sys_getfl fd_flags fd) w = (Inr v, w1)"
    by (auto simp: connect_steps_def split: prod.splits sum.splits)
  with fd have v: "v = fd_flags d" and s1: "u_fds w1 fd = Some d" by (auto dest: getfl_Inr)
  from run w1 v obtain a w2 where w2: "run_state ?set w1 = (Inr a, w2)"
    by (auto simp: connect_steps_def split: prod.splits sum.splits)
  have s2: "u_fds w2 fd = Some ?d1"
  proof (cases "fd_flags d AND fd_cloexec = 0")
    case True
    with w2 s1 show ?thesis by (auto dest: setfl_Inr)
  next
    case False
    with w2 s1 cloexec_kept [OF False] show ?thesis by (auto simp: usock_ret)
  qed
  from run w1 v w2 obtain b w3 where w3: "run_state (sys_getfl fd_status fd) w2 = (Inr b, w3)"
    by (auto simp: connect_steps_def split: prod.splits sum.splits)
  with s2 have b: "b = fd_status d" and s3: "u_fds w3 fd = Some ?d1" by (auto dest: getfl_Inr)
  from run w1 v w2 w3 b obtain c w4 where
      w4: "run_state (sys_setfl fd (\<lambda>d'. d'\<lparr>fd_status := fd_status d OR o_nonblock\<rparr>)) w3 = (Inr c, w4)"
    by (auto simp: connect_steps_def split: prod.splits sum.splits)
  with s3 have s4: "u_fds w4 fd = Some (?d1\<lparr>fd_status := fd_status d OR o_nonblock\<rparr>)" by (auto dest: setfl_Inr)
  from run w1 v w2 w3 b w4 obtain e w5 where w5: "run_state ?loop w4 = (Inr e, w5)"
    by (auto simp: connect_steps_def split: prod.splits sum.splits)
  from connect_loop_connects [OF w5 s4]
  have s5: "u_fds w5 fd = Some (?d1\<lparr>fd_status := fd_status d OR o_nonblock, fd_peer := Some path\<rparr>)" by simp
  from run w1 v w2 w3 b w4 w5
  have "run_state (sys_setfl fd (\<lambda>d'. d'\<lparr>fd_status := fd_status d\<rparr>)) w5 = (Inr u, w')"
    by (simp add: connect_steps_def)
  from setfl_Inr [OF this] s5 show ?thesis by simp
qed


lemma connect_steps_no_fuel:
  assumes clock: "\<And>n. N \<le> n \<Longrightarrow> deadline \<le> u_now w n"
    and signals: "\<And>n. N \<le> n \<Longrightarrow> u_connect w n \<noteq> Some eintr"
    and fuel: "2 * N + 1 < fuel"
  shows "run_state (connect_steps fuel fd path deadline) w \<noteq> (Inl UFuel, w')"
proof
  let ?loop = "loopE fuel UFuel (connect_turn fuel fd path (unix_address_len path) deadline) CRetry"
  assume run: "run_state (connect_steps fuel fd path deadline) w = (Inl UFuel, w')"
  obtain w1 w2 where to: "on_fd fd w w1" and loop: "run_state ?loop w1 = (Inl UFuel, w2)"
  proof -
    from run obtain v wa where a: "run_state (sys_getfl fd_flags fd) w = (Inr v, wa)"
      by (auto simp: connect_steps_def fl_no_fuel split: prod.splits sum.splits)
    let ?set = "if v AND fd_cloexec = 0 then sys_setfl fd (\<lambda>d. d\<lparr>fd_flags := v OR fd_cloexec\<rparr>) else uok ()"
    from run a obtain u wb where b: "run_state ?set wa = (Inr u, wb)"
      by (auto simp: connect_steps_def fl_no_fuel usock_ret split: prod.splits sum.splits if_splits)
    from run a b obtain st wc where c: "run_state (sys_getfl fd_status fd) wb = (Inr st, wc)"
      by (auto simp: connect_steps_def fl_no_fuel split: prod.splits sum.splits)
    let ?non = "sys_setfl fd (\<lambda>d. d\<lparr>fd_status := st OR o_nonblock\<rparr>)"
    from run a b c obtain x wd where d: "run_state ?non wc = (Inr x, wd)"
      by (auto simp: connect_steps_def fl_no_fuel split: prod.splits sum.splits)
    from run a b c d obtain we where e: "run_state ?loop wd = (Inl UFuel, we)"
      by (auto simp: connect_steps_def fl_no_fuel split: prod.splits sum.splits)
    have "fr.keeps fd ?set" by (intro fr.keeps_if keeps_setfl on_fd_prims)
    then have "on_fd fd w wd"
      using fr.keepsE [OF keeps_getfl a] fr.keepsE [OF _ b] fr.keepsE [OF keeps_getfl c] fr.keepsE [OF keeps_setfl d]
      by (blast intro: fr.R_trans)
    with e that show thesis by blast
  qed
  then have "u_now w1 = u_now w" "u_connect w1 = u_connect w" by (simp_all add: on_fd_def)
  with loop connect_loop_returns [of N deadline w1 fuel fd path "unix_address_len path" w2] clock signals fuel
  show False by simp
qed

subsection \<open>What it waits for\<close>

text \<open>
  A poll starts before the deadline and asks for at least a millisecond and at most what was
  left, a pause ends by the deadline, and the address fits \<open>sockaddr_un\<close>.
\<close>

fun wait_ok :: "instant \<Rightarrow> usock_action \<Rightarrow> bool" where
  "wait_ok deadline (UPoll t ms) \<longleftrightarrow> t < deadline \<and> 1 \<le> ms \<and> ms \<le> i32_max \<and> (ms = 1 \<or> t + millis ms \<le> deadline)"
| "wait_ok deadline (USleep t d) \<longleftrightarrow> t < deadline \<and> 0 < d \<and> t + d \<le> deadline"
| "wait_ok deadline (UConnect fd len) \<longleftrightarrow> len \<le> sun_path_offset + sun_path_len"
| "wait_ok deadline (UClose fd) \<longleftrightarrow> True"

definition waits :: "instant \<Rightarrow> uworld \<Rightarrow> uworld \<Rightarrow> bool" where
  "waits deadline s t \<longleftrightarrow> (\<exists>new. u_log t = u_log s @ new \<and> list_all (wait_ok deadline) new)"

interpretation wt: effect_rel "waits deadline" for deadline
proof
  show "waits deadline s s" for s by (simp add: waits_def)
  show "waits deadline s t \<Longrightarrow> waits deadline t u \<Longrightarrow> waits deadline s u" for s t u
    by (fastforce simp: waits_def)
qed

lemma waits_prims [intro]:
  "wt.keeps dl (uask f)" "wt.keeps dl (uok x)" "wt.keeps dl (ufail e)" "wt.keeps dl uinstant"
  "wt.keeps dl (set_fd fd g)" "wt.keeps dl (modify (\<lambda>w. w\<lparr>u_fds := h w\<rparr>))" "wt.keeps dl (sys_close fd)" "wait_ok dl a \<Longrightarrow> wt.keeps dl (ulog a)"
  by (auto intro!: wt.keepsI simp: waits_def usock_ret sys_close_def)

lemma poll_timeout_ok: "t < deadline \<Longrightarrow> wait_ok deadline (UPoll t (poll_timeout_ms (deadline - t)))"
proof -
  assume t: "t < deadline"
  let ?r = "deadline - t"
  have "millis (poll_timeout_ms ?r) \<le> ?r" if "poll_timeout_ms ?r \<noteq> 1"
  proof -
    from that have "poll_timeout_ms ?r \<le> ?r div 1000000" by (auto simp: poll_timeout_ms_def i32_max_def)
    then have "poll_timeout_ms ?r * 1000000 \<le> ?r div 1000000 * 1000000" by (rule mult_le_mono1)
    also have "\<dots> \<le> ?r" by (rule div_times_less_eq_dividend)
    finally show ?thesis by (simp add: millis_def)
  qed
  moreover have "1 \<le> poll_timeout_ms ?r" "poll_timeout_ms ?r \<le> i32_max"
    by (simp_all add: poll_timeout_ms_def i32_max_def)
  moreover have "t + millis (poll_timeout_ms ?r) \<le> deadline" if "poll_timeout_ms ?r \<noteq> 1"
    using calculation(1) [OF that] t by linarith
  ultimately show ?thesis using t by auto
qed

lemma waits_writable: "wt.keeps dl (wait_for_unix_socket_writable fuel dl)"
  unfolding wait_for_unix_socket_writable_def writable_round_def
  by (intro wt.keeps_intros waits_prims poll_timeout_ok; auto intro: waits_prims split: poll_answer.splits)

lemma waits_turn: "length path < sun_path_len \<Longrightarrow> wt.keeps dl (connect_turn fuel fd path (unix_address_len path) dl st)"
  by (cases st; simp add: sys_connect_def sys_pending_error_def;
      intro wt.keeps_intros waits_prims waits_writable;
      simp add: unix_address_len_def sun_path_offset_def sun_path_len_def millis_def)

lemma waits_connect: "wt.keeps dl (connect_unix_stream_with_deadline fuel path dl)"
proof -
  have "wt.keeps dl (connect_steps fuel fd path dl)" if "length path < sun_path_len" for fd
    unfolding connect_steps_def sys_getfl_def sys_setfl_def
    by (intro wt.keeps_intros waits_prims waits_turn that)
  then show ?thesis
    unfolding connect_unix_stream_with_deadline_def sys_socket_def
    by (intro wt.keeps_intros waits_prims) (auto intro!: wt.keeps_intros waits_prims split: usock_fault.splits)
qed


subsection \<open>The claims\<close>

definition demo_kernel :: uworld where
  "demo_kernel =
     \<lparr> u_fds = [3 \<mapsto> \<lparr>fd_flags = 1, fd_status = 2, fd_peer = None\<rparr>], u_tick = 0,
       u_now = (\<lambda>n. secs n), u_socket = (\<lambda>_. Inr (5, 0, 2)), u_fcntl = (\<lambda>_. None),
       u_connect = (\<lambda>n. if n < 6 then Some eagain else if n < 12 then Some einprogress else Some ealready),
       u_poll = (\<lambda>n. if n = 7 then PollError eintr else PollReady),
       u_sockopt = (\<lambda>n. if n < 14 then Inr einprogress else Inr 0), u_log = [] \<rparr>"

text \<open>C15: Connecting to a unix socket under a deadline implements the atomic call: whatever the kernel
  answers, it returns once the clock has passed the deadline and signals no longer interrupt
  \<open>connect\<close>, and then either it failed and no descriptor stays open, or it has opened exactly
  one, connected to the path, back in blocking mode and marked close-on-exec; every other
  descriptor is untouched. That a new socket has an unused number and blocks is what \<open>socket\<close> documents.\<close>

theorem unix_connect_is_atomic:
  assumes fresh: "\<And>n fd fl st. u_socket w n = Inr (fd, fl, st) \<Longrightarrow> u_fds w fd = None \<and> st AND o_nonblock = 0"
    and clock: "\<And>n. N \<le> n \<Longrightarrow> deadline \<le> u_now w n"
    and signals: "\<And>n. N \<le> n \<Longrightarrow> u_connect w n \<noteq> Some eintr"
    and fuel: "2 * N + 1 < fuel"
    and run: "run_state (connect_unix_stream_with_deadline fuel path deadline) w = (r, w')"
  shows "\<exists>res. r = map_sum USock id res \<and> connect_spec path (u_fds w) res (u_fds w')"
proof (cases "CHR 0x00 \<in> set path \<or> sun_path_len \<le> length path")
  case True
  with run have "r = map_sum USock id (Inl BadSocketPath) \<and> w' = w"
    by (auto simp: connect_unix_stream_with_deadline_def usock_ret)
  then show ?thesis by (metis refused)
next
  case False
  show ?thesis
  proof (cases "u_socket w (u_tick w)")
    case (Inl e)
    with False run have "r = map_sum USock id (Inl (OsError e))" "u_fds w' = u_fds w"
      by (auto simp: connect_unix_stream_with_deadline_def sys_socket_def usock_ret)
    then show ?thesis by (metis refused)
  next
    case (Inr s)
    obtain fd fl st where s: "s = (fd, fl, st)" by (cases s) auto
    let ?d = "\<lparr>fd_flags = fl, fd_status = st, fd_peer = None\<rparr>"
    define w1 where "w1 = w\<lparr>u_tick := Suc (u_tick w), u_fds := (u_fds w)(fd \<mapsto> ?d)\<rparr>"
    from Inr s fresh have new: "u_fds w fd = None" "st AND o_nonblock = 0" by blast+
    obtain x w2 where x: "run_state (connect_steps fuel fd path deadline) w1 = (x, w2)" by fastforce
    have others: "u_fds w2 y = u_fds w y" if "y \<noteq> fd" for y
      using fr.keepsE [OF keeps_steps x] that by (simp add: on_fd_def w1_def)
    show ?thesis
    proof (cases x)
      case ok: (Inr u)
      with x have "u_fds w2 fd = Some \<lparr>fd_flags = fl OR fd_cloexec, fd_status = st, fd_peer = Some path\<rparr>"
        using connect_steps_Inr [of fuel fd path deadline w1 u w2 ?d] by (simp add: w1_def)
      with others have "u_fds w2 = (u_fds w)(fd \<mapsto> \<lparr>fd_flags = fl OR fd_cloexec, fd_status = st, fd_peer = Some path\<rparr>)"
        by (auto simp: fun_eq_iff)
      moreover have "r = map_sum USock id (Inr fd)" "w' = w2"
        using run False Inr s x ok by (auto simp: connect_unix_stream_with_deadline_def sys_socket_def usock_ret w1_def)
      ultimately show ?thesis using new by (auto intro!: exI [of _ "Inr fd"] opened simp: fd_cloexec_def)
    next
      case bad: (Inl f)
      have "x \<noteq> Inl UFuel"
        using x connect_steps_no_fuel [of N deadline w1 fuel fd path w2] clock signals fuel by (auto simp: w1_def)
      with bad obtain e where e: "x = Inl (USock e)" by (cases f) auto
      with run False Inr s x have r: "r = map_sum USock id (Inl e)" and w': "u_fds w' = (u_fds w2)(fd := None)"
        by (auto simp: connect_unix_stream_with_deadline_def sys_socket_def sys_close_def usock_ret w1_def)
      from w' others new have "u_fds w' = u_fds w" by (auto simp: fun_eq_iff)
      with r show ?thesis by (metis refused)
    qed
  qed
qed

theorem unix_connect_is_atomic_witness:
  "\<exists>res. fst (run_state (connect_unix_stream_with_deadline 62 ''/run/a'' (secs 30)) demo_kernel) = map_sum USock id res
     \<and> connect_spec ''/run/a'' (u_fds demo_kernel) res
         (u_fds (snd (run_state (connect_unix_stream_with_deadline 62 ''/run/a'' (secs 30)) demo_kernel)))"
  by (rule unix_connect_is_atomic [where N = 30 and w = demo_kernel and fuel = 62])
     (auto simp: demo_kernel_def o_nonblock_def errnos secs_mono split: if_splits)

lemma demo_kernel_connects:
  "fst (run_state (connect_unix_stream_with_deadline 62 ''/run/a'' (secs 30)) demo_kernel) = Inr 5"
  by code_simp

text \<open>While connecting, no \<open>poll\<close> begins after the deadline or asks for longer than what is left (a
  millisecond at least, \<open>i32::MAX\<close> at most), no pause goes past the deadline, and the address
  given to the kernel is no longer than \<open>sockaddr_un\<close>.\<close>

theorem unix_connect_waits_within_deadline:
  "\<exists>new. u_log (snd (run_state (connect_unix_stream_with_deadline fuel path deadline) w)) = u_log w @ new
     \<and> list_all (wait_ok deadline) new"
  using wt.keepsD [OF waits_connect] unfolding waits_def by blast

end
