(* ===== verification/Deadline_Guard.thy ===== *)
theory Deadline_Guard
  imports Chaop_Prelude
begin

text \<open>
  \<open>ConnectionDeadlineGuard\<close> (\<open>session_inventory.rs\<close>): while a connection is set up, a watchdog
  thread waits on a channel for the cancellation and shuts the socket down when the deadline
  comes first. The state is the channel, the two threads and the clock; each thread and the
  clock are rules of a step relation, so that every interleaving of them is a path.
\<close>

subsection \<open>The state and the steps of the connecting thread\<close>

datatype watchdog = Spawned | Awaiting instant | Firing | Finished
datatype guard_phase = Connecting | Cancelling | Cancelled

record deadline_guard =
  dg_clock :: instant
  dg_remaining :: duration
  dg_sender :: bool
  dg_message :: bool
  dg_watchdog :: watchdog
  dg_phase :: guard_phase
  dg_shutdowns :: nat

definition guard_start :: "instant \<Rightarrow> instant \<Rightarrow> string \<Rightarrow> string option \<Rightarrow> string + deadline_guard" where
  "guard_start t deadline url spawn_error =
     (if t < deadline
      then (case spawn_error of
              Some e \<Rightarrow> Inl e
            | None \<Rightarrow> Inr \<lparr> dg_clock = t, dg_remaining = deadline - t, dg_sender = True, dg_message = False,
                            dg_watchdog = Spawned, dg_phase = Connecting, dg_shutdowns = 0 \<rparr>)
      else Inl (''timed out connecting to app-server URL '' @ url))"

text \<open>
  \<open>cancel\<close>: the message is sent if the receiver is still there, the sender is dropped, and the
  thread is joined, which waits for its end. Once both were taken, cancelling (again, or from
  \<open>Drop\<close>) does nothing.
\<close>

definition guard_send :: "deadline_guard \<Rightarrow> deadline_guard" where
  "guard_send g =
     (if dg_sender g
      then g\<lparr>dg_message := dg_watchdog g \<noteq> Finished, dg_sender := False, dg_phase := Cancelling\<rparr> else g)"

definition guard_join :: "deadline_guard \<Rightarrow> deadline_guard option" where
  "guard_join g =
     (if dg_phase g = Cancelled then Some g
      else if dg_watchdog g = Finished then Some (g\<lparr>dg_phase := Cancelled\<rparr>) else None)"

subsection \<open>The watchdog\<close>

text \<open>\<open>recv_timeout\<close> starts to count when the thread gets there.\<close>

definition watchdog_begin :: "deadline_guard \<Rightarrow> deadline_guard" where
  "watchdog_begin g = g\<lparr>dg_watchdog := Awaiting (dg_clock g + dg_remaining g)\<rparr>"

definition watchdog_woken :: "deadline_guard \<Rightarrow> bool" where
  "watchdog_woken g \<longleftrightarrow> dg_message g \<or> \<not> dg_sender g"

definition watchdog_shutdown :: "deadline_guard \<Rightarrow> deadline_guard" where
  "watchdog_shutdown g = g\<lparr>dg_shutdowns := Suc (dg_shutdowns g), dg_watchdog := Finished\<rparr>"

inductive watchdog_step :: "deadline_guard \<Rightarrow> deadline_guard \<Rightarrow> bool" where
  begins: "dg_watchdog g = Spawned \<Longrightarrow> watchdog_step g (watchdog_begin g)"
| woken: "dg_watchdog g = Awaiting until \<Longrightarrow> watchdog_woken g \<Longrightarrow> watchdog_step g (g\<lparr>dg_watchdog := Finished\<rparr>)"
| times_out: "dg_watchdog g = Awaiting until \<Longrightarrow> until \<le> dg_clock g \<Longrightarrow> watchdog_step g (g\<lparr>dg_watchdog := Firing\<rparr>)"
| shuts_down: "dg_watchdog g = Firing \<Longrightarrow> watchdog_step g (watchdog_shutdown g)"

inductive guard_step :: "deadline_guard \<Rightarrow> deadline_guard \<Rightarrow> bool" where
  clock: "dg_clock g \<le> t \<Longrightarrow> guard_step g (g\<lparr>dg_clock := t\<rparr>)"
| watchdog: "watchdog_step g g' \<Longrightarrow> guard_step g g'"
| cancels: "guard_step g (guard_send g)"
| joins: "dg_phase g \<noteq> Connecting \<Longrightarrow> guard_join g = Some g' \<Longrightarrow> guard_step g g'"

inductive_cases guard_stepE: "guard_step g g'"
inductive_cases watchdog_stepE: "watchdog_step g g'"

text \<open>The states a guard started before \<open>deadline\<close> can come to.\<close>

inductive guard_reach :: "instant \<Rightarrow> deadline_guard \<Rightarrow> bool" for deadline where
  started: "guard_start t deadline url spawn_error = Inr g \<Longrightarrow> guard_reach deadline g"
| stepped: "guard_reach deadline g \<Longrightarrow> guard_step g g' \<Longrightarrow> guard_reach deadline g'"

subsection \<open>The invariant\<close>

definition guard_inv :: "instant \<Rightarrow> deadline_guard \<Rightarrow> bool" where
  "guard_inv deadline g \<longleftrightarrow>
     (dg_watchdog g = Spawned \<longrightarrow> deadline \<le> dg_clock g + dg_remaining g)
   \<and> (\<forall>until. dg_watchdog g = Awaiting until \<longrightarrow> deadline \<le> until)
   \<and> (dg_watchdog g = Firing \<or> 0 < dg_shutdowns g \<longrightarrow> deadline \<le> dg_clock g)
   \<and> (dg_phase g = Connecting \<longleftrightarrow> dg_sender g)
   \<and> (dg_phase g = Cancelled \<longrightarrow> dg_watchdog g = Finished)"

lemma guard_start_inv: "guard_start t deadline url e = Inr g \<Longrightarrow> guard_inv deadline g"
  by (auto simp: guard_start_def guard_inv_def split: if_splits option.splits)

lemma watchdog_step_inv: "watchdog_step g g' \<Longrightarrow> guard_inv deadline g \<Longrightarrow> guard_inv deadline g'"
  by (erule watchdog_stepE) (auto simp: guard_inv_def watchdog_begin_def watchdog_shutdown_def)

lemma guard_step_inv:
  assumes "guard_step g g'" "guard_inv deadline g"
  shows "guard_inv deadline g'"
  using assms(1)
proof (cases rule: guard_step.cases)
  case (clock t)
  with assms(2) show ?thesis by (auto simp: guard_inv_def)
next
  case watchdog
  then show ?thesis using assms(2) by (rule watchdog_step_inv)
next
  case cancels
  with assms(2) show ?thesis by (auto simp: guard_inv_def guard_send_def)
next
  case joins
  with assms(2) show ?thesis by (auto simp: guard_inv_def guard_join_def split: if_splits)
qed

lemma guard_reach_inv: "guard_reach deadline g \<Longrightarrow> guard_inv deadline g"
  by (induction rule: guard_reach.induct) (auto intro: guard_start_inv guard_step_inv)

subsection \<open>After the cancellation\<close>

lemma finished_stays:
  assumes "guard_step g g'" "dg_phase g = Cancelled" "dg_watchdog g = Finished" "dg_sender g = False"
  shows "dg_phase g' = Cancelled \<and> dg_watchdog g' = Finished \<and> dg_sender g' = False \<and> dg_shutdowns g' = dg_shutdowns g"
  using assms by (auto elim!: guard_stepE watchdog_stepE simp: guard_send_def guard_join_def)

lemma cancelled_steps:
  assumes "guard_step\<^sup>*\<^sup>* g g'" "dg_phase g = Cancelled" "dg_watchdog g = Finished" "dg_sender g = False"
  shows "dg_phase g' = Cancelled \<and> dg_watchdog g' = Finished \<and> dg_sender g' = False \<and> dg_shutdowns g' = dg_shutdowns g"
  using assms by (induction rule: rtranclp_induct) (auto dest: finished_stays)

text \<open>C23: A connection handed to its caller is never shut down by the watchdog: when the guard was
  cancelled and the clock then still shows a time before the deadline (the check the code makes
  next), the socket was not shut down, and however the threads go on it will not be.\<close>

theorem cancelled_guard_spares_the_socket:
  assumes reach: "guard_reach deadline g" and cancelled: "dg_phase g = Cancelled"
    and in_time: "dg_clock g < deadline" and later: "guard_step\<^sup>*\<^sup>* g g'"
  shows "dg_shutdowns g' = 0"
proof -
  from guard_reach_inv [OF reach] cancelled in_time
  have "dg_watchdog g = Finished" "dg_sender g = False" "dg_shutdowns g = 0" by (auto simp: guard_inv_def)
  with cancelled_steps [OF later cancelled] show ?thesis by simp
qed

definition demo_cancelling :: deadline_guard where
  "demo_cancelling =
     \<lparr> dg_clock = 3, dg_remaining = 9, dg_sender = False, dg_message = True,
       dg_watchdog = Awaiting 10, dg_phase = Cancelling, dg_shutdowns = 0 \<rparr>"

definition demo_guard :: deadline_guard where
  "demo_guard = demo_cancelling\<lparr>dg_watchdog := Finished, dg_phase := Cancelled\<rparr>"

lemma demo_cancelling_reached: "guard_reach 10 demo_cancelling"
proof -
  let ?g = "\<lparr> dg_clock = 1, dg_remaining = 9, dg_sender = True, dg_message = False,
       dg_watchdog = Spawned, dg_phase = Connecting, dg_shutdowns = 0 \<rparr>"
  let ?g1 = "watchdog_begin ?g"
  let ?g2 = "?g1\<lparr>dg_clock := 3\<rparr>"
  have "guard_reach 10 ?g" by (rule started [of 1 _ "[]" None]) (simp add: guard_start_def)
  then have "guard_reach 10 ?g1" by (rule stepped) (rule guard_step.watchdog, rule begins, simp)
  then have "guard_reach 10 ?g2" by (rule stepped) (rule guard_step.clock, simp add: watchdog_begin_def)
  then have "guard_reach 10 (guard_send ?g2)" by (rule stepped) (rule guard_step.cancels)
  then show ?thesis by (simp add: demo_cancelling_def guard_send_def watchdog_begin_def)
qed

lemma demo_guard_reached: "guard_reach 10 demo_guard"
proof -
  let ?g = "demo_cancelling\<lparr>dg_watchdog := Finished\<rparr>"
  have "guard_reach 10 ?g"
    by (rule stepped [OF demo_cancelling_reached], rule guard_step.watchdog, rule woken [where until = 10])
       (simp_all add: demo_cancelling_def watchdog_woken_def)
  then have "guard_reach 10 (?g\<lparr>dg_phase := Cancelled\<rparr>)"
    by (rule stepped) (rule guard_step.joins, simp_all add: demo_cancelling_def guard_join_def)
  then show ?thesis by (simp add: demo_guard_def)
qed

theorem cancelled_guard_spares_the_socket_witness:
  "dg_shutdowns (demo_guard\<lparr>dg_clock := 99\<rparr>) = 0"
proof (rule cancelled_guard_spares_the_socket [OF demo_guard_reached])
  show "guard_step\<^sup>*\<^sup>* demo_guard (demo_guard\<lparr>dg_clock := 99\<rparr>)"
    by (rule r_into_rtranclp, rule guard_step.clock) (simp add: demo_guard_def demo_cancelling_def)
qed (simp_all add: demo_guard_def demo_cancelling_def)

text \<open>Cancelling a guard comes to an end: from every reachable state in which the cancellation was
  sent, steps of the watchdog alone, three at most, lead to a state where the join succeeds.\<close>

theorem cancellation_is_joined:
  assumes reach: "guard_reach deadline g" and sent: "dg_phase g = Cancelling"
  shows "\<exists>n \<le> 3. \<exists>g' g''. (watchdog_step ^^ n) g g' \<and> guard_join g' = Some g'' \<and> dg_phase g'' = Cancelled"
proof -
  have awake: "\<not> dg_sender g" using guard_reach_inv [OF reach] sent by (auto simp: guard_inv_def)
  let ?done = "\<lambda>n. \<exists>g' g''. (watchdog_step ^^ n) g g' \<and> guard_join g' = Some g'' \<and> dg_phase g'' = Cancelled"
  have join: "?done n" if "(watchdog_step ^^ n) g g'" "dg_watchdog g' = Finished" "dg_phase g' = Cancelling" for n g'
    using that by (auto simp: guard_join_def)
  show ?thesis
  proof (cases "dg_watchdog g")
    case Spawned
    let ?g1 = "watchdog_begin g"
    have "watchdog_step g ?g1" using Spawned by (rule begins)
    moreover have "watchdog_step ?g1 (?g1\<lparr>dg_watchdog := Finished\<rparr>)"
      using awake by (intro woken) (simp_all add: watchdog_begin_def watchdog_woken_def)
    ultimately have "(watchdog_step ^^ 2) g (?g1\<lparr>dg_watchdog := Finished\<rparr>)" by (auto simp: numeral_2_eq_2)
    from join [OF this] sent have "?done 2" by (simp add: watchdog_begin_def)
    then show ?thesis by (intro exI [of _ 2]) simp
  next
    case (Awaiting until)
    have "watchdog_step g (g\<lparr>dg_watchdog := Finished\<rparr>)"
      using Awaiting awake by (intro woken) (simp_all add: watchdog_woken_def)
    then have "(watchdog_step ^^ 1) g (g\<lparr>dg_watchdog := Finished\<rparr>)" by (simp only: relpowp_1)
    from join [OF this] sent have "?done 1" by simp
    then show ?thesis by (intro exI [of _ 1]) simp
  next
    case Firing
    have "(watchdog_step ^^ 1) g (watchdog_shutdown g)" using shuts_down [OF Firing] by (simp only: relpowp_1)
    from join [OF this] sent have "?done 1" by (simp add: watchdog_shutdown_def)
    then show ?thesis by (intro exI [of _ 1]) simp
  next
    case Finished
    have "(watchdog_step ^^ 0) g g" by simp
    from join [OF this Finished sent] have "?done 0" .
    then show ?thesis by (intro exI [of _ 0]) simp
  qed
qed


theorem cancellation_is_joined_witness:
  "\<exists>n \<le> 3. \<exists>g' g''. (watchdog_step ^^ n) demo_cancelling g' \<and> guard_join g' = Some g'' \<and> dg_phase g'' = Cancelled"
  by (rule cancellation_is_joined [OF demo_cancelling_reached]) (simp add: demo_cancelling_def)

end
