(* ===== verification/Child_Process.thy ===== *)
theory Child_Process
  imports Manager
begin

text \<open>
  Stopping the managed app server (\<open>app_server_manager.rs\<close>, the Unix build of
  \<open>terminate_child\<close>, with \<open>wait_for_child_exit\<close> and \<open>signal_process_group\<close>): the child leads a
  process group of its own, which is asked to terminate, given two seconds, and killed. The
  record \<open>kworld\<close> has the exit status the handle of the child has collected, the kernel's answers
  indexed by the number of questions asked, and what was done. The manager sees all this as one
  answer; the last section puts the two together.
\<close>

subsection \<open>The child, the kernel and the log\<close>

datatype cp_fault = CpOs nat | CpIo string | CpPanic | CpFuel
datatype cp_action =
    CpSignal int nat "nat option"
  | CpKill
  | CpPause duration

record kworld =
  cp_status :: "string option"
  cp_tick :: nat
  cp_now :: "nat \<Rightarrow> instant"
  cp_try_wait :: "nat \<Rightarrow> wait_answer"
  cp_kill_group :: "nat \<Rightarrow> nat option"
  cp_wait :: "nat \<Rightarrow> string + string"
  cp_log :: "cp_action list"

type_synonym 'a cproc = "(kworld, cp_fault + 'a) state"

definition cask :: "(kworld \<Rightarrow> nat \<Rightarrow> 'a) \<Rightarrow> (kworld, 'a) state" where
  "cask f = State (\<lambda>k. (f k (cp_tick k), k\<lparr>cp_tick := Suc (cp_tick k)\<rparr>))"

definition clog :: "cp_action \<Rightarrow> (kworld, unit) state" where
  "clog a = modify (\<lambda>k. k\<lparr>cp_log := cp_log k @ [a]\<rparr>)"

definition cok :: "'a \<Rightarrow> 'a cproc" where "cok x = ret (Inr x)"
definition cfault :: "cp_fault \<Rightarrow> 'a cproc" where "cfault e = ret (Inl e)"

definition sigkill :: nat where "sigkill = 9"
definition sigterm :: nat where "sigterm = 15"
definition esrch :: nat where "esrch = 3"
definition einval :: nat where "einval = 22"

text \<open>
  \<open>Child::try_wait\<close>, \<open>Child::kill\<close> and \<open>Child::wait\<close> of the standard library: once a status was
  collected, the handle answers from it and asks the kernel no more.
\<close>

definition child_try_wait :: "string option cproc" where
  "child_try_wait =
     do { s \<leftarrow> gets cp_status;
          (case s of Some x \<Rightarrow> cok (Some x)
           | None \<Rightarrow>
               do { r \<leftarrow> cask cp_try_wait;
                    (case r of
                       Running \<Rightarrow> cok None
                     | Exited x \<Rightarrow> do { modify (\<lambda>k. k\<lparr>cp_status := Some x\<rparr>); cok (Some x) }
                     | WaitError e \<Rightarrow> cfault (CpIo e)) }) }"

definition child_kill :: "(kworld, unit) state" where
  "child_kill = do { s \<leftarrow> gets cp_status; whenS (s = None) (clog CpKill) }"

definition child_wait :: "string cproc" where
  "child_wait =
     do { s \<leftarrow> gets cp_status;
          (case s of Some x \<Rightarrow> cok x
           | None \<Rightarrow>
               do { r \<leftarrow> cask cp_wait;
                    (case r of
                       Inl e \<Rightarrow> cfault (CpIo e)
                     | Inr x \<Rightarrow> do { modify (\<lambda>k. k\<lparr>cp_status := Some x\<rparr>); cok x }) }) }"

subsection \<open>The operations\<close>

text \<open>\<open>kill(-process_group_id, signal)\<close>, on the 32 bits of a \<open>pid_t\<close>.\<close>

definition signal_process_group :: "32 word \<Rightarrow> nat \<Rightarrow> unit cproc" where
  "signal_process_group process_group_id signal =
     do { r \<leftarrow> cask cp_kill_group;
          clog (CpSignal (sint (- process_group_id)) signal r);
          (case r of
             None \<Rightarrow> cok ()
           | Some e \<Rightarrow> (if e \<noteq> einval \<and> e \<noteq> esrch then cfault (CpOs e) else cok ())) }"

definition exit_round :: "instant \<Rightarrow> (unit + bool) cproc" where
  "exit_round deadline =
     tryE child_try_wait (\<lambda>s.
       if s \<noteq> None then cok (Inr True)
       else do { t \<leftarrow> cask cp_now;
                 (if deadline \<le> t then cok (Inr False)
                  else do { clog (CpPause (millis 50)); cok (Inl ()) }) })"

definition wait_for_child_exit :: "nat \<Rightarrow> duration \<Rightarrow> bool cproc" where
  "wait_for_child_exit fuel timeout =
     do { t \<leftarrow> cask cp_now;
          (case instant_checked_add t timeout of
             None \<Rightarrow> cfault CpPanic
           | Some deadline \<Rightarrow> loopE fuel CpFuel (\<lambda>_. exit_round deadline) ()) }"

definition kill_rest_of_group :: "32 word \<Rightarrow> unit cproc" where
  "kill_rest_of_group child_pid =
     tryE (signal_process_group child_pid sigterm) (\<lambda>_.
     tryE (signal_process_group child_pid sigkill) (\<lambda>_.
     tryE child_wait (\<lambda>_. cok ())))"

definition terminate_child_unix :: "nat \<Rightarrow> nat \<Rightarrow> unit cproc" where
  "terminate_child_unix fuel pid =
     (let child_pid = word_of_nat pid :: 32 word in
      tryE child_try_wait (\<lambda>s.
        if s = None then
          tryE (signal_process_group child_pid sigterm) (\<lambda>_.
          tryE (wait_for_child_exit fuel (secs 2)) (\<lambda>exited.
            if \<not> exited then
              tryE (signal_process_group child_pid sigkill) (\<lambda>_.
              do { child_kill; tryE child_wait (\<lambda>_. cok ()) })
            else kill_rest_of_group child_pid))
        else kill_rest_of_group child_pid))"

subsection \<open>What was signalled\<close>

fun signal_of :: "cp_action \<Rightarrow> (int \<times> nat) option" where
  "signal_of (CpSignal target sig r) = Some (target, sig)"
| "signal_of _ = None"

abbreviation signals :: "cp_action list \<Rightarrow> (int \<times> nat) list" where
  "signals \<equiv> List.map_filter signal_of"

text \<open>What one step appends to the log, read as signals.\<close>

definition signalled :: "(int \<times> nat) list \<Rightarrow> kworld \<Rightarrow> kworld \<Rightarrow> bool" where
  "signalled xs s t \<longleftrightarrow> (\<exists>new. cp_log t = cp_log s @ new \<and> signals new = xs)"

definition quiet :: "kworld \<Rightarrow> kworld \<Rightarrow> bool" where
  "quiet s t \<longleftrightarrow> signalled [] s t \<and> cp_now t = cp_now s \<and> cp_tick s \<le> cp_tick t"

lemma signals_simps [simp]:
  "signals [] = []" "signals (CpSignal x y r # as) = (x, y) # signals as"
  "signals (CpKill # as) = signals as" "signals (CpPause d # as) = signals as"
  by (simp_all add: List.map_filter_simps)

lemma signals_append [simp]: "signals (xs @ ys) = signals xs @ signals ys"
  by (simp add: List.map_filter_def)

lemma signalled_trans: "signalled xs s t \<Longrightarrow> signalled ys t u \<Longrightarrow> signalled (xs @ ys) s u"
  unfolding signalled_def by (metis append.assoc signals_append)

lemma signalled_refl: "signalled [] s s"
  by (simp add: signalled_def List.map_filter_simps)

interpretation qt: effect_rel quiet
proof
  show "quiet s s" for s by (simp add: quiet_def signalled_refl)
  show "quiet s t \<Longrightarrow> quiet t u \<Longrightarrow> quiet s u" for s t u
    using signalled_trans [of "[]" s t "[]" u] by (simp add: quiet_def)
qed

lemma run_cask [simp]: "run_state (cask f) k = (f k (cp_tick k), k\<lparr>cp_tick := Suc (cp_tick k)\<rparr>)"
  by (simp add: cask_def)

lemma run_clog [simp]: "run_state (clog a) k = ((), k\<lparr>cp_log := cp_log k @ [a]\<rparr>)"
  by (simp add: clog_def)

lemmas cproc_ret = cok_def cfault_def

lemma quiet_prims [intro]:
  "qt.keeps (cask f)" "qt.keeps (cok x)" "qt.keeps (cfault e)" "qt.keeps (modify (\<lambda>k. k\<lparr>cp_status := st\<rparr>))"
  "signal_of a = None \<Longrightarrow> qt.keeps (clog a)"
  by (auto intro!: qt.keepsI simp: quiet_def signalled_def cproc_ret List.map_filter_simps)

lemma quiet_child:
  "qt.keeps child_try_wait" "qt.keeps child_kill" "qt.keeps child_wait" "qt.keeps (exit_round deadline)"
  "qt.keeps (wait_for_child_exit fuel timeout)"
proof -
  show tw: "qt.keeps child_try_wait"
    unfolding child_try_wait_def by (intro qt.keeps_intros quiet_prims) (auto intro!: qt.keeps_intros quiet_prims split: wait_answer.splits)
  show "qt.keeps child_kill" "qt.keeps child_wait"
    unfolding child_kill_def child_wait_def by (intro qt.keeps_intros quiet_prims; simp)+
  show er: "qt.keeps (exit_round deadline)" for deadline
    unfolding exit_round_def by (intro qt.keeps_intros quiet_prims tw) simp
  show "qt.keeps (wait_for_child_exit fuel timeout)"
    unfolding wait_for_child_exit_def by (intro qt.keeps_intros quiet_prims er)
qed

lemma signal_group_trace:
  "run_state (signal_process_group pg sig) k = (r, k') \<Longrightarrow>
     signalled [(sint (- pg), sig)] k k' \<and> cp_status k' = cp_status k \<and> cp_now k' = cp_now k \<and> cp_tick k' = Suc (cp_tick k)"
  by (auto simp: signal_process_group_def signalled_def cproc_ret split: option.splits if_splits)

lemma child_wait_Inr: "run_state child_wait k = (Inr x, k') \<Longrightarrow> cp_status k' = Some x"
  by (auto simp: child_wait_def cproc_ret split: option.splits sum.splits)

lemma quiet_signalled: "quiet s t \<Longrightarrow> signalled [] s t"
  by (simp add: quiet_def)


subsection \<open>A terminated child\<close>

text \<open>
  The contract of \<open>terminate_child\<close>: the exit status of the child is collected, and its group,
  and no other process, was asked to terminate before it was killed.
\<close>

definition terminated :: "int \<Rightarrow> kworld \<Rightarrow> kworld \<Rightarrow> bool" where
  "terminated pgid s t \<longleftrightarrow> cp_status t \<noteq> None
     \<and> (\<exists>n. signalled (replicate (Suc n) (- pgid, sigterm) @ [(- pgid, sigkill)]) s t)"

lemma group_target:
  assumes "0 < pid" "pid < 2 ^ 31"
  shows "sint (- (word_of_nat pid :: 32 word)) = - int pid"
proof -
  have "- (word_of_nat pid :: 32 word) = word_of_int (- int pid)" by simp
  also have "sint \<dots> = - int pid"
    using assms by (simp only: sint_sbintrunc') (simp add: signed_take_bit_int_eq_self)
  finally show ?thesis .
qed

lemma kill_rest_trace:
  assumes run: "run_state (kill_rest_of_group pg) k = (Inr u, k')"
  shows "cp_status k' \<noteq> None \<and> signalled [(sint (- pg), sigterm), (sint (- pg), sigkill)] k k'"
proof -
  from run obtain a k1 where a: "run_state (signal_process_group pg sigterm) k = (Inr a, k1)"
    by (auto simp: kill_rest_of_group_def split: prod.splits sum.splits)
  from run a obtain b k2 where b: "run_state (signal_process_group pg sigkill) k1 = (Inr b, k2)"
    by (auto simp: kill_rest_of_group_def split: prod.splits sum.splits)
  from run a b obtain x where x: "run_state child_wait k2 = (Inr x, k')"
    by (auto simp: kill_rest_of_group_def cproc_ret split: prod.splits sum.splits)
  have "signalled [(sint (- pg), sigterm)] k k1" "signalled [(sint (- pg), sigkill)] k1 k2" "signalled [] k2 k'"
    using signal_group_trace [OF a] signal_group_trace [OF b] qt.keepsE [OF quiet_child(3) x]
    by (auto intro: quiet_signalled)
  with signalled_trans have "signalled ([(sint (- pg), sigterm)] @ [(sint (- pg), sigkill)] @ []) k k'" by blast
  with child_wait_Inr [OF x] show ?thesis by simp
qed

lemma terminate_child_terminates:
  assumes pid: "0 < pid" "pid < 2 ^ 31"
    and run: "run_state (terminate_child_unix fuel pid) k = (Inr u, k')"
  shows "terminated (int pid) k k'"
proof -
  let ?pg = "word_of_nat pid :: 32 word"
  let ?tm = "(- int pid, sigterm)" and ?kl = "(- int pid, sigkill)"
  note target = group_target [OF pid]
  from run obtain s k1 where s: "run_state child_try_wait k = (Inr s, k1)"
    by (auto simp: terminate_child_unix_def Let_def split: prod.splits sum.splits)
  have q1: "signalled [] k k1" using qt.keepsE [OF quiet_child(1) s] by (rule quiet_signalled)
  show ?thesis
  proof (cases s)
    case (Some x)
    with run s have "run_state (kill_rest_of_group ?pg) k1 = (Inr u, k')"
      by (simp add: terminate_child_unix_def Let_def)
    from kill_rest_trace [OF this] target have "cp_status k' \<noteq> None" "signalled [?tm, ?kl] k1 k'" by simp_all
    with signalled_trans [OF q1] show ?thesis by (auto simp: terminated_def intro!: exI [of _ 0])
  next
    case None
    with run s obtain a k2 where a: "run_state (signal_process_group ?pg sigterm) k1 = (Inr a, k2)"
      by (auto simp: terminate_child_unix_def Let_def split: prod.splits sum.splits)
    with run s None obtain ex k3 where ex: "run_state (wait_for_child_exit fuel (secs 2)) k2 = (Inr ex, k3)"
      by (auto simp: terminate_child_unix_def Let_def split: prod.splits sum.splits)
    have "signalled [?tm] k1 k2" "signalled [] k2 k3"
      using signal_group_trace [OF a] target qt.keepsE [OF quiet_child(5) ex] by (auto intro: quiet_signalled)
    with q1 signalled_trans have "signalled ([] @ [?tm] @ []) k k3" by blast
    then have q3: "signalled [?tm] k k3" by simp
    show ?thesis
    proof (cases ex)
      case True
      with run s None a ex have "run_state (kill_rest_of_group ?pg) k3 = (Inr u, k')"
        by (simp add: terminate_child_unix_def Let_def)
      from kill_rest_trace [OF this] target have "cp_status k' \<noteq> None" "signalled [?tm, ?kl] k3 k'" by simp_all
      with signalled_trans [OF q3] show ?thesis by (auto simp: terminated_def intro!: exI [of _ 1])
    next
      case False
      with run s None a ex obtain b k4 where b: "run_state (signal_process_group ?pg sigkill) k3 = (Inr b, k4)"
        by (auto simp: terminate_child_unix_def Let_def split: prod.splits sum.splits)
      obtain k5 where c: "run_state child_kill k4 = ((), k5)" by (cases "run_state child_kill k4") auto
      with run s None a ex False b obtain x where x: "run_state child_wait k5 = (Inr x, k')"
        by (auto simp: terminate_child_unix_def Let_def cproc_ret split: prod.splits sum.splits)
      have "signalled [?kl] k3 k4" "signalled [] k4 k5" "signalled [] k5 k'"
        using signal_group_trace [OF b] target qt.keepsE [OF quiet_child(2) c] qt.keepsE [OF quiet_child(3) x]
        by (auto intro: quiet_signalled)
      with q3 signalled_trans have "signalled ([?tm] @ [?kl] @ [] @ []) k k'" by blast
      with child_wait_Inr [OF x] show ?thesis by (auto simp: terminated_def intro!: exI [of _ 0])
    qed
  qed
qed

text \<open>It returns once the two seconds of grace are over on the clock.\<close>

lemma exit_round_steps:
  "run_state (exit_round deadline) k = (Inr (Inl u), k') \<Longrightarrow>
     (\<exists>n. cp_tick k \<le> n \<and> n < cp_tick k' \<and> cp_now k n < deadline) \<and> cp_now k' = cp_now k"
  by (auto simp: exit_round_def child_try_wait_def cproc_ret
           intro!: exI [of _ "Suc (cp_tick k)"] split: option.splits wait_answer.splits if_splits)

lemma child_no_fuel:
  "run_state child_try_wait k \<noteq> (Inl CpFuel, k')" "run_state child_wait k \<noteq> (Inl CpFuel, k')"
  "run_state (signal_process_group pg sig) k \<noteq> (Inl CpFuel, k')"
  by (auto simp: child_try_wait_def child_wait_def signal_process_group_def cproc_ret
           split: option.splits wait_answer.splits sum.splits)

lemma exit_round_no_fuel: "run_state (exit_round deadline) k \<noteq> (Inl CpFuel, k')"
  by (auto simp: exit_round_def child_no_fuel cproc_ret split: prod.splits sum.splits)

lemma wait_for_child_exit_returns:
  assumes clock: "\<And>n. N \<le> n \<Longrightarrow> cp_now k (cp_tick k) + timeout \<le> cp_now k n" and fuel: "N < fuel"
  shows "run_state (wait_for_child_exit fuel timeout) k \<noteq> (Inl CpFuel, k')"
proof
  assume run: "run_state (wait_for_child_exit fuel timeout) k = (Inl CpFuel, k')"
  define deadline where "deadline = cp_now k (cp_tick k) + timeout"
  define k1 where "k1 = k\<lparr>cp_tick := Suc (cp_tick k)\<rparr>"
  from run have loop: "run_state (loopE fuel CpFuel (\<lambda>_. exit_round deadline) ()) k1 = (Inl CpFuel, k')"
    by (auto simp: wait_for_child_exit_def deadline_def k1_def cproc_ret instant_checked_add_Some split: option.splits)
  have "(Inl CpFuel :: cp_fault + bool) \<noteq> Inl CpFuel"
  proof (rule loopE_returns [where I = "\<lambda>_ k2. cp_now k2 = cp_now k" and m = "\<lambda>_ k2. N - cp_tick k2"
        and body = "\<lambda>_. exit_round deadline" and b = "()" and w = k1 and n = fuel and w' = k'])
    fix b k2 b' k3
    assume r: "run_state (exit_round deadline) k2 = (Inr (Inl b'), k3)" and i: "cp_now k2 = cp_now k"
    from exit_round_steps [OF r] i obtain n where n: "cp_tick k2 \<le> n" "n < cp_tick k3" "cp_now k n < deadline"
        and now: "cp_now k3 = cp_now k" by auto
    from n(3) clock [of n] have "n < N" by (auto simp: deadline_def not_le [symmetric])
    with n now show "cp_now k3 = cp_now k \<and> N - cp_tick k3 < N - cp_tick k2" by auto
  qed (use loop fuel in \<open>auto simp: exit_round_no_fuel k1_def\<close>)
  then show False by simp
qed


lemma kill_rest_no_fuel: "run_state (kill_rest_of_group pg) k \<noteq> (Inl CpFuel, k')"
  by (auto simp: kill_rest_of_group_def child_no_fuel cproc_ret split: prod.splits sum.splits)

lemma terminate_child_returns:
  assumes clock: "\<And>n. N \<le> n \<Longrightarrow> cp_now k (cp_tick k + 2) + secs 2 \<le> cp_now k n" and fuel: "N < fuel"
  shows "run_state (terminate_child_unix fuel pid) k \<noteq> (Inl CpFuel, k')"
proof
  let ?pg = "word_of_nat pid :: 32 word"
  assume run: "run_state (terminate_child_unix fuel pid) k = (Inl CpFuel, k')"
  then obtain s k1 where s: "run_state child_try_wait k = (Inr s, k1)"
    by (auto simp: terminate_child_unix_def Let_def child_no_fuel split: prod.splits sum.splits)
  with run have s0: "s = None"
    by (cases s) (simp_all add: terminate_child_unix_def Let_def kill_rest_no_fuel)
  with s have k1: "cp_tick k1 = Suc (cp_tick k)" "cp_now k1 = cp_now k"
    by (auto simp: child_try_wait_def cproc_ret split: option.splits wait_answer.splits)
  from run s s0 obtain u k2 where u: "run_state (signal_process_group ?pg sigterm) k1 = (Inr u, k2)"
    by (auto simp: terminate_child_unix_def Let_def child_no_fuel split: prod.splits sum.splits)
  from signal_group_trace [OF u] k1 have k2: "cp_tick k2 = cp_tick k + 2" "cp_now k2 = cp_now k" by simp_all
  obtain x k3 where x: "run_state (wait_for_child_exit fuel (secs 2)) k2 = (x, k3)" by fastforce
  from clock k2 fuel have "x \<noteq> Inl CpFuel"
    using wait_for_child_exit_returns [of N k2 "secs 2" fuel k3] x by auto
  with run s s0 u x obtain e where ex: "x = Inr e"
    by (cases x) (auto simp: terminate_child_unix_def Let_def)
  from run s s0 u x ex show False
    by (auto simp: terminate_child_unix_def Let_def child_no_fuel kill_rest_no_fuel cproc_ret
             split: if_splits prod.splits sum.splits)
qed

subsection \<open>The manager and its child\<close>

text \<open>
  The answer the manager gets, when it gets one: \<open>None\<close> for success, the text of an
  \<open>io::Error\<close> otherwise; \<open>strerror\<close> is the system's text for an error number.
\<close>

fun stop_answer :: "(nat \<Rightarrow> string) \<Rightarrow> cp_fault + unit \<Rightarrow> string option option" where
  "stop_answer strerror (Inr u) = Some None"
| "stop_answer strerror (Inl (CpOs e)) = Some (Some (strerror e))"
| "stop_answer strerror (Inl (CpIo e)) = Some (Some e)"
| "stop_answer strerror (Inl CpPanic) = None"
| "stop_answer strerror (Inl CpFuel) = None"

definition demo_kernel_world :: kworld where
  "demo_kernel_world =
     \<lparr> cp_status = None, cp_tick = 0, cp_now = (\<lambda>n. secs n), cp_try_wait = (\<lambda>_. Running),
       cp_kill_group = (\<lambda>n. if n = 1 then None else Some esrch), cp_wait = (\<lambda>_. Inr ''signal: 9''), cp_log = [] \<rparr>"

definition demo_stopping_world :: mworld where
  "demo_stopping_world =
     app_server_manager.extend
       \<lparr> m_enabled = True, m_listen_url = None, m_child = Some 4242, m_last_start_failure = None,
         m_last_external_probe = None, m_state = Healthy, m_generation = 1, m_active_turn_count = 0,
         m_status_summary = None, m_last_error = None, m_pending_restart = None,
         m_next_scheduled_restart_at = None, m_last_upgrade_marker_modified = None \<rparr>
       \<lparr> w_tick = 0, w_now = (\<lambda>_. 0), w_health = (\<lambda>_. None), w_spawn = (\<lambda>_. SpawnFailed []),
         w_try_wait = (\<lambda>_. Running), w_terminate = (\<lambda>_. None), w_marker = (\<lambda>_. None),
         w_shutdown = (\<lambda>_. False), w_uri = (\<lambda>_. Inl []), w_trace = [] \<rparr>"

text \<open>C14: The manager forgets its child only when the child is gone: with the answer of the detailed
  \<open>terminate_child\<close> in place of the one the manager asks for, \<open>stop_child_checked\<close> either succeeds,
  and then the exit status is collected and the child's own process group, no other, was sent
  SIGTERM and then SIGKILL; or it reports the error and still holds the child.\<close>

theorem forgotten_child_is_gone:
  assumes child: "m_child w = Some pid" and pid: "0 < pid" "pid < 2 ^ 31"
    and kernel: "run_state (terminate_child_unix fuel pid) k = (a, k')"
    and answer: "stop_answer strerror a = Some (w_terminate w (w_tick w))"
    and run: "run_state (stop_child_checked reason) w = (r, w')"
  shows "(if r = Inr () then m_child w' = None \<and> terminated (int pid) k k' else m_child w' = Some pid)"
proof (cases a)
  case (Inr u)
  with answer have "w_terminate w (w_tick w) = None" by simp
  with child run have "r = Inr ()" "m_child w' = None"
    by (auto simp: stop_child_checked_def Manager.terminate_child_def ask_def act_def)
  with terminate_child_terminates [OF pid] kernel Inr show ?thesis by auto
next
  case (Inl e)
  with answer obtain x where "w_terminate w (w_tick w) = Some x" by (cases e) (auto dest: sym)
  with child run show ?thesis
    by (auto simp: stop_child_checked_def Manager.terminate_child_def ask_def act_def)
qed

theorem forgotten_child_is_gone_witness:
  "(if fst (run_state (stop_child_checked []) demo_stopping_world) = Inr ()
    then m_child (snd (run_state (stop_child_checked []) demo_stopping_world)) = None
         \<and> terminated (int 4242) demo_kernel_world (snd (run_state (terminate_child_unix 9 4242) demo_kernel_world))
    else m_child (snd (run_state (stop_child_checked []) demo_stopping_world)) = Some 4242)"
proof (rule forgotten_child_is_gone [where fuel = 9 and strerror = "\<lambda>_. []"])
  let ?run = "run_state (terminate_child_unix 9 4242) demo_kernel_world"
  show "?run = (fst ?run, snd ?run)" by simp
  have "fst ?run = Inr ()" by code_simp
  then show "stop_answer (\<lambda>_. []) (fst ?run) = Some (w_terminate demo_stopping_world (w_tick demo_stopping_world))"
    by (simp add: demo_stopping_world_def app_server_manager.defs)
qed (simp_all add: demo_stopping_world_def app_server_manager.defs)

text \<open>Terminating the child returns: it waits for the exit no longer than until the clock shows that
  the two seconds of grace are over.\<close>

theorem terminating_the_child_returns:
  assumes clock: "\<And>n. N \<le> n \<Longrightarrow> cp_now k (cp_tick k + 2) + secs 2 \<le> cp_now k n" and fuel: "N < fuel"
  shows "fst (run_state (terminate_child_unix fuel pid) k) \<noteq> Inl CpFuel"
  using terminate_child_returns [OF clock fuel, of pid "snd (run_state (terminate_child_unix fuel pid) k)"]
  by (cases "run_state (terminate_child_unix fuel pid) k") simp

theorem terminating_the_child_returns_witness:
  "fst (run_state (terminate_child_unix 6 4242) demo_kernel_world) \<noteq> Inl CpFuel"
  by (rule terminating_the_child_returns [where N = 4]) (auto simp: demo_kernel_world_def secs_def)

end
