(* ===== verification/Preflight.thy ===== *)
theory Preflight
  imports Net_Url "HOL-Library.AList"
begin

text \<open>
  The private endpoint of a preflight (\<open>app_server_manager.rs\<close>, \<open>AppServerPreflightEndpoint\<close>): an
  app server is started once on an address of its own before the configured one is used. For a
  unix socket that is a fresh directory under \<open>/tmp\<close>, after a check that the configured directory
  takes one; for a loopback address, a port the system picks. The record \<open>fworld\<close> has the nodes
  of the file system under normalised path names, the faults of its operations and what the
  process asks, indexed by the number of questions asked.
\<close>

subsection \<open>The file system\<close>

datatype fs_node = FsDir nat | FsFile
datatype io_kind = AlreadyExists | FsNotFound | NotADirectory | DirectoryNotEmpty | InvalidInput | IoOther

type_synonym io_error = "io_kind \<times> string"

record fworld =
  f_nodes :: "(string \<times> fs_node) list"
  f_tick :: nat
  f_fault :: "nat \<Rightarrow> io_error option"
  f_nanos :: "nat \<Rightarrow> nat option"
  f_pid :: nat
  f_bind :: "nat \<Rightarrow> io_error + nat"
  f_urls :: uri_parser

type_synonym 'a fs = "(fworld, io_error + 'a) state"

definition fask :: "(fworld \<Rightarrow> nat \<Rightarrow> 'a) \<Rightarrow> (fworld, 'a) state" where
  "fask f = State (\<lambda>w. (f w (f_tick w), w\<lparr>f_tick := Suc (f_tick w)\<rparr>))"

definition fok :: "'a \<Rightarrow> 'a fs" where "fok x = ret (Inr x)"
definition ffail :: "io_kind \<Rightarrow> string \<Rightarrow> 'a fs" where "ffail k e = ret (Inl (k, e))"

text \<open>An operation of the system: its fault, if it has one, comes first.\<close>

definition fcall :: "'a fs \<Rightarrow> 'a fs" where
  "fcall m = do { r \<leftarrow> fask f_fault; (case r of Some e \<Rightarrow> ret (Inl e) | None \<Rightarrow> m) }"

definition node_at :: "string \<Rightarrow> (fworld, fs_node option) state" where
  "node_at p = gets (\<lambda>w. map_of (f_nodes w) p)"

definition has_entries :: "(string \<times> fs_node) list \<Rightarrow> string \<Rightarrow> bool" where
  "has_entries nodes p \<longleftrightarrow> list_ex (starts_with (p @ ''/'')) (map fst nodes)"

definition create_dir :: "nat \<Rightarrow> string \<Rightarrow> unit fs" where
  "create_dir mode p =
     fcall (do { n \<leftarrow> node_at p;
                 (case n of
                    Some _ \<Rightarrow> ffail AlreadyExists ''File exists''
                  | None \<Rightarrow> do { modify (\<lambda>w. w\<lparr>f_nodes := AList.update p (FsDir mode) (f_nodes w)\<rparr>); fok () }) })"

definition remove_dir :: "string \<Rightarrow> unit fs" where
  "remove_dir p =
     fcall (do { n \<leftarrow> node_at p;
                 full \<leftarrow> gets (\<lambda>w. has_entries (f_nodes w) p);
                 (case n of
                    None \<Rightarrow> ffail FsNotFound ''No such file or directory''
                  | Some FsFile \<Rightarrow> ffail NotADirectory ''Not a directory''
                  | Some (FsDir m) \<Rightarrow>
                      (if full then ffail DirectoryNotEmpty ''Directory not empty''
                       else do { modify (\<lambda>w. w\<lparr>f_nodes := AList.delete p (f_nodes w)\<rparr>); fok () })) })"

definition remove_file :: "string \<Rightarrow> unit fs" where
  "remove_file p =
     fcall (do { n \<leftarrow> node_at p;
                 (case n of
                    None \<Rightarrow> ffail FsNotFound ''No such file or directory''
                  | Some (FsDir m) \<Rightarrow> ffail IoOther ''Is a directory''
                  | Some FsFile \<Rightarrow>
                      do { modify (\<lambda>w. w\<lparr>f_nodes := AList.delete p (f_nodes w)\<rparr>); fok () }) })"

definition metadata :: "string \<Rightarrow> fs_node fs" where
  "metadata p =
     fcall (do { n \<leftarrow> node_at p;
                 (case n of None \<Rightarrow> ffail FsNotFound ''No such file or directory'' | Some x \<Rightarrow> fok x) })"

text \<open>\<open>Path::parent\<close> of an absolute path.\<close>

definition path_parent :: "string \<Rightarrow> string option" where
  "path_parent p =
     (case rev (path_components p) of
        [] \<Rightarrow> None
      | _ # up \<Rightarrow> Some ((if path_is_absolute p then ''/'' else '''') @ join_sep ''/'' (rev up)))"

subsection \<open>Addresses as text\<close>

definition show_ipv4 :: "nat \<times> nat \<times> nat \<times> nat \<Rightarrow> string" where
  "show_ipv4 a =
     (case a of (o1, o2, o3, o4) \<Rightarrow>
        join_sep ''.'' [show_nat o1, show_nat o2, show_nat o3, show_nat o4])"

text \<open>The first longest run of zero groups: the run being read, and the longest one, as start and length.\<close>

fun zero_run :: "nat \<Rightarrow> nat list \<Rightarrow> nat \<times> nat \<Rightarrow> nat \<times> nat \<Rightarrow> nat \<times> nat" where
  "zero_run i [] current longest = longest"
| "zero_run i (g # gs) (start, len) longest =
     (if g = 0
      then (let current = ((if len = 0 then i else start), Suc len)
            in zero_run (Suc i) gs current (if snd longest < snd current then current else longest))
      else zero_run (Suc i) gs (0, 0) longest)"

definition show_groups :: "nat list \<Rightarrow> string" where
  "show_groups gs = join_sep '':'' (map show_hex gs)"

definition show_ipv6 :: "nat list \<Rightarrow> string" where
  "show_ipv6 gs =
     (if take 6 gs = [0, 0, 0, 0, 0, 65535] \<and> length gs = 8
      then ''::ffff:'' @ show_ipv4 (gs ! 6 div 256, gs ! 6 mod 256, gs ! 7 div 256, gs ! 7 mod 256)
      else (case zero_run 0 gs (0, 0) (0, 0) of (start, len) \<Rightarrow>
              if 1 < len then show_groups (take start gs) @ ''::'' @ show_groups (drop (start + len) gs)
              else show_groups gs))"

definition show_socket_addr :: "ip_addr \<Rightarrow> nat \<Rightarrow> string" where
  "show_socket_addr ip port =
     (case ip of V4 a \<Rightarrow> show_ipv4 a @ '':'' @ show_nat port
      | V6 gs \<Rightarrow> ''['' @ show_ipv6 gs @ '']:'' @ show_nat port)"

subsection \<open>The endpoint\<close>

record preflight_endpoint =
  ep_listen_url :: string
  ep_cleanup_path :: "string option"
  ep_cleanup_dir :: "string option"

definition u128_max :: nat where "u128_max = 2 ^ 128 - 1"
definition private_mode :: nat where "private_mode = 448"

definition preflight_dir_name :: "string \<Rightarrow> nat \<Rightarrow> nat \<Rightarrow> nat \<Rightarrow> string" where
  "preflight_dir_name prefix pid base_nonce attempt =
     prefix @ ''-'' @ show_nat pid @ ''-'' @ show_hex (sat_add u128_max base_nonce attempt)"

fun preflight_attempts :: "string \<Rightarrow> string \<Rightarrow> nat \<Rightarrow> nat list \<Rightarrow> string fs" where
  "preflight_attempts parent prefix base_nonce [] =
     ffail AlreadyExists ''unable to allocate a unique managed app-server preflight directory''"
| "preflight_attempts parent prefix base_nonce (attempt # attempts) =
     do { pid \<leftarrow> gets f_pid;
          (let path = path_join parent (preflight_dir_name prefix pid base_nonce attempt)
           in do { r \<leftarrow> create_dir private_mode path;
                   (case r of
                      Inr _ \<Rightarrow> fok path
                    | Inl (kind, e) \<Rightarrow>
                        (if kind = AlreadyExists then preflight_attempts parent prefix base_nonce attempts
                         else ffail kind e)) }) }"

definition create_private_preflight_dir :: "string \<Rightarrow> string \<Rightarrow> string fs" where
  "create_private_preflight_dir parent prefix =
     do { n \<leftarrow> fask f_nanos;
          preflight_attempts parent prefix (case n of Some x \<Rightarrow> x | None \<Rightarrow> 0) [0..<16] }"

definition validate_managed_unix_socket_path :: "string \<Rightarrow> unit fs" where
  "validate_managed_unix_socket_path path =
     (if \<not> is_valid_unix_socket_path path
      then ffail InvalidInput ''managed app-server Unix socket path is invalid or too long''
      else (case path_parent path of
              None \<Rightarrow> ffail InvalidInput ''managed app-server Unix socket has no parent directory''
            | Some parent \<Rightarrow>
                tryE (metadata parent) (\<lambda>node.
                  if node = FsFile
                  then ffail NotADirectory ''managed app-server Unix socket parent is not a directory''
                  else tryE (create_private_preflight_dir parent ''.chaop-pf-check'') (\<lambda>probe_dir.
                         do { result \<leftarrow> remove_dir probe_dir;
                              whenS (case result of Inl _ \<Rightarrow> True | Inr _ \<Rightarrow> False) (do { _ \<leftarrow> remove_dir probe_dir; ret () });
                              ret result }))))"

definition preflight_endpoint_new :: "string \<Rightarrow> preflight_endpoint fs" where
  "preflight_endpoint_new configured_listen_url =
     (case strip_unix_scheme configured_listen_url of
        Some path \<Rightarrow>
          tryE (validate_managed_unix_socket_path path) (\<lambda>_.
          tryE (create_private_preflight_dir ''/tmp'' ''chaop-pf'') (\<lambda>cleanup_dir.
            (let cleanup_path = path_join cleanup_dir ''s''
             in fok \<lparr> ep_listen_url = ''unix://'' @ cleanup_path,
                      ep_cleanup_path = Some cleanup_path, ep_cleanup_dir = Some cleanup_dir \<rparr>)))
      | None \<Rightarrow>
          do { pu \<leftarrow> gets f_urls;
               (case pu configured_listen_url of
                  Inl e \<Rightarrow> ffail InvalidInput e
                | Inr u \<Rightarrow>
                    (case u_scheme u of
                       None \<Rightarrow> ffail InvalidInput ''managed app-server listen URL has no scheme''
                     | Some scheme \<Rightarrow>
                         (case u_host u of
                            None \<Rightarrow> ffail InvalidInput ''managed app-server listen URL has no host''
                          | Some host \<Rightarrow>
                              (case parse_ip (strip_brackets host) of
                                 None \<Rightarrow> ffail InvalidInput ''invalid IP address syntax''
                               | Some bind_ip \<Rightarrow>
                                   do { r \<leftarrow> fask f_bind;
                                        (case r of
                                           Inl (kind, e) \<Rightarrow> ffail kind e
                                         | Inr port \<Rightarrow>
                                             fok \<lparr> ep_listen_url = scheme @ ''://'' @ show_socket_addr bind_ip port,
                                                   ep_cleanup_path = None, ep_cleanup_dir = None \<rparr>) })))) })"

text \<open>\<open>Drop\<close>: the socket, then the directory; what cannot be removed is printed.\<close>

definition preflight_endpoint_drop :: "preflight_endpoint \<Rightarrow> (fworld, unit) state" where
  "preflight_endpoint_drop ep =
     do { (case ep_cleanup_path ep of None \<Rightarrow> ret () | Some path \<Rightarrow> do { _ \<leftarrow> remove_file path; ret () });
          (case ep_cleanup_dir ep of None \<Rightarrow> ret () | Some path \<Rightarrow> do { _ \<leftarrow> remove_dir path; ret () }) }"

text \<open>The app server started on the endpoint binds its socket, or has not come that far.\<close>

definition endpoint_served :: "bool \<Rightarrow> preflight_endpoint \<Rightarrow> fworld \<Rightarrow> fworld" where
  "endpoint_served bound ep w =
     (case ep_cleanup_path ep of
        Some path \<Rightarrow> (if bound then w\<lparr>f_nodes := AList.update path FsFile (f_nodes w)\<rparr> else w)
      | None \<Rightarrow> w)"


subsection \<open>Keys and entries\<close>

lemma run_fask [simp]: "run_state (fask f) w = (f w (f_tick w), w\<lparr>f_tick := Suc (f_tick w)\<rparr>)"
  by (simp add: fask_def)

lemmas fs_ret = fok_def ffail_def node_at_def fcall_def

definition keys :: "(string \<times> fs_node) list \<Rightarrow> string set" where
  "keys nodes = fst ` set nodes"

lemma keys_map: "keys nodes = set (map fst nodes)"
  by (simp add: keys_def)

lemma keys_update [simp]: "keys (AList.update k v nodes) = insert k (keys nodes)"
  unfolding keys_map update_keys by auto

lemma keys_delete [simp]: "keys (AList.delete k nodes) = keys nodes - {k}"
  unfolding keys_map delete_keys by auto

lemma map_of_None_keys: "map_of nodes p = None \<longleftrightarrow> p \<notin> keys nodes"
  by (simp add: map_of_eq_None_iff keys_def)

lemma has_entries_iff: "has_entries nodes p \<longleftrightarrow> (\<exists>q \<in> keys nodes. starts_with (p @ ''/'') q)"
  by (auto simp: has_entries_def list_ex_iff keys_def)

text \<open>Every node lies in directories that are there.\<close>

definition tree_closed :: "(string \<times> fs_node) list \<Rightarrow> bool" where
  "tree_closed nodes \<longleftrightarrow>
     list_all (\<lambda>q. list_all (\<lambda>i. i = 0 \<or> q ! i \<noteq> CHR ''/'' \<or> take i q \<in> set (map fst nodes)) [0..<length q]) (map fst nodes)"

lemma tree_closedD:
  assumes "tree_closed nodes" "q \<in> keys nodes" "starts_with (p @ ''/'') q" "p \<noteq> []"
  shows "p \<in> keys nodes"
proof -
  from assms(3) have t: "take (Suc (length p)) q = p @ ''/''" by (simp add: starts_with_def)
  then have len: "length p < length q"
    by (metis Suc_le_eq length_append_singleton length_take min.absorb_iff2 nat_le_linear take_all_iff)
  with t have "take (length p) q = p" "q ! length p = CHR ''/''"
    by (simp_all add: take_Suc_conv_app_nth)
  moreover have "\<forall>i \<in> set [0..<length q]. i = 0 \<or> q ! i \<noteq> CHR ''/'' \<or> take i q \<in> keys nodes"
    using assms(1,2) unfolding tree_closed_def list_all_iff keys_map by blast
  ultimately show ?thesis using assms(4) len by fastforce
qed

lemma no_entries_fresh:
  "tree_closed nodes \<Longrightarrow> p \<notin> keys nodes \<Longrightarrow> p \<noteq> [] \<Longrightarrow> \<not> has_entries nodes p"
  by (auto simp: has_entries_iff dest: tree_closedD)

lemma not_inside_itself [simp]: "\<not> starts_with (p @ ''/'') p"
  by (simp add: starts_with_def)

subsection \<open>What the operations change\<close>

definition same_system :: "fworld \<Rightarrow> fworld \<Rightarrow> bool" where
  "same_system s t \<longleftrightarrow> f_fault t = f_fault s \<and> f_urls t = f_urls s \<and> f_pid t = f_pid s \<and> f_nanos t = f_nanos s"

lemma create_dir_cases:
  assumes "run_state (create_dir mode p) w = (r, w')"
  shows "same_system w w' \<and>
    (case r of
       Inr _ \<Rightarrow> p \<notin> keys (f_nodes w) \<and> f_nodes w' = AList.update p (FsDir mode) (f_nodes w)
     | Inl e \<Rightarrow> f_nodes w' = f_nodes w)"
  using assms by (auto simp: create_dir_def fs_ret same_system_def map_of_None_keys split: option.splits)

lemma remove_dir_cases:
  assumes "run_state (remove_dir p) w = (r, w')"
  shows "same_system w w' \<and> f_nodes w' \<in> {f_nodes w, AList.delete p (f_nodes w)}"
  using assms by (auto simp: remove_dir_def fs_ret same_system_def split: option.splits fs_node.splits if_splits)

lemma remove_dir_empty:
  assumes "f_fault w = (\<lambda>_. None)" "map_of (f_nodes w) p = Some (FsDir m)" "\<not> has_entries (f_nodes w) p"
  shows "run_state (remove_dir p) w = (Inr (), w\<lparr>f_tick := Suc (f_tick w), f_nodes := AList.delete p (f_nodes w)\<rparr>)"
  using assms by (simp add: remove_dir_def fs_ret)

lemma remove_file_quiet:
  assumes "f_fault w = (\<lambda>_. None)" "\<And>m. map_of (f_nodes w) p \<noteq> Some (FsDir m)" "run_state (remove_file p) w = (r, w')"
  shows "same_system w w' \<and> keys (f_nodes w') = keys (f_nodes w) - {p} \<and> map_of (f_nodes w') = (map_of (f_nodes w))(p := None)"
  using assms
  by (auto simp: remove_file_def fs_ret same_system_def map_of_None_keys delete_conv' fun_upd_idem
           split: option.splits fs_node.splits)

lemma metadata_same: "run_state (metadata p) w = (r, w') \<Longrightarrow> same_system w w' \<and> f_nodes w' = f_nodes w"
  by (auto simp: metadata_def fs_ret same_system_def split: option.splits)

lemma same_system_trans: "same_system s t \<Longrightarrow> same_system t u \<Longrightarrow> same_system s u"
  by (simp add: same_system_def)

lemma attempts_cases:
  "run_state (preflight_attempts parent prefix base_nonce attempts) w = (r, w') \<Longrightarrow>
     same_system w w' \<and>
     (case r of
        Inr p \<Rightarrow> p \<notin> keys (f_nodes w) \<and> f_nodes w' = AList.update p (FsDir private_mode) (f_nodes w)
          \<and> (\<exists>a. p = path_join parent (preflight_dir_name prefix (f_pid w) base_nonce a))
      | Inl e \<Rightarrow> f_nodes w' = f_nodes w)"
proof (induction attempts arbitrary: w)
  case Nil
  then show ?case by (auto simp: fs_ret same_system_def)
next
  case (Cons a as)
  let ?p = "path_join parent (preflight_dir_name prefix (f_pid w) base_nonce a)"
  obtain x w1 where x: "run_state (create_dir private_mode ?p) w = (x, w1)" by fastforce
  note c = create_dir_cases [OF x]
  show ?case
  proof (cases x)
    case (Inr u)
    with Cons.prems x c show ?thesis by (auto simp: Let_def fs_ret)
  next
    case (Inl e)
    obtain kind msg where e: "e = (kind, msg)" by (cases e)
    show ?thesis
    proof (cases "kind = AlreadyExists")
      case True
      with Cons.prems x Inl e have "run_state (preflight_attempts parent prefix base_nonce as) w1 = (r, w')"
        by (simp add: Let_def)
      from Cons.IH [OF this] c Inl show ?thesis
        by (auto simp: same_system_def split: sum.splits)
    next
      case False
      with Cons.prems x c Inl e show ?thesis by (auto simp: Let_def fs_ret)
    qed
  qed
qed

lemma private_dir_cases:
  assumes run: "run_state (create_private_preflight_dir parent prefix) w = (r, w')"
  shows "same_system w w' \<and>
    (case r of
       Inr p \<Rightarrow> p \<notin> keys (f_nodes w) \<and> f_nodes w' = AList.update p (FsDir private_mode) (f_nodes w)
         \<and> (\<exists>n a. p = path_join parent (preflight_dir_name prefix (f_pid w) n a))
     | Inl e \<Rightarrow> f_nodes w' = f_nodes w)"
proof -
  let ?n = "case f_nanos w (f_tick w) of Some x \<Rightarrow> x | None \<Rightarrow> 0"
  let ?w = "w\<lparr>f_tick := Suc (f_tick w)\<rparr>"
  from run have "run_state (preflight_attempts parent prefix ?n [0..<16]) ?w = (r, w')"
    by (simp add: create_private_preflight_dir_def del: upt_conv_Cons upt_rec_numeral)
  from attempts_cases [OF this] show ?thesis by (auto simp: same_system_def split: sum.splits)
qed


lemma private_path_nonempty: "path_join parent (preflight_dir_name prefix pid n a) \<noteq> []"
  by (simp add: path_join_def preflight_dir_name_def)

lemma show_hex_last: "show_hex n \<noteq> [] \<and> last (show_hex n) \<noteq> CHR ''/''"
proof -
  have digit: "hex_digit d \<noteq> CHR ''/''" if "d < 16" for d
  proof
    assume "hex_digit d = CHR ''/''"
    then have "(of_char (hex_digit d) :: nat) = of_char (CHR ''/'')" by simp
    with that show False by (auto simp: hex_digit_def of_char_of split: if_splits)
  qed
  show ?thesis using digit [of n] digit [of "n mod 16"] by (simp add: show_hex.simps [of n])
qed

lemma private_dir_no_slash: "\<not> ends_with ''/'' (path_join parent (preflight_dir_name prefix pid n a))"
proof -
  let ?name = "preflight_dir_name prefix pid n a"
  have "?name \<noteq> [] \<and> last ?name \<noteq> CHR ''/''"
    using show_hex_last by (simp add: preflight_dir_name_def)
  then have "last (path_join parent ?name) \<noteq> CHR ''/''"
    by (auto simp: path_join_def)
  moreover have "last s = CHR ''/''" if "ends_with ''/'' s" for s
    using that by (cases s rule: rev_cases) (auto simp: ends_with_def)
  ultimately show ?thesis by blast
qed

definition old_nodes_kept :: "fworld \<Rightarrow> fworld \<Rightarrow> bool" where
  "old_nodes_kept s t \<longleftrightarrow> (\<forall>q \<in> keys (f_nodes s). map_of (f_nodes t) q = map_of (f_nodes s) q)"

lemma old_nodes_keptI:
  "map_of (f_nodes t) = (map_of (f_nodes s))(p := x) \<Longrightarrow> p \<notin> keys (f_nodes s) \<Longrightarrow> old_nodes_kept s t"
  by (auto simp: old_nodes_kept_def)

lemma same_nodes_kept: "map_of (f_nodes t) = map_of (f_nodes s) \<Longrightarrow> old_nodes_kept s t"
  by (simp add: old_nodes_kept_def)

lemma remove_fresh:
  assumes "map_of (f_nodes t) = (map_of (f_nodes s))(p := x)" "p \<notin> keys (f_nodes s)"
    and "run_state (remove_dir p) t = (r, u)"
  shows "same_system t u \<and> (\<exists>y. map_of (f_nodes u) = (map_of (f_nodes s))(p := y))"
  using remove_dir_cases [OF assms(3)] assms(1) by (auto simp: delete_conv')

text \<open>The check makes one directory and removes it, or tries twice; nothing older is touched.\<close>

lemma validate_cases:
  assumes run: "run_state (validate_managed_unix_socket_path path) w = (r, w')"
  shows "same_system w w' \<and> old_nodes_kept w w'
    \<and> (f_fault w = (\<lambda>_. None) \<and> tree_closed (f_nodes w) \<longrightarrow> map_of (f_nodes w') = map_of (f_nodes w))"
proof (cases "\<exists>parent n w1 p w2. is_valid_unix_socket_path path \<and> path_parent path = Some parent
    \<and> run_state (metadata parent) w = (Inr n, w1) \<and> n \<noteq> FsFile
    \<and> run_state (create_private_preflight_dir parent ''.chaop-pf-check'') w1 = (Inr p, w2)")
  case False
  have same: "same_system w w' \<and> f_nodes w' = f_nodes w"
  proof (cases "is_valid_unix_socket_path path \<and> path_parent path \<noteq> None")
    case no: False
    with run show ?thesis
      by (auto simp: validate_managed_unix_socket_path_def fs_ret same_system_def split: if_splits option.splits)
  next
    case True
    then obtain parent where p: "is_valid_unix_socket_path path" "path_parent path = Some parent" by auto
    obtain x w1 where x: "run_state (metadata parent) w = (x, w1)" by fastforce
    note m = metadata_same [OF x]
    show ?thesis
    proof (cases "x \<in> Inl ` UNIV \<or> x = Inr FsFile")
      case True
      with run p x m show ?thesis by (auto simp: validate_managed_unix_socket_path_def fs_ret)
    next
      case no_fault: False
      then obtain n where n: "x = Inr n" "n \<noteq> FsFile" by (cases x) auto
      obtain y w2 where y: "run_state (create_private_preflight_dir parent ''.chaop-pf-check'') w1 = (y, w2)" by fastforce
      with False p x n obtain e where e: "y = Inl e" by (cases y) auto
      with run p x n y have "w' = w2" by (simp add: validate_managed_unix_socket_path_def)
      with private_dir_cases [OF y] e m show ?thesis by (auto simp: same_system_def)
    qed
  qed
  then show ?thesis by (simp add: same_nodes_kept)
next
  case True
  then obtain parent n w1 p w2 where h: "is_valid_unix_socket_path path" "path_parent path = Some parent"
      "run_state (metadata parent) w = (Inr n, w1)" "n \<noteq> FsFile"
      and c: "run_state (create_private_preflight_dir parent ''.chaop-pf-check'') w1 = (Inr p, w2)" by blast
  note m = metadata_same [OF h(3)] and d = private_dir_cases [OF c]
  from m d have s2: "same_system w w2" and p: "p \<notin> keys (f_nodes w)" "p \<noteq> []"
      and nodes: "f_nodes w2 = AList.update p (FsDir private_mode) (f_nodes w)"
    by (auto simp: same_system_def private_path_nonempty)
  from nodes have n2: "map_of (f_nodes w2) = (map_of (f_nodes w))(p := Some (FsDir private_mode))"
    by (simp add: update_conv')
  obtain q w3 where q: "run_state (remove_dir p) w2 = (q, w3)" by fastforce
  obtain q' w4 where q': "run_state (remove_dir p) w3 = (q', w4)" by fastforce
  from remove_fresh [OF n2 p(1) q] obtain y where s3: "same_system w2 w3"
      and y: "map_of (f_nodes w3) = (map_of (f_nodes w))(p := y)" by auto
  from remove_fresh [OF y p(1) q'] obtain z where s4: "same_system w3 w4"
      and z: "map_of (f_nodes w4) = (map_of (f_nodes w))(p := z)" by auto
  from run h c q q' have w': "w' = (case q of Inl _ \<Rightarrow> w4 | Inr _ \<Rightarrow> w3)"
    by (auto simp: validate_managed_unix_socket_path_def split: sum.splits)
  have "map_of (f_nodes w') = map_of (f_nodes w)" if quiet: "f_fault w = (\<lambda>_. None)" and tree: "tree_closed (f_nodes w)"
  proof -
    from no_entries_fresh [OF tree p] nodes have "\<not> has_entries (f_nodes w2) p"
      by (auto simp: has_entries_iff)
    with quiet s2 n2 have "run_state (remove_dir p) w2
        = (Inr (), w2\<lparr>f_tick := Suc (f_tick w2), f_nodes := AList.delete p (f_nodes w2)\<rparr>)"
      by (intro remove_dir_empty) (auto simp: same_system_def)
    with q w' n2 p(1) show ?thesis by (auto simp: delete_conv' fun_upd_idem map_of_None_keys)
  qed
  moreover have "same_system w w'" using s2 s3 s4 w' by (auto simp: same_system_def split: sum.splits)
  moreover have "old_nodes_kept w w'"
    using w' old_nodes_keptI [OF y p(1)] old_nodes_keptI [OF z p(1)] by (simp split: sum.splits)
  ultimately show ?thesis by blast
qed


subsection \<open>The length of the private path\<close>

lemma length_show_hex: "0 < k \<Longrightarrow> n < 16 ^ k \<Longrightarrow> length (show_hex n) \<le> k"
proof (induction n arbitrary: k rule: show_hex.induct)
  case (1 n)
  show ?case
  proof (cases "n < 16")
    case True
    with 1 show ?thesis by (simp add: show_hex.simps [of n])
  next
    case False
    from "1.prems" obtain j where k: "k = Suc j" by (cases k) auto
    with "1.prems" False have "0 < j" by (cases j) auto
    with k have j: "k = Suc j" "0 < j" by simp_all
    with "1.prems" have "n div 16 < 16 ^ j" by (simp add: less_mult_imp_div_less mult.commute)
    with 1 False j show ?thesis by (simp add: show_hex.simps [of n])
  qed
qed

lemma private_socket_path_valid:
  assumes "pid < 2 ^ 32"
  shows "is_valid_unix_socket_path (path_join (path_join ''/tmp'' (preflight_dir_name ''chaop-pf'' pid n a)) ''s'')"
    (is "is_valid_unix_socket_path ?path")
proof -
  let ?rest = "''chaop-pf-'' @ show_nat pid @ ''-'' @ show_hex (sat_add u128_max n a)"
  have dir: "path_join ''/tmp'' (preflight_dir_name ''chaop-pf'' pid n a) = ''/tmp/'' @ ?rest"
    by (simp add: path_join_def preflight_dir_name_def path_is_absolute_def starts_with_def ends_with_def)
  obtain x where x: "?path = ''/tmp/'' @ x" and len: "length x \<le> length ?rest + 2"
  proof -
    have "?path = ''/tmp/'' @ ?rest @ ''s'' \<or> ?path = ''/tmp/'' @ ?rest @ ''/s''"
      unfolding dir by (cases "ends_with ''/'' (''/tmp/'' @ ?rest)") (simp_all add: path_join_def path_is_absolute_def starts_with_def)
    then show thesis using that [of "?rest @ ''s''"] that [of "?rest @ ''/s''"] by auto
  qed
  have "length (show_nat pid) \<le> 10" by (rule length_show_nat) (use assms in simp_all)
  moreover have "sat_add u128_max n a \<le> u128_max" by simp
  then have "sat_add u128_max n a < 16 ^ 32" by (simp add: u128_max_def del: sat_add_le)
  then have "length (show_hex (sat_add u128_max n a)) \<le> 32" by (rule length_show_hex [rotated]) simp
  ultimately have "length ?path \<le> unix_socket_path_max_bytes"
    using x len by (simp add: unix_socket_path_max_bytes_def)
  moreover have "''tmp'' \<in> set (path_components ?path)"
    unfolding x path_components_def by (simp split: list.splits)
  ultimately show ?thesis
    using x by (auto simp: is_valid_unix_socket_path_def path_is_absolute_def starts_with_def path_is_root_def)
qed

lemma strip_unix_scheme_prefix: "strip_unix_scheme (''unix://'' @ p) = Some p"
  by (simp add: strip_unix_scheme_def unix_prefix_def eq_ignore_ascii_case_def)


subsection \<open>The claims\<close>

lemma endpoint_new_unix:
  assumes "strip_unix_scheme url = Some path" and run: "run_state (preflight_endpoint_new url) w = (r, w')"
  obtains (refused) e where "r = Inl e" "old_nodes_kept w w'"
      "f_fault w = (\<lambda>_. None) \<Longrightarrow> tree_closed (f_nodes w) \<Longrightarrow> map_of (f_nodes w') = map_of (f_nodes w)"
    | (made) w1 dir n a where "run_state (validate_managed_unix_socket_path path) w = (Inr (), w1)"
      "dir = path_join ''/tmp'' (preflight_dir_name ''chaop-pf'' (f_pid w) n a)"
      "dir \<notin> keys (f_nodes w1)" "f_nodes w' = AList.update dir (FsDir private_mode) (f_nodes w1)"
      "same_system w w'"
      "r = Inr \<lparr>ep_listen_url = ''unix://'' @ path_join dir ''s'', ep_cleanup_path = Some (path_join dir ''s''),
                ep_cleanup_dir = Some dir\<rparr>"
proof -
  obtain x w1 where x: "run_state (validate_managed_unix_socket_path path) w = (x, w1)" by fastforce
  note v = validate_cases [OF x]
  show thesis
  proof (cases x)
    case (Inl e)
    with assms x v show thesis by (intro refused [of e]) (auto simp: preflight_endpoint_new_def)
  next
    case (Inr u)
    obtain y w2 where y: "run_state (create_private_preflight_dir ''/tmp'' ''chaop-pf'') w1 = (y, w2)" by fastforce
    note c = private_dir_cases [OF y]
    show thesis
    proof (cases y)
      case (Inl e)
      with assms x Inr y have "r = Inl e" "w' = w2" by (simp_all add: preflight_endpoint_new_def)
      with c v Inl show thesis by (intro refused [of e]) (auto simp: old_nodes_kept_def)
    next
      case made_dir: (Inr dir)
      with assms x Inr y have r: "w' = w2"
          "r = Inr \<lparr>ep_listen_url = ''unix://'' @ path_join dir ''s'', ep_cleanup_path = Some (path_join dir ''s''),
                ep_cleanup_dir = Some dir\<rparr>"
        by (simp_all add: preflight_endpoint_new_def fs_ret Let_def)
      from c made_dir obtain n a where "dir = path_join ''/tmp'' (preflight_dir_name ''chaop-pf'' (f_pid w1) n a)" by auto
      moreover from v have "f_pid w1 = f_pid w" by (simp add: same_system_def)
      ultimately show thesis
        using c made_dir r v x Inr same_system_trans by (intro made [of w1 dir n a]) auto
    qed
  qed
qed

lemma tree_closed_keys: "keys xs = keys ys \<Longrightarrow> tree_closed xs = tree_closed ys"
  unfolding tree_closed_def list_all_iff keys_map by simp

lemma keys_of_map: "map_of xs = map_of ys \<Longrightarrow> keys xs = keys ys"
  by (simp add: keys_def flip: dom_map_of_conv_image_fst)

definition endpoint_finished :: "bool \<Rightarrow> io_error + preflight_endpoint \<Rightarrow> fworld \<Rightarrow> fworld" where
  "endpoint_finished bound r w =
     (case r of Inl e \<Rightarrow> w
      | Inr ep \<Rightarrow> snd (run_state (preflight_endpoint_drop ep) (endpoint_served bound ep w)))"

definition demo_files :: fworld where
  "demo_files =
     \<lparr> f_nodes = [(''/'', FsDir 493), (''/tmp'', FsDir 1023), (''/run'', FsDir 493), (''/run/codex'', FsFile)],
       f_tick = 0, f_fault = (\<lambda>_. None), f_nanos = (\<lambda>_. Some 255), f_pid = 7, f_bind = (\<lambda>_. Inr 0),
       f_urls = (\<lambda>_. Inl ''no'') \<rparr>"

text \<open>C24: A preflight leaves no trace in the file system: when no operation of the system fails, the
  nodes after the endpoint is dropped are those from before it was made, whether making it
  succeeded or not and whether the app server had come to bind its socket or not.\<close>

theorem preflight_leaves_no_trace:
  assumes quiet: "f_fault w = (\<lambda>_. None)" and tree: "tree_closed (f_nodes w)"
    and run: "run_state (preflight_endpoint_new url) w = (r, w')"
  shows "map_of (f_nodes (endpoint_finished bound r w')) = map_of (f_nodes w)"
proof (cases "strip_unix_scheme url")
  case None
  with run have "f_nodes w' = f_nodes w \<and> (\<forall>ep. r = Inr ep \<longrightarrow> ep_cleanup_path ep = None \<and> ep_cleanup_dir ep = None)"
    by (auto simp: preflight_endpoint_new_def fs_ret split: sum.splits option.splits)
  then show ?thesis
    by (auto simp: endpoint_finished_def preflight_endpoint_drop_def endpoint_served_def split: sum.splits)
next
  case (Some path)
  from this run show ?thesis
  proof (cases rule: endpoint_new_unix)
    case refused
    with quiet tree show ?thesis by (simp add: endpoint_finished_def)
  next
    case (made w1 dir n a)
    let ?sock = "path_join dir ''s''"
    let ?ep = "\<lparr>ep_listen_url = ''unix://'' @ ?sock, ep_cleanup_path = Some ?sock, ep_cleanup_dir = Some dir\<rparr>"
    let ?served = "endpoint_served bound ?ep w'"
    from validate_cases [OF made(1)] quiet tree have m1: "map_of (f_nodes w1) = map_of (f_nodes w)" by simp
    with tree have t1: "tree_closed (f_nodes w1)" using tree_closed_keys keys_of_map by blast
    have dir: "dir \<noteq> []" by (simp add: made(2) private_path_nonempty)
    have "\<not> ends_with ''/'' dir \<Longrightarrow> starts_with (dir @ ''/'') ?sock"
      using dir by (simp add: path_join_def path_is_absolute_def starts_with_def)
    moreover have "\<not> ends_with ''/'' dir" by (simp add: made(2) private_dir_no_slash)
    ultimately have inside: "starts_with (dir @ ''/'') ?sock" by simp
    then have sock: "?sock \<notin> keys (f_nodes w1)" "?sock \<noteq> dir"
      using tree_closedD [OF t1 _ _ dir] made(3) by auto
    have served: "f_fault ?served = (\<lambda>_. None)"
        "map_of (f_nodes ?served) = (map_of (f_nodes w1))(dir := Some (FsDir private_mode),
            ?sock := (if bound then Some FsFile else None))"
        "keys (f_nodes ?served) - {?sock} = insert dir (keys (f_nodes w1))"
      using made(4,5) quiet sock
      by (auto simp: endpoint_served_def same_system_def update_conv' fun_upd_idem_iff map_of_None_keys)
    obtain x w2 where x: "run_state (remove_file ?sock) ?served = (x, w2)" by fastforce
    have "map_of (f_nodes ?served) ?sock \<noteq> Some (FsDir m)" for m using served(2) by simp
    from remove_file_quiet [OF served(1) this x]
    have w2: "same_system ?served w2" "keys (f_nodes w2) = insert dir (keys (f_nodes w1))"
        "map_of (f_nodes w2) = (map_of (f_nodes w1))(dir := Some (FsDir private_mode))"
      using served(2,3) sock by (simp_all add: fun_upd_twist fun_upd_idem_iff map_of_None_keys)
    have "\<not> has_entries (f_nodes w2) dir"
      using no_entries_fresh [OF t1 made(3) dir] w2(2) by (auto simp: has_entries_iff)
    with w2 served(1) have "run_state (remove_dir dir) w2
        = (Inr (), w2\<lparr>f_tick := Suc (f_tick w2), f_nodes := AList.delete dir (f_nodes w2)\<rparr>)"
      by (intro remove_dir_empty) (auto simp: same_system_def)
    with x have "f_nodes (endpoint_finished bound r w') = AList.delete dir (f_nodes w2)"
      by (simp add: made(6) endpoint_finished_def preflight_endpoint_drop_def)
    with w2(3) made(3) m1 keys_of_map [OF m1] show ?thesis
      by (simp add: delete_conv' fun_upd_idem_iff map_of_None_keys)
  qed
qed

theorem preflight_leaves_no_trace_witness:
  "map_of (f_nodes (endpoint_finished True (fst (run_state (preflight_endpoint_new ''unix:///run/codex'') demo_files))
      (snd (run_state (preflight_endpoint_new ''unix:///run/codex'') demo_files)))) = map_of (f_nodes demo_files)"
  by (rule preflight_leaves_no_trace [where url = "''unix:///run/codex''"]) (simp add: demo_files_def, code_simp, simp)


text \<open>The socket of a preflight is private: whatever fails on the way, an endpoint made for a unix
  URL lies in a directory that did not exist and that only its owner may enter, its URL is one
  the manager accepts for a managed app server (the path always fits), and nothing that was in
  the file system before has changed.\<close>

theorem preflight_socket_is_private:
  assumes unix: "strip_unix_scheme url = Some path" and pid: "f_pid w < 2 ^ 32"
    and run: "run_state (preflight_endpoint_new url) w = (Inr ep, w')"
  shows "\<exists>dir. ep_cleanup_dir ep = Some dir \<and> ep_cleanup_path ep = Some (path_join dir ''s'')
     \<and> dir \<notin> keys (f_nodes w) \<and> map_of (f_nodes w') dir = Some (FsDir private_mode)
     \<and> is_managed_listen_url (f_urls w) (ep_listen_url ep) \<and> old_nodes_kept w w'"
  using unix run
proof (cases rule: endpoint_new_unix)
  case (made w1 dir n a)
  from validate_cases [OF made(1)] have old: "old_nodes_kept w w1" by simp
  have fresh: "dir \<notin> keys (f_nodes w)"
  proof
    assume "dir \<in> keys (f_nodes w)"
    with old have "map_of (f_nodes w1) dir = map_of (f_nodes w) dir" by (simp add: old_nodes_kept_def)
    with made(3) \<open>dir \<in> keys (f_nodes w)\<close> map_of_None_keys [of "f_nodes w1" dir] map_of_None_keys [of "f_nodes w" dir]
    show False by simp
  qed
  have "old_nodes_kept w w'"
    using old fresh made(4) by (auto simp: old_nodes_kept_def update_conv')
  moreover have "is_managed_listen_url (f_urls w) (''unix://'' @ path_join dir ''s'')"
    using private_socket_path_valid [OF pid]
    unfolding is_managed_listen_url_def strip_unix_scheme_prefix made(2) by simp
  ultimately show ?thesis using made(4,6) fresh by (auto simp: update_conv')
qed simp

theorem preflight_socket_is_private_witness:
  "\<exists>dir. ep_cleanup_dir (projr (fst (run_state (preflight_endpoint_new ''unix:///run/codex'') demo_files))) = Some dir
     \<and> ep_cleanup_path (projr (fst (run_state (preflight_endpoint_new ''unix:///run/codex'') demo_files))) = Some (path_join dir ''s'')
     \<and> dir \<notin> keys (f_nodes demo_files)
     \<and> map_of (f_nodes (snd (run_state (preflight_endpoint_new ''unix:///run/codex'') demo_files))) dir = Some (FsDir private_mode)
     \<and> is_managed_listen_url (f_urls demo_files) (ep_listen_url (projr (fst (run_state (preflight_endpoint_new ''unix:///run/codex'') demo_files))))
     \<and> old_nodes_kept demo_files (snd (run_state (preflight_endpoint_new ''unix:///run/codex'') demo_files))"
proof (rule preflight_socket_is_private [where url = "''unix:///run/codex''"])
  let ?run = "run_state (preflight_endpoint_new ''unix:///run/codex'') demo_files"
  have "(case fst ?run of Inl _ \<Rightarrow> False | Inr _ \<Rightarrow> True)" by code_simp
  then show "?run = (Inr (projr (fst ?run)), snd ?run)" by (cases ?run) (auto split: sum.splits)
  show "strip_unix_scheme ''unix:///run/codex'' = Some ''/run/codex''" by code_simp
qed (simp add: demo_files_def)

end
