(* ===== verification/Shutdown_Signals.thy ===== *)
theory Shutdown_Signals
  imports Chaop_Prelude
begin

text \<open>
  \<open>shutdown.rs\<close>: SIGINT and SIGTERM set a flag that the manager and the connector read. The
  handlers are installed once for the process; the outcome of that one attempt is kept as an
  error number and given to every later caller. The kernel's answers are indexed by the number
  of questions asked.
\<close>

subsection \<open>The state of the process\<close>

record signal_world =
  sg_requested :: bool
  sg_once :: bool
  sg_install_error :: int
  sg_handled :: "nat set"
  sg_tick :: nat
  sg_emptyset :: "nat \<Rightarrow> int option"
  sg_sigaction :: "nat \<Rightarrow> int option"

definition sigint_nr :: nat where "sigint_nr = 2"
definition sigterm_nr :: nat where "sigterm_nr = 15"

definition sask :: "(signal_world \<Rightarrow> nat \<Rightarrow> 'a) \<Rightarrow> (signal_world, 'a) state" where
  "sask f = State (\<lambda>w. (f w (sg_tick w), w\<lparr>sg_tick := Suc (sg_tick w)\<rparr>))"

definition initial_signals :: "(nat \<Rightarrow> int option) \<Rightarrow> (nat \<Rightarrow> int option) \<Rightarrow> signal_world" where
  "initial_signals emptyset sigaction =
     \<lparr> sg_requested = False, sg_once = False, sg_install_error = 0, sg_handled = {}, sg_tick = 0,
       sg_emptyset = emptyset, sg_sigaction = sigaction \<rparr>"

subsection \<open>The operations\<close>

text \<open>\<open>sigemptyset\<close> and \<open>sigaction\<close> answer the error number of a failure.\<close>

definition install_unix_signal_handler :: "nat \<Rightarrow> (signal_world, int + unit) state" where
  "install_unix_signal_handler sig =
     do { r \<leftarrow> sask sg_emptyset;
          (case r of Some e \<Rightarrow> ret (Inl e) | None \<Rightarrow>
            do { r' \<leftarrow> sask sg_sigaction;
                 (case r' of Some e \<Rightarrow> ret (Inl e) | None \<Rightarrow>
                   do { modify (\<lambda>w. w\<lparr>sg_handled := insert sig (sg_handled w)\<rparr>); ret (Inr ()) }) }) }"

definition install_unix_signal_handlers :: "(signal_world, int + unit) state" where
  "install_unix_signal_handlers =
     tryE (install_unix_signal_handler sigint_nr) (\<lambda>_. install_unix_signal_handler sigterm_nr)"

definition install_signal_handlers :: "(signal_world, int + unit) state" where
  "install_signal_handlers =
     do { once \<leftarrow> gets sg_once;
          whenS (\<not> once)
            (do { r \<leftarrow> install_unix_signal_handlers;
                  (case r of
                     Inl e \<Rightarrow> modify (\<lambda>w. w\<lparr>sg_install_error := e\<rparr>)
                   | Inr _ \<Rightarrow> ret ());
                  modify (\<lambda>w. w\<lparr>sg_once := True\<rparr>) });
          code \<leftarrow> gets sg_install_error;
          ret (if code = 0 then Inr () else Inl code) }"

definition handle_unix_shutdown_signal :: "signal_world \<Rightarrow> signal_world" where
  "handle_unix_shutdown_signal w = w\<lparr>sg_requested := True\<rparr>"

text \<open>A signal the process receives: the default action of an unhandled one ends the process.\<close>

definition deliver_signal :: "nat \<Rightarrow> signal_world \<Rightarrow> signal_world option" where
  "deliver_signal sig w = (if sig \<in> sg_handled w then Some (handle_unix_shutdown_signal w) else None)"

subsection \<open>Calls and signals in any order\<close>

inductive signal_step :: "signal_world \<Rightarrow> (int + unit) option \<Rightarrow> signal_world \<Rightarrow> bool" where
  installs: "run_state install_signal_handlers w = (r, w') \<Longrightarrow> signal_step w (Some r) w'"
| signalled: "deliver_signal sig w = Some w' \<Longrightarrow> signal_step w None w'"

inductive signal_reach :: "signal_world \<Rightarrow> (int + unit) list \<Rightarrow> signal_world \<Rightarrow> bool" for w0 where
  start: "signal_reach w0 [] w0"
| call: "signal_reach w0 rs w \<Longrightarrow> signal_step w (Some r) w' \<Longrightarrow> signal_reach w0 (rs @ [r]) w'"
| signal: "signal_reach w0 rs w \<Longrightarrow> signal_step w None w' \<Longrightarrow> signal_reach w0 rs w'"

inductive_cases signal_stepE: "signal_step w r w'"

definition errors_nonzero :: "signal_world \<Rightarrow> bool" where
  "errors_nonzero w \<longleftrightarrow> (\<forall>n. sg_emptyset w n \<noteq> Some 0) \<and> (\<forall>n. sg_sigaction w n \<noteq> Some 0)"

definition signal_result :: "signal_world \<Rightarrow> int + unit" where
  "signal_result w = (if sg_install_error w = 0 then Inr () else Inl (sg_install_error w))"

definition signal_inv :: "(int + unit) list \<Rightarrow> signal_world \<Rightarrow> bool" where
  "signal_inv rs w \<longleftrightarrow> errors_nonzero w \<and> (sg_once w \<longleftrightarrow> rs \<noteq> []) \<and> rs = replicate (length rs) (signal_result w)
     \<and> (sg_once w \<and> sg_install_error w = 0 \<longrightarrow> sg_handled w = {sigint_nr, sigterm_nr})
     \<and> (\<not> sg_once w \<longrightarrow> sg_install_error w = 0 \<and> sg_handled w = {})
     \<and> (sg_requested w \<longrightarrow> sg_handled w \<noteq> {})"

lemma run_sask [simp]: "run_state (sask f) w = (f w (sg_tick w), w\<lparr>sg_tick := Suc (sg_tick w)\<rparr>)"
  by (simp add: sask_def)

lemma install_first:
  assumes "run_state install_signal_handlers w = (r, w')" "\<not> sg_once w" "errors_nonzero w"
    "sg_install_error w = 0" "sg_handled w = {}"
  shows "errors_nonzero w' \<and> sg_once w' \<and> r = signal_result w' \<and> sg_requested w' = sg_requested w
     \<and> (sg_install_error w' = 0 \<longrightarrow> sg_handled w' = {sigint_nr, sigterm_nr})"
  using assms
  by (auto simp: install_signal_handlers_def install_unix_signal_handlers_def install_unix_signal_handler_def
        signal_result_def errors_nonzero_def split: option.splits)

lemma install_again:
  "run_state install_signal_handlers w = (r, w') \<Longrightarrow> sg_once w \<Longrightarrow> w' = w \<and> r = signal_result w"
  by (auto simp: install_signal_handlers_def signal_result_def)

lemma signal_reach_inv:
  assumes "signal_reach (initial_signals emptyset sigaction) rs w"
    and "errors_nonzero (initial_signals emptyset sigaction)"
  shows "signal_inv rs w"
  using assms(1)
proof (induction rule: signal_reach.induct)
  case start
  show ?case using assms(2) by (simp add: signal_inv_def initial_signals_def)
next
  case (call rs w r w')
  from call.hyps(2) have run: "run_state install_signal_handlers w = (r, w')" by (auto elim: signal_stepE)
  show ?case
  proof (cases "sg_once w")
    case True
    from install_again [OF run this] have w': "w' = w" "r = signal_result w" by simp_all
    from call.IH have "rs = replicate (length rs) r" by (simp add: signal_inv_def w')
    then have "rs @ [r] = replicate (length (rs @ [r])) r"
      by (metis length_append_singleton replicate_Suc replicate_append_same)
    with call.IH True w' show ?thesis unfolding signal_inv_def by blast
  next
    case False
    with call.IH have w: "rs = []" "errors_nonzero w" "sg_install_error w = 0" "sg_handled w = {}"
      by (simp_all add: signal_inv_def)
    with call.IH have "\<not> sg_requested w" by (simp add: signal_inv_def)
    with w install_first [OF run False] show ?thesis by (simp add: signal_inv_def)
  qed
next
  case (signal rs w w')
  then show ?case
    by (auto elim!: signal_stepE simp: deliver_signal_def handle_unix_shutdown_signal_def signal_inv_def
          signal_result_def errors_nonzero_def split: if_splits)
qed

text \<open>Installing the handlers answers the same to every caller, however calls and signals mix, and
  never a false success: once a call has succeeded SIGINT and SIGTERM both raise the shutdown
  flag instead of ending the process. The kernel's error numbers are not zero.\<close>

theorem signal_handlers_are_installed_once:
  assumes reach: "signal_reach (initial_signals emptyset sigaction) rs w"
    and nonzero: "errors_nonzero (initial_signals emptyset sigaction)"
    and some: "r \<in> set rs"
  shows "rs = replicate (length rs) r
     \<and> (if r = Inr () then list_all (\<lambda>sig. map_option sg_requested (deliver_signal sig w) = Some True) [sigint_nr, sigterm_nr]
        else r = Inl (sg_install_error w) \<and> sg_install_error w \<noteq> 0)"
proof -
  from signal_reach_inv [OF reach nonzero] have inv: "signal_inv rs w" .
  then have rs: "rs = replicate (length rs) (signal_result w)" by (simp add: signal_inv_def)
  with some have "r = signal_result w" by (metis in_set_replicate)
  with inv rs some show ?thesis
    by (auto simp: signal_inv_def signal_result_def deliver_signal_def handle_unix_shutdown_signal_def split: if_splits)
qed

definition demo_installed :: signal_world where
  "demo_installed = snd (run_state install_signal_handlers (initial_signals (\<lambda>_. None) (\<lambda>_. None)))"

theorem signal_handlers_are_installed_once_witness:
  "[Inr () :: int + unit] = replicate (length [Inr () :: int + unit]) (Inr ())
     \<and> (if Inr () = (Inr () :: int + unit)
        then list_all (\<lambda>sig. map_option sg_requested (deliver_signal sig demo_installed) = Some True) [sigint_nr, sigterm_nr]
        else Inr () = (Inl (sg_install_error demo_installed) :: int + unit) \<and> sg_install_error demo_installed \<noteq> 0)"
proof (rule signal_handlers_are_installed_once)
  let ?w0 = "initial_signals (\<lambda>_. None) (\<lambda>_. None)"
  have "run_state install_signal_handlers ?w0 = (Inr (), demo_installed)"
    by (simp add: demo_installed_def install_signal_handlers_def install_unix_signal_handlers_def
          install_unix_signal_handler_def initial_signals_def)
  then have "signal_reach ?w0 ([] @ [Inr ()]) demo_installed"
    by (intro call [OF start] installs)
  then show "signal_reach ?w0 [Inr ()] demo_installed" by simp
qed (simp_all add: errors_nonzero_def initial_signals_def)

end
