(* ===== verification/Protocol_Guards.thy ===== *)
theory Protocol_Guards
  imports Session_Types
begin

text \<open>
  The other end of the connection: the type guards by which the control plane's worker decides
  whether a message of the connector is one it understands, and whether a payload is one it
  sends (\<open>apps/worker/src/workspace-do.ts\<close>). A value read by \<open>JSON.parse\<close> is a \<^typ>\<open>json\<close>; a
  property that is not there is \<open>undefined\<close>, here \<open>None\<close>. The guards are bool-valued and
  evaluate. \<open>length\<close> of a JavaScript string counts UTF-16 units and its \<open>trim\<close> has a
  white space of its own, so both are written out. A number of the text is read as the \<open>f64\<close>
  nearest to it, which no bound checked here (all far below \<open>2 ^ 53\<close>) can tell from the number.
\<close>

subsection \<open>JavaScript values\<close>

definition js_length :: "string \<Rightarrow> nat" where
  "js_length s = sum_list (map (\<lambda>g. if length g = 4 then 2 else 1) (rchars s))"

definition js_byte_order_mark :: string where "js_byte_order_mark = [CHR 0xEF, CHR 0xBB, CHR 0xBF]"

definition js_is_ws :: "string \<Rightarrow> bool" where
  "js_is_ws g \<longleftrightarrow> g = js_byte_order_mark \<or> is_ws g \<and> g \<noteq> [CHR 0xC2, CHR 0x85]"

definition js_trim :: "string \<Rightarrow> string" where
  "js_trim s = concat (rev (dropWhile js_is_ws (rev (dropWhile js_is_ws (rchars s)))))"

text \<open>\<open>typeof v === "object" && v !== null\<close>, which an array satisfies, and \<open>isRecord\<close>.\<close>

definition is_js_object :: "json \<Rightarrow> bool" where
  "is_js_object v = (case v of JObj _ \<Rightarrow> True | JArr _ \<Rightarrow> True | _ \<Rightarrow> False)"

definition is_record :: "json \<Rightarrow> bool" where
  "is_record v = (case v of JObj _ \<Rightarrow> True | _ \<Rightarrow> False)"

definition is_js_string :: "json \<Rightarrow> bool" where
  "is_js_string v = (case v of JStr _ \<Rightarrow> True | _ \<Rightarrow> False)"

definition is_js_boolean :: "json \<Rightarrow> bool" where
  "is_js_boolean v = (case v of JBool _ \<Rightarrow> True | _ \<Rightarrow> False)"

definition is_js_number :: "json \<Rightarrow> bool" where
  "is_js_number v = (case v of JNum _ \<Rightarrow> True | _ \<Rightarrow> False)"

definition is_array_of :: "(json \<Rightarrow> bool) \<Rightarrow> json \<Rightarrow> bool" where
  "is_array_of p v = (case v of JArr xs \<Rightarrow> list_all p xs | _ \<Rightarrow> False)"

definition is_nonempty_array_of :: "(json \<Rightarrow> bool) \<Rightarrow> json \<Rightarrow> bool" where
  "is_nonempty_array_of p v = (case v of JArr xs \<Rightarrow> xs \<noteq> [] \<and> list_all p xs | _ \<Rightarrow> False)"

text \<open>A property that satisfies a check, one that may be missing, one that is one of some texts.\<close>

definition has :: "json \<Rightarrow> string \<Rightarrow> (json \<Rightarrow> bool) \<Rightarrow> bool" where
  "has v k p = (case jget v k of None \<Rightarrow> False | Some x \<Rightarrow> p x)"

definition may_have :: "json \<Rightarrow> string \<Rightarrow> (json \<Rightarrow> bool) \<Rightarrow> bool" where
  "may_have v k p = (case jget v k of None \<Rightarrow> True | Some x \<Rightarrow> p x)"

definition one_of :: "string list \<Rightarrow> json \<Rightarrow> bool" where
  "one_of names v = (case v of JStr s \<Rightarrow> s \<in> set names | _ \<Rightarrow> False)"

definition is_nonempty_string :: "json \<Rightarrow> bool" where
  "is_nonempty_string v = (case v of JStr s \<Rightarrow> s \<noteq> [] | _ \<Rightarrow> False)"

definition is_nonblank_string :: "json \<Rightarrow> bool" where
  "is_nonblank_string v = (case v of JStr s \<Rightarrow> js_trim s \<noteq> [] | _ \<Rightarrow> False)"

definition isBoundedString :: "nat \<Rightarrow> json \<Rightarrow> bool" where
  "isBoundedString max_length v = (case v of JStr s \<Rightarrow> 0 < js_length s \<and> js_length s \<le> max_length | _ \<Rightarrow> False)"

definition isNonNegativeInteger :: "nat \<Rightarrow> json \<Rightarrow> bool" where
  "isNonNegativeInteger max_value v =
     (case v of
        JNum (PosInt n) \<Rightarrow> n \<le> max_value
      | JNum (NegInt i) \<Rightarrow> 0 \<le> i \<and> i \<le> int max_value
      | JNum (Float q) \<Rightarrow> of_int (floor q) = q \<and> 0 \<le> q \<and> q \<le> of_nat max_value
      | _ \<Rightarrow> False)"

subsection \<open>Reports\<close>

definition isAgentReadyPayload :: "json \<Rightarrow> bool" where
  "isAgentReadyPayload v \<longleftrightarrow> is_js_object v \<and> has v ''capabilities'' (is_array_of is_js_string)"

definition isAgentAppServerInstance :: "json \<Rightarrow> bool" where
  "isAgentAppServerInstance v \<longleftrightarrow>
     is_js_object v
     \<and> has v ''instance_key'' (isBoundedString 128)
     \<and> has v ''scope'' (one_of [''connector'', ''workspace'', ''thread''])
     \<and> may_have v ''workspace_id'' (isBoundedString 128)
     \<and> may_have v ''thread_id'' (isBoundedString 128)
     \<and> has v ''endpoint_type'' (one_of [''managed'', ''external''])
     \<and> has v ''state'' (one_of [''healthy'', ''degraded'', ''draining'', ''restarting'', ''stopped''])
     \<and> may_have v ''active_turn_count'' (isNonNegativeInteger 1000000)
     \<and> may_have v ''generation'' (isNonNegativeInteger 1000000000)
     \<and> may_have v ''status_summary'' (isBoundedString 512)
     \<and> may_have v ''last_error'' (isBoundedString 512)
     \<and> may_have v ''reason'' (one_of [''edge'', ''summary'', ''shutdown''])
     \<and> (if jget v ''scope'' = Some (JStr ''connector'')
        then jget v ''workspace_id'' = None \<and> jget v ''thread_id'' = None
        else if jget v ''scope'' = Some (JStr ''workspace'')
        then jget v ''workspace_id'' \<noteq> None \<and> jget v ''thread_id'' = None
        else jget v ''thread_id'' \<noteq> None)"

definition isAgentAppServerInstancesReport :: "json \<Rightarrow> bool" where
  "isAgentAppServerInstancesReport v \<longleftrightarrow>
     is_js_object v
     \<and> may_have v ''report_id'' (isBoundedString 128)
     \<and> may_have v ''snapshot'' is_js_boolean
     \<and> has v ''instances'' (\<lambda>x. case x of JArr xs \<Rightarrow> length xs \<le> 16 | _ \<Rightarrow> False)
     \<and> has v ''instances'' (is_array_of isAgentAppServerInstance)"

definition isAgentHostSession :: "json \<Rightarrow> bool" where
  "isAgentHostSession v \<longleftrightarrow>
     is_js_object v
     \<and> has v ''session_id'' is_js_string
     \<and> has v ''title'' is_js_string
     \<and> has v ''title_source'' (one_of [''metadata'', ''app_server'', ''history'', ''fallback''])
     \<and> may_have v ''app_server_present'' is_js_boolean
     \<and> may_have v ''cwd'' is_js_string
     \<and> has v ''updated_at'' is_js_string"

definition isAgentHostSessionsReport :: "json \<Rightarrow> bool" where
  "isAgentHostSessionsReport v \<longleftrightarrow>
     is_js_object v
     \<and> has v ''sessions'' (is_array_of isAgentHostSession)
     \<and> may_have v ''inventory_scope'' (one_of [''full'', ''incremental''])
     \<and> may_have v ''app_server_inventory_ok'' is_js_boolean"

subsection \<open>Events of a command\<close>

definition priorities :: "string list" where "priorities = [''P0'', ''P1'', ''P2'', ''P3'']"

definition isRequiredTurnInteractionRequestKind :: "json \<Rightarrow> bool" where
  "isRequiredTurnInteractionRequestKind k \<longleftrightarrow> k = JStr ''approval.requested'' \<or> k = JStr ''input.requested''"

definition isTurnInteractionResolutionKind :: "json \<Rightarrow> bool" where
  "isTurnInteractionResolutionKind k \<longleftrightarrow> k = JStr ''approval.resolved'' \<or> k = JStr ''input.received''"

definition isTurnInteractionApprovalDecision :: "json \<Rightarrow> bool" where
  "isTurnInteractionApprovalDecision v \<longleftrightarrow>
     one_of [''accept'', ''acceptForSession'', ''decline'', ''cancel''] v
     \<or> is_record v \<and> has v ''acceptWithExecpolicyAmendment'' (\<lambda>amendment.
         is_record amendment
         \<and> has amendment ''execpolicy_amendment'' (is_nonempty_array_of is_nonblank_string))"

definition isTurnInteractionInputQuestion :: "json \<Rightarrow> bool" where
  "isTurnInteractionInputQuestion v \<longleftrightarrow>
     is_record v
     \<and> has v ''id'' is_nonblank_string
     \<and> has v ''header'' is_nonblank_string
     \<and> has v ''question'' is_nonblank_string
     \<and> has v ''is_other'' is_js_boolean
     \<and> has v ''is_secret'' is_js_boolean
     \<and> may_have v ''options'' (is_array_of (\<lambda>option.
          is_record option
          \<and> has option ''label'' is_nonblank_string
          \<and> has option ''description'' is_js_string))"

definition isTurnInteractionRequestPayloadForEvent :: "json \<Rightarrow> json \<Rightarrow> bool" where
  "isTurnInteractionRequestPayloadForEvent v kind \<longleftrightarrow>
     (let request_kind = (if kind = JStr ''approval.requested'' then ''approval'' else ''input'')
      in is_record v
         \<and> has v ''type'' (one_of [''turn_interaction''])
         \<and> has v ''interaction_id'' is_nonblank_string
         \<and> has v ''status'' (one_of [''pending''])
         \<and> has v ''method'' is_js_string
         \<and> has v ''request_kind'' (one_of [request_kind])
         \<and> has v ''app_server_thread_id'' is_nonblank_string
         \<and> has v ''app_server_turn_id'' is_nonblank_string
         \<and> has v ''title'' is_nonblank_string
         \<and> (if request_kind = ''input''
            then has v ''questions'' (is_nonempty_array_of isTurnInteractionInputQuestion)
            else has v ''available_decisions'' (is_nonempty_array_of isTurnInteractionApprovalDecision)))"

definition isTurnInteractionResolutionPayloadForEvent :: "json \<Rightarrow> json \<Rightarrow> bool" where
  "isTurnInteractionResolutionPayloadForEvent v kind \<longleftrightarrow>
     is_record v
     \<and> has v ''type'' (one_of [''turn_interaction_resolution''])
     \<and> has v ''interaction_id'' is_nonblank_string
     \<and> (if kind = JStr ''input.received''
        then has v ''status'' (one_of [''answered'']) \<and> may_have v ''answer_count'' (isNonNegativeInteger 1000)
        else has v ''status'' (one_of [''accepted'', ''accepted_for_session'',
               ''accepted_with_execpolicy_amendment'', ''declined'', ''cancelled''])
             \<and> may_have v ''decision'' isTurnInteractionApprovalDecision)"

definition isAgentCommandEvent :: "json \<Rightarrow> bool" where
  "isAgentCommandEvent v \<longleftrightarrow>
     is_js_object v
     \<and> has v ''kind'' (one_of [''command.started'', ''command.output'', ''command.finished'',
          ''command.failed'', ''approval.requested'', ''approval.resolved'', ''input.requested'', ''input.received''])
     \<and> has v ''kind'' (\<lambda>kind.
          if isRequiredTurnInteractionRequestKind kind
          then has v ''payload'' (\<lambda>p. isTurnInteractionRequestPayloadForEvent p kind)
          else if isTurnInteractionResolutionKind kind
          then has v ''payload'' (\<lambda>p. isTurnInteractionResolutionPayloadForEvent p kind)
          else may_have v ''payload'' is_record)
     \<and> has v ''command_id'' is_js_string
     \<and> has v ''priority'' (one_of priorities)
     \<and> may_have v ''target_host_session_id'' is_js_string
     \<and> has v ''summary'' is_js_string"

definition malformedTurnInteractionEvent :: "json \<Rightarrow> (string \<times> json) option" where
  "malformedTurnInteractionEvent v =
     (case (if is_record v then jget v ''kind'' else None) of
        None \<Rightarrow> None
      | Some kind \<Rightarrow>
          (if \<not> isRequiredTurnInteractionRequestKind kind \<and> \<not> isTurnInteractionResolutionKind kind then None
           else if isAgentCommandEvent v then None
           else map_option (\<lambda>command_id. (command_id, kind)) (jget_str v ''command_id'')))"

subsection \<open>Answers to requests\<close>

definition isThreadEventKind :: "json \<Rightarrow> bool" where
  "isThreadEventKind v \<longleftrightarrow>
     one_of [''command.accepted'', ''command.started'', ''command.output'', ''command.finished'',
       ''command.failed'', ''approval.requested'', ''approval.resolved'', ''input.requested'',
       ''input.received'', ''notice.throttled''] v"

definition isAgentBackfillEvent :: "json \<Rightarrow> bool" where
  "isAgentBackfillEvent v \<longleftrightarrow>
     is_js_object v
     \<and> has v ''kind'' isThreadEventKind
     \<and> has v ''priority'' (one_of priorities)
     \<and> has v ''summary'' is_nonblank_string
     \<and> has v ''idempotency_key'' is_nonblank_string
     \<and> has v ''created_at'' is_nonblank_string"

definition isLocalThreadCreateResult :: "json \<Rightarrow> bool" where
  "isLocalThreadCreateResult v \<longleftrightarrow>
     is_js_object v
     \<and> has v ''request_id'' is_js_string
     \<and> has v ''ok'' is_js_boolean
     \<and> may_have v ''error'' is_js_string
     \<and> may_have v ''session'' isAgentHostSession"

definition isHostSessionBackfillResult :: "json \<Rightarrow> bool" where
  "isHostSessionBackfillResult v \<longleftrightarrow>
     is_js_object v
     \<and> has v ''request_id'' is_js_string
     \<and> has v ''ok'' is_js_boolean
     \<and> may_have v ''error'' is_js_string
     \<and> may_have v ''truncated'' is_js_boolean
     \<and> may_have v ''events'' (is_array_of isAgentBackfillEvent)"

definition isHostSessionAppServerEnsureResult :: "json \<Rightarrow> bool" where
  "isHostSessionAppServerEnsureResult v \<longleftrightarrow>
     is_js_object v
     \<and> has v ''request_id'' is_js_string
     \<and> has v ''ok'' is_js_boolean
     \<and> may_have v ''error'' is_js_string
     \<and> may_have v ''session'' isAgentHostSession"

definition isThreadArchiveSyncResult :: "json \<Rightarrow> bool" where
  "isThreadArchiveSyncResult v \<longleftrightarrow>
     is_js_object v
     \<and> has v ''request_id'' is_js_string
     \<and> has v ''ok'' is_js_boolean
     \<and> may_have v ''synced'' is_js_boolean
     \<and> may_have v ''error'' is_js_string"

definition isTurnInteractionResponseAck :: "json \<Rightarrow> bool" where
  "isTurnInteractionResponseAck v \<longleftrightarrow>
     is_record v
     \<and> has v ''request_id'' is_nonblank_string
     \<and> has v ''accepted'' is_js_boolean
     \<and> may_have v ''error'' is_js_string"

subsection \<open>Requests to the connector\<close>

definition isTurnInteractionResponseDispatch :: "json \<Rightarrow> bool" where
  "isTurnInteractionResponseDispatch v \<longleftrightarrow>
     is_record v
     \<and> has v ''command_id'' is_nonblank_string
     \<and> has v ''interaction_id'' is_nonblank_string
     \<and> has v ''response'' (\<lambda>response.
          is_record response
          \<and> (if jget response ''kind'' = Some (JStr ''approval'')
             then has response ''decision'' isTurnInteractionApprovalDecision
             else if jget response ''kind'' = Some (JStr ''input'')
             then has response ''answers'' (\<lambda>answers. case answers of
                    JObj m \<Rightarrow> list_all (\<lambda>(_, answer).
                      is_record answer \<and> has answer ''answers'' (is_array_of is_js_string)) m
                  | _ \<Rightarrow> False)
             else False))"

definition isLocalThreadCreateDispatch :: "json \<Rightarrow> bool" where
  "isLocalThreadCreateDispatch v \<longleftrightarrow>
     is_js_object v
     \<and> has v ''request_id'' is_nonempty_string
     \<and> has v ''workspace_id'' is_nonempty_string
     \<and> may_have v ''title'' is_nonblank_string"

definition isHostSessionBackfillDispatch :: "json \<Rightarrow> bool" where
  "isHostSessionBackfillDispatch v \<longleftrightarrow>
     is_js_object v
     \<and> has v ''request_id'' is_nonempty_string
     \<and> has v ''session_id'' is_nonempty_string
     \<and> may_have v ''limit'' is_js_number"

definition isHostSessionAppServerEnsureDispatch :: "json \<Rightarrow> bool" where
  "isHostSessionAppServerEnsureDispatch v \<longleftrightarrow>
     is_js_object v
     \<and> has v ''request_id'' is_nonempty_string
     \<and> has v ''session_id'' is_nonempty_string
     \<and> may_have v ''title'' is_js_string
     \<and> may_have v ''cwd'' is_js_string"

definition isThreadArchiveSyncDispatch :: "json \<Rightarrow> bool" where
  "isThreadArchiveSyncDispatch v \<longleftrightarrow>
     is_js_object v
     \<and> has v ''request_id'' is_nonempty_string
     \<and> has v ''session_id'' is_nonempty_string
     \<and> has v ''archived'' is_js_boolean"

subsection \<open>The reply to a message of the connector\<close>

text \<open>
  What \<open>agent_message_reply\<close> asks of the rest of the control plane: whether a refresh is allowed,
  why the safety policy blocks an action, and what recording a report or an event returned.
\<close>

record worker_answers =
  wa_refresh_allowed :: bool
  wa_blocked :: "string option"
  wa_accepted :: bool
  wa_count :: nat
  wa_synced_at :: string
  wa_deduped :: bool

text \<open>The first message sent back: an acknowledgement with its payload, an error, or nothing.\<close>

datatype worker_reply = ReplyAck json | ReplyError string | NoReply

definition reply_envelope :: "worker_reply \<Rightarrow> envelope option" where
  "reply_envelope r =
     (case r of
        ReplyAck p \<Rightarrow> Some \<lparr> en_kind = ''server.ack'', en_payload = p \<rparr>
      | ReplyError e \<Rightarrow> Some \<lparr> en_kind = ''server.error'', en_payload = jobj [(''error'', JStr e)] \<rparr>
      | NoReply \<Rightarrow> None)"

definition isTurnInteractionEventKind :: "json \<Rightarrow> bool" where
  "isTurnInteractionEventKind k \<longleftrightarrow>
     one_of [''approval.requested'', ''approval.resolved'', ''input.requested'', ''input.received''] k"

definition agent_ready_reply :: "json option \<Rightarrow> worker_reply" where
  "agent_ready_reply payload =
     (case payload of
        None \<Rightarrow> ReplyAck (jobj [(''kind'', JStr ''agent.ready''), (''capabilities'', JArr [])])
      | Some JNull \<Rightarrow> ReplyAck (jobj [(''kind'', JStr ''agent.ready''), (''capabilities'', JArr [])])
      | Some p \<Rightarrow>
          (if \<not> isAgentReadyPayload p then ReplyError ''Invalid agent.ready payload''
           else ReplyAck (jobj ((''kind'', JStr ''agent.ready'')
                  # opt_entry ''capabilities'' (\<lambda>v. v) (jget p ''capabilities'')))))"

definition host_sessions_reply :: "worker_answers \<Rightarrow> worker_reply" where
  "host_sessions_reply a =
     ReplyAck (jobj ((''kind'', JStr ''agent.host_sessions'')
       # (if \<not> wa_refresh_allowed a
          then [(''accepted'', JBool False),
                (''reason'', JStr ''Dogfood safety blocked Host Session refresh results.'')]
          else [(''count'', JNum (PosInt (wa_count a))), (''synced_at'', JStr (wa_synced_at a))])))"

definition app_server_instances_reply :: "worker_answers \<Rightarrow> json \<Rightarrow> worker_reply" where
  "app_server_instances_reply a p =
     ReplyAck (jobj ((''kind'', JStr ''agent.app_server_instances'')
       # (case wa_blocked a of
            Some reason \<Rightarrow> [(''accepted'', JBool False), (''reason'', JStr reason)]
          | None \<Rightarrow> [(''count'', JNum (PosInt (wa_count a))), (''synced_at'', JStr (wa_synced_at a)),
                     (''deduped'', JBool (wa_deduped a))])
       @ opt_entry ''report_id'' (\<lambda>v. v) (jget p ''report_id'')))"

definition malformed_event_reply :: "string \<times> json \<Rightarrow> worker_reply" where
  "malformed_event_reply m =
     ReplyAck (jobj [(''command_id'', JStr (fst m)), (''kind'', snd m), (''accepted'', JBool False),
       (''dropped'', JBool True), (''reason'', JStr ''Turn interaction payload is invalid'')])"

definition agent_event_reply :: "worker_answers \<Rightarrow> json \<Rightarrow> worker_reply" where
  "agent_event_reply a p =
     (let kind = jget p ''kind'';
          ids = opt_entry ''command_id'' (\<lambda>v. v) (jget p ''command_id'') @ opt_entry ''kind'' (\<lambda>v. v) kind;
          final = (kind \<in> {Some (JStr ''command.finished''), Some (JStr ''command.failed'')});
          progress = (\<not> final \<and> kind \<noteq> Some (JStr ''command.started''));
          interaction = (case kind of Some k \<Rightarrow> isTurnInteractionEventKind k | None \<Rightarrow> False)
      in case (if progress then wa_blocked a else None) of
           Some reason \<Rightarrow>
             ReplyAck (jobj (ids @ [(''accepted'', JBool (\<not> interaction)), (''dropped'', JBool True),
               (''reason'', JStr reason)]))
         | None \<Rightarrow> ReplyAck (jobj (ids @ [(''accepted'', JBool (wa_accepted a))])))"

definition result_reply :: "string \<Rightarrow> json \<Rightarrow> worker_reply" where
  "result_reply kind p =
     ReplyAck (jobj ((''kind'', JStr kind) # opt_entry ''request_id'' (\<lambda>v. v) (jget p ''request_id'')))"

text \<open>
  \<open>parseMessage\<close> has read the text: \<open>None\<close> where it is no JSON or no object. The length of the
  text is what the reply to an unknown message carries.
\<close>

definition parseMessage :: "string + json \<Rightarrow> json option" where
  "parseMessage r = (case r of Inr v \<Rightarrow> (if is_js_object v then Some v else None) | Inl _ \<Rightarrow> None)"

definition agent_message_reply :: "worker_answers \<Rightarrow> string \<Rightarrow> string + json \<Rightarrow> worker_reply" where
  "agent_message_reply a text parsed =
     (case parseMessage parsed of
        None \<Rightarrow> ReplyError ''Invalid JSON''
      | Some message \<Rightarrow>
          (let kind = (\<lambda>k. jget message ''kind'' = Some (JStr k));
               payload = has message ''payload'';
               p = (case jget message ''payload'' of Some p \<Rightarrow> p | None \<Rightarrow> JNull);
               malformed = malformedTurnInteractionEvent p
           in if kind ''agent.ready'' then agent_ready_reply (jget message ''payload'')
              else if kind ''agent.host_sessions'' \<and> payload isAgentHostSessionsReport then host_sessions_reply a
              else if kind ''agent.app_server_instances''
              then (if \<not> payload isAgentAppServerInstancesReport
                    then ReplyError ''Invalid agent.app_server_instances payload''
                    else app_server_instances_reply a p)
              else if kind ''agent.event'' \<and> malformed \<noteq> None then malformed_event_reply (the malformed)
              else if kind ''agent.event'' \<and> payload isAgentCommandEvent then agent_event_reply a p
              else if kind ''thread.create_result'' \<and> payload isLocalThreadCreateResult
              then result_reply ''thread.create_result'' p
              else if kind ''host_session.backfill_result'' \<and> payload isHostSessionBackfillResult
              then result_reply ''host_session.backfill_result'' p
              else if kind ''host_session.app_server_ensure_result'' \<and> payload isHostSessionAppServerEnsureResult
              then result_reply ''host_session.app_server_ensure_result'' p
              else if kind ''thread.archive_sync_result'' \<and> payload isThreadArchiveSyncResult
              then result_reply ''thread.archive_sync_result'' p
              else if kind ''turn.interaction_response_ack'' \<and> payload isTurnInteractionResponseAck then NoReply
              else ReplyAck (jobj [(''received'', JNum (PosInt (js_length text)))])))"

end
