(* ===== verification/Protocol_Facts.thy ===== *)
theory Protocol_Facts
  imports Protocol_Guards Connector
begin

text \<open>
  Lemmas on the guards: how UTF-16 length and JavaScript's white space relate to what Rust
  counts and trims, and one lemma per guard for the JSON the connector builds.
\<close>

subsection \<open>Text\<close>

lemma js_trim_empty_iff: "js_trim s = [] \<longleftrightarrow> (\<forall>g \<in> set (rchars s). js_is_ws g)"
  unfolding js_trim_def by (rule concat_trim_empty_iff [OF rchars_nonempty])

text \<open>Nothing but a byte order mark is blank for JavaScript and not for Rust.\<close>

lemma nonblank_js_trim:
  assumes "nonblank s" and "js_byte_order_mark \<notin> set (rchars s)"
  shows "js_trim s \<noteq> []"
proof -
  from assms(1) obtain g where g: "g \<in> set (rchars s)" "\<not> is_ws g"
    by (auto simp: nonblank_def trim_empty_iff)
  then have "g \<noteq> js_byte_order_mark" using assms(2) by metis
  with g show ?thesis unfolding js_trim_empty_iff js_is_ws_def by metis
qed

lemma js_length_bounds: "chars_count s \<le> js_length s" "js_length s \<le> 2 * chars_count s"
proof -
  have "length gs \<le> sum_list (map (\<lambda>g. if length g = 4 then 2 else 1) gs)
      \<and> sum_list (map (\<lambda>g. if length g = 4 then 2 else 1) gs) \<le> 2 * length gs" for gs :: "string list"
    by (induction gs) auto
  then show "chars_count s \<le> js_length s" "js_length s \<le> 2 * chars_count s"
    by (simp_all add: js_length_def chars_count_def)
qed

lemma js_length_pos: "0 < js_length s \<longleftrightarrow> s \<noteq> []"
proof
  show "0 < js_length s \<Longrightarrow> s \<noteq> []" by (auto simp: js_length_def)
  assume "s \<noteq> []"
  then have "0 < chars_count s" by (simp add: chars_count_def)
  then show "0 < js_length s" using js_length_bounds(1) [of s] by simp
qed

lemma rchars_ascii: "list_all (\<lambda>c. \<not> is_cont c) s \<Longrightarrow> rchars s = map (\<lambda>c. [c]) s"
proof (induction s)
  case (Cons c s)
  then have "takeWhile is_cont s = []" "dropWhile is_cont s = s" by (cases s; simp)+
  with Cons show ?case by simp
qed simp

lemma js_length_ascii: "list_all (\<lambda>c. \<not> is_cont c) s \<Longrightarrow> js_length s = length s"
  by (simp add: js_length_def rchars_ascii comp_def sum_list_triv)

lemma is_cont_digit: "is_ascii_digit c \<Longrightarrow> \<not> is_cont c"
  by (cases c) (auto simp: is_ascii_digit_def)

lemma js_length_report_id: "js_length (report_id_text n) = 18 + length (show_nat n)"
proof -
  have "list_all (\<lambda>c. \<not> is_cont c) (show_nat n)"
    using show_nat_digits [of n] by (auto simp: list_all_iff is_cont_digit)
  then have "list_all (\<lambda>c. \<not> is_cont c) (report_id_text n)" by (simp add: report_id_text_def)
  then show ?thesis by (simp add: js_length_ascii report_id_text_def)
qed

subsection \<open>Objects the connector builds\<close>

named_theorems guard_simps \<open>evaluation of the guards on objects that are written out\<close>

lemma js_kinds [guard_simps]:
  "is_js_object (jobj kvs)" "is_record (jobj kvs)" "is_js_string (JStr s)" "is_js_boolean (JBool b)"
  "is_js_number (JNum x)" "one_of names (JStr s) \<longleftrightarrow> s \<in> set names"
  "is_array_of p (JArr xs) \<longleftrightarrow> list_all p xs" "is_nonempty_array_of p (JArr xs) \<longleftrightarrow> xs \<noteq> [] \<and> list_all p xs"
  "is_nonempty_string (JStr s) \<longleftrightarrow> s \<noteq> []" "is_nonblank_string (JStr s) \<longleftrightarrow> js_trim s \<noteq> []"
  "isNonNegativeInteger m (JNum (PosInt n)) \<longleftrightarrow> n \<le> m"
  "isBoundedString m (JStr s) \<longleftrightarrow> s \<noteq> [] \<and> js_length s \<le> m"
  by (simp_all add: is_js_object_def is_record_def is_js_string_def is_js_boolean_def is_js_number_def
      one_of_def is_array_of_def is_nonempty_array_of_def is_nonempty_string_def is_nonblank_string_def
      isNonNegativeInteger_def isBoundedString_def js_length_pos jobj_def)

lemma has_jobj [guard_simps]:
  "has (jobj kvs) k p \<longleftrightarrow> (case map_of (rev kvs) k of None \<Rightarrow> False | Some x \<Rightarrow> p x)"
  "may_have (jobj kvs) k p \<longleftrightarrow> (case map_of (rev kvs) k of None \<Rightarrow> True | Some x \<Rightarrow> p x)"
  by (simp_all add: has_def may_have_def)

lemma has_weaken: "has v k p \<Longrightarrow> (\<And>x. jget v k = Some x \<Longrightarrow> p x \<Longrightarrow> q x) \<Longrightarrow> has v k q"
  by (auto simp: has_def split: option.splits)

lemma title_source_known: "one_of [''metadata'', ''app_server'', ''history'', ''fallback''] (title_source_json t)"
  by (cases t) (simp_all add: one_of_def)

lemma scope_known: "one_of [''full'', ''incremental''] (scope_json s)"
  by (cases s) (simp_all add: one_of_def)

lemma guard_host_session: "isAgentHostSession (host_session_json s)"
  by (simp add: isAgentHostSession_def host_session_json_def guard_simps map_add_def map_of_opt_entry
      title_source_known split: option.split)

lemma guard_report: "isAgentHostSessionsReport (report_json r)"
  by (simp add: isAgentHostSessionsReport_def report_json_def guard_simps map_add_def map_of_opt_entry
      scope_known list_all_iff guard_host_session split: option.split)

text \<open>What an instance report has to satisfy beyond what the manager always fills in.\<close>

definition shown_text_fits :: "string option \<Rightarrow> bool" where
  "shown_text_fits t =
     (case t of None \<Rightarrow> True | Some s \<Rightarrow> s \<noteq> [] \<and> js_length (bounded_app_server_instance_text s) \<le> 512)"

definition instance_in_bounds :: "app_server_instance_snapshot \<Rightarrow> bool" where
  "instance_in_bounds i \<longleftrightarrow>
     is_active_turn_count i \<le> 1000000 \<and> is_generation i \<le> 1000000000
     \<and> shown_text_fits (is_status_summary i) \<and> shown_text_fits (is_last_error i)"

definition instance_well_formed :: "app_server_instance_snapshot \<Rightarrow> bool" where
  "instance_well_formed i \<longleftrightarrow>
     is_instance_key i = ''default'' \<and> is_scope i = ''connector'' \<and> is_endpoint_type i \<in> {''managed'', ''external''}
     \<and> is_state i \<in> range instance_state_str"

lemma bounded_text_empty: "bounded_app_server_instance_text s = [] \<longleftrightarrow> s = []"
  by (auto simp: bounded_app_server_instance_text_def chars_count_def)

lemma guard_instance:
  assumes "instance_well_formed i"
  shows "isAgentAppServerInstance (instance_json i) \<longleftrightarrow> instance_in_bounds i"
proof -
  obtain st where st: "is_state i = instance_state_str st" using assms by (auto simp: instance_well_formed_def)
  have "instance_state_str st \<in> set [''healthy'', ''degraded'', ''draining'', ''restarting'', ''stopped'']"
    by (cases st) simp_all
  moreover have "js_length ''default'' \<le> 128" by code_simp
  ultimately show ?thesis
    using assms st
    by (simp add: isAgentAppServerInstance_def instance_json_def instance_well_formed_def instance_in_bounds_def
        shown_text_fits_def guard_simps map_add_def map_of_opt_entry bounded_text_empty split: option.split)
qed

lemma guard_ready: "isAgentReadyPayload (jobj [(''capabilities'', JArr (map JStr caps))])"
  by (simp add: isAgentReadyPayload_def guard_simps list_all_iff)

subsection \<open>Answers to requests\<close>

definition backfill_event_in_bounds :: "agent_backfill_event \<Rightarrow> bool" where
  "backfill_event_in_bounds e \<longleftrightarrow>
     isThreadEventKind (JStr (be_kind e)) \<and> be_priority e \<in> set priorities \<and> js_trim (be_summary e) \<noteq> []
     \<and> js_trim (be_idempotency_key e) \<noteq> [] \<and> js_trim (be_created_at e) \<noteq> []"

lemma guard_backfill_event: "isAgentBackfillEvent (backfill_event_json e) \<longleftrightarrow> backfill_event_in_bounds e"
  by (simp add: isAgentBackfillEvent_def backfill_event_json_def backfill_event_in_bounds_def guard_simps)

subsection \<open>Events\<close>

definition event_body :: "command_payload \<Rightarrow> connector_event \<Rightarrow> string option \<Rightarrow> json" where
  "event_body command e target =
     jobj ([(''command_id'', JStr (cp_id command))]
       @ (if ev_kind e = ''command.started'' then opt_entry ''target_host_session_id'' JStr target else [])
       @ [(''kind'', JStr (ev_kind e)), (''priority'', JStr (ev_priority e)), (''summary'', JStr (ev_summary e))]
       @ opt_entry ''payload'' (\<lambda>p. p) (ev_payload e))"

lemma event_message_body:
  "agent_event_message command e target =
     jobj [(''kind'', JStr ''agent.event''), (''payload'', event_body command e target)]"
  by (simp add: agent_event_message_def event_body_def)

lemma event_body_members:
  "jget (event_body command e target) ''command_id'' = Some (JStr (cp_id command))"
  "jget (event_body command e target) ''kind'' = Some (JStr (ev_kind e))"
  "jget (event_body command e target) ''priority'' = Some (JStr (ev_priority e))"
  "jget (event_body command e target) ''summary'' = Some (JStr (ev_summary e))"
  "jget (event_body command e target) ''payload'' = ev_payload e"
  "jget (event_body command e target) ''target_host_session_id'' =
     (if ev_kind e = ''command.started'' then map_option JStr target else None)"
  by (simp_all add: event_body_def map_add_def map_of_opt_entry option.map_ident split: option.split)

definition command_kinds :: "string list" where
  "command_kinds = [''command.started'', ''command.output'', ''command.finished'', ''command.failed'']"

definition interaction_kinds :: "string list" where
  "interaction_kinds = [''approval.requested'', ''approval.resolved'', ''input.requested'', ''input.received'']"

lemma event_body_object: "is_js_object (event_body command e target)" "is_record (event_body command e target)"
  by (simp_all add: event_body_def guard_simps)

text \<open>The guard on an event's own payload.\<close>

definition event_payload_ok :: "connector_event \<Rightarrow> bool" where
  "event_payload_ok e =
     (if ev_kind e \<in> {''approval.requested'', ''input.requested''}
      then (case ev_payload e of Some p \<Rightarrow> isTurnInteractionRequestPayloadForEvent p (JStr (ev_kind e)) | None \<Rightarrow> False)
      else if ev_kind e \<in> {''approval.resolved'', ''input.received''}
      then (case ev_payload e of Some p \<Rightarrow> isTurnInteractionResolutionPayloadForEvent p (JStr (ev_kind e)) | None \<Rightarrow> False)
      else pred_option is_record (ev_payload e))"

lemma guard_event:
  "isAgentCommandEvent (event_body command e target) \<longleftrightarrow>
     ev_kind e \<in> set command_kinds \<union> set interaction_kinds \<and> ev_priority e \<in> set priorities \<and> event_payload_ok e"
proof -
  have "may_have (event_body command e target) ''target_host_session_id'' is_js_string"
    by (simp add: may_have_def event_body_members guard_simps split: option.split)
  then show ?thesis
    by (auto simp: isAgentCommandEvent_def event_body_object has_def may_have_def event_body_members guard_simps
        isRequiredTurnInteractionRequestKind_def isTurnInteractionResolutionKind_def event_payload_ok_def
        command_kinds_def interaction_kinds_def split: option.splits)
qed

text \<open>What the worker's acknowledgement says of an event, and that the connector takes it as such.\<close>

definition event_verdict :: "worker_answers \<Rightarrow> connector_event \<Rightarrow> bool" where
  "event_verdict a e =
     (if ev_kind e \<in> set interaction_kinds
      then ev_priority e \<in> set priorities \<and> event_payload_ok e \<and> wa_blocked a = None \<and> wa_accepted a
      else if ev_kind e = ''command.output'' \<and> wa_blocked a \<noteq> None then True
      else wa_accepted a)"

lemma malformed_event:
  "malformedTurnInteractionEvent (event_body command e target) =
     (if ev_kind e \<in> set interaction_kinds \<and> \<not> (ev_priority e \<in> set priorities \<and> event_payload_ok e)
      then Some (cp_id command, JStr (ev_kind e)) else None)"
  by (auto simp: malformedTurnInteractionEvent_def event_body_object event_body_members guard_event jget_str_def
      isRequiredTurnInteractionRequestKind_def isTurnInteractionResolutionKind_def interaction_kinds_def)

lemma event_reply_matches:
  assumes "ev_kind e \<in> set command_kinds \<union> set interaction_kinds"
    and "ev_kind e \<in> set command_kinds \<longrightarrow> ev_priority e \<in> set priorities \<and> event_payload_ok e"
  shows "\<exists>env. reply_envelope (agent_message_reply a t (Inr (agent_event_message command e target))) = Some env
     \<and> classify_ack_wait_envelope env (cp_id command) (ev_kind e) = AckMatched (event_verdict a e)"
proof (cases "ev_kind e \<in> set interaction_kinds \<and> \<not> (ev_priority e \<in> set priorities \<and> event_payload_ok e)")
  case True
  then have "\<not> event_verdict a e" by (auto simp: event_verdict_def)
  with True show ?thesis
    by (simp add: agent_message_reply_def parseMessage_def event_message_body guard_simps malformed_event Let_def
        malformed_event_reply_def reply_envelope_def classify_ack_wait_envelope_def jget_str_def jget_bool_def as_bool_def)
next
  case False
  with assms have ok: "isAgentCommandEvent (event_body command e target)" by (auto simp: guard_event)
  have "agent_message_reply a t (Inr (agent_event_message command e target))
      = agent_event_reply a (event_body command e target)"
    using ok False
    by (auto simp: agent_message_reply_def parseMessage_def event_message_body guard_simps malformed_event Let_def)
  moreover define blocked where "blocked = (if ev_kind e \<in> {''command.started'', ''command.finished'', ''command.failed''}
      then None else wa_blocked a)"
  have "event_verdict a e = (case blocked of Some _ \<Rightarrow> ev_kind e \<notin> set interaction_kinds | None \<Rightarrow> wa_accepted a)"
    using assms(1) False
    by (auto simp: event_verdict_def blocked_def command_kinds_def interaction_kinds_def split: option.splits)
  moreover have interaction: "isTurnInteractionEventKind (JStr (ev_kind e)) \<longleftrightarrow> ev_kind e \<in> set interaction_kinds"
    by (simp add: isTurnInteractionEventKind_def guard_simps interaction_kinds_def)
  have "agent_event_reply a (event_body command e target) = ReplyAck (jobj ([(''command_id'', JStr (cp_id command)),
      (''kind'', JStr (ev_kind e))] @ (case blocked of
         Some reason \<Rightarrow> [(''accepted'', JBool (ev_kind e \<notin> set interaction_kinds)), (''dropped'', JBool True),
           (''reason'', JStr reason)]
       | None \<Rightarrow> [(''accepted'', JBool (wa_accepted a))])))"
    by (simp add: agent_event_reply_def event_body_members Let_def interaction blocked_def split: option.split)
  ultimately show ?thesis
    by (cases blocked)
      (simp_all add: reply_envelope_def classify_ack_wait_envelope_def jget_str_def jget_bool_def as_bool_def)
qed

end
