(* ===== verification/Protocol_Interaction.thy ===== *)
theory Protocol_Interaction
  imports Protocol_Facts Interaction_Claims
begin

text \<open>
  Turn interactions across the connection: what the worker's guards say of the requests and
  resolutions the connector builds.
\<close>

subsection \<open>The members of a request's payload\<close>

lemma payload_members:
  assumes "turn_interaction_payload sd m request_id params kind subject title detail command cwd grant qs ms = Inr p"
  shows "\<exists>kvs. p = jobj kvs"
    and "jget p ''type'' = Some (JStr ''turn_interaction'')" "jget p ''status'' = Some (JStr ''pending'')"
    and "jget p ''method'' = Some (JStr m)" "jget p ''request_kind'' = Some (JStr kind)"
    and "\<exists>t. jget_str params ''threadId'' = Some t \<and> jget p ''app_server_thread_id'' = Some (JStr t)"
    and "\<exists>u. jget_str params ''turnId'' = Some u \<and> jget p ''app_server_turn_id'' = Some (JStr u)"
    and "jget p ''questions'' = (case qs of Some xs \<Rightarrow> (if xs = [] then None else Some (JArr xs)) | None \<Rightarrow> None)"
proof -
  define approval where "approval = (if kind = ''approval'' then approval_entries params else Inr [])"
  obtain thread turn es where h: "jget_str params ''threadId'' = Some thread" "jget_str params ''turnId'' = Some turn"
      "approval = Inr es"
    using assms by (auto simp: turn_interaction_payload_def approval_def split: option.splits sum.splits if_splits)
  have other: "map_of (rev es) k = None" if "k \<notin> {''command_actions'', ''proposed_execpolicy_amendment'',
      ''network_approval_context'', ''available_decisions''}" for k
    using h(3) approval_entries_lookups(2) [OF _ that] by (auto simp: approval_def split: if_splits)
  note payload = assms [unfolded turn_interaction_payload_def approval_def [symmetric] h option.case sum.case, THEN sum.inject(2) [THEN iffD1], symmetric]
  show "\<exists>kvs. p = jobj kvs" using payload by blast
  show "jget p ''type'' = Some (JStr ''turn_interaction'')"
    by (simp add: payload map_add_def map_of_opt_entry other split: option.split)
  show "jget p ''status'' = Some (JStr ''pending'')"
    by (simp add: payload map_add_def map_of_opt_entry other split: option.split)
  show "jget p ''method'' = Some (JStr m)"
    by (simp add: payload map_add_def map_of_opt_entry other split: option.split)
  show "jget p ''request_kind'' = Some (JStr kind)"
    by (simp add: payload map_add_def map_of_opt_entry other split: option.split)
  show "\<exists>t. jget_str params ''threadId'' = Some t \<and> jget p ''app_server_thread_id'' = Some (JStr t)"
    by (simp add: payload map_add_def map_of_opt_entry other h split: option.split)
  show "\<exists>u. jget_str params ''turnId'' = Some u \<and> jget p ''app_server_turn_id'' = Some (JStr u)"
    by (simp add: payload map_add_def map_of_opt_entry other h split: option.split)
  show "jget p ''questions'' = (case qs of Some xs \<Rightarrow> (if xs = [] then None else Some (JArr xs)) | None \<Rightarrow> None)"
    by (auto simp: payload map_add_def map_of_opt_entry other split: option.split)
qed

subsection \<open>Text without a byte order mark\<close>

fun no_bom :: "json \<Rightarrow> bool" where
  "no_bom (JStr s) = (js_byte_order_mark \<notin> set (rchars s))"
| "no_bom (JArr xs) = (\<forall>x \<in> set xs. no_bom x)"
| "no_bom (JObj m) = (\<forall>e \<in> set m. no_bom (snd e))"
| "no_bom _ = True"

lemma no_bom_jget: "no_bom v \<Longrightarrow> jget v k = Some x \<Longrightarrow> no_bom x"
  by (cases v) (auto simp: jget_def dest!: map_of_SomeD)

lemma no_bom_nonblank: "no_bom (JStr s) \<Longrightarrow> nonblank s \<Longrightarrow> js_trim s \<noteq> []"
  by (simp add: nonblank_js_trim)

lemma no_bom_jget_str: "no_bom v \<Longrightarrow> jget_str v k = Some s \<Longrightarrow> no_bom (JStr s)"
  by (auto simp: jget_str_def bind_eq_Some_conv dest: no_bom_jget)

subsection \<open>Decisions\<close>

lemma guard_decision:
  assumes "valid_decision d" and "no_bom d"
  shows "isTurnInteractionApprovalDecision d"
proof -
  consider "d \<in> {JStr ''accept'', JStr ''acceptForSession'', JStr ''decline'', JStr ''cancel''}"
    | a where "d = amendment_decision a" "execpolicy_amendment_is_valid a"
    using assms(1) by (auto simp: valid_decision_def)
  then show ?thesis
  proof cases
    case 1
    then show ?thesis by (auto simp: isTurnInteractionApprovalDecision_def guard_simps)
  next
    case 2
    then obtain xs where xs: "a = JArr xs" "xs \<noteq> []"
        "\<forall>x \<in> set xs. case as_str x of Some p \<Rightarrow> nonblank p | None \<Rightarrow> False"
      by (auto simp: execpolicy_amendment_is_valid_def split: option.splits)
    have "no_bom a"
      using assms(2) 2 by (simp add: amendment_decision_def jobj_def obj_of_def)
    then have "is_nonblank_string x" if "x \<in> set xs" for x
      using xs that by (fastforce simp: guard_simps no_bom_nonblank split: option.splits)
    with xs 2 show ?thesis
      by (simp add: isTurnInteractionApprovalDecision_def amendment_decision_def guard_simps list_all_iff)
  qed
qed

lemma no_bom_normalized: "no_bom v \<Longrightarrow> normalized_approval_decision v = Some d \<Longrightarrow> no_bom d"
  by (auto simp: normalized_approval_decision_def bind_eq_Some_conv amendment_decision_def jobj_def obj_of_def
      split: json.splits if_splits dest!: map_of_SomeD) (metis no_bom_jget snd_conv)

lemma no_bom_available:
  assumes "no_bom params" and "available_approval_decisions_from_request params = Some (JArr ds)" and "d \<in> set ds"
  shows "no_bom d"
proof -
  from assms(2,3) obtain xs x where x: "jget params ''availableDecisions'' = Some (JArr xs)" "x \<in> set xs"
      "normalized_approval_decision x = Some d"
    by (auto simp: available_approval_decisions_from_request_def set_map_filter split: option.splits json.splits)
  from no_bom_jget [OF assms(1) x(1)] x(2) have "no_bom x" by simp
  then show ?thesis using x(3) by (rule no_bom_normalized)
qed

subsection \<open>Questions\<close>

text \<open>The labels of the options a question keeps, and those of the questions a request keeps.\<close>

definition kept_labels :: "json \<Rightarrow> string list" where
  "kept_labels v =
     (case jget_array v ''options'' of None \<Rightarrow> []
      | Some xs \<Rightarrow> List.map_filter (\<lambda>o'. if question_option o' = None then None else jget_str o' ''label'') xs)"

definition offered_labels :: "json \<Rightarrow> string list" where
  "offered_labels params =
     (case jget_array params ''questions'' of None \<Rightarrow> []
      | Some qs \<Rightarrow> concat (map (\<lambda>q. if turn_interaction_question q = None then [] else kept_labels q) qs))"

lemma guard_options:
  "list_all (\<lambda>option. is_record option \<and> has option ''label'' is_nonblank_string \<and> has option ''description'' is_js_string)
      (question_options v)
   \<longleftrightarrow> list_all (\<lambda>l. js_trim l \<noteq> []) (kept_labels v)"
proof -
  have "list_all (\<lambda>option. is_record option \<and> has option ''label'' is_nonblank_string \<and> has option ''description'' is_js_string)
      (List.map_filter question_option xs)
   \<longleftrightarrow> list_all (\<lambda>l. js_trim l \<noteq> [])
        (List.map_filter (\<lambda>o'. if question_option o' = None then None else jget_str o' ''label'') xs)" for xs
    by (induction xs) (auto simp: map_filter_simps question_option_def bind_eq_Some_conv guard_simps split: option.splits)
  then show ?thesis by (simp add: question_options_def kept_labels_def split: option.split)
qed

lemma question_options_Nil: "question_options v = [] \<Longrightarrow> kept_labels v = []"
proof -
  have "List.map_filter question_option xs = [] \<Longrightarrow>
      List.map_filter (\<lambda>o'. if question_option o' = None then None else jget_str o' ''label'') xs = []" for xs
    by (induction xs) (auto simp: map_filter_simps split: option.splits)
  then show "question_options v = [] \<Longrightarrow> kept_labels v = []"
    by (auto simp: question_options_def kept_labels_def split: option.splits)
qed

lemma guard_question:
  assumes "turn_interaction_question v = Some q" and "no_bom v"
  shows "isTurnInteractionInputQuestion q \<longleftrightarrow> list_all (\<lambda>l. js_trim l \<noteq> []) (kept_labels v)"
proof -
  obtain i h t where iht: "jget_str v ''id'' = Some i" "jget_str v ''header'' = Some h" "jget_str v ''question'' = Some t"
      "nonblank i" "nonblank h" "nonblank t"
    using assms(1) by (auto simp: turn_interaction_question_def bind_eq_Some_conv filter_nonblank_Some)
  then have "js_trim i \<noteq> []" "js_trim h \<noteq> []" "js_trim t \<noteq> []"
    using no_bom_jget_str [OF assms(2)] no_bom_nonblank by blast+
  moreover from assms(1) iht have q: "q = jobj ([(''id'', JStr i), (''header'', JStr h), (''question'', JStr t),
      (''is_other'', question_flag v ''isOther''), (''is_secret'', question_flag v ''isSecret'')]
      @ (if question_options v = [] then [] else [(''options'', JArr (question_options v))]))"
    by (simp add: turn_interaction_question_def filter_nonblank_def)
  ultimately show ?thesis
    by (cases "question_options v = []")
      (simp_all add: q isTurnInteractionInputQuestion_def guard_simps question_flag_def guard_options question_options_Nil)
qed

lemma guard_questions:
  assumes "no_bom params"
  shows "list_all isTurnInteractionInputQuestion
      (case jget_array params ''questions'' of None \<Rightarrow> [] | Some qs \<Rightarrow> List.map_filter turn_interaction_question qs)
    \<longleftrightarrow> list_all (\<lambda>l. js_trim l \<noteq> []) (offered_labels params)"
proof (cases "jget_array params ''questions''")
  case (Some qs)
  then have "\<forall>q \<in> set qs. no_bom q"
    using no_bom_jget [OF assms] by (fastforce simp: jget_array_def bind_eq_Some_conv)
  then have "list_all isTurnInteractionInputQuestion (List.map_filter turn_interaction_question qs)
    \<longleftrightarrow> list_all (\<lambda>l. js_trim l \<noteq> []) (concat (map (\<lambda>q. if turn_interaction_question q = None then [] else kept_labels q) qs))"
    by (induction qs) (auto simp: map_filter_simps guard_question split: option.split)
  with Some show ?thesis by (simp add: offered_labels_def)
qed (simp add: offered_labels_def)

subsection \<open>Requests and resolutions\<close>

text \<open>\<open>serde_json\<close> prints an array from its opening bracket.\<close>

definition prints_arrays :: "('a serde_scheme) \<Rightarrow> bool" where
  "prints_arrays sd \<longleftrightarrow> (\<forall>xs. \<exists>r. js_print sd (JArr xs) = CHR ''['' # r)"

lemma bracket_not_ws: "\<not> js_is_ws (CHR ''['' # g)"
  by (simp add: js_is_ws_def js_byte_order_mark_def is_ws_def whitespace_chars_def)

lemma interaction_id_shown:
  assumes "prints_arrays sd"
  shows "js_trim (turn_interaction_id sd m request_id params) \<noteq> []"
proof -
  obtain r where "turn_interaction_id sd m request_id params = CHR ''['' # r"
    using assms unfolding prints_arrays_def turn_interaction_id_def Let_def by blast
  then show ?thesis by (simp add: js_trim_empty_iff bracket_not_ws)
qed

definition kept_questions :: "json \<Rightarrow> json list" where
  "kept_questions params =
     (case jget_array params ''questions'' of None \<Rightarrow> [] | Some qs \<Rightarrow> List.map_filter turn_interaction_question qs)"

lemma titles_shown:
  "js_trim ''Approve command execution'' \<noteq> []" "js_trim ''Approve file change'' \<noteq> []"
  "js_trim ''Approve permissions'' \<noteq> []" "js_trim ''Provide requested input'' \<noteq> []"
  by code_simp+

lemma event_parts:
  assumes "turn_interaction_event sd m request_id params = Inr e"
  shows "\<exists>kind subject title detail command cwd grant qs ms p.
     turn_interaction_payload sd m request_id params kind subject title detail command cwd grant qs ms = Inr p
     \<and> ev_payload e = Some p \<and> ev_priority e = ''P0'' \<and> ev_kind e = kind @ ''.requested'' \<and> js_trim title \<noteq> []
     \<and> (if m = method_user_input then kind = ''input'' \<and> kept_questions params \<noteq> [] \<and> qs = Some (kept_questions params)
        else kind = ''approval'')"
proof -
  note unfold = turn_interaction_event_def interaction_event_def kept_questions_def Let_def
  have distinct: "method_command \<noteq> method_file_change" "method_command \<noteq> method_permissions"
    "method_command \<noteq> method_user_input" "method_file_change \<noteq> method_permissions"
    "method_file_change \<noteq> method_user_input" "method_permissions \<noteq> method_user_input"
    by (simp_all add: turn_methods)
  consider "m = method_command" | "m = method_file_change" | "m = method_permissions" | "m = method_user_input"
    using assms by (auto simp: unfold split: if_splits)
  then show ?thesis
  proof cases
    case 1
    with assms show ?thesis
      by (auto simp: unfold distinct split: sum.splits) (intro exI conjI, assumption, rule titles_shown)+
  next
    case 2
    with assms show ?thesis
      by (auto simp: unfold distinct distinct [symmetric] split: sum.splits)
        (intro exI conjI, assumption, rule titles_shown)+
  next
    case 3
    with assms show ?thesis
      by (auto simp: unfold distinct distinct [symmetric] split: sum.splits)
        (intro exI conjI, assumption, rule titles_shown)+
  next
    case 4
    with assms show ?thesis
      by (auto simp: unfold distinct distinct [symmetric] split: sum.splits if_splits)
        (intro exI conjI, assumption, rule titles_shown)+
  qed
qed

lemma no_bom_thread:
  assumes "no_bom params" and "jget_str params k = Some t" and "pred_option nonblank (jget_str params k)"
  shows "is_nonblank_string (JStr t)"
  using no_bom_jget_str [OF assms(1,2)] no_bom_nonblank assms(2,3) by (simp add: guard_simps)

lemma payload_decisions:
  assumes "turn_interaction_payload sd m request_id params ''approval'' subject title detail command cwd grant qs ms = Inr p"
  shows "jget p ''available_decisions'' = available_approval_decisions_from_request params"
proof -
  obtain thread turn es where h: "jget_str params ''threadId'' = Some thread" "jget_str params ''turnId'' = Some turn"
      "approval_entries params = Inr es"
    using assms by (auto simp: turn_interaction_payload_def split: option.splits sum.splits)
  then have "map_of (rev es) ''available_decisions'' = available_approval_decisions_from_request params"
    by (auto simp: approval_entries_def Let_def split: option.splits if_splits)
  moreover have "available_approval_decisions_from_request params \<noteq> None"
    using h(3) by (auto simp: approval_entries_def Let_def split: option.splits)
  ultimately show ?thesis
    using assms by (auto simp: turn_interaction_payload_def h map_add_def map_of_opt_entry split: option.split)
qed

lemma has_Some: "jget v k = Some x \<Longrightarrow> has v k p \<longleftrightarrow> p x" and has_None: "jget v k = None \<Longrightarrow> \<not> has v k p"
  by (simp_all add: has_def)

lemma request_guard:
  assumes event: "turn_interaction_event sd m request_id params = Inr e"
    and "no_bom params" and "prints_arrays sd"
    and "pred_option nonblank (jget_str params ''threadId'')" and "pred_option nonblank (jget_str params ''turnId'')"
  shows "event_payload_ok e \<longleftrightarrow> m \<noteq> method_user_input \<or> list_all (\<lambda>l. js_trim l \<noteq> []) (offered_labels params)"
proof -
  from event_parts [OF event] obtain kind subject title detail command cwd grant qs ms p where
    p: "turn_interaction_payload sd m request_id params kind subject title detail command cwd grant qs ms = Inr p"
    and e: "ev_payload e = Some p" "ev_kind e = kind @ ''.requested''" and title: "js_trim title \<noteq> []"
    and kind: "if m = method_user_input then kind = ''input'' \<and> kept_questions params \<noteq> [] \<and> qs = Some (kept_questions params)
        else kind = ''approval''"
    by blast
  note mem = payload_members [OF p] payload_lookups [OF p]
  obtain t u where t: "jget_str params ''threadId'' = Some t" "jget p ''app_server_thread_id'' = Some (JStr t)"
    and u: "jget_str params ''turnId'' = Some u" "jget p ''app_server_turn_id'' = Some (JStr u)"
    using mem(6,7) by blast
  have shown: "is_nonblank_string (JStr t)" "is_nonblank_string (JStr u)"
    using no_bom_thread [OF assms(2) t(1) assms(4)] no_bom_thread [OF assms(2) u(1) assms(5)] by simp_all
  have obj: "is_record p" using mem(1) by (auto simp: guard_simps)
  have base: "is_record p \<and> has p ''type'' (one_of [''turn_interaction'']) \<and> has p ''interaction_id'' is_nonblank_string
      \<and> has p ''status'' (one_of [''pending'']) \<and> has p ''method'' is_js_string \<and> has p ''request_kind'' (one_of [kind])
      \<and> has p ''app_server_thread_id'' is_nonblank_string \<and> has p ''app_server_turn_id'' is_nonblank_string
      \<and> has p ''title'' is_nonblank_string"
    using shown title interaction_id_shown [OF assms(3)] obj
    by (simp add: has_Some [OF mem(2)] has_Some [OF mem(3)] has_Some [OF mem(4)] has_Some [OF mem(5)] has_Some [OF mem(9)]
        has_Some [OF mem(11)] has_Some [OF t(2)] has_Some [OF u(2)] guard_simps)
  show ?thesis
  proof (cases "m = method_user_input")
    case True
    with kind have k: "kind = ''input''" "qs = Some (kept_questions params)" "kept_questions params \<noteq> []" by simp_all
    with mem(8) have "jget p ''questions'' = Some (JArr (kept_questions params))" by simp
    with k base e True guard_questions [OF assms(2)] show ?thesis
      by (simp add: event_payload_ok_def isTurnInteractionRequestPayloadForEvent_def has_Some guard_simps kept_questions_def)
  next
    case False
    with kind have k: "kind = ''approval''" by simp
    from mem(12) [OF this] obtain ds where ds: "jget p ''available_decisions'' = Some (JArr ds)" "ds \<noteq> []"
        "\<forall>d \<in> set ds. valid_decision d" by blast
    have "available_approval_decisions_from_request params = Some (JArr ds)"
      using payload_decisions [OF p [unfolded k]] ds(1) by simp
    then have "no_bom d" if "d \<in> set ds" for d using no_bom_available [OF assms(2)] that by blast
    with ds have "list_all isTurnInteractionApprovalDecision ds" by (simp add: list_all_iff guard_decision)
    with ds k base e False show ?thesis
      by (simp add: event_payload_ok_def isTurnInteractionRequestPayloadForEvent_def has_Some guard_simps)
  qed
qed

end
