(* ===== verification/Protocol_Claims.thy ===== *)
theory Protocol_Claims
  imports Protocol_Interaction Inventory_Claims
begin

text \<open>
  The connector against the worker's guards: which of its messages the control plane
  recognises, what the reply means to the connector, and which requests the connector can read;
  with witnesses.
\<close>

subsection \<open>Lemmas\<close>

lemma no_floats_session: "no_floats (host_session_json s)"
  unfolding host_session_json_def
  by (rule no_floats_jobj) (cases "hs_title_source s", auto simp: opt_entry_def split: option.splits)

lemma no_floats_report: "no_floats (report_json r)"
  unfolding report_json_def
  by (rule no_floats_jobj) (cases "hr_inventory_scope r", auto simp: opt_entry_def no_floats_session split: option.splits)

lemma no_floats_ready: "no_floats (agent_ready_json caps)"
  unfolding agent_ready_json_def by (intro no_floats_jobj) (auto intro!: no_floats_jobj)

lemma read_back: "exact_text sd \<Longrightarrow> no_floats v \<Longrightarrow> js_parse sd (js_print sd v) = Inr v"
  by (simp add: exact_text_def)

lemma map_filter_as_str: "List.map_filter as_str (map JStr xs) = xs"
  by (induction xs) (simp_all add: map_filter_def)

text \<open>Text with a visible ASCII character that is not blank anywhere.\<close>

lemma visible_shown:
  assumes "\<not> is_cont c" and "\<And>g. \<not> js_is_ws (c # g)"
  shows "js_trim (a @ c # b) \<noteq> []"
proof -
  have "rchars (a @ c # b) = rchars a @ rchars (c # b)" using assms(1) by (simp add: rchars_append)
  then show ?thesis using assms(2) by (simp add: js_trim_empty_iff)
qed

lemma visible_chars:
  "c \<in> set ''-rh'' \<Longrightarrow> \<not> js_is_ws (c # g)" "c \<in> set ''-rh'' \<Longrightarrow> \<not> is_cont c"
  by (auto simp: js_is_ws_def js_byte_order_mark_def is_ws_def whitespace_chars_def)

lemma shown_texts:
  "js_trim (a @ CHR '' '' # CHR ''-'' # b) \<noteq> []" "js_trim (CHR ''r'' # b) \<noteq> []" "js_trim (CHR ''h'' # b) \<noteq> []"
  using visible_shown [of "CHR ''-''" "a @ '' ''" b] visible_shown [of "CHR ''r''" "[]" b]
    visible_shown [of "CHR ''h''" "[]" b] visible_chars
  by simp_all

lemma agent_ready_reply_object:
  "agent_ready_reply (Some (jobj kvs)) =
     (if \<not> isAgentReadyPayload (jobj kvs) then ReplyError ''Invalid agent.ready payload''
      else ReplyAck (jobj ((''kind'', JStr ''agent.ready'')
             # opt_entry ''capabilities'' (\<lambda>v. v) (jget (jobj kvs) ''capabilities''))))"
  by (simp add: agent_ready_reply_def jobj_def)

definition demo_answers :: worker_answers where
  "demo_answers = \<lparr> wa_refresh_allowed = True, wa_blocked = None, wa_accepted = True, wa_count = 3,
     wa_synced_at = ''now'', wa_deduped = False \<rparr>"

lemma demo_exact: "exact_text demo_wire"
  by (simp add: exact_text_def demo_wire_def demo_round_trip)

subsection \<open>Reports\<close>

text \<open>
  The report of the host sessions is always understood. Whatever the inventory found, or with
  the fallback report when it failed, the worker's guard accepts the message as read back, and
  its reply, also when the safety policy refuses the refresh, is one the connector takes as the
  acknowledgement of its last report.
\<close>
theorem host_sessions_are_acknowledged:
  assumes "exact_text sd"
  shows "\<exists>env. reply_envelope (agent_message_reply a (host_sessions_message_with_scope sd c built scope)
        (js_parse sd (host_sessions_message_with_scope sd c built scope))) = Some env
    \<and> host_sessions_ack_message env"
proof -
  obtain r where r: "host_sessions_message_with_scope sd c built scope
      = js_print sd (jobj [(''kind'', JStr ''agent.host_sessions''), (''payload'', report_json r)])"
    by (auto simp: host_sessions_message_with_scope_def Let_def)
  have "no_floats (jobj [(''kind'', JStr ''agent.host_sessions''), (''payload'', report_json r)])"
    by (intro no_floats_jobj) (auto simp: no_floats_report)
  from read_back [OF assms this] show ?thesis
    by (simp add: r agent_message_reply_def parseMessage_def guard_simps guard_report Let_def host_sessions_reply_def
        reply_envelope_def host_sessions_ack_message_def acks_def jget_str_def)
qed

theorem host_sessions_are_acknowledged_witness:
  "\<exists>env. reply_envelope (agent_message_reply demo_answers
        (host_sessions_message_with_scope demo_wire demo_config (Inr demo_report) None)
        (js_parse demo_wire (host_sessions_message_with_scope demo_wire demo_config (Inr demo_report) None))) = Some env
    \<and> host_sessions_ack_message env"
  by (rule host_sessions_are_acknowledged [OF demo_exact])

text \<open>
  The capabilities come back as they were sent. The worker accepts every \<open>agent.ready\<close> message
  and echoes its capabilities; from the echo the connector rebuilds the very text it sent, so
  it does not send it again of its own accord at any later time.
\<close>
theorem capabilities_round_trip:
  assumes "exact_text sd"
  shows "\<exists>env. reply_envelope (agent_message_reply a (agent_ready_message sd caps)
        (js_parse sd (agent_ready_message sd caps))) = Some env
    \<and> agent_ready_ack_message sd env = Some (agent_ready_message sd caps)
    \<and> \<not> should_send_agent_ready (agent_ready_message sd caps)
        (acknowledge_agent_ready st (agent_ready_message sd caps)) False t"
proof -
  let ?p = "jobj [(''capabilities'', JArr (map JStr caps))]"
  let ?message = "jobj [(''kind'', JStr ''agent.ready''), (''payload'', ?p)]"
  have "agent_ready_reply (Some ?p) = ReplyAck (jobj [(''kind'', JStr ''agent.ready''),
      (''capabilities'', JArr (map JStr caps))])"
    using guard_ready [of caps] by (simp add: agent_ready_reply_object)
  then have "agent_message_reply a t (Inr ?message) = ReplyAck (jobj [(''kind'', JStr ''agent.ready''),
      (''capabilities'', JArr (map JStr caps))])" for t
    by (simp add: agent_message_reply_def parseMessage_def guard_simps Let_def)
  moreover have "js_parse sd (js_print sd ?message) = Inr ?message"
    using read_back [OF assms no_floats_ready [of caps]] by (simp add: agent_ready_json_def)
  ultimately show ?thesis
    by (simp add: agent_ready_message_def agent_ready_json_def reply_envelope_def agent_ready_ack_message_def acks_def
        jget_str_def jget_array_def map_filter_as_str should_send_agent_ready_def acknowledge_agent_ready_def)
qed

theorem capabilities_round_trip_witness:
  "\<exists>env. agent_ready_ack_message demo_wire env = Some (agent_ready_message demo_wire [''codex'', ''shell''])"
  using capabilities_round_trip [OF demo_exact, of demo_answers "[''codex'', ''shell'']"] by blast

text \<open>Every instance the manager reports has the key, scope, type and state the guard knows.\<close>

lemma snapshot_well_formed:
  "run_state (instance_snapshot c) w = (Some i, w') \<Longrightarrow> instance_well_formed i"
  by (auto simp: instance_snapshot_def instance_well_formed_def whenS_def split: if_splits prod.splits)

definition instances_text :: "('a serde_scheme) \<Rightarrow> app_server_instance_snapshot \<Rightarrow> bool \<Rightarrow> nat \<Rightarrow> string" where
  "instances_text sd i snapshot n =
     js_print sd (jobj [(''kind'', JStr ''agent.app_server_instances''),
       (''payload'', jobj [(''snapshot'', JBool snapshot), (''instances'', JArr [instance_json i]),
                           (''report_id'', JStr (report_id_text n))])])"

lemma report_id_fits: "n \<le> u64_max \<Longrightarrow> js_length (report_id_text n) \<le> 128"
  using length_show_nat [of 20 n] by (simp add: js_length_report_id u64_max_def)

lemma report_id_nonempty: "report_id_text n \<noteq> []" by (simp add: report_id_text_def)

text \<open>
  C29: An instance report is acknowledged under its own id exactly when it is in bounds: at most a
  million active turns, at most a billion generations, and a summary and an error that are not
  empty and, cut to 512 characters by the connector, have at most 512 UTF-16 units. Otherwise
  the worker answers with an error, which acknowledges nothing. The guard's other conditions (the
  key, the scope, the endpoint type, the state and the length of the id) always hold.
\<close>
theorem instance_report_verdict:
  assumes "exact_text sd" and "run_state (instance_snapshot c) w = (Some i, w')" and "n \<le> u64_max"
  shows "\<exists>env. reply_envelope (agent_message_reply a (instances_text sd i snapshot n)
        (js_parse sd (instances_text sd i snapshot n))) = Some env
    \<and> app_server_instances_ack_message env
        = (if instance_in_bounds i then Some (Some (report_id_text n)) else None)"
proof -
  let ?p = "jobj [(''snapshot'', JBool snapshot), (''instances'', JArr [instance_json i]),
                  (''report_id'', JStr (report_id_text n))]"
  let ?v = "jobj [(''kind'', JStr ''agent.app_server_instances''), (''payload'', ?p)]"
  have "no_floats ?v" by (intro no_floats_jobj) (auto intro!: no_floats_jobj simp: no_floats_instance)
  then have read: "js_parse sd (instances_text sd i snapshot n) = Inr ?v"
    by (simp add: instances_text_def read_back [OF assms(1)])
  have guard: "isAgentAppServerInstancesReport ?p \<longleftrightarrow> instance_in_bounds i"
    using guard_instance [OF snapshot_well_formed [OF assms(2)]] report_id_fits [OF assms(3)] report_id_nonempty
    by (simp add: isAgentAppServerInstancesReport_def guard_simps)
  show ?thesis
    by (simp add: read agent_message_reply_def parseMessage_def guard_simps guard Let_def app_server_instances_reply_def
        reply_envelope_def app_server_instances_ack_message_def acks_def jget_str_def map_add_def split: option.split)
qed

theorem instance_report_verdict_witness:
  "\<exists>i env. app_server_instances_ack_message env = Some (Some ''app-server-report-1'') \<and> instance_in_bounds i"
proof -
  let ?w = "k_mgr (demo_conn demo_wire [] WorkerBusy)"
  obtain i m' where i: "run_state (instance_snapshot demo_config) ?w = (Some i, m')"
    by (simp add: instance_snapshot_def demo_conn_def demo_defs Let_def)
  have bound: "(1 :: nat) \<le> u64_max" by (simp add: u64_max_def)
  have "map_option instance_in_bounds (fst (run_state (instance_snapshot demo_config) ?w)) = Some True"
    by code_simp
  with i have "instance_in_bounds i" by simp
  moreover have "report_id_text 1 = ''app-server-report-1''" by code_simp
  ultimately show ?thesis
    using instance_report_verdict [OF demo_exact i bound, of demo_answers False] by auto
qed

subsection \<open>Answers to requests\<close>

lemmas reply_simps = agent_message_reply_def parseMessage_def request_result_json_def map_ok_def succeeded_def guard_simps
  Let_def result_reply_def

lemma create_result_reply:
  "agent_message_reply a t (Inr (request_result_json ''thread.create_result'' request_id
       (map_ok (\<lambda>s. [(''session'', host_session_json s)]) r)))
     = ReplyAck (jobj [(''kind'', JStr ''thread.create_result''), (''request_id'', JStr request_id)])"
  by (cases r) (simp_all add: reply_simps isLocalThreadCreateResult_def guard_host_session)

lemma ensure_result_reply:
  "agent_message_reply a t (Inr (request_result_json ''host_session.app_server_ensure_result'' request_id
       (map_ok (\<lambda>s. [(''session'', host_session_json s)]) r)))
     = ReplyAck (jobj [(''kind'', JStr ''host_session.app_server_ensure_result''), (''request_id'', JStr request_id)])"
  by (cases r) (simp_all add: reply_simps isHostSessionAppServerEnsureResult_def guard_host_session)

lemma archive_result_reply:
  "agent_message_reply a t (Inr (request_result_json ''thread.archive_sync_result'' request_id
       (map_ok (\<lambda>s. [(''synced'', JBool s)]) r)))
     = ReplyAck (jobj [(''kind'', JStr ''thread.archive_sync_result''), (''request_id'', JStr request_id)])"
  by (cases r) (simp_all add: reply_simps isThreadArchiveSyncResult_def)

text \<open>
  The answers to a request to create a thread, to attach a session to the app-server and to
  archive a thread are always understood, whether the request succeeded or not: the worker's
  guard accepts them and acknowledges them by their kind and request id.
\<close>
theorem request_results_are_recognised:
  "agent_message_reply a t (Inr (request_result_json ''thread.create_result'' request_id
       (map_ok (\<lambda>s. [(''session'', host_session_json s)]) created)))
     = ReplyAck (jobj [(''kind'', JStr ''thread.create_result''), (''request_id'', JStr request_id)])
   \<and> agent_message_reply a t (Inr (request_result_json ''host_session.app_server_ensure_result'' request_id
       (map_ok (\<lambda>s. [(''session'', host_session_json s)]) ensured)))
     = ReplyAck (jobj [(''kind'', JStr ''host_session.app_server_ensure_result''), (''request_id'', JStr request_id)])
   \<and> agent_message_reply a t (Inr (request_result_json ''thread.archive_sync_result'' request_id
       (map_ok (\<lambda>s. [(''synced'', JBool s)]) archived)))
     = ReplyAck (jobj [(''kind'', JStr ''thread.archive_sync_result''), (''request_id'', JStr request_id)])"
  by (intro conjI create_result_reply ensure_result_reply archive_result_reply)

lemma output_in_bounds:
  "backfill_event_in_bounds \<lparr> be_kind = ''command.output'', be_priority = ''P3'', be_summary = summary,
     be_idempotency_key = key, be_created_at = created_at \<rparr>
   \<longleftrightarrow> js_trim summary \<noteq> [] \<and> js_trim key \<noteq> [] \<and> js_trim created_at \<noteq> []"
  by (simp add: backfill_event_in_bounds_def isThreadEventKind_def guard_simps priorities_def)

lemma backfill_events_bounds:
  assumes "build_host_session_backfill fuel d si session_id limit = Some (Inr b)" and "e \<in> set (hb_events b)"
  shows "backfill_event_in_bounds e \<longleftrightarrow> js_trim (be_created_at e) \<noteq> []"
proof -
  have rollout: "backfill_event_in_bounds e' \<longleftrightarrow> js_trim (be_created_at e') \<noteq> []"
    if "backfill_event_from_rollout_record sid v h = Some e'" for sid v h e'
    using that
    by (auto simp: shown_texts backfill_event_from_rollout_record_def backfill_summary_def output_in_bounds Let_def
        bind_eq_Some_conv split: if_splits)
  have history: "backfill_event_in_bounds e' \<longleftrightarrow> js_trim (be_created_at e') \<noteq> []"
    if "history_line_event d sid line = Some e'" for sid line e'
    using that
    by (auto simp: shown_texts history_line_event_def output_in_bounds Let_def bind_eq_Some_conv split: if_splits)
  have last: "x \<in> set xs" if "x \<in> set (last_n n xs)" for x n and xs :: "agent_backfill_event list"
    using that by (auto simp: last_n_def dest: in_set_dropD)
  from assms obtain l path where "read_rollout_backfill d path session_id l = Inr b
      \<or> read_history_backfill d (codex_home_of d si) session_id l (si_max_sessions si) = Inr b"
    by (auto simp: build_host_session_backfill_def Let_def tryR_Inr split: if_splits option.splits)
  then have "(\<exists>v h. backfill_event_from_rollout_record session_id v h = Some e)
      \<or> (\<exists>line. history_line_event d session_id line = Some e)"
  proof
    assume "read_rollout_backfill d path session_id l = Inr b"
    with assms(2) show ?thesis
      by (auto simp: read_rollout_backfill_def tryR_Inr Let_def set_map_filter rollout_line_event_def bind_eq_Some_conv
          dest!: last) blast
  next
    assume "read_history_backfill d (codex_home_of d si) session_id l (si_max_sessions si) = Inr b"
    with assms(2) show ?thesis
      by (auto simp: read_history_backfill_def tryR_Inr Let_def set_map_filter split: if_splits dest!: last)
  qed
  then show ?thesis using rollout history by blast
qed

text \<open>
  The answer to a backfill is understood exactly when every event in it has a time that is not
  blank, and then acknowledged by its request id. The kind, the priority, the summary and the
  idempotency key of an event never stand in the way; an event of a rollout carries the
  \<open>timestamp\<close> of its record as it is, and one blank \<open>timestamp\<close> makes the worker take the whole
  answer for an unknown message.
\<close>
theorem backfill_result_recognised_iff:
  assumes "build_host_session_backfill fuel d si session_id limit = Some (Inr b)"
  shows "agent_message_reply a t (Inr (request_result_json ''host_session.backfill_result'' request_id
       (Inr [(''events'', JArr (map backfill_event_json (hb_events b))), (''truncated'', JBool (hb_truncated b))])))
     = (if list_all (\<lambda>e. js_trim (be_created_at e) \<noteq> []) (hb_events b)
        then ReplyAck (jobj [(''kind'', JStr ''host_session.backfill_result''), (''request_id'', JStr request_id)])
        else ReplyAck (jobj [(''received'', JNum (PosInt (js_length t)))]))"
proof -
  have "list_all isAgentBackfillEvent (map backfill_event_json (hb_events b))
      \<longleftrightarrow> list_all (\<lambda>e. js_trim (be_created_at e) \<noteq> []) (hb_events b)"
    using backfill_events_bounds [OF assms] by (auto simp: list_all_iff guard_backfill_event)
  then show ?thesis
    by (auto simp: agent_message_reply_def parseMessage_def request_result_json_def succeeded_def guard_simps
        isHostSessionBackfillResult_def Let_def result_reply_def)
qed

theorem backfill_result_recognised_iff_witness:
  "agent_message_reply demo_answers ''...'' (Inr (request_result_json ''host_session.backfill_result'' ''q1''
       (Inr [(''events'', JArr (map backfill_event_json (hb_events demo_backfill))),
             (''truncated'', JBool (hb_truncated demo_backfill))])))
     = ReplyAck (jobj [(''kind'', JStr ''host_session.backfill_result''), (''request_id'', JStr ''q1'')])"
proof -
  have "js_trim ''1970-01-01T00:00:00.000Z'' \<noteq> []" by code_simp
  then have "list_all (\<lambda>e. js_trim (be_created_at e) \<noteq> []) (hb_events demo_backfill)"
    by (simp add: demo_backfill_def)
  with backfill_result_recognised_iff [OF demo_backfill_built, of demo_answers "''...''" "''q1''"] show ?thesis
    by (simp only: if_True)
qed

subsection \<open>Requests to the connector\<close>

lemma has_cases:
  "has v k p \<longleftrightarrow> (\<exists>m x. v = JObj m \<and> map_of m k = Some x \<and> p x)"
  by (cases v) (auto simp: has_def jget_def split: option.splits)

lemma may_have_object: "may_have (JObj m) k p \<longleftrightarrow> (\<forall>x. map_of m k = Some x \<longrightarrow> p x)"
  by (auto simp: may_have_def jget_def split: option.splits)

lemma js_kind_cases:
  "is_js_string x \<longleftrightarrow> (\<exists>s. x = JStr s)" "is_js_boolean x \<longleftrightarrow> (\<exists>b. x = JBool b)" "is_js_number x \<longleftrightarrow> (\<exists>n. x = JNum n)"
  "is_nonempty_string x \<longleftrightarrow> (\<exists>s. x = JStr s \<and> s \<noteq> [])" "is_nonblank_string x \<longleftrightarrow> (\<exists>s. x = JStr s \<and> js_trim s \<noteq> [])"
  by (cases x; simp add: is_js_string_def is_js_boolean_def is_js_number_def is_nonempty_string_def is_nonblank_string_def)+

lemma optional_string:
  "\<forall>x. o' = Some x \<longrightarrow> (\<exists>s. x = JStr s) \<Longrightarrow> optional as_str o' = Some (Option.bind o' as_str)"
  by (cases o') (auto simp: optional_def)

lemma optional_number:
  "\<forall>x. o' = Some x \<longrightarrow> (\<exists>n. x = JNum n) \<Longrightarrow>
     optional as_u64 o' = (case o' of None \<Rightarrow> Some None | Some x \<Rightarrow> map_option Some (as_u64 x))"
  by (cases o') (auto simp: optional_def)

lemmas dispatch_simps = struct_fields_def required_def optional_string optional_number jget_str_def jget_bool_def jget_def
  as_bool_def

text \<open>
  C30: What the worker sends, the connector reads. Every payload the worker's guards let through for
  a thread to create, a session to attach and a thread to archive is decoded, with the request
  id, the session id and the options as they were sent; that for a backfill is decoded exactly
  when its limit is missing or a non-negative integer, although the guard lets any number pass.
\<close>
theorem dispatches_decode:
  "(isLocalThreadCreateDispatch v \<longrightarrow>
      (\<exists>d. thread_create_of v = Some d \<and> jget_str v ''request_id'' = Some (tc_request_id d) \<and> tc_title d = jget_str v ''title''))
   \<and> (isHostSessionAppServerEnsureDispatch v \<longrightarrow>
      (\<exists>d. ensure_dispatch_of v = Some d \<and> jget_str v ''request_id'' = Some (he_request_id d)
         \<and> jget_str v ''session_id'' = Some (he_session_id d)
         \<and> he_title d = jget_str v ''title'' \<and> he_cwd d = jget_str v ''cwd''))
   \<and> (isThreadArchiveSyncDispatch v \<longrightarrow>
      (\<exists>d. archive_dispatch_of v = Some d \<and> jget_str v ''request_id'' = Some (ta_request_id d)
         \<and> jget_str v ''session_id'' = Some (ta_session_id d) \<and> jget_bool v ''archived'' = Some (ta_archived d)))
   \<and> (isHostSessionBackfillDispatch v \<longrightarrow>
      (backfill_dispatch_of v \<noteq> None \<longleftrightarrow> jget v ''limit'' = None \<or> Option.bind (jget v ''limit'') as_u64 \<noteq> None))"
proof (intro conjI impI)
  assume "isLocalThreadCreateDispatch v"
  then obtain m r where "v = JObj m" "map_of m ''request_id'' = Some (JStr r)"
      "\<forall>x. map_of m ''title'' = Some x \<longrightarrow> (\<exists>s. x = JStr s)"
    by (auto simp: isLocalThreadCreateDispatch_def has_cases may_have_object js_kind_cases) blast
  then show "\<exists>d. thread_create_of v = Some d \<and> jget_str v ''request_id'' = Some (tc_request_id d)
      \<and> tc_title d = jget_str v ''title''"
    by (simp add: thread_create_of_def dispatch_simps)
next
  assume "isHostSessionAppServerEnsureDispatch v"
  then obtain m r s where "v = JObj m" "map_of m ''request_id'' = Some (JStr r)" "map_of m ''session_id'' = Some (JStr s)"
      "\<forall>x. map_of m ''title'' = Some x \<longrightarrow> (\<exists>s. x = JStr s)" "\<forall>x. map_of m ''cwd'' = Some x \<longrightarrow> (\<exists>s. x = JStr s)"
    by (auto simp: isHostSessionAppServerEnsureDispatch_def has_cases may_have_object js_kind_cases)
  then show "\<exists>d. ensure_dispatch_of v = Some d \<and> jget_str v ''request_id'' = Some (he_request_id d)
         \<and> jget_str v ''session_id'' = Some (he_session_id d)
         \<and> he_title d = jget_str v ''title'' \<and> he_cwd d = jget_str v ''cwd''"
    by (simp add: ensure_dispatch_of_def dispatch_simps)
next
  assume "isThreadArchiveSyncDispatch v"
  then obtain m r s b where "v = JObj m" "map_of m ''request_id'' = Some (JStr r)" "map_of m ''session_id'' = Some (JStr s)"
      "map_of m ''archived'' = Some (JBool b)"
    by (auto simp: isThreadArchiveSyncDispatch_def has_cases js_kind_cases)
  then show "\<exists>d. archive_dispatch_of v = Some d \<and> jget_str v ''request_id'' = Some (ta_request_id d)
         \<and> jget_str v ''session_id'' = Some (ta_session_id d) \<and> jget_bool v ''archived'' = Some (ta_archived d)"
    by (simp add: archive_dispatch_of_def dispatch_simps)
next
  assume "isHostSessionBackfillDispatch v"
  then obtain m r s where "v = JObj m" "map_of m ''request_id'' = Some (JStr r)" "map_of m ''session_id'' = Some (JStr s)"
      "\<forall>x. map_of m ''limit'' = Some x \<longrightarrow> (\<exists>n. x = JNum n)"
    by (auto simp: isHostSessionBackfillDispatch_def has_cases may_have_object js_kind_cases)
  then show "backfill_dispatch_of v \<noteq> None \<longleftrightarrow> jget v ''limit'' = None \<or> Option.bind (jget v ''limit'') as_u64 \<noteq> None"
    by (cases "map_of m ''limit''"; cases "Option.bind (map_of m ''limit'') as_u64")
      (simp_all add: backfill_dispatch_of_def dispatch_simps)
qed

definition demo_dispatch :: json where
  "demo_dispatch =
     jobj [(''request_id'', JStr ''q1''), (''workspace_id'', JStr ''w1''), (''session_id'', JStr ''s1''),
           (''title'', JStr ''Fix it''), (''archived'', JBool True), (''limit'', JNum (PosInt 30))]"

theorem dispatches_decode_witness:
  "thread_create_of demo_dispatch \<noteq> None \<and> ensure_dispatch_of demo_dispatch \<noteq> None
   \<and> archive_dispatch_of demo_dispatch \<noteq> None \<and> backfill_dispatch_of demo_dispatch \<noteq> None"
proof -
  have "isLocalThreadCreateDispatch demo_dispatch" "isHostSessionAppServerEnsureDispatch demo_dispatch"
    "isThreadArchiveSyncDispatch demo_dispatch" "isHostSessionBackfillDispatch demo_dispatch"
    "Option.bind (jget demo_dispatch ''limit'') as_u64 \<noteq> None"
    by code_simp+
  with dispatches_decode [of demo_dispatch] show ?thesis by blast
qed

subsection \<open>Turn interactions\<close>

text \<open>
  C12: The worker's verdict on a request for the user's approval or input. The request the connector
  makes of the app-server's is answered with an acknowledgement that the connector's wait
  matches, and it is accepted exactly when the worker recorded it and every label offered is
  visible: the connector drops a question whose id, header or text is blank, but keeps an option
  whose label is blank, and the worker then refuses the whole request as malformed. An approval
  request is never refused for its content. (For texts without a byte order mark, which only
  JavaScript trims, and a thread and a turn with ids that are not blank.)
\<close>
theorem interaction_request_verdict:
  assumes "turn_interaction_event sd m request_id params = Inr e"
    and "no_bom params" and "prints_arrays sd"
    and "pred_option nonblank (jget_str params ''threadId'')" and "pred_option nonblank (jget_str params ''turnId'')"
  shows "\<exists>env. reply_envelope (agent_message_reply a t (Inr (agent_event_message command e target))) = Some env
    \<and> classify_ack_wait_envelope env (cp_id command) (ev_kind e)
        = AckMatched ((m \<noteq> method_user_input \<or> list_all (\<lambda>l. js_trim l \<noteq> []) (offered_labels params))
                      \<and> wa_blocked a = None \<and> wa_accepted a)"
proof -
  have kind: "ev_kind e \<in> set interaction_kinds \<and> ev_kind e \<notin> set command_kinds"
    and priority: "ev_priority e \<in> set priorities"
    using event_parts [OF assms(1)]
    by (auto simp: interaction_kinds_def command_kinds_def priorities_def split: if_splits)
  have "event_verdict a e \<longleftrightarrow> (m \<noteq> method_user_input \<or> list_all (\<lambda>l. js_trim l \<noteq> []) (offered_labels params))
      \<and> wa_blocked a = None \<and> wa_accepted a"
    using kind priority by (simp add: event_verdict_def request_guard [OF assms])
  with event_reply_matches [of e a t command target] kind show ?thesis by simp
qed

definition bracket_wire :: wire where
  "bracket_wire = demo_wire\<lparr> js_print := (\<lambda>_. ''[1]'') \<rparr>"

definition demo_input_request :: "string \<Rightarrow> json" where
  "demo_input_request label =
     jobj [(''threadId'', JStr ''t1''), (''turnId'', JStr ''u1''), (''itemId'', JStr ''i1''),
           (''questions'', JArr [jobj [(''id'', JStr ''q''), (''header'', JStr ''H''), (''question'', JStr ''Why?''),
              (''options'', JArr [jobj [(''label'', JStr label), (''description'', JStr [])]])]])]"

definition demo_input_event :: "string \<Rightarrow> connector_event" where
  "demo_input_event label =
     (case turn_interaction_event bracket_wire method_user_input (JNum (PosInt 7)) (demo_input_request label) of
        Inr e \<Rightarrow> e | Inl m \<Rightarrow> plain_event [] [] m)"

theorem interaction_request_verdict_witness:
  "\<exists>env. classify_ack_wait_envelope env ''c1'' ''input.requested'' = AckMatched False
     \<and> reply_envelope (agent_message_reply demo_answers ''...''
         (Inr (agent_event_message \<lparr> cp_id = ''c1'', cp_command_type = CmdCodex, cp_prompt = [] \<rparr>
                 (demo_input_event '' '') None))) = Some env"
proof -
  let ?params = "demo_input_request '' ''" and ?c = "\<lparr> cp_id = ''c1'', cp_command_type = CmdCodex, cp_prompt = [] \<rparr>"
  have event: "turn_interaction_event bracket_wire method_user_input (JNum (PosInt 7)) ?params = Inr (demo_input_event '' '')"
    by code_simp
  have kind: "ev_kind (demo_input_event '' '') = ''input.requested''" by code_simp
  have bom: "no_bom ?params" by code_simp
  have arrays: "prints_arrays bracket_wire" by (simp add: prints_arrays_def bracket_wire_def)
  have ids: "pred_option nonblank (jget_str ?params ''threadId'')" "pred_option nonblank (jget_str ?params ''turnId'')"
    by (simp_all add: demo_input_request_def jget_str_def nonblank_def) (code_simp+)
  have "\<not> list_all (\<lambda>l. js_trim l \<noteq> []) (offered_labels ?params)" by code_simp
  with interaction_request_verdict [OF event bom arrays ids, of demo_answers "''...''" ?c None] kind show ?thesis by auto
qed

definition known_statuses :: "string list" where
  "known_statuses = [''accepted'', ''accepted_for_session'', ''accepted_with_execpolicy_amendment'', ''declined'', ''cancelled'']"

lemma status_known: "approval_resolution_status decision \<in> set known_statuses"
  by (simp add: approval_resolution_status_def known_statuses_def)

lemma guard_input_resolution:
  "isTurnInteractionResolutionPayloadForEvent (jobj [(''type'', JStr ''turn_interaction_resolution''),
      (''interaction_id'', JStr i), (''status'', JStr ''answered''), (''answer_count'', JNum (PosInt n))])
      (JStr ''input.received'') \<longleftrightarrow> js_trim i \<noteq> [] \<and> n \<le> 1000"
  by (simp add: isTurnInteractionResolutionPayloadForEvent_def guard_simps)

lemma guard_approval_resolution:
  "status \<in> set known_statuses \<Longrightarrow>
   isTurnInteractionResolutionPayloadForEvent (jobj [(''type'', JStr ''turn_interaction_resolution''),
      (''interaction_id'', JStr i), (''status'', JStr status), (''decision'', decision)])
      (JStr ''approval.resolved'') \<longleftrightarrow> js_trim i \<noteq> [] \<and> isTurnInteractionApprovalDecision decision"
  by (simp add: isTurnInteractionResolutionPayloadForEvent_def has_jobj js_kinds(1,2,10) one_of_def known_statuses_def)

text \<open>
  The worker's verdict on the resolution of an interaction. Its event is acknowledged too, and
  accepted exactly when it was recorded, its interaction id is not blank, and it has at most a
  thousand answers or a decision the worker knows; the status the connector gives an approval is
  always one the worker knows. So an input the connector resolves by itself, which has no
  answers, is never refused for its content.
\<close>
theorem resolution_verdict:
  assumes "turn_interaction_resolution_event d request_payload = Inr e"
  shows "\<exists>env. reply_envelope (agent_message_reply a t (Inr (agent_event_message command e target))) = Some env
    \<and> classify_ack_wait_envelope env (cp_id command) (ev_kind e)
        = AckMatched (js_trim (ti_interaction_id d) \<noteq> []
            \<and> (case ti_response d of Input answers \<Rightarrow> length answers \<le> 1000
               | Approval decision \<Rightarrow> isTurnInteractionApprovalDecision decision)
            \<and> wa_blocked a = None \<and> wa_accepted a)"
proof -
  have "ev_kind e \<in> {''input.received'', ''approval.resolved''}" "ev_priority e = ''P1''"
    using assms
    by (cases request_payload; cases "ti_response d"; force simp: turn_interaction_resolution_event_def Let_def)+
  then have kind: "ev_kind e \<in> set interaction_kinds \<and> ev_kind e \<notin> set command_kinds"
    and priority: "ev_priority e \<in> set priorities"
    by (auto simp: interaction_kinds_def command_kinds_def priorities_def)
  have "event_payload_ok e \<longleftrightarrow> js_trim (ti_interaction_id d) \<noteq> []
            \<and> (case ti_response d of Input answers \<Rightarrow> length answers \<le> 1000
               | Approval decision \<Rightarrow> isTurnInteractionApprovalDecision decision)"
    using assms
    by (cases request_payload; cases "ti_response d")
      (auto simp: turn_interaction_resolution_event_def event_payload_ok_def Let_def guard_input_resolution
        guard_approval_resolution status_known)
  then have "event_verdict a e \<longleftrightarrow> js_trim (ti_interaction_id d) \<noteq> []
            \<and> (case ti_response d of Input answers \<Rightarrow> length answers \<le> 1000
               | Approval decision \<Rightarrow> isTurnInteractionApprovalDecision decision)
            \<and> wa_blocked a = None \<and> wa_accepted a"
    using kind priority by (simp add: event_verdict_def)
  with event_reply_matches [of e a t command target] kind show ?thesis by simp
qed

theorem resolution_verdict_witness:
  "\<exists>e env. turn_interaction_resolution_event (auto_resolved_input_response ''c1'' ''i1'') (Some JNull) = Inr e
     \<and> classify_ack_wait_envelope env ''c1'' (ev_kind e) = AckMatched True"
proof -
  let ?d = "auto_resolved_input_response ''c1'' ''i1''" and ?c = "\<lparr> cp_id = ''c1'', cp_command_type = CmdCodex, cp_prompt = [] \<rparr>"
  obtain e where e: "turn_interaction_resolution_event ?d (Some JNull) = Inr e"
    by (simp add: turn_interaction_resolution_event_def auto_resolved_input_response_def Let_def)
  have "js_trim ''i1'' \<noteq> []" by code_simp
  with resolution_verdict [OF e, of demo_answers "''...''" ?c None] e show ?thesis
    by (auto simp: auto_resolved_input_response_def demo_answers_def)
qed

end
