(* ===== verification/Worker_Events.thy ===== *)
theory Worker_Events
  imports App_Server_Claims App_Server_Turns Executor_Claims Protocol_Facts
begin

text \<open>
  What a worker thread hands to the connector: its result is what one of the two workers of the
  code returns, and the events on the way are those a run of the app-server command sends, all
  of them of turn interactions.
\<close>

subsection \<open>The actions of a command\<close>

definition action_known :: "rpc_action \<Rightarrow> bool" where
  "action_known a \<longleftrightarrow> (\<forall>e. a = REvent e \<longrightarrow> ev_kind e \<in> set interaction_kinds)"

lemma action_known_simps [simp]:
  "action_known (RSend v s)" "action_known (RRead r)" "action_known (RTimeout d)" "action_known (RHandshake u h)"
  "action_known (RConnectTcp p d)" "action_known (RConnectUnix u)" "action_known (RAck dispatch b)"
  "action_known (RActive i)" "action_known (RRecv x y)"
  "action_known (REvent e) \<longleftrightarrow> ev_kind e \<in> set interaction_kinds"
  by (simp_all add: action_known_def)

lemma worker_waiting: "waiting a \<Longrightarrow> action_known a"
  by (auto simp: waiting_def)

lemma keeps_pure_try: "(\<And>x. r = Inr x \<Longrightarrow> rl.keeps P (f x)) \<Longrightarrow> rl.keeps P (tryE (rresult r) f)"
  by (cases r) (auto intro!: rl.keepsI simp: rl.R_refl rl.keepsD)

text \<open>The kinds of the two events a turn interaction makes.\<close>

lemma request_event_kind: "turn_interaction_event sd m request_id params = Inr e \<Longrightarrow> ev_kind e \<in> set interaction_kinds"
  by (auto simp: turn_interaction_event_def interaction_event_def interaction_kinds_def Let_def
      split: if_splits sum.splits)

lemma resolution_event_kind: "turn_interaction_resolution_event d p = Inr e \<Longrightarrow> ev_kind e \<in> set interaction_kinds"
  by (cases p; cases "ti_response d") (auto simp: turn_interaction_resolution_event_def interaction_kinds_def Let_def)

lemmas worker_intros = log_intros keeps_acknowledge keeps_set_active keeps_auto_deadline keeps_receive keeps_send_event

lemma worker_answers_request: "rl.keeps action_known (answer_turn_request request_id m params p x)"
  unfolding answer_turn_request_def
  by (intro worker_intros keeps_pure_try) (auto dest: resolution_event_kind)

lemma worker_awaits: "ev_kind event \<in> set interaction_kinds \<Longrightarrow>
    rl.keeps action_known (await_decision fuel m params command_id event interaction_id l)"
  unfolding await_decision_def by (intro worker_intros) simp_all

lemma worker_interrupts: "rl.keeps action_known (send_app_server_turn_interrupt i thread_id turn_id)"
  unfolding send_app_server_turn_interrupt_def by (intro worker_intros) simp

lemma worker_fault_case:
  "rl.keeps P c \<Longrightarrow> (\<And>s. rl.keeps P (t s)) \<Longrightarrow> (\<And>e. rl.keeps P (f e)) \<Longrightarrow> rl.keeps P p \<Longrightarrow> rl.keeps P n \<Longrightarrow>
   (\<And>x. rl.keeps P (g x)) \<Longrightarrow>
   rl.keeps P (case r of Inr x \<Rightarrow> g x | Inl RCancelled \<Rightarrow> c | Inl (RTimedOut s) \<Rightarrow> t s | Inl (RError e) \<Rightarrow> f e
     | Inl RPanic \<Rightarrow> p | Inl RFuel \<Rightarrow> n)"
  by (auto split: sum.splits rpc_fault.splits)

lemma worker_handles_request:
  "rl.keeps action_known (handle_app_server_turn_request fuel request_id m params thread_id turn_id command_id l i has_channels)"
  unfolding handle_app_server_turn_request_def
  by (intro worker_intros keeps_pure_try worker_awaits worker_answers_request worker_interrupts worker_fault_case)
    (auto dest: request_event_kind)

lemma worker_handles_message:
  "rl.keeps action_known (handle_app_server_turn_message fuel v thread_id turn_id command_id l i has_channels out)"
  unfolding handle_app_server_turn_message_def handle_turn_notification_def Let_def
  by (intro worker_intros worker_handles_request)

lemma worker_completion_round:
  "rl.keeps action_known (turn_completion_round fuel thread_id turn_id command_id l i has_channels out)"
  unfolding turn_completion_round_def
  by (intro worker_intros worker_interrupts worker_handles_message)
    (auto intro!: worker_intros worker_handles_message split: read_answer.split message.split)

lemma worker_starts_turn:
  "rl.keeps action_known (send_app_server_turn_start_for_command fuel i thread_id params l)"
  unfolding send_app_server_turn_start_for_command_def turn_start_round_def notice_interruption_def turn_start_response_def
  by (intro worker_intros worker_interrupts keeps_read_case; simp)

lemma worker_resolves: "rl.keeps action_known (resolve_app_server_thread_id_for_command fuel session_id i l)"
  unfolding resolve_app_server_thread_id_for_command_def find_app_server_thread_ids_in_pages_for_command_def
    command_page_round_def Let_def
  by (intro worker_intros keeps_request_for_command) (simp_all add: worker_waiting)

lemma worker_runs_turn:
  "rl.keeps action_known (run_turn fuel c thread_id command_id prompt cwd l i has_channels)"
  unfolding run_turn_def wait_for_app_server_turn_completion_def
  by (intro worker_intros worker_starts_turn worker_completion_round)

lemma worker_command:
  "rl.keeps action_known (run_app_server_command fuel c session_id cwd command_id prompt has_channels)"
  unfolding run_app_server_command_def initialize_app_server_connection_for_command_def plan_command_resume_def Let_def
  by (intro worker_intros keeps_connect_plain keeps_request_for_command worker_resolves worker_runs_turn)
    (simp_all add: worker_waiting)

lemma worker_result_keeps:
  "rl.keeps action_known (app_server_command_result_events_with_cancel fuel c session_id cwd command_id prompt has_channels)"
  unfolding app_server_command_result_events_with_cancel_def
  by (intro worker_intros worker_command) (auto intro!: worker_intros split: rpc_fault.split)

subsection \<open>What the connector receives\<close>

definition worker_result :: "connector_event list \<Rightarrow> bool" where
  "worker_result es \<longleftrightarrow>
     (\<exists>fuel checked read_line c workspace_root prompt w w'.
        run_state (codex_exec_result_events_with_cancel fuel checked read_line c workspace_root prompt) w = (Inr es, w'))
     \<or> (\<exists>fuel c session_id cwd command_id prompt has_channels w w'.
        run_state (app_server_command_result_events_with_cancel fuel c session_id cwd command_id prompt has_channels) w
          = (Inr es, w'))"

definition worker_event :: "connector_event \<Rightarrow> bool" where
  "worker_event e \<longleftrightarrow>
     (\<exists>fuel c session_id cwd command_id prompt has_channels w r w'.
        run_state (app_server_command_result_events_with_cancel fuel c session_id cwd command_id prompt has_channels) w
          = (r, w') \<and> a_log w = [] \<and> REvent e \<in> set (a_log w'))"

lemma worker_result_ends: "worker_result es \<Longrightarrow> well_ended es"
  unfolding worker_result_def
proof (elim disjE exE)
  fix fuel checked read_line c workspace_root prompt w w'
  assume "run_state (codex_exec_result_events_with_cancel fuel checked read_line c workspace_root prompt) w = (Inr es, w')"
  from codex_result_ends [OF this] show "well_ended es" by simp
next
  fix fuel c session_id cwd command_id prompt has_channels w w'
  assume "run_state (app_server_command_result_events_with_cancel fuel c session_id cwd command_id prompt has_channels) w
          = (Inr es, w')"
  with app_server_result_ends [of fuel c session_id cwd command_id prompt has_channels w] show "well_ended es" by simp
qed

lemma worker_event_kind: "worker_event e \<Longrightarrow> ev_kind e \<in> set interaction_kinds"
  unfolding worker_event_def
proof (elim exE conjE)
  fix fuel c session_id cwd command_id prompt has_channels w r w'
  assume run: "run_state (app_server_command_result_events_with_cancel fuel c session_id cwd command_id prompt has_channels) w
      = (r, w')" and "a_log w = []" and e: "REvent e \<in> set (a_log w')"
  with rl.keepsE [OF worker_result_keeps run] have "action_known (REvent e)" by (auto simp: logs_def)
  then show "ev_kind e \<in> set interaction_kinds" by simp
qed

end
