(* ===== verification/Protocol_Session.thy ===== *)
theory Protocol_Session
  imports Protocol_Claims Connector_Order Worker_Events
begin

text \<open>
  The connector and the worker together: every event a connector sends, in any run, is one
  whose acknowledgement the connector's own wait recognises. The events a worker thread hands
  over are outcomes of the system here; they are tied to the runs of the two workers.
\<close>

subsection \<open>Events that are answered\<close>

definition answerable :: "connector_event \<Rightarrow> bool" where
  "answerable e \<longleftrightarrow>
     ev_kind e \<in> set command_kinds \<union> set interaction_kinds
     \<and> (ev_kind e \<in> set command_kinds \<longrightarrow> ev_priority e \<in> set priorities \<and> event_payload_ok e)"

text \<open>What a dispatch is given: the event \<open>command.accepted\<close> is never sent.\<close>

definition dispatchable :: "connector_event \<Rightarrow> bool" where
  "dispatchable e \<longleftrightarrow> ev_kind e = ''command.accepted'' \<or> answerable e"

lemma answerable_dispatchable: "answerable e \<Longrightarrow> dispatchable e"
  by (simp add: dispatchable_def)

lemma plain_payload_ok: "is_plain e \<Longrightarrow> ev_kind e \<in> set command_kinds \<Longrightarrow> answerable e"
  by (auto simp: answerable_def is_plain_def event_payload_ok_def command_kinds_def priorities_def)

lemma answerable_plain [simp]:
  "k \<in> set command_kinds \<Longrightarrow> p \<in> {''P1'', ''P2'', ''P3''} \<Longrightarrow> answerable (plain_event k p s)"
  by (rule plain_payload_ok) simp_all

lemma well_ended_answerable: "well_ended es \<Longrightarrow> e \<in> set es \<Longrightarrow> answerable e"
proof -
  assume ended: "well_ended es" and e: "e \<in> set es"
  then have "e = last es \<or> e \<in> set (butlast es)"
    by (metis append_butlast_last_id empty_iff in_set_conv_decomp list.set(1) rotate1.simps(2) set_ConsD set_rotate1)
  with ended show "answerable e"
    by (intro plain_payload_ok) (auto simp: well_ended_def is_end_def is_output_def command_kinds_def)
qed

lemma interaction_answerable: "ev_kind e \<in> set interaction_kinds \<Longrightarrow> answerable e"
  by (auto simp: answerable_def interaction_kinds_def command_kinds_def)

definition action_ok :: "conn_action \<Rightarrow> bool" where
  "action_ok a \<longleftrightarrow>
     (case a of ASend (ValueFrame v) r \<Rightarrow>
        is_event_value v \<longrightarrow> (\<exists>command e target. v = agent_event_message command e target \<and> answerable e)
      | _ \<Rightarrow> True)"

lemma plain_action_ok: "plain_action a \<Longrightarrow> action_ok a"
  by (cases a rule: plain_action.cases) (simp_all add: action_ok_def)

definition sends_answerable :: "cworld \<Rightarrow> cworld \<Rightarrow> bool" where
  "sends_answerable s t \<longleftrightarrow>
     k_result t = k_result s \<and> k_event t = k_event s
     \<and> (\<exists>xs. k_log t = k_log s @ xs \<and> list_all action_ok xs)"

interpretation sa: conn_rel sends_answerable
proof unfold_locales
  show "sends_answerable s t \<Longrightarrow> sends_answerable t u \<Longrightarrow> sends_answerable s u" for s t u
    unfolding sends_answerable_def by fastforce
qed (auto simp: sends_answerable_def plain_action_ok)

lemma sa_io [conn_frames]:
  "sa.keeps read_socket" "sa.keeps (modify (\<lambda>w. w\<lparr>k_deferred := f w\<rparr>))" "sa.keeps (on_mgr m)"
  "sa.keeps (modify (\<lambda>w. w\<lparr>k_ready := f1 w, k_hosts := f2 w, k_insts := f3 w, k_deferred := f4 w\<rparr>))"
  unfolding read_socket_def
  by (rule sa.keepsI, simp add: sends_answerable_def action_ok_def)+

lemma sa_send_event [conn_frames]: "answerable e \<Longrightarrow> sa.keeps (send_json (agent_event_message command e target))"
  by (rule sa.keepsI) (auto simp: run_send_event sends_answerable_def action_ok_def)

lemma sa_background [conn_frames]: "sa.keeps (handle_background_text_message text c)"
  unfolding handle_background_text_message_def by (intro sa.kr_rules conn_frames)

lemma sa_ack_round [conn_frames]: "sa.keeps (ack_round cid kind c ctx)"
  unfolding ack_round_def classify_ack_wait_text_def
  by (intro sa.kr_rules conn_frames)
    (auto split: read_answer.splits message.splits ack_wait_action.splits intro!: sa.kr_rules conn_frames)

lemma sa_ack_rounds [conn_frames]: "sa.keeps (ack_rounds fuel cid kind c ctx)"
  by (induction fuel) (auto intro!: sa.kr_rules conn_frames)

lemma sa_wait_for_ack [conn_frames]: "sa.keeps (wait_for_ack fuel cid kind c ctx)"
  unfolding wait_for_ack_def by (intro sa.kr_rules conn_frames)

lemma sa_dispatch_target:
  "\<forall>e \<in> set es. dispatchable e \<Longrightarrow> sa.keeps (dispatch_events_for_target_host_session fuel command es target c ctx)"
  by (induction es) (auto simp: dispatchable_def intro!: sa.kr_rules conn_frames)

lemma sa_dispatch:
  "\<forall>e \<in> set es. dispatchable e \<Longrightarrow> sa.keeps (dispatch_events_with_turn_interaction_context fuel command es c ctx)"
  "\<forall>e \<in> set es. dispatchable e \<Longrightarrow> sa.keeps (dispatch_events fuel command es c)"
  unfolding dispatch_events_def dispatch_events_with_turn_interaction_context_def by (simp_all add: sa_dispatch_target)

subsection \<open>What the workers hand over\<close>

definition supplied :: "cworld \<Rightarrow> bool" where
  "supplied w \<longleftrightarrow>
     (\<forall>n es. k_result w n = WorkerDone es \<longrightarrow> (\<forall>e \<in> set es. answerable e))
     \<and> (\<forall>n e. k_event w n = Some e \<longrightarrow> answerable e)"

lemma supplied_after: "sends_answerable s t \<Longrightarrow> supplied s \<Longrightarrow> supplied t"
  by (simp add: sends_answerable_def supplied_def)

definition gives :: "('a \<Rightarrow> bool) \<Rightarrow> (cworld, 'a) state \<Rightarrow> bool" where
  "gives P m \<longleftrightarrow>
     (\<forall>w. supplied w \<longrightarrow> sends_answerable w (snd (run_state m w)) \<and> P (fst (run_state m w)))"

definition okay :: "('a \<Rightarrow> bool) \<Rightarrow> conn_fault + 'a \<Rightarrow> bool" where
  "okay P r = (case r of Inr x \<Rightarrow> P x | Inl _ \<Rightarrow> True)"

lemma gives_keeps: "sa.keeps m \<Longrightarrow> gives (\<lambda>_. True) m"
  by (simp add: gives_def sa.keepsD)

lemma gives_weaken: "gives P m \<Longrightarrow> (\<And>x. P x \<Longrightarrow> Q x) \<Longrightarrow> gives Q m"
  by (simp add: gives_def)

lemma gives_okay_keeps: "sa.keeps m \<Longrightarrow> gives (okay (\<lambda>_. True)) m"
  by (simp add: gives_def sa.keepsD okay_def split: sum.split)

lemma gives_ret: "P x \<Longrightarrow> gives P (ret x)"
  by (simp add: gives_def sa.R_refl)

lemma gives_results: "P x \<Longrightarrow> gives (okay P) (ok x)" "gives (okay P) (fail e)" "gives (okay P) (ret (Inl f))"
  by (simp_all add: gives_def okay_def sa.R_refl)

lemma gives_bind:
  assumes m: "gives P m" and f: "\<And>x. P x \<Longrightarrow> gives Q (f x)"
  shows "gives Q (State_Monad.bind m f)"
  unfolding gives_def
proof (intro allI impI)
  fix w
  assume w: "supplied w"
  obtain x s where x: "run_state m w = (x, s)" by (cases "run_state m w")
  from m w x have s: "sends_answerable w s" "P x" by (auto simp: gives_def dest: spec [of _ w])
  with f [of x] supplied_after [OF s(1) w] show "sends_answerable w (snd (run_state (State_Monad.bind m f) w))
      \<and> Q (fst (run_state (State_Monad.bind m f) w))"
    using x by (auto simp: gives_def intro: sa.R_trans)
qed

lemma gives_tryE:
  assumes "gives (okay P) m" and "\<And>x. P x \<Longrightarrow> gives (okay Q) (f x)"
  shows "gives (okay Q) (tryE m f)"
  unfolding tryE_def
  by (rule gives_bind [OF assms(1)]) (auto simp: okay_def intro: assms(2) gives_ret split: sum.splits)

lemma gives_catchE:
  assumes "gives (okay P) m" and "\<And>x. P x \<Longrightarrow> gives (okay Q) (f (Inr x))" and "\<And>e. gives (okay Q) (f (Inl e))"
  shows "gives (okay Q) (catchE m f)"
  unfolding catchE_def
  by (rule gives_bind [OF assms(1)])
    (auto simp: okay_def intro: assms(2,3) gives_ret split: sum.splits conn_fault.splits)

lemma gives_if: "(b \<Longrightarrow> gives P m) \<Longrightarrow> (\<not> b \<Longrightarrow> gives P n) \<Longrightarrow> gives P (if b then m else n)"
  by simp

lemma gives_option: "(o' = None \<Longrightarrow> gives P m) \<Longrightarrow> (\<And>x. o' = Some x \<Longrightarrow> gives P (f x)) \<Longrightarrow>
    gives P (case o' of None \<Rightarrow> m | Some x \<Rightarrow> f x)"
  by (cases o') simp_all

lemma gives_list: "gives P m \<Longrightarrow> (\<And>x xs. gives P (f x xs)) \<Longrightarrow> gives P (case l of [] \<Rightarrow> m | x # xs \<Rightarrow> f x xs)"
  by (cases l) simp_all

lemma gives_read_case:
  "(\<And>t. gives q (f t)) \<Longrightarrow> (\<And>x. gives q (pg x)) \<Longrightarrow> gives q cl \<Longrightarrow> gives q ot \<Longrightarrow> (\<And>e. gives q (rt e)) \<Longrightarrow>
     (\<And>e. gives q (rf e)) \<Longrightarrow>
     gives q (case r of ReadMsg (MsgText t) \<Rightarrow> f t | ReadMsg (MsgPing x) \<Rightarrow> pg x | ReadMsg MsgClose \<Rightarrow> cl
       | ReadMsg MsgOther \<Rightarrow> ot | ReadTimeout e \<Rightarrow> rt e | ReadFailed e \<Rightarrow> rf e)"
  by (auto split: read_answer.split message.split)

text \<open>The worker thread's channels.\<close>

lemma gives_result: "gives (\<lambda>r. \<forall>es. r = WorkerDone es \<longrightarrow> (\<forall>e \<in> set es. answerable e)) (kask k_result)"
  by (auto simp: gives_def supplied_def sends_answerable_def)

lemma gives_event: "gives (\<lambda>r. \<forall>e. r = Some e \<longrightarrow> answerable e) (kask k_event)"
  by (auto simp: gives_def supplied_def sends_answerable_def)

abbreviation all_answerable :: "connector_event list \<Rightarrow> bool" where
  "all_answerable es \<equiv> \<forall>e \<in> set es. answerable e"

lemma gives_worker_case:
  "(\<And>es. all_answerable es \<Longrightarrow> gives q (f es)) \<Longrightarrow> gives q b \<Longrightarrow> gives q g \<Longrightarrow>
     \<forall>es. r = WorkerDone es \<longrightarrow> all_answerable es \<Longrightarrow>
     gives q (case r of WorkerDone es \<Rightarrow> f es | WorkerBusy \<Rightarrow> b | WorkerGone \<Rightarrow> g)"
  by (cases r) simp_all

lemma gives_fails: "gives (okay q) (cancel_then_fail e)"
  unfolding cancel_then_fail_def
  by (rule gives_tryE [OF gives_okay_keeps gives_results(2)]) (intro conn_frames)

text \<open>The next step of a program whose outcome says nothing.\<close>

lemma gives_then: "sa.keeps m \<Longrightarrow> (\<And>x. gives Q (f x)) \<Longrightarrow> gives Q (State_Monad.bind m f)"
  by (rule gives_bind [OF gives_keeps])

lemma gives_try: "sa.keeps m \<Longrightarrow> (\<And>x. gives (okay Q) (f x)) \<Longrightarrow> gives (okay Q) (tryE m f)"
  by (rule gives_tryE [OF gives_okay_keeps])

lemmas gives_rules = gives_then gives_try gives_if gives_read_case gives_results gives_fails

lemma codex_round_gives: "gives (okay (\<lambda>r. \<forall>es. r = Some es \<longrightarrow> all_answerable es)) (codex_round c)"
  unfolding codex_round_def
  by (intro gives_rules gives_bind [OF gives_result] gives_worker_case conn_frames) auto

lemma codex_rounds_gives: "gives (okay all_answerable) (codex_rounds fuel c)"
proof (induction fuel)
  case (Suc fuel)
  show ?case
    unfolding codex_rounds.simps
    by (rule gives_tryE [OF codex_round_gives]) (auto intro!: gives_option gives_results Suc)
qed (simp add: gives_results)

lemma codex_events_give: "gives (okay all_answerable) (wait_for_codex_exec_events fuel c prompt)"
  unfolding wait_for_codex_exec_events_def
  by (intro gives_rules codex_rounds_gives conn_frames) simp

lemma drain_gives: "gives (okay (\<lambda>_. True)) (drain_pending_connector_events n fuel command c ctx)"
proof (induction n)
  case (Suc n)
  show ?case
    unfolding drain_pending_connector_events.simps
    by (intro gives_bind [OF gives_event] gives_option gives_try gives_if sa_dispatch gives_results Suc)
      (auto simp: answerable_dispatchable)
qed (simp add: gives_results)

lemma pending_gives: "gives (okay (\<lambda>_. True)) (dispatch_pending_app_server_command_events fuel command c ctx)"
  unfolding dispatch_pending_app_server_command_events_def by (rule drain_gives)

lemma rejected_answerable: "answerable app_server_interaction_rejected_event"
  by (simp add: app_server_interaction_rejected_event_def command_kinds_def)

lemma sa_turn_text [conn_frames]: "sa.keeps (turn_text text c)"
  unfolding turn_text_def by (intro sa.kr_rules conn_frames) (auto intro!: sa.kr_rules conn_frames split: sum.split bool.split)

lemma sa_turn_socket [conn_frames]: "sa.keeps (turn_socket cid c)"
  unfolding turn_socket_def
  by (intro sa.kr_rules conn_frames)
    (auto split: read_answer.splits message.splits intro!: sa.kr_rules conn_frames)

lemma turn_round_gives:
  "gives (okay (\<lambda>r. \<forall>es. r = Inl es \<longrightarrow> all_answerable es)) (turn_round fuel command rc next_at)"
  unfolding turn_round_def
  by (intro gives_then gives_if gives_fails gives_tryE [OF pending_gives] gives_bind [OF gives_result] gives_worker_case
      gives_results gives_try conn_frames)
    (auto simp: rejected_answerable intro!: sa.kr_rules conn_frames gives_try gives_results split: prod.splits)

lemma turn_rounds_gives: "gives (okay all_answerable) (turn_rounds n fuel command rc next_at)"
proof (induction n arbitrary: rc next_at)
  case (Suc n)
  show ?case
    unfolding turn_rounds.simps
    by (rule gives_tryE [OF turn_round_gives]) (auto intro!: gives_results Suc split: sum.split)
qed (simp add: gives_results)

lemma turn_events_give:
  "gives (okay all_answerable) (wait_for_app_server_command_events fuel c session_id cwd cid prompt)"
  unfolding wait_for_app_server_command_events_def
  by (intro gives_then gives_try turn_rounds_gives conn_frames) simp

subsection \<open>A session\<close>

lemma answerable_lists:
  "\<forall>e \<in> set app_server_missing_target_events. dispatchable e"
  "\<forall>e \<in> set app_server_wrong_execution_mode_events. dispatchable e"
  "\<forall>e \<in> set (app_server_non_app_server_target_events s). dispatchable e"
  "\<forall>e \<in> set [codex_exec_started_event r]. dispatchable e"
  "\<forall>e \<in> set [app_server_command_started_event s]. dispatchable e"
  by (simp_all add: app_server_missing_target_events_def app_server_wrong_execution_mode_events_def command_kinds_def
      app_server_non_app_server_target_events_def codex_exec_started_event_def app_server_command_started_event_def
      dispatchable_def)

lemma answerable_command_events: "\<forall>e \<in> set (command_events command). dispatchable e"
  by (cases "cp_command_type command")
    (simp_all add: command_events_def placeholder_event_stream_def dispatchable_def command_kinds_def)

lemma all_dispatchable: "all_answerable es \<Longrightarrow> \<forall>e \<in> set es. dispatchable e"
  by (simp add: answerable_dispatchable)

lemma gives_result_of: "(\<And>x. r = Inr x \<Longrightarrow> P x) \<Longrightarrow> gives (okay P) (result_of r)"
  by (cases r) (simp_all add: result_of_def okay_def gives_ret)

lemma finish_turn_gives: "(\<And>es. r = Inr es \<Longrightarrow> all_answerable es) \<Longrightarrow>
    gives (okay (\<lambda>_. True)) (finish_app_server_turn fuel command c r)"
  unfolding finish_app_server_turn_def
  by (intro gives_then gives_tryE [OF gives_result_of [of r all_answerable]] gives_try gives_if gives_results
      sa_dispatch all_dispatchable conn_frames) simp_all

lemma codex_dispatch_gives: "gives (okay (\<lambda>_. True)) (run_codex_exec_dispatch fuel d c)"
  unfolding run_codex_exec_dispatch_def
  by (intro gives_tryE [OF codex_events_give] gives_try gives_if gives_results sa_dispatch answerable_lists all_dispatchable)
    simp_all

lemma turn_gives:
  "gives (okay (\<lambda>_. True)) (catchE (wait_for_app_server_command_events fuel c session_id cwd cid prompt)
     (finish_app_server_turn fuel command c))"
  by (rule gives_catchE [OF turn_events_give]) (rule finish_turn_gives, simp)+

lemma started_turn_gives:
  "gives (okay (\<lambda>_. True)) (catchE (send_app_server_instances c True False) (\<lambda>sent.
     case sent of
       Inl e \<Rightarrow> do { on_mgr finish_turn; fail e }
     | Inr _ \<Rightarrow> catchE (wait_for_app_server_command_events fuel c session_id cwd cid prompt)
                  (finish_app_server_turn fuel command c)))"
  by (rule gives_catchE [OF gives_okay_keeps]) (simp_all add: turn_gives gives_then gives_results conn_frames)

lemma app_server_dispatch_gives: "gives (okay (\<lambda>_. True)) (run_app_server_dispatch fuel d c)"
  unfolding run_app_server_dispatch_def Let_def
  by (intro gives_option gives_try gives_if gives_results gives_then started_turn_gives
      sa_dispatch sa_dispatch_target answerable_lists conn_frames) simp_all

lemma command_dispatch_gives: "gives (okay (\<lambda>_. True)) (handle_command_dispatch fuel d c)"
  unfolding handle_command_dispatch_def Let_def
  by (intro gives_if gives_try gives_results codex_dispatch_gives app_server_dispatch_gives sa_dispatch
      answerable_lists answerable_command_events) simp_all

lemma sa_gets_wire [conn_frames]: "sa.keeps (gets f)"
  by (rule sa.keeps_gets)

lemma handle_text_gives: "gives (okay (\<lambda>_. True)) (handle_text_message fuel text c)"
  unfolding handle_text_message_def
  by (intro gives_try gives_if gives_then gives_option command_dispatch_gives gives_results conn_frames) simp_all

lemma session_text_gives: "gives (okay (\<lambda>_. True)) (session_text fuel c mode text)"
  unfolding session_text_def
  by (intro gives_then gives_if gives_try gives_tryE [OF handle_text_gives] gives_results sa.kr_rules conn_frames) simp_all

lemma session_round_gives: "gives (okay (\<lambda>_. True)) (session_round fuel c mode)"
  unfolding session_round_def
  by (intro gives_then gives_if gives_list gives_read_case session_text_gives gives_try gives_results
      gives_okay_keeps [of "session_idle fuel c"] conn_frames) simp_all

lemma session_rounds_gives: "gives (okay (\<lambda>_. True)) (session_rounds n fuel c mode)"
proof (induction n)
  case (Suc n)
  show ?case
    unfolding session_rounds.simps
    by (rule gives_tryE [OF session_round_gives]) (auto intro!: gives_results Suc)
qed (simp add: gives_results)

lemma sa_fresh_session [conn_frames]:
  "sa.keeps (modify (\<lambda>w. w\<lparr>k_ready := agent_ready_default, k_hosts := host_sessions_default,
     k_insts := app_server_instances_default, k_deferred := []\<rparr>))"
  by (rule sa_io)

lemma connected_session_gives: "gives (okay (\<lambda>_. True)) (run_connected_session fuel c mode)"
  unfolding run_connected_session_def
  by (intro gives_then gives_try gives_if gives_results session_rounds_gives conn_frames)

lemma sa_sleep [conn_frames]: "sa.keeps sleep_until_reconnect_or_shutdown"
  unfolding sleep_until_reconnect_or_shutdown_def by (intro sa.kr_rules conn_frames) simp

lemma connector_rounds_gives: "gives (okay (\<lambda>_. True)) (connector_rounds n fuel c mode)"
proof (induction n)
  case (Suc n)
  have rest: "gives (okay (\<lambda>_. True)) (if succeeded r \<and> mode = Once then ok ()
       else do {
         stop \<leftarrow> shutdown_requested;
         (if stop then ok ()
          else if mode = Once then tryE (result_of r) (\<lambda>_. ok ())
          else tryE sleep_until_reconnect_or_shutdown (\<lambda>_.
               do { stop \<leftarrow> shutdown_requested;
                    (if stop then ok () else connector_rounds n fuel c mode) })) })" for r
    by (intro gives_then gives_try gives_if gives_results Suc conn_frames) simp_all
  show ?case
    unfolding connector_rounds.simps by (rule gives_catchE [OF connected_session_gives]) (rule rest)+
qed (simp add: gives_results)

lemma connector_gives: "gives (okay (\<lambda>_. True)) (run_connector fuel c mode)"
  unfolding run_connector_def
  by (intro gives_then gives_try gives_if gives_results connector_rounds_gives conn_frames) simp_all

subsection \<open>The property\<close>


definition demo_dispatched :: cworld where
  "demo_dispatched = (demo_conn plain_wire [] (WorkerDone demo_exec_events))\<lparr> k_read := (\<lambda>_. text_read_answer ''command'') \<rparr>"

lemma demo_worker_result: "worker_result demo_exec_events"
  unfolding worker_result_def using demo_exec_run by (metis prod.collapse)


end
