(* ===== verification/Worker_State.thy ===== *)
theory Worker_State
  imports Protocol_Guards
begin

text \<open>
  The state of the control plane's workspace object (\<open>class WorkspaceDO\<close> of
  \<open>apps/worker/src/workspace-do.ts\<close>): its sockets with their attachments, the requests that
  wait for an answer with their timers, the times of the refreshes. A handler runs alone up to its next
  \<open>await\<close>; there the other handlers may do anything to the object, which the world \<open>wworld\<close>
  answers with a function (\<open>ww_other\<close>). The data base (\<open>db.ts\<close>) is answered by oracles: every
  call is logged and may return any value or throw. Times are milliseconds.
\<close>

subsection \<open>Data\<close>

text \<open>\<open>SocketAttachment\<close>: all its fields may be missing.\<close>

record attachment =
  at_socketType :: "string option"
  at_connectorId :: "string option"
  at_connectedAt :: "int option"
  at_agentReady :: "bool option"
  at_pending :: "bool option"
  at_deadline :: "int option"
  at_activeCommandIds :: "string list option"

record wsocket =
  sk_tags :: "string list"
  sk_open :: bool
  sk_attachment :: "attachment option"

text \<open>A frame sent: what \<open>createEnvelope\<close> is given, of its overrides the command it is for.\<close>

record wframe =
  fr_kind :: string
  fr_payload :: json
  fr_command_id :: "string option"

datatype request_kind = ThreadCreate | Backfill | AppServerEnsure | ArchiveSync | TurnInteraction

datatype promise = Waiting | Resolved json | Rejected string

text \<open>A request passed on: its promise, and what the code that settles it knows of it.\<close>

record request =
  rq_kind :: request_kind
  rq_id :: string
  rq_promise :: promise

text \<open>The calls of the data base, with what they are told.\<close>

datatype db_call =
    UpdateCapabilities string "json"
  | MarkOnline string
  | MarkDegraded string
  | MarkOffline string
  | MarkStopped string string
  | RecordHostSessions string json
  | RecordInstances string json
  | RecordEvent string json
  | FailActive string "string list option"
  | ReleaseLeased string "string list"
  | CleanupStale string
  | PendingCommands string
  | GetSummary string bool bool
  | SafetyCheck string

text \<open>
  What the object did, in order: the frames it sent, its calls of the data base, and the
  changes of its own books (a command is over for a socket, a refresh was sent at a time or is
  forgotten).
\<close>

datatype worker_action =
    WSend nat wframe
  | WDb db_call
  | WCommandOver nat string
  | WRefreshSent string int
  | WRefreshForgotten string

record wobject =
  wo_sockets :: "(nat \<times> wsocket) list"
  wo_pending :: "request_kind \<times> string \<rightharpoonup> nat"
  wo_timers :: "nat \<rightharpoonup> request_kind \<times> string \<times> int"
  wo_requests :: "request list"
  wo_report_cache :: "string \<rightharpoonup> string \<times> int"
  wo_refresh_sent :: "string \<rightharpoonup> int"
  wo_log :: "worker_action list"

text \<open>Answers of the data base: \<open>Inl\<close> is the message of the error thrown.\<close>

datatype safety = SafetyAllows | SafetyBlocks string bool | SafetyFails string

record sessions_result =
  sr_host_sessions :: "json list"
  sr_synced_at :: string
  sr_snapshot :: bool
  sr_failed_events :: "json list"
  sr_released :: "string list"

record instances_result =
  ir_instances :: "json list"
  ir_synced_at :: string
  ir_snapshot :: bool

record event_result =
  er_accepted :: bool
  er_event :: "json option"
  er_dispatch_pending :: bool

record pending_command =
  pc_id :: string
  pc_payload :: json

record cleanup_result =
  cr_failed_events :: "json list"
  cr_released :: "string list"

record wworld =
  ww_obj :: wobject
  ww_tick :: nat
  ww_other :: "nat \<Rightarrow> wobject \<Rightarrow> wobject"
  ww_now :: "nat \<Rightarrow> int"
  ww_send_fails :: "nat \<Rightarrow> string option"
  ww_random :: "nat \<Rightarrow> string"
  ww_safety :: "nat \<Rightarrow> safety"
  ww_changed :: "nat \<Rightarrow> string + bool"
  ww_marked :: "nat \<Rightarrow> string option"
  ww_events :: "nat \<Rightarrow> string + json list"
  ww_sessions :: "nat \<Rightarrow> string + sessions_result"
  ww_instances :: "nat \<Rightarrow> string + instances_result"
  ww_event :: "nat \<Rightarrow> string + event_result"
  ww_commands :: "nat \<Rightarrow> string + pending_command list"
  ww_cleanup :: "nat \<Rightarrow> string + cleanup_result"
  ww_summary :: "nat \<Rightarrow> string + json option"
  ww_has_db :: bool
  ww_iso :: "int \<Rightarrow> string"
  ww_print :: "json \<Rightarrow> string"

text \<open>An error thrown, or fuel that ran out in a recursion that may not end.\<close>

datatype wfault = Thrown string | WFuel

type_synonym 'a worker = "(wworld, wfault + 'a) state"

subsection \<open>Steps\<close>

definition wok :: "'a \<Rightarrow> 'a worker" where "wok x = ret (Inr x)"

definition wthrow :: "string \<Rightarrow> 'a worker" where "wthrow e = ret (Inl (Thrown e))"

definition wask :: "(wworld \<Rightarrow> nat \<Rightarrow> 'a) \<Rightarrow> (wworld, 'a) state" where
  "wask f = State (\<lambda>w. (f w (ww_tick w), w\<lparr>ww_tick := Suc (ww_tick w)\<rparr>))"

definition date_now :: "(wworld, int) state" where "date_now = wask ww_now"

definition obj :: "(wobject \<Rightarrow> 'a) \<Rightarrow> (wworld, 'a) state" where
  "obj f = gets (\<lambda>w. f (ww_obj w))"

definition on_obj :: "(wobject \<Rightarrow> wobject) \<Rightarrow> (wworld, unit) state" where
  "on_obj f = modify (\<lambda>w. w\<lparr>ww_obj := f (ww_obj w)\<rparr>)"

definition note_action :: "worker_action \<Rightarrow> wobject \<Rightarrow> wobject" where
  "note_action a o' = o'\<lparr>wo_log := wo_log o' @ [a]\<rparr>"

text \<open>An \<open>await\<close>: other handlers run.\<close>

definition others :: "(wworld, unit) state" where
  "others = State (\<lambda>w. ((), w\<lparr>ww_obj := ww_other w (ww_tick w) (ww_obj w), ww_tick := Suc (ww_tick w)\<rparr>))"

definition call_db :: "db_call \<Rightarrow> (wworld \<Rightarrow> nat \<Rightarrow> string + 'a) \<Rightarrow> 'a worker" where
  "call_db c f =
     do { on_obj (note_action (WDb c));
          others;
          r \<leftarrow> wask f;
          (case r of Inl e \<Rightarrow> wthrow e | Inr x \<Rightarrow> wok x) }"

definition mark_db :: "db_call \<Rightarrow> unit worker" where
  "mark_db c = call_db c (\<lambda>w n. case ww_marked w n of Some e \<Rightarrow> Inl e | None \<Rightarrow> Inr ())"

definition send_ws :: "nat \<Rightarrow> wframe \<Rightarrow> unit worker" where
  "send_ws ws f =
     do { e \<leftarrow> wask ww_send_fails;
          (case e of
             Some m \<Rightarrow> wthrow m
           | None \<Rightarrow> do { on_obj (note_action (WSend ws f)); wok () }) }"

definition plain_frame :: "string \<Rightarrow> json \<Rightarrow> wframe" where
  "plain_frame kind payload = \<lparr> fr_kind = kind, fr_payload = payload, fr_command_id = None \<rparr>"

text \<open>\<open>for (const x of xs) { ... }\<close> with a body that may throw.\<close>

fun for_each :: "('a \<Rightarrow> unit worker) \<Rightarrow> 'a list \<Rightarrow> unit worker" where
  "for_each f [] = wok ()"
| "for_each f (x # xs) = tryE (f x) (\<lambda>_. for_each f xs)"

text \<open>
  \<open>Promise.all(xs.map(f))\<close>: every task runs, whatever becomes of the others, which may run
  at its waits; the first error is the result.
\<close>

fun promise_all :: "('a \<Rightarrow> 'b worker) \<Rightarrow> 'a list \<Rightarrow> unit worker" where
  "promise_all f [] = wok ()"
| "promise_all f (x # xs) =
     do { r \<leftarrow> f x;
          rs \<leftarrow> promise_all f xs;
          ret (case r of Inl e \<Rightarrow> Inl e | Inr _ \<Rightarrow> rs) }"

text \<open>\<open>new Set(xs)\<close>, in the order of insertion.\<close>

definition js_set :: "'a list \<Rightarrow> 'a list" where
  "js_set xs = rev (remdups (rev xs))"

lemma set_js_set [simp]: "set (js_set xs) = set xs"
  by (simp add: js_set_def)

lemma distinct_js_set [simp]: "distinct (js_set xs)"
  by (simp add: js_set_def)

end
