(* ===== verification/Worker_Sockets.thy ===== *)
theory Worker_Sockets
  imports Worker_State
begin

text \<open>
  The sockets of the workspace object and what it keeps about them in their attachments
  (\<open>workspace-do.ts\<close>): which agent is ready, whether it owes a report of its host sessions, and
  the commands it runs.
\<close>

subsection \<open>Attachments\<close>

definition attachment_of :: "wobject \<Rightarrow> nat \<Rightarrow> attachment option" where
  "attachment_of o' ws = Option.bind (map_of (wo_sockets o') ws) sk_attachment"

definition set_attachment :: "nat \<Rightarrow> attachment \<Rightarrow> wobject \<Rightarrow> wobject" where
  "set_attachment ws a o' =
     o'\<lparr>wo_sockets := map (\<lambda>(s, k). (s, if s = ws then k\<lparr>sk_attachment := Some a\<rparr> else k)) (wo_sockets o')\<rparr>"

definition no_attachment :: attachment where
  "no_attachment = \<lparr> at_socketType = None, at_connectorId = None, at_connectedAt = None, at_agentReady = None,
     at_pending = None, at_deadline = None, at_activeCommandIds = None \<rparr>"

text \<open>\<open>getWebSockets(tag)\<close>\<close>

definition getWebSockets :: "string \<Rightarrow> wobject \<Rightarrow> nat list" where
  "getWebSockets tag o' = map fst (filter (\<lambda>(_, k). sk_open k \<and> tag \<in> set (sk_tags k)) (wo_sockets o'))"

definition agent_tag :: "string \<Rightarrow> string" where "agent_tag connectorId = ''agent:'' @ connectorId"

text \<open>\<open>attachment?.socketType === "agent" && attachment.connectorId === connectorId\<close>\<close>

definition is_agent_of :: "string \<Rightarrow> attachment \<Rightarrow> bool" where
  "is_agent_of connectorId a \<longleftrightarrow> at_socketType a = Some ''agent'' \<and> at_connectorId a = Some connectorId"

definition isAgentSocketForConnector :: "wobject \<Rightarrow> string \<Rightarrow> nat \<Rightarrow> bool" where
  "isAgentSocketForConnector o' connectorId ws =
     (case attachment_of o' ws of None \<Rightarrow> False | Some a \<Rightarrow> is_agent_of connectorId a)"

definition isReadyAgentSocket :: "wobject \<Rightarrow> string \<Rightarrow> nat \<Rightarrow> bool" where
  "isReadyAgentSocket o' connectorId ws =
     (case attachment_of o' ws of None \<Rightarrow> False
      | Some a \<Rightarrow> is_agent_of connectorId a \<and> at_agentReady a = Some True)"

definition socketConnectedAt :: "wobject \<Rightarrow> nat \<Rightarrow> int" where
  "socketConnectedAt o' ws =
     (case Option.bind (attachment_of o' ws) at_connectedAt of Some t \<Rightarrow> t | None \<Rightarrow> 0)"

definition socketActiveCommandIds :: "wobject \<Rightarrow> string \<Rightarrow> nat \<Rightarrow> string list" where
  "socketActiveCommandIds o' connectorId ws =
     (case attachment_of o' ws of
        None \<Rightarrow> []
      | Some a \<Rightarrow>
          (if \<not> is_agent_of connectorId a then []
           else filter (\<lambda>c. c \<noteq> []) (case at_activeCommandIds a of Some cs \<Rightarrow> cs | None \<Rightarrow> [])))"

definition hasPeerAgentSocket :: "wobject \<Rightarrow> string \<Rightarrow> nat \<Rightarrow> bool" where
  "hasPeerAgentSocket o' connectorId ws \<longleftrightarrow>
     list_ex (\<lambda>c. c \<noteq> ws \<and> isAgentSocketForConnector o' connectorId c) (getWebSockets (agent_tag connectorId) o')"

definition hasReadyPeerAgentSocket :: "wobject \<Rightarrow> string \<Rightarrow> nat \<Rightarrow> bool" where
  "hasReadyPeerAgentSocket o' connectorId ws \<longleftrightarrow>
     list_ex (\<lambda>c. c \<noteq> ws \<and> isReadyAgentSocket o' connectorId c) (getWebSockets (agent_tag connectorId) o')"

text \<open>The ready sockets among some, the one connected last first; \<open>sort\<close> is stable.\<close>

definition latest_first :: "wobject \<Rightarrow> nat list \<Rightarrow> nat list" where
  "latest_first o' = sort_by (\<lambda>l r. socketConnectedAt o' r \<le> socketConnectedAt o' l)"

definition agentSocketsForConnector :: "wobject \<Rightarrow> string \<Rightarrow> nat list \<Rightarrow> nat list" where
  "agentSocketsForConnector o' connectorId tagged =
     latest_first o' (filter (isReadyAgentSocket o' connectorId) tagged)"

definition agentSocketForActiveCommand :: "wobject \<Rightarrow> string \<Rightarrow> nat option" where
  "agentSocketForActiveCommand o' commandId =
     List.find (\<lambda>ws. case attachment_of o' ws of
        None \<Rightarrow> False
      | Some a \<Rightarrow> at_socketType a = Some ''agent''
          \<and> (case at_connectorId a of None \<Rightarrow> False
             | Some connectorId \<Rightarrow> isReadyAgentSocket o' connectorId ws
                 \<and> commandId \<in> set (socketActiveCommandIds o' connectorId ws)))
       (getWebSockets ''agent'' o')"

subsection \<open>Reports that are owed\<close>

definition host_sessions_refresh_dispatch_wait_ms :: int where "host_sessions_refresh_dispatch_wait_ms = 30000"
definition host_sessions_refresh_cooldown_ms :: int where "host_sessions_refresh_cooldown_ms = 60000"

definition withoutPendingHostSessionsDispatch :: "attachment \<Rightarrow> attachment" where
  "withoutPendingHostSessionsDispatch a = a\<lparr>at_pending := Some False, at_deadline := None\<rparr>"

definition isActivePendingHostSessionsDispatch :: "int \<Rightarrow> attachment \<Rightarrow> bool" where
  "isActivePendingHostSessionsDispatch now a \<longleftrightarrow>
     at_pending a = Some True \<and> (case at_deadline a of None \<Rightarrow> False | Some d \<Rightarrow> now < d)"

text \<open>It also clears a debt whose deadline is over.\<close>

definition hasPendingHostSessionsDispatch :: "string \<Rightarrow> nat \<Rightarrow> (wworld, bool) state" where
  "hasPendingHostSessionsDispatch connectorId ws =
     do { attachment \<leftarrow> obj (\<lambda>o'. attachment_of o' ws);
          (case attachment of
             None \<Rightarrow> ret False
           | Some a \<Rightarrow>
               do { now \<leftarrow> date_now;
                    let pending = is_agent_of connectorId a \<and> isActivePendingHostSessionsDispatch now a;
                    whenS (\<not> pending \<and> at_pending a = Some True)
                      (on_obj (set_attachment ws (withoutPendingHostSessionsDispatch a)));
                    ret pending }) }"

text \<open>\<open>some\<close> stops at the first, \<open>filter\<close> asks all.\<close>

fun some_pending :: "string \<Rightarrow> nat list \<Rightarrow> (wworld, bool) state" where
  "some_pending connectorId [] = ret False"
| "some_pending connectorId (ws # rest) =
     do { b \<leftarrow> hasPendingHostSessionsDispatch connectorId ws;
          (if b then ret True else some_pending connectorId rest) }"

definition hasPendingHostSessionsDispatchForConnector :: "string \<Rightarrow> (wworld, bool) state" where
  "hasPendingHostSessionsDispatchForConnector connectorId =
     do { o' \<leftarrow> obj id;
          let tagged = getWebSockets (agent_tag connectorId) o';
          some_pending connectorId
            (if tagged \<noteq> [] then tagged
             else filter (isAgentSocketForConnector o' connectorId) (getWebSockets ''agent'' o')) }"

fun filter_dispatch_ready :: "string \<Rightarrow> nat list \<Rightarrow> (wworld, nat list) state" where
  "filter_dispatch_ready connectorId [] = ret []"
| "filter_dispatch_ready connectorId (ws # rest) =
     do { ready \<leftarrow> obj (\<lambda>o'. isReadyAgentSocket o' connectorId ws);
          keep \<leftarrow> (if ready then do { p \<leftarrow> hasPendingHostSessionsDispatch connectorId ws; ret (\<not> p) } else ret False);
          kept \<leftarrow> filter_dispatch_ready connectorId rest;
          ret (if keep then ws # kept else kept) }"

text \<open>The argument \<open>pendingHostSessionsDispatch\<close> of \<open>markAgentReady\<close> is never given.\<close>

definition markAgentReady :: "nat \<Rightarrow> string \<Rightarrow> (wworld, unit) state" where
  "markAgentReady ws connectorId =
     do { attachment \<leftarrow> obj (\<lambda>o'. attachment_of o' ws);
          now \<leftarrow> date_now;
          let a = (case attachment of Some a \<Rightarrow> a | None \<Rightarrow> no_attachment);
          let existingPending = isActivePendingHostSessionsDispatch now a;
          on_obj (set_attachment ws (a\<lparr>at_socketType := Some ''agent'', at_connectorId := Some connectorId,
            at_agentReady := Some True, at_pending := Some existingPending,
            at_deadline := (if existingPending then at_deadline a else None)\<rparr>)) }"

definition consumePendingHostSessionsDispatch :: "nat \<Rightarrow> string \<Rightarrow> (wworld, bool) state" where
  "consumePendingHostSessionsDispatch ws connectorId =
     do { attachment \<leftarrow> obj (\<lambda>o'. attachment_of o' ws);
          (case attachment of
             None \<Rightarrow> ret False
           | Some a \<Rightarrow>
               (if is_agent_of connectorId a \<and> at_agentReady a = Some True \<and> at_pending a = Some True
                then do { on_obj (set_attachment ws (withoutPendingHostSessionsDispatch a)); ret True }
                else ret False)) }"

definition markHostSessionsRefreshPending :: "nat \<Rightarrow> string \<Rightarrow> (wworld, unit) state" where
  "markHostSessionsRefreshPending ws connectorId =
     do { attachment \<leftarrow> obj (\<lambda>o'. attachment_of o' ws);
          now \<leftarrow> date_now;
          (case attachment of
             None \<Rightarrow> ret ()
           | Some a \<Rightarrow>
               whenS (is_agent_of connectorId a \<and> at_agentReady a = Some True)
                 (on_obj (set_attachment ws (a\<lparr>at_pending := Some True,
                    at_deadline := Some (now + host_sessions_refresh_dispatch_wait_ms)\<rparr>)))) }"

definition refresh_frame :: wframe where
  "refresh_frame = plain_frame ''host_sessions.refresh'' (jobj [])"

text \<open>A refresh is not sent while one is owed, nor within a minute of the last one sent.\<close>

definition dispatchHostSessionsRefreshToSocket :: "nat \<Rightarrow> string \<Rightarrow> int \<Rightarrow> bool worker" where
  "dispatchHostSessionsRefreshToSocket ws connectorId now =
     do { pending \<leftarrow> hasPendingHostSessionsDispatchForConnector connectorId;
          lastSentAt \<leftarrow> obj (\<lambda>o'. wo_refresh_sent o' connectorId);
          (if pending then wok False
           else if (case lastSentAt of Some t \<Rightarrow> now - t < host_sessions_refresh_cooldown_ms | None \<Rightarrow> False)
           then wok False
           else tryE (send_ws ws refresh_frame) (\<lambda>_.
                  do { on_obj (\<lambda>o'. note_action (WRefreshSent connectorId now)
                         (o'\<lparr>wo_refresh_sent := (wo_refresh_sent o')(connectorId \<mapsto> now)\<rparr>));
                       markHostSessionsRefreshPending ws connectorId;
                       wok True })) }"

subsection \<open>The commands a socket runs\<close>

definition recordSocketCommand :: "nat \<Rightarrow> string \<Rightarrow> string \<Rightarrow> (wworld, unit) state" where
  "recordSocketCommand ws connectorId commandId =
     do { attachment \<leftarrow> obj (\<lambda>o'. attachment_of o' ws);
          (case attachment of
             None \<Rightarrow> ret ()
           | Some a \<Rightarrow>
               whenS (is_agent_of connectorId a)
                 (on_obj (set_attachment ws (a\<lparr>at_activeCommandIds := Some (js_set
                    ((case at_activeCommandIds a of Some cs \<Rightarrow> cs | None \<Rightarrow> []) @ [commandId]))\<rparr>)))) }"

definition clearSocketCommand :: "nat \<Rightarrow> string \<Rightarrow> string \<Rightarrow> (wworld, unit) state" where
  "clearSocketCommand ws connectorId commandId =
     do { attachment \<leftarrow> obj (\<lambda>o'. attachment_of o' ws);
          (case attachment of
             None \<Rightarrow> ret ()
           | Some a \<Rightarrow>
               whenS (is_agent_of connectorId a)
                 (on_obj (\<lambda>o'. note_action (WCommandOver ws commandId)
                    (set_attachment ws (a\<lparr>at_activeCommandIds := Some (filter (\<lambda>c. c \<noteq> commandId)
                      (case at_activeCommandIds a of Some cs \<Rightarrow> cs | None \<Rightarrow> []))\<rparr>) o')))) }"

definition markSocketDispatchUnavailable :: "nat \<Rightarrow> string \<Rightarrow> (wworld, bool) state" where
  "markSocketDispatchUnavailable ws connectorId =
     do { attachment \<leftarrow> obj (\<lambda>o'. attachment_of o' ws);
          (case attachment of
             None \<Rightarrow> ret False
           | Some a \<Rightarrow>
               (if is_agent_of connectorId a
                then do { on_obj (set_attachment ws ((withoutPendingHostSessionsDispatch a)\<lparr>at_agentReady := Some False\<rparr>));
                          ret True }
                else ret False)) }"

end
