(* ===== verification/Worker_Dispatch.thy ===== *)
theory Worker_Dispatch
  imports Worker_Sockets "HOL-Library.AList"
begin

text \<open>
  What the workspace object sends of its own accord (\<open>workspace-do.ts\<close>): updates to the browsers,
  the commands that wait for a connector, refreshes. Sending commands may, when a socket turns
  out dead, look for another one and start over; the recursion has fuel.
\<close>

subsection \<open>Browsers\<close>

definition broadcastToBrowsers :: "wframe \<Rightarrow> unit worker" where
  "broadcastToBrowsers f =
     do { sockets \<leftarrow> obj (getWebSockets ''browser'');
          for_each (\<lambda>ws. send_ws ws f) sockets }"

definition threadEventMessage :: "json \<Rightarrow> wframe" where
  "threadEventMessage event =
     \<lparr> fr_kind = ''thread.event'', fr_payload = jobj [(''event'', event)],
       fr_command_id = jget_str event ''command_id'' \<rparr>"

definition hostSessionsMessage :: "string \<Rightarrow> sessions_result \<Rightarrow> wframe" where
  "hostSessionsMessage connectorId r =
     plain_frame ''host_sessions.updated''
       (jobj [(''host_sessions'', JArr (sr_host_sessions r)), (''connector_id'', JStr connectorId),
              (''synced_at'', JStr (sr_synced_at r)), (''snapshot'', JBool (sr_snapshot r))])"

definition connectorsMessage :: "json \<Rightarrow> string \<Rightarrow> wframe" where
  "connectorsMessage connector syncedAt =
     plain_frame ''connectors.updated'' (jobj [(''connectors'', JArr [connector]), (''synced_at'', JStr syncedAt)])"

definition appServerInstancesMessage :: "string \<Rightarrow> json list \<Rightarrow> string \<Rightarrow> bool option \<Rightarrow> wframe" where
  "appServerInstancesMessage connectorId instances syncedAt snapshot =
     plain_frame ''app_server_instances.updated''
       (jobj ([(''app_server_instances'', JArr instances), (''connector_id'', JStr connectorId),
               (''synced_at'', JStr syncedAt)] @ opt_entry ''snapshot'' JBool snapshot))"

text \<open>\<open>{ ...v, k: x }\<close>\<close>

definition with_entry :: "string \<Rightarrow> json \<Rightarrow> json \<Rightarrow> json" where
  "with_entry k x v = (case v of JObj m \<Rightarrow> JObj (obj_insert k x m) | _ \<Rightarrow> v)"

definition broadcastConnectorUpdate :: "string \<Rightarrow> bool \<Rightarrow> bool \<Rightarrow> unit worker" where
  "broadcastConnectorUpdate connectorId degraded includeOffline =
     tryE (call_db (GetSummary connectorId degraded includeOffline) ww_summary) (\<lambda>connector.
       case connector of
         None \<Rightarrow> wok ()
       | Some c \<Rightarrow>
           do { now \<leftarrow> date_now;
                iso \<leftarrow> gets ww_iso;
                broadcastToBrowsers (connectorsMessage
                  (if degraded
                   then with_entry ''updated_at'' (JStr (iso now))
                          (with_entry ''capabilities'' (JArr []) (with_entry ''status'' (JStr ''degraded'') c))
                   else c) (iso now)) })"

subsection \<open>The safety policy\<close>

definition assertDogfoodSafetyActionAllowed :: "string \<Rightarrow> (wworld, wfault + (string \<times> bool) option) state" where
  "assertDogfoodSafetyActionAllowed action =
     do { on_obj (note_action (WDb (SafetyCheck action)));
          others;
          r \<leftarrow> wask ww_safety;
          (case r of
             SafetyAllows \<Rightarrow> wok None
           | SafetyBlocks reason conservative \<Rightarrow> wok (Some (reason, conservative))
           | SafetyFails e \<Rightarrow> wthrow e) }"

definition canDispatchPendingCommands :: "bool worker" where
  "canDispatchPendingCommands =
     tryE (assertDogfoodSafetyActionAllowed ''command_create'') (\<lambda>blocked. wok (blocked = None))"

text \<open>Whether a refresh, and whether sending commands, is allowed.\<close>

definition hostSessionRefreshDecision :: "(bool \<times> bool) worker" where
  "hostSessionRefreshDecision =
     do { has_db \<leftarrow> gets ww_has_db;
          (if \<not> has_db then wok (False, True)
           else tryE (assertDogfoodSafetyActionAllowed ''host_session_refresh'') (\<lambda>blocked.
             wok (case blocked of None \<Rightarrow> (True, True) | Some (_, conservative) \<Rightarrow> (False, conservative)))) }"

subsection \<open>Commands\<close>

definition cleanupStaleExplicitAppServerCommandTargets :: "string \<Rightarrow> string list worker" where
  "cleanupStaleExplicitAppServerCommandTargets connectorId =
     tryE (call_db (CleanupStale connectorId) ww_cleanup) (\<lambda>r.
       tryE (for_each (\<lambda>e. broadcastToBrowsers (threadEventMessage e)) (cr_failed_events r)) (\<lambda>_.
         wok (cr_released r)))"

definition command_dispatch_frame :: "pending_command \<Rightarrow> wframe" where
  "command_dispatch_frame p =
     \<lparr> fr_kind = ''command.dispatch'', fr_payload = pc_payload p, fr_command_id = Some (pc_id p) \<rparr>"

text \<open>
  A command is noted for the socket before it is sent; a socket that cannot send gives it back
  and is no longer ready. \<open>again\<close> is \<open>sendPendingCommandsToAgents\<close>.
\<close>

definition send_or_forget :: "nat \<Rightarrow> string \<Rightarrow> pending_command \<Rightarrow> (wworld, bool) state" where
  "send_or_forget ws connectorId p =
     do { recordSocketCommand ws connectorId (pc_id p);
          r \<leftarrow> send_ws ws (command_dispatch_frame p);
          (case r of
             Inr _ \<Rightarrow> ret True
           | Inl _ \<Rightarrow> do { clearSocketCommand ws connectorId (pc_id p); ret False }) }"

definition dispatch_one ::
  "(string option \<Rightarrow> nat list worker) \<Rightarrow> nat \<Rightarrow> string \<Rightarrow> pending_command \<Rightarrow> unit worker" where
  "dispatch_one again ws connectorId p =
     do { sent \<leftarrow> send_or_forget ws connectorId p;
          (if sent then wok ()
           else do { markedUnavailable \<leftarrow> markSocketDispatchUnavailable ws connectorId;
                  tryE (mark_db (ReleaseLeased connectorId [pc_id p])) (\<lambda>_.
                    do { ready_peer \<leftarrow> obj (\<lambda>o'. hasReadyPeerAgentSocket o' connectorId ws);
                         tryE (if markedUnavailable \<and> \<not> ready_peer
                               then tryE (mark_db (MarkDegraded connectorId)) (\<lambda>_.
                                      broadcastConnectorUpdate connectorId True False)
                               else wok ()) (\<lambda>_.
                           if markedUnavailable then tryE (again (Some connectorId)) (\<lambda>_. wok ())
                           else wok ()) }) }) }"

definition send_pending_commands ::
  "(string option \<Rightarrow> nat list worker) \<Rightarrow> nat \<Rightarrow> string \<Rightarrow> bool \<Rightarrow> string list worker" where
  "send_pending_commands again ws connectorId skipStaleExplicitCleanup =
     do { ready \<leftarrow> obj (\<lambda>o'. isReadyAgentSocket o' connectorId ws);
          owed \<leftarrow> (if ready then hasPendingHostSessionsDispatchForConnector connectorId else ret False);
          (if \<not> ready \<or> owed then wok []
           else tryE canDispatchPendingCommands (\<lambda>can.
             if \<not> can then wok []
             else tryE (if skipStaleExplicitCleanup then wok ([], True)
                        else tryE (cleanupStaleExplicitAppServerCommandTargets connectorId) (\<lambda>released.
                               tryE canDispatchPendingCommands (\<lambda>can. wok (released, can)))) (\<lambda>(released, can).
               if \<not> can then wok released
               else tryE (call_db (PendingCommands connectorId) ww_commands) (\<lambda>dispatches.
                      tryE (for_each (dispatch_one again ws connectorId) dispatches) (\<lambda>_.
                        wok released))))) }"

text \<open>The connectors that get the commands, in the order of a \<open>Set\<close> that grows as it is walked.\<close>

fun cleanup_connectors :: "nat \<Rightarrow> string list \<Rightarrow> string list \<Rightarrow> string list \<Rightarrow> string list worker" where
  "cleanup_connectors 0 owing visited todo = ret (Inl WFuel)"
| "cleanup_connectors (Suc n) owing visited todo =
     (case todo of
        [] \<Rightarrow> wok visited
      | c # rest \<Rightarrow>
          (if c \<in> set owing then cleanup_connectors n owing (visited @ [c]) rest
           else tryE (cleanupStaleExplicitAppServerCommandTargets c) (\<lambda>released.
             cleanup_connectors n owing (visited @ [c])
               (rest @ filter (\<lambda>r. r \<notin> set (visited @ todo)) (js_set released)))))"

text \<open>The connectors of the sockets, and those that owe a report, in the order they are met.\<close>

fun connectors_of :: "nat list \<Rightarrow> (wworld, string list \<times> string list) state" where
  "connectors_of [] = ret ([], [])"
| "connectors_of (ws # rest) =
     do { connectorId \<leftarrow> obj (\<lambda>o'. Option.bind (attachment_of o' ws) at_connectorId);
          here \<leftarrow> (case connectorId of
             None \<Rightarrow> ret ([], [])
           | Some c \<Rightarrow>
               (if c = [] then ret ([], [])
                else do { owed \<leftarrow> hasPendingHostSessionsDispatch c ws; ret ([c], if owed then [c] else []) }));
          more \<leftarrow> connectors_of rest;
          ret (fst here @ fst more, snd here @ snd more) }"

text \<open>One socket per connector: the ready one connected last of a connector that owes no report.\<close>

fun target_sockets :: "string list \<Rightarrow> (wworld, nat list) state" where
  "target_sockets [] = ret []"
| "target_sockets (c # cs) =
     do { o' \<leftarrow> obj id;
          let tagged = getWebSockets (agent_tag c) o';
          owed \<leftarrow> some_pending c tagged;
          o' \<leftarrow> obj id;
          more \<leftarrow> target_sockets cs;
          ret ((if owed then [] else take 1 (agentSocketsForConnector o' c tagged)) @ more) }"

fun ready_sockets :: "string list \<Rightarrow> nat list \<Rightarrow> string list \<Rightarrow> (wworld, nat list) state" where
  "ready_sockets owing sockets [] = ret []"
| "ready_sockets owing sockets (c # cs) =
     do { here \<leftarrow> (if c \<in> set owing then ret []
                   else do { ready \<leftarrow> filter_dispatch_ready c sockets;
                             o' \<leftarrow> obj id;
                             ret (take 1 (latest_first o' ready)) });
          more \<leftarrow> ready_sockets owing sockets cs;
          ret (here @ more) }"

definition send_to_socket :: "(string option \<Rightarrow> nat list worker) \<Rightarrow> nat \<Rightarrow> string list worker" where
  "send_to_socket again ws =
     do { connectorId \<leftarrow> obj (\<lambda>o'. Option.bind (attachment_of o' ws) at_connectorId);
          (case connectorId of
             None \<Rightarrow> wok []
           | Some c \<Rightarrow> (if c = [] then wok [] else send_pending_commands again ws c True)) }"

definition send_to_agents ::
  "(string option \<Rightarrow> nat list worker) \<Rightarrow> nat \<Rightarrow> string option \<Rightarrow> nat list worker" where
  "send_to_agents again fuel connector =
     tryE canDispatchPendingCommands (\<lambda>can.
       if \<not> can then wok []
       else case connector of
         Some (c # cs) \<Rightarrow>
           do { sockets \<leftarrow> obj (getWebSockets (agent_tag (c # cs)));
                owed \<leftarrow> some_pending (c # cs) sockets;
                (if owed then wok []
                 else tryE (cleanupStaleExplicitAppServerCommandTargets (c # cs)) (\<lambda>released.
                   tryE canDispatchPendingCommands (\<lambda>can.
                     if \<not> can then wok []
                     else do { targets \<leftarrow> target_sockets (js_set ((c # cs) # released));
                               (if targets = [] then wok []
                                else tryE (promise_all (send_to_socket again) targets) (\<lambda>_. wok targets)) }))) }
       | _ \<Rightarrow>
           do { sockets \<leftarrow> obj (getWebSockets ''agent'');
                found \<leftarrow> connectors_of sockets;
                tryE (cleanup_connectors fuel (snd found) [] (js_set (fst found))) (\<lambda>connectorIds.
                  tryE canDispatchPendingCommands (\<lambda>can.
                    if \<not> can then wok []
                    else do { targets \<leftarrow> ready_sockets (snd found) sockets connectorIds;
                              tryE (promise_all (send_to_socket again) targets) (\<lambda>_. wok targets) })) })"

fun sendPendingCommandsToAgents :: "nat \<Rightarrow> string option \<Rightarrow> nat list worker" where
  "sendPendingCommandsToAgents 0 connector = ret (Inl WFuel)"
| "sendPendingCommandsToAgents (Suc n) connector = send_to_agents (sendPendingCommandsToAgents n) n connector"

definition sendPendingCommands :: "nat \<Rightarrow> nat \<Rightarrow> string \<Rightarrow> bool \<Rightarrow> string list worker" where
  "sendPendingCommands fuel = send_pending_commands (sendPendingCommandsToAgents fuel)"

definition sendPendingCommandsAndReleased :: "nat \<Rightarrow> nat \<Rightarrow> string \<Rightarrow> unit worker" where
  "sendPendingCommandsAndReleased fuel ws connectorId =
     tryE (sendPendingCommands fuel ws connectorId False) (\<lambda>released.
       for_each (\<lambda>r. if r \<noteq> connectorId then tryE (sendPendingCommandsToAgents fuel (Some r)) (\<lambda>_. wok ())
                     else wok ()) released)"

definition dispatchPending :: "nat \<Rightarrow> string option \<Rightarrow> nat worker" where
  "dispatchPending fuel connector =
     tryE (sendPendingCommandsToAgents fuel connector) (\<lambda>sockets. wok (length sockets))"

subsection \<open>Refreshes\<close>

text \<open>The latest ready socket of every connector, in the order in which a \<open>Map\<close> was given them.\<close>

definition latest_ready_sockets :: "wobject \<Rightarrow> (string \<times> nat) list" where
  "latest_ready_sockets o' =
     foldl (\<lambda>m ws. case Option.bind (attachment_of o' ws) at_connectorId of
         None \<Rightarrow> m
       | Some c \<Rightarrow>
           (if c = [] \<or> \<not> isReadyAgentSocket o' c ws then m
            else case map_of m c of
              None \<Rightarrow> AList.update c ws m
            | Some previous \<Rightarrow>
                (if socketConnectedAt o' previous < socketConnectedAt o' ws then AList.update c ws m else m)))
       [] (getWebSockets ''agent'' o')"

text \<open>How many connectors are asked for their sessions, and how many are left for later.\<close>

fun refresh_each :: "int \<Rightarrow> (string \<times> nat) list \<Rightarrow> (nat \<times> nat) worker" where
  "refresh_each now [] = wok (0, 0)"
| "refresh_each now ((c, ws) # rest) =
     do { lastSentAt \<leftarrow> obj (\<lambda>o'. wo_refresh_sent o' c);
          tryE (if (case lastSentAt of Some t \<Rightarrow> now - t < host_sessions_refresh_cooldown_ms | None \<Rightarrow> False)
                then wok False
                else dispatchHostSessionsRefreshToSocket ws c now) (\<lambda>sent.
            tryE (refresh_each now rest) (\<lambda>(d, b). wok (if sent then (Suc d, b) else (d, Suc b)))) }"

definition refreshHostSessions :: "(nat \<times> nat) worker" where
  "refreshHostSessions =
     do { targets \<leftarrow> obj latest_ready_sockets;
          now \<leftarrow> date_now;
          refresh_each now targets }"

end
