(* ===== verification/Worker_Requests.thy ===== *)
theory Worker_Requests
  imports Worker_Dispatch
begin

text \<open>
  Requests the workspace object passes on to a connector (\<open>workspace-do.ts\<close>): a promise that the
  connector's answer resolves and a timer rejects, found by the kind of the request and its id.
  A handler that passes one on answers at once or when its promise is settled (\<open>http\<close>); how it
  then answers is a function of the promise.
\<close>

subsection \<open>Promises and their timers\<close>

fun request_timeout_ms :: "request_kind \<Rightarrow> int" where
  "request_timeout_ms ThreadCreate = 15000"
| "request_timeout_ms AppServerEnsure = 15000"
| "request_timeout_ms Backfill = 15000"
| "request_timeout_ms ArchiveSync = 20000"
| "request_timeout_ms TurnInteraction = 10000"

fun timeout_text :: "request_kind \<Rightarrow> string" where
  "timeout_text ThreadCreate = ''Connector timed out while creating the local thread''"
| "timeout_text Backfill = ''Connector timed out while backfilling the host session''"
| "timeout_text AppServerEnsure = ''Connector timed out while attaching the host session through app-server''"
| "timeout_text ArchiveSync = ''Connector timed out while syncing the thread archive state''"
| "timeout_text TurnInteraction = ''Connector timed out while receiving the turn interaction response''"

text \<open>A promise keeps the value it was given first.\<close>

definition settle :: "nat \<Rightarrow> promise \<Rightarrow> request list \<Rightarrow> request list" where
  "settle n p rs = (if n < length rs \<and> rq_promise (rs ! n) = Waiting then rs[n := (rs ! n)\<lparr>rq_promise := p\<rparr>] else rs)"

definition end_request :: "nat \<Rightarrow> request_kind \<Rightarrow> string \<Rightarrow> promise \<Rightarrow> wobject \<Rightarrow> wobject" where
  "end_request n kind request_id p o' =
     o'\<lparr>wo_timers := (wo_timers o')(n := None),
        wo_pending := (wo_pending o')((kind, request_id) := None),
        wo_requests := settle n p (wo_requests o')\<rparr>"

definition timer_fires :: "int \<Rightarrow> nat \<Rightarrow> wobject \<Rightarrow> wobject" where
  "timer_fires now n o' =
     (case wo_timers o' n of
        None \<Rightarrow> o'
      | Some (kind, request_id, due) \<Rightarrow>
          (if now < due then o' else end_request n kind request_id (Rejected (timeout_text kind)) o'))"

definition begin_request :: "request_kind \<Rightarrow> string \<Rightarrow> int \<Rightarrow> wobject \<Rightarrow> wobject" where
  "begin_request kind request_id now o' =
     (let n = length (wo_requests o')
      in o'\<lparr>wo_timers := (wo_timers o')(n \<mapsto> (kind, request_id, now + request_timeout_ms kind)),
            wo_pending := (wo_pending o')((kind, request_id) \<mapsto> n),
            wo_requests := wo_requests o' @ [\<lparr> rq_kind = kind, rq_id = request_id, rq_promise = Waiting \<rparr>]\<rparr>)"

fun fault_text :: "wfault \<Rightarrow> string" where
  "fault_text (Thrown e) = e"
| "fault_text WFuel = []"

definition waitForRequest :: "request_kind \<Rightarrow> string \<Rightarrow> unit worker \<Rightarrow> (wworld, nat \<times> bool) state" where
  "waitForRequest kind request_id send =
     do { n \<leftarrow> obj (\<lambda>o'. length (wo_requests o'));
          now \<leftarrow> date_now;
          on_obj (begin_request kind request_id now);
          r \<leftarrow> send;
          (case r of
             Inr _ \<Rightarrow> ret (n, True)
           | Inl e \<Rightarrow>
               do { on_obj (end_request n kind request_id (Rejected (fault_text e)));
                    ret (n, False) }) }"

definition resolve_request :: "request_kind \<Rightarrow> json \<Rightarrow> wobject \<Rightarrow> wobject" where
  "resolve_request kind result o' =
     (case jget_str result ''request_id'' of
        None \<Rightarrow> o'
      | Some request_id \<Rightarrow>
          (case wo_pending o' (kind, request_id) of
             None \<Rightarrow> o'
           | Some n \<Rightarrow> end_request n kind request_id (Resolved result) o'))"

subsection \<open>Answers to the control plane\<close>

text \<open>Answered at once, or when a promise is settled; with whether the request was sent.\<close>

datatype http = Answer nat json | Awaits nat bool

definition error_answer :: "nat \<Rightarrow> string \<Rightarrow> nat \<times> json" where
  "error_answer status message = (status, jobj [(''error'', JStr message)])"

text \<open>\<open>result.error ?? message\<close>\<close>

definition error_or :: "json \<Rightarrow> string \<Rightarrow> json" where
  "error_or result message =
     (case jget result ''error'' of Some v \<Rightarrow> (if v = JNull then JStr message else v) | None \<Rightarrow> JStr message)"

text \<open>
  Only answers that passed their guard get here (\<open>handle_result\<close>): there \<open>ok\<close> and \<open>accepted\<close> are booleans and a
  \<open>session\<close> is an object, so that a test for truth asks for \<open>true\<close>, or for the member at all.
\<close>

definition jtrue :: "json \<Rightarrow> string \<Rightarrow> bool" where
  "jtrue v k \<longleftrightarrow> jget v k = Some (JBool True)"

definition session_answer :: "string \<Rightarrow> json \<Rightarrow> nat \<times> json" where
  "session_answer message result =
     (case jget result ''session'' of
        Some session \<Rightarrow>
          (if jtrue result ''ok'' then (200, jobj [(''session'', session)])
           else (502, jobj [(''error'', error_or result message)]))
      | None \<Rightarrow> (502, jobj [(''error'', error_or result message)]))"

definition backfill_answer :: "json \<Rightarrow> nat \<times> json" where
  "backfill_answer result =
     (if \<not> jtrue result ''ok''
      then (502, jobj [(''error'', error_or result ''Connector could not backfill the host session'')])
      else (200, jobj [(''events'', case jget result ''events'' of Some v \<Rightarrow> v | None \<Rightarrow> JArr []),
                       (''truncated'', JBool (jtrue result ''truncated''))]))"

definition archive_answer :: "json \<Rightarrow> nat \<times> json" where
  "archive_answer result =
     (if \<not> jtrue result ''ok''
      then (502, jobj [(''error'', error_or result ''Connector could not sync the thread archive state'')])
      else (200, jobj [(''ok'', JBool True),
                       (''synced'', JBool (jget result ''synced'' \<noteq> Some (JBool False)))]))"

definition delivery_state :: "json \<Rightarrow> string \<Rightarrow> json" where
  "delivery_state e state = jobj [(''error'', e), (''delivery_state'', JStr state)]"

definition interaction_answer :: "json \<Rightarrow> nat \<times> json" where
  "interaction_answer ack =
     (if jtrue ack ''accepted'' then (200, jobj [(''accepted'', JBool True)])
      else (409, delivery_state (error_or ack ''Connector did not accept the turn interaction response'') ''rejected''))"

definition request_answer :: "request_kind \<Rightarrow> bool \<Rightarrow> promise \<Rightarrow> (nat \<times> json) option" where
  "request_answer kind sent p =
     (case p of
        Waiting \<Rightarrow> None
      | Rejected message \<Rightarrow>
          Some (if kind = TurnInteraction
                then (if sent then 504 else 409,
                      delivery_state (JStr message) (if sent then ''sent_unknown'' else ''not_sent''))
                else error_answer 504 message)
      | Resolved result \<Rightarrow>
          Some (case kind of
             ThreadCreate \<Rightarrow> session_answer ''Connector could not create the local thread'' result
           | AppServerEnsure \<Rightarrow>
               session_answer ''Connector could not attach the host session through app-server'' result
           | Backfill \<Rightarrow> backfill_answer result
           | ArchiveSync \<Rightarrow> archive_answer result
           | TurnInteraction \<Rightarrow> interaction_answer result))"

subsection \<open>Passing requests on\<close>

text \<open>
  The four handlers differ in the guard, the kind and the texts. \<open>body\<close> is the parsed body of
  the request; a body that is no JSON counts as empty, \<open>null\<close> throws at its first property.
\<close>

definition forward_request ::
  "request_kind \<Rightarrow> (json \<Rightarrow> bool) \<Rightarrow> string \<Rightarrow> string \<Rightarrow> string + json \<Rightarrow> http worker" where
  "forward_request kind guard frame_kind invalid body =
     (let payload = (case body of Inr v \<Rightarrow> v | Inl _ \<Rightarrow> jobj [])
      in if payload = JNull then wthrow ''Cannot read properties of null''
      else case jget_str payload ''connector_id'' of
        Some (c # cs) \<Rightarrow>
          (if \<not> guard payload then wok (Answer 400 (jobj [(''error'', JStr invalid)]))
           else do { o' \<leftarrow> obj id;
                (case agentSocketsForConnector o' (c # cs) (getWebSockets (agent_tag (c # cs)) o') of
                   [] \<Rightarrow> wok (Answer 404 (jobj [(''error'', JStr ''Connector is not connected'')]))
                 | ws # _ \<Rightarrow>
                     do { w \<leftarrow> waitForRequest kind (case jget_str payload ''request_id'' of Some i \<Rightarrow> i | None \<Rightarrow> [])
                            (send_ws ws (plain_frame frame_kind payload));
                          wok (Awaits (fst w) (snd w)) }) })
      | _ \<Rightarrow> wok (Answer 400 (jobj [(''error'', JStr ''Missing connector_id'')])))"

definition createLocalThread :: "string + json \<Rightarrow> http worker" where
  "createLocalThread =
     forward_request ThreadCreate isLocalThreadCreateDispatch ''thread.create'' ''Invalid local thread create payload''"

definition backfillHostSession :: "string + json \<Rightarrow> http worker" where
  "backfillHostSession =
     forward_request Backfill isHostSessionBackfillDispatch ''host_session.backfill''
       ''Invalid host session backfill payload''"

definition ensureHostSessionAppServer :: "string + json \<Rightarrow> http worker" where
  "ensureHostSessionAppServer =
     forward_request AppServerEnsure isHostSessionAppServerEnsureDispatch ''host_session.app_server_ensure''
       ''Invalid host session app-server ensure payload''"

definition syncThreadArchive :: "string + json \<Rightarrow> http worker" where
  "syncThreadArchive =
     forward_request ArchiveSync isThreadArchiveSyncDispatch ''thread.archive_sync''
       ''Invalid thread archive sync payload''"

text \<open>The decision of the user goes to the socket that runs the command, under a fresh request id.\<close>

definition interaction_frame :: "string \<Rightarrow> json \<Rightarrow> string \<Rightarrow> wframe" where
  "interaction_frame command_id dispatch request_id =
     \<lparr> fr_kind = ''turn.interaction_response'',
       fr_payload = with_entry ''request_id'' (JStr request_id) dispatch, fr_command_id = Some command_id \<rparr>"

definition resolveTurnInteraction :: "string + json \<Rightarrow> http worker" where
  "resolveTurnInteraction body =
     (case body of
        Inr dispatch \<Rightarrow>
          (case (if isTurnInteractionResponseDispatch dispatch then jget_str dispatch ''command_id'' else None) of
             None \<Rightarrow> wok (Answer 400 (jobj [(''error'', JStr ''Invalid turn interaction dispatch'')]))
           | Some command_id \<Rightarrow>
               do { socket \<leftarrow> obj (\<lambda>o'. agentSocketForActiveCommand o' command_id);
                    (case socket of
                       None \<Rightarrow> wok (Answer 409 (delivery_state
                                (JStr ''No active connector socket is handling this turn'') ''not_sent''))
                     | Some ws \<Rightarrow>
                         do { bits \<leftarrow> wask ww_random;
                              let request_id = ''turn-interaction-'' @ take 16 bits;
                              w \<leftarrow> waitForRequest TurnInteraction request_id
                                (send_ws ws (interaction_frame command_id dispatch request_id));
                              wok (Awaits (fst w) (snd w)) }) })
      | Inl _ \<Rightarrow> wok (Answer 400 (jobj [(''error'', JStr ''Invalid turn interaction dispatch'')])))"

end
