(* ===== verification/Worker_Object.thy ===== *)
theory Worker_Object
  imports Worker_Requests
begin

text \<open>
  The handlers of the workspace object (\<open>workspace-do.ts\<close>): a socket that opens, a message of a
  connector, a socket that is gone, events to pass on to the browsers.
\<close>

subsection \<open>A socket opens\<close>

definition fresh_socket :: "wobject \<Rightarrow> nat" where
  "fresh_socket o' = Suc (foldr max (map fst (wo_sockets o')) 0)"

definition add_socket :: "bool \<Rightarrow> string option \<Rightarrow> int \<Rightarrow> wobject \<Rightarrow> wobject" where
  "add_socket agent connectorId now o' =
     (let socketType = (if agent then ''agent'' else ''browser'');
          tags = (case connectorId of
            Some (c # cs) \<Rightarrow> [socketType, socketType @ '':'' @ c # cs]
          | _ \<Rightarrow> [socketType])
      in o'\<lparr>wo_sockets := wo_sockets o' @ [(fresh_socket o', \<lparr> sk_tags = tags, sk_open = True,
           sk_attachment = Some (no_attachment\<lparr>at_socketType := Some socketType, at_connectorId := connectorId,
             at_connectedAt := Some now\<rparr>) \<rparr>)]\<rparr>)"

definition accept_socket :: "bool \<Rightarrow> string option \<Rightarrow> unit worker" where
  "accept_socket agent connectorId =
     do { ws \<leftarrow> obj fresh_socket;
          now \<leftarrow> date_now;
          on_obj (add_socket agent connectorId now);
          send_ws ws (plain_frame ''server.hello''
            (jobj [(''socket_type'', JStr (if agent then ''agent'' else ''browser''))])) }"

text \<open>The connection itself closes: the socket is no longer listed.\<close>

definition close_socket_of :: "nat \<Rightarrow> wobject \<Rightarrow> wobject" where
  "close_socket_of ws o' =
     o'\<lparr>wo_sockets := map (\<lambda>(s, k). (s, if s = ws then k\<lparr>sk_open := False\<rparr> else k)) (wo_sockets o')\<rparr>"

subsection \<open>Reports of the instances\<close>

definition app_server_report_cache_ms :: int where "app_server_report_cache_ms = 60000"

definition member_or :: "json \<Rightarrow> string \<Rightarrow> json \<Rightarrow> json" where
  "member_or v k d = (case jget v k of Some x \<Rightarrow> (if x = JNull then d else x) | None \<Rightarrow> d)"

definition json_items :: "json \<Rightarrow> string \<Rightarrow> json list" where
  "json_items v k = (case jget v k of Some (JArr xs) \<Rightarrow> xs | _ \<Rightarrow> [])"

definition instance_fingerprint :: "json \<Rightarrow> json" where
  "instance_fingerprint i =
     jobj [(''instance_key'', member_or i ''instance_key'' JNull), (''scope'', member_or i ''scope'' JNull),
           (''workspace_id'', member_or i ''workspace_id'' (JStr [])),
           (''thread_id'', member_or i ''thread_id'' (JStr [])),
           (''endpoint_type'', member_or i ''endpoint_type'' JNull), (''state'', member_or i ''state'' JNull),
           (''active_turn_count'', member_or i ''active_turn_count'' (JNum (PosInt 0))),
           (''generation'', member_or i ''generation'' (JNum (PosInt 0))),
           (''status_summary'', member_or i ''status_summary'' (JStr [])),
           (''last_error'', member_or i ''last_error'' (JStr []))]"

definition cacheableAppServerReportFingerprint :: "(json \<Rightarrow> string) \<Rightarrow> json \<Rightarrow> string option" where
  "cacheableAppServerReportFingerprint print report =
     (let instances = json_items report ''instances''
      in if jtrue report ''snapshot'' \<or> instances = [] then None
         else if list_ex (\<lambda>i. jget i ''state'' \<noteq> Some (JStr ''healthy'')) instances then None
         else Some (print (JArr (map instance_fingerprint instances))))"

definition shouldSkipDuplicateAppServerReport :: "string \<Rightarrow> string option \<Rightarrow> (wworld, bool) state" where
  "shouldSkipDuplicateAppServerReport connectorId fingerprint =
     do { now \<leftarrow> date_now;
          cached \<leftarrow> obj (\<lambda>o'. wo_report_cache o' connectorId);
          ret (case (fingerprint, cached) of
                 (Some f, Some (f', acceptedAt)) \<Rightarrow>
                   f \<noteq> [] \<and> f' = f \<and> now - acceptedAt < app_server_report_cache_ms
               | _ \<Rightarrow> False) }"

definition rememberAppServerReport :: "string \<Rightarrow> string option \<Rightarrow> (wworld, unit) state" where
  "rememberAppServerReport connectorId fingerprint =
     do { now \<leftarrow> date_now;
          on_obj (\<lambda>o'. o'\<lparr>wo_report_cache := (wo_report_cache o')(connectorId :=
            (case fingerprint of Some f \<Rightarrow> (if f = [] then None else Some (f, now)) | None \<Rightarrow> None))\<rparr>) }"

subsection \<open>A message of a connector\<close>

definition reply :: "nat \<Rightarrow> worker_reply \<Rightarrow> unit worker" where
  "reply ws r =
     (case reply_envelope r of
        None \<Rightarrow> wok ()
      | Some e \<Rightarrow> send_ws ws (plain_frame (en_kind e) (en_payload e)))"

text \<open>What follows when an agent has become ready, or has other capabilities.\<close>

definition after_ready :: "nat \<Rightarrow> nat \<Rightarrow> string \<Rightarrow> unit worker" where
  "after_ready fuel ws connectorId =
     tryE hostSessionRefreshDecision (\<lambda>(refreshAllowed, pendingDispatchAllowed).
       do { now \<leftarrow> date_now;
            tryE (if refreshAllowed
                  then tryE (dispatchHostSessionsRefreshToSocket ws connectorId now) (\<lambda>_. wok ())
                  else wok ()) (\<lambda>_.
              tryE (broadcastConnectorUpdate connectorId False False) (\<lambda>_.
                if pendingDispatchAllowed then sendPendingCommandsAndReleased fuel ws connectorId
                else wok ())) })"

definition handle_agent_ready :: "nat \<Rightarrow> nat \<Rightarrow> string \<Rightarrow> json option \<Rightarrow> unit worker" where
  "handle_agent_ready fuel ws connectorId payload =
     (let ready = (case payload of Some p \<Rightarrow> (if isAgentReadyPayload p then Some p else None) | None \<Rightarrow> None)
      in if payload \<noteq> None \<and> payload \<noteq> Some JNull \<and> ready = None
         then reply ws (ReplyError ''Invalid agent.ready payload'')
         else do { wasReady \<leftarrow> obj (\<lambda>o'. isReadyAgentSocket o' connectorId ws);
                tryE (case ready of
                        None \<Rightarrow> wok False
                      | Some p \<Rightarrow> call_db (UpdateCapabilities connectorId p) ww_changed) (\<lambda>capabilitiesChanged.
                  do { markAgentReady ws connectorId;
                       tryE (reply ws (agent_ready_reply payload)) (\<lambda>_.
                         tryE (if ready \<noteq> None \<and> (\<not> wasReady \<or> capabilitiesChanged)
                               then after_ready fuel ws connectorId else wok ()) (\<lambda>_.
                           if ready = None \<and> \<not> wasReady
                           then tryE (mark_db (MarkOnline connectorId)) (\<lambda>_. after_ready fuel ws connectorId)
                           else wok ())) }) })"

definition handle_host_sessions :: "nat \<Rightarrow> nat \<Rightarrow> string \<Rightarrow> json \<Rightarrow> unit worker" where
  "handle_host_sessions fuel ws connectorId p =
     tryE hostSessionRefreshDecision (\<lambda>(refreshAllowed, pendingDispatchAllowed).
       if \<not> refreshAllowed
       then tryE (reply ws (host_sessions_reply \<lparr> wa_refresh_allowed = False, wa_blocked = None, wa_accepted = False,
                    wa_count = 0, wa_synced_at = [], wa_deduped = False \<rparr>)) (\<lambda>_.
              do { owed \<leftarrow> consumePendingHostSessionsDispatch ws connectorId;
                   (if owed \<and> pendingDispatchAllowed then sendPendingCommandsAndReleased fuel ws connectorId
                    else wok ()) })
       else tryE (call_db (RecordHostSessions connectorId p) ww_sessions) (\<lambda>result.
              tryE (reply ws (host_sessions_reply \<lparr> wa_refresh_allowed = True, wa_blocked = None, wa_accepted = True,
                      wa_count = length (sr_host_sessions result), wa_synced_at = sr_synced_at result,
                      wa_deduped = False \<rparr>)) (\<lambda>_.
                tryE (broadcastToBrowsers (hostSessionsMessage connectorId result)) (\<lambda>_.
                  tryE (for_each (\<lambda>e. broadcastToBrowsers (threadEventMessage e)) (sr_failed_events result)) (\<lambda>_.
                    tryE (for_each (\<lambda>c. tryE (sendPendingCommandsToAgents fuel (Some c)) (\<lambda>_. wok ()))
                            (sr_released result)) (\<lambda>_.
                      do { owed \<leftarrow> consumePendingHostSessionsDispatch ws connectorId;
                           (if owed then sendPendingCommandsAndReleased fuel ws connectorId else wok ()) }))))))"

definition handle_app_server_instances :: "nat \<Rightarrow> string \<Rightarrow> json option \<Rightarrow> unit worker" where
  "handle_app_server_instances ws connectorId payload =
     (case payload of
        None \<Rightarrow> reply ws (ReplyError ''Invalid agent.app_server_instances payload'')
      | Some p \<Rightarrow>
          (if \<not> isAgentAppServerInstancesReport p
           then reply ws (ReplyError ''Invalid agent.app_server_instances payload'')
           else tryE (assertDogfoodSafetyActionAllowed ''app_server_instances_report'') (\<lambda>blocked.
             case blocked of
               Some (reason, _) \<Rightarrow>
                 reply ws (app_server_instances_reply \<lparr> wa_refresh_allowed = True, wa_blocked = Some reason,
                   wa_accepted = False, wa_count = 0, wa_synced_at = [], wa_deduped = False \<rparr> p)
             | None \<Rightarrow>
                 do { print \<leftarrow> gets ww_print;
                      let fingerprint = cacheableAppServerReportFingerprint print p;
                      deduped \<leftarrow> shouldSkipDuplicateAppServerReport connectorId fingerprint;
                      now \<leftarrow> date_now;
                      iso \<leftarrow> gets ww_iso;
                      tryE (if deduped
                            then wok \<lparr> ir_instances = [], ir_synced_at = iso now, ir_snapshot = jtrue p ''snapshot'' \<rparr>
                            else tryE (call_db (RecordInstances connectorId p) ww_instances) (\<lambda>r.
                                   do { rememberAppServerReport connectorId fingerprint; wok r })) (\<lambda>result.
                        tryE (reply ws (app_server_instances_reply \<lparr> wa_refresh_allowed = True, wa_blocked = None,
                                wa_accepted = True, wa_count = length (ir_instances result),
                                wa_synced_at = ir_synced_at result, wa_deduped = deduped \<rparr> p)) (\<lambda>_.
                          if ir_instances result \<noteq> [] \<or> ir_snapshot result
                          then broadcastToBrowsers (appServerInstancesMessage connectorId (ir_instances result)
                                 (ir_synced_at result) (Some (ir_snapshot result)))
                          else wok ())) })))"

definition is_final :: "json option \<Rightarrow> bool" where
  "is_final kind \<longleftrightarrow> kind \<in> {Some (JStr ''command.finished''), Some (JStr ''command.failed'')}"

definition handle_agent_event :: "nat \<Rightarrow> nat \<Rightarrow> string \<Rightarrow> json \<Rightarrow> unit worker" where
  "handle_agent_event fuel ws connectorId p =
     (let kind = jget p ''kind'';
          commandId = (case jget_str p ''command_id'' of Some c \<Rightarrow> c | None \<Rightarrow> []);
          progress = (\<not> is_final kind \<and> kind \<noteq> Some (JStr ''command.started''))
      in tryE (if progress then assertDogfoodSafetyActionAllowed ''agent_event'' else wok None) (\<lambda>blocked.
           case blocked of
             Some (reason, _) \<Rightarrow>
               reply ws (agent_event_reply \<lparr> wa_refresh_allowed = True, wa_blocked = Some reason, wa_accepted = False,
                 wa_count = 0, wa_synced_at = [], wa_deduped = False \<rparr> p)
           | None \<Rightarrow>
               tryE (call_db (RecordEvent connectorId p) ww_event) (\<lambda>result.
                 tryE (reply ws (agent_event_reply \<lparr> wa_refresh_allowed = True, wa_blocked = None,
                         wa_accepted = er_accepted result, wa_count = 0, wa_synced_at = [], wa_deduped = False \<rparr> p)) (\<lambda>_.
                   tryE (case er_event result of
                           None \<Rightarrow> wok ()
                         | Some e \<Rightarrow> broadcastToBrowsers (threadEventMessage e)) (\<lambda>_.
                     let final = is_final kind \<or> (case er_event result of None \<Rightarrow> False | Some e \<Rightarrow> is_final (jget e ''kind''))
                     in if er_accepted result \<and> final
                        then do { clearSocketCommand ws connectorId commandId;
                                  sendPendingCommandsAndReleased fuel ws connectorId }
                        else if \<not> er_accepted result \<and> er_dispatch_pending result
                        then do { clearSocketCommand ws connectorId commandId;
                                  tryE (sendPendingCommandsToAgents fuel None) (\<lambda>_. wok ()) }
                        else if \<not> er_accepted result \<and> final
                        then do { clearSocketCommand ws connectorId commandId;
                                  sendPendingCommandsAndReleased fuel ws connectorId }
                        else wok ())))))"

definition handle_result :: "nat \<Rightarrow> request_kind \<Rightarrow> string \<Rightarrow> json \<Rightarrow> unit worker" where
  "handle_result ws kind frame_kind p =
     do { on_obj (resolve_request kind p);
          reply ws (result_reply frame_kind p) }"

definition handleAgentMessage :: "nat \<Rightarrow> nat \<Rightarrow> string \<Rightarrow> string \<Rightarrow> string + json \<Rightarrow> unit worker" where
  "handleAgentMessage fuel ws connectorId text parsed =
     (case parseMessage parsed of
        None \<Rightarrow> reply ws (ReplyError ''Invalid JSON'')
      | Some message \<Rightarrow>
          (let kind = (\<lambda>k. jget message ''kind'' = Some (JStr k));
               payload = has message ''payload'';
               p = (case jget message ''payload'' of Some p \<Rightarrow> p | None \<Rightarrow> JNull);
               malformed = malformedTurnInteractionEvent p
           in if kind ''agent.ready'' then handle_agent_ready fuel ws connectorId (jget message ''payload'')
              else if kind ''agent.host_sessions'' \<and> payload isAgentHostSessionsReport
              then handle_host_sessions fuel ws connectorId p
              else if kind ''agent.app_server_instances''
              then handle_app_server_instances ws connectorId (jget message ''payload'')
              else if kind ''agent.event'' \<and> malformed \<noteq> None then reply ws (malformed_event_reply (the malformed))
              else if kind ''agent.event'' \<and> payload isAgentCommandEvent then handle_agent_event fuel ws connectorId p
              else if kind ''thread.create_result'' \<and> payload isLocalThreadCreateResult
              then handle_result ws ThreadCreate ''thread.create_result'' p
              else if kind ''host_session.backfill_result'' \<and> payload isHostSessionBackfillResult
              then handle_result ws Backfill ''host_session.backfill_result'' p
              else if kind ''host_session.app_server_ensure_result'' \<and> payload isHostSessionAppServerEnsureResult
              then handle_result ws AppServerEnsure ''host_session.app_server_ensure_result'' p
              else if kind ''thread.archive_sync_result'' \<and> payload isThreadArchiveSyncResult
              then handle_result ws ArchiveSync ''thread.archive_sync_result'' p
              else if kind ''turn.interaction_response_ack'' \<and> payload isTurnInteractionResponseAck
              then do { on_obj (resolve_request TurnInteraction p); wok () }
              else reply ws (ReplyAck (jobj [(''received'', JNum (PosInt (js_length text)))]))))"

definition webSocketMessage :: "nat \<Rightarrow> nat \<Rightarrow> string \<Rightarrow> string + json \<Rightarrow> unit worker" where
  "webSocketMessage fuel ws text parsed =
     do { attachment \<leftarrow> obj (\<lambda>o'. attachment_of o' ws);
          (case Option.bind attachment (\<lambda>a. if at_socketType a = Some ''agent'' then at_connectorId a else None) of
             Some (c # cs) \<Rightarrow> handleAgentMessage fuel ws (c # cs) text parsed
           | _ \<Rightarrow> reply ws (ReplyAck (jobj [(''received'', JNum (PosInt (js_length text)))]))) }"

subsection \<open>A socket is gone\<close>

definition handle_unready :: "string \<Rightarrow> bool \<Rightarrow> unit worker" where
  "handle_unready connectorId hasAuthenticatedPeer =
     do { now \<leftarrow> date_now;
          iso \<leftarrow> gets ww_iso;
          on_obj (\<lambda>o'. o'\<lparr>wo_report_cache := (wo_report_cache o')(connectorId := None)\<rparr>);
          tryE (assertDogfoodSafetyActionAllowed ''app_server_instances_report'') (\<lambda>blocked.
            tryE (if blocked \<noteq> None then wok ()
                  else tryE (call_db (MarkStopped connectorId (iso now)) ww_events) (\<lambda>stopped.
                         if stopped \<noteq> []
                         then broadcastToBrowsers (appServerInstancesMessage connectorId stopped (iso now) None)
                         else wok ())) (\<lambda>_.
              if hasAuthenticatedPeer
              then tryE (mark_db (MarkDegraded connectorId)) (\<lambda>_. broadcastConnectorUpdate connectorId True False)
              else wok ())) }"

definition handleSocketGone :: "nat \<Rightarrow> unit worker" where
  "handleSocketGone ws =
     do { attachment \<leftarrow> obj (\<lambda>o'. attachment_of o' ws);
          (case Option.bind attachment (\<lambda>a. if at_socketType a = Some ''agent'' then at_connectorId a else None) of
             Some (c # cs) \<Rightarrow>
               do { let connectorId = c # cs;
                    whenS (Option.bind attachment at_pending = Some True)
                      (on_obj (\<lambda>o'. note_action (WRefreshForgotten connectorId)
                         (o'\<lparr>wo_refresh_sent := (wo_refresh_sent o')(connectorId := None)\<rparr>)));
                    hasAuthenticatedPeer \<leftarrow> obj (\<lambda>o'. hasPeerAgentSocket o' connectorId ws);
                    hasReadyPeer \<leftarrow> obj (\<lambda>o'. hasReadyPeerAgentSocket o' connectorId ws);
                    activeCommandIds \<leftarrow> obj (\<lambda>o'. socketActiveCommandIds o' connectorId ws);
                    tryE (if \<not> hasReadyPeer \<or> activeCommandIds \<noteq> []
                          then tryE (call_db (FailActive connectorId (if hasReadyPeer then Some activeCommandIds else None))
                                       ww_events) (\<lambda>events.
                                 tryE (for_each (\<lambda>e. broadcastToBrowsers (threadEventMessage e)) events) (\<lambda>_.
                                   if hasReadyPeer then wok () else handle_unready connectorId hasAuthenticatedPeer))
                          else wok ()) (\<lambda>_.
                      if hasAuthenticatedPeer then wok ()
                      else tryE (mark_db (MarkOffline connectorId)) (\<lambda>_.
                             broadcastConnectorUpdate connectorId False True)) }
           | _ \<Rightarrow> wok ()) }"

subsection \<open>Events of other parts of the control plane\<close>

definition isThreadEvent :: "json \<Rightarrow> bool" where
  "isThreadEvent v \<longleftrightarrow>
     is_js_object v
     \<and> has v ''id'' is_js_string
     \<and> has v ''thread_id'' is_js_string
     \<and> may_have v ''command_id'' is_js_string
     \<and> has v ''seq'' is_js_number
     \<and> has v ''kind'' isThreadEventKind
     \<and> has v ''priority'' (one_of priorities)
     \<and> has v ''summary'' is_js_string
     \<and> has v ''created_at'' is_js_string"

definition broadcastThreadEvents :: "string + json \<Rightarrow> nat worker" where
  "broadcastThreadEvents body =
     (let events = (case body of Inr v \<Rightarrow> filter isThreadEvent (json_items v ''events'') | Inl _ \<Rightarrow> [])
      in tryE (for_each (\<lambda>e. broadcastToBrowsers (threadEventMessage e)) events) (\<lambda>_. wok (length events)))"

subsection \<open>Events\<close>

text \<open>
  Whatever makes the object run a handler; \<open>fetch\<close> chooses one by the path of the request.
  \<open>start\<close> runs it and drops its result.
\<close>

datatype object_event =
    Opens bool "string option"
  | Message nat string "string + json"
  | Gone nat
  | Closed nat
  | DispatchPending "string option"
  | RefreshSessions
  | CreateThread "string + json"
  | BackfillSession "string + json"
  | EnsureSession "string + json"
  | SyncArchive "string + json"
  | ResolveInteraction "string + json"
  | BroadcastEvents "string + json"
  | TimerDue nat

text \<open>
  The handler for a request: by its path, else a socket when it asks for one. A path of its own
  parses its body; the answer to any other request is an error.
\<close>

definition fetch_event ::
  "string \<Rightarrow> string + json \<Rightarrow> string option \<Rightarrow> string option \<Rightarrow> string option \<Rightarrow> object_event option" where
  "fetch_event pathname body upgrade socket_type connector_id =
     (if pathname = ''/internal/dispatch-pending''
      then Some (DispatchPending (case body of Inr v \<Rightarrow> jget_str v ''connector_id'' | Inl _ \<Rightarrow> None))
      else if pathname = ''/internal/refresh-host-sessions'' then Some RefreshSessions
      else if pathname = ''/internal/create-local-thread'' then Some (CreateThread body)
      else if pathname = ''/internal/backfill-host-session'' then Some (BackfillSession body)
      else if pathname = ''/internal/ensure-host-session-app-server'' then Some (EnsureSession body)
      else if pathname = ''/internal/sync-thread-archive'' then Some (SyncArchive body)
      else if pathname = ''/internal/broadcast-thread-events'' then Some (BroadcastEvents body)
      else if pathname = ''/internal/resolve-turn-interaction'' then Some (ResolveInteraction body)
      else if map_option to_ascii_lowercase upgrade \<noteq> Some ''websocket'' then None
      else Some (Opens (socket_type = Some ''agent'') connector_id))"

definition start :: "'a worker \<Rightarrow> (wworld, unit) state" where
  "start m = do { _ \<leftarrow> m; ret () }"

fun handle_event :: "nat \<Rightarrow> object_event \<Rightarrow> (wworld, unit) state" where
  "handle_event fuel (Opens agent connectorId) = start (accept_socket agent connectorId)"
| "handle_event fuel (Message ws text parsed) = start (webSocketMessage fuel ws text parsed)"
| "handle_event fuel (Gone ws) = start (handleSocketGone ws)"
| "handle_event fuel (Closed ws) = on_obj (close_socket_of ws)"
| "handle_event fuel (DispatchPending connector) = start (dispatchPending fuel connector)"
| "handle_event fuel RefreshSessions = start refreshHostSessions"
| "handle_event fuel (CreateThread body) = start (createLocalThread body)"
| "handle_event fuel (BackfillSession body) = start (backfillHostSession body)"
| "handle_event fuel (EnsureSession body) = start (ensureHostSessionAppServer body)"
| "handle_event fuel (SyncArchive body) = start (syncThreadArchive body)"
| "handle_event fuel (ResolveInteraction body) = start (resolveTurnInteraction body)"
| "handle_event fuel (BroadcastEvents body) = start (broadcastThreadEvents body)"
| "handle_event fuel (TimerDue n) = do { now \<leftarrow> date_now; on_obj (timer_fires now n) }"

definition empty_object :: wobject where
  "empty_object = \<lparr> wo_sockets = [], wo_pending = Map.empty, wo_timers = Map.empty, wo_requests = [],
     wo_report_cache = Map.empty, wo_refresh_sent = Map.empty, wo_log = [] \<rparr>"

end
