(* ===== verification/Worker_Steps.thy ===== *)
theory Worker_Steps
  imports Worker_Object
begin

text \<open>
  The workspace object as a state machine: \<open>wstep\<close> lists the changes a handler can make between
  two of its waits, with the conditions under which it makes them. Every handler is a sequence of
  such steps when whatever runs at its waits is (rely and guarantee), so what every step
  preserves holds under any interleaving of any number of handlers.
\<close>

subsection \<open>The log\<close>

definition log_ok :: "(worker_action list \<Rightarrow> worker_action \<Rightarrow> bool) \<Rightarrow> worker_action list \<Rightarrow> bool" where
  "log_ok P l \<longleftrightarrow> (\<forall>pre a post. l = pre @ a # post \<longrightarrow> P pre a)"

lemma log_ok_Nil [simp]: "log_ok P []"
  by (simp add: log_ok_def)

lemma log_ok_snoc [simp]: "log_ok P (l @ [a]) \<longleftrightarrow> log_ok P l \<and> P l a"
proof
  assume "log_ok P (l @ [a])"
  then show "log_ok P l \<and> P l a" by (auto simp: log_ok_def)
next
  assume ok: "log_ok P l \<and> P l a"
  show "log_ok P (l @ [a])"
    unfolding log_ok_def
  proof (intro allI impI)
    fix pre b post
    assume "l @ [a] = pre @ b # post"
    then show "P pre b"
      using ok by (cases post rule: rev_cases) (auto simp: log_ok_def)
  qed
qed

lemma log_okD: "log_ok P l \<Longrightarrow> l = pre @ a # post \<Longrightarrow> P pre a"
  by (simp add: log_ok_def)

lemma log_ok_prefix: "log_ok P (l @ l') \<Longrightarrow> log_ok P l"
  by (auto simp: log_ok_def)

text \<open>A command runs on a socket from its dispatch there until it is over.\<close>

definition running_step :: "nat \<Rightarrow> string \<Rightarrow> bool \<Rightarrow> worker_action \<Rightarrow> bool" where
  "running_step ws c r a =
     (case a of
        WSend ws' f \<Rightarrow> (if ws' = ws \<and> fr_kind f = ''command.dispatch'' \<and> fr_command_id f = Some c then True else r)
      | WCommandOver ws' c' \<Rightarrow> (if ws' = ws \<and> c' = c then False else r)
      | _ \<Rightarrow> r)"

definition running :: "worker_action list \<Rightarrow> nat \<Rightarrow> string \<Rightarrow> bool" where
  "running l ws c = foldl (running_step ws c) False l"

lemma running_Nil [simp]: "\<not> running [] ws c"
  by (simp add: running_def)

lemma running_snoc [simp]: "running (l @ [a]) ws c = running_step ws c (running l ws c) a"
  by (simp add: running_def)

text \<open>When a refresh was last sent to a connector, unless that is forgotten.\<close>

definition refreshed_step :: "string \<Rightarrow> int option \<Rightarrow> worker_action \<Rightarrow> int option" where
  "refreshed_step c r a =
     (case a of
        WRefreshSent c' t \<Rightarrow> (if c' = c then Some t else r)
      | WRefreshForgotten c' \<Rightarrow> (if c' = c then None else r)
      | _ \<Rightarrow> r)"

definition refreshed :: "worker_action list \<Rightarrow> string \<Rightarrow> int option" where
  "refreshed l c = foldl (refreshed_step c) None l"

lemma refreshed_Nil [simp]: "refreshed [] c = None"
  by (simp add: refreshed_def)

lemma refreshed_snoc [simp]: "refreshed (l @ [a]) c = refreshed_step c (refreshed l c) a"
  by (simp add: refreshed_def)

lemma snoc_two [simp]:
  "log_ok P (l @ [a, b]) \<longleftrightarrow> log_ok P l \<and> P l a \<and> P (l @ [a]) b"
  "running (l @ [a, b]) ws c = running_step ws c (running_step ws c (running l ws c) a) b"
  "refreshed (l @ [a, b]) c' = refreshed_step c' (refreshed_step c' (refreshed l c') a) b"
  using log_ok_snoc [of P "l @ [a]" b] running_snoc [of "l @ [a]" b] refreshed_snoc [of "l @ [a]" b] by simp_all

subsection \<open>Steps\<close>

definition active_ids :: "wobject \<Rightarrow> nat \<Rightarrow> string list" where
  "active_ids o' ws =
     (case attachment_of o' ws of None \<Rightarrow> []
      | Some a \<Rightarrow> (case at_activeCommandIds a of Some cs \<Rightarrow> cs | None \<Rightarrow> []))"

text \<open>Frames that carry no command and no decision and ask for no refresh.\<close>

definition is_plain_frame :: "wframe \<Rightarrow> bool" where
  "is_plain_frame f \<longleftrightarrow> fr_kind f \<notin> {''command.dispatch'', ''turn.interaction_response'', ''host_sessions.refresh''}"

definition cooled_down :: "wobject \<Rightarrow> string \<Rightarrow> int \<Rightarrow> bool" where
  "cooled_down o' c now \<longleftrightarrow>
     (case wo_refresh_sent o' c of Some t \<Rightarrow> host_sessions_refresh_cooldown_ms \<le> now - t | None \<Rightarrow> True)"

definition with_active :: "string list \<Rightarrow> attachment \<Rightarrow> attachment" where
  "with_active cs a = a\<lparr>at_activeCommandIds := Some cs\<rparr>"

text \<open>The guard a result of each kind has passed.\<close>

fun result_guard :: "request_kind \<Rightarrow> json \<Rightarrow> bool" where
  "result_guard ThreadCreate = isLocalThreadCreateResult"
| "result_guard Backfill = isHostSessionBackfillResult"
| "result_guard AppServerEnsure = isHostSessionAppServerEnsureResult"
| "result_guard ArchiveSync = isThreadArchiveSyncResult"
| "result_guard TurnInteraction = isTurnInteractionResponseAck"

inductive wstep :: "wobject \<Rightarrow> wobject \<Rightarrow> bool" where
  sends: "is_plain_frame f \<Longrightarrow> wstep o' (note_action (WSend ws f) o')"
| calls: "wstep o' (note_action (WDb c) o')"
| opens: "wstep o' (add_socket agent connectorId now o')"
| closes: "wstep o' (close_socket_of ws o')"
| attaches: "at_activeCommandIds a = Option.bind (attachment_of o' ws) at_activeCommandIds \<Longrightarrow>
    wstep o' (set_attachment ws a o')"
| dispatches: "attachment_of o' ws = Some a \<Longrightarrow> set cs \<subseteq> insert c (set (active_ids o' ws)) \<Longrightarrow>
    fr_kind f = ''command.dispatch'' \<Longrightarrow> fr_command_id f = Some c \<Longrightarrow>
    wstep o' (note_action (WSend ws f) (set_attachment ws (with_active cs a) o'))"
| dispatches_unnoted: "fr_kind f = ''command.dispatch'' \<Longrightarrow> wstep o' (note_action (WSend ws f) o')"
| is_over: "attachment_of o' ws = Some a \<Longrightarrow> set cs \<subseteq> set (active_ids o' ws) - {c} \<Longrightarrow>
    wstep o' (note_action (WCommandOver ws c) (set_attachment ws (with_active cs a) o'))"
| refreshes: "cooled_down o' c now \<Longrightarrow>
    wstep o' (note_action (WRefreshSent c now)
      ((note_action (WSend ws refresh_frame) o')\<lparr>wo_refresh_sent := (wo_refresh_sent o')(c \<mapsto> now)\<rparr>))"
| forgets: "wstep o' (note_action (WRefreshForgotten c) (o'\<lparr>wo_refresh_sent := (wo_refresh_sent o')(c := None)\<rparr>))"
| caches: "wstep o' (o'\<lparr>wo_report_cache := m\<rparr>)"
| requests: "wstep o' (begin_request kind request_id now o')"
| decides: "agentSocketForActiveCommand o' c = Some ws \<Longrightarrow>
    wstep o' (note_action (WSend ws (interaction_frame c dispatch request_id)) o')"
| gives_up: "wo_pending o' (kind, request_id) = Some n \<Longrightarrow>
    wstep o' (end_request n kind request_id (Rejected e) o')"
| answers: "result_guard kind result \<Longrightarrow> wstep o' (resolve_request kind result o')"
| times_out: "wstep o' (timer_fires now n o')"

abbreviation wsteps :: "wobject \<Rightarrow> wobject \<Rightarrow> bool" where
  "wsteps \<equiv> wstep\<^sup>*\<^sup>*"

text \<open>What runs at the waits of a handler makes such steps, too.\<close>

definition others_step :: "wworld \<Rightarrow> bool" where
  "others_step w \<longleftrightarrow> (\<forall>k o'. wsteps o' (ww_other w k o'))"

definition wrel :: "wworld \<Rightarrow> wworld \<Rightarrow> bool" where
  "wrel w w' \<longleftrightarrow> ww_other w' = ww_other w \<and> (others_step w \<longrightarrow> wsteps (ww_obj w) (ww_obj w'))"

lemma wrel_trans: "wrel s t \<Longrightarrow> wrel t u \<Longrightarrow> wrel s u"
  by (auto simp: wrel_def others_step_def)

interpretation wr: effect_rel wrel
  by unfold_locales (simp add: wrel_def, blast intro: wrel_trans)

subsection \<open>Every primitive is a sequence of steps\<close>

lemma wok_keeps: "wr.keeps (wok x)" by (simp add: wok_def wr.keeps_ret)

lemma wthrow_keeps: "wr.keeps (wthrow e)" by (simp add: wthrow_def wr.keeps_ret)

lemma wask_keeps: "wr.keeps (wask f)"
  by (rule wr.keepsI) (simp add: wask_def wrel_def)

lemma others_keeps: "wr.keeps others"
  by (rule wr.keepsI) (simp add: others_def wrel_def others_step_def)

lemma obj_keeps: "wr.keeps (obj f)"
  by (simp add: obj_def wr.keeps_gets)

lemma on_obj_keeps: "(\<And>o'. wsteps o' (f o')) \<Longrightarrow> wr.keeps (on_obj f)"
  unfolding on_obj_def by (rule wr.keeps_modify) (simp add: wrel_def)

lemmas wkeeps_basic = wok_keeps wthrow_keeps wask_keeps others_keeps obj_keeps

lemma on_obj_step: "(\<And>o'. wstep o' (f o')) \<Longrightarrow> wr.keeps (on_obj f)"
  by (rule on_obj_keeps) blast

lemma call_db_keeps: "wr.keeps (call_db c f)"
  unfolding call_db_def
  by (intro wr.keeps_intros wkeeps_basic on_obj_step wstep.calls)

lemma mark_db_keeps: "wr.keeps (mark_db c)"
  by (simp add: mark_db_def call_db_keeps)

lemma safety_keeps: "wr.keeps (assertDogfoodSafetyActionAllowed action)"
  unfolding assertDogfoodSafetyActionAllowed_def
  by (intro wr.keeps_bind on_obj_step wstep.calls wkeeps_basic) (auto split: safety.splits intro: wkeeps_basic)

lemma send_keeps: "is_plain_frame f \<Longrightarrow> wr.keeps (send_ws ws f)"
  unfolding send_ws_def by (intro wr.keeps_intros wkeeps_basic on_obj_step wstep.sends)

lemma for_each_keeps: "(\<And>x. wr.keeps (f x)) \<Longrightarrow> wr.keeps (for_each f xs)"
  by (induction xs) (simp_all add: wkeeps_basic wr.keeps_tryE)

lemma promise_all_keeps: "(\<And>x. wr.keeps (f x)) \<Longrightarrow> wr.keeps (promise_all f xs)"
  by (induction xs) (auto simp: wkeeps_basic intro!: wr.keeps_bind wr.keeps_ret)

lemmas wkeeps = wr.keeps_intros wkeeps_basic call_db_keeps mark_db_keeps safety_keeps for_each_keeps promise_all_keeps

subsection \<open>Every operation on a socket\<close>

lemma run_wask [simp]: "run_state (wask f) w = (f w (ww_tick w), w\<lparr>ww_tick := Suc (ww_tick w)\<rparr>)"
  by (simp add: wask_def)

lemma run_obj [simp]: "run_state (obj f) w = (f (ww_obj w), w)"
  by (simp add: obj_def)

lemma run_on_obj [simp]: "run_state (on_obj f) w = ((), w\<lparr>ww_obj := f (ww_obj w)\<rparr>)"
  by (simp add: on_obj_def)

lemma run_date_now [simp]: "run_state date_now w = (ww_now w (ww_tick w), w\<lparr>ww_tick := Suc (ww_tick w)\<rparr>)"
  by (simp add: date_now_def)

lemma run_wok [simp]: "run_state (wok x) w = (Inr x, w)"
  by (simp add: wok_def)

lemma run_wthrow [simp]: "run_state (wthrow e) w = (Inl (Thrown e), w)"
  by (simp add: wthrow_def)

lemma date_now_keeps: "wr.keeps date_now"
  by (simp add: date_now_def wask_keeps)

lemma wrel_step: "wstep (ww_obj w) o' \<Longrightarrow> wrel w (w\<lparr>ww_tick := n, ww_obj := o'\<rparr>)"
  by (auto simp: wrel_def)

lemma wrel_obj: "wstep (ww_obj w) o' \<Longrightarrow> wrel w (w\<lparr>ww_obj := o'\<rparr>)"
  by (auto simp: wrel_def)

lemma wrel_tick: "wrel w (w\<lparr>ww_tick := n\<rparr>)"
  by (simp add: wrel_def)

lemma keeps_active:
  "attachment_of o' ws = Some a \<Longrightarrow> at_activeCommandIds b = at_activeCommandIds a \<Longrightarrow> wstep o' (set_attachment ws b o')"
  by (rule wstep.attaches) simp

lemma without_active [simp]: "at_activeCommandIds (withoutPendingHostSessionsDispatch a) = at_activeCommandIds a"
  by (simp add: withoutPendingHostSessionsDispatch_def)

lemmas wrel_intros = wrel_step wrel_obj wrel_tick wr.R_refl keeps_active

lemma hasPending_keeps: "wr.keeps (hasPendingHostSessionsDispatch c ws)"
  by (rule wr.keepsI)
    (auto simp: hasPendingHostSessionsDispatch_def Let_def intro!: wrel_intros split: option.splits)

lemma some_pending_keeps: "wr.keeps (some_pending c sockets)"
  by (induction sockets) (auto intro!: wkeeps hasPending_keeps)

lemma filter_dispatch_ready_keeps: "wr.keeps (filter_dispatch_ready c sockets)"
  by (induction sockets) (auto intro!: wkeeps hasPending_keeps)

lemma hasPendingForConnector_keeps: "wr.keeps (hasPendingHostSessionsDispatchForConnector c)"
  unfolding hasPendingHostSessionsDispatchForConnector_def Let_def
  by (intro wkeeps some_pending_keeps)

lemma markAgentReady_keeps: "wr.keeps (markAgentReady ws c)"
  by (rule wr.keepsI)
    (auto simp: markAgentReady_def Let_def no_attachment_def intro!: wrel_step wstep.attaches split: option.splits)

lemma consumePending_keeps: "wr.keeps (consumePendingHostSessionsDispatch ws c)"
  by (rule wr.keepsI)
    (auto simp: consumePendingHostSessionsDispatch_def intro!: wrel_intros split: option.splits)

lemma markRefreshPending_keeps: "wr.keeps (markHostSessionsRefreshPending ws c)"
  by (rule wr.keepsI)
    (auto simp: markHostSessionsRefreshPending_def intro!: wrel_intros split: option.splits)

lemma markUnavailable_keeps: "wr.keeps (markSocketDispatchUnavailable ws c)"
  by (rule wr.keepsI)
    (auto simp: markSocketDispatchUnavailable_def intro!: wrel_intros split: option.splits)

lemma clearSocketCommand_keeps: "wr.keeps (clearSocketCommand ws c command)"
  by (rule wr.keepsI)
    (auto simp: clearSocketCommand_def active_ids_def with_active_def [symmetric] intro!: wrel_intros wstep.is_over
      split: option.splits)

end
