(* ===== verification/Worker_Refines.thy ===== *)
theory Worker_Refines
  imports Worker_Steps
begin

text \<open>
  The handlers of the workspace object are sequences of the steps of \<open>wstep\<close>.
\<close>

subsection \<open>Sockets\<close>

lemma map_of_map_socket:
  "map_of (map (\<lambda>(s, k). (s, if s = ws then f k else k)) xs) s =
     (if s = ws then map_option f (map_of xs s) else map_of xs s)"
  by (induction xs) auto

lemma attachment_of_set [simp]:
  "attachment_of (set_attachment ws a o') s =
     (if s = ws \<and> map_of (wo_sockets o') ws \<noteq> None then Some a else attachment_of o' s)"
  by (auto simp: attachment_of_def set_attachment_def map_of_map_socket)

lemma attachment_of_known: "attachment_of o' ws = Some a \<Longrightarrow> \<exists>k. map_of (wo_sockets o') ws = Some k"
  by (auto simp: attachment_of_def bind_eq_Some_conv)

lemma set_attachment_twice [simp]: "set_attachment ws b (set_attachment ws a o') = set_attachment ws b o'"
  by (simp add: set_attachment_def comp_def split_def if_distrib cong: if_cong)

lemma attachment_of_note [simp]: "attachment_of (note_action x o') ws = attachment_of o' ws"
  by (simp add: attachment_of_def note_action_def)

subsection \<open>Commands and refreshes\<close>

lemma plain_kind:
  "kind \<notin> {''command.dispatch'', ''turn.interaction_response'', ''host_sessions.refresh''} \<Longrightarrow>
     is_plain_frame (plain_frame kind p)"
  by (simp add: is_plain_frame_def plain_frame_def)

lemma send_or_forget_keeps: "wr.keeps (send_or_forget ws c p)"
proof (rule wr.keepsI)
  fix w :: wworld
  let ?o = "ww_obj w"
  show "wrel w (snd (run_state (send_or_forget ws c p) w))"
  proof (cases "\<exists>a. attachment_of ?o ws = Some a \<and> is_agent_of c a")
    case True
    then obtain a where a: "attachment_of ?o ws = Some a" "is_agent_of c a" by blast
    from attachment_of_known [OF a(1)] obtain k where k: "map_of (wo_sockets ?o) ws = Some k" by blast
    let ?cs = "js_set (active_ids ?o ws @ [pc_id p])"
    have is_agent: "is_agent_of c (with_active cs a)" for cs
      using a(2) by (simp add: is_agent_of_def with_active_def)
    have sent: "wstep ?o (note_action (WSend ws (command_dispatch_frame p)) (set_attachment ws (with_active ?cs a) ?o))"
      by (rule wstep.dispatches [OF a(1)]) (auto simp: command_dispatch_frame_def)
    have failed: "wstep ?o (note_action (WCommandOver ws (pc_id p))
        (set_attachment ws (with_active (filter (\<lambda>d. d \<noteq> pc_id p) ?cs) a) ?o))"
      by (rule wstep.is_over [OF a(1)]) auto
    have set_a: "a\<lparr>at_activeCommandIds := Some (js_set (active_ids ?o ws @ [pc_id p]))\<rparr> = with_active ?cs a"
      by (simp add: with_active_def)
    have set_b: "(with_active ?cs a)\<lparr>at_activeCommandIds := Some cs\<rparr> = with_active cs a" for cs
      by (simp add: with_active_def)
    have ids: "(case at_activeCommandIds a of Some cs \<Rightarrow> cs | None \<Rightarrow> []) = active_ids ?o ws"
      using a(1) by (simp add: active_ids_def)
    have active: "at_activeCommandIds (with_active cs a) = Some cs" for cs by (simp add: with_active_def)
    show ?thesis
      using sent failed
      by (auto simp: send_or_forget_def recordSocketCommand_def clearSocketCommand_def send_ws_def a k ids set_a set_b
          is_agent active intro!: wrel_step split: option.splits)
  next
    case False
    have "wstep ?o (note_action (WSend ws (command_dispatch_frame p)) ?o)"
      by (rule wstep.dispatches_unnoted) (simp add: command_dispatch_frame_def)
    with False show ?thesis
      by (auto simp: send_or_forget_def recordSocketCommand_def clearSocketCommand_def send_ws_def
          intro!: wrel_step wrel_tick split: option.splits)
  qed
qed

lemma refresh_unless_pending_keeps:
  "wr.keeps (dispatchHostSessionsRefreshToSocket ws c now)"
proof (rule wr.keepsI)
  fix w :: wworld
  obtain pending w1 where p: "run_state (hasPendingHostSessionsDispatchForConnector c) w = (pending, w1)" by fastforce
  with hasPendingForConnector_keeps have first: "wrel w w1" by (rule wr.keepsE)
  let ?sent = "note_action (WRefreshSent c now)
      ((ww_obj w1)\<lparr>wo_log := wo_log (ww_obj w1) @ [WSend ws refresh_frame], wo_refresh_sent := (wo_refresh_sent (ww_obj w1))(c \<mapsto> now)\<rparr>)"
  have sent: "wstep (ww_obj w1) ?sent" if "cooled_down (ww_obj w1) c now"
    using wstep.refreshes [OF that, of ws] by (simp add: note_action_def)
  have cooled: "cooled_down (ww_obj w1) c now"
    if "\<not> (case wo_refresh_sent (ww_obj w1) c of Some t \<Rightarrow> now - t < host_sessions_refresh_cooldown_ms | None \<Rightarrow> False)"
    using that by (auto simp: cooled_down_def split: option.splits)
  have mark: "wrel w1 w2"
    if "cooled_down (ww_obj w1) c now"
      and "run_state (markHostSessionsRefreshPending ws c) (w1\<lparr>ww_tick := n, ww_obj := ?sent\<rparr>) = (u, w2)" for n u w2
    by (rule wr.R_trans [OF _ wr.keepsE [OF markRefreshPending_keeps that(2)]]) (rule wrel_step [OF sent [OF that(1)]])
  have "wrel w1 (snd (run_state (dispatchHostSessionsRefreshToSocket ws c now) w))"
    using mark cooled
    by (auto simp: dispatchHostSessionsRefreshToSocket_def p send_ws_def note_action_def wr.R_refl wrel_tick
        split: option.splits prod.splits)
  with first show "wrel w (snd (run_state (dispatchHostSessionsRefreshToSocket ws c now) w))"
    by (rule wr.R_trans)
qed

lemma browsers_keeps: "is_plain_frame f \<Longrightarrow> wr.keeps (broadcastToBrowsers f)"
  unfolding broadcastToBrowsers_def by (intro wkeeps send_keeps)

lemma plain_messages [simp]:
  "is_plain_frame (threadEventMessage e)" "is_plain_frame (hostSessionsMessage c r)"
  "is_plain_frame (connectorsMessage s t)" "is_plain_frame (appServerInstancesMessage c xs t sn)"
  by (simp_all add: threadEventMessage_def is_plain_frame_def hostSessionsMessage_def connectorsMessage_def
      appServerInstancesMessage_def plain_frame_def)

lemma update_keeps: "wr.keeps (broadcastConnectorUpdate c degraded offline)"
  unfolding broadcastConnectorUpdate_def by (intro wkeeps browsers_keeps date_now_keeps plain_messages)

lemma decision_keeps: "wr.keeps hostSessionRefreshDecision"
  unfolding hostSessionRefreshDecision_def by (intro wkeeps)

lemma can_dispatch_keeps: "wr.keeps canDispatchPendingCommands"
  unfolding canDispatchPendingCommands_def by (intro wkeeps)

lemma cleanup_keeps: "wr.keeps (cleanupStaleExplicitAppServerCommandTargets c)"
  unfolding cleanupStaleExplicitAppServerCommandTargets_def by (intro wkeeps browsers_keeps plain_messages)

subsection \<open>Sending commands\<close>

lemma dispatch_one_keeps: "(\<And>c. wr.keeps (again c)) \<Longrightarrow> wr.keeps (dispatch_one again ws connectorId p)"
  unfolding dispatch_one_def
  by (intro wkeeps send_or_forget_keeps markUnavailable_keeps update_keeps)

lemma send_pending_keeps: "(\<And>c. wr.keeps (again c)) \<Longrightarrow> wr.keeps (send_pending_commands again ws connectorId skip)"
  unfolding send_pending_commands_def
  by (intro wkeeps dispatch_one_keeps hasPendingForConnector_keeps can_dispatch_keeps cleanup_keeps)

lemma cleanup_connectors_keeps: "wr.keeps (cleanup_connectors n owing visited todo)"
proof (induction n arbitrary: visited todo)
  case (Suc n)
  then show ?case by (cases todo) (auto intro!: wkeeps cleanup_keeps)
qed (simp add: wr.keeps_ret)

lemma connectors_of_keeps: "wr.keeps (connectors_of sockets)"
  by (induction sockets) (auto intro!: wkeeps hasPending_keeps)

lemma target_sockets_keeps: "wr.keeps (target_sockets cs)"
  by (induction cs) (auto simp: Let_def intro!: wkeeps some_pending_keeps)

lemma ready_sockets_keeps: "wr.keeps (ready_sockets owing sockets cs)"
  by (induction cs) (auto intro!: wkeeps filter_dispatch_ready_keeps)

lemma send_to_socket_keeps: "(\<And>c. wr.keeps (again c)) \<Longrightarrow> wr.keeps (send_to_socket again ws)"
  unfolding send_to_socket_def by (intro wkeeps send_pending_keeps)

lemma keeps_nonempty:
  "wr.keeps m \<Longrightarrow> (\<And>c cs. wr.keeps (f c cs)) \<Longrightarrow>
     wr.keeps (case x of None \<Rightarrow> m | Some [] \<Rightarrow> m | Some (c # cs) \<Rightarrow> f c cs)"
  by (auto split: option.splits list.splits)

lemma send_to_agents_keeps: "(\<And>c. wr.keeps (again c)) \<Longrightarrow> wr.keeps (send_to_agents again fuel connector)"
  unfolding send_to_agents_def
  by (intro wkeeps keeps_nonempty can_dispatch_keeps some_pending_keeps cleanup_keeps target_sockets_keeps
      send_to_socket_keeps connectors_of_keeps cleanup_connectors_keeps ready_sockets_keeps)

lemma to_agents_keeps: "wr.keeps (sendPendingCommandsToAgents fuel connector)"
  by (induction fuel arbitrary: connector) (simp_all add: wr.keeps_ret send_to_agents_keeps)

lemma pending_released_keeps: "wr.keeps (sendPendingCommandsAndReleased fuel ws c)"
  unfolding sendPendingCommandsAndReleased_def sendPendingCommands_def
  by (intro wkeeps send_pending_keeps to_agents_keeps)

lemma refresh_each_keeps: "wr.keeps (refresh_each now targets)"
proof (induction now targets rule: refresh_each.induct)
  case (2 now c ws rest)
  then show ?case
    unfolding refresh_each.simps by (intro wkeeps refresh_unless_pending_keeps)
qed (simp add: wkeeps)

subsection \<open>Requests\<close>

lemma end_unresolved:
  "wo_pending o' (kind, request_id) = Some n \<Longrightarrow> wsteps o' (end_request n kind request_id (Rejected e) o')"
  by (blast intro: wstep.gives_up)

text \<open>What is sent may depend on the sockets, which starting a request leaves as they are.\<close>

lemma wait_keeps:
  assumes "\<And>o'. wo_sockets o' = S \<Longrightarrow> wstep o' (note_action (WSend ws f) o')" and "wo_sockets (ww_obj w) = S"
  shows "wrel w (snd (run_state (waitForRequest kind request_id (send_ws ws f)) w))"
proof -
  let ?now = "ww_now w (ww_tick w)" and ?n = "length (wo_requests (ww_obj w))"
  let ?begun = "begin_request kind request_id ?now (ww_obj w)"
  have begun: "wstep (ww_obj w) ?begun" by (rule wstep.requests)
  have "wo_sockets ?begun = S" using assms(2) by (simp add: begin_request_def Let_def)
  from assms(1) [OF this] begun have sent: "wsteps (ww_obj w) (note_action (WSend ws f) ?begun)"
    by (meson r_into_rtranclp rtranclp.rtrancl_into_rtrancl)
  have "wo_pending ?begun (kind, request_id) = Some ?n" by (simp add: begin_request_def Let_def)
  from end_unresolved [OF this] begun
  have failed: "wsteps (ww_obj w) (end_request ?n kind request_id (Rejected e) ?begun)" for e
    by (meson converse_rtranclp_into_rtranclp)
  show ?thesis
    using sent failed by (auto simp: waitForRequest_def send_ws_def wrel_def split: option.splits)
qed

lemma forward_keeps:
  assumes "frame_kind \<notin> {''command.dispatch'', ''turn.interaction_response'', ''host_sessions.refresh''}"
  shows "wr.keeps (forward_request kind guard frame_kind invalid body)"
proof -
  have "wr.keeps (waitForRequest kind request_id (send_ws ws (plain_frame frame_kind p)))" for request_id ws p
  proof (rule wr.keepsI, rule wait_keeps)
    show "wstep o' (note_action (WSend ws (plain_frame frame_kind p)) o')" for o'
      using plain_kind [OF assms] by (rule wstep.sends)
  qed (rule refl)
  then show ?thesis
    unfolding forward_request_def Let_def
    by (intro wkeeps keeps_nonempty) (auto intro!: wkeeps split: list.splits)
qed

lemma active_socket_same:
  "wo_sockets o1 = wo_sockets o2 \<Longrightarrow> agentSocketForActiveCommand o1 c = agentSocketForActiveCommand o2 c"
  by (simp add: agentSocketForActiveCommand_def getWebSockets_def attachment_of_def
      isReadyAgentSocket_def socketActiveCommandIds_def cong: option.case_cong)

lemma resolve_keeps: "wr.keeps (resolveTurnInteraction body)"
proof (rule wr.keepsI)
  fix w :: wworld
  have decided: "wrel w w'"
    if "run_state (waitForRequest TurnInteraction request_id (send_ws ws (interaction_frame c dispatch request_id)))
          (w\<lparr>ww_tick := k\<rparr>) = (r, w')"
      and "agentSocketForActiveCommand (ww_obj w) c = Some ws" for ws request_id c dispatch k r w'
  proof -
    have "wstep o' (note_action (WSend ws (interaction_frame c dispatch request_id)) o')"
      if "wo_sockets o' = wo_sockets (ww_obj w)" for o'
      using active_socket_same [OF that] \<open>agentSocketForActiveCommand (ww_obj w) c = Some ws\<close>
      by (intro wstep.decides) simp
    from wait_keeps [OF this, of "wo_sockets (ww_obj w)" "w\<lparr>ww_tick := k\<rparr>" TurnInteraction request_id] that(1)
    have "wrel (w\<lparr>ww_tick := k\<rparr>) w'" by simp
    with wrel_tick show ?thesis by (rule wr.R_trans)
  qed
  show "wrel w (snd (run_state (resolveTurnInteraction body) w))"
    using decided
    by (auto simp: resolveTurnInteraction_def Let_def wr.R_refl wrel_tick split: sum.splits option.splits prod.splits)
qed

subsection \<open>Messages and sockets\<close>

lemma reply_keeps: "wr.keeps (reply ws r)"
  by (cases r) (auto simp: reply_def reply_envelope_def intro!: wkeeps send_keeps plain_kind)

lemma after_ready_keeps: "wr.keeps (after_ready fuel ws c)"
  unfolding after_ready_def
  by (intro wkeeps decision_keeps date_now_keeps refresh_unless_pending_keeps update_keeps pending_released_keeps)

lemma ready_keeps: "wr.keeps (handle_agent_ready fuel ws c payload)"
  unfolding handle_agent_ready_def Let_def
  by (intro wkeeps reply_keeps markAgentReady_keeps after_ready_keeps)

lemma sessions_keeps: "wr.keeps (handle_host_sessions fuel ws c p)"
  unfolding handle_host_sessions_def
  by (intro wkeeps decision_keeps reply_keeps consumePending_keeps pending_released_keeps browsers_keeps plain_messages
      to_agents_keeps)

lemma skip_keeps: "wr.keeps (shouldSkipDuplicateAppServerReport c f)"
  unfolding shouldSkipDuplicateAppServerReport_def by (intro wkeeps date_now_keeps)

lemma remember_keeps: "wr.keeps (rememberAppServerReport c f)"
  unfolding rememberAppServerReport_def by (intro wkeeps date_now_keeps on_obj_step wstep.caches)

lemma instances_keeps: "wr.keeps (handle_app_server_instances ws c payload)"
  unfolding handle_app_server_instances_def Let_def
  by (intro wkeeps reply_keeps skip_keeps remember_keeps date_now_keeps browsers_keeps plain_messages)

lemma event_keeps: "wr.keeps (handle_agent_event fuel ws c p)"
  unfolding handle_agent_event_def Let_def
  by (intro wkeeps reply_keeps browsers_keeps plain_messages clearSocketCommand_keeps pending_released_keeps
      to_agents_keeps)

lemma result_keeps: "result_guard kind p \<Longrightarrow> wr.keeps (handle_result ws kind frame_kind p)"
  unfolding handle_result_def by (intro wkeeps reply_keeps on_obj_step wstep.answers)

lemma has_payload: "has v k P \<Longrightarrow> P (case jget v k of Some p \<Rightarrow> p | None \<Rightarrow> d)"
  by (simp add: has_def split: option.splits)

lemma message_keeps: "wr.keeps (handleAgentMessage fuel ws c text parsed)"
  unfolding handleAgentMessage_def Let_def
  by (intro wkeeps reply_keeps ready_keeps sessions_keeps instances_keeps event_keeps result_keeps on_obj_step
      wstep.answers)
    (auto dest: has_payload)

lemma socket_message_keeps: "wr.keeps (webSocketMessage fuel ws text parsed)"
  unfolding webSocketMessage_def by (intro wkeeps keeps_nonempty message_keeps reply_keeps)

lemma unready_keeps: "wr.keeps (handle_unready c peer)"
  unfolding handle_unready_def
  by (intro wkeeps date_now_keeps on_obj_step wstep.caches browsers_keeps plain_messages update_keeps)

lemma gone_keeps: "wr.keeps (handleSocketGone ws)"
  unfolding handleSocketGone_def Let_def
  by (intro wkeeps keeps_nonempty on_obj_step wstep.forgets browsers_keeps plain_messages unready_keeps update_keeps)

lemma accept_keeps: "wr.keeps (accept_socket agent c)"
  unfolding accept_socket_def
  by (intro wkeeps date_now_keeps on_obj_step wstep.opens send_keeps plain_kind) auto

lemma start_keeps: "wr.keeps m \<Longrightarrow> wr.keeps (start m)"
  unfolding start_def by (intro wkeeps)

lemma event_refines: "wr.keeps (handle_event fuel e)"
proof (cases e)
  case DispatchPending
  then show ?thesis by (auto simp: dispatchPending_def intro!: wkeeps start_keeps to_agents_keeps)
next
  case RefreshSessions
  then show ?thesis
    by (auto simp: refreshHostSessions_def intro!: wkeeps start_keeps date_now_keeps refresh_each_keeps)
next
  case (BroadcastEvents body)
  then show ?thesis
    by (auto simp: broadcastThreadEvents_def Let_def intro!: wkeeps start_keeps browsers_keeps plain_messages)
next
  case (Closed ws)
  then show ?thesis by (auto intro!: on_obj_step wstep.closes)
next
  case (TimerDue n)
  then show ?thesis by (auto intro!: wkeeps date_now_keeps on_obj_step wstep.times_out)
qed (auto simp: createLocalThread_def backfillHostSession_def ensureHostSessionAppServer_def syncThreadArchive_def
    intro!: start_keeps accept_keeps socket_message_keeps gone_keeps forward_keeps resolve_keeps)

end
