(* ===== verification/Worker_Invariants.thy ===== *)
theory Worker_Invariants
  imports Worker_Refines
begin

text \<open>
  What every step of the workspace object preserves, and so every interleaving of its handlers:
  a decision goes to the socket that runs the command, refreshes keep their distance, every
  request that waits has a timer and every answer is the request's own.
\<close>

subsection \<open>Commands and decisions\<close>

definition to_running :: "worker_action list \<Rightarrow> worker_action \<Rightarrow> bool" where
  "to_running pre a \<longleftrightarrow>
     (case a of
        WSend ws f \<Rightarrow>
          fr_kind f = ''turn.interaction_response'' \<longrightarrow> (\<exists>c. fr_command_id f = Some c \<and> running pre ws c)
      | _ \<Rightarrow> True)"

definition routing_ok :: "wobject \<Rightarrow> bool" where
  "routing_ok o' \<longleftrightarrow> (\<forall>ws. \<forall>c \<in> set (active_ids o' ws). running (wo_log o') ws c) \<and> log_ok to_running (wo_log o')"

lemma unknown_socket: "map_of (wo_sockets o') ws = None \<Longrightarrow> attachment_of o' ws = None"
  by (simp add: attachment_of_def)

lemma attachment_of_closed [simp]: "attachment_of (close_socket_of s o') ws = attachment_of o' ws"
  by (cases "map_of (wo_sockets o') s") (auto simp: attachment_of_def close_socket_of_def map_of_map_socket)

lemma active_ids_set:
  "set (active_ids (set_attachment ws a o') s) \<subseteq>
     (if s = ws then (case at_activeCommandIds a of Some cs \<Rightarrow> set cs | None \<Rightarrow> {}) else set (active_ids o' s))"
  using unknown_socket [of o' ws] by (auto simp: active_ids_def split: option.splits if_splits)

lemma active_ids_same: "wo_sockets o1 = wo_sockets o2 \<Longrightarrow> active_ids o1 ws = active_ids o2 ws"
  by (simp add: active_ids_def attachment_of_def)

lemma active_ids_opens: "set (active_ids (add_socket agent c now o') ws) \<subseteq> set (active_ids o' ws)"
  by (auto simp: active_ids_def attachment_of_def add_socket_def Let_def map_add_def no_attachment_def
      split: option.splits if_splits)

lemma active_ids_closes [simp]: "active_ids (close_socket_of s o') ws = active_ids o' ws"
  by (simp add: active_ids_def)

lemma log_set_attachment [simp]: "wo_log (set_attachment ws a o') = wo_log o'"
  by (simp add: set_attachment_def)

lemma log_note [simp]: "wo_log (note_action a o') = wo_log o' @ [a]"
  by (simp add: note_action_def)

lemma sockets_note [simp]: "wo_sockets (note_action a o') = wo_sockets o'"
  by (simp add: note_action_def)

lemma active_ids_note [simp]: "active_ids (note_action a o') ws = active_ids o' ws"
  by (rule active_ids_same) simp

lemma find_satisfies: "List.find P xs = Some x \<Longrightarrow> P x"
  by (auto simp: find_Some_iff)

lemma active_socket_runs:
  "agentSocketForActiveCommand o' c = Some ws \<Longrightarrow> c \<in> set (active_ids o' ws)"
  unfolding agentSocketForActiveCommand_def
  by (drule find_satisfies) (auto simp: active_ids_def socketActiveCommandIds_def split: option.splits if_splits)

lemma end_request_keeps [simp]:
  "wo_sockets (end_request n k i p o') = wo_sockets o'" "wo_log (end_request n k i p o') = wo_log o'"
  "wo_refresh_sent (end_request n k i p o') = wo_refresh_sent o'"
  by (simp_all add: end_request_def)

lemma request_steps_keep [simp]:
  "wo_sockets (begin_request k i now o') = wo_sockets o'" "wo_log (begin_request k i now o') = wo_log o'"
  "wo_refresh_sent (begin_request k i now o') = wo_refresh_sent o'"
  "wo_sockets (resolve_request k r o') = wo_sockets o'" "wo_log (resolve_request k r o') = wo_log o'"
  "wo_refresh_sent (resolve_request k r o') = wo_refresh_sent o'"
  "wo_sockets (timer_fires now n o') = wo_sockets o'" "wo_log (timer_fires now n o') = wo_log o'"
  "wo_refresh_sent (timer_fires now n o') = wo_refresh_sent o'"
  by (simp_all add: begin_request_def Let_def resolve_request_def timer_fires_def split: option.splits prod.splits)

lemma socket_steps_keep [simp]:
  "wo_log (add_socket agent c now o') = wo_log o'" "wo_refresh_sent (add_socket agent c now o') = wo_refresh_sent o'"
  "wo_log (close_socket_of ws o') = wo_log o'" "wo_refresh_sent (close_socket_of ws o') = wo_refresh_sent o'"
  "wo_refresh_sent (set_attachment ws a o') = wo_refresh_sent o'"
  "wo_refresh_sent (note_action x o') = wo_refresh_sent o'"
  by (simp_all add: add_socket_def Let_def close_socket_of_def set_attachment_def note_action_def)

lemma routing_same:
  "routing_ok o' \<Longrightarrow> wo_sockets o2 = wo_sockets o' \<Longrightarrow> wo_log o2 = wo_log o' \<Longrightarrow> routing_ok o2"
  using active_ids_same [of o2 o'] by (simp add: routing_ok_def)

lemma routing_noted:
  assumes "routing_ok o'" and "\<And>ws. set (active_ids o2 ws) \<subseteq> set (active_ids o' ws)"
    and "wo_log o2 = wo_log o' @ [a]" and "to_running (wo_log o') a" and "\<And>ws c. a \<noteq> WCommandOver ws c"
  shows "routing_ok o2"
proof -
  have "running_step ws c r a" if r for ws c r
    using that assms(5) by (auto simp: running_step_def split: worker_action.splits)
  then show ?thesis
    using assms(1,3,4) subsetD [OF assms(2)] by (simp add: routing_ok_def)
qed

lemma plain_to_running: "is_plain_frame f \<Longrightarrow> to_running l (WSend ws f)"
  by (simp add: to_running_def is_plain_frame_def)

lemma wstep_routing: "wstep o' o2 \<Longrightarrow> routing_ok o' \<Longrightarrow> routing_ok o2"
proof (induction rule: wstep.induct)
  case (sends f o' ws)
  then show ?case by (auto intro: routing_noted plain_to_running)
next
  case (calls o' c)
  then show ?case by (auto simp: to_running_def intro: routing_noted)
next
  case (opens o' agent c now)
  then show ?case using subsetD [OF active_ids_opens] by (simp add: routing_ok_def)
next
  case (closes o' ws)
  then show ?case by (auto simp: routing_ok_def)
next
  case (attaches a o' ws)
  have "set (active_ids (set_attachment ws a o') s) \<subseteq> set (active_ids o' s)" for s
    using active_ids_set [of ws a o' s] attaches(1)
    by (auto simp: active_ids_def bind_eq_Some_conv split: if_splits option.splits)
  with attaches(2) show ?case by (auto simp: routing_ok_def)
next
  case (dispatches o' ws a cs c f)
  have "running (wo_log o' @ [WSend ws f]) s d"
    if "d \<in> set (active_ids (set_attachment ws (with_active cs a) o') s)" for s d
    using that active_ids_set [of ws "with_active cs a" o' s] dispatches
    by (auto simp: routing_ok_def running_step_def with_active_def split: if_splits)
  moreover have "to_running (wo_log o') (WSend ws f)" using dispatches by (simp add: to_running_def)
  ultimately show ?case using dispatches by (auto simp: routing_ok_def)
next
  case (dispatches_unnoted f o' ws)
  then show ?case by (auto simp: to_running_def intro: routing_noted)
next
  case (is_over o' ws a cs c)
  have "running (wo_log o' @ [WCommandOver ws c]) s d"
    if "d \<in> set (active_ids (set_attachment ws (with_active cs a) o') s)" for s d
    using that active_ids_set [of ws "with_active cs a" o' s] is_over
    by (auto simp: routing_ok_def running_step_def with_active_def split: if_splits)
  then show ?case using is_over by (auto simp: routing_ok_def to_running_def)
next
  case (refreshes o' c now ws)
  let ?o1 = "note_action (WSend ws refresh_frame) o'"
  have "routing_ok ?o1"
    using refreshes(2) by (rule routing_noted) (auto simp: to_running_def refresh_frame_def plain_frame_def)
  then show ?case
    by (rule routing_noted) (auto simp: to_running_def active_ids_def attachment_of_def note_action_def)
next
  case (forgets o' c)
  then show ?case
    by (rule routing_noted) (auto simp: to_running_def active_ids_def attachment_of_def note_action_def)
next
  case (decides o' c ws dispatch request_id)
  from active_socket_runs [OF decides(1)] decides(2) have "running (wo_log o') ws c" by (auto simp: routing_ok_def)
  then show ?case using decides(2)
    by (auto simp: to_running_def interaction_frame_def intro: routing_noted)
qed (auto intro: routing_same)

subsection \<open>Refreshes\<close>

definition spaced :: "worker_action list \<Rightarrow> worker_action \<Rightarrow> bool" where
  "spaced pre a \<longleftrightarrow>
     (case a of
        WRefreshSent c t \<Rightarrow>
          (case refreshed pre c of Some t' \<Rightarrow> t' + host_sessions_refresh_cooldown_ms \<le> t | None \<Rightarrow> True)
      | _ \<Rightarrow> True)"

definition is_refresh_frame :: "worker_action \<Rightarrow> bool" where
  "is_refresh_frame a \<longleftrightarrow> (case a of WSend _ f \<Rightarrow> fr_kind f = ''host_sessions.refresh'' | _ \<Rightarrow> False)"

definition is_refresh_note :: "worker_action \<Rightarrow> bool" where
  "is_refresh_note a \<longleftrightarrow> (case a of WRefreshSent _ _ \<Rightarrow> True | _ \<Rightarrow> False)"

definition refresh_ok :: "wobject \<Rightarrow> bool" where
  "refresh_ok o' \<longleftrightarrow>
     (\<forall>c. wo_refresh_sent o' c = refreshed (wo_log o') c)
     \<and> log_ok spaced (wo_log o')
     \<and> length (filter is_refresh_frame (wo_log o')) = length (filter is_refresh_note (wo_log o'))"

lemma wstep_refresh: "wstep o' o2 \<Longrightarrow> refresh_ok o' \<Longrightarrow> refresh_ok o2"
proof (induction rule: wstep.induct)
  case (refreshes o' c now ws)
  then show ?case
    by (auto simp: refresh_ok_def spaced_def cooled_down_def refreshed_step_def is_refresh_frame_def is_refresh_note_def
        refresh_frame_def plain_frame_def split: option.splits)
qed (auto simp: refresh_ok_def spaced_def refreshed_step_def is_refresh_frame_def is_refresh_note_def is_plain_frame_def
    interaction_frame_def)

text \<open>The distance holds between any two refreshes, not only adjacent ones.\<close>

lemma spaced_apart:
  "log_ok spaced (pre @ WRefreshSent c t # mid) \<Longrightarrow> WRefreshForgotten c \<notin> set mid \<Longrightarrow>
     \<exists>s \<ge> t. refreshed (pre @ WRefreshSent c t # mid) c = Some s"
proof (induction mid rule: rev_induct)
  case Nil
  then show ?case using refreshed_snoc [of pre "WRefreshSent c t" c] by (simp add: refreshed_step_def)
next
  case (snoc a mid)
  let ?l = "pre @ WRefreshSent c t # mid"
  have l: "pre @ WRefreshSent c t # mid @ [a] = ?l @ [a]" by simp
  have ok: "log_ok spaced ?l" "spaced ?l a"
    using snoc.prems(1) log_ok_snoc [of spaced ?l a] by simp_all
  with snoc obtain s where s: "t \<le> s" "refreshed ?l c = Some s" by auto
  have "refreshed (?l @ [a]) c = refreshed_step c (Some s) a" by (simp only: refreshed_snoc s)
  moreover have "a \<noteq> WRefreshForgotten c" using snoc.prems(2) by auto
  ultimately show ?case
    using ok(2) s
    by (cases a) (auto simp: l refreshed_step_def spaced_def host_sessions_refresh_cooldown_ms_def)
qed

subsection \<open>Requests\<close>

definition requests_ok :: "wobject \<Rightarrow> bool" where
  "requests_ok o' \<longleftrightarrow>
     (\<forall>n. wo_timers o' n \<noteq> None \<longleftrightarrow> n < length (wo_requests o') \<and> rq_promise (wo_requests o' ! n) = Waiting)
     \<and> (\<forall>n k i due. wo_timers o' n = Some (k, i, due) \<longrightarrow> rq_kind (wo_requests o' ! n) = k \<and> rq_id (wo_requests o' ! n) = i)
     \<and> (\<forall>k i n. wo_pending o' (k, i) = Some n \<longrightarrow> (\<exists>due. wo_timers o' n = Some (k, i, due)))
     \<and> (\<forall>n r. n < length (wo_requests o') \<longrightarrow> rq_promise (wo_requests o' ! n) = Resolved r \<longrightarrow>
          result_guard (rq_kind (wo_requests o' ! n)) r \<and> jget_str r ''request_id'' = Some (rq_id (wo_requests o' ! n)))"

lemma requests_same:
  "requests_ok o' \<Longrightarrow> wo_timers o2 = wo_timers o' \<Longrightarrow> wo_pending o2 = wo_pending o' \<Longrightarrow>
     wo_requests o2 = wo_requests o' \<Longrightarrow> requests_ok o2"
  by (simp add: requests_ok_def)

lemma other_steps_keep [simp]:
  "wo_timers (note_action a o') = wo_timers o'" "wo_pending (note_action a o') = wo_pending o'"
  "wo_requests (note_action a o') = wo_requests o'"
  "wo_timers (set_attachment ws x o') = wo_timers o'" "wo_pending (set_attachment ws x o') = wo_pending o'"
  "wo_requests (set_attachment ws x o') = wo_requests o'"
  "wo_timers (add_socket agent c now o') = wo_timers o'" "wo_pending (add_socket agent c now o') = wo_pending o'"
  "wo_requests (add_socket agent c now o') = wo_requests o'"
  "wo_timers (close_socket_of ws o') = wo_timers o'" "wo_pending (close_socket_of ws o') = wo_pending o'"
  "wo_requests (close_socket_of ws o') = wo_requests o'"
  by (simp_all add: note_action_def set_attachment_def add_socket_def Let_def close_socket_of_def)

lemma pending_timer:
  "requests_ok o' \<Longrightarrow> wo_pending o' (k, i) = Some n \<Longrightarrow> \<exists>due. wo_timers o' n = Some (k, i, due)"
  unfolding requests_ok_def by blast

lemma end_request_ok:
  assumes ok: "requests_ok o'" and timer: "wo_timers o' n = Some (k, i, due)"
    and p: "p \<noteq> Waiting" "\<And>r. p = Resolved r \<Longrightarrow> result_guard k r \<and> jget_str r ''request_id'' = Some i"
  shows "requests_ok (end_request n k i p o')"
proof -
  have n: "n < length (wo_requests o')" "rq_promise (wo_requests o' ! n) = Waiting"
    "rq_kind (wo_requests o' ! n) = k" "rq_id (wo_requests o' ! n) = i"
    using ok timer unfolding requests_ok_def by blast+
  have "\<exists>due. wo_timers o' m = Some (k', i', due) \<and> m \<noteq> n" if "wo_pending o' (k', i') = Some m" "(k', i') \<noteq> (k, i)" for k' i' m
    using ok timer that unfolding requests_ok_def by (metis option.inject prod.inject)
  then show ?thesis
    using ok n p
    by (auto simp: requests_ok_def end_request_def settle_def nth_list_update)
qed

lemma begin_request_ok: "requests_ok o' \<Longrightarrow> requests_ok (begin_request k i now o')"
  by (auto simp: requests_ok_def begin_request_def Let_def nth_append less_Suc_eq) (metis nat_neq_iff option.distinct(1))+

lemma wstep_requests: "wstep o' o2 \<Longrightarrow> requests_ok o' \<Longrightarrow> requests_ok o2"
proof (induction rule: wstep.induct)
  case (requests o' kind request_id now)
  then show ?case by (rule begin_request_ok)
next
  case (gives_up o' kind request_id n e)
  then obtain due where "wo_timers o' n = Some (kind, request_id, due)" using pending_timer by blast
  with gives_up(2) show ?case by (rule end_request_ok) auto
next
  case (answers kind result o')
  show ?case
  proof (cases "jget_str result ''request_id''")
    case (Some i)
    show ?thesis
    proof (cases "wo_pending o' (kind, i)")
      case (Some n)
      with answers(2) obtain due where timer: "wo_timers o' n = Some (kind, i, due)" using pending_timer by blast
      have "requests_ok (end_request n kind i (Resolved result) o')"
        by (rule end_request_ok [OF answers(2) timer]) (use answers(1) \<open>jget_str result _ = Some i\<close> in auto)
      with Some \<open>jget_str result _ = Some i\<close> show ?thesis by (simp add: resolve_request_def)
    qed (use answers(2) Some in \<open>simp add: resolve_request_def\<close>)
  qed (use answers(2) in \<open>simp add: resolve_request_def\<close>)
next
  case (times_out o' now n)
  show ?case
  proof (cases "wo_timers o' n")
    case (Some t)
    obtain k i due where t: "t = (k, i, due)" by (cases t)
    with Some end_request_ok [OF times_out, of n k i due "Rejected (timeout_text k)"] times_out show ?thesis
      by (simp add: timer_fires_def)
  qed (use times_out in \<open>simp add: timer_fires_def\<close>)
qed (auto intro: requests_same)

subsection \<open>Reachable objects\<close>

lemma empty_ok: "routing_ok empty_object" "refresh_ok empty_object" "requests_ok empty_object"
  by (simp_all add: routing_ok_def refresh_ok_def requests_ok_def empty_object_def active_ids_def attachment_of_def)

lemma reachable_ok:
  assumes "wsteps empty_object o'"
  shows "routing_ok o'" "refresh_ok o'" "requests_ok o'"
  using assms by (induction rule: rtranclp_induct)
    (auto intro: empty_ok wstep_routing wstep_refresh wstep_requests)

end
