(* ===== verification/Worker_Claims.thy ===== *)
theory Worker_Claims
  imports Worker_Invariants
begin

text \<open>
  What holds of the workspace object however its handlers interleave, with witnesses.
\<close>

subsection \<open>Lemmas\<close>

lemma running_since:
  "running l ws c \<longleftrightarrow>
     (\<exists>pre f post. l = pre @ WSend ws f # post \<and> fr_kind f = ''command.dispatch'' \<and> fr_command_id f = Some c
        \<and> WCommandOver ws c \<notin> set post)"
proof (induction l rule: rev_induct)
  case (snoc a l)
  show ?case
  proof (cases "\<exists>f. a = WSend ws f \<and> fr_kind f = ''command.dispatch'' \<and> fr_command_id f = Some c")
    case True
    then have "running (l @ [a]) ws c" by (auto simp: running_step_def)
    moreover from True have "\<exists>f. l @ [a] = l @ WSend ws f # [] \<and> fr_kind f = ''command.dispatch'' \<and> fr_command_id f = Some c
        \<and> WCommandOver ws c \<notin> set []" by auto
    ultimately show ?thesis by blast
  next
    case False
    have run: "running (l @ [a]) ws c \<longleftrightarrow> running l ws c \<and> a \<noteq> WCommandOver ws c"
      using False by (auto simp: running_step_def split: worker_action.splits)
    have split: "(\<exists>pre f post. l @ [a] = pre @ WSend ws f # post \<and> fr_kind f = ''command.dispatch'' \<and> fr_command_id f = Some c
          \<and> WCommandOver ws c \<notin> set post)
      \<longleftrightarrow> (\<exists>pre f post. l = pre @ WSend ws f # post \<and> fr_kind f = ''command.dispatch'' \<and> fr_command_id f = Some c
          \<and> WCommandOver ws c \<notin> set post) \<and> a \<noteq> WCommandOver ws c" (is "?L \<longleftrightarrow> ?R")
    proof
      assume ?L
      then obtain pre f post where p: "l @ [a] = pre @ WSend ws f # post" "fr_kind f = ''command.dispatch''"
        "fr_command_id f = Some c" "WCommandOver ws c \<notin> set post" by blast
      with False obtain q where "post = q @ [a]" by (cases post rule: rev_cases) auto
      with p show ?R by auto
    next
      assume ?R
      then obtain pre f post where "l = pre @ WSend ws f # post" "fr_kind f = ''command.dispatch''"
        "fr_command_id f = Some c" "WCommandOver ws c \<notin> set post" "a \<noteq> WCommandOver ws c" by blast
      then show ?L by (intro exI [of _ pre] exI [of _ f] exI [of _ "post @ [a]"]) auto
    qed
    show ?thesis unfolding run split snoc.IH ..
  qed
qed simp

lemma settle_keeps:
  "n < length rs \<Longrightarrow> rq_promise (rs ! n) \<noteq> Waiting \<Longrightarrow> settle m p rs ! n = rs ! n"
  by (auto simp: settle_def nth_list_update)

lemma length_settle [simp]: "length (settle n p rs) = length rs"
  by (simp add: settle_def)

lemma wstep_settled:
  "wstep o' o2 \<Longrightarrow> n < length (wo_requests o') \<Longrightarrow>
     n < length (wo_requests o2)
     \<and> (rq_promise (wo_requests o' ! n) \<noteq> Waiting \<longrightarrow> wo_requests o2 ! n = wo_requests o' ! n)"
  by (induction rule: wstep.induct)
    (auto simp: begin_request_def Let_def nth_append end_request_def resolve_request_def timer_fires_def settle_keeps
      split: option.splits)

lemma wsteps_settled:
  "wsteps o' o2 \<Longrightarrow> n < length (wo_requests o') \<Longrightarrow>
     n < length (wo_requests o2)
     \<and> (rq_promise (wo_requests o' ! n) \<noteq> Waiting \<longrightarrow> wo_requests o2 ! n = wo_requests o' ! n)"
proof (induction rule: rtranclp_induct)
  case (step o2 o3)
  with wstep_settled [of o2 o3 n] show ?case by auto
qed simp

lemma fold_timer_steps: "wsteps o' (fold (timer_fires now) ns o')"
proof (induction ns arbitrary: o')
  case (Cons n ns)
  show ?case
    using converse_rtranclp_into_rtranclp [OF wstep.times_out Cons] by simp
qed simp

lemma fold_timers:
  assumes "requests_ok o'" and "\<forall>n k i due. wo_timers o' n = Some (k, i, due) \<longrightarrow> due \<le> now"
    and "n < length (wo_requests o')" and "n \<in> set ns"
  shows "rq_promise (wo_requests (fold (timer_fires now) ns o') ! n) \<noteq> Waiting"
  using assms
proof (induction ns arbitrary: o')
  case (Cons m ns)
  let ?o = "timer_fires now m o'"
  have step: "wstep o' ?o" by (rule wstep.times_out)
  have ok: "requests_ok ?o" using step Cons.prems(1) by (rule wstep_requests)
  have due: "\<forall>n k i due. wo_timers ?o n = Some (k, i, due) \<longrightarrow> due \<le> now"
    using Cons.prems(2) by (auto simp: timer_fires_def end_request_def split: option.splits if_splits)
  have len: "n < length (wo_requests ?o)" using wstep_settled [OF step Cons.prems(3)] by blast
  show ?case
  proof (cases "n \<in> set ns")
    case True
    with Cons.IH [OF ok due len] show ?thesis by simp
  next
    case False
    with Cons.prems(4) have m: "m = n" by simp
    have "rq_promise (wo_requests ?o ! n) \<noteq> Waiting"
    proof
      assume "rq_promise (wo_requests ?o ! n) = Waiting"
      with ok len have "wo_timers ?o n \<noteq> None" by (auto simp: requests_ok_def)
      then obtain k i d where "wo_timers ?o n = Some (k, i, d)" by fast
      moreover from this have "\<not> now < d" using due by (auto simp: not_less)
      ultimately show False
        using m by (auto simp: timer_fires_def end_request_def split: option.splits if_splits)
    qed
    then show ?thesis using wsteps_settled [OF fold_timer_steps len, of now ns] by simp
  qed
qed simp

subsection \<open>A run\<close>

text \<open>
  A connector opens its socket, becomes ready and reports its sessions, the command \<open>q\<close> is
  dispatched to it, the user decides on an interaction of \<open>q\<close>, a thread is to be created.
\<close>

definition demo_wworld :: "wobject \<Rightarrow> wworld" where
  "demo_wworld o' = \<lparr> ww_obj = o', ww_tick = 0, ww_other = (\<lambda>_ o'. o'), ww_now = (\<lambda>n. int n),
     ww_send_fails = (\<lambda>_. None), ww_random = (\<lambda>_. ''0123456789abcdef''), ww_safety = (\<lambda>_. SafetyAllows),
     ww_changed = (\<lambda>_. Inr True), ww_marked = (\<lambda>_. None), ww_events = (\<lambda>_. Inr []),
     ww_sessions = (\<lambda>_. Inr \<lparr> sr_host_sessions = [], sr_synced_at = ''now'', sr_snapshot = True,
       sr_failed_events = [], sr_released = [] \<rparr>), ww_instances = (\<lambda>_. Inl []), ww_event = (\<lambda>_. Inl []),
     ww_commands = (\<lambda>_. Inr [\<lparr> pc_id = ''q'', pc_payload = jobj [] \<rparr>]),
     ww_cleanup = (\<lambda>_. Inr \<lparr> cr_failed_events = [], cr_released = [] \<rparr>), ww_summary = (\<lambda>_. Inr None),
     ww_has_db = True, ww_iso = (\<lambda>_. ''now''), ww_print = (\<lambda>_. ''...'') \<rparr>"

definition demo_ready :: json where
  "demo_ready = jobj [(''kind'', JStr ''agent.ready'')]"

definition demo_sessions :: json where
  "demo_sessions = jobj [(''kind'', JStr ''agent.host_sessions''), (''payload'', jobj [(''sessions'', JArr [])])]"

definition demo_decision_made :: json where
  "demo_decision_made = jobj [(''command_id'', JStr ''q''), (''interaction_id'', JStr ''i''),
     (''response'', jobj [(''kind'', JStr ''approval''), (''decision'', JStr ''accept'')])]"

definition demo_creation :: json where
  "demo_creation = jobj [(''connector_id'', JStr ''c''), (''request_id'', JStr ''r''), (''workspace_id'', JStr ''w'')]"

definition after_events :: "object_event list \<Rightarrow> wobject" where
  "after_events es = foldl (\<lambda>o' e. ww_obj (snd (run_state (handle_event 3 e) (demo_wworld o')))) empty_object es"

definition demo_events :: "object_event list" where
  "demo_events = [Opens True (Some ''c''), Message 1 [] (Inr demo_ready), Message 1 [] (Inr demo_sessions),
     ResolveInteraction (Inr demo_decision_made),
     CreateThread (Inr demo_creation)]"

text \<open>The run is one of steps of the object.\<close>

lemma demo_others: "others_step (demo_wworld o')"
  by (simp add: others_step_def demo_wworld_def)

lemma event_steps:
  "others_step w \<Longrightarrow> wsteps (ww_obj w) (ww_obj (snd (run_state (handle_event fuel e) w)))"
  using wr.keepsD [OF event_refines] by (simp add: wrel_def)

lemma after_events_steps: "wsteps empty_object (after_events es)"
  unfolding after_events_def
proof (induction es rule: rev_induct)
  case (snoc e es)
  from event_steps [OF demo_others] snoc show ?case
    by (auto simp: demo_wworld_def intro: rtranclp_trans)
qed simp

definition demo_log :: "worker_action list" where
  "demo_log = wo_log (after_events demo_events)"

lemma demo_decision_sent:
  "\<exists>f. demo_log = take 15 demo_log @ WSend 1 f # drop 16 demo_log \<and> fr_kind f = ''turn.interaction_response''"
proof -
  have "length demo_log = 17
      \<and> (case demo_log ! 15 of WSend ws f \<Rightarrow> ws = 1 \<and> fr_kind f = ''turn.interaction_response'' | _ \<Rightarrow> False)"
    by code_simp
  then show ?thesis using id_take_nth_drop [of 15 demo_log] by (auto split: worker_action.splits)
qed

subsection \<open>The handlers\<close>

text \<open>
  C10: The handlers implement the state machine. Whatever event makes the object run a handler,
  whatever the data base answers and however sends and calls fail, what the handler does to the
  object from its start to its end is a sequence of the machine's steps, provided that what other
  handlers do to it at the waits is one, too.
\<close>
theorem handlers_are_steps:
  assumes "\<forall>k o'. wsteps o' (ww_other w k o')"
  shows "wsteps (ww_obj w) (ww_obj (snd (run_state (handle_event fuel e) w)))"
  using assms by (intro event_steps) (simp add: others_step_def)

theorem handlers_are_steps_witness:
  "wsteps empty_object (ww_obj (snd (run_state (handle_event 3 (Opens True (Some ''c''))) (demo_wworld empty_object))))"
  using handlers_are_steps [of "demo_wworld empty_object" 3 "Opens True (Some ''c'')"] by (simp add: demo_wworld_def)



text \<open>
  Refreshes keep their distance. However handlers interleave, the times of any two refreshes
  sent to the same connector are a minute apart, unless a socket that owed the report of the
  first was gone between them; and no frame asks for a refresh without being counted.
\<close>
theorem refreshes_keep_their_distance:
  assumes "wsteps empty_object o'" and "wo_log o' = pre @ WRefreshSent c t # mid @ WRefreshSent c t' # post"
    and "WRefreshForgotten c \<notin> set mid"
  shows "t + 60000 \<le> t' \<and> length (filter is_refresh_frame (wo_log o')) = length (filter is_refresh_note (wo_log o'))"
proof -
  have ok: "refresh_ok o'" by (rule reachable_ok(2) [OF assms(1)])
  let ?l = "pre @ WRefreshSent c t # mid"
  have log: "wo_log o' = ?l @ WRefreshSent c t' # post" using assms(2) by simp
  from ok have "log_ok spaced (wo_log o')" by (simp add: refresh_ok_def)
  then have "spaced ?l (WRefreshSent c t')" "log_ok spaced ?l"
    using log_okD log log_ok_prefix [of spaced ?l] by (blast, metis)
  moreover from spaced_apart [OF this(2) assms(3)] obtain s where "t \<le> s" "refreshed ?l c = Some s" by blast
  ultimately have "s + 60000 \<le> t'" "t \<le> s" by (simp_all add: spaced_def host_sessions_refresh_cooldown_ms_def)
  then have "t + 60000 \<le> t'" by linarith
  with ok show ?thesis by (simp add: refresh_ok_def)
qed

theorem refreshes_keep_their_distance_witness:
  "\<exists>o'. wsteps empty_object o' \<and> wo_log o' = [WSend 1 refresh_frame, WRefreshSent ''c'' 5, WSend 1 refresh_frame,
      WRefreshSent ''c'' 60005] \<and> (5 :: int) + 60000 \<le> 60005"
proof -
  let ?o1 = "note_action (WRefreshSent ''c'' 5)
      ((note_action (WSend 1 refresh_frame) empty_object)\<lparr>wo_refresh_sent := (wo_refresh_sent empty_object)(''c'' \<mapsto> 5)\<rparr>)"
  let ?o2 = "note_action (WRefreshSent ''c'' 60005)
      ((note_action (WSend 1 refresh_frame) ?o1)\<lparr>wo_refresh_sent := (wo_refresh_sent ?o1)(''c'' \<mapsto> 60005)\<rparr>)"
  have "wstep empty_object ?o1" by (rule wstep.refreshes) (simp add: cooled_down_def empty_object_def)
  moreover have "wstep ?o1 ?o2"
    by (rule wstep.refreshes) (simp add: cooled_down_def note_action_def host_sessions_refresh_cooldown_ms_def)
  ultimately have reach: "wsteps empty_object ?o2" by (meson converse_rtranclp_into_rtranclp rtranclp.rtrancl_refl)
  have log: "wo_log ?o2 = [WSend 1 refresh_frame, WRefreshSent ''c'' 5, WSend 1 refresh_frame, WRefreshSent ''c'' 60005]"
    by (simp add: note_action_def empty_object_def)
  have "(5 :: int) + 60000 \<le> 60005"
    using refreshes_keep_their_distance [OF reach, of "[WSend 1 refresh_frame]" "''c''" 5 "[WSend 1 refresh_frame]" 60005 "[]"]
      log by simp
  with reach log show ?thesis by blast
qed

subsection \<open>Requests\<close>

text \<open>
  C11: A request is answered once, and with its own answer. However handlers, timers and answers
  interleave, also when two requests have the same id: a request waits exactly as long as its
  timer is set; what resolves it passed the guard for its kind and carries its id; and once it is
  settled, nothing changes its outcome.
\<close>
theorem requests_are_answered_once:
  assumes "wsteps empty_object o'" and "n < length (wo_requests o')"
  shows "(wo_timers o' n \<noteq> None \<longleftrightarrow> rq_promise (wo_requests o' ! n) = Waiting)
    \<and> (\<forall>r. rq_promise (wo_requests o' ! n) = Resolved r \<longrightarrow>
         result_guard (rq_kind (wo_requests o' ! n)) r
         \<and> jget_str r ''request_id'' = Some (rq_id (wo_requests o' ! n)))
    \<and> (\<forall>o2. wsteps o' o2 \<longrightarrow> rq_promise (wo_requests o' ! n) \<noteq> Waiting \<longrightarrow>
         wo_requests o2 ! n = wo_requests o' ! n)"
  using reachable_ok(3) [OF assms(1)] assms(2) wsteps_settled [OF _ assms(2)]
  unfolding requests_ok_def by blast

lemma demo_waiting:
  "length (wo_requests (after_events demo_events)) = 2 \<and> rq_promise (wo_requests (after_events demo_events) ! 1) = Waiting"
  by code_simp

theorem requests_are_answered_once_witness: "wo_timers (after_events demo_events) 1 \<noteq> None"
  using requests_are_answered_once [OF after_events_steps, of 1 demo_events] demo_waiting by simp

text \<open>
  No request waits for ever. When the clock has passed the times for which the timers are set,
  which is at most twenty seconds after a request began, the timers as they fire leave no
  request waiting, whatever was answered before.
\<close>
theorem requests_come_to_an_end:
  assumes "wsteps empty_object o'" and "\<forall>n k i due. wo_timers o' n = Some (k, i, due) \<longrightarrow> due \<le> now"
    and "n < length (wo_requests o')"
  shows "rq_promise (wo_requests (fold (timer_fires now) [0..<length (wo_requests o')] o') ! n) \<noteq> Waiting
    \<and> wo_timers (begin_request kind i start_time o') (length (wo_requests o')) = Some (kind, i, start_time + request_timeout_ms kind)
    \<and> request_timeout_ms kind \<le> 20000"
proof -
  have "rq_promise (wo_requests (fold (timer_fires now) [0..<length (wo_requests o')] o') ! n) \<noteq> Waiting"
    by (rule fold_timers [OF reachable_ok(3) [OF assms(1)] assms(2,3)]) (use assms(3) in simp)
  then show ?thesis by (cases kind) (simp_all add: begin_request_def Let_def)
qed

theorem requests_come_to_an_end_witness:
  "rq_promise (wo_requests (fold (timer_fires 20000) [0..<1] (begin_request ThreadCreate ''r'' 0 empty_object)) ! 0) \<noteq> Waiting"
proof -
  let ?o = "begin_request ThreadCreate ''r'' 0 empty_object"
  have "wsteps empty_object ?o" by (blast intro: wstep.requests)
  moreover have "\<forall>n k i due. wo_timers ?o n = Some (k, i, due) \<longrightarrow> due \<le> 20000"
    by (simp add: begin_request_def empty_object_def)
  moreover have "length (wo_requests ?o) = 1" by (simp add: begin_request_def empty_object_def)
  ultimately show ?thesis using requests_come_to_an_end [of ?o 20000 0] by simp
qed

end
