(* ===== verification/Worker_Answers.thy ===== *)
theory Worker_Answers
  imports Worker_Claims Protocol_Claims
begin

text \<open>
  The connector and the workspace object together: what the connector answers to a request is
  what the caller of the control plane gets.
\<close>

subsection \<open>An answer arrives\<close>

fun result_kind :: "request_kind \<Rightarrow> string" where
  "result_kind ThreadCreate = ''thread.create_result''"
| "result_kind Backfill = ''host_session.backfill_result''"
| "result_kind AppServerEnsure = ''host_session.app_server_ensure_result''"
| "result_kind ArchiveSync = ''thread.archive_sync_result''"
| "result_kind TurnInteraction = ''turn.interaction_response_ack''"

definition agent_socket :: "wobject \<Rightarrow> nat \<Rightarrow> bool" where
  "agent_socket o' ws \<longleftrightarrow>
     (\<exists>a c cs. attachment_of o' ws = Some a \<and> at_socketType a = Some ''agent'' \<and> at_connectorId a = Some (c # cs))"

lemma result_handled:
  "kind \<noteq> TurnInteraction \<Longrightarrow> result_guard kind p \<Longrightarrow>
     handleAgentMessage fuel ws c text (Inr (jobj [(''kind'', JStr (result_kind kind)), (''payload'', p)]))
       = handle_result ws kind (result_kind kind) p"
  by (cases kind) (simp_all add: handleAgentMessage_def parseMessage_def guard_simps Let_def)

lemma reply_requests [simp]: "wo_requests (ww_obj (snd (run_state (reply ws r) w))) = wo_requests (ww_obj w)"
  by (cases r) (auto simp: reply_def reply_envelope_def send_ws_def split: option.splits)

lemma resolved_request:
  assumes "requests_ok o'" and "wo_pending o' (kind, i) = Some n" and "jget_str p ''request_id'' = Some i"
  shows "wo_requests (resolve_request kind p o') ! n = (wo_requests o' ! n)\<lparr>rq_promise := Resolved p\<rparr>"
proof -
  obtain due where "wo_timers o' n = Some (kind, i, due)" using pending_timer [OF assms(1,2)] by blast
  then have "n < length (wo_requests o')" "rq_promise (wo_requests o' ! n) = Waiting"
    using assms(1) unfolding requests_ok_def by (metis option.distinct(1))+
  with assms(2,3) show ?thesis by (simp add: resolve_request_def end_request_def settle_def)
qed

definition after_message :: "nat \<Rightarrow> nat \<Rightarrow> ('a serde_scheme) \<Rightarrow> json \<Rightarrow> wworld \<Rightarrow> wobject" where
  "after_message fuel ws sd v w =
     ww_obj (snd (run_state (webSocketMessage fuel ws (js_print sd v) (js_parse sd (js_print sd v))) w))"

lemma answer_arrives:
  assumes "exact_text sd" and "no_floats p" and "wsteps empty_object (ww_obj w)" and "agent_socket (ww_obj w) ws"
    and "kind \<noteq> TurnInteraction" and "result_guard kind p" and "jget_str p ''request_id'' = Some i"
    and "wo_pending (ww_obj w) (kind, i) = Some n"
  shows "rq_promise (wo_requests (after_message fuel ws sd (jobj [(''kind'', JStr (result_kind kind)), (''payload'', p)]) w) ! n)
    = Resolved p"
proof -
  let ?v = "jobj [(''kind'', JStr (result_kind kind)), (''payload'', p)]"
  have "no_floats ?v" using assms(2) by (intro no_floats_jobj) auto
  from read_back [OF assms(1) this] have parsed: "js_parse sd (js_print sd ?v) = Inr ?v" .
  obtain a c cs where a: "attachment_of (ww_obj w) ws = Some a" "at_socketType a = Some ''agent''"
    "at_connectorId a = Some (c # cs)" using assms(4) by (auto simp: agent_socket_def)
  have "after_message fuel ws sd ?v w = ww_obj (snd (run_state (handle_result ws kind (result_kind kind) p) w))"
    by (simp add: after_message_def webSocketMessage_def parsed a result_handled [OF assms(5,6)])
  then have "wo_requests (after_message fuel ws sd ?v w) = wo_requests (resolve_request kind p (ww_obj w))"
    by (simp add: handle_result_def)
  with resolved_request [OF reachable_ok(3) [OF assms(3)] assms(8,7)] show ?thesis by simp
qed

subsection \<open>From the connector to the caller\<close>

definition result_payload :: "string \<Rightarrow> string + (string \<times> json) list \<Rightarrow> json" where
  "result_payload request_id r =
     jobj ([(''request_id'', JStr request_id), (''ok'', JBool (succeeded r))]
       @ (case r of Inl e \<Rightarrow> [(''error'', JStr e)] | Inr entries \<Rightarrow> entries))"

lemma request_result_payload:
  "request_result_json kind i r = jobj [(''kind'', JStr kind), (''payload'', result_payload i r)]"
  by (simp add: request_result_json_def result_payload_def)

lemma session_answer_result:
  "session_answer message (result_payload i (map_ok (\<lambda>s. [(''session'', host_session_json s)]) r))
   = (case r of Inr s \<Rightarrow> (200, jobj [(''session'', host_session_json s)]) | Inl e \<Rightarrow> (502, jobj [(''error'', JStr e)]))"
  by (cases r) (simp_all add: result_payload_def map_ok_def succeeded_def guard_simps session_answer_def jtrue_def error_or_def)

lemma session_payload:
  fixes i :: string and r :: "string + agent_host_session"
  defines "p \<equiv> result_payload i (map_ok (\<lambda>s. [(''session'', host_session_json s)]) r)"
  shows "isLocalThreadCreateResult p" "isHostSessionAppServerEnsureResult p" "no_floats p" "jget_str p ''request_id'' = Some i"
    "session_answer message p = (case r of Inr s \<Rightarrow> (200, jobj [(''session'', host_session_json s)])
       | Inl e \<Rightarrow> (502, jobj [(''error'', JStr e)]))"
  unfolding p_def session_answer_result
  by (cases r; auto simp: result_payload_def map_ok_def succeeded_def guard_simps guard_host_session jget_str_def
      isLocalThreadCreateResult_def isHostSessionAppServerEnsureResult_def no_floats_session intro!: no_floats_jobj)+

lemma archive_payload:
  fixes i :: string and r :: "string + bool"
  defines "p \<equiv> result_payload i (map_ok (\<lambda>s. [(''synced'', JBool s)]) r)"
  shows "isThreadArchiveSyncResult p" "no_floats p" "jget_str p ''request_id'' = Some i"
    "archive_answer p = (case r of Inr s \<Rightarrow> (200, jobj [(''ok'', JBool True), (''synced'', JBool s)])
       | Inl e \<Rightarrow> (502, jobj [(''error'', JStr e)]))"
  unfolding p_def
  by (cases r; auto simp: result_payload_def map_ok_def succeeded_def guard_simps jget_str_def
      isThreadArchiveSyncResult_def archive_answer_def jtrue_def error_or_def intro!: no_floats_jobj)+

text \<open>What the connector's handlers send first.\<close>

lemma sends_first:
  assumes "cf.keeps m"
  shows "\<exists>log. k_log (snd (run_state (tryE (send_json v) (\<lambda>_. m)) k)) = k_log k @ [ASend (ValueFrame v) (k_send k (k_tick k))] @ log"
proof (cases "k_send k (k_tick k)")
  case None
  then show ?thesis
    using cf.keepsD [OF assms, of "k\<lparr>k_tick := Suc (k_tick k), k_log := k_log k @ [ASend (ValueFrame v) None]\<rparr>"]
    by (auto simp: send_json_def send_frame_def conn_frame_def)
qed (auto simp: send_json_def send_frame_def)

lemma handler_sends_first:
  assumes "\<And>r. cf.keeps (m r)" and "\<And>x. f (k\<lparr>k_log := x\<rparr>) = f k"
  shows "\<exists>e log. k_log (snd (run_state (do { klog a; r \<leftarrow> kask f; tryE (send_json (v r)) (\<lambda>_. m r) }) k))
    = k_log k @ [a, ASend (ValueFrame (v (f k (k_tick k)))) e] @ log"
proof -
  let ?r = "f k (k_tick k)"
  show ?thesis
    using sends_first [OF assms(1) [of ?r], of "v ?r" "k\<lparr>k_log := k_log k @ [a], k_tick := Suc (k_tick k)\<rparr>"]
    by (auto simp: assms(2) cong: sum.case_cong prod.case_cong)
qed

lemma reports_keep: "cf.keeps (if b then send_incremental_host_sessions c else ok ())"
  "cf.keeps (if b then send_host_sessions c True else ok ())"
  by (auto intro!: cf_rules conn_frames)

lemma handler_answered:
  assumes "exact_text sd" and "wsteps empty_object (ww_obj w)" and "agent_socket (ww_obj w) ws"
    and "kind \<noteq> TurnInteraction" and "wo_pending (ww_obj w) (kind, i) = Some n"
    and "\<And>r. cf.keeps (m r)" and "\<And>x. f (k\<lparr>k_log := x\<rparr>) = f k"
    and "result_guard kind (result_payload i (g (f k (k_tick k))))"
    and "no_floats (result_payload i (g (f k (k_tick k))))"
    and "jget_str (result_payload i (g (f k (k_tick k)))) ''request_id'' = Some i"
  shows "\<exists>v e log. k_log (snd (run_state
        (do { klog a; r \<leftarrow> kask f; tryE (send_json (request_result_json (result_kind kind) i (g r))) (\<lambda>_. m r) }) k))
        = k_log k @ [a, ASend (ValueFrame v) e] @ log
    \<and> rq_promise (wo_requests (after_message fuel ws sd v w) ! n) = Resolved (result_payload i (g (f k (k_tick k))))"
proof -
  let ?r = "g (f k (k_tick k))"
  have "rq_promise (wo_requests (after_message fuel ws sd (request_result_json (result_kind kind) i ?r) w) ! n)
      = Resolved (result_payload i ?r)"
    using answer_arrives [OF assms(1,9,2-4,8,10,5)] by (simp only: request_result_payload)
  moreover have "\<exists>e log. k_log (snd (run_state
        (do { klog a; r \<leftarrow> kask f; tryE (send_json (request_result_json (result_kind kind) i (g r))) (\<lambda>_. m r) }) k))
      = k_log k @ [a, ASend (ValueFrame (request_result_json (result_kind kind) i ?r)) e] @ log"
    by (rule handler_sends_first [OF assms(6,7)])
  ultimately show ?thesis by blast
qed

lemma creation_answered:
  assumes "exact_text sd" and "wsteps empty_object (ww_obj w)" and "agent_socket (ww_obj w) ws"
    and "wo_pending (ww_obj w) (ThreadCreate, tc_request_id d) = Some n"
  shows "\<exists>v e log. k_log (snd (run_state (handle_thread_create d c) k))
        = k_log k @ [ACreateThread (tc_title d), ASend (ValueFrame v) e] @ log
    \<and> request_answer ThreadCreate True (rq_promise (wo_requests (after_message fuel ws sd v w) ! n))
        = Some (case k_create k (k_tick k) of Inr s \<Rightarrow> (200, jobj [(''session'', host_session_json s)])
                | Inl m \<Rightarrow> (502, jobj [(''error'', JStr m)]))"
proof -
  let ?g = "map_ok (\<lambda>s. [(''session'', host_session_json s)])"
  have "\<exists>v e log. k_log (snd (run_state (handle_thread_create d c) k)) = k_log k @ [ACreateThread (tc_title d), ASend (ValueFrame v) e] @ log
      \<and> rq_promise (wo_requests (after_message fuel ws sd v w) ! n) = Resolved (result_payload (tc_request_id d) (?g (k_create k (k_tick k))))"
    unfolding handle_thread_create_def result_kind.simps [symmetric]
    by (rule handler_answered [OF assms(1-3) _ assms(4)]) (simp_all add: session_payload reports_keep)
  then show ?thesis by (auto simp: request_answer_def session_payload)
qed

lemma attach_answered:
  assumes "exact_text sd" and "wsteps empty_object (ww_obj w)" and "agent_socket (ww_obj w) ws"
    and "wo_pending (ww_obj w) (AppServerEnsure, he_request_id he) = Some n"
  shows "\<exists>v e log. k_log (snd (run_state (handle_host_session_app_server_ensure he c) k))
        = k_log k @ [AEnsureSession (he_session_id he) (he_title he) (he_cwd he), ASend (ValueFrame v) e] @ log
    \<and> request_answer AppServerEnsure True (rq_promise (wo_requests (after_message fuel ws sd v w) ! n))
        = Some (case k_ensure k (k_tick k) of Inr s \<Rightarrow> (200, jobj [(''session'', host_session_json s)])
                | Inl m \<Rightarrow> (502, jobj [(''error'', JStr m)]))"
proof -
  let ?g = "map_ok (\<lambda>s. [(''session'', host_session_json s)])"
  have "\<exists>v e log. k_log (snd (run_state (handle_host_session_app_server_ensure he c) k)) = k_log k @ [AEnsureSession (he_session_id he) (he_title he) (he_cwd he), ASend (ValueFrame v) e] @ log
      \<and> rq_promise (wo_requests (after_message fuel ws sd v w) ! n) = Resolved (result_payload (he_request_id he) (?g (k_ensure k (k_tick k))))"
    unfolding handle_host_session_app_server_ensure_def result_kind.simps [symmetric]
    by (rule handler_answered [OF assms(1-3) _ assms(4)]) (simp_all add: session_payload reports_keep)
  then show ?thesis by (auto simp: request_answer_def session_payload)
qed

lemma archive_answered:
  assumes "exact_text sd" and "wsteps empty_object (ww_obj w)" and "agent_socket (ww_obj w) ws"
    and "wo_pending (ww_obj w) (ArchiveSync, ta_request_id ta) = Some n"
  shows "\<exists>v e log. k_log (snd (run_state (handle_thread_archive_sync ta c) k))
        = k_log k @ [ASetArchived (ta_session_id ta) (ta_archived ta), ASend (ValueFrame v) e] @ log
    \<and> request_answer ArchiveSync True (rq_promise (wo_requests (after_message fuel ws sd v w) ! n))
        = Some (case k_archive k (k_tick k) of Inr s \<Rightarrow> (200, jobj [(''ok'', JBool True), (''synced'', JBool s)])
                | Inl m \<Rightarrow> (502, jobj [(''error'', JStr m)]))"
proof -
  let ?g = "map_ok (\<lambda>s. [(''synced'', JBool s)])"
  have "\<exists>v e log. k_log (snd (run_state (handle_thread_archive_sync ta c) k)) = k_log k @ [ASetArchived (ta_session_id ta) (ta_archived ta), ASend (ValueFrame v) e] @ log
      \<and> rq_promise (wo_requests (after_message fuel ws sd v w) ! n) = Resolved (result_payload (ta_request_id ta) (?g (k_archive k (k_tick k))))"
    unfolding handle_thread_archive_sync_def result_kind.simps [symmetric]
    by (rule handler_answered [OF assms(1-3) _ assms(4)]) (simp_all add: archive_payload reports_keep)
  then show ?thesis by (auto simp: request_answer_def archive_payload)
qed

text \<open>
  C8: The caller gets the connector's answer. When the connector has run a request to create a
  thread, to attach a session to the app server or to archive a thread, the first frame it sends
  is its answer; and when that text reaches the workspace object while the request waits there,
  in any state it can be in, the caller is answered with the very session (or whether it was
  synced) or the very error the connector came to.
\<close>
theorem answers_reach_the_caller:
  assumes "exact_text sd" and "wsteps empty_object (ww_obj w)" and "agent_socket (ww_obj w) ws"
  shows "(wo_pending (ww_obj w) (ThreadCreate, tc_request_id d) = Some n \<longrightarrow>
      (\<exists>v e log. k_log (snd (run_state (handle_thread_create d c) k))
            = k_log k @ [ACreateThread (tc_title d), ASend (ValueFrame v) e] @ log
        \<and> request_answer ThreadCreate True (rq_promise (wo_requests (after_message fuel ws sd v w) ! n))
            = Some (case k_create k (k_tick k) of Inr s \<Rightarrow> (200, jobj [(''session'', host_session_json s)])
                    | Inl m \<Rightarrow> (502, jobj [(''error'', JStr m)]))))
    \<and> (wo_pending (ww_obj w) (AppServerEnsure, he_request_id he) = Some n \<longrightarrow>
      (\<exists>v e log. k_log (snd (run_state (handle_host_session_app_server_ensure he c) k))
            = k_log k @ [AEnsureSession (he_session_id he) (he_title he) (he_cwd he), ASend (ValueFrame v) e] @ log
        \<and> request_answer AppServerEnsure True (rq_promise (wo_requests (after_message fuel ws sd v w) ! n))
            = Some (case k_ensure k (k_tick k) of Inr s \<Rightarrow> (200, jobj [(''session'', host_session_json s)])
                    | Inl m \<Rightarrow> (502, jobj [(''error'', JStr m)]))))
    \<and> (wo_pending (ww_obj w) (ArchiveSync, ta_request_id ta) = Some n \<longrightarrow>
      (\<exists>v e log. k_log (snd (run_state (handle_thread_archive_sync ta c) k))
            = k_log k @ [ASetArchived (ta_session_id ta) (ta_archived ta), ASend (ValueFrame v) e] @ log
        \<and> request_answer ArchiveSync True (rq_promise (wo_requests (after_message fuel ws sd v w) ! n))
            = Some (case k_archive k (k_tick k) of Inr s \<Rightarrow> (200, jobj [(''ok'', JBool True), (''synced'', JBool s)])
                    | Inl m \<Rightarrow> (502, jobj [(''error'', JStr m)]))))"
    (is "(?pc \<longrightarrow> ?create) \<and> (?pe \<longrightarrow> ?ensure) \<and> (?pa \<longrightarrow> ?archive)")
  by (intro conjI impI creation_answered [OF assms] attach_answered [OF assms] archive_answered [OF assms])

lemma demo_pending:
  "wo_pending (after_events demo_events) (ThreadCreate, ''r'') = Some 1
   \<and> (case attachment_of (after_events demo_events) 1 of None \<Rightarrow> False
      | Some a \<Rightarrow> at_socketType a = Some ''agent'' \<and> at_connectorId a = Some ''c'')"
  by code_simp

lemma demo_agent_socket: "agent_socket (after_events demo_events) 1"
  using demo_pending by (auto simp: agent_socket_def split: option.splits)

theorem answers_reach_the_caller_witness:
  "\<exists>v. request_answer ThreadCreate True
      (rq_promise (wo_requests (after_message 3 1 demo_wire v (demo_wworld (after_events demo_events))) ! 1))
    = Some (502, jobj [(''error'', JStr ''no app-server'')])"
proof -
  let ?w = "demo_wworld (after_events demo_events)" and ?k = "demo_conn demo_wire [] WorkerBusy"
  let ?d = "\<lparr> tc_request_id = ''r'', tc_title = None \<rparr>"
  have w: "wsteps empty_object (ww_obj ?w)" "agent_socket (ww_obj ?w) 1"
    "wo_pending (ww_obj ?w) (ThreadCreate, tc_request_id ?d) = Some 1"
    using after_events_steps demo_agent_socket demo_pending by (simp_all add: demo_wworld_def)
  have "k_create ?k (k_tick ?k) = Inl ''no app-server''" by (simp add: demo_conn_def)
  with mp [OF conjunct1 [OF answers_reach_the_caller
      [where d = ?d and n = 1 and c = demo_config and k = ?k and fuel = 3, OF demo_exact w(1,2)]] w(3)]
  show ?thesis by auto
qed

subsection \<open>Backfills\<close>

definition backfill_entries :: "host_session_backfill \<Rightarrow> (string \<times> json) list" where
  "backfill_entries b =
     [(''events'', JArr (map backfill_event_json (hb_events b))), (''truncated'', JBool (hb_truncated b))]"

lemma backfill_payload:
  fixes i :: string and b :: host_session_backfill
  defines "p \<equiv> result_payload i (Inr (backfill_entries b))"
  shows "isHostSessionBackfillResult p \<longleftrightarrow> list_all isAgentBackfillEvent (map backfill_event_json (hb_events b))"
    "no_floats p" "jget_str p ''request_id'' = Some i"
    "backfill_answer p = (200, jobj [(''events'', JArr (map backfill_event_json (hb_events b))),
       (''truncated'', JBool (hb_truncated b))])"
  unfolding p_def
  by (auto simp: result_payload_def backfill_entries_def succeeded_def guard_simps jget_str_def isHostSessionBackfillResult_def
      backfill_answer_def jtrue_def error_or_def backfill_event_json_def intro!: no_floats_jobj)

lemma unrecognised_backfill:
  "\<not> isHostSessionBackfillResult p \<Longrightarrow>
     handleAgentMessage fuel ws c t (Inr (jobj [(''kind'', JStr ''host_session.backfill_result''), (''payload'', p)]))
       = reply ws (ReplyAck (jobj [(''received'', JNum (PosInt (js_length t)))]))"
  by (simp add: handleAgentMessage_def parseMessage_def guard_simps Let_def)

text \<open>
  C35: The caller of a backfill gets every event that was found, in order, exactly when each of them
  has a time that is not blank; with one that has not, the answer leaves the request waiting as
  it was, until its timer ends it. An answer that is an error always arrives.
\<close>
theorem backfills_reach_the_caller:
  assumes "exact_text sd" and "wsteps empty_object (ww_obj w)" and "agent_socket (ww_obj w) ws"
    and "wo_pending (ww_obj w) (Backfill, i) = Some n"
    and "build_host_session_backfill depth disk si session_id limit = Some (Inr b)"
  shows "request_answer Backfill True (rq_promise (wo_requests (after_message fuel ws sd
      (request_result_json ''host_session.backfill_result'' i (Inr (backfill_entries b))) w) ! n))
    = (if list_all (\<lambda>e. js_trim (be_created_at e) \<noteq> []) (hb_events b)
       then Some (200, jobj [(''events'', JArr (map backfill_event_json (hb_events b))),
                             (''truncated'', JBool (hb_truncated b))])
       else None)
   \<and> request_answer Backfill True (rq_promise (wo_requests (after_message fuel ws sd
      (request_result_json ''host_session.backfill_result'' i (Inl message)) w) ! n))
    = Some (502, jobj [(''error'', JStr message)])"
proof
  let ?p = "result_payload i (Inr (backfill_entries b))" and ?o = "ww_obj w"
  let ?v = "request_result_json ''host_session.backfill_result'' i (Inr (backfill_entries b))"
  have guard: "isHostSessionBackfillResult ?p \<longleftrightarrow> list_all (\<lambda>e. js_trim (be_created_at e) \<noteq> []) (hb_events b)"
    using backfill_events_bounds [OF assms(5)] by (auto simp: backfill_payload(1) list_all_iff guard_backfill_event)
  show "request_answer Backfill True (rq_promise (wo_requests (after_message fuel ws sd ?v w) ! n))
    = (if list_all (\<lambda>e. js_trim (be_created_at e) \<noteq> []) (hb_events b)
       then Some (200, jobj [(''events'', JArr (map backfill_event_json (hb_events b))),
                             (''truncated'', JBool (hb_truncated b))]) else None)"
  proof (cases "isHostSessionBackfillResult ?p")
    case True
    with answer_arrives [where fuel = fuel, OF assms(1) backfill_payload(2) assms(2,3) _ _ backfill_payload(3) assms(4)]
    have "rq_promise (wo_requests (after_message fuel ws sd ?v w) ! n) = Resolved ?p"
      by (simp add: request_result_payload)
    with True guard show ?thesis by (simp add: request_answer_def backfill_payload(4))
  next
    case False
    have "no_floats ?v" unfolding request_result_payload by (intro no_floats_jobj) (auto simp: backfill_payload(2))
    then have parsed: "js_parse sd (js_print sd ?v) = Inr ?v" by (rule read_back [OF assms(1)])
    have "wo_requests (after_message fuel ws sd ?v w) = wo_requests ?o"
      using assms(3) False
      by (auto simp: agent_socket_def after_message_def webSocketMessage_def parsed)
        (simp add: request_result_payload unrecognised_backfill)
    moreover obtain due where "wo_timers ?o n = Some (Backfill, i, due)"
      using pending_timer [OF reachable_ok(3) [OF assms(2)] assms(4)] by blast
    then have "rq_promise (wo_requests ?o ! n) = Waiting"
      using reachable_ok(3) [OF assms(2)] unfolding requests_ok_def by (metis option.distinct(1))
    ultimately show ?thesis using False guard by (simp add: request_answer_def)
  qed
  have failed: "isHostSessionBackfillResult (result_payload i (Inl message))" "no_floats (result_payload i (Inl message))"
    "jget_str (result_payload i (Inl message)) ''request_id'' = Some i"
    "backfill_answer (result_payload i (Inl message)) = (502, jobj [(''error'', JStr message)])"
    by (auto simp: result_payload_def succeeded_def guard_simps jget_str_def isHostSessionBackfillResult_def
        backfill_answer_def jtrue_def error_or_def intro!: no_floats_jobj)
  show "request_answer Backfill True (rq_promise (wo_requests (after_message fuel ws sd
      (request_result_json ''host_session.backfill_result'' i (Inl message)) w) ! n)) = Some (502, jobj [(''error'', JStr message)])"
    using answer_arrives [where fuel = fuel, OF assms(1) failed(2) assms(2,3) _ _ failed(3) assms(4)] failed(1,4)
    by (simp add: request_result_payload request_answer_def)
qed

theorem backfills_reach_the_caller_witness:
  "\<exists>w. request_answer Backfill True (rq_promise (wo_requests (after_message 3 1 demo_wire
      (request_result_json ''host_session.backfill_result'' ''b'' (Inr (backfill_entries demo_backfill))) w) ! 0))
    = Some (200, jobj [(''events'', JArr (map backfill_event_json (hb_events demo_backfill))),
                       (''truncated'', JBool (hb_truncated demo_backfill))])"
proof -
  let ?o = "begin_request Backfill ''b'' 0 (after_events (take 3 demo_events))"
  have "wsteps (after_events (take 3 demo_events)) ?o" by (blast intro: wstep.requests)
  then have reach: "wsteps empty_object (ww_obj (demo_wworld ?o))"
    using after_events_steps by (auto simp: demo_wworld_def intro: rtranclp_trans)
  have "wo_pending ?o (Backfill, ''b'') = Some 0
      \<and> (case attachment_of ?o 1 of None \<Rightarrow> False
         | Some a \<Rightarrow> at_socketType a = Some ''agent'' \<and> at_connectorId a = Some ''c'')"
    by code_simp
  then have o: "agent_socket (ww_obj (demo_wworld ?o)) 1" "wo_pending (ww_obj (demo_wworld ?o)) (Backfill, ''b'') = Some 0"
    by (auto simp: agent_socket_def demo_wworld_def split: option.splits)
  have "js_trim ''1970-01-01T00:00:00.000Z'' \<noteq> []" by code_simp
  then have "list_all (\<lambda>e. js_trim (be_created_at e) \<noteq> []) (hb_events demo_backfill)"
    by (simp add: demo_backfill_def)
  with conjunct1 [OF backfills_reach_the_caller [where fuel = 3, OF demo_exact reach o demo_backfill_built]]
  show ?thesis by (metis (full_types))
qed

subsection \<open>Decisions\<close>

lemma acknowledgement:
  assumes "run_state (turn_interaction_response_ack_for_text text command_id) k = (Inr (Some a), k')"
    and "wr_envelope (k_wire k) text = Inr env" and "wr_response (k_wire k) (en_payload env) = Inr d"
    and "ti_request_id d = Some i"
  shows "tk_request_id a = i
    \<and> (\<exists>log. k_log k' = k_log k @ log \<and> (tk_accepted a \<longleftrightarrow> ADeliver d True \<in> set log))
    \<and> (tk_accepted a \<longleftrightarrow> tk_error a = None)"
  using assms
  by (auto simp: turn_interaction_response_ack_for_text_def parse_envelope_def split: if_splits sum.splits option.splits)

lemma ack_payload:
  "js_trim (tk_request_id a) \<noteq> [] \<Longrightarrow> isTurnInteractionResponseAck (response_ack_json a)"
  "no_floats (response_ack_json a)" "jget_str (response_ack_json a) ''request_id'' = Some (tk_request_id a)"
  "interaction_answer (response_ack_json a) =
     (if tk_accepted a then (200, jobj [(''accepted'', JBool True)])
      else (409, delivery_state (JStr (case tk_error a of Some e \<Rightarrow> e
        | None \<Rightarrow> ''Connector did not accept the turn interaction response'')) ''rejected''))"
  by (auto simp: response_ack_json_def guard_simps isTurnInteractionResponseAck_def jget_str_def interaction_answer_def
      jtrue_def error_or_def opt_entry_def map_add_def intro!: no_floats_jobj split: option.splits)

lemma ack_handled:
  "isTurnInteractionResponseAck p \<Longrightarrow>
     handleAgentMessage fuel ws c text (Inr (jobj [(''kind'', JStr ''turn.interaction_response_ack''), (''payload'', p)]))
       = do { on_obj (resolve_request TurnInteraction p); wok () }"
  by (simp add: handleAgentMessage_def parseMessage_def guard_simps Let_def)


definition demo_interaction_id :: string where
  "demo_interaction_id = ''turn-interaction-0123456789abcdef''"

lemma demo_interaction_pending:
  "wo_pending (after_events demo_events) (TurnInteraction, demo_interaction_id) = Some 0 \<and> js_trim demo_interaction_id \<noteq> []"
  by code_simp


end
