(* ===== verification/Worker_Replies.thy ===== *)
theory Worker_Replies
  imports Worker_Claims
begin

text \<open>
  The first frame the workspace object sends back to a connector is the reply the function
  \<open>agent_message_reply\<close> gives, for some answers of the data base.
\<close>

definition reply_actions :: "nat \<Rightarrow> worker_reply \<Rightarrow> worker_action list" where
  "reply_actions ws r =
     (case reply_envelope r of None \<Rightarrow> [] | Some e \<Rightarrow> [WSend ws (plain_frame (en_kind e) (en_payload e))])"

definition alone :: "wworld \<Rightarrow> bool" where
  "alone w \<longleftrightarrow> ww_other w = (\<lambda>_ o'. o')"

definition only_asked :: "wworld \<Rightarrow> wworld \<Rightarrow> bool" where
  "only_asked w w' \<longleftrightarrow> alone w' \<and> (\<exists>cs. wo_log (ww_obj w') = wo_log (ww_obj w) @ map WDb cs)"

definition replied :: "nat \<Rightarrow> worker_reply \<Rightarrow> wworld \<Rightarrow> wworld \<Rightarrow> bool" where
  "replied ws r w w' \<longleftrightarrow>
     (\<exists>cs post. wo_log (ww_obj w') = wo_log (ww_obj w) @ map WDb cs @ reply_actions ws r @ post)"

lemma wstep_log: "wstep o' o2 \<Longrightarrow> \<exists>l. wo_log o2 = wo_log o' @ l"
  by (induction rule: wstep.induct) auto

lemma wsteps_log: "wsteps o' o2 \<Longrightarrow> \<exists>l. wo_log o2 = wo_log o' @ l"
proof (induction rule: rtranclp_induct)
  case (step o2 o3)
  with wstep_log [of o2 o3] show ?case by auto
qed simp

lemma keeps_log:
  assumes "wr.keeps m" "run_state m w = (x, w')" "alone w"
  shows "alone w' \<and> (\<exists>l. wo_log (ww_obj w') = wo_log (ww_obj w) @ l)"
proof -
  have "others_step w" using assms(3) by (simp add: others_step_def alone_def)
  with wr.keepsE [OF assms(1,2)] assms(3) show ?thesis
    using wsteps_log by (auto simp: wrel_def alone_def)
qed

lemma asked_refl: "alone w \<Longrightarrow> only_asked w w"
  by (simp add: only_asked_def)

lemma asked_trans: "only_asked w w1 \<Longrightarrow> only_asked w1 w2 \<Longrightarrow> only_asked w w2"
  unfolding only_asked_def by (metis append.assoc map_append)

lemma asked_replied: "only_asked w w1 \<Longrightarrow> replied ws r w1 w2 \<Longrightarrow> replied ws r w w2"
  unfolding only_asked_def replied_def by (metis append.assoc map_append)

lemma reply_sends:
  "run_state (reply ws r) w = (Inr u, w') \<Longrightarrow> alone w \<Longrightarrow>
     alone w' \<and> wo_log (ww_obj w') = wo_log (ww_obj w) @ reply_actions ws r"
  by (auto simp: reply_def reply_actions_def alone_def send_ws_def split: option.splits)

text \<open>A program that only asks the data base, one that is not seen in the log at all, and one that replies.\<close>

definition asks :: "'a worker \<Rightarrow> bool" where
  "asks m \<longleftrightarrow> (\<forall>w. alone w \<longrightarrow> only_asked w (snd (run_state m w)))"

definition undisturbed :: "(wworld, 'a) state \<Rightarrow> bool" where
  "undisturbed m \<longleftrightarrow> (\<forall>w. alone w \<longrightarrow> alone (snd (run_state m w))
     \<and> wo_log (ww_obj (snd (run_state m w))) = wo_log (ww_obj w))"

definition replies :: "nat \<Rightarrow> worker_reply set \<Rightarrow> 'a worker \<Rightarrow> bool" where
  "replies ws R m \<longleftrightarrow> (\<forall>w x w'. alone w \<longrightarrow> run_state m w = (Inr x, w') \<longrightarrow> (\<exists>r \<in> R. replied ws r w w'))"

lemma asks_call: "asks (call_db c f)"
  by (auto simp: asks_def call_db_def others_def only_asked_def alone_def note_action_def
      intro!: exI [of _ "[c]"] split: sum.splits)

lemma asks_safety: "asks (assertDogfoodSafetyActionAllowed a)"
  by (auto simp: asks_def assertDogfoodSafetyActionAllowed_def others_def only_asked_def alone_def note_action_def
      intro!: exI [of _ "[SafetyCheck a]"] split: safety.splits)

lemma asks_wok: "asks (wok x)"
  by (simp add: asks_def asked_refl)

lemma asks_tryE: "asks m \<Longrightarrow> (\<And>x. asks (f x)) \<Longrightarrow> asks (tryE m f)"
  unfolding asks_def by (auto split: prod.splits sum.splits) (metis asked_trans only_asked_def snd_conv)+

lemma asks_quiet: "undisturbed m \<Longrightarrow> (\<And>x. asks (f x)) \<Longrightarrow> asks (do { x \<leftarrow> m; f x })"
  unfolding asks_def undisturbed_def only_asked_def by (auto split: prod.splits) (metis snd_conv)+

lemma asks_cases:
  "(b \<Longrightarrow> asks m) \<Longrightarrow> (\<not> b \<Longrightarrow> asks m') \<Longrightarrow> asks (if b then m else m')"
  "asks m \<Longrightarrow> (\<And>x. asks (f x)) \<Longrightarrow> asks (case opt of None \<Rightarrow> m | Some x \<Rightarrow> f x)"
  by (auto split: option.splits)

lemma quiet_steps: "undisturbed (obj g)" "undisturbed date_now" "undisturbed (gets h)" "undisturbed (markAgentReady ws c)"
  "undisturbed (shouldSkipDuplicateAppServerReport c f)" "undisturbed (rememberAppServerReport c f)"
  "(\<And>o'. wo_log (f' o') = wo_log o') \<Longrightarrow> undisturbed (on_obj f')"
  by (auto simp: undisturbed_def markAgentReady_def Let_def shouldSkipDuplicateAppServerReport_def rememberAppServerReport_def
      alone_def)

lemma replies_reply: "r \<in> R \<Longrightarrow> replies ws R (reply ws r)"
  unfolding replies_def replied_def using reply_sends by (metis append_Nil append_Nil2 list.map(1))

lemma replies_then: "r \<in> R \<Longrightarrow> (\<And>x. wr.keeps (f x)) \<Longrightarrow> replies ws R (tryE (reply ws r) f)"
  unfolding replies_def
proof (intro allI impI)
  fix w x w'
  assume r: "r \<in> R" and keeps: "\<And>x. wr.keeps (f x)" and w: "alone w" and run: "run_state (tryE (reply ws r) f) w = (Inr x, w')"
  obtain y w1 where y: "run_state (reply ws r) w = (Inr y, w1)" "run_state (f y) w1 = (Inr x, w')"
    using run by (auto split: prod.splits sum.splits)
  from reply_sends [OF y(1) w] keeps_log [OF keeps y(2)] have "replied ws r w w'"
    unfolding replied_def by (metis append.assoc append_Nil list.map(1))
  with r show "\<exists>r \<in> R. replied ws r w w'" by blast
qed

lemma replies_asks: "asks m \<Longrightarrow> (\<And>x. replies ws R (f x)) \<Longrightarrow> replies ws R (tryE m f)"
  unfolding replies_def asks_def
  by (auto split: prod.splits sum.splits) (metis asked_replied only_asked_def snd_conv)

lemma replies_quiet: "undisturbed m \<Longrightarrow> (\<And>x. replies ws R (f x)) \<Longrightarrow> replies ws R (do { x \<leftarrow> m; f x })"
  unfolding replies_def undisturbed_def replied_def by (auto split: prod.splits) (metis snd_conv)

lemma replies_cases:
  "(b \<Longrightarrow> replies ws R m) \<Longrightarrow> (\<not> b \<Longrightarrow> replies ws R m') \<Longrightarrow> replies ws R (if b then m else m')"
  "(opt = None \<Longrightarrow> replies ws R m) \<Longrightarrow> (\<And>x. opt = Some x \<Longrightarrow> replies ws R (f x)) \<Longrightarrow>
     replies ws R (case opt of None \<Rightarrow> m | Some x \<Rightarrow> f x)"
  "(\<And>a b. replies ws R (g a b)) \<Longrightarrow> replies ws R (case p of (a, b) \<Rightarrow> g a b)"
  by (auto split: option.splits prod.splits)

lemmas only_asks_rules = asks_call asks_safety asks_wok asks_tryE asks_quiet asks_cases quiet_steps
lemmas replies_rules = replies_reply replies_then replies_quiet replies_cases

subsection \<open>The handlers reply\<close>

lemma ready_replies: "replies ws {agent_ready_reply payload} (handle_agent_ready fuel ws c payload)"
  unfolding handle_agent_ready_def Let_def
proof (rule replies_cases(1))
  let ?ready = "case payload of Some p \<Rightarrow> (if isAgentReadyPayload p then Some p else None) | None \<Rightarrow> None"
  assume "payload \<noteq> None \<and> payload \<noteq> Some JNull \<and> ?ready = None"
  then have "agent_ready_reply payload = ReplyError ''Invalid agent.ready payload''"
    by (auto simp: agent_ready_reply_def split: option.splits json.splits if_splits)
  then show "replies ws {agent_ready_reply payload} (reply ws (ReplyError ''Invalid agent.ready payload''))"
    by (intro replies_reply) simp
qed (intro replies_quiet replies_asks replies_then only_asks_rules wkeeps after_ready_keeps; simp)

lemma decision_asks: "asks hostSessionRefreshDecision"
  unfolding hostSessionRefreshDecision_def by (intro only_asks_rules)

lemma sessions_replies: "replies ws (range host_sessions_reply) (handle_host_sessions fuel ws c p)"
  unfolding handle_host_sessions_def
  by (intro replies_asks decision_asks replies_cases replies_then only_asks_rules wkeeps consumePending_keeps
      pending_released_keeps browsers_keeps plain_messages to_agents_keeps) auto

lemma instances_replies:
  "isAgentAppServerInstancesReport p \<Longrightarrow>
     replies ws (range (\<lambda>a. app_server_instances_reply a p)) (handle_app_server_instances ws c (Some p))"
  unfolding handle_app_server_instances_def Let_def
  by (simp, intro replies_asks asks_safety replies_cases replies_reply replies_quiet replies_then only_asks_rules wkeeps
      browsers_keeps plain_messages) auto

lemma event_replies: "replies ws (range (\<lambda>a. agent_event_reply a p)) (handle_agent_event fuel ws c p)"
  unfolding handle_agent_event_def Let_def
  by (intro replies_asks only_asks_rules replies_cases replies_reply replies_then wkeeps browsers_keeps plain_messages
      clearSocketCommand_keeps pending_released_keeps to_agents_keeps) auto

lemma result_replies: "replies ws {result_reply k p} (handle_result ws kind k p)"
  unfolding handle_result_def by (intro replies_quiet quiet_steps replies_reply) simp_all

lemma none_replies: "replies ws {NoReply} (do { on_obj (resolve_request kind p); wok () })"
proof -
  have "reply ws NoReply = wok ()" by (simp add: reply_def reply_envelope_def)
  then have "replies ws {NoReply} (wok ())" using replies_reply [of NoReply "{NoReply}" ws] by simp
  then show ?thesis by (intro replies_quiet quiet_steps) simp_all
qed

lemma replies_mono: "replies ws R m \<Longrightarrow> R \<subseteq> S \<Longrightarrow> replies ws S m"
  unfolding replies_def by blast

lemma replies_if:
  "(b \<Longrightarrow> replies ws (range f) m) \<Longrightarrow> (\<not> b \<Longrightarrow> replies ws (range g) m') \<Longrightarrow>
     replies ws (range (\<lambda>a. if b then f a else g a)) (if b then m else m')"
  by simp

lemma replies_const: "replies ws {r} m \<Longrightarrow> replies ws (range (\<lambda>a. r)) m"
  by (erule replies_mono) simp

lemma replies_const_reply: "replies ws (range (\<lambda>a. r)) (reply ws r)"
  by (intro replies_const replies_reply) simp

lemma no_instances:
  "\<not> has v ''payload'' isAgentAppServerInstancesReport \<Longrightarrow>
     handle_app_server_instances ws c (jget v ''payload'') = reply ws (ReplyError ''Invalid agent.app_server_instances payload'')"
  by (auto simp: handle_app_server_instances_def has_def split: option.splits)

lemma some_instances:
  assumes "has v ''payload'' isAgentAppServerInstancesReport"
  shows "replies ws (range (\<lambda>a. app_server_instances_reply a (case jget v ''payload'' of Some p \<Rightarrow> p | None \<Rightarrow> JNull)))
    (handle_app_server_instances ws c (jget v ''payload''))"
  using assms instances_replies by (auto simp: has_def split: option.splits)

lemma agent_message_replies:
  "replies ws (range (\<lambda>a. agent_message_reply a text parsed)) (handleAgentMessage fuel ws c text parsed)"
proof (cases "parseMessage parsed")
  case (Some message)
  have instances: "replies ws
      (range (\<lambda>a. if \<not> has message ''payload'' isAgentAppServerInstancesReport
        then ReplyError ''Invalid agent.app_server_instances payload''
        else app_server_instances_reply a (case jget message ''payload'' of Some p \<Rightarrow> p | None \<Rightarrow> JNull)))
      (handle_app_server_instances ws c (jget message ''payload''))"
    using some_instances [of message ws c] no_instances [of message ws c] replies_const_reply by auto
  show ?thesis
    unfolding handleAgentMessage_def agent_message_reply_def Let_def Some option.case
    by (intro replies_if replies_const_reply instances sessions_replies event_replies
        replies_const [OF ready_replies] replies_const [OF result_replies] replies_const [OF none_replies])
qed (simp add: handleAgentMessage_def agent_message_reply_def replies_reply)

text \<open>
  The worker's replies are those of the model. When no other handler runs in between and nothing
  throws, the first thing the workspace object does after its questions to the data base, on a
  message of a connector, is to send back the reply \<open>agent_message_reply\<close> gives for some answers
  of the data base, and nothing is sent before it: what is shown of every such reply is shown of
  the handler's.
\<close>
theorem handler_replies_as_modelled:
  assumes "ww_other w = (\<lambda>_ o'. o')" and "run_state (handleAgentMessage fuel ws c text parsed) w = (Inr (), w')"
  shows "\<exists>a cs post. wo_log (ww_obj w') =
    wo_log (ww_obj w) @ map WDb cs @ reply_actions ws (agent_message_reply a text parsed) @ post"
  using assms agent_message_replies unfolding replies_def alone_def replied_def by blast

theorem handler_replies_as_modelled_witness:
  "\<exists>a cs post. wo_log (after_events (take 2 demo_events)) = wo_log (after_events (take 1 demo_events))
    @ map WDb cs @ reply_actions 1 (agent_message_reply a [] (Inr demo_ready)) @ post"
proof -
  let ?w = "demo_wworld (after_events (take 1 demo_events))"
  let ?run = "run_state (handleAgentMessage 3 1 ''c'' [] (Inr demo_ready)) ?w"
  have "(case fst ?run of Inr _ \<Rightarrow> True | Inl _ \<Rightarrow> False)
      \<and> wo_log (ww_obj (snd ?run)) = wo_log (after_events (take 2 demo_events))"
    by code_simp
  then obtain w' where w': "?run = (Inr (), w')" "wo_log (ww_obj w') = wo_log (after_events (take 2 demo_events))"
    by (cases ?run) (auto split: sum.splits)
  have "ww_other ?w = (\<lambda>_ o'. o')" "wo_log (ww_obj ?w) = wo_log (after_events (take 1 demo_events))"
    by (simp_all add: demo_wworld_def)
  with handler_replies_as_modelled [OF _ w'(1)] w'(2) show ?thesis by metis
qed

end
